(* ===== verification/VFS_Prelude.thy ===== *)
theory VFS_Prelude
  imports Main "HOL-Library.Word"
begin

text \<open>
  Shared vocabulary of the development: C strings as \<^typ>\<open>string\<close> (the characters
  before the terminating NUL), the C library and GLib character functions the sources
  call (\<^verbatim>\<open>strchr\<close>, \<^verbatim>\<open>strrchr\<close>, \<^verbatim>\<open>g_ascii_tolower\<close> and their kin, with the meaning
  their documentation gives), and the list and character lemmas every component uses.
  A pointer that may be \<^verbatim>\<open>NULL\<close> is an \<^verbatim>\<open>option\<close>; a position in a string is a \<^typ>\<open>nat\<close>.
\<close>

unbundle bit_operations_syntax

named_theorems cstr \<comment> \<open>facts about NUL-free strings\<close>

section \<open>C strings\<close>

type_synonym guint = "32 word"

definition NUL :: char where
  "NUL = CHR 0x00"

abbreviation code :: "char \<Rightarrow> nat" where
  "code c \<equiv> of_char c"

definition is_cstring :: "string \<Rightarrow> bool" where
  "is_cstring s \<longleftrightarrow> NUL \<notin> set s"

text \<open>\<open>c_at s i\<close> is the byte at offset \<open>i\<close>; the byte after the last character is the terminator.\<close>

definition c_at :: "string \<Rightarrow> nat \<Rightarrow> char" where
  "c_at s i = (if i < length s then s ! i else NUL)"

fun strchr :: "string \<Rightarrow> char \<Rightarrow> nat option" where
  "strchr [] c = (if c = NUL then Some 0 else None)"
| "strchr (x # xs) c = (if x = c then Some 0 else map_option Suc (strchr xs c))"

fun strrchr :: "string \<Rightarrow> char \<Rightarrow> nat option" where
  "strrchr [] c = (if c = NUL then Some 0 else None)"
| "strrchr (x # xs) c =
     (case strrchr xs c of Some i \<Rightarrow> Some (Suc i) | None \<Rightarrow> if x = c then Some 0 else None)"

fun strprefix :: "string \<Rightarrow> string \<Rightarrow> bool" where
  "strprefix [] s = True"
| "strprefix (x # xs) [] = False"
| "strprefix (x # xs) (y # ys) = (x = y \<and> strprefix xs ys)"

text \<open>\<^verbatim>\<open>%u\<close>: the decimal digits of a number, most significant first.\<close>

fun decimal :: "nat \<Rightarrow> string" where
  "decimal n = (if n < 10 then [char_of (48 + n)] else decimal (n div 10) @ [char_of (48 + n mod 10)])"

declare decimal.simps [simp del]

section \<open>GLib ASCII classes\<close>

definition g_ascii_isdigit :: "char \<Rightarrow> bool" where
  "g_ascii_isdigit c \<longleftrightarrow> 48 \<le> code c \<and> code c \<le> 57"

definition g_ascii_isupper :: "char \<Rightarrow> bool" where
  "g_ascii_isupper c \<longleftrightarrow> 65 \<le> code c \<and> code c \<le> 90"

definition g_ascii_islower :: "char \<Rightarrow> bool" where
  "g_ascii_islower c \<longleftrightarrow> 97 \<le> code c \<and> code c \<le> 122"

definition g_ascii_isalpha :: "char \<Rightarrow> bool" where
  "g_ascii_isalpha c \<longleftrightarrow> g_ascii_isupper c \<or> g_ascii_islower c"

definition g_ascii_isalnum :: "char \<Rightarrow> bool" where
  "g_ascii_isalnum c \<longleftrightarrow> g_ascii_isalpha c \<or> g_ascii_isdigit c"

definition g_ascii_isspace :: "char \<Rightarrow> bool" where
  "g_ascii_isspace c \<longleftrightarrow> code c \<in> {9, 10, 12, 13, 32}"

text \<open>\<^verbatim>\<open>isspace\<close> of the C library, which has the vertical tab too.\<close>

definition c_isspace :: "char \<Rightarrow> bool" where
  "c_isspace c \<longleftrightarrow> 9 \<le> code c \<and> code c \<le> 13 \<or> code c = 32"

definition g_ascii_tolower :: "char \<Rightarrow> char" where
  "g_ascii_tolower c = (if g_ascii_isupper c then char_of (code c + 32) else c)"

definition g_ascii_strdown :: "string \<Rightarrow> string" where
  "g_ascii_strdown s = map g_ascii_tolower s"

lemmas ascii_defs =
  g_ascii_isdigit_def g_ascii_isupper_def g_ascii_islower_def g_ascii_isalpha_def
  g_ascii_isalnum_def g_ascii_isspace_def g_ascii_tolower_def

section \<open>Lemmas on characters and strings\<close>

lemma code_less [simp]: "code c < 256"
  by simp

lemma code_inject: "code c = code d \<longleftrightarrow> c = d"
  by simp

lemma char_of_code [simp]: "(char_of (code c) :: char) = c"
  by simp

lemma code_char_of [simp]: "n < 256 \<Longrightarrow> code (char_of n) = n"
  by (simp add: of_char_of)

text \<open>The separators the sources compare with, which are never the terminator.\<close>

abbreviation slash :: char where "slash \<equiv> CHR ''/''"
abbreviation dot :: char where "dot \<equiv> CHR ''.''"
abbreviation colon :: char where "colon \<equiv> CHR '':''"
abbreviation hash :: char where "hash \<equiv> CHR ''#''"

lemma char_not_NUL [simp]:
  "slash \<noteq> NUL" "dot \<noteq> NUL" "colon \<noteq> NUL" "hash \<noteq> NUL" "CHR ''@'' \<noteq> NUL" "CHR '']'' \<noteq> NUL"
  "CHR ''['' \<noteq> NUL" "CHR ''?'' \<noteq> NUL" "CHR ''%'' \<noteq> NUL"
  by (simp_all add: NUL_def)

lemmas NUL_not_char [simp] = char_not_NUL [THEN not_sym]

lemma code_NUL [simp]: "code NUL = 0"
  by (simp add: NUL_def)

lemma code_eq_0 [simp]: "code c = 0 \<longleftrightarrow> c = NUL"
  using code_inject [of c NUL] by simp

lemma g_ascii_tolower_idem [simp]: "g_ascii_tolower (g_ascii_tolower c) = g_ascii_tolower c"
  by (auto simp: g_ascii_tolower_def g_ascii_isupper_def)

lemma g_ascii_strdown_idem [simp]: "g_ascii_strdown (g_ascii_strdown s) = g_ascii_strdown s"
  by (simp add: g_ascii_strdown_def)

lemma length_g_ascii_strdown [simp]: "length (g_ascii_strdown s) = length s"
  by (simp add: g_ascii_strdown_def)

lemma is_cstring_Nil [simp, cstr]: "is_cstring []"
  by (simp add: is_cstring_def)

lemma is_cstring_Cons [simp, cstr]: "is_cstring (c # s) \<longleftrightarrow> c \<noteq> NUL \<and> is_cstring s"
  by (auto simp: is_cstring_def)

lemma is_cstring_append [simp, cstr]: "is_cstring (s @ t) \<longleftrightarrow> is_cstring s \<and> is_cstring t"
  by (auto simp: is_cstring_def)

lemma is_cstring_take [intro, cstr]: "is_cstring s \<Longrightarrow> is_cstring (take n s)"
  by (auto simp: is_cstring_def dest: in_set_takeD)

lemma is_cstring_drop [intro, cstr]: "is_cstring s \<Longrightarrow> is_cstring (drop n s)"
  by (auto simp: is_cstring_def dest: in_set_dropD)

lemma c_at_0 [simp]: "c_at (c # s) 0 = c"
  by (simp add: c_at_def)

lemma c_at_Suc [simp]: "c_at (c # s) (Suc i) = c_at s i"
  by (simp add: c_at_def)

lemma c_at_numeral [simp]: "c_at (c # s) (numeral k) = c_at s (pred_numeral k)"
  by (simp add: numeral_eq_Suc)

lemma c_at_1 [simp]: "c_at (c # s) 1 = c_at s 0"
  using c_at_Suc [of c s 0] by simp

lemma c_at_Nil [simp]: "c_at [] i = NUL"
  by (simp add: c_at_def)

lemma c_at_NUL_iff: "is_cstring s \<Longrightarrow> c_at s i = NUL \<longleftrightarrow> length s \<le> i"
  by (auto simp: c_at_def is_cstring_def dest: nth_mem)

lemma c_at_drop [simp]: "c_at (drop n s) i = c_at s (n + i)"
  by (auto simp: c_at_def)

lemma strchr_None_iff: "c \<noteq> NUL \<Longrightarrow> strchr s c = None \<longleftrightarrow> c \<notin> set s"
  by (induction s) auto

lemma strchr_SomeD:
  "strchr s c = Some i \<Longrightarrow> c \<noteq> NUL \<Longrightarrow> i < length s \<and> s ! i = c \<and> c \<notin> set (take i s)"
proof (induction s arbitrary: i)
  case (Cons x xs)
  then show ?case by (cases i) (auto split: if_splits)
qed auto

lemma strchr_append_not_in:
  "c \<notin> set s \<Longrightarrow> strchr (s @ t) c = map_option ((+) (length s)) (strchr t c)"
proof (induction s)
  case Nil
  then show ?case by (cases "strchr t c") auto
next
  case (Cons x xs)
  then show ?case by (cases "strchr t c") auto
qed

lemma strchr_append_Cons [simp]: "c \<notin> set s \<Longrightarrow> strchr (s @ c # t) c = Some (length s)"
  by (simp add: strchr_append_not_in)

lemma strrchr_None_iff: "c \<noteq> NUL \<Longrightarrow> strrchr s c = None \<longleftrightarrow> c \<notin> set s"
  by (induction s) (auto split: option.splits)

lemma strrchr_SomeD:
  "strrchr s c = Some i \<Longrightarrow> c \<noteq> NUL \<Longrightarrow>
     i < length s \<and> s ! i = c \<and> c \<notin> set (drop (Suc i) s)"
proof (induction s arbitrary: i)
  case (Cons x xs)
  then show ?case
    using strrchr_None_iff [of c xs] by (auto split: option.splits if_splits)
qed auto

lemma strrchr_append_Cons:
  "c \<noteq> NUL \<Longrightarrow> c \<notin> set t \<Longrightarrow> strrchr (s @ c # t) c = Some (length s)"
proof (induction s)
  case Nil
  then show ?case using strrchr_None_iff [of c t] by simp
qed auto

lemma strchr_notin [simp]: "c \<notin> set s \<Longrightarrow> c \<noteq> NUL \<Longrightarrow> strchr s c = None"
  by (simp add: strchr_None_iff)

lemma strrchr_notin [simp]: "c \<notin> set s \<Longrightarrow> c \<noteq> NUL \<Longrightarrow> strrchr s c = None"
  by (simp add: strrchr_None_iff)

lemma strrchr_append_last:
  "c \<noteq> NUL \<Longrightarrow> strrchr (A @ c # B) c =
     (case strrchr B c of None \<Rightarrow> Some (length A) | Some k \<Rightarrow> Some (length A + 1 + k))"
  by (induction A) (auto split: option.splits)

lemma c_at_append_length [simp]: "c_at (P @ Q) (length P + k) = c_at Q k"
  by (auto simp: c_at_def nth_append)

lemma c_at_append_length0 [simp]: "c_at (P @ Q) (length P) = c_at Q 0"
  using c_at_append_length [of P Q 0] by simp

lemma c_at_nonNUL: "c_at p i \<noteq> NUL \<Longrightarrow> i < length p"
  by (auto simp: c_at_def split: if_splits)

lemma strprefix_iff: "strprefix p s \<longleftrightarrow> (\<exists>r. s = p @ r)"
  by (induction p s rule: strprefix.induct) auto

lemma strprefix_append [simp]: "strprefix p (p @ s)"
  by (auto simp: strprefix_iff)

lemma length_Suc_take_less: "xs \<noteq> [] \<Longrightarrow> length (drop (Suc n) xs) < length xs"
  by simp

end
