(* ===== verification/VFS_Result.thy ===== *)
theory VFS_Result
  imports VFS_Prelude
begin

text \<open>
  \<^verbatim>\<open>libgnomevfs/gnome-vfs-result.c\<close> and its header: the result codes every operation
  returns, their messages, and the translation of the system's \<^verbatim>\<open>errno\<close> and \<^verbatim>\<open>h_errno\<close>.
  The system error numbers are the constructors of \<open>errno_code\<close>; a number the switch
  does not name is \<open>E_OTHER\<close>.
\<close>

datatype GnomeVFSResult =
    GNOME_VFS_OK
  | GNOME_VFS_ERROR_NOT_FOUND
  | GNOME_VFS_ERROR_GENERIC
  | GNOME_VFS_ERROR_INTERNAL
  | GNOME_VFS_ERROR_BAD_PARAMETERS
  | GNOME_VFS_ERROR_NOT_SUPPORTED
  | GNOME_VFS_ERROR_IO
  | GNOME_VFS_ERROR_CORRUPTED_DATA
  | GNOME_VFS_ERROR_WRONG_FORMAT
  | GNOME_VFS_ERROR_BAD_FILE
  | GNOME_VFS_ERROR_TOO_BIG
  | GNOME_VFS_ERROR_NO_SPACE
  | GNOME_VFS_ERROR_READ_ONLY
  | GNOME_VFS_ERROR_INVALID_URI
  | GNOME_VFS_ERROR_NOT_OPEN
  | GNOME_VFS_ERROR_INVALID_OPEN_MODE
  | GNOME_VFS_ERROR_ACCESS_DENIED
  | GNOME_VFS_ERROR_TOO_MANY_OPEN_FILES
  | GNOME_VFS_ERROR_EOF
  | GNOME_VFS_ERROR_NOT_A_DIRECTORY
  | GNOME_VFS_ERROR_IN_PROGRESS
  | GNOME_VFS_ERROR_INTERRUPTED
  | GNOME_VFS_ERROR_FILE_EXISTS
  | GNOME_VFS_ERROR_LOOP
  | GNOME_VFS_ERROR_NOT_PERMITTED
  | GNOME_VFS_ERROR_IS_DIRECTORY
  | GNOME_VFS_ERROR_NO_MEMORY
  | GNOME_VFS_ERROR_HOST_NOT_FOUND
  | GNOME_VFS_ERROR_INVALID_HOST_NAME
  | GNOME_VFS_ERROR_HOST_HAS_NO_ADDRESS
  | GNOME_VFS_ERROR_LOGIN_FAILED
  | GNOME_VFS_ERROR_CANCELLED
  | GNOME_VFS_ERROR_DIRECTORY_BUSY
  | GNOME_VFS_ERROR_DIRECTORY_NOT_EMPTY
  | GNOME_VFS_ERROR_TOO_MANY_LINKS
  | GNOME_VFS_ERROR_READ_ONLY_FILE_SYSTEM
  | GNOME_VFS_ERROR_NOT_SAME_FILE_SYSTEM
  | GNOME_VFS_ERROR_NAME_TOO_LONG
  | GNOME_VFS_ERROR_SERVICE_NOT_AVAILABLE
  | GNOME_VFS_ERROR_SERVICE_OBSOLETE
  | GNOME_VFS_ERROR_PROTOCOL_ERROR
  | GNOME_VFS_ERROR_NO_MASTER_BROWSER
  | GNOME_VFS_ERROR_NO_DEFAULT
  | GNOME_VFS_ERROR_NO_HANDLER
  | GNOME_VFS_ERROR_PARSE
  | GNOME_VFS_ERROR_LAUNCH
  | GNOME_VFS_ERROR_TIMEOUT
  | GNOME_VFS_ERROR_NAMESERVER
  | GNOME_VFS_ERROR_LOCKED
  | GNOME_VFS_ERROR_DEPRECATED_FUNCTION
  | GNOME_VFS_ERROR_INVALID_FILENAME
  | GNOME_VFS_ERROR_NOT_A_SYMBOLIC_LINK

text \<open>The position of a code in the C enumeration.\<close>

definition all_results :: "GnomeVFSResult list" where
  "all_results =
    [GNOME_VFS_OK,
     GNOME_VFS_ERROR_NOT_FOUND,
     GNOME_VFS_ERROR_GENERIC,
     GNOME_VFS_ERROR_INTERNAL,
     GNOME_VFS_ERROR_BAD_PARAMETERS,
     GNOME_VFS_ERROR_NOT_SUPPORTED,
     GNOME_VFS_ERROR_IO,
     GNOME_VFS_ERROR_CORRUPTED_DATA,
     GNOME_VFS_ERROR_WRONG_FORMAT,
     GNOME_VFS_ERROR_BAD_FILE,
     GNOME_VFS_ERROR_TOO_BIG,
     GNOME_VFS_ERROR_NO_SPACE,
     GNOME_VFS_ERROR_READ_ONLY,
     GNOME_VFS_ERROR_INVALID_URI,
     GNOME_VFS_ERROR_NOT_OPEN,
     GNOME_VFS_ERROR_INVALID_OPEN_MODE,
     GNOME_VFS_ERROR_ACCESS_DENIED,
     GNOME_VFS_ERROR_TOO_MANY_OPEN_FILES,
     GNOME_VFS_ERROR_EOF,
     GNOME_VFS_ERROR_NOT_A_DIRECTORY,
     GNOME_VFS_ERROR_IN_PROGRESS,
     GNOME_VFS_ERROR_INTERRUPTED,
     GNOME_VFS_ERROR_FILE_EXISTS,
     GNOME_VFS_ERROR_LOOP,
     GNOME_VFS_ERROR_NOT_PERMITTED,
     GNOME_VFS_ERROR_IS_DIRECTORY,
     GNOME_VFS_ERROR_NO_MEMORY,
     GNOME_VFS_ERROR_HOST_NOT_FOUND,
     GNOME_VFS_ERROR_INVALID_HOST_NAME,
     GNOME_VFS_ERROR_HOST_HAS_NO_ADDRESS,
     GNOME_VFS_ERROR_LOGIN_FAILED,
     GNOME_VFS_ERROR_CANCELLED,
     GNOME_VFS_ERROR_DIRECTORY_BUSY,
     GNOME_VFS_ERROR_DIRECTORY_NOT_EMPTY,
     GNOME_VFS_ERROR_TOO_MANY_LINKS,
     GNOME_VFS_ERROR_READ_ONLY_FILE_SYSTEM,
     GNOME_VFS_ERROR_NOT_SAME_FILE_SYSTEM,
     GNOME_VFS_ERROR_NAME_TOO_LONG,
     GNOME_VFS_ERROR_SERVICE_NOT_AVAILABLE,
     GNOME_VFS_ERROR_SERVICE_OBSOLETE,
     GNOME_VFS_ERROR_PROTOCOL_ERROR,
     GNOME_VFS_ERROR_NO_MASTER_BROWSER,
     GNOME_VFS_ERROR_NO_DEFAULT,
     GNOME_VFS_ERROR_NO_HANDLER,
     GNOME_VFS_ERROR_PARSE,
     GNOME_VFS_ERROR_LAUNCH,
     GNOME_VFS_ERROR_TIMEOUT,
     GNOME_VFS_ERROR_NAMESERVER,
     GNOME_VFS_ERROR_LOCKED,
     GNOME_VFS_ERROR_DEPRECATED_FUNCTION,
     GNOME_VFS_ERROR_INVALID_FILENAME,
     GNOME_VFS_ERROR_NOT_A_SYMBOLIC_LINK]"

definition status_strings :: "string list" where
  "status_strings =
    [''No error'',
     ''File not found'',
     ''Generic error'',
     ''Internal error'',
     ''Invalid parameters'',
     ''Unsupported operation'',
     ''I/O error'',
     ''Data corrupted'',
     ''Format not valid'',
     ''Bad file handle'',
     ''File too big'',
     ''No space left on device'',
     ''Read-only file system'',
     ''Invalid URI'',
     ''File not open'',
     ''Open mode not valid'',
     ''Access denied'',
     ''Too many open files'',
     ''End of file'',
     ''Not a directory'',
     ''Operation in progress'',
     ''Operation interrupted'',
     ''File exists'',
     ''Looping links encountered'',
     ''Operation not permitted'',
     ''Is a directory'',
     ''Not enough memory'',
     ''Host not found'',
     ''Host name not valid'',
     ''Host has no address'',
     ''Login failed'',
     ''Operation cancelled'',
     ''Directory busy'',
     ''Directory not empty'',
     ''Too many links'',
     ''Read only file system'',
     ''Not on the same file system'',
     ''Name too long'',
     ''Service not available'',
     ''Request obsoletes service'' @ [CHR 0x27] @ ''s data'',
     ''Protocol error'',
     ''Could not find master browser'',
     ''No default action associated'',
     ''No handler for URL scheme'',
     ''Error parsing command line'',
     ''Error launching command'',
     ''Timeout reached'',
     ''Nameserver error'',
     ''The resource is locked'',
     ''Function call deprecated'',
     ''Invalid filename'',
     ''Not a symbolic link'']"

fun result_code :: "GnomeVFSResult \<Rightarrow> nat" where
  "result_code GNOME_VFS_OK = 0"
| "result_code GNOME_VFS_ERROR_NOT_FOUND = 1"
| "result_code GNOME_VFS_ERROR_GENERIC = 2"
| "result_code GNOME_VFS_ERROR_INTERNAL = 3"
| "result_code GNOME_VFS_ERROR_BAD_PARAMETERS = 4"
| "result_code GNOME_VFS_ERROR_NOT_SUPPORTED = 5"
| "result_code GNOME_VFS_ERROR_IO = 6"
| "result_code GNOME_VFS_ERROR_CORRUPTED_DATA = 7"
| "result_code GNOME_VFS_ERROR_WRONG_FORMAT = 8"
| "result_code GNOME_VFS_ERROR_BAD_FILE = 9"
| "result_code GNOME_VFS_ERROR_TOO_BIG = 10"
| "result_code GNOME_VFS_ERROR_NO_SPACE = 11"
| "result_code GNOME_VFS_ERROR_READ_ONLY = 12"
| "result_code GNOME_VFS_ERROR_INVALID_URI = 13"
| "result_code GNOME_VFS_ERROR_NOT_OPEN = 14"
| "result_code GNOME_VFS_ERROR_INVALID_OPEN_MODE = 15"
| "result_code GNOME_VFS_ERROR_ACCESS_DENIED = 16"
| "result_code GNOME_VFS_ERROR_TOO_MANY_OPEN_FILES = 17"
| "result_code GNOME_VFS_ERROR_EOF = 18"
| "result_code GNOME_VFS_ERROR_NOT_A_DIRECTORY = 19"
| "result_code GNOME_VFS_ERROR_IN_PROGRESS = 20"
| "result_code GNOME_VFS_ERROR_INTERRUPTED = 21"
| "result_code GNOME_VFS_ERROR_FILE_EXISTS = 22"
| "result_code GNOME_VFS_ERROR_LOOP = 23"
| "result_code GNOME_VFS_ERROR_NOT_PERMITTED = 24"
| "result_code GNOME_VFS_ERROR_IS_DIRECTORY = 25"
| "result_code GNOME_VFS_ERROR_NO_MEMORY = 26"
| "result_code GNOME_VFS_ERROR_HOST_NOT_FOUND = 27"
| "result_code GNOME_VFS_ERROR_INVALID_HOST_NAME = 28"
| "result_code GNOME_VFS_ERROR_HOST_HAS_NO_ADDRESS = 29"
| "result_code GNOME_VFS_ERROR_LOGIN_FAILED = 30"
| "result_code GNOME_VFS_ERROR_CANCELLED = 31"
| "result_code GNOME_VFS_ERROR_DIRECTORY_BUSY = 32"
| "result_code GNOME_VFS_ERROR_DIRECTORY_NOT_EMPTY = 33"
| "result_code GNOME_VFS_ERROR_TOO_MANY_LINKS = 34"
| "result_code GNOME_VFS_ERROR_READ_ONLY_FILE_SYSTEM = 35"
| "result_code GNOME_VFS_ERROR_NOT_SAME_FILE_SYSTEM = 36"
| "result_code GNOME_VFS_ERROR_NAME_TOO_LONG = 37"
| "result_code GNOME_VFS_ERROR_SERVICE_NOT_AVAILABLE = 38"
| "result_code GNOME_VFS_ERROR_SERVICE_OBSOLETE = 39"
| "result_code GNOME_VFS_ERROR_PROTOCOL_ERROR = 40"
| "result_code GNOME_VFS_ERROR_NO_MASTER_BROWSER = 41"
| "result_code GNOME_VFS_ERROR_NO_DEFAULT = 42"
| "result_code GNOME_VFS_ERROR_NO_HANDLER = 43"
| "result_code GNOME_VFS_ERROR_PARSE = 44"
| "result_code GNOME_VFS_ERROR_LAUNCH = 45"
| "result_code GNOME_VFS_ERROR_TIMEOUT = 46"
| "result_code GNOME_VFS_ERROR_NAMESERVER = 47"
| "result_code GNOME_VFS_ERROR_LOCKED = 48"
| "result_code GNOME_VFS_ERROR_DEPRECATED_FUNCTION = 49"
| "result_code GNOME_VFS_ERROR_INVALID_FILENAME = 50"
| "result_code GNOME_VFS_ERROR_NOT_A_SYMBOLIC_LINK = 51"

datatype errno_code =
    E2BIG | EACCES | EBUSY | EBADF | ECONNREFUSED | EEXIST | EFAULT | EFBIG | EINTR | EINVAL | EIO | EISDIR | ELOOP | EMFILE | EMLINK | ENETUNREACH | ENFILE | ENOTEMPTY | ENOENT | ENOMEM | ENOSPC | ENOTDIR | EPERM | EROFS | ETIMEDOUT | EXDEV | ENAMETOOLONG | ENOTSUP | E_OTHER int

fun gnome_vfs_result_from_errno_code :: "errno_code \<Rightarrow> GnomeVFSResult" where
  "gnome_vfs_result_from_errno_code E2BIG = GNOME_VFS_ERROR_TOO_BIG"
| "gnome_vfs_result_from_errno_code EACCES = GNOME_VFS_ERROR_ACCESS_DENIED"
| "gnome_vfs_result_from_errno_code EBUSY = GNOME_VFS_ERROR_DIRECTORY_BUSY"
| "gnome_vfs_result_from_errno_code EBADF = GNOME_VFS_ERROR_BAD_FILE"
| "gnome_vfs_result_from_errno_code ECONNREFUSED = GNOME_VFS_ERROR_SERVICE_NOT_AVAILABLE"
| "gnome_vfs_result_from_errno_code EEXIST = GNOME_VFS_ERROR_FILE_EXISTS"
| "gnome_vfs_result_from_errno_code EFAULT = GNOME_VFS_ERROR_INTERNAL"
| "gnome_vfs_result_from_errno_code EFBIG = GNOME_VFS_ERROR_TOO_BIG"
| "gnome_vfs_result_from_errno_code EINTR = GNOME_VFS_ERROR_INTERRUPTED"
| "gnome_vfs_result_from_errno_code EINVAL = GNOME_VFS_ERROR_BAD_PARAMETERS"
| "gnome_vfs_result_from_errno_code EIO = GNOME_VFS_ERROR_IO"
| "gnome_vfs_result_from_errno_code EISDIR = GNOME_VFS_ERROR_IS_DIRECTORY"
| "gnome_vfs_result_from_errno_code ELOOP = GNOME_VFS_ERROR_LOOP"
| "gnome_vfs_result_from_errno_code EMFILE = GNOME_VFS_ERROR_TOO_MANY_OPEN_FILES"
| "gnome_vfs_result_from_errno_code EMLINK = GNOME_VFS_ERROR_TOO_MANY_LINKS"
| "gnome_vfs_result_from_errno_code ENETUNREACH = GNOME_VFS_ERROR_SERVICE_NOT_AVAILABLE"
| "gnome_vfs_result_from_errno_code ENFILE = GNOME_VFS_ERROR_TOO_MANY_OPEN_FILES"
| "gnome_vfs_result_from_errno_code ENOTEMPTY = GNOME_VFS_ERROR_DIRECTORY_NOT_EMPTY"
| "gnome_vfs_result_from_errno_code ENOENT = GNOME_VFS_ERROR_NOT_FOUND"
| "gnome_vfs_result_from_errno_code ENOMEM = GNOME_VFS_ERROR_NO_MEMORY"
| "gnome_vfs_result_from_errno_code ENOSPC = GNOME_VFS_ERROR_NO_SPACE"
| "gnome_vfs_result_from_errno_code ENOTDIR = GNOME_VFS_ERROR_NOT_A_DIRECTORY"
| "gnome_vfs_result_from_errno_code EPERM = GNOME_VFS_ERROR_NOT_PERMITTED"
| "gnome_vfs_result_from_errno_code EROFS = GNOME_VFS_ERROR_READ_ONLY_FILE_SYSTEM"
| "gnome_vfs_result_from_errno_code ETIMEDOUT = GNOME_VFS_ERROR_TIMEOUT"
| "gnome_vfs_result_from_errno_code EXDEV = GNOME_VFS_ERROR_NOT_SAME_FILE_SYSTEM"
| "gnome_vfs_result_from_errno_code ENAMETOOLONG = GNOME_VFS_ERROR_NAME_TOO_LONG"
| "gnome_vfs_result_from_errno_code ENOTSUP = GNOME_VFS_ERROR_NOT_SUPPORTED"
| "gnome_vfs_result_from_errno_code (E_OTHER n) = GNOME_VFS_ERROR_GENERIC"

datatype h_errno_code = HOST_NOT_FOUND | NO_ADDRESS | TRY_AGAIN | NO_RECOVERY | H_OTHER int

fun gnome_vfs_result_from_h_errno_val :: "h_errno_code \<Rightarrow> GnomeVFSResult" where
  "gnome_vfs_result_from_h_errno_val HOST_NOT_FOUND = GNOME_VFS_ERROR_HOST_NOT_FOUND"
| "gnome_vfs_result_from_h_errno_val NO_ADDRESS = GNOME_VFS_ERROR_HOST_HAS_NO_ADDRESS"
| "gnome_vfs_result_from_h_errno_val TRY_AGAIN = GNOME_VFS_ERROR_NAMESERVER"
| "gnome_vfs_result_from_h_errno_val NO_RECOVERY = GNOME_VFS_ERROR_NAMESERVER"
| "gnome_vfs_result_from_h_errno_val (H_OTHER n) = GNOME_VFS_ERROR_GENERIC"

definition gnome_vfs_result_to_string :: "guint \<Rightarrow> string" where
  "gnome_vfs_result_to_string result =
     (if unat result \<ge> length status_strings then ''Unknown error''
      else status_strings ! unat result)"

section \<open>Lemmas\<close>

lemma length_status_strings [simp]: "length status_strings = 52"
  by (simp add: status_strings_def)

lemma all_results_nth_code: "all_results ! result_code r = r"
  by (cases r) (simp_all add: all_results_def)

lemma result_code_less: "result_code r < 52"
  by (cases r) simp_all

lemma result_code_inject: "result_code r = result_code r' \<longleftrightarrow> r = r'"
  using all_results_nth_code by metis

lemma status_strings_distinct: "distinct status_strings"
  by (simp add: status_strings_def)

lemma unat_result_code [simp]: "unat (of_nat (result_code r) :: guint) = result_code r"
  using result_code_less [of r] by (simp add: unat_of_nat)

text \<open>Every errno the switch names becomes an error, never success.\<close>

lemma result_from_errno_not_ok: "gnome_vfs_result_from_errno_code e \<noteq> GNOME_VFS_OK"
  by (cases e) simp_all

lemma result_from_h_errno_not_ok: "gnome_vfs_result_from_h_errno_val e \<noteq> GNOME_VFS_OK"
  by (cases e) simp_all

end
