(* ===== verification/VFS_Escape.thy ===== *)
theory VFS_Escape
  imports VFS_Prelude VFS_Result
begin

text \<open>
  The percent-escaping routines of \<^verbatim>\<open>libgnomevfs/gnome-vfs-utils.c\<close>: the character
  tables, \<^verbatim>\<open>gnome_vfs_escape_string_internal\<close> with its five public wrappers,
  \<^verbatim>\<open>gnome_vfs_escape_set\<close>, \<^verbatim>\<open>gnome_vfs_escape_high_chars\<close>, \<^verbatim>\<open>gnome_vfs_unescape_string\<close>,
  \<^verbatim>\<open>gnome_vfs_unescape_string_for_display\<close> and \<^verbatim>\<open>gnome_vfs_remove_optional_escapes\<close>.
  Each escaping routine runs twice over its input, once to size the buffer and once to
  fill it; both passes are modelled.
\<close>

section \<open>Character tables\<close>

datatype UnsafeCharacterSet =
    UNSAFE_ALL | UNSAFE_ALLOW_PLUS | UNSAFE_PATH | UNSAFE_DOS_PATH | UNSAFE_HOST | UNSAFE_SLASHES

fun mask_value :: "UnsafeCharacterSet \<Rightarrow> nat" where
  "mask_value UNSAFE_ALL = 0x1"
| "mask_value UNSAFE_ALLOW_PLUS = 0x2"
| "mask_value UNSAFE_PATH = 0x4"
| "mask_value UNSAFE_DOS_PATH = 0x8"
| "mask_value UNSAFE_HOST = 0x10"
| "mask_value UNSAFE_SLASHES = 0x20"

definition acceptable :: "nat list" where
  "acceptable =
    [0x00,0x3F,0x20,0x20,0x20,0x00,0x2C,0x3F,0x3F,0x3F,0x3F,0x22,0x20,0x3F,0x3F,0x1C,
     0x3F,0x3F,0x3F,0x3F,0x3F,0x3F,0x3F,0x3F,0x3F,0x3F,0x38,0x20,0x20,0x2C,0x20,0x20,
     0x30,0x3F,0x3F,0x3F,0x3F,0x3F,0x3F,0x3F,0x3F,0x3F,0x3F,0x3F,0x3F,0x3F,0x3F,0x3F,
     0x3F,0x3F,0x3F,0x3F,0x3F,0x3F,0x3F,0x3F,0x3F,0x3F,0x3F,0x20,0x20,0x20,0x20,0x3F,
     0x20,0x3F,0x3F,0x3F,0x3F,0x3F,0x3F,0x3F,0x3F,0x3F,0x3F,0x3F,0x3F,0x3F,0x3F,0x3F,
     0x3F,0x3F,0x3F,0x3F,0x3F,0x3F,0x3F,0x3F,0x3F,0x3F,0x3F,0x20,0x20,0x20,0x3F,0x20]"

datatype character_kind = RESERVED | UNRESERVED | DELIMITERS | UNWISE | CONTROL | SPACE

definition uri_character_kind :: "character_kind list" where
  "uri_character_kind =
     replicate 32 CONTROL @
     [SPACE, UNRESERVED, DELIMITERS, DELIMITERS, RESERVED, DELIMITERS, RESERVED, UNRESERVED,
      UNRESERVED, UNRESERVED, UNRESERVED, RESERVED, RESERVED, UNRESERVED, UNRESERVED, RESERVED] @
     replicate 10 UNRESERVED @
     [RESERVED, RESERVED, DELIMITERS, RESERVED, DELIMITERS, RESERVED, RESERVED] @
     replicate 26 UNRESERVED @
     [UNWISE, UNWISE, UNWISE, UNWISE, UNRESERVED, UNWISE] @
     replicate 26 UNRESERVED @
     [UNWISE, UNWISE, UNWISE, UNRESERVED, CONTROL]"

definition HEX_ESCAPE :: char where
  "HEX_ESCAPE = CHR ''%''"

definition hex :: string where
  "hex = ''0123456789ABCDEF''"

definition acceptable_char :: "UnsafeCharacterSet \<Rightarrow> char \<Rightarrow> bool" where
  "acceptable_char use_mask a \<longleftrightarrow>
     code a \<ge> 32 \<and> code a < 128 \<and> (acceptable ! (code a - 32)) AND mask_value use_mask \<noteq> 0"

text \<open>The three bytes an escaped character takes.\<close>

definition escape_char :: "char \<Rightarrow> string" where
  "escape_char c = [HEX_ESCAPE, hex ! (drop_bit 4 (code c)), hex ! (code c AND 15)]"

section \<open>Escaping\<close>

text \<open>
  First pass: count the characters that need three bytes. The counter is a \<^verbatim>\<open>gint\<close>, kept
  here at its 32 bits: it wraps where the C counter overflows.
\<close>

fun escape_count_pass :: "UnsafeCharacterSet \<Rightarrow> 32 word \<Rightarrow> string \<Rightarrow> 32 word" where
  "escape_count_pass use_mask unacceptable [] = unacceptable"
| "escape_count_pass use_mask unacceptable (c # p) =
     (let unacceptable' = (if \<not> acceptable_char use_mask c then unacceptable + 1 else unacceptable);
          use_mask' = (if use_mask = UNSAFE_HOST \<and> (unacceptable' \<noteq> 0 \<or> c = CHR ''/'')
                       then UNSAFE_PATH else use_mask)
      in escape_count_pass use_mask' unacceptable' p)"

text \<open>Second pass: write the escaped text.\<close>

fun escape_write_pass :: "UnsafeCharacterSet \<Rightarrow> string \<Rightarrow> string" where
  "escape_write_pass use_mask [] = []"
| "escape_write_pass use_mask (c # p) =
     (let q = (if \<not> acceptable_char use_mask c then escape_char c else [c]);
          use_mask' = (if use_mask = UNSAFE_HOST \<and> (\<not> acceptable_char use_mask c \<or> c = CHR ''/'')
                       then UNSAFE_PATH else use_mask)
      in q @ escape_write_pass use_mask' p)"

text \<open>
  The number of bytes \<^verbatim>\<open>g_malloc\<close> is asked for: \<^verbatim>\<open>p - string\<close> has the 64 bits of a pointer
  difference, \<^verbatim>\<open>unacceptable * 2\<close> is computed in the 32 bits of a \<^verbatim>\<open>gint\<close> and only then
  sign-extended, and the sum becomes the \<^verbatim>\<open>gsize\<close> argument.
\<close>

definition escape_buffer_size :: "UnsafeCharacterSet \<Rightarrow> string \<Rightarrow> 64 word" where
  "escape_buffer_size msk s =
     word_of_int (int (length s) + sint (escape_count_pass msk 0 s * 2) + 1)"

definition gnome_vfs_escape_string_internal ::
    "string option \<Rightarrow> UnsafeCharacterSet \<Rightarrow> string option" where
  "gnome_vfs_escape_string_internal str msk = map_option (escape_write_pass msk) str"

definition gnome_vfs_escape_string :: "string option \<Rightarrow> string option" where
  "gnome_vfs_escape_string str = gnome_vfs_escape_string_internal str UNSAFE_ALL"

definition gnome_vfs_escape_path_string :: "string option \<Rightarrow> string option" where
  "gnome_vfs_escape_path_string path = gnome_vfs_escape_string_internal path UNSAFE_PATH"

definition gnome_vfs_escape_host_and_path_string :: "string option \<Rightarrow> string option" where
  "gnome_vfs_escape_host_and_path_string path = gnome_vfs_escape_string_internal path UNSAFE_HOST"

definition gnome_vfs_escape_slashes :: "string option \<Rightarrow> string option" where
  "gnome_vfs_escape_slashes str = gnome_vfs_escape_string_internal str UNSAFE_SLASHES"

text \<open>
  \<^verbatim>\<open>gnome_vfs_escape_set\<close> escapes the characters of an explicit set; the index
  \<^verbatim>\<open>*scanner >> 4\<close> is taken of a (signed) \<^verbatim>\<open>char\<close>, so a byte above 127 in the set would
  read before \<^verbatim>\<open>hex\<close>: that case is \<open>None\<close>. Every caller passes an ASCII set.
\<close>

fun escape_set_count :: "string \<Rightarrow> string \<Rightarrow> 32 word" where
  "escape_set_count match_set [] = 0"
| "escape_set_count match_set (c # scanner) =
     (if strchr match_set c \<noteq> None then 1 else 0) + escape_set_count match_set scanner"

fun escape_set_write :: "string \<Rightarrow> string \<Rightarrow> string option" where
  "escape_set_write match_set [] = Some []"
| "escape_set_write match_set (c # scanner) =
     (if strchr match_set c \<noteq> None
      then (if code c < 128 then map_option ((@) (escape_char c)) (escape_set_write match_set scanner)
            else None)
      else map_option ((#) c) (escape_set_write match_set scanner))"

definition gnome_vfs_escape_set :: "string option \<Rightarrow> string option \<Rightarrow> string option" where
  "gnome_vfs_escape_set str match_set =
     (case str of None \<Rightarrow> None
      | Some s \<Rightarrow> (case match_set of None \<Rightarrow> Some s
          | Some ms \<Rightarrow> if escape_set_count ms s = 0 then Some s else escape_set_write ms s))"

definition acceptable_high :: "char \<Rightarrow> bool" where
  "acceptable_high a \<longleftrightarrow> code a \<ge> 32 \<and> code a < 128"

fun escape_high_count :: "string \<Rightarrow> 32 word" where
  "escape_high_count [] = 0"
| "escape_high_count (c # scanner) = (if \<not> acceptable_high c then 1 else 0) + escape_high_count scanner"

fun escape_high_write :: "string \<Rightarrow> string" where
  "escape_high_write [] = []"
| "escape_high_write (c # scanner) =
     (if \<not> acceptable_high c then escape_char c else [c]) @ escape_high_write scanner"

definition gnome_vfs_escape_high_chars :: "string option \<Rightarrow> string option" where
  "gnome_vfs_escape_high_chars str =
     (case str of None \<Rightarrow> None
      | Some s \<Rightarrow> if escape_high_count s = 0 then Some s else Some (escape_high_write s))"

section \<open>Unescaping\<close>

definition hex_to_int :: "char \<Rightarrow> int" where
  "hex_to_int c =
     (if 48 \<le> code c \<and> code c \<le> 57 then int (code c) - 48
      else if 65 \<le> code c \<and> code c \<le> 70 then int (code c) - 65 + 10
      else if 97 \<le> code c \<and> code c \<le> 102 then int (code c) - 97 + 10
      else -1)"

definition unescape_character :: "string \<Rightarrow> int" where
  "unescape_character scanner =
     (let first_digit = hex_to_int (c_at scanner 0)
      in if first_digit < 0 then -1
         else let second_digit = hex_to_int (c_at scanner 1)
              in if second_digit < 0 then -1
                 else (push_bit 4 first_digit) OR second_digit)"

fun unescape_loop :: "string option \<Rightarrow> string \<Rightarrow> string option" where
  "unescape_loop illegal_characters [] = Some []"
| "unescape_loop illegal_characters (c # inp) =
     (if c = HEX_ESCAPE then
        (let character = unescape_character inp
         in if character \<le> 0
               \<or> (case illegal_characters of None \<Rightarrow> False
                  | Some ill \<Rightarrow> strchr ill (char_of (nat character)) \<noteq> None)
            then None
            else map_option ((#) (char_of (nat character))) (unescape_loop illegal_characters (drop 2 inp)))
      else map_option ((#) c) (unescape_loop illegal_characters inp))"

definition gnome_vfs_unescape_string :: "string option \<Rightarrow> string option \<Rightarrow> string option" where
  "gnome_vfs_unescape_string escaped_string illegal_characters =
     (case escaped_string of None \<Rightarrow> None | Some s \<Rightarrow> unescape_loop illegal_characters s)"

fun unescape_display_loop :: "string \<Rightarrow> string" where
  "unescape_display_loop [] = []"
| "unescape_display_loop (c # inp) =
     (if c = HEX_ESCAPE then
        (let i = hex_to_int (c_at inp 0)
         in if i < 0 then c # unescape_display_loop inp
            else let j = hex_to_int (c_at inp 1)
                 in if j < 0 then c # c_at inp 0 # unescape_display_loop (drop 1 inp)
                    else let ch = char_of (nat (push_bit 4 i OR j))
                         in if ch = NUL then c # c_at inp 0 # c_at inp 1 # unescape_display_loop (drop 2 inp)
                            else ch # unescape_display_loop (drop 2 inp))
      else c # unescape_display_loop inp)"

definition gnome_vfs_unescape_string_for_display :: "string option \<Rightarrow> string option" where
  "gnome_vfs_unescape_string_for_display escaped = map_option unescape_display_loop escaped"

text \<open>
  \<^verbatim>\<open>gnome_vfs_remove_optional_escapes\<close> rewrites its argument in place. The table
  \<^verbatim>\<open>uri_character_kind\<close> has 128 entries but is indexed with the decoded byte, so
  for an escape \<^verbatim>\<open>%80\<close> to \<^verbatim>\<open>%FF\<close> the code reads past the table; \<open>oob n\<close> says whether
  the byte found there happens to equal \<^verbatim>\<open>UNRESERVED\<close>.
\<close>

definition kind_is_unreserved :: "(nat \<Rightarrow> bool) \<Rightarrow> nat \<Rightarrow> bool" where
  "kind_is_unreserved oob n =
     (if n < 128 then uri_character_kind ! n = UNRESERVED else oob n)"

definition must_be_escaped :: "char \<Rightarrow> bool" where
  "must_be_escaped c \<longleftrightarrow>
     code c > 127 \<or> uri_character_kind ! code c = DELIMITERS
     \<or> uri_character_kind ! code c = UNWISE \<or> uri_character_kind ! code c = CONTROL"

fun remove_optional_escapes_loop :: "(nat \<Rightarrow> bool) \<Rightarrow> string \<Rightarrow> GnomeVFSResult \<times> string" where
  "remove_optional_escapes_loop oob [] = (GNOME_VFS_OK, [])"
| "remove_optional_escapes_loop oob (c # scanner) =
     (if c = HEX_ESCAPE then
        (let character = unescape_character scanner
         in if character < 0 then (GNOME_VFS_ERROR_INVALID_URI, c # scanner)
            else let (result, rest) = remove_optional_escapes_loop oob (drop 2 scanner)
                 in if kind_is_unreserved oob (nat character)
                    then (result, char_of (nat character) # rest)
                    else (result, c # take 2 scanner @ rest))
      else if must_be_escaped c then (GNOME_VFS_ERROR_INVALID_URI, c # scanner)
      else let (result, rest) = remove_optional_escapes_loop oob scanner in (result, c # rest))"

definition gnome_vfs_remove_optional_escapes ::
    "(nat \<Rightarrow> bool) \<Rightarrow> string option \<Rightarrow> GnomeVFSResult \<times> string option" where
  "gnome_vfs_remove_optional_escapes oob uri =
     (case uri of None \<Rightarrow> (GNOME_VFS_OK, None)
      | Some s \<Rightarrow> (let (result, s') = remove_optional_escapes_loop oob s in (result, Some s')))"

section \<open>Hexadecimal digits\<close>

lemma hex_to_int_hex: "n < 16 \<Longrightarrow> hex_to_int (hex ! n) = int n"
proof -
  have "list_all (\<lambda>n. hex_to_int (hex ! n) = int n) [0..<16]" by code_simp
  then show "n < 16 \<Longrightarrow> hex_to_int (hex ! n) = int n" by (simp add: list_all_iff)
qed

lemma push_bit_4_or:
  assumes "0 \<le> a" "0 \<le> b" "b < (16::int)"
  shows "push_bit 4 a OR b = 16 * a + b"
proof -
  have "push_bit 4 a + b = push_bit 4 a OR b"
  proof (rule disjunctive_add)
    fix n
    show "\<not> bit (push_bit 4 a) n \<or> \<not> bit b n"
    proof (cases "n < 4")
      case False
      then have "(16::int) \<le> 2 ^ n" using power_increasing [of 4 n "2::int"] by simp
      then have "b div 2 ^ n = 0" using assms by (intro div_pos_pos_trivial) auto
      then show ?thesis by (simp add: bit_iff_odd)
    qed (simp add: bit_push_bit_iff)
  qed
  then show ?thesis by (simp add: push_bit_eq_mult)
qed

lemma escape_char_eq:
  "escape_char c = [HEX_ESCAPE, hex ! (code c div 16), hex ! (code c mod 16)]"
proof -
  have "n AND 15 = n mod 16" for n :: nat
    using take_bit_eq_mask [of 4 n] by (simp add: take_bit_eq_mod mask_eq_exp_minus_1)
  then show ?thesis by (simp add: escape_char_def drop_bit_eq_div)
qed

lemma hex_to_int_range: "hex_to_int c < 16" "hex_to_int c \<ge> -1"
  by (auto simp: hex_to_int_def)

lemma unescape_character_range: "unescape_character s \<ge> -1" "unescape_character s < 256"
  using hex_to_int_range(1) [of "c_at s 0"] hex_to_int_range(1) [of "c_at s 1"]
  by (auto simp: unescape_character_def Let_def push_bit_4_or)

lemma unescape_escape_char [simp]:
  "unescape_character (drop 1 (escape_char c) @ s) = int (code c)"
proof -
  have "code c div 16 < 16" "code c mod 16 < 16"
    using code_less [of c] by linarith+
  then have "hex_to_int (hex ! (code c div 16)) = int (code c div 16)"
    "hex_to_int (hex ! (code c mod 16)) = int (code c mod 16)"
    by (simp_all only: hex_to_int_hex)
  moreover have "16 * int (code c div 16) + int (code c mod 16) = int (code c)"
    by presburger
  ultimately show ?thesis
    by (simp add: escape_char_eq unescape_character_def Let_def push_bit_4_or)
qed

lemma hex_nth_code: "n < 16 \<Longrightarrow> hex ! n \<in> set hex"
  using nth_mem [of n hex] by (simp add: hex_def)

lemma acceptable_not_escape: "acceptable_char m c \<Longrightarrow> c \<noteq> HEX_ESCAPE"
  by (auto simp: acceptable_char_def HEX_ESCAPE_def acceptable_def)

lemma hex_acceptable: "c \<in> set hex \<Longrightarrow> acceptable_char m c"
  by (cases m) (auto simp: hex_def acceptable_char_def acceptable_def)

lemma length_escape_char [simp]: "length (escape_char c) = 3"
  by (simp add: escape_char_def)

lemma set_escape_char: "d \<in> set (escape_char c) \<Longrightarrow> d = HEX_ESCAPE \<or> d \<in> set hex"
proof -
  have "code c div 16 < 16" "code c mod 16 < 16"
    using code_less [of c] by linarith+
  then show "d \<in> set (escape_char c) \<Longrightarrow> d = HEX_ESCAPE \<or> d \<in> set hex"
    by (auto simp: escape_char_eq hex_nth_code)
qed

section \<open>Buffer sizes\<close>

text \<open>
  The reference count: how many characters the second pass writes as an escape.
\<close>

fun escaped_count :: "UnsafeCharacterSet \<Rightarrow> string \<Rightarrow> nat" where
  "escaped_count m [] = 0"
| "escaped_count m (c # s) =
     (if acceptable_char m c then 0 else 1) +
     escaped_count (if m = UNSAFE_HOST \<and> (\<not> acceptable_char m c \<or> c = CHR ''/'')
                    then UNSAFE_PATH else m) s"

lemma length_escape_write_pass:
  "length (escape_write_pass m s) = length s + 2 * escaped_count m s"
  by (induction s arbitrary: m) (auto simp: Let_def)

lemma escaped_count_le: "escaped_count m s \<le> length s"
  by (induction s arbitrary: m) (auto intro: le_SucI)

lemma escaped_count_filter:
  "m \<noteq> UNSAFE_HOST \<Longrightarrow> escaped_count m s = length (filter (\<lambda>c. \<not> acceptable_char m c) s)"
  by (induction s) auto

text \<open>
  The first pass counts the same characters, modulo 32 bits: it looks at the counter only
  while it is still zero, so the wrap never disturbs its choice of the character set.
\<close>

lemma escape_count_pass_escaped:
  "(m = UNSAFE_HOST \<longrightarrow> u = 0) \<Longrightarrow>
   escape_count_pass m u s = u + word_of_nat (escaped_count m s)"
proof (induction s arbitrary: m u)
  case (Cons c s)
  show ?case
  proof (cases "m = UNSAFE_HOST")
    case True
    with Cons.prems show ?thesis by (simp add: Let_def Cons.IH)
  next
    case False
    then show ?thesis by (simp add: Let_def Cons.IH)
  qed
qed simp

text \<open>
  A doubled count below \<^verbatim>\<open>2 ^ 31\<close> survives the sign extension; a larger one comes out
  smaller by a multiple of \<^verbatim>\<open>2 ^ 32\<close>.
\<close>

lemma signed_doubled_count:
  obtains k where "sint (word_of_nat n * 2 :: 32 word) = 2 * int n - 2 ^ 32 * k"
    and "0 \<le> k" and "k = 0 \<longleftrightarrow> 2 * n < 2 ^ 31" and "2 ^ 32 * k \<le> 2 * int n + 2 ^ 31"
proof -
  define x where "x = 2 * int n"
  define k where "k = (x + 2 ^ 31) div 2 ^ 32"
  have "(word_of_nat n * 2 :: 32 word) = word_of_int x"
    by (simp add: x_def mult.commute)
  then have "sint (word_of_nat n * 2 :: 32 word) = (x + 2 ^ 31) mod 2 ^ 32 - 2 ^ 31"
    by (simp add: int_word_sint)
  also have "\<dots> = x - 2 ^ 32 * k"
    using mult_div_mod_eq [of "2 ^ 32" "x + 2 ^ 31"] unfolding k_def by linarith
  finally have "sint (word_of_nat n * 2 :: 32 word) = 2 * int n - 2 ^ 32 * k"
    by (simp only: x_def)
  moreover have "0 \<le> k" by (simp add: k_def x_def)
  moreover have "k = 0 \<longleftrightarrow> 2 * n < 2 ^ 31"
    unfolding k_def x_def by (subst zdiv_eq_0_iff) auto
  moreover have "2 ^ 32 * k \<le> 2 * int n + 2 ^ 31"
  proof -
    have "0 \<le> (x + 2 ^ 31) mod 2 ^ 32" by simp
    then show ?thesis
      unfolding k_def x_def [symmetric] using mult_div_mod_eq [of "2 ^ 32" "x + 2 ^ 31"] by linarith
  qed
  ultimately show ?thesis by (rule that)
qed

lemma wrapped_difference_iff:
  assumes "0 \<le> y" "y < m" "0 \<le> d" "d < (m::int)"
  shows "(y - d) mod m = y \<longleftrightarrow> d = 0"
proof (cases "d \<le> y")
  case True
  then have "(y - d) mod m = y - d" using assms by (intro mod_pos_pos_trivial) auto
  then show ?thesis by simp
next
  case False
  then have "(y - d) mod m = y - d + m"
    using assms mod_pos_pos_trivial [of "y - d + m" m] by simp
  then show ?thesis using False assms by simp
qed

lemma escape_buffer_size_exact_iff:
  assumes "length s < 2 ^ 61"
  shows "unat (escape_buffer_size m s) = length (escape_write_pass m s) + 1
         \<longleftrightarrow> 2 * escaped_count m s < 2 ^ 31"
proof -
  define n where "n = escaped_count m s"
  obtain k where k: "sint (word_of_nat n * 2 :: 32 word) = 2 * int n - 2 ^ 32 * k"
    "0 \<le> k" "k = 0 \<longleftrightarrow> 2 * n < 2 ^ 31" "2 ^ 32 * k \<le> 2 * int n + 2 ^ 31"
    by (rule signed_doubled_count)
  define y where "y = int (length s) + 2 * int n + 1"
  have n: "n \<le> length s" unfolding n_def by (rule escaped_count_le)
  have y: "0 \<le> y" "y < 2 ^ 64" "2 ^ 32 * k < 2 ^ 64"
    using assms n k(4) unfolding y_def by simp_all
  have "escape_buffer_size m s = word_of_int (y - 2 ^ 32 * k)"
    by (simp add: escape_buffer_size_def escape_count_pass_escaped n_def [symmetric] k(1)
        y_def algebra_simps)
  then have u: "int (unat (escape_buffer_size m s)) = (y - 2 ^ 32 * k) mod 2 ^ 64"
    by (simp only: uint_nat [symmetric] uint_word_of_int) simp
  have l: "length (escape_write_pass m s) + 1 = nat y"
    by (simp add: length_escape_write_pass n_def [symmetric] y_def nat_eq_iff)
  have "(y - 2 ^ 32 * k) mod 2 ^ 64 = y \<longleftrightarrow> k = 0"
    using wrapped_difference_iff [OF y(1,2) _ y(3)] k(2) by simp
  then show ?thesis using u l y(1) k(3) n_def by (metis int_nat_eq nat_int)
qed

lemma length_escape_set_write:
  "escape_set_write ms s = Some r \<Longrightarrow>
   word_of_nat (length r) = (word_of_nat (length s) + 2 * escape_set_count ms s :: 32 word)"
  by (induction s arbitrary: r) (auto split: if_splits)

lemma length_escape_high_write:
  "word_of_nat (length (escape_high_write s)) =
     (word_of_nat (length s) + 2 * escape_high_count s :: 32 word)"
  by (induction s) auto

section \<open>What the escaped text contains\<close>

lemma set_escape_write_pass:
  "d \<in> set (escape_write_pass m s) \<Longrightarrow>
     d = HEX_ESCAPE \<or> acceptable_char m d \<or> (m = UNSAFE_HOST \<and> acceptable_char UNSAFE_PATH d)"
proof (induction s arbitrary: m)
  case (Cons c s)
  then show ?case
    using set_escape_char [of d c] hex_acceptable [of d m]
    by (auto simp: Let_def split: if_splits)
qed simp

lemma acceptable_not_NUL: "acceptable_char m c \<Longrightarrow> c \<noteq> NUL"
  by (auto simp: acceptable_char_def)

lemma is_cstring_escape_write_pass [simp]: "is_cstring (escape_write_pass m s)"
  unfolding is_cstring_def
  using set_escape_write_pass [of NUL m s] acceptable_not_NUL
  by (auto simp: HEX_ESCAPE_def NUL_def)

text \<open>The delimiters of the URI syntax never survive full escaping.\<close>

lemma escape_all_delimiters:
  "c \<in> set (escape_write_pass UNSAFE_ALL s) \<Longrightarrow> c \<notin> set ''/:@#[]?;&=+$, ''"
proof -
  assume "c \<in> set (escape_write_pass UNSAFE_ALL s)"
  then have "c = HEX_ESCAPE \<or> acceptable_char UNSAFE_ALL c"
    using set_escape_write_pass by blast
  then show ?thesis
    by (auto simp: HEX_ESCAPE_def acceptable_char_def acceptable_def)
qed

lemma escape_path_hash: "CHR ''#'' \<notin> set (escape_write_pass UNSAFE_PATH s)"
proof
  assume "CHR ''#'' \<in> set (escape_write_pass UNSAFE_PATH s)"
  then show False
    by (auto dest!: set_escape_write_pass simp: HEX_ESCAPE_def acceptable_char_def acceptable_def)
qed

section \<open>Unescaping undoes escaping\<close>

lemma unescape_loop_escape_char:
  assumes "c \<noteq> NUL" and "\<And>l. ill = Some l \<Longrightarrow> c \<notin> set l"
  shows "unescape_loop ill (escape_char c @ t) = map_option ((#) c) (unescape_loop ill t)"
proof -
  define r where "r = drop 1 (escape_char c) @ t"
  have "unescape_character r = int (code c)"
    unfolding r_def by (rule unescape_escape_char)
  moreover have "escape_char c @ t = HEX_ESCAPE # r" "drop 2 r = t"
    by (simp_all add: r_def escape_char_def)
  ultimately show ?thesis
    using assms strchr_None_iff [OF assms(1)] by (auto simp: Let_def split: option.splits)
qed

lemma unescape_loop_plain:
  "c \<noteq> HEX_ESCAPE \<Longrightarrow> unescape_loop ill (c # t) = map_option ((#) c) (unescape_loop ill t)"
  by simp

lemma unescape_escape_write_pass:
  assumes "is_cstring s"
    and "\<And>l c. ill = Some l \<Longrightarrow> c \<in> set l \<Longrightarrow>
           acceptable_char m c \<and> (m = UNSAFE_HOST \<longrightarrow> acceptable_char UNSAFE_PATH c)"
  shows "unescape_loop ill (escape_write_pass m s) = Some s"
  using assms
proof (induction s arbitrary: m)
  case (Cons c s)
  let ?m = "if m = UNSAFE_HOST \<and> (\<not> acceptable_char m c \<or> c = CHR ''/'') then UNSAFE_PATH else m"
  have IH: "unescape_loop ill (escape_write_pass ?m s) = Some s"
    using Cons.prems by (intro Cons.IH) (auto split: if_splits)
  show ?case
  proof (cases "acceptable_char m c")
    case True
    with IH acceptable_not_escape [OF True] show ?thesis
      by (simp add: Let_def)
  next
    case False
    with IH Cons.prems show ?thesis
      by (subst escape_write_pass.simps, simp only: Let_def if_True simp_thms,
          subst unescape_loop_escape_char) auto
  qed
qed simp

section \<open>Removing optional escapes\<close>

lemma hex_to_int_NUL [simp]: "hex_to_int NUL = -1"
  by (simp add: hex_to_int_def)

lemma unescape_character_length: "0 \<le> unescape_character s \<Longrightarrow> 2 \<le> length s"
  by (cases s; cases "tl s") (auto simp: unescape_character_def Let_def split: if_splits)

lemma unescape_character_take:
  "2 \<le> length s \<Longrightarrow> unescape_character (take 2 s @ t) = unescape_character s"
  by (cases s; cases "tl s") (auto simp: unescape_character_def Let_def)

lemma unreserved_decoded:
  assumes "kind_is_unreserved oob n" and "n < 256"
  shows "n \<noteq> 0" and "char_of n \<noteq> HEX_ESCAPE"
proof -
  have "\<not> kind_is_unreserved oob 0"
    by (simp add: kind_is_unreserved_def uri_character_kind_def nth_append)
  with assms show "n \<noteq> 0" by (cases "n = 0") auto
  have "\<not> kind_is_unreserved oob (code HEX_ESCAPE)"
    by (simp add: kind_is_unreserved_def uri_character_kind_def HEX_ESCAPE_def nth_append)
  with assms show "char_of n \<noteq> HEX_ESCAPE"
    by (metis code_char_of)
qed

lemma remove_optional_escapes_meaning:
  "unescape_loop None (snd (remove_optional_escapes_loop oob s)) = unescape_loop None s"
proof (induction oob s rule: remove_optional_escapes_loop.induct)
  case (2 oob c s)
  show ?case
  proof (cases "c = HEX_ESCAPE \<and> 0 \<le> unescape_character s")
    case True
    define n where "n = nat (unescape_character s)"
    have n: "n < 256" "unescape_character s = int n"
      using True unescape_character_range(2) [of s] by (auto simp: n_def)
    have IH: "unescape_loop None (snd (remove_optional_escapes_loop oob (drop 2 s))) =
              unescape_loop None (drop 2 s)"
      using True by (intro "2.IH"(1)) auto
    have len: "2 \<le> length s" using True unescape_character_length by blast
    show ?thesis
    proof (cases "kind_is_unreserved oob n")
      case True': True
      note u = unreserved_decoded [OF True' n(1)]
      from True True' u n IH show ?thesis
        by (simp add: Let_def split_beta)
    next
      case False
      with True n IH len show ?thesis
        by (simp add: Let_def split_beta unescape_character_take)
    qed
  next
    case False
    then show ?thesis
      using "2.IH"(2) by (auto simp: Let_def split_beta)
  qed
qed simp

lemma remove_optional_escapes_idem:
  "snd (remove_optional_escapes_loop oob (snd (remove_optional_escapes_loop oob s))) =
   snd (remove_optional_escapes_loop oob s)"
proof (induction oob s rule: remove_optional_escapes_loop.induct)
  case (2 oob c s)
  show ?case
  proof (cases "c = HEX_ESCAPE \<and> 0 \<le> unescape_character s")
    case True
    define n where "n = nat (unescape_character s)"
    have n: "n < 256" "unescape_character s = int n"
      using True unescape_character_range(2) [of s] by (auto simp: n_def)
    let ?r = "snd (remove_optional_escapes_loop oob (drop 2 s))"
    have IH: "snd (remove_optional_escapes_loop oob ?r) = ?r"
      using True by (intro "2.IH"(1)) auto
    have len: "2 \<le> length s" using True unescape_character_length by blast
    show ?thesis
    proof (cases "kind_is_unreserved oob n")
      case True': True
      with True n IH unreserved_decoded [OF True' n(1)] show ?thesis
        by (simp add: Let_def split_beta)
    next
      case False
      with True n IH len show ?thesis
        by (simp add: Let_def split_beta unescape_character_take)
    qed
  next
    case False
    then show ?thesis
      using "2.IH"(2) by (auto simp: Let_def split_beta)
  qed
qed simp

lemma remove_optional_escapes_length:
  "length (snd (remove_optional_escapes_loop oob s)) \<le> length s"
  by (induction oob s rule: remove_optional_escapes_loop.induct)
     (auto simp: Let_def split_beta dest: unescape_character_length)

text \<open>
  The specification of \<^verbatim>\<open>gnome_vfs_remove_optional_escapes\<close>, from RFC 2396 and independent of
  the table \<^verbatim>\<open>uri_character_kind\<close>: a text is a sequence of units, and only the escapes of
  unreserved characters are replaced.
\<close>

datatype uri_unit = Plain char | Escaped char char

definition rfc_alphanum :: string where
  "rfc_alphanum = ''ABCDEFGHIJKLMNOPQRSTUVWXYZabcdefghijklmnopqrstuvwxyz0123456789''"

definition rfc_unreserved :: string where
  "rfc_unreserved = rfc_alphanum @ ''-_.!~*()'' @ [CHR 0x27]"

definition rfc_reserved :: string where
  "rfc_reserved = '';/?:@&=+$,''"

fun unit_text :: "uri_unit \<Rightarrow> string" where
  "unit_text (Plain c) = [c]"
| "unit_text (Escaped a b) = [HEX_ESCAPE, a, b]"

fun unit_ok :: "uri_unit \<Rightarrow> bool" where
  "unit_ok (Plain c) \<longleftrightarrow> c \<in> set (rfc_unreserved @ rfc_reserved @ '' '')"
| "unit_ok (Escaped a b) \<longleftrightarrow> 0 \<le> hex_to_int a \<and> 0 \<le> hex_to_int b"

fun unit_reduced :: "(nat \<Rightarrow> bool) \<Rightarrow> uri_unit \<Rightarrow> string" where
  "unit_reduced oob (Plain c) = [c]"
| "unit_reduced oob (Escaped a b) =
     (let n = nat (16 * hex_to_int a + hex_to_int b)
      in if char_of n \<in> set rfc_unreserved \<or> 128 \<le> n \<and> oob n then [char_of n]
         else [HEX_ESCAPE, a, b])"

lemma all_code_less_128:
  assumes "list_all P (map char_of [0..<128])" and "code c < 128"
  shows "P c"
proof -
  have "c \<in> set (map char_of [0..<128])"
    using assms(2) by (auto simp: image_iff intro!: bexI [of _ "code c"])
  with assms(1) show ?thesis unfolding list_all_iff by blast
qed

lemma rfc_ascii: "c \<in> set (rfc_unreserved @ rfc_reserved @ '' '') \<Longrightarrow> code c < 128"
proof -
  have "list_all (\<lambda>c. code c < 128) (rfc_unreserved @ rfc_reserved @ '' '')" by code_simp
  then show "c \<in> set (rfc_unreserved @ rfc_reserved @ '' '') \<Longrightarrow> code c < 128"
    unfolding list_all_iff by blast
qed

lemma must_be_escaped_rfc:
  "c = HEX_ESCAPE \<or> must_be_escaped c \<longleftrightarrow> c \<notin> set (rfc_unreserved @ rfc_reserved @ '' '')"
proof (cases "code c < 128")
  case True
  have "list_all (\<lambda>c. (c = HEX_ESCAPE \<or> must_be_escaped c) = (c \<notin> set (rfc_unreserved @ rfc_reserved @ '' '')))
          (map char_of [0..<128])"
    by code_simp
  from all_code_less_128 [OF this True] show ?thesis .
next
  case False
  then show ?thesis using rfc_ascii [of c] by (auto simp: must_be_escaped_def)
qed

lemma kind_is_unreserved_rfc:
  assumes "n < 256"
  shows "kind_is_unreserved oob n \<longleftrightarrow> char_of n \<in> set rfc_unreserved \<or> 128 \<le> n \<and> oob n"
proof (cases "n < 128")
  case True
  have "list_all (\<lambda>c. (uri_character_kind ! code c = UNRESERVED) = (c \<in> set rfc_unreserved))
          (map char_of [0..<128])"
    by code_simp
  from all_code_less_128 [OF this, of "char_of n"] True show ?thesis
    by (simp add: kind_is_unreserved_def)
next
  case False
  then have "char_of n \<notin> set rfc_unreserved"
    using rfc_ascii [of "char_of n"] assms by auto
  with False show ?thesis by (simp add: kind_is_unreserved_def)
qed

lemma unescape_character_digits:
  "0 \<le> unescape_character (a # b # s) \<longleftrightarrow> 0 \<le> hex_to_int a \<and> 0 \<le> hex_to_int b"
  "0 \<le> hex_to_int a \<Longrightarrow> 0 \<le> hex_to_int b \<Longrightarrow>
     unescape_character (a # b # s) = 16 * hex_to_int a + hex_to_int b"
  using hex_to_int_range(1) [of b] by (auto simp: unescape_character_def Let_def push_bit_4_or)

lemma remove_optional_escapes_units:
  "list_all unit_ok us \<Longrightarrow>
   remove_optional_escapes_loop oob (concat (map unit_text us)) =
     (GNOME_VFS_OK, concat (map (unit_reduced oob) us))"
proof (induction us)
  case (Cons u us)
  show ?case
  proof (cases u)
    case (Plain c)
    with Cons must_be_escaped_rfc [of c] show ?thesis by (auto simp: Let_def)
  next
    case (Escaped a b)
    have d: "0 \<le> hex_to_int a" "0 \<le> hex_to_int b" using Cons.prems Escaped by auto
    define n where "n = nat (16 * hex_to_int a + hex_to_int b)"
    have u: "unescape_character (a # b # concat (map unit_text us)) = int n"
      using d by (simp add: unescape_character_digits(2) n_def)
    have "n < 256" using unescape_character_range(2) [of "a # b # concat (map unit_text us)"] u by simp
    from kind_is_unreserved_rfc [OF this, of oob] show ?thesis
      using Cons Escaped u by (simp add: Let_def n_def [symmetric])
  qed
qed simp

lemma remove_optional_escapes_units_exist:
  "fst (remove_optional_escapes_loop oob s) = GNOME_VFS_OK \<Longrightarrow>
   \<exists>us. list_all unit_ok us \<and> s = concat (map unit_text us)"
proof (induction oob s rule: remove_optional_escapes_loop.induct)
  case (1 oob)
  show ?case by (rule exI [of _ "[]"]) simp
next
  case (2 oob c s)
  show ?case
  proof (cases "c = HEX_ESCAPE")
    case True
    with "2.prems" have nn: "0 \<le> unescape_character s" by (auto simp: Let_def split: if_splits)
    then obtain a b r where s: "s = a # b # r"
      using unescape_character_length [of s] by (cases s; cases "tl s") auto
    have "fst (remove_optional_escapes_loop oob r) = GNOME_VFS_OK"
      using "2.prems" True nn s by (auto simp: Let_def split_beta split: if_splits)
    with "2.IH"(1) True nn s obtain us where "list_all unit_ok us" "r = concat (map unit_text us)"
      by auto
    with True nn s show ?thesis
      by (intro exI [of _ "Escaped a b # us"]) (simp add: unescape_character_digits(1))
  next
    case False
    with "2.prems" have m: "\<not> must_be_escaped c"
      and "fst (remove_optional_escapes_loop oob s) = GNOME_VFS_OK"
      by (auto simp: Let_def split_beta split: if_splits)
    with "2.IH"(2) False obtain us where "list_all unit_ok us" "s = concat (map unit_text us)"
      by auto
    with False m must_be_escaped_rfc [of c] show ?thesis
      by (intro exI [of _ "Plain c # us"]) simp
  qed
qed

lemma unescape_display_agrees:
  "unescape_loop ill s = Some t \<Longrightarrow> unescape_display_loop s = t"
proof (induction ill s arbitrary: t rule: unescape_loop.induct)
  case (2 ill c s)
  show ?case
  proof (cases "c = HEX_ESCAPE")
    case True
    with "2.prems" have pos: "0 < unescape_character s"
      by (auto simp: Let_def split: if_splits)
    then have "\<not> hex_to_int (c_at s 0) < 0" "\<not> hex_to_int (c_at s 1) < 0"
      "unescape_character s = push_bit 4 (hex_to_int (c_at s 0)) OR hex_to_int (c_at s 1)"
      by (auto simp: unescape_character_def Let_def split: if_splits)
    moreover have "char_of (nat (unescape_character s)) \<noteq> NUL"
      using pos unescape_character_range(2) [of s]
      by (metis code_NUL code_char_of nat_less_iff of_nat_numeral order_less_imp_le zero_less_nat_eq less_numeral_extra(3))
    ultimately show ?thesis
      using "2.prems" True "2.IH"(1) by (auto simp: Let_def split: if_splits)
  next
    case False
    with "2" show ?thesis by auto
  qed
qed simp

section \<open>Properties\<close>

text \<open>
  C11. The buffer of \<^verbatim>\<open>gnome_vfs_escape_string_internal\<close>, with the counter and its doubling
  at the 32 bits of a \<^verbatim>\<open>gint\<close>: for every character set (the host set with its switch to
  path rules included) and every text of less than \<^verbatim>\<open>2 ^ 61\<close> bytes, the bytes asked of
  \<^verbatim>\<open>g_malloc\<close> are exactly the bytes the second pass writes, terminator included, if and only
  if the escapes add less than \<^verbatim>\<open>2 ^ 31\<close> bytes to the text, that is, if fewer than \<^verbatim>\<open>2 ^ 30\<close>
  characters are escaped. Beyond that the doubled counter overflows and the size is wrong.
\<close>

theorem escape_buffer_exact:
  assumes "length s < 2 ^ 61"
  shows "unat (escape_buffer_size msk s) = length (escape_write_pass msk s) + 1
         \<longleftrightarrow> length (escape_write_pass msk s) - length s < 2 ^ 31"
  using escape_buffer_size_exact_iff [OF assms, of msk]
  by (simp add: length_escape_write_pass)

theorem escape_buffer_exact_witness:
  "unat (escape_buffer_size UNSAFE_HOST ''a.b/c d%'') = length (escape_write_pass UNSAFE_HOST ''a.b/c d%'') + 1
   \<and> escape_write_pass UNSAFE_HOST ''a.b/c d%'' = ''a.b/c%20d%25''"
proof -
  have w: "escape_write_pass UNSAFE_HOST ''a.b/c d%'' = ''a.b/c%20d%25''" by code_simp
  have "length ''a.b/c d%'' < 2 ^ 61" by simp
  moreover have "length (escape_write_pass UNSAFE_HOST ''a.b/c d%'') - length ''a.b/c d%'' < 2 ^ 31"
    unfolding w by simp
  ultimately show ?thesis
    using escape_buffer_exact [of "''a.b/c d%''" UNSAFE_HOST] w by blast
qed

text \<open>
  The overflow is reachable on a 64-bit machine: of a text of \<^verbatim>\<open>2 ^ 31\<close> bytes of which half
  are escaped, the code asks for a buffer of one byte and then writes \<^verbatim>\<open>2 ^ 32 + 1\<close> bytes.
\<close>

lemma escape_buffer_overflow:
  assumes "n = 2 ^ 30"
  shows "escape_buffer_size UNSAFE_ALL (replicate n (CHR '' '') @ replicate n (CHR ''a'')) = 1"
    and "length (escape_write_pass UNSAFE_ALL (replicate n (CHR '' '') @ replicate n (CHR ''a''))) = 2 ^ 32"
proof -
  have "\<not> acceptable_char UNSAFE_ALL (CHR '' '')" "acceptable_char UNSAFE_ALL (CHR ''a'')"
    by code_simp+
  then have c: "escaped_count UNSAFE_ALL (replicate n (CHR '' '') @ replicate n (CHR ''a'')) = n"
    by (simp add: escaped_count_filter filter_replicate)
  have u: "word_of_nat n = (2 ^ 30 :: 32 word)" by (simp add: assms)
  have "sint (2 ^ 30 * 2 :: 32 word) = - (2 ^ 31)" by simp
  then show "escape_buffer_size UNSAFE_ALL (replicate n (CHR '' '') @ replicate n (CHR ''a'')) = 1"
    by (simp add: escape_buffer_size_def escape_count_pass_escaped c u) (simp add: assms)
  show "length (escape_write_pass UNSAFE_ALL (replicate n (CHR '' '') @ replicate n (CHR ''a''))) = 2 ^ 32"
    by (simp add: length_escape_write_pass c) (simp add: assms)
qed

text \<open>
  C10. Unescaping undoes escaping: for every character set of
  \<^verbatim>\<open>gnome_vfs_escape_string_internal\<close>, and so for the public functions built on it
  (\<^verbatim>\<open>gnome_vfs_escape_string\<close>, \<^verbatim>\<open>..._path_string\<close>, \<^verbatim>\<open>..._host_and_path_string\<close>, \<^verbatim>\<open>..._slashes\<close>), the
  text a C string escapes to unescapes to that string. \<^verbatim>\<open>gnome_vfs_escape_set\<close> and
  \<^verbatim>\<open>gnome_vfs_escape_high_chars\<close> do not escape the percent sign and have no such inverse.
\<close>

theorem escape_roundtrip:
  assumes "is_cstring s"
  shows "gnome_vfs_unescape_string (gnome_vfs_escape_string_internal (Some s) msk) None = Some s"
  using unescape_escape_write_pass [OF assms, of None msk]
  by (simp add: gnome_vfs_unescape_string_def gnome_vfs_escape_string_internal_def)

theorem escape_roundtrip_witness:
  "gnome_vfs_unescape_string (gnome_vfs_escape_string_internal (Some ''50% @home/#'') UNSAFE_HOST) None
     = Some ''50% @home/#''"
  by (rule escape_roundtrip) (simp add: NUL_def)

text \<open>
  C34. \<^verbatim>\<open>gnome_vfs_remove_optional_escapes\<close> decodes exactly the escapes of the characters
  RFC 2396 calls unreserved. The call succeeds if and only if the text is a sequence of
  units, each either a character that may stand for itself or a percent sign with two
  hexadecimal digits; then the new text is that sequence with the escape of a letter, a
  digit or a mark replaced by the character and every other unit (the escapes of reserved
  characters among them) left as it was. In every case, errors included, the text unescapes
  to the same string as before, never grows, and is left alone by a second call. For an
  escape \<^verbatim>\<open>%80\<close> to \<^verbatim>\<open>%FF\<close> the code reads behind its 128-entry table, and what it finds
  there (\<open>oob\<close>, arbitrary here) decides.
\<close>

theorem remove_optional_escapes_sound:
  assumes "gnome_vfs_remove_optional_escapes oob (Some s) = (result, Some t)"
  shows "(result = GNOME_VFS_OK \<longleftrightarrow> (\<exists>us. list_all unit_ok us \<and> s = concat (map unit_text us)))
       \<and> (\<forall>us. list_all unit_ok us \<and> s = concat (map unit_text us)
              \<longrightarrow> t = concat (map (unit_reduced oob) us))
       \<and> unescape_loop None t = unescape_loop None s \<and> length t \<le> length s
       \<and> snd (gnome_vfs_remove_optional_escapes oob (Some t)) = Some t"
proof -
  have t: "t = snd (remove_optional_escapes_loop oob s)"
    and r: "result = fst (remove_optional_escapes_loop oob s)"
    using assms by (auto simp: gnome_vfs_remove_optional_escapes_def split: prod.splits)
  show ?thesis
    using remove_optional_escapes_meaning [of oob s] remove_optional_escapes_length [of oob s]
      remove_optional_escapes_idem [of oob s] remove_optional_escapes_units [of _ oob]
      remove_optional_escapes_units_exist [of oob s]
    by (auto simp: t r gnome_vfs_remove_optional_escapes_def split_beta)
qed

theorem remove_optional_escapes_sound_witness:
  "gnome_vfs_remove_optional_escapes (\<lambda>_. False) (Some ''%61%7e%20%2F'') = (GNOME_VFS_OK, Some ''a~%20%2F'')
   \<and> ''a~%20%2F'' = concat (map (unit_reduced (\<lambda>_. False))
        [Escaped (CHR ''6'') (CHR ''1''), Escaped (CHR ''7'') (CHR ''e''),
         Escaped (CHR ''2'') (CHR ''0''), Escaped (CHR ''2'') (CHR ''F'')])
   \<and> unescape_loop None ''a~%20%2F'' = unescape_loop None ''%61%7e%20%2F''"
proof -
  let ?us = "[Escaped (CHR ''6'') (CHR ''1''), Escaped (CHR ''7'') (CHR ''e''),
              Escaped (CHR ''2'') (CHR ''0''), Escaped (CHR ''2'') (CHR ''F'')]"
  have run: "gnome_vfs_remove_optional_escapes (\<lambda>_. False) (Some ''%61%7e%20%2F'') =
        (GNOME_VFS_OK, Some ''a~%20%2F'')"
    by code_simp
  have "list_all unit_ok ?us" "''%61%7e%20%2F'' = concat (map unit_text ?us)"
    by code_simp+
  with run remove_optional_escapes_sound [OF run] show ?thesis by blast
qed

text \<open>
  C35. The lenient decoder used for display agrees with the strict one on everything the
  strict one accepts.
\<close>

theorem unescape_for_display_agrees:
  assumes "gnome_vfs_unescape_string (Some s) ill = Some t"
  shows "gnome_vfs_unescape_string_for_display (Some s) = Some t"
  using assms unescape_display_agrees [of ill s t]
  by (simp add: gnome_vfs_unescape_string_def gnome_vfs_unescape_string_for_display_def)

theorem unescape_for_display_agrees_witness:
  "gnome_vfs_unescape_string_for_display (Some ''a%20b'') = Some ''a b''"
  by (rule unescape_for_display_agrees [of "''a%20b''" "Some ''/''"]) code_simp

end
