(* ===== verification/VFS_Path.thy ===== *)
theory VFS_Path
  imports VFS_Escape
begin

text \<open>
  Path handling: \<^verbatim>\<open>_gnome_vfs_canonicalize_pathname\<close> with its helpers and the string
  predicates of \<^verbatim>\<open>libgnomevfs/gnome-vfs-private-utils.c\<close>, and \<^verbatim>\<open>gnome_vfs_resolve_symlink\<close>,
  \<^verbatim>\<open>gnome_vfs_expand_initial_tilde\<close>, \<^verbatim>\<open>gnome_vfs_get_local_path_from_uri\<close>,
  \<^verbatim>\<open>gnome_vfs_get_uri_from_local_path\<close> and the scheme guessers of
  \<^verbatim>\<open>libgnomevfs/gnome-vfs-utils.c\<close>. The canonicaliser works in place on a character
  buffer with an index; the model keeps both, and the lemmas relate it to a stack of
  path components.
\<close>

section \<open>Canonicalisation in place\<close>

definition find_next_slash :: "string \<Rightarrow> nat \<Rightarrow> nat option" where
  "find_next_slash path current_offset =
     map_option ((+) current_offset) (strchr (drop current_offset path) slash)"

lemma find_next_slash_bounds:
  "find_next_slash path off = Some n \<Longrightarrow> off \<le> n \<and> n < length path"
  by (auto simp: find_next_slash_def NUL_def dest!: strchr_SomeD)

function find_slash_before_offset_loop ::
    "string \<Rightarrow> nat \<Rightarrow> nat \<Rightarrow> nat option \<Rightarrow> nat option" where
  "find_slash_before_offset_loop path to next_offset result =
     (case find_next_slash path next_offset of
        None \<Rightarrow> result
      | Some n \<Rightarrow> if n \<ge> to then result
                  else find_slash_before_offset_loop path to (n + 1) (Some n))"
  by pat_completeness auto
termination
  by (relation "measure (\<lambda>(path, to, next_offset, result). length path - next_offset)")
     (auto dest: find_next_slash_bounds)

definition find_slash_before_offset :: "string \<Rightarrow> nat \<Rightarrow> nat option" where
  "find_slash_before_offset path to = find_slash_before_offset_loop path to 0 None"

definition collapse_slash_runs :: "string \<Rightarrow> nat \<Rightarrow> string" where
  "collapse_slash_runs path from_offset =
     take from_offset path @ dropWhile (\<lambda>c. c = slash) (drop from_offset path)"

declare find_slash_before_offset_loop.simps [simp del]

lemma length_collapse: "length (collapse_slash_runs p n) \<le> length p"
proof -
  have "length (dropWhile (\<lambda>c. c = slash) (drop n p)) \<le> length (drop n p)"
    by (rule length_dropWhile_le)
  then show ?thesis by (simp add: collapse_slash_runs_def)
qed

lemma find_slash_before_offset_loop_less:
  "find_slash_before_offset_loop path to off r = Some n \<Longrightarrow>
     (\<forall>m. r = Some m \<longrightarrow> m < to) \<Longrightarrow> n < to"
proof (induction path to off r rule: find_slash_before_offset_loop.induct)
  case (1 path to off r)
  then show ?case
    by (subst (asm) (2) find_slash_before_offset_loop.simps)
       (auto split: option.splits if_splits)
qed

lemma find_slash_before_offset_less: "find_slash_before_offset path to = Some n \<Longrightarrow> n < to"
  unfolding find_slash_before_offset_def by (erule find_slash_before_offset_loop_less) simp

definition dotdot_marker :: "string \<Rightarrow> nat \<Rightarrow> nat" where
  "dotdot_marker path i =
     (let m0 = (case find_slash_before_offset path (i - 1) of None \<Rightarrow> 0 | Some n \<Rightarrow> n + 1)
      in if c_at path (i + 2) = NUL \<and> m0 > 1 then m0 - 1 else m0)"

lemma dotdot_marker_less: "i \<noteq> 0 \<Longrightarrow> dotdot_marker path i < i"
  by (auto simp: dotdot_marker_def Let_def dest!: find_slash_before_offset_less split: option.splits)

lemma c_at_eq_slash: "c_at p i = slash \<Longrightarrow> i < length p"
  by (rule c_at_nonNUL) (auto simp: NUL_def)
lemma c_at_eq_dot: "c_at p i = dot \<Longrightarrow> i < length p"
  by (rule c_at_nonNUL) (auto simp: NUL_def)

function canonicalize_loop :: "string \<Rightarrow> nat \<Rightarrow> string" where
  "canonicalize_loop path i =
    (if c_at path i = NUL then path
     else if c_at path i = dot \<and> c_at path (i + 1) = NUL then
       (if i > 1 \<and> c_at path (i - 1) = slash then take (i - 1) path else take i path)
     else if c_at path i = dot \<and> c_at path (i + 1) = slash then
       (let path' = take i path @ drop (i + 2) path
        in if i = 0 then canonicalize_loop (collapse_slash_runs path' 0) 0
           else canonicalize_loop path' i)
     else if c_at path i = dot \<and> c_at path (i + 1) = dot
             \<and> (c_at path (i + 2) = slash \<or> c_at path (i + 2) = NUL) then
       (if i \<noteq> 0 then
          (let marker = dotdot_marker path i;
               i' = (if c_at path (i + 2) = slash then i + 1 else i);
               path' = take marker path @ drop (i' + 2) path
           in canonicalize_loop (collapse_slash_runs path' marker) marker)
        else
          (let i' = (if c_at path 2 = slash then 3 else 2)
           in canonicalize_loop (collapse_slash_runs path i') i'))
     else (case find_next_slash path i of
             None \<Rightarrow> path
           | Some j \<Rightarrow> canonicalize_loop (collapse_slash_runs path (j + 1)) (j + 1)))"
  by pat_completeness auto
termination
proof (relation "measures [\<lambda>(path, i). length path, \<lambda>(path, i). length path - i]", goal_cases)
  case 1
  show ?case by simp
next
  case (2 path i x)
  then have "1 < length path" using c_at_eq_slash by fastforce
  with 2 length_collapse [of x 0] show ?case by auto
next
  case (3 path i x)
  then show ?case using c_at_eq_slash [of path "i + 1"] by auto
next
  case (4 path i x xa xb)
  have "x < i" using 4 dotdot_marker_less by simp
  moreover have "i < length path" using 4 c_at_nonNUL by blast
  moreover have "length (collapse_slash_runs xb x) \<le> length xb" by (rule length_collapse)
  ultimately show ?case using 4 by auto
next
  case (5 path i x)
  have "i < length path" using 5 c_at_nonNUL by blast
  then show ?case using 5 length_collapse [of path x] by (auto simp: le_less)
next
  case (6 path i x)
  have "i < length path" using 6 c_at_nonNUL by blast
  then show ?case
    using 6 length_collapse [of path "x + 1"] find_next_slash_bounds [of path i x] by auto
qed

declare canonicalize_loop.simps [simp del]

definition gnome_vfs_canonicalize_pathname :: "string option \<Rightarrow> string" where
  "gnome_vfs_canonicalize_pathname path =
     (case path of None \<Rightarrow> [] | Some p \<Rightarrow> if length p = 0 then [] else canonicalize_loop p 0)"




definition gnome_vfs_make_path_name_canonical :: "string option \<Rightarrow> string" where
  "gnome_vfs_make_path_name_canonical path = gnome_vfs_canonicalize_pathname path"

section \<open>String predicates\<close>

fun istr_has_prefix_loop :: "string \<Rightarrow> string \<Rightarrow> bool" where
  "istr_has_prefix_loop h [] = True"
| "istr_has_prefix_loop [] (nc # n) = False"
| "istr_has_prefix_loop (hc # h) (nc # n) =
     (if g_ascii_tolower hc = g_ascii_tolower nc then istr_has_prefix_loop h n else False)"

definition gnome_vfs_istr_has_prefix :: "string option \<Rightarrow> string option \<Rightarrow> bool" where
  "gnome_vfs_istr_has_prefix haystack needle =
     istr_has_prefix_loop (case haystack of None \<Rightarrow> [] | Some h \<Rightarrow> h)
                          (case needle of None \<Rightarrow> [] | Some n \<Rightarrow> n)"

text \<open>The suffix test walks both strings backwards from their terminators.\<close>

definition gnome_vfs_istr_has_suffix :: "string option \<Rightarrow> string option \<Rightarrow> bool" where
  "gnome_vfs_istr_has_suffix haystack needle =
     (case needle of None \<Rightarrow> True
      | Some n \<Rightarrow> (case haystack of None \<Rightarrow> c_at n 0 = NUL
          | Some h \<Rightarrow> istr_has_prefix_loop (rev h) (rev n)))"

definition check_end :: "string option \<Rightarrow> bool" where
  "check_end p =
     (case p of None \<Rightarrow> False
      | Some s \<Rightarrow>
         (let q = dropWhile g_ascii_isspace s
          in c_at q 0 = NUL
             \<or> (c_at q 0 = CHR ''G'' \<and> c_at q 1 = CHR ''M'' \<and> c_at q 2 = CHR ''T'')
             \<or> ((c_at q 0 = CHR ''+'' \<or> c_at q 1 = CHR ''-'') \<and> g_ascii_isdigit (c_at q 1))))"

definition is_valid_scheme_character :: "char \<Rightarrow> bool" where
  "is_valid_scheme_character c \<longleftrightarrow>
     g_ascii_isalnum c \<or> c = CHR ''+'' \<or> c = CHR ''-'' \<or> c = dot"

definition has_valid_scheme :: "string \<Rightarrow> bool" where
  "has_valid_scheme uri \<longleftrightarrow>
     is_valid_scheme_character (c_at uri 0)
     \<and> c_at (dropWhile is_valid_scheme_character (drop 1 uri)) 0 = colon"

fun looks_like_http_loop :: "string \<Rightarrow> nat \<Rightarrow> bool" where
  "looks_like_http_loop [] i = False"
| "looks_like_http_loop (c # cs) i =
     (if \<not> i < 5 then False
      else if i \<ge> 2 \<and> c = dot then True
      else if \<not> g_ascii_isalpha c then False
      else looks_like_http_loop cs (i + 1))"

definition looks_like_http_uri :: "string \<Rightarrow> bool" where
  "looks_like_http_uri str =
     (let len = (case strchr str slash of None \<Rightarrow> length str | Some first_slash \<Rightarrow> first_slash)
      in looks_like_http_loop (rev (take len str)) 0)"

section \<open>Local paths and file URIs\<close>

text \<open>\<open>home_dir\<close> is \<^verbatim>\<open>g_get_home_dir ()\<close>; \<open>getpwnam\<close> gives the \<^verbatim>\<open>pw_dir\<close> of a user's entry.\<close>

definition gnome_vfs_expand_initial_tilde ::
    "string \<Rightarrow> (string \<Rightarrow> string option option) \<Rightarrow> string \<Rightarrow> string" where
  "gnome_vfs_expand_initial_tilde home_dir getpwnam path =
     (if c_at path 0 \<noteq> CHR ''~'' then path
      else if c_at path 1 = slash \<or> c_at path 1 = NUL then home_dir @ drop 1 path
      else
        (let slash_after_user_name = strchr (drop 1 path) slash;
             user_name = (case slash_after_user_name of None \<Rightarrow> drop 1 path | Some n \<Rightarrow> take n (drop 1 path))
         in case getpwnam user_name of
              Some (Some pw_dir) \<Rightarrow>
                pw_dir @ (case slash_after_user_name of None \<Rightarrow> [] | Some n \<Rightarrow> drop n (drop 1 path))
            | _ \<Rightarrow> path))"

definition gnome_vfs_get_local_path_from_uri :: "string option \<Rightarrow> string option" where
  "gnome_vfs_get_local_path_from_uri uri =
     (if \<not> gnome_vfs_istr_has_prefix uri (Some ''file:/'') then None
      else
        (let path_part = drop 5 (case uri of None \<Rightarrow> [] | Some u \<Rightarrow> u)
         in if strchr path_part hash \<noteq> None then None
            else if gnome_vfs_istr_has_prefix (Some path_part) (Some ''///'')
              then gnome_vfs_unescape_string (Some (drop 2 path_part)) (Some ''/'')
            else if gnome_vfs_istr_has_prefix (Some path_part) (Some ''//'') then None
            else gnome_vfs_unescape_string (Some path_part) (Some ''/'')))"

definition g_path_is_absolute :: "string \<Rightarrow> bool" where
  "g_path_is_absolute p \<longleftrightarrow> c_at p 0 = slash"

definition gnome_vfs_get_uri_from_local_path :: "string option \<Rightarrow> string option" where
  "gnome_vfs_get_uri_from_local_path local_full_path =
     (case local_full_path of None \<Rightarrow> None
      | Some p \<Rightarrow> if \<not> g_path_is_absolute p then None
                  else map_option ((@) ''file://'') (gnome_vfs_escape_path_string (Some p)))"

section \<open>Resolving a symbolic link's target\<close>

text \<open>\<^verbatim>\<open>g_strsplit (s, "/", -1)\<close>.\<close>

fun split_slash :: "string \<Rightarrow> string list" where
  "split_slash [] = [[]]"
| "split_slash (c # s) =
     (if c = slash then [] # split_slash s
      else (case split_slash s of [] \<Rightarrow> [[c]] | w # ws \<Rightarrow> (c # w) # ws))"

text \<open>\<^verbatim>\<open>for (j = i; strs[j] == NULL && j > 0; j--)\<close>\<close>

fun back_to_entry :: "string option list \<Rightarrow> nat \<Rightarrow> nat" where
  "back_to_entry strs 0 = 0"
| "back_to_entry strs (Suc j) = (if strs ! Suc j = None then back_to_entry strs j else Suc j)"

function resolve_strs :: "string option list \<Rightarrow> nat \<Rightarrow> string option list" where
  "resolve_strs strs i =
     (if i < length strs then
        (if strs ! i = Some [] \<or> strs ! i = Some ''.'' then resolve_strs (strs[i := None]) (i + 1)
         else if strs ! i = Some ''..'' then
           (let strs' = strs[i := None]; j = back_to_entry strs' i
            in resolve_strs (strs'[j := None]) (i + 1))
         else resolve_strs strs (i + 1))
      else strs)"
  by pat_completeness auto
termination
  by (relation "measure (\<lambda>(strs, i). length strs - i)") (auto simp: Let_def)

definition gnome_vfs_resolve_symlink ::
    "(string \<Rightarrow> string \<Rightarrow> string) \<Rightarrow> string \<Rightarrow> string \<Rightarrow> string" where
  "gnome_vfs_resolve_symlink g_build_filename path symlink =
     (case strrchr path slash of
        None \<Rightarrow> symlink
      | Some p \<Rightarrow>
         if c_at symlink 0 = slash then symlink
         else
           (let strs = resolve_strs (map Some (split_slash (g_build_filename (take p path) symlink))) 0;
                res_path = concat (map (\<lambda>s. case s of None \<Rightarrow> [] | Some w \<Rightarrow> slash # w) strs)
            in if length res_path = 0 then [slash] else res_path))"

section \<open>Lemmas on the canonicaliser\<close>

lemma find_slash_before_offset_loop_eq:
  "find_slash_before_offset_loop path to off r =
     (case strrchr (drop off (take to path)) slash of None \<Rightarrow> r | Some k \<Rightarrow> Some (off + k))"
proof (induction path to off r rule: find_slash_before_offset_loop.induct)
  case (1 path to off r)
  note nn = char_not_NUL(1)
  show ?case
  proof (cases "find_next_slash path off")
    case None
    then have "slash \<notin> set (drop off path)"
      by (auto simp: find_next_slash_def strchr_None_iff [OF nn])
    then have "slash \<notin> set (drop off (take to path))"
      by (auto simp: drop_take dest: in_set_takeD)
    with None show ?thesis
      by (subst find_slash_before_offset_loop.simps) simp
  next
    case (Some n)
    then obtain k where k: "strchr (drop off path) slash = Some k" "n = off + k"
      by (auto simp: find_next_slash_def)
    from strchr_SomeD [OF k(1) nn]
    have sp: "k < length path - off" "path ! n = slash" "slash \<notin> set (take k (drop off path))"
      using k(2) by auto
    show ?thesis
    proof (cases "n \<ge> to")
      case True
      have "slash \<notin> set (drop off (take to path))"
      proof -
        have "to - off \<le> k" using True k(2) by simp
        then show ?thesis using sp(3) set_take_subset_set_take [of "to - off" k "drop off path"]
          by (auto simp: drop_take)
      qed
      with Some True show ?thesis
        by (subst find_slash_before_offset_loop.simps) simp
    next
      case False
      have "drop off (take to path) =
            take k (drop off path) @ slash # drop (n + 1) (take to path)"
      proof -
        have n: "n < length (take to path)" using False sp(1) k(2) by simp
        have "drop off (take to path) = take k (drop off (take to path)) @ drop k (drop off (take to path))"
          by (rule append_take_drop_id [symmetric])
        also have "drop k (drop off (take to path)) = slash # drop (n + 1) (take to path)"
          using n sp(2) k(2) False Cons_nth_drop_Suc [OF n] by (simp add: add.commute)
        also have "take k (drop off (take to path)) = take k (drop off path)"
          using False k(2) by (simp add: drop_take min_def)
        finally show ?thesis .
      qed
      moreover have "length (take k (drop off path)) = k" using sp(1) by simp
      ultimately have st: "strrchr (drop off (take to path)) slash =
          (case strrchr (drop (n + 1) (take to path)) slash of None \<Rightarrow> Some k | Some j \<Rightarrow> Some (k + 1 + j))"
        by (metis strrchr_append_last [OF nn])
      have "find_slash_before_offset_loop path to off r =
            find_slash_before_offset_loop path to (n + 1) (Some n)"
        using Some False by (subst find_slash_before_offset_loop.simps) simp
      also have "\<dots> = (case strrchr (drop (n + 1) (take to path)) slash of
                          None \<Rightarrow> Some n | Some j \<Rightarrow> Some (n + 1 + j))"
        using "1.IH" [OF Some] False by simp
      finally show ?thesis using st k(2) by (auto split: option.splits)
    qed
  qed
qed

lemma find_slash_before_offset_eq:
  "find_slash_before_offset path to = strrchr (take to path) slash"
  by (simp add: find_slash_before_offset_def find_slash_before_offset_loop_eq split: option.splits)


section \<open>The reference: a stack of components\<close>

definition is_component :: "string \<Rightarrow> bool" where
  "is_component c \<longleftrightarrow> c \<noteq> [] \<and> slash \<notin> set c \<and> is_cstring c"

fun join_path :: "string list \<Rightarrow> string" where
  "join_path [] = []"
| "join_path [c] = c"
| "join_path (c # d # cs) = c @ slash # join_path (d # cs)"

fun normalize_components :: "string list \<Rightarrow> string list \<Rightarrow> string list option" where
  "normalize_components st [] = Some st"
| "normalize_components st (c # cs) =
     (if c = ''.'' then normalize_components st cs
      else if c = ''..'' then (if st = [] then None else normalize_components (butlast st) cs)
      else normalize_components (st @ [c]) cs)"

definition stack_prefix :: "string list \<Rightarrow> string" where
  "stack_prefix st = slash # concat (map (\<lambda>c. c @ [slash]) st)"

lemma stack_prefix_snoc: "stack_prefix (st @ [c]) = stack_prefix st @ c @ [slash]"
  by (simp add: stack_prefix_def)

lemma concat_join_path: "concat (map (\<lambda>c. c @ [slash]) st) @ c = join_path (st @ [c])"
  by (induction st rule: join_path.induct) auto

lemma stack_prefix_join: "stack_prefix st @ c = slash # join_path (st @ [c])"
  by (simp add: stack_prefix_def concat_join_path)

lemma butlast_stack_prefix: "st \<noteq> [] \<Longrightarrow> butlast (stack_prefix st) = slash # join_path st"
  by (cases st rule: rev_cases) (simp_all add: stack_prefix_snoc butlast_append flip: stack_prefix_join)

lemma stack_prefix_butlast_slash: "stack_prefix st = butlast (stack_prefix st) @ [slash]"
  by (cases st rule: rev_cases) (auto simp: stack_prefix_def butlast_append)

lemma join_path_Cons: "cs \<noteq> [] \<Longrightarrow> join_path (c # cs) = c @ slash # join_path cs"
  by (cases cs) auto

lemma join_path_head:
  "is_component c \<Longrightarrow> c_at (join_path (c # cs) @ t) 0 = hd c"
  by (cases cs; cases c) (auto simp: is_component_def)

lemma collapse_none: "c_at Q 0 \<noteq> slash \<Longrightarrow> collapse_slash_runs (P @ Q) (length P) = P @ Q"
  by (cases Q) (auto simp: collapse_slash_runs_def)

lemma dotdot_marker_stack:
  assumes "is_component c"
  shows "dotdot_marker (stack_prefix (st @ [c]) @ ''..'' @ Q) (length (stack_prefix (st @ [c]))) =
         (if c_at Q 0 = NUL \<and> st \<noteq> [] then length (stack_prefix st) - 1
          else length (stack_prefix st))"
proof -
  let ?P = "stack_prefix (st @ [c])"
  have t: "take (length ?P - 1) (?P @ ''..'' @ Q) = stack_prefix st @ c"
    by (simp add: stack_prefix_snoc)
  have "strrchr (stack_prefix st @ c) slash = Some (length (stack_prefix st) - 1)"
  proof -
    have e: "stack_prefix st @ c = butlast (stack_prefix st) @ slash # c"
      by (subst stack_prefix_butlast_slash) simp
    show ?thesis
      unfolding e using assms by (subst strrchr_append_Cons) (auto simp: is_component_def)
  qed
  moreover have "1 < length (stack_prefix st) \<longleftrightarrow> st \<noteq> []"
    by (cases st) (auto simp: stack_prefix_def)
  moreover have "length (stack_prefix st) > 0" by (simp add: stack_prefix_def)
  ultimately show ?thesis
    using t c_at_append_length [of ?P "''..'' @ Q" 2]
    by (simp add: dotdot_marker_def Let_def find_slash_before_offset_eq)
qed

lemma component_not_special:
  assumes "is_component c" "c \<noteq> ''.''" "c \<noteq> ''..''" and "T = [] \<or> hd T = slash"
  shows "c_at (c @ T) 0 \<noteq> NUL"
    and "\<not> (c_at (c @ T) 0 = dot \<and> c_at (c @ T) 1 = NUL)"
    and "\<not> (c_at (c @ T) 0 = dot \<and> c_at (c @ T) 1 = slash)"
    and "\<not> (c_at (c @ T) 0 = dot \<and> c_at (c @ T) 1 = dot \<and>
            (c_at (c @ T) 2 = slash \<or> c_at (c @ T) 2 = NUL))"
  using assms
  by (cases c; cases "tl c"; cases "tl (tl c)"; cases T; auto simp: is_component_def)+

lemma find_next_slash_at:
  assumes "slash \<notin> set c"
  shows "find_next_slash (P @ c) (length P) = None"
    and "find_next_slash (P @ c @ slash # R) (length P) = Some (length P + length c)"
  using assms by (simp_all add: find_next_slash_def)

lemma canon_end: "canonicalize_loop P (length P) = P"
  by (subst canonicalize_loop.simps) (simp add: c_at_def)

lemma canon_dot_end:
  "c_at P (length P - 1) = slash \<Longrightarrow> P \<noteq> [] \<Longrightarrow>
     canonicalize_loop (P @ ''.'') (length P) = (if length P > 1 then butlast P else P)"
proof -
  assume a: "c_at P (length P - 1) = slash" "P \<noteq> []"
  then have "c_at (P @ ''.'') (length P - 1) = slash"
    by (auto simp: c_at_def nth_append split: if_splits)
  moreover have "c_at (P @ ''.'') (Suc (length P)) = NUL" by (simp add: c_at_def)
  ultimately show ?thesis
    by (subst canonicalize_loop.simps) (auto simp: butlast_conv_take)
qed

lemma canon_dot:
  "P \<noteq> [] \<Longrightarrow> canonicalize_loop (P @ ''./'' @ R) (length P) = canonicalize_loop (P @ R) (length P)"
  using c_at_append_length [of P "''./'' @ R" 1]
  by (subst canonicalize_loop.simps) (simp add: Let_def)

lemma canon_advance:
  assumes "c_at path i \<noteq> NUL"
    and "\<not> (c_at path i = dot \<and> c_at path (i + 1) = NUL)"
    and "\<not> (c_at path i = dot \<and> c_at path (i + 1) = slash)"
    and "\<not> (c_at path i = dot \<and> c_at path (i + 1) = dot
             \<and> (c_at path (i + 2) = slash \<or> c_at path (i + 2) = NUL))"
  shows "canonicalize_loop path i =
    (case find_next_slash path i of
       None \<Rightarrow> path
     | Some j \<Rightarrow> canonicalize_loop (collapse_slash_runs path (j + 1)) (j + 1))"
  by (subst canonicalize_loop.simps)
     (simp only: if_not_P [OF assms(1)] if_not_P [OF assms(2)] if_not_P [OF assms(3)] if_not_P [OF assms(4)])

lemma canon_name_end:
  assumes "is_component c" "c \<noteq> ''.''" "c \<noteq> ''..''"
  shows "canonicalize_loop (P @ c) (length P) = P @ c"
  using component_not_special [OF assms, of "[]"] assms find_next_slash_at(1) [of c P]
  by (subst canon_advance) (simp_all only: c_at_append_length c_at_append_length0 append_Nil2 is_component_def, simp_all)

lemma canon_name:
  assumes "is_component c" "c \<noteq> ''.''" "c \<noteq> ''..''" "c_at R 0 \<noteq> slash"
  shows "canonicalize_loop (P @ c @ slash # R) (length P) =
         canonicalize_loop ((P @ c @ [slash]) @ R) (length (P @ c @ [slash]))"
proof -
  have "collapse_slash_runs (P @ c @ slash # R) (length P + length c + 1) = P @ c @ slash # R"
    using collapse_none [OF assms(4), of "P @ c @ [slash]"] by simp
  then show ?thesis
    using component_not_special [OF assms(1-3), of "slash # R"] assms find_next_slash_at(2) [of c P R]
    by (subst canon_advance) (simp_all only: c_at_append_length c_at_append_length0 is_component_def, simp_all)
qed

lemma canon_pop:
  assumes "i \<noteq> 0" "c_at path i = dot" "c_at path (i + 1) = dot" "c_at path (i + 2) = e"
    and "e = slash \<or> e = NUL"
  shows "canonicalize_loop path i =
    canonicalize_loop
      (collapse_slash_runs (take (dotdot_marker path i) path @
         drop (i + (if e = slash then 3 else 2)) path) (dotdot_marker path i))
      (dotdot_marker path i)"
proof (cases "e = slash")
  case True
  with assms have "c_at path (i + 2) = slash" by simp
  then show ?thesis
    using True assms(1-3) by (subst canonicalize_loop.simps) (simp add: Let_def eval_nat_numeral)
next
  case False
  with assms have "c_at path (i + 2) = NUL" "e = NUL" by auto
  then show ?thesis
    using assms(1-3) by (subst canonicalize_loop.simps) (simp add: Let_def eval_nat_numeral)
qed

lemma stack_prefix_ne: "stack_prefix st \<noteq> []"
  by (simp add: stack_prefix_def)

lemma canon_dotdot:
  assumes "is_component c" "c_at R 0 \<noteq> slash"
  shows "canonicalize_loop (stack_prefix (st @ [c]) @ ''../'' @ R) (length (stack_prefix (st @ [c]))) =
         canonicalize_loop (stack_prefix st @ R) (length (stack_prefix st))"
proof -
  let ?P = "stack_prefix (st @ [c])"
  have m: "dotdot_marker (?P @ ''../'' @ R) (length ?P) = length (stack_prefix st)"
    using dotdot_marker_stack [OF assms(1), of st "slash # R"] by simp
  have "take (length (stack_prefix st)) ?P = stack_prefix st"
    "length (stack_prefix st) - length ?P = 0"
    by (simp_all add: stack_prefix_snoc)
  moreover have "collapse_slash_runs (stack_prefix st @ R) (length (stack_prefix st)) = stack_prefix st @ R"
    by (rule collapse_none [OF assms(2)])
  moreover have "length ?P \<noteq> 0" by (simp add: stack_prefix_def)
  ultimately show ?thesis
    using m c_at_append_length [of ?P "''../'' @ R" 1] c_at_append_length [of ?P "''../'' @ R" 2]
    by (subst canonicalize_loop.simps) (simp add: Let_def)
qed

lemma canon_dotdot_end:
  assumes "is_component c"
  shows "canonicalize_loop (stack_prefix (st @ [c]) @ ''..'') (length (stack_prefix (st @ [c]))) =
         slash # join_path st"
proof -
  let ?P = "stack_prefix (st @ [c])"
  let ?m = "if st \<noteq> [] then length (stack_prefix st) - 1 else length (stack_prefix st)"
  have m: "dotdot_marker (?P @ ''..'') (length ?P) = ?m"
    using dotdot_marker_stack [OF assms, of st "[]"] by simp
  have t: "take ?m (?P @ ''..'') = slash # join_path st"
  proof (cases "st = []")
    case True
    then show ?thesis by (simp add: stack_prefix_def)
  next
    case False
    have "take (length (stack_prefix st) - 1) (?P @ ''..'') = butlast (stack_prefix st)"
      unfolding stack_prefix_snoc by (simp add: butlast_conv_take)
    with False show ?thesis by (simp add: butlast_stack_prefix)
  qed
  have "?m \<le> length (?P @ ''..'')" by (auto simp: stack_prefix_snoc)
  then have l: "?m = length (slash # join_path st)"
    using arg_cong [OF t, of length] by (simp only: length_take min.absorb2)
  have "canonicalize_loop (?P @ ''..'') (length ?P) =
        canonicalize_loop (collapse_slash_runs (slash # join_path st) ?m) ?m"
    using m t c_at_append_length [of ?P "''..''" 1] c_at_append_length [of ?P "''..''" 2]
    by (subst canon_pop [where e = NUL]) (simp_all add: stack_prefix_ne)
  also have "\<dots> = slash # join_path st"
    unfolding l using canon_end [of "slash # join_path st"] by (simp add: collapse_slash_runs_def)
  finally show ?thesis .
qed

lemma component_hd_not_slash: "is_component c \<Longrightarrow> hd c \<noteq> slash"
  by (cases c) (auto simp: is_component_def)

lemma canonicalize_stack:
  assumes "list_all is_component (st @ cs)" and "cs \<noteq> [] \<or> st = []"
    and "normalize_components st cs = Some r"
  shows "canonicalize_loop (stack_prefix st @ join_path cs) (length (stack_prefix st)) = slash # join_path r"
  using assms
proof (induction cs arbitrary: st)
  case Nil
  then show ?case using canon_end [of "stack_prefix []"] by (simp add: stack_prefix_def)
next
  case (Cons c cs)
  have c: "is_component c" and st: "list_all is_component st" using Cons.prems by auto
  have last: "c_at (stack_prefix st) (length (stack_prefix st) - 1) = slash"
    by (subst (1) stack_prefix_butlast_slash) (auto simp: c_at_def nth_append stack_prefix_def)
  have P: "stack_prefix st \<noteq> []" by (simp add: stack_prefix_def)
  have one: "length (stack_prefix st) > 1 \<longleftrightarrow> st \<noteq> []"
    by (cases st) (auto simp: stack_prefix_def)
  show ?case
  proof (cases "cs = []")
    case True
    consider "c = ''.''" | d st' where "c = ''..''" "st = st' @ [d]" | "c \<noteq> ''.''" "c \<noteq> ''..''"
      using Cons.prems by (cases st rule: rev_cases) (auto split: if_splits)
    then show ?thesis
    proof cases
      case 1
      then show ?thesis
        using canon_dot_end [OF last P] True Cons.prems one
        by (cases "st = []") (simp_all add: butlast_stack_prefix, simp add: stack_prefix_def)
    next
      case 2
      then show ?thesis
        using canon_dotdot_end [of d st'] True Cons.prems st by simp
    next
      case 3
      then show ?thesis
        using canon_name_end [OF c, of "stack_prefix st"] True Cons.prems by (simp add: stack_prefix_join)
    qed
  next
    case False
    have R: "c_at (join_path cs) 0 \<noteq> slash"
      using False Cons.prems component_hd_not_slash join_path_head [of "hd cs" "tl cs" "[]"]
      by (cases cs) auto
    note j = join_path_Cons [OF False, of c]
    consider "c = ''.''" | d st' where "c = ''..''" "st = st' @ [d]" | "c \<noteq> ''.''" "c \<noteq> ''..''"
      using Cons.prems by (cases st rule: rev_cases) (auto split: if_splits)
    then show ?thesis
    proof cases
      case 1
      then show ?thesis
        using canon_dot [OF P, of "join_path cs"] j Cons.IH [of st] Cons.prems False by simp
    next
      case 2
      then show ?thesis
        using canon_dotdot [of d "join_path cs" st'] R j Cons.IH [of st'] Cons.prems False st by simp
    next
      case 3
      then show ?thesis
        using canon_name [OF c _ _ R, of "stack_prefix st"] j Cons.IH [of "st @ [c]"] Cons.prems False
        by (simp add: stack_prefix_snoc)
    qed
  qed
qed

lemma normalize_components_plain:
  "normalize_components st cs = Some r \<Longrightarrow> list_all is_component (st @ cs) \<Longrightarrow>
   \<forall>c\<in>set st. c \<noteq> ''.'' \<and> c \<noteq> ''..'' \<Longrightarrow>
   list_all is_component r \<and> (\<forall>c\<in>set r. c \<noteq> ''.'' \<and> c \<noteq> ''..'')"
proof (induction cs arbitrary: st)
  case (Cons c cs)
  have bl: "set (butlast st) \<subseteq> set st" by (auto dest: in_set_butlastD)
  let ?st = "if c = ''.'' then st else if c = ''..'' then butlast st else st @ [c]"
  have "normalize_components ?st cs = Some r"
    using Cons.prems(1) by (simp split: if_splits)
  moreover have "list_all is_component (?st @ cs)" "\<forall>c\<in>set ?st. c \<noteq> ''.'' \<and> c \<noteq> ''..''"
    using Cons.prems(2,3) bl by (auto simp: list_all_iff)
  ultimately show ?case by (rule Cons.IH)
qed simp

lemma normalize_components_id:
  "\<forall>c\<in>set cs. c \<noteq> ''.'' \<and> c \<noteq> ''..'' \<Longrightarrow> normalize_components st cs = Some (st @ cs)"
  by (induction cs arbitrary: st) auto

lemma canonicalize_absolute_parts:
  assumes "list_all is_component cs" and "normalize_components [] cs = Some r"
  shows "gnome_vfs_canonicalize_pathname (Some (slash # join_path cs)) = slash # join_path r"
    and "gnome_vfs_canonicalize_pathname (Some (slash # join_path r)) = slash # join_path r"
    and "list_all is_component r \<and> ''.'' \<notin> set r \<and> ''..'' \<notin> set r"
proof -
  have start: "gnome_vfs_canonicalize_pathname (Some (slash # join_path ds)) = slash # join_path q"
    if d: "list_all is_component ds" "normalize_components [] ds = Some q" for ds q
  proof -
    have "c_at (join_path ds) 0 \<noteq> slash"
      using d(1) component_hd_not_slash join_path_head [of "hd ds" "tl ds" "[]"]
      by (cases ds) auto
    then have "collapse_slash_runs (slash # join_path ds) 1 = slash # join_path ds"
      using collapse_none [of "join_path ds" "[slash]"] by simp
    moreover have "find_next_slash (slash # join_path ds) 0 = Some 0"
      by (simp add: find_next_slash_def)
    ultimately have "canonicalize_loop (slash # join_path ds) 0 = canonicalize_loop (slash # join_path ds) 1"
      by (subst canonicalize_loop.simps) simp
    then show ?thesis
      using canonicalize_stack [of "[]" ds q] d
      by (simp add: gnome_vfs_canonicalize_pathname_def stack_prefix_def)
  qed
  show "gnome_vfs_canonicalize_pathname (Some (slash # join_path cs)) = slash # join_path r"
    by (rule start [OF assms])
  have r: "list_all is_component r \<and> (\<forall>c\<in>set r. c \<noteq> ''.'' \<and> c \<noteq> ''..'')"
    using normalize_components_plain [OF assms(2)] assms(1) by simp
  then show "gnome_vfs_canonicalize_pathname (Some (slash # join_path r)) = slash # join_path r"
    using normalize_components_id [of r "[]"] by (intro start) auto
  from r show "list_all is_component r \<and> ''.'' \<notin> set r \<and> ''..'' \<notin> set r" by blast
qed
section \<open>Lemmas on local paths\<close>

lemma istr_has_prefix_append [simp]: "istr_has_prefix_loop (p @ s) p"
  by (induction p) auto

lemma istr_has_prefix_iff:
  "istr_has_prefix_loop h n \<longleftrightarrow>
     length n \<le> length h \<and> g_ascii_strdown (take (length n) h) = g_ascii_strdown n"
  by (induction h n rule: istr_has_prefix_loop.induct) (auto simp: g_ascii_strdown_def)

lemma escape_path_slash: "escape_write_pass UNSAFE_PATH (slash # s) = slash # escape_write_pass UNSAFE_PATH s"
  by (simp add: acceptable_char_def acceptable_def)

lemma escape_path_illegal_slash: "acceptable_char UNSAFE_PATH slash"
  by (simp add: acceptable_char_def acceptable_def)

lemma local_path_roundtrip_aux:
  assumes "is_cstring p" and "g_path_is_absolute p"
  shows "gnome_vfs_get_local_path_from_uri (gnome_vfs_get_uri_from_local_path (Some p)) = Some p"
proof -
  obtain q where p: "p = slash # q"
    using assms(2) by (cases p) (auto simp: g_path_is_absolute_def)
  let ?e = "escape_write_pass UNSAFE_PATH q"
  have e: "escape_write_pass UNSAFE_PATH p = slash # ?e"
    by (simp only: p escape_path_slash)
  have "unescape_loop (Some ''/'') (escape_write_pass UNSAFE_PATH p) = Some p"
    by (rule unescape_escape_write_pass) (use assms in \<open>auto simp: escape_path_illegal_slash\<close>)
  moreover have "hash \<notin> set ?e" by (rule escape_path_hash)
  ultimately show ?thesis
    using assms(2)
    by (simp add: e gnome_vfs_get_uri_from_local_path_def gnome_vfs_escape_path_string_def
        gnome_vfs_escape_string_internal_def gnome_vfs_get_local_path_from_uri_def
        gnome_vfs_istr_has_prefix_def gnome_vfs_unescape_string_def del: unescape_loop.simps)
qed

section \<open>Lemmas on symbolic links\<close>

fun resolve_components :: "string list \<Rightarrow> string list \<Rightarrow> string list" where
  "resolve_components st [] = st"
| "resolve_components st (c # cs) =
     (if c = [] \<or> c = ''.'' then resolve_components st cs
      else if c = ''..'' then resolve_components (butlast st) cs
      else resolve_components (st @ [c]) cs)"

definition entries :: "string option list \<Rightarrow> string list" where
  "entries xs = concat (map (\<lambda>x. case x of None \<Rightarrow> [] | Some w \<Rightarrow> [w]) xs)"

lemma entries_simps [simp]:
  "entries [] = []" "entries (None # xs) = entries xs" "entries (Some w # xs) = w # entries xs"
  "entries (xs @ ys) = entries xs @ entries ys"
  by (simp_all add: entries_def)

declare resolve_strs.simps [simp del]

lemma back_to_entry_le: "back_to_entry xs j \<le> j"
  by (induction j) auto

lemma entries_back:
  "n < length xs \<Longrightarrow> entries ((take (Suc n) xs)[back_to_entry xs n := None]) = butlast (entries (take (Suc n) xs))"
proof (induction n)
  case 0
  then show ?case by (cases xs; cases "hd xs") auto
next
  case (Suc n)
  have t: "take (Suc (Suc n)) xs = take (Suc n) xs @ [xs ! Suc n]"
    using Suc.prems by (simp add: take_Suc_conv_app_nth)
  have l: "length (take (Suc n) xs) = Suc n" using Suc.prems by simp
  show ?case
  proof (cases "xs ! Suc n")
    case None
    have "back_to_entry xs n \<le> n" by (rule back_to_entry_le)
    with None Suc show ?thesis
      by (simp add: t l list_update_append1 del: take_Suc_Cons)
  next
    case (Some w)
    then show ?thesis using l by (simp add: t list_update_append butlast_append)
  qed
qed

lemma resolve_strs_entries:
  "n + length cs = length xs \<Longrightarrow> drop n xs = map Some cs \<Longrightarrow>
   entries (resolve_strs xs n) = resolve_components (entries (take n xs)) cs"
proof (induction cs arbitrary: xs n)
  case Nil
  then show ?case by (subst resolve_strs.simps) simp
next
  case (Cons c cs)
  have n: "n < length xs" and xn: "xs ! n = Some c" and d: "drop (Suc n) xs = map Some cs"
    using Cons.prems Cons_nth_drop_Suc [of n xs] by auto
  have t: "take (Suc n) xs = take n xs @ [Some c]"
    using n xn by (simp add: take_Suc_conv_app_nth)
  consider "c = [] \<or> c = ''.''" | "c = ''..''" | "c \<noteq> []" "c \<noteq> ''.''" "c \<noteq> ''..''" by blast
  then show ?case
  proof cases
    case 1
    let ?xs = "xs[n := None]"
    have "entries (resolve_strs ?xs (Suc n)) = resolve_components (entries (take (Suc n) ?xs)) cs"
      using Cons.prems d n by (intro Cons.IH) auto
    moreover have "take (Suc n) ?xs = take n xs @ [None]"
      using n by (simp add: take_Suc_conv_app_nth)
    ultimately show ?thesis
      using 1 n xn by (subst resolve_strs.simps) auto
  next
    case 2
    let ?xs = "xs[n := None]"
    let ?j = "back_to_entry ?xs n"
    let ?ys = "?xs[?j := None]"
    have j: "?j \<le> n" by (rule back_to_entry_le)
    have "entries (resolve_strs ?ys (Suc n)) = resolve_components (entries (take (Suc n) ?ys)) cs"
      using Cons.prems d n j by (intro Cons.IH) (auto simp: drop_update_cancel)
    moreover have "entries (take (Suc n) ?ys) = butlast (entries (take n xs))"
    proof -
      have "entries (take (Suc n) ?ys) = butlast (entries (take (Suc n) ?xs))"
        using entries_back [of n ?xs] n by (simp add: take_update_swap)
      also have "take (Suc n) ?xs = take n xs @ [None]"
        using n by (simp add: take_Suc_conv_app_nth)
      finally show ?thesis by simp
    qed
    ultimately show ?thesis
      using 2 n xn by (subst resolve_strs.simps) (simp add: Let_def)
  next
    case 3
    have "entries (resolve_strs xs (Suc n)) = resolve_components (entries (take (Suc n) xs)) cs"
      using Cons.prems d n by (intro Cons.IH) auto
    then show ?thesis
      using 3 n xn t by (subst resolve_strs.simps) simp
  qed
qed

lemma concat_entries:
  "concat (map (\<lambda>s. case s of None \<Rightarrow> [] | Some w \<Rightarrow> slash # w) xs) = concat (map ((#) slash) (entries xs))"
  by (induction xs) (auto split: option.splits)

lemma concat_slash_join: "ws \<noteq> [] \<Longrightarrow> concat (map ((#) slash) ws) = slash # join_path ws"
  by (induction ws rule: join_path.induct) auto

lemma resolve_symlink_eq:
  assumes "strrchr path slash = Some p" and "c_at symlink 0 \<noteq> slash"
  shows "gnome_vfs_resolve_symlink b path symlink =
         slash # join_path (resolve_components [] (split_slash (b (take p path) symlink)))"
proof -
  let ?cs = "split_slash (b (take p path) symlink)"
  have "entries (resolve_strs (map Some ?cs) 0) = resolve_components [] ?cs"
    using resolve_strs_entries [of 0 ?cs "map Some ?cs"] by simp
  then show ?thesis
    using assms concat_slash_join
    by (cases "resolve_components [] ?cs = []")
       (simp_all add: gnome_vfs_resolve_symlink_def Let_def concat_entries)
qed

definition clean_component :: "string \<Rightarrow> bool" where
  "clean_component c \<longleftrightarrow> c \<noteq> [] \<and> c \<noteq> ''.'' \<and> c \<noteq> ''..''"

lemma resolve_components_clean:
  "list_all clean_component st \<Longrightarrow> list_all clean_component (resolve_components st cs)"
proof (induction cs arbitrary: st)
  case (Cons c cs)
  let ?st = "if c = [] \<or> c = ''.'' then st else if c = ''..'' then butlast st else st @ [c]"
  have "list_all clean_component ?st"
    using Cons.prems by (auto simp: clean_component_def list_all_iff dest: in_set_butlastD)
  then have "list_all clean_component (resolve_components ?st cs)" by (rule Cons.IH)
  moreover have "resolve_components st (c # cs) = resolve_components ?st cs" by simp
  ultimately show ?case by (simp only:)
qed simp

lemma resolve_components_filter:
  "resolve_components st (filter (\<lambda>w. w \<noteq> []) cs) = resolve_components st cs"
  by (induction cs arbitrary: st) simp_all

lemma split_slash_ne: "split_slash s \<noteq> []"
  by (cases s) (auto split: list.splits)

lemma split_slash_no_slash: "w \<in> set (split_slash s) \<Longrightarrow> slash \<notin> set w"
proof (induction s arbitrary: w)
  case (Cons c s)
  then show ?case by (cases "split_slash s") (auto split: if_splits)
qed simp

lemma split_slash_append: "split_slash (s @ slash # t) = split_slash s @ split_slash t"
proof (induction s)
  case (Cons c s)
  then show ?case using split_slash_ne [of s] by (auto split: list.splits)
qed simp

lemma canonicalize_loop_root_dotdot:
  assumes "is_component c" "c \<noteq> ''.''" "c \<noteq> ''..''"
  shows "gnome_vfs_canonicalize_pathname (Some (''/../'' @ c)) = c"
proof -
  let ?p = "''/../'' @ c"
  have "canonicalize_loop ?p 0 = canonicalize_loop ?p 1"
    by (subst canonicalize_loop.simps) (simp add: find_next_slash_def collapse_slash_runs_def)
  also have "\<dots> = canonicalize_loop (collapse_slash_runs c 0) 0"
    by (subst canon_pop [where e = slash])
       (simp_all add: dotdot_marker_def find_slash_before_offset_eq)
  also have "collapse_slash_runs c 0 = c"
    using assms(1) component_hd_not_slash [OF assms(1)]
    by (cases c) (simp_all add: collapse_slash_runs_def)
  also have "canonicalize_loop c 0 = c"
    using canon_name_end [OF assms, of "[]"] by simp
  finally show ?thesis by (simp add: gnome_vfs_canonicalize_pathname_def)
qed

section \<open>Properties\<close>

text \<open>
  C6. For an absolute path whose dot-dot components never climb above the root, the
  in-place canonicaliser computes what a stack of components computes; the result holds
  no empty, dot or dot-dot component and canonicalising it again changes nothing.
\<close>

theorem canonicalize_absolute:
  assumes "list_all is_component cs" and "normalize_components [] cs = Some r"
  shows "gnome_vfs_canonicalize_pathname (Some (slash # join_path cs)) = slash # join_path r
       \<and> gnome_vfs_canonicalize_pathname (Some (slash # join_path r)) = slash # join_path r
       \<and> list_all is_component r \<and> ''.'' \<notin> set r \<and> ''..'' \<notin> set r"
  using canonicalize_absolute_parts [OF assms] by (intro conjI) simp_all

theorem canonicalize_absolute_witness:
  "gnome_vfs_canonicalize_pathname (Some ''/a/./b/../c'') = ''/a/c''"
  using canonicalize_absolute [of "[''a'', ''.'', ''b'', ''..'', ''c'']" "[''a'', ''c'']"]
  by (simp add: is_component_def NUL_def)

text \<open>
  A dot-dot directly below the root makes the canonicaliser drop the leading slash, so
  an absolute path becomes a relative one.
\<close>

theorem canonicalize_root_dotdot:
  assumes "is_component c" "c \<noteq> ''.''" "c \<noteq> ''..''"
  shows "gnome_vfs_canonicalize_pathname (Some (''/../'' @ c)) = c
       \<and> g_path_is_absolute (''/../'' @ c) \<and> \<not> g_path_is_absolute c"
  using canonicalize_loop_root_dotdot [OF assms] component_hd_not_slash [OF assms(1)] assms(1)
  by (cases c) (auto simp: g_path_is_absolute_def is_component_def)

theorem canonicalize_root_dotdot_witness:
  "gnome_vfs_canonicalize_pathname (Some ''/../etc'') = ''etc''"
  using canonicalize_root_dotdot [of "''etc''"] by (simp add: is_component_def NUL_def)

text \<open>
  C26. Turning an absolute local path into a file URI and back gives the path itself,
  whatever bytes it contains.
\<close>

theorem local_path_roundtrip:
  assumes "is_cstring p" and "g_path_is_absolute p"
  shows "gnome_vfs_get_local_path_from_uri (gnome_vfs_get_uri_from_local_path (Some p)) = Some p"
  by (rule local_path_roundtrip_aux [OF assms])

theorem local_path_roundtrip_witness:
  "gnome_vfs_get_local_path_from_uri (gnome_vfs_get_uri_from_local_path (Some ''/a b#c%20'')) =
     Some ''/a b#c%20''"
  by (rule local_path_roundtrip) (simp_all add: g_path_is_absolute_def NUL_def)

text \<open>
  C25. A relative link target is resolved against the directory of the link: the array of
  pieces with its NULL marks computes the component stack in which dot-dot pops (and stops
  at the root), and the result is an absolute path without empty, dot or dot-dot pieces.
  \<^verbatim>\<open>g_build_filename\<close> is only assumed to join its arguments with separators.
\<close>

theorem resolve_symlink_stack:
  assumes "strrchr path slash = Some p" and "c_at symlink 0 \<noteq> slash"
    and "filter (\<lambda>w. w \<noteq> []) (split_slash (b (take p path) symlink)) =
         filter (\<lambda>w. w \<noteq> []) (split_slash (take p path) @ split_slash symlink)"
  shows "\<exists>r. r = resolve_components [] (split_slash (take p path) @ split_slash symlink)
           \<and> gnome_vfs_resolve_symlink b path symlink = slash # join_path r
           \<and> list_all clean_component r"
proof -
  let ?r = "resolve_components [] (split_slash (take p path) @ split_slash symlink)"
  have "resolve_components [] (split_slash (b (take p path) symlink)) = ?r"
    by (metis assms(3) resolve_components_filter)
  then have "gnome_vfs_resolve_symlink b path symlink = slash # join_path ?r"
    using resolve_symlink_eq [OF assms(1,2), of b] by simp
  moreover have "list_all clean_component ?r"
    by (rule resolve_components_clean) simp
  ultimately show ?thesis by blast
qed

theorem resolve_symlink_stack_witness:
  "gnome_vfs_resolve_symlink (\<lambda>d f. d @ ''/'' @ f) ''/usr/lib/x'' ''../share/y'' = ''/usr/share/y''"
  using resolve_symlink_stack [of "''/usr/lib/x''" 8 "''../share/y''" "\<lambda>d f. d @ ''/'' @ f"]
  by simp

end
