(* ===== verification/VFS_URI.thy ===== *)
theory VFS_URI
  imports VFS_Path
begin

text \<open>
  URIs (\<^verbatim>\<open>libgnomevfs/gnome-vfs-uri.c\<close>): the chained URI objects, the parser and the printer,
  parents and children, comparison, relative references and URI lists.
\<close>

section \<open>The environment\<close>

text \<open>
  What the URI code asks the rest of the library: \<open>env_method_get\<close> is
  \<^verbatim>\<open>gnome_vfs_method_get\<close> (the modules found at run time; a method is named by a number),
  \<open>env_transform\<close> is the outcome of \<^verbatim>\<open>gnome_vfs_transform_get\<close> and of running the transform
  (\<open>None\<close>: no transform or no new text), \<open>env_oob\<close> the bytes behind the character table.
\<close>

record vfs_env =
  env_method_get :: "string \<Rightarrow> nat option"
  env_transform :: "string \<Rightarrow> string \<Rightarrow> string option"
  env_oob :: "nat \<Rightarrow> bool"

section \<open>URIs\<close>

text \<open>
  A \<^verbatim>\<open>GnomeVFSURI\<close> is an element with a parent pointer; the element without a parent is a
  \<^verbatim>\<open>GnomeVFSToplevelURI\<close> and also carries host, port, user and password. The \<^verbatim>\<open>urn\<close> field
  is written and never read by the library, and is left out.
\<close>

record uri_element =
  elem_text :: "string option"
  fragment_id :: "string option"
  method_string :: string
  uri_method :: "nat option"
  ref_count :: guint

record toplevel_info =
  host_name :: "string option"
  host_port :: guint
  user_name :: "string option"
  password :: "string option"

datatype GnomeVFSURI =
    Toplevel (uri_elem: uri_element) (uri_top: toplevel_info)
  | Child (uri_elem: uri_element) (uri_parent: GnomeVFSURI)

section \<open>Splitting host, user, port and password\<close>

text \<open>
  The scanner works on a buffer and an end position; what follows the end (a fragment, or
  the terminator) is still in the buffer and is read by some comparisons.
\<close>

function uri_strspn_to :: "string \<Rightarrow> nat \<Rightarrow> string \<Rightarrow> nat \<Rightarrow> nat option" where
  "uri_strspn_to buf cur chrs path_end =
     (if cur < path_end \<and> \<not> (c_at buf cur \<in> set chrs \<or> c_at buf cur = NUL)
      then uri_strspn_to buf (cur + 1) chrs path_end
      else if cur \<ge> path_end \<or> c_at buf cur = NUL then None
      else Some cur)"
  by pat_completeness auto
termination
  by (relation "measure (\<lambda>(buf, cur, chrs, path_end). path_end - cur)") auto

definition URI_DELIMITER_ALL_SET :: string where "URI_DELIMITER_ALL_SET = '':@]/''"
definition URI_DELIMITER_USER_SET :: string where "URI_DELIMITER_USER_SET = ''@/''"
definition URI_DELIMITER_HOST_SET :: string where "URI_DELIMITER_HOST_SET = '':/''"
definition URI_DELIMITER_IPV6_SET :: string where "URI_DELIMITER_IPV6_SET = '']/''"

definition buf_is :: "string \<Rightarrow> nat option \<Rightarrow> char \<Rightarrow> bool" where
  "buf_is buf cur c \<longleftrightarrow> (case cur of None \<Rightarrow> False | Some k \<Rightarrow> c_at buf k = c)"

definition substring :: "string \<Rightarrow> nat \<Rightarrow> nat \<Rightarrow> string" where
  "substring buf from to = take (to - from) (drop from buf)"

text \<open>The first delimiter, with the look-ahead for IPv6 addresses in brackets.\<close>

definition split_first_delimiter :: "string \<Rightarrow> nat \<Rightarrow> nat option" where
  "split_first_delimiter buf path_end =
     (let cur0 = uri_strspn_to buf 0 URI_DELIMITER_ALL_SET path_end;
          cur1 =
            (if buf_is buf cur0 colon then
               (let tmp = uri_strspn_to buf 0 URI_DELIMITER_USER_SET path_end
                in if \<not> buf_is buf tmp (CHR ''@'') then
                     (let tmp' = uri_strspn_to buf 0 URI_DELIMITER_IPV6_SET path_end
                      in if buf_is buf tmp' (CHR '']'') then tmp' else cur0)
                   else cur0)
             else cur0)
      in case cur1 of
           None \<Rightarrow> None
         | Some k \<Rightarrow> if c_at buf k = CHR '']''
                     then uri_strspn_to buf k URI_DELIMITER_HOST_SET path_end else cur1)"

text \<open>
  The user and password part. The result is the start of the current token, the current
  position, the user and the password; \<open>None\<close> is the jump to \<^verbatim>\<open>done\<close> without success.
\<close>

definition split_password ::
    "string \<Rightarrow> nat \<Rightarrow> nat \<Rightarrow> (nat \<times> string option) option" where
  "split_password buf path_end k =
     (if c_at buf k = colon then
        (if path_end = k + 1 then None
         else (case uri_strspn_to buf (k + 1) URI_DELIMITER_USER_SET path_end of
                 None \<Rightarrow> None
               | Some j \<Rightarrow>
                   if c_at buf j \<noteq> CHR ''@'' then None
                   else if j - (k + 1) > 0
                     then Some (j, gnome_vfs_unescape_string (Some (substring buf (k + 1) j)) None)
                   else Some (j, None)))
      else Some (k, None))"

definition split_user_password ::
    "string \<Rightarrow> nat \<Rightarrow> nat \<Rightarrow> (nat \<times> nat option \<times> string option \<times> string option) option" where
  "split_user_password buf path_end k =
     (let user = (if k > 0 then gnome_vfs_unescape_string (Some (substring buf 0 k)) None else None)
      in case split_password buf path_end k of
           None \<Rightarrow> None
         | Some (j, pw) \<Rightarrow>
             if c_at buf j \<noteq> slash then
               (if path_end = j + 1 then None
                else
                  (let cur = uri_strspn_to buf (j + 1) URI_DELIMITER_IPV6_SET path_end
                   in Some (j + 1,
                        (case cur of
                           Some i \<Rightarrow> if c_at buf i = CHR '']''
                                       then uri_strspn_to buf i URI_DELIMITER_HOST_SET path_end
                                       else uri_strspn_to buf (j + 1) URI_DELIMITER_HOST_SET path_end
                         | None \<Rightarrow> uri_strspn_to buf (j + 1) URI_DELIMITER_HOST_SET path_end),
                        user, pw)))
             else Some (j, Some j, user, pw))"

function scan_port :: "string \<Rightarrow> nat \<Rightarrow> nat \<Rightarrow> guint \<Rightarrow> nat \<times> guint" where
  "scan_port buf path_end cur port =
     (if cur < path_end \<and> g_ascii_isdigit (c_at buf cur)
      then scan_port buf path_end (cur + 1) (port * 10 + of_nat (code (c_at buf cur) - 48))
      else (cur, port))"
  by pat_completeness auto
termination
  by (relation "measure (\<lambda>(buf, path_end, cur, port). path_end - cur)") auto

text \<open>The host and port part: host as found, port, and the returned path.\<close>

definition split_host_port ::
    "string \<Rightarrow> nat \<Rightarrow> nat \<Rightarrow> nat option \<Rightarrow> (string option \<times> guint \<times> string option) option" where
  "split_host_port buf path_end tok cur =
     (case cur of
        None \<Rightarrow>
          if path_end - tok > 0
          then Some (Some (substring buf tok path_end), 0,
                     if c_at buf (path_end - 1) = slash then Some ''/'' else Some [])
          else None
      | Some k \<Rightarrow>
          if c_at buf k = colon then
            (if k - tok > 0 then
               (if path_end = k + 1 then None
                else
                  (let (c, port) = scan_port buf path_end (k + 1) 0;
                       host = Some (substring buf tok k)
                   in if c_at buf c \<noteq> NUL \<and> c_at buf c \<noteq> slash then None
                      else if port > 0xffff then None
                      else Some (host, port,
                             if c_at buf c \<noteq> NUL \<and> path_end - c > 0
                             then Some (substring buf c path_end) else Some ''/'')))
             else None)
          else
            (let host = (if k - tok > 0 then Some (substring buf tok k) else None)
             in Some (host, 0,
                  if c_at buf k \<noteq> NUL \<and> path_end - k > 0 then Some (substring buf k path_end)
                  else if host \<noteq> None then Some ''/'' else None)))"

definition finish_host :: "string \<Rightarrow> string" where
  "finish_host h =
     (if strchr h (CHR ''['') \<noteq> None \<and> strchr h (CHR '']'') \<noteq> None \<and> strchr h colon \<noteq> None
      then g_ascii_strdown (take (length h - 2) (drop 1 h))
      else g_ascii_strdown h)"

text \<open>The returned text and the toplevel fields; on failure everything is discarded.\<close>

definition empty_toplevel :: toplevel_info where
  "empty_toplevel = \<lparr>host_name = None, host_port = 0, user_name = None, password = None\<rparr>"

definition split_toplevel_uri :: "string \<Rightarrow> nat \<Rightarrow> string option \<times> toplevel_info" where
  "split_toplevel_uri path path_len =
     (if path_len = 0 then (Some ''/'', empty_toplevel)
      else
        (let cur = split_first_delimiter path path_len;
             next_delimiter = (case cur of None \<Rightarrow> None
                               | Some k \<Rightarrow> uri_strspn_to path k URI_DELIMITER_USER_SET path_len);
             stage =
               (case cur of
                  None \<Rightarrow> Some (0, None, None, None)
                | Some k \<Rightarrow>
                    if c_at path k = CHR ''@''
                       \<or> (next_delimiter \<noteq> None \<and> \<not> buf_is path next_delimiter slash)
                    then split_user_password path path_len k
                    else Some (0, Some k, None, None))
         in case stage of
              None \<Rightarrow> (None, empty_toplevel)
            | Some (tok, cur', user, pw) \<Rightarrow>
                (case split_host_port path path_len tok cur' of
                   None \<Rightarrow> (None, empty_toplevel)
                 | Some (host, port, ret) \<Rightarrow>
                     (ret, \<lparr>host_name = map_option finish_host host, host_port = port,
                            user_name = user, password = pw\<rparr>))))"

section \<open>Building URIs\<close>

definition keeps_query_characters :: "string \<Rightarrow> bool" where
  "keeps_query_characters ms \<longleftrightarrow>
     ms \<in> {''http'', ''https'', ''dav'', ''davs'', ''ghelp'', ''gnome-help'', ''help''}"

text \<open>The rewriting every element's text goes through once it has been cut out.\<close>

definition normalize_text :: "vfs_env \<Rightarrow> string \<Rightarrow> string option \<Rightarrow> string option" where
  "normalize_text env ms t =
     (let t1 = (if \<not> keeps_query_characters ms then gnome_vfs_escape_set t (Some '';?&=+$,'') else t);
          t2 = snd (gnome_vfs_remove_optional_escapes (env_oob env) t1)
      in map_option (\<lambda>s. gnome_vfs_canonicalize_pathname (Some s)) t2)"

definition set_uri_element_toplevel ::
    "vfs_env \<Rightarrow> uri_element \<Rightarrow> string \<Rightarrow> nat \<Rightarrow> GnomeVFSURI" where
  "set_uri_element_toplevel env e txt len =
     (if len = 0 then Toplevel (e\<lparr>elem_text := Some ''/''\<rparr>) empty_toplevel
      else if c_at txt 0 = slash \<and> c_at txt 1 = slash then
        (let (t, tinfo) = split_toplevel_uri (drop 2 txt) (len - 2)
         in Toplevel (e\<lparr>elem_text := normalize_text env (method_string e) t\<rparr>) tinfo)
      else Toplevel (e\<lparr>elem_text := normalize_text env (method_string e) (Some (take len txt))\<rparr>) empty_toplevel)"

definition set_uri_element_child ::
    "vfs_env \<Rightarrow> uri_element \<Rightarrow> GnomeVFSURI \<Rightarrow> string \<Rightarrow> nat \<Rightarrow> GnomeVFSURI" where
  "set_uri_element_child env e parent txt len =
     (if len = 0 then Child (e\<lparr>elem_text := Some ''/''\<rparr>) parent
      else Child (e\<lparr>elem_text := normalize_text env (method_string e) (Some (take len txt))\<rparr>) parent)"

definition is_scheme_char :: "char \<Rightarrow> bool" where
  "is_scheme_char c \<longleftrightarrow> g_ascii_isalnum c \<or> c = CHR ''+'' \<or> c = CHR ''-'' \<or> c = dot"

text \<open>The method string and the text after it.\<close>

definition get_method_string :: "string \<Rightarrow> string \<times> string" where
  "get_method_string substr =
     (let p = length (takeWhile is_scheme_char substr)
      in if c_at substr p = colon then (g_ascii_strdown (take p substr), drop (p + 1) substr)
         else (''file'', substr))"

lemma get_method_string_length: "length (snd (get_method_string s)) \<le> length s"
  by (simp add: get_method_string_def Let_def)

definition new_element :: "string \<Rightarrow> nat option \<Rightarrow> uri_element" where
  "new_element ms m =
     \<lparr>elem_text = None, fragment_id = None, method_string = ms, uri_method = m, ref_count = 1\<rparr>"

fun set_fragment :: "string \<Rightarrow> GnomeVFSURI \<Rightarrow> GnomeVFSURI" where
  "set_fragment f (Toplevel e t) = Toplevel (e\<lparr>fragment_id := Some f\<rparr>) t"
| "set_fragment f (Child e p) = Child (e\<lparr>fragment_id := Some f\<rparr>) p"

function parse_uri_substring :: "vfs_env \<Rightarrow> string \<Rightarrow> GnomeVFSURI \<Rightarrow> GnomeVFSURI option" where
  "parse_uri_substring env substr parent =
     (if c_at substr 0 = NUL then None
      else
        (let (ms, method_scanner) = get_method_string substr
         in case env_method_get env ms of
              None \<Rightarrow> None
            | Some m \<Rightarrow>
                (case strchr method_scanner hash of
                   None \<Rightarrow> Some (set_uri_element_child env (new_element ms (Some m)) parent
                                     method_scanner (length method_scanner))
                 | Some ext \<Rightarrow>
                     (let uri = set_uri_element_child env (new_element ms (Some m)) parent method_scanner ext
                      in if strchr (drop ext method_scanner) colon = None
                         then Some (set_fragment (drop (ext + 1) method_scanner) uri)
                         else (case parse_uri_substring env (drop (ext + 1) method_scanner) uri of
                                 None \<Rightarrow> Some uri
                               | Some child \<Rightarrow> Some child)))))"
  by pat_completeness auto
termination
proof (relation "measure (\<lambda>(env, substr, parent). length substr)", goal_cases)
  case 1
  show ?case by simp
next
  case (2 env substr parent p ms method_scanner m ext uri)
  have "length method_scanner \<le> length substr"
    using 2 get_method_string_length [of substr] by (simp add: prod_eq_iff)
  moreover have "ext < length method_scanner"
    using 2 strchr_SomeD by fastforce
  ultimately show ?case by auto
qed

declare parse_uri_substring.simps [simp del]
declare uri_strspn_to.simps [simp del]
declare scan_port.simps [simp del]

definition gnome_vfs_uri_new_private ::
    "vfs_env \<Rightarrow> string option \<Rightarrow> bool \<Rightarrow> bool \<Rightarrow> bool \<Rightarrow> GnomeVFSURI option" where
  "gnome_vfs_uri_new_private env text_uri allow_unknown_methods allow_unsafe_methods allow_transforms =
     (case text_uri of
        None \<Rightarrow> None
      | Some txt \<Rightarrow>
          if c_at txt 0 = NUL then None
          else
            (let (ms0, scanner0) = get_method_string txt
             in if ms0 = ''pipe'' \<and> \<not> allow_unsafe_methods then None
                else
                  (let (ms, method_scanner) =
                         (case (if allow_transforms then env_transform env ms0 scanner0 else None) of
                            None \<Rightarrow> (ms0, scanner0)
                          | Some new_uri_string \<Rightarrow> get_method_string new_uri_string);
                       m = env_method_get env ms;
                       e = new_element ms m
                   in if m = None \<and> \<not> allow_unknown_methods then None
                      else
                        (case strchr method_scanner hash of
                           None \<Rightarrow> Some (set_uri_element_toplevel env e method_scanner (length method_scanner))
                         | Some ext \<Rightarrow>
                             (let uri = set_uri_element_toplevel env e method_scanner ext
                              in if strchr (drop ext method_scanner) colon = None
                                 then Some (set_fragment (drop (ext + 1) method_scanner) uri)
                                 else (case parse_uri_substring env (drop (ext + 1) method_scanner) uri of
                                         None \<Rightarrow> Some uri
                                       | Some child \<Rightarrow> Some child))))))"

definition gnome_vfs_uri_new :: "vfs_env \<Rightarrow> string option \<Rightarrow> GnomeVFSURI option" where
  "gnome_vfs_uri_new env text_uri = gnome_vfs_uri_new_private env text_uri False False True"


section \<open>Reference counts, copies and parts\<close>

fun map_elements :: "(uri_element \<Rightarrow> uri_element) \<Rightarrow> GnomeVFSURI \<Rightarrow> GnomeVFSURI" where
  "map_elements f (Toplevel e t) = Toplevel (f e) t"
| "map_elements f (Child e p) = Child (f e) (map_elements f p)"

fun uri_elements :: "GnomeVFSURI \<Rightarrow> uri_element list" where
  "uri_elements (Toplevel e t) = [e]"
| "uri_elements (Child e p) = e # uri_elements p"

definition gnome_vfs_uri_ref :: "GnomeVFSURI \<Rightarrow> GnomeVFSURI" where
  "gnome_vfs_uri_ref uri = map_elements (\<lambda>p. p\<lparr>ref_count := ref_count p + 1\<rparr>) uri"

text \<open>
  Unreferencing walks the chain, decrements every count and destroys the elements whose
  count reaches zero. The result is the chain with its new counts and the destroyed
  elements in order; \<open>None\<close> is a failed assertion on a count that is already zero.
\<close>

fun unref_loop :: "GnomeVFSURI \<Rightarrow> (GnomeVFSURI \<times> uri_element list) option" where
  "unref_loop (Toplevel e t) =
     (if ref_count e = 0 then None
      else let e' = e\<lparr>ref_count := ref_count e - 1\<rparr>
           in Some (Toplevel e' t, if ref_count e' = 0 then [e'] else []))"
| "unref_loop (Child e p) =
     (if ref_count e = 0 then None
      else let e' = e\<lparr>ref_count := ref_count e - 1\<rparr>
           in case unref_loop p of
                None \<Rightarrow> None
              | Some (p', destroyed) \<Rightarrow>
                  Some (Child e' p', (if ref_count e' = 0 then [e'] else []) @ destroyed))"

definition gnome_vfs_uri_unref :: "GnomeVFSURI \<Rightarrow> (GnomeVFSURI \<times> uri_element list) option" where
  "gnome_vfs_uri_unref uri =
     (if ref_count (uri_elem uri) = 0 then Some (uri, []) else unref_loop uri)"

definition gnome_vfs_uri_dup :: "GnomeVFSURI \<Rightarrow> GnomeVFSURI" where
  "gnome_vfs_uri_dup uri = map_elements (\<lambda>p. p\<lparr>ref_count := 1\<rparr>) uri"

fun gnome_vfs_uri_get_toplevel :: "GnomeVFSURI \<Rightarrow> toplevel_info" where
  "gnome_vfs_uri_get_toplevel (Toplevel e t) = t"
| "gnome_vfs_uri_get_toplevel (Child e p) = gnome_vfs_uri_get_toplevel p"

fun set_toplevel :: "(toplevel_info \<Rightarrow> toplevel_info) \<Rightarrow> GnomeVFSURI \<Rightarrow> GnomeVFSURI" where
  "set_toplevel f (Toplevel e t) = Toplevel e (f t)"
| "set_toplevel f (Child e p) = Child e (set_toplevel f p)"

definition gnome_vfs_uri_get_host_name :: "GnomeVFSURI \<Rightarrow> string option" where
  "gnome_vfs_uri_get_host_name uri = host_name (gnome_vfs_uri_get_toplevel uri)"

definition gnome_vfs_uri_get_scheme :: "GnomeVFSURI \<Rightarrow> string" where
  "gnome_vfs_uri_get_scheme uri = method_string (uri_elem uri)"

definition gnome_vfs_uri_get_host_port :: "GnomeVFSURI \<Rightarrow> guint" where
  "gnome_vfs_uri_get_host_port uri = host_port (gnome_vfs_uri_get_toplevel uri)"

definition gnome_vfs_uri_get_user_name :: "GnomeVFSURI \<Rightarrow> string option" where
  "gnome_vfs_uri_get_user_name uri = user_name (gnome_vfs_uri_get_toplevel uri)"

definition gnome_vfs_uri_get_password :: "GnomeVFSURI \<Rightarrow> string option" where
  "gnome_vfs_uri_get_password uri = password (gnome_vfs_uri_get_toplevel uri)"

definition gnome_vfs_uri_set_host_name :: "GnomeVFSURI \<Rightarrow> string option \<Rightarrow> GnomeVFSURI" where
  "gnome_vfs_uri_set_host_name uri h = set_toplevel (\<lambda>t. t\<lparr>host_name := h\<rparr>) uri"

definition gnome_vfs_uri_set_host_port :: "GnomeVFSURI \<Rightarrow> guint \<Rightarrow> GnomeVFSURI" where
  "gnome_vfs_uri_set_host_port uri p = set_toplevel (\<lambda>t. t\<lparr>host_port := p\<rparr>) uri"

definition gnome_vfs_uri_set_user_name :: "GnomeVFSURI \<Rightarrow> string option \<Rightarrow> GnomeVFSURI" where
  "gnome_vfs_uri_set_user_name uri u = set_toplevel (\<lambda>t. t\<lparr>user_name := u\<rparr>) uri"

definition gnome_vfs_uri_set_password :: "GnomeVFSURI \<Rightarrow> string option \<Rightarrow> GnomeVFSURI" where
  "gnome_vfs_uri_set_password uri p = set_toplevel (\<lambda>t. t\<lparr>password := p\<rparr>) uri"

definition gnome_vfs_uri_get_path :: "GnomeVFSURI \<Rightarrow> string option" where
  "gnome_vfs_uri_get_path uri = elem_text (uri_elem uri)"

definition gnome_vfs_uri_get_fragment_identifier :: "GnomeVFSURI \<Rightarrow> string option" where
  "gnome_vfs_uri_get_fragment_identifier uri = fragment_id (uri_elem uri)"

section \<open>Printing\<close>

definition GNOME_VFS_URI_HIDE_NONE :: guint where "GNOME_VFS_URI_HIDE_NONE = 0"
definition GNOME_VFS_URI_HIDE_USER_NAME :: guint where "GNOME_VFS_URI_HIDE_USER_NAME = 1"
definition GNOME_VFS_URI_HIDE_PASSWORD :: guint where "GNOME_VFS_URI_HIDE_PASSWORD = 2"
definition GNOME_VFS_URI_HIDE_HOST_NAME :: guint where "GNOME_VFS_URI_HIDE_HOST_NAME = 4"
definition GNOME_VFS_URI_HIDE_HOST_PORT :: guint where "GNOME_VFS_URI_HIDE_HOST_PORT = 8"
definition GNOME_VFS_URI_HIDE_TOPLEVEL_METHOD :: guint where "GNOME_VFS_URI_HIDE_TOPLEVEL_METHOD = 16"
definition GNOME_VFS_URI_HIDE_FRAGMENT_IDENTIFIER :: guint where "GNOME_VFS_URI_HIDE_FRAGMENT_IDENTIFIER = 256"

lemmas hide_defs =
  GNOME_VFS_URI_HIDE_NONE_def GNOME_VFS_URI_HIDE_USER_NAME_def GNOME_VFS_URI_HIDE_PASSWORD_def
  GNOME_VFS_URI_HIDE_HOST_NAME_def GNOME_VFS_URI_HIDE_HOST_PORT_def
  GNOME_VFS_URI_HIDE_TOPLEVEL_METHOD_def GNOME_VFS_URI_HIDE_FRAGMENT_IDENTIFIER_def

definition escape_part :: "string \<Rightarrow> string" where
  "escape_part s = (case gnome_vfs_escape_string (Some s) of None \<Rightarrow> [] | Some t \<Rightarrow> t)"

definition host_to_string :: "string \<Rightarrow> string" where
  "host_to_string h = (if strchr h colon \<noteq> None then ''['' @ h @ '']'' else h)"

text \<open>What is printed for a toplevel element before its text.\<close>

definition toplevel_to_string :: "guint \<Rightarrow> uri_element \<Rightarrow> toplevel_info \<Rightarrow> string" where
  "toplevel_to_string hide_options e tinfo =
     (let str0 = method_string e @ '':'';
          str1 = (if user_name tinfo \<noteq> None \<or> host_name tinfo \<noteq> None
                     \<or> (case elem_text e of None \<Rightarrow> False | Some t \<Rightarrow> c_at t 0 = slash)
                  then str0 @ ''//'' else str0);
          str2 = (if (hide_options AND GNOME_VFS_URI_HIDE_TOPLEVEL_METHOD) \<noteq> 0 then [] else str1);
          show_user = (user_name tinfo \<noteq> None \<and> (hide_options AND GNOME_VFS_URI_HIDE_USER_NAME) = 0);
          str3 = (if show_user then str2 @ escape_part (the (user_name tinfo)) else str2);
          show_password = (password tinfo \<noteq> None \<and> (hide_options AND GNOME_VFS_URI_HIDE_PASSWORD) = 0);
          str4 = (if show_password then str3 @ '':'' @ escape_part (the (password tinfo)) else str3);
          str5 = (if show_user \<or> show_password then str4 @ ''@'' else str4);
          str6 = (if host_name tinfo \<noteq> None \<and> (hide_options AND GNOME_VFS_URI_HIDE_HOST_NAME) = 0
                  then str5 @ host_to_string (the (host_name tinfo)) else str5)
      in if host_port tinfo > 0 \<and> (hide_options AND GNOME_VFS_URI_HIDE_HOST_PORT) = 0
         then str6 @ '':'' @ decimal (unat (host_port tinfo)) else str6)"

definition text_and_fragment :: "guint \<Rightarrow> uri_element \<Rightarrow> string" where
  "text_and_fragment hide_options e =
     (case elem_text e of None \<Rightarrow> [] | Some t \<Rightarrow> t) @
     (case fragment_id e of None \<Rightarrow> []
      | Some f \<Rightarrow> if (hide_options AND GNOME_VFS_URI_HIDE_FRAGMENT_IDENTIFIER) = 0 then ''#'' @ f else [])"

fun gnome_vfs_uri_to_string :: "GnomeVFSURI \<Rightarrow> guint \<Rightarrow> string" where
  "gnome_vfs_uri_to_string (Toplevel e tinfo) hide_options =
     toplevel_to_string hide_options e tinfo @ text_and_fragment hide_options e"
| "gnome_vfs_uri_to_string (Child e p) hide_options =
     gnome_vfs_uri_to_string p hide_options @ ''#'' @
     method_string e @ '':'' @ text_and_fragment hide_options e"

section \<open>Parents\<close>

fun skip_trailing_slashes :: "string \<Rightarrow> nat \<Rightarrow> nat" where
  "skip_trailing_slashes t 0 = 0"
| "skip_trailing_slashes t (Suc p) = (if c_at t (Suc p) = slash then skip_trailing_slashes t p else Suc p)"

fun back_to_slash :: "string \<Rightarrow> nat \<Rightarrow> nat" where
  "back_to_slash t 0 = 0"
| "back_to_slash t (Suc p) = (if c_at t (Suc p) \<noteq> slash then back_to_slash t p else Suc p)"

fun back_over_slashes :: "string \<Rightarrow> nat \<Rightarrow> nat" where
  "back_over_slashes t 0 = 0"
| "back_over_slashes t (Suc p) =
     (if Suc p > 1 \<and> c_at t p = slash then back_over_slashes t p else Suc p)"

text \<open>The text of the parent, when the text has one.\<close>

definition parent_text :: "string \<Rightarrow> string option" where
  "parent_text t =
     (if strchr t slash = None then None
      else
        (let p = back_over_slashes t (back_to_slash t (skip_trailing_slashes t (length t - 1)))
         in if c_at t (p + 1) \<noteq> NUL
            then Some (if p = 0 then ''/'' else take p t)
            else None))"

fun with_text :: "string \<Rightarrow> GnomeVFSURI \<Rightarrow> GnomeVFSURI" where
  "with_text t (Toplevel e tinfo) = Toplevel (e\<lparr>elem_text := Some t, fragment_id := None\<rparr>) tinfo"
| "with_text t (Child e p) = Child (e\<lparr>elem_text := Some t, fragment_id := None\<rparr>) p"

definition gnome_vfs_uri_get_parent :: "GnomeVFSURI \<Rightarrow> GnomeVFSURI option" where
  "gnome_vfs_uri_get_parent uri =
     (case (case elem_text (uri_elem uri) of None \<Rightarrow> None | Some t \<Rightarrow> parent_text t) of
        Some t \<Rightarrow> Some (with_text t (gnome_vfs_uri_dup uri))
      | None \<Rightarrow> (case uri of Toplevel _ _ \<Rightarrow> None | Child _ p \<Rightarrow> Some (gnome_vfs_uri_dup p)))"

definition gnome_vfs_uri_has_parent :: "GnomeVFSURI \<Rightarrow> bool" where
  "gnome_vfs_uri_has_parent uri \<longleftrightarrow> gnome_vfs_uri_get_parent uri \<noteq> None"

definition gnome_vfs_uri_extract_dirname :: "GnomeVFSURI \<Rightarrow> string option" where
  "gnome_vfs_uri_extract_dirname uri =
     (case elem_text (uri_elem uri) of
        None \<Rightarrow> None
      | Some t \<Rightarrow> (case strrchr t slash of
                      None \<Rightarrow> Some ''/''
                    | Some base \<Rightarrow> if base = 0 then Some ''/'' else Some (take base t)))"

text \<open>
  The scan for the last run of non-separators: position, start of the last run, and its
  end (\<open>None\<close> while inside a run).
\<close>

fun short_name_scan :: "string \<Rightarrow> nat \<Rightarrow> nat option \<Rightarrow> nat option \<Rightarrow> nat option \<times> nat option" where
  "short_name_scan [] p start fin = (start, case fin of None \<Rightarrow> Some p | Some f \<Rightarrow> Some f)"
| "short_name_scan (c # cs) p start fin =
     (if c = slash then short_name_scan cs (p + 1) start (case fin of None \<Rightarrow> Some p | Some f \<Rightarrow> Some f)
      else (case fin of
              None \<Rightarrow> short_name_scan cs (p + 1) start None
            | Some f \<Rightarrow> short_name_scan cs (p + 1) (Some p) None))"

definition gnome_vfs_uri_extract_short_path_name :: "GnomeVFSURI \<Rightarrow> string option" where
  "gnome_vfs_uri_extract_short_path_name uri =
     (case elem_text (uri_elem uri) of
        None \<Rightarrow> None
      | Some t \<Rightarrow> (case short_name_scan t 0 None (Some 0) of
                      (Some st, Some fin) \<Rightarrow> Some (substring t st fin)
                    | _ \<Rightarrow> Some ''/''))"

definition gnome_vfs_uri_extract_short_name :: "GnomeVFSURI \<Rightarrow> string option" where
  "gnome_vfs_uri_extract_short_name uri =
     (let short_path_name = gnome_vfs_unescape_string (gnome_vfs_uri_extract_short_path_name uri) (Some ''/'')
      in if short_path_name \<noteq> None \<and> short_path_name \<noteq> Some ''/'' then short_path_name
         else (case gnome_vfs_uri_get_host_name uri of
                 Some h \<Rightarrow> if length h \<noteq> 0 then Some h
                           else if short_path_name \<noteq> None then short_path_name
                           else gnome_vfs_uri_get_path uri
               | None \<Rightarrow> if short_path_name \<noteq> None then short_path_name
                         else gnome_vfs_uri_get_path uri))"

section \<open>Comparison and hashing\<close>

definition string_match :: "string option \<Rightarrow> string option \<Rightarrow> bool" where
  "string_match a b =
     (if a = None \<or> a = Some [] then b = None \<or> b = Some []
      else if b = None then False
      else a = b)"

definition compare_elements :: "uri_element \<Rightarrow> uri_element \<Rightarrow> bool" where
  "compare_elements a b =
     (if \<not> string_match (elem_text a) (elem_text b)
         \<or> \<not> string_match (Some (method_string a)) (Some (method_string b)) then False
      else uri_method a = uri_method b)"

definition is_child :: "GnomeVFSURI \<Rightarrow> bool" where
  "is_child u = (case u of Toplevel _ _ \<Rightarrow> False | Child _ _ \<Rightarrow> True)"

text \<open>
  The loop over the non-toplevel elements compares the same two elements again and again:
  neither pointer is advanced. \<open>Some False\<close> is the early return, \<open>Some True\<close> leaving the
  loop, \<open>None\<close> running for ever.
\<close>

partial_function (option) equal_children_loop :: "GnomeVFSURI \<Rightarrow> GnomeVFSURI \<Rightarrow> bool option" where
  "equal_children_loop a b =
     (if is_child a \<and> is_child b then
        (if \<not> compare_elements (uri_elem a) (uri_elem b) then Some False
         else equal_children_loop a b)
      else Some True)"

declare equal_children_loop.simps [code]

definition toplevel_equal :: "toplevel_info \<Rightarrow> toplevel_info \<Rightarrow> bool" where
  "toplevel_equal a b \<longleftrightarrow>
     host_port a = host_port b \<and> string_match (host_name a) (host_name b)
     \<and> string_match (user_name a) (user_name b) \<and> string_match (password a) (password b)"

text \<open>\<open>same\<close> says whether the two pointers are the same.\<close>

definition gnome_vfs_uri_equal :: "bool \<Rightarrow> GnomeVFSURI \<Rightarrow> GnomeVFSURI \<Rightarrow> bool option" where
  "gnome_vfs_uri_equal same a b =
     (if same then Some True
      else (case equal_children_loop a b of
              None \<Rightarrow> None
            | Some False \<Rightarrow> Some False
            | Some True \<Rightarrow>
                Some (if is_child a \<or> is_child b then False
                      else if \<not> compare_elements (uri_elem a) (uri_elem b) then False
                      else toplevel_equal (uri_top a) (uri_top b))))"

definition hash_string :: "(string \<Rightarrow> guint) \<Rightarrow> string option \<Rightarrow> guint \<Rightarrow> guint" where
  "hash_string g_str_hash s v = (case s of None \<Rightarrow> v | Some t \<Rightarrow> v XOR g_str_hash t)"

fun hash_loop :: "(string \<Rightarrow> guint) \<Rightarrow> GnomeVFSURI \<Rightarrow> guint \<Rightarrow> guint" where
  "hash_loop g_str_hash (Toplevel e t) v =
     (let v1 = hash_string g_str_hash (elem_text e) v;
          v2 = hash_string g_str_hash (Some (method_string e)) v1;
          v3 = hash_string g_str_hash (host_name t) v2;
          v4 = v3 XOR host_port t;
          v5 = hash_string g_str_hash (user_name t) v4
      in hash_string g_str_hash (password t) v5)"
| "hash_loop g_str_hash (Child e p) v =
     (let v1 = hash_string g_str_hash (elem_text e) v;
          v2 = hash_string g_str_hash (Some (method_string e)) v1
      in hash_loop g_str_hash p v2)"

definition gnome_vfs_uri_hash :: "(string \<Rightarrow> guint) \<Rightarrow> GnomeVFSURI \<Rightarrow> guint" where
  "gnome_vfs_uri_hash g_str_hash uri = hash_loop g_str_hash uri 0"

section \<open>Appending\<close>

fun strip_last_slashes :: "string \<Rightarrow> nat \<Rightarrow> nat" where
  "strip_last_slashes s 0 = 0"
| "strip_last_slashes s (Suc len) = (if c_at s (Suc len) = slash then strip_last_slashes s len else Suc len)"

definition gnome_vfs_uri_append_string :: "vfs_env \<Rightarrow> GnomeVFSURI \<Rightarrow> string \<Rightarrow> GnomeVFSURI option" where
  "gnome_vfs_uri_append_string env uri uri_fragment =
     (let uri_string = gnome_vfs_uri_to_string uri GNOME_VFS_URI_HIDE_NONE
      in if length uri_string = 0 then gnome_vfs_uri_new env (Some uri_fragment)
         else
           (let len = strip_last_slashes uri_string (length uri_string - 1);
                base = take (len + 1) uri_string;
                frag = dropWhile (\<lambda>c. c = slash) uri_fragment
            in if c_at frag 0 \<noteq> hash then gnome_vfs_uri_new env (Some (base @ ''/'' @ frag))
               else gnome_vfs_uri_new env (Some (base @ frag))))"

definition gnome_vfs_uri_append_path :: "vfs_env \<Rightarrow> GnomeVFSURI \<Rightarrow> string \<Rightarrow> GnomeVFSURI option" where
  "gnome_vfs_uri_append_path env uri path =
     (case gnome_vfs_escape_path_string (Some path) of
        None \<Rightarrow> None | Some escaped_string \<Rightarrow> gnome_vfs_uri_append_string env uri escaped_string)"

definition gnome_vfs_uri_append_file_name :: "vfs_env \<Rightarrow> GnomeVFSURI \<Rightarrow> string \<Rightarrow> GnomeVFSURI option" where
  "gnome_vfs_uri_append_file_name env uri filename =
     (case gnome_vfs_escape_string (Some filename) of
        None \<Rightarrow> None | Some escaped_string \<Rightarrow> gnome_vfs_uri_append_string env uri escaped_string)"

definition gnome_vfs_uri_resolve_symbolic_link ::
    "(string \<Rightarrow> string \<Rightarrow> string) \<Rightarrow> GnomeVFSURI \<Rightarrow> string \<Rightarrow> GnomeVFSURI" where
  "gnome_vfs_uri_resolve_symbolic_link g_build_filename base symbolic_link =
     (let t = gnome_vfs_resolve_symlink g_build_filename
                (case gnome_vfs_uri_get_path base of None \<Rightarrow> ''/'' | Some p \<Rightarrow> p) symbolic_link
      in case gnome_vfs_uri_dup base of
           Toplevel e tinfo \<Rightarrow> Toplevel (e\<lparr>elem_text := Some t\<rparr>) tinfo
         | Child e p \<Rightarrow> Child (e\<lparr>elem_text := Some t\<rparr>) p)"

definition uri_matches_as_parent :: "vfs_env \<Rightarrow> GnomeVFSURI \<Rightarrow> GnomeVFSURI \<Rightarrow> bool option" where
  "uri_matches_as_parent env possible_parent parent =
     (if elem_text (uri_elem possible_parent) = None \<or> elem_text (uri_elem possible_parent) = Some [] then
        (case gnome_vfs_uri_append_string env possible_parent ''/'' of
           None \<Rightarrow> Some False
         | Some alternate \<Rightarrow> gnome_vfs_uri_equal False alternate parent)
      else gnome_vfs_uri_equal False possible_parent parent)"

lemma length_back: "back_over_slashes t p \<le> p" "back_to_slash t p \<le> p" "skip_trailing_slashes t p \<le> p"
  by (induction p) auto

lemma parent_text_shorter: "parent_text t = Some t' \<Longrightarrow> length t' < length t"
proof -
  assume a: "parent_text t = Some t'"
  define p where "p = back_over_slashes t (back_to_slash t (skip_trailing_slashes t (length t - 1)))"
  have "c_at t (p + 1) \<noteq> NUL" and t': "t' = (if p = 0 then ''/'' else take p t)"
    using a by (auto simp: parent_text_def Let_def p_def split: if_splits)
  then have "p + 1 < length t" using c_at_nonNUL by blast
  with t' show ?thesis by auto
qed

definition text_length :: "GnomeVFSURI \<Rightarrow> nat" where
  "text_length u = (case elem_text (uri_elem u) of None \<Rightarrow> 0 | Some t \<Rightarrow> length t)"

lemma length_uri_elements_dup [simp]: "length (uri_elements (gnome_vfs_uri_dup u)) = length (uri_elements u)"
proof -
  have "length (uri_elements (map_elements f u)) = length (uri_elements u)" for f
    by (induction u) auto
  then show ?thesis by (simp add: gnome_vfs_uri_dup_def)
qed

lemma with_text_simps [simp]:
  "length (uri_elements (with_text t u)) = length (uri_elements u)"
  "elem_text (uri_elem (with_text t u)) = Some t"
  by (cases u; simp)+

lemma get_parent_smaller:
  assumes "gnome_vfs_uri_get_parent u = Some v"
  shows "length (uri_elements v) < length (uri_elements u)
       \<or> length (uri_elements v) = length (uri_elements u) \<and> text_length v < text_length u"
proof (cases "case elem_text (uri_elem u) of None \<Rightarrow> None | Some t \<Rightarrow> parent_text t")
  case (Some t)
  then obtain t0 where "elem_text (uri_elem u) = Some t0" "parent_text t0 = Some t"
    by (auto split: option.splits)
  with Some assms parent_text_shorter show ?thesis
    by (auto simp: gnome_vfs_uri_get_parent_def text_length_def)
next
  case None
  with assms show ?thesis
    by (cases u) (auto simp: gnome_vfs_uri_get_parent_def)
qed

function is_parent_loop :: "vfs_env \<Rightarrow> GnomeVFSURI \<Rightarrow> GnomeVFSURI \<Rightarrow> bool option" where
  "is_parent_loop env possible_parent item =
     (case gnome_vfs_uri_get_parent item of
        None \<Rightarrow> Some False
      | Some item_parent_uri \<Rightarrow>
          (case uri_matches_as_parent env possible_parent item_parent_uri of
             None \<Rightarrow> None
           | Some True \<Rightarrow> Some True
           | Some False \<Rightarrow> is_parent_loop env possible_parent item_parent_uri))"
  by pat_completeness auto
termination
  by (relation "measures [\<lambda>(env, pp, item). length (uri_elements item), \<lambda>(env, pp, item). text_length item]")
     (auto dest: get_parent_smaller)

declare is_parent_loop.simps [simp del]

definition gnome_vfs_uri_is_parent ::
    "vfs_env \<Rightarrow> GnomeVFSURI \<Rightarrow> GnomeVFSURI \<Rightarrow> bool \<Rightarrow> bool option" where
  "gnome_vfs_uri_is_parent env possible_parent possible_child recursive =
     (if \<not> recursive then
        (case gnome_vfs_uri_get_parent possible_child of
           None \<Rightarrow> Some False
         | Some item_parent_uri \<Rightarrow> uri_matches_as_parent env possible_parent item_parent_uri)
      else is_parent_loop env possible_parent (gnome_vfs_uri_dup possible_child))"


section \<open>Relative references\<close>

definition is_uri_relative :: "string \<Rightarrow> bool" where
  "is_uri_relative uri \<longleftrightarrow> c_at (dropWhile is_scheme_char uri) 0 \<noteq> colon"

text \<open>Where the code looks for the segment before \<open>prev\<close>: two back, then to the next slash.\<close>

fun segment_start :: "string \<Rightarrow> nat \<Rightarrow> nat" where
  "segment_start buf 0 = (if c_at buf 0 = slash then 1 else 0)"
| "segment_start buf (Suc n) = (if c_at buf (Suc n) = slash then Suc n + 1 else segment_start buf n)"

definition previous_segment :: "string \<Rightarrow> nat \<Rightarrow> nat option" where
  "previous_segment buf prev =
     (if prev = 0 then None
      else if prev \<ge> 2 then Some (segment_start buf (prev - 2))
      else Some prev)"

text \<open>
  The in-place removal of dot segments: the buffer, the previous segment with the length
  recorded for it, and the current segment. The test \<open>the segment_prev \<le> cur\<close> is not in the
  code: it always holds there, and makes the termination argument local to the loop.
\<close>

function remove_internal_loop :: "string \<Rightarrow> nat option \<Rightarrow> nat \<Rightarrow> nat \<Rightarrow> string" where
  "remove_internal_loop buf segment_prev len_prev cur =
     (if cur \<ge> length buf then buf
      else
        (let len_cur = length (takeWhile (\<lambda>c. c \<noteq> slash) (drop cur buf))
         in if len_cur = 1 \<and> c_at buf cur = dot then
              (if c_at buf (cur + 1) = NUL then take cur buf
               else remove_internal_loop (take cur buf @ drop (cur + 2) buf) segment_prev len_prev cur)
            else if len_cur = 2 \<and> c_at buf cur = dot \<and> c_at buf (cur + 1) = dot
                    \<and> segment_prev \<noteq> None \<and> the segment_prev \<le> cur
                    \<and> \<not> (len_prev = 2 \<and> c_at buf (the segment_prev) = dot
                          \<and> c_at buf (the segment_prev + 1) = dot) then
              (if c_at buf (cur + 2) = NUL then take (the segment_prev) buf
               else remove_internal_loop (take (the segment_prev) buf @ drop (cur + 3) buf)
                      (previous_segment (take (the segment_prev) buf @ drop (cur + 3) buf) (the segment_prev))
                      len_prev (the segment_prev))
            else if c_at buf (cur + len_cur) = NUL then buf
            else remove_internal_loop buf (Some cur) len_cur (cur + len_cur + 1)))"
  by pat_completeness auto
termination
proof (relation "measures [\<lambda>(buf, sp, lp, cur). length buf, \<lambda>(buf, sp, lp, cur). length buf - cur]", goal_cases)
  case 1
  show ?case by simp
next
  case (2 buf segment_prev len_prev cur len_cur)
  then show ?case using c_at_nonNUL [of buf "cur + 1"] by auto
next
  case (3 buf segment_prev len_prev cur len_cur)
  then show ?case using c_at_nonNUL [of buf "cur + 2"] by auto
next
  case (4 buf segment_prev len_prev cur len_cur)
  then show ?case using c_at_nonNUL [of buf "cur + len_cur"] by auto
qed

declare remove_internal_loop.simps [simp del]

definition remove_internal_relative_components :: "string \<Rightarrow> string" where
  "remove_internal_relative_components uri_current = remove_internal_loop uri_current None 0 0"

fun strstr :: "string \<Rightarrow> string \<Rightarrow> nat option" where
  "strstr [] needle = (if needle = [] then Some 0 else None)"
| "strstr (c # s) needle = (if strprefix needle (c # s) then Some 0 else map_option Suc (strstr s needle))"

definition cut_before_last :: "char \<Rightarrow> string \<Rightarrow> string" where
  "cut_before_last c s = (case strrchr s c of None \<Rightarrow> s | Some i \<Rightarrow> take i s)"

text \<open>\<^verbatim>\<open>while (0 == strncmp ("../", uri_current, 3))\<close>\<close>

function eat_dotdots :: "string \<Rightarrow> string \<Rightarrow> string \<times> string" where
  "eat_dotdots base cur =
     (if strprefix ''../'' cur then
        (case strrchr base slash of
           None \<Rightarrow> (base, drop 3 cur)
         | Some i \<Rightarrow> eat_dotdots (take i base) (drop 3 cur))
      else (base, cur))"
  by pat_completeness auto
termination
  by (relation "measure (\<lambda>(base, cur). length cur)") (auto simp: strprefix_iff)

declare eat_dotdots.simps [simp del]

text \<open>
  \<open>None\<close>: the base is empty once its fragment and query are cut off, and the code reads
  \<^verbatim>\<open>mutable_base_uri[base_uri_length-1]\<close>, a byte before the buffer.
\<close>

definition make_full_uri_from_relative :: "string \<Rightarrow> string \<Rightarrow> string option" where
  "make_full_uri_from_relative base_uri uri =
     (let base = cut_before_last (CHR ''?'') (cut_before_last hash base_uri)
      in if c_at uri 0 = slash \<and> c_at uri 1 = slash then
           Some ((case strchr base colon of None \<Rightarrow> base | Some i \<Rightarrow> take (i + 1) base) @ uri)
         else if c_at uri 0 = slash then
           Some ((case strchr base colon of
                    None \<Rightarrow> base
                  | Some i \<Rightarrow>
                      if c_at base (i + 1) = slash \<and> c_at base (i + 2) = slash
                      then (case strchr (drop (i + 3) base) slash of
                              None \<Rightarrow> base | Some j \<Rightarrow> take (i + 3 + j) base)
                      else take (i + 1) base) @ uri)
         else if c_at uri 0 \<noteq> hash then
           (if length base = 0 then None
            else
              (let base1 =
                     (if c_at base (length base - 1) = slash then take (length base - 1) base
                      else (case strrchr base slash of
                              None \<Rightarrow> base
                            | Some i \<Rightarrow>
                                if i \<noteq> 0 \<and> c_at base (i - 1) \<noteq> slash then take i base
                                else if strstr base '':///'' \<noteq> None \<and> the (strstr base '':///'') + 3 = i
                                  then take (i + 1) base
                                else base));
                   (base2, cur) = eat_dotdots base1 (remove_internal_relative_components uri);
                   (base3, cur') = (if cur = ''..'' then (cut_before_last slash base2, []) else (base2, cur))
               in Some (base3 @ ''/'' @ cur')))
         else Some (base @ uri))"

definition gnome_vfs_uri_make_full_from_relative :: "string option \<Rightarrow> string option \<Rightarrow> string option option" where
  "gnome_vfs_uri_make_full_from_relative base_uri relative_uri =
     (case (base_uri, relative_uri) of
        (None, None) \<Rightarrow> Some None
      | (None, Some r) \<Rightarrow> Some (Some r)
      | (Some b, None) \<Rightarrow> Some (Some b)
      | (Some b, Some r) \<Rightarrow>
          if is_uri_relative r then map_option Some (make_full_uri_from_relative b r)
          else Some (Some r))"

text \<open>The outer \<open>None\<close> is again the read before the buffer.\<close>

definition gnome_vfs_uri_resolve_relative ::
    "vfs_env \<Rightarrow> GnomeVFSURI option \<Rightarrow> string \<Rightarrow> GnomeVFSURI option option" where
  "gnome_vfs_uri_resolve_relative env base relative_reference =
     (let text_base = (case base of None \<Rightarrow> [] | Some b \<Rightarrow> gnome_vfs_uri_to_string b 0);
          text_new = (if is_uri_relative relative_reference
                      then make_full_uri_from_relative text_base relative_reference
                      else Some relative_reference)
      in map_option (\<lambda>t. gnome_vfs_uri_new env (Some t)) text_new)"

section \<open>URI lists\<close>

fun strip_last_spaces :: "string \<Rightarrow> nat \<Rightarrow> nat" where
  "strip_last_spaces s 0 = 0"
| "strip_last_spaces s (Suc q) = (if g_ascii_isspace (c_at s (Suc q)) then strip_last_spaces s q else Suc q)"

definition line_item :: "string \<Rightarrow> string option" where
  "line_item p =
     (let line = takeWhile (\<lambda>c. c \<noteq> CHR 0x0A \<and> c \<noteq> CHR 0x0D) p
      in if length line > 0 then Some (take (strip_last_spaces line (length line - 1) + 1) line) else None)"

function uri_list_loop :: "vfs_env \<Rightarrow> string \<Rightarrow> GnomeVFSURI list \<Rightarrow> GnomeVFSURI list" where
  "uri_list_loop env s result =
     (let p = (if c_at s 0 \<noteq> hash then dropWhile g_ascii_isspace s else s);
          result' =
            (if c_at s 0 \<noteq> hash then
               (case line_item p of
                  None \<Rightarrow> result
                | Some item \<Rightarrow> (case gnome_vfs_uri_new env (Some item) of
                                  None \<Rightarrow> result | Some uri \<Rightarrow> uri # result))
             else result)
      in case strchr p (CHR 0x0A) of
           None \<Rightarrow> result'
         | Some i \<Rightarrow> uri_list_loop env (drop (i + 1) p) result')"
  by pat_completeness auto
termination
proof (relation "measure (\<lambda>(env, s, r). length s)", goal_cases)
  case (2 env s r p r' i)
  have "i < length p" using 2(3) strchr_SomeD [of p "CHR 0x0A" i] by (simp add: NUL_def)
  moreover have "length p \<le> length s" using 2(1) length_dropWhile_le [of g_ascii_isspace s] by simp
  ultimately show ?case by auto
qed simp

declare uri_list_loop.simps [simp del]

definition gnome_vfs_uri_list_parse :: "vfs_env \<Rightarrow> string \<Rightarrow> GnomeVFSURI list" where
  "gnome_vfs_uri_list_parse env uri_list = rev (uri_list_loop env uri_list [])"


end
