(* ===== verification/VFS_URI_Laws.thy ===== *)
theory VFS_URI_Laws
  imports VFS_URI
begin

text \<open>
  Laws of the URI operations: comparison and hashing, reference counts, hidden passwords,
  parents and ancestors.
\<close>

section \<open>A sample URI\<close>

definition sample_element :: "string \<Rightarrow> uri_element" where
  "sample_element t = \<lparr>elem_text = Some t, fragment_id = None, method_string = ''file'', uri_method = Some 0, ref_count = 1\<rparr>"

definition file_uri :: "string \<Rightarrow> GnomeVFSURI" where
  "file_uri t = Toplevel (sample_element t) empty_toplevel"

lemma file_uri_simps [simp]:
  "uri_elem (file_uri t) = sample_element t" "elem_text (sample_element t) = Some t"
  by (simp_all add: file_uri_def sample_element_def)

section \<open>Comparison\<close>

lemma equal_children_loop_toplevel:
  "\<not> is_child a \<or> \<not> is_child b \<Longrightarrow> equal_children_loop a b = Some True"
  by (subst equal_children_loop.simps) auto

lemma equal_children_loop_result:
  assumes "equal_children_loop a b = Some r"
  shows "is_child a \<and> is_child b \<longrightarrow> \<not> compare_elements (uri_elem a) (uri_elem b)"
  using _ assms
proof (rule equal_children_loop.raw_induct
         [where P = "\<lambda>a b r. is_child a \<and> is_child b \<longrightarrow> \<not> compare_elements (uri_elem a) (uri_elem b)"])
  fix f a b r
  assume "\<And>a b r. f a b = Some r \<Longrightarrow>
            is_child a \<and> is_child b \<longrightarrow> \<not> compare_elements (uri_elem a) (uri_elem b)"
    and "(if is_child a \<and> is_child b
           then if \<not> compare_elements (uri_elem a) (uri_elem b) then Some False else f a b
           else Some True) = Some r"
  then show "is_child a \<and> is_child b \<longrightarrow> \<not> compare_elements (uri_elem a) (uri_elem b)"
    by (auto split: if_splits)
qed

lemma is_child_simps [simp]: "\<not> is_child (Toplevel e t)" "is_child (Child e p)"
  by (simp_all add: is_child_def)

lemma string_match_sym: "string_match a b = string_match b a"
  by (auto simp: string_match_def)

lemma string_match_refl: "string_match a a"
  by (simp add: string_match_def)

lemma string_match_trans: "string_match a b \<Longrightarrow> string_match b c \<Longrightarrow> string_match a c"
  by (auto simp: string_match_def split: if_splits)

lemma equal_returns:
  "gnome_vfs_uri_equal same a b \<noteq> None \<longleftrightarrow>
     same \<or> \<not> is_child a \<or> \<not> is_child b \<or> \<not> compare_elements (uri_elem a) (uri_elem b)"
proof (cases "is_child a \<and> is_child b")
  case True
  have "equal_children_loop a b = (if compare_elements (uri_elem a) (uri_elem b) then None else Some False)"
  proof (cases "compare_elements (uri_elem a) (uri_elem b)")
    case c: True
    then show ?thesis using True equal_children_loop_result [of a b]
      by (cases "equal_children_loop a b") auto
  next
    case False
    then show ?thesis using True by (subst equal_children_loop.simps) simp
  qed
  then show ?thesis using True by (auto simp: gnome_vfs_uri_equal_def)
next
  case False
  then show ?thesis by (auto simp: gnome_vfs_uri_equal_def equal_children_loop_toplevel)
qed

text \<open>
  C36. Comparing two distinct URI objects returns unless both are chained and their last
  elements match: then the loop over the children, which advances neither pointer, runs
  for ever.
\<close>

theorem uri_equal_returns_iff:
  "gnome_vfs_uri_equal same a b = None \<longleftrightarrow>
     \<not> same \<and> is_child a \<and> is_child b \<and> compare_elements (uri_elem a) (uri_elem b)"
  using equal_returns [of same a b] by blast

definition toplevel_match :: "uri_element \<Rightarrow> toplevel_info \<Rightarrow> uri_element \<Rightarrow> toplevel_info \<Rightarrow> bool" where
  "toplevel_match e t e' t' \<longleftrightarrow> compare_elements e e' \<and> toplevel_equal t t'"

lemma uri_equal_toplevel:
  "gnome_vfs_uri_equal False (Toplevel e t) (Toplevel e' t') = Some (toplevel_match e t e' t')"
  by (simp add: gnome_vfs_uri_equal_def equal_children_loop_toplevel toplevel_match_def)

definition no_empty_part :: "GnomeVFSURI \<Rightarrow> bool" where
  "no_empty_part u \<longleftrightarrow>
     (\<forall>e\<in>set (uri_elements u). elem_text e \<noteq> Some []) \<and>
     (let t = gnome_vfs_uri_get_toplevel u
      in host_name t \<noteq> Some [] \<and> user_name t \<noteq> Some [] \<and> password t \<noteq> Some [])"

lemma string_match_eq: "a \<noteq> Some [] \<Longrightarrow> b \<noteq> Some [] \<Longrightarrow> string_match a b \<longleftrightarrow> a = b"
  by (auto simp: string_match_def)

text \<open>
  C29. Whenever two distinct URI objects compare equal they hash alike, provided no part of
  them is the empty string (an absent part and an empty one compare equal but hash apart).
\<close>

theorem uri_equal_hash:
  assumes "gnome_vfs_uri_equal False a b = Some True" "no_empty_part a" "no_empty_part b"
  shows "gnome_vfs_uri_hash g_str_hash a = gnome_vfs_uri_hash g_str_hash b"
proof -
  have "\<not> is_child a" "\<not> is_child b"
    using assms(1) by (auto simp: gnome_vfs_uri_equal_def split: option.splits bool.splits if_splits)
  then obtain e t e' t' where "a = Toplevel e t" "b = Toplevel e' t'"
    by (cases a; cases b) auto
  moreover from this have "toplevel_match e t e' t'" using assms(1) uri_equal_toplevel by simp
  ultimately show ?thesis using assms(2,3)
    by (simp add: toplevel_match_def compare_elements_def toplevel_equal_def no_empty_part_def
        string_match_eq Let_def gnome_vfs_uri_hash_def split: if_splits) (simp add: string_match_def split: if_splits)
qed

theorem uri_equal_hash_witness:
  "Toplevel (sample_element ''/a'') empty_toplevel
     \<noteq> Toplevel ((sample_element ''/a'')\<lparr>fragment_id := Some ''top'', ref_count := 2\<rparr>) empty_toplevel
   \<and> gnome_vfs_uri_hash (foldl (\<lambda>h c. h * 31 + of_nat (code c)) 5381)
       (Toplevel (sample_element ''/a'') empty_toplevel)
     = gnome_vfs_uri_hash (foldl (\<lambda>h c. h * 31 + of_nat (code c)) 5381)
       (Toplevel ((sample_element ''/a'')\<lparr>fragment_id := Some ''top'', ref_count := 2\<rparr>) empty_toplevel)"
proof (intro conjI uri_equal_hash)
  show "Toplevel (sample_element ''/a'') empty_toplevel
     \<noteq> Toplevel ((sample_element ''/a'')\<lparr>fragment_id := Some ''top'', ref_count := 2\<rparr>) empty_toplevel"
    by (simp add: sample_element_def)
qed (simp_all add: sample_element_def uri_equal_toplevel toplevel_match_def compare_elements_def
       toplevel_equal_def string_match_refl no_empty_part_def empty_toplevel_def)

text \<open>What \<^verbatim>\<open>string_match\<close> compares: an absent string counts as the empty one.\<close>

definition text_or_empty :: "string option \<Rightarrow> string" where
  "text_or_empty a = (case a of None \<Rightarrow> [] | Some s \<Rightarrow> s)"

lemma string_match_text: "string_match a b \<longleftrightarrow> text_or_empty a = text_or_empty b"
  by (auto simp: string_match_def text_or_empty_def split: option.splits)

text \<open>
  C30. What comparing two distinct URI objects decides. For two single-element URIs it
  returns, and it is true exactly when their texts, method names, methods, hosts, ports,
  user names and passwords are the same, an absent string being the same as an empty one;
  fragment identifiers and reference counts play no part. So it is an equivalence relation
  there. A single-element URI never compares equal to a chained one, in either order.
\<close>

theorem uri_equal_same_parts:
  "gnome_vfs_uri_equal False (Toplevel e t) (Toplevel e' t') =
     Some (text_or_empty (elem_text e) = text_or_empty (elem_text e')
         \<and> method_string e = method_string e' \<and> uri_method e = uri_method e'
         \<and> text_or_empty (host_name t) = text_or_empty (host_name t') \<and> host_port t = host_port t'
         \<and> text_or_empty (user_name t) = text_or_empty (user_name t')
         \<and> text_or_empty (password t) = text_or_empty (password t'))
   \<and> gnome_vfs_uri_equal False (Toplevel e t) (Child e' p) = Some False
   \<and> gnome_vfs_uri_equal False (Child e' p) (Toplevel e t) = Some False"
proof (intro conjI)
  have "string_match (Some a) (Some b) \<longleftrightarrow> a = b" for a b
    by (simp add: string_match_text text_or_empty_def)
  then show "gnome_vfs_uri_equal False (Toplevel e t) (Toplevel e' t') =
     Some (text_or_empty (elem_text e) = text_or_empty (elem_text e')
         \<and> method_string e = method_string e' \<and> uri_method e = uri_method e'
         \<and> text_or_empty (host_name t) = text_or_empty (host_name t') \<and> host_port t = host_port t'
         \<and> text_or_empty (user_name t) = text_or_empty (user_name t')
         \<and> text_or_empty (password t) = text_or_empty (password t'))"
    unfolding uri_equal_toplevel toplevel_match_def compare_elements_def toplevel_equal_def
    by (auto simp: string_match_text)
  show "gnome_vfs_uri_equal False (Toplevel e t) (Child e' p) = Some False"
    "gnome_vfs_uri_equal False (Child e' p) (Toplevel e t) = Some False"
    by (simp_all add: gnome_vfs_uri_equal_def equal_children_loop_toplevel)
qed

section \<open>Reference counts\<close>

fun counts_all :: "(guint \<Rightarrow> bool) \<Rightarrow> GnomeVFSURI \<Rightarrow> bool" where
  "counts_all P (Toplevel e t) = P (ref_count e)"
| "counts_all P (Child e p) = (P (ref_count e) \<and> counts_all P p)"

lemma unref_ref_loop:
  "counts_all (\<lambda>n. n + 1 \<noteq> 0 \<and> n \<noteq> 0) u \<Longrightarrow> unref_loop (gnome_vfs_uri_ref u) = Some (u, [])"
  by (induction u) (simp_all add: gnome_vfs_uri_ref_def Let_def)

text \<open>
  C31. Taking a reference and dropping it again leaves the whole chain as it was and destroys
  no element, as long as no count is zero or about to wrap around.
\<close>

theorem uri_ref_unref:
  assumes "counts_all (\<lambda>n. n + 1 \<noteq> 0 \<and> n \<noteq> 0) u"
  shows "gnome_vfs_uri_unref (gnome_vfs_uri_ref u) = Some (u, [])"
  using unref_ref_loop [OF assms] assms
  by (cases u) (simp_all add: gnome_vfs_uri_unref_def gnome_vfs_uri_ref_def)

theorem uri_ref_unref_witness:
  "gnome_vfs_uri_unref (gnome_vfs_uri_ref (file_uri ''/a'')) = Some (file_uri ''/a'', [])"
  by (rule uri_ref_unref) (simp add: file_uri_def sample_element_def)

lemma unref_last_loop:
  "counts_all (\<lambda>n. n = 1) u \<Longrightarrow> \<exists>u'. unref_loop u = Some (u', map (\<lambda>e. e\<lparr>ref_count := 0\<rparr>) (uri_elements u))"
  by (induction u) (auto simp: Let_def)

section \<open>Hiding the password\<close>

lemma to_string_cong:
  assumes "(h AND GNOME_VFS_URI_HIDE_PASSWORD) \<noteq> 0"
  shows "gnome_vfs_uri_to_string (set_toplevel (\<lambda>t. t\<lparr>password := p\<rparr>) u) h = gnome_vfs_uri_to_string u h"
  using assms by (induction u) (simp_all add: toplevel_to_string_def Let_def cong: option.case_cong)

text \<open>
  C32. A URI printed with the password hidden says nothing about the password: the text is
  the same whatever the password is, for any other hide options and for chained URIs too.
\<close>

theorem hidden_password:
  assumes "(hide_options AND GNOME_VFS_URI_HIDE_PASSWORD) \<noteq> 0"
  shows "gnome_vfs_uri_to_string (gnome_vfs_uri_set_password u p) hide_options =
         gnome_vfs_uri_to_string (gnome_vfs_uri_set_password u p') hide_options"
  using to_string_cong [OF assms] by (simp add: gnome_vfs_uri_set_password_def)


theorem hidden_password_witness:
  "gnome_vfs_uri_to_string (gnome_vfs_uri_set_password (file_uri ''/a'') (Some ''s'')) GNOME_VFS_URI_HIDE_PASSWORD =
   gnome_vfs_uri_to_string (gnome_vfs_uri_set_password (file_uri ''/a'') None) GNOME_VFS_URI_HIDE_PASSWORD"
  by (rule hidden_password) (simp add: hide_defs)

section \<open>Parents\<close>

lemma skip_trailing_slashes_run:
  "n > 0 \<Longrightarrow> c_at t n \<noteq> slash \<Longrightarrow> (\<forall>i. n < i \<and> i \<le> n + k \<longrightarrow> c_at t i = slash) \<Longrightarrow> skip_trailing_slashes t (n + k) = n"
  by (induction k) (auto simp: gr0_conv_Suc)

lemma back_to_slash_run:
  "c_at t n = slash \<or> n = 0 \<Longrightarrow> (\<forall>i. n < i \<and> i \<le> n + k \<longrightarrow> c_at t i \<noteq> slash) \<Longrightarrow> back_to_slash t (n + k) = n"
proof (induction k)
  case 0
  then show ?case by (cases n) auto
qed auto

lemma back_over_slashes_stop: "n \<le> 1 \<or> c_at t (n - 1) \<noteq> slash \<Longrightarrow> back_over_slashes t n = n"
  by (cases n) auto

lemma parent_text_child:
  assumes d: "d = [] \<or> last d \<noteq> slash" and n: "n \<noteq> []" "slash \<notin> set n" "is_cstring n"
  shows "parent_text (d @ slash # n @ replicate k slash) = Some (if d = [] then ''/'' else d)"
proof -
  define t where "t = d @ slash # n @ replicate k slash"
  have at: "c_at t (length d + 1 + i) = c_at (n @ replicate k slash) i" for i
    using c_at_append_length [of "d @ [slash]" "n @ replicate k slash" i] by (simp add: t_def)
  have nn: "i < length n \<Longrightarrow> c_at t (length d + 1 + i) = n ! i" for i
    by (simp only: at) (simp add: c_at_def nth_append)
  have ns: "i < length n \<Longrightarrow> n ! i \<noteq> slash" for i using n(2) nth_mem by metis
  have len: "length t - 1 = (length d + length n) + k" using n(1) by (simp add: t_def)
  have a: "skip_trailing_slashes t (length t - 1) = length d + length n"
    unfolding len
  proof (rule skip_trailing_slashes_run)
    show "c_at t (length d + length n) \<noteq> slash" using nn [of "length n - 1"] ns [of "length n - 1"] n(1) by (cases "length n") auto
    show "\<forall>i. length d + length n < i \<and> i \<le> length d + length n + k \<longrightarrow> c_at t i = slash"
    proof (intro allI impI)
      fix i assume i: "length d + length n < i \<and> i \<le> length d + length n + k"
      then have "c_at t (length d + 1 + (i - (length d + 1))) = slash"
        by (simp only: at) (auto simp: c_at_def nth_append)
      then show "c_at t i = slash" using i by simp
    qed
  qed (use n in simp)
  have b: "back_to_slash t (length d + length n) = length d"
  proof (rule back_to_slash_run)
    show "c_at t (length d) = slash \<or> length d = 0" by (simp add: t_def)
    show "\<forall>i. length d < i \<and> i \<le> length d + length n \<longrightarrow> c_at t i \<noteq> slash"
    proof (intro allI impI)
      fix i assume i: "length d < i \<and> i \<le> length d + length n"
      then have "i - (length d + 1) < length n" by arith
      then show "c_at t i \<noteq> slash" using nn [of "i - (length d + 1)"] ns [of "i - (length d + 1)"] i by simp
    qed
  qed
  have c: "back_over_slashes t (length d) = length d"
  proof (rule back_over_slashes_stop)
    have "c_at t (length d - 1) = last d" if "d \<noteq> []"
      using that by (cases d rule: rev_cases) (simp_all add: t_def)
    then show "length d \<le> 1 \<or> c_at t (length d - 1) \<noteq> slash" using d by (cases "d = []") auto
  qed
  have "n ! 0 \<noteq> NUL" using n(1,3) by (cases n) auto
  then have e: "c_at t (length d + 1) \<noteq> NUL" using nn [of 0] n(1) by simp
  have "strchr t slash \<noteq> None" using strchr_None_iff [of slash t] by (simp add: t_def)
  then show ?thesis using a b c e unfolding t_def [symmetric] parent_text_def
    by (simp add: t_def)
qed

lemma short_name_scan_run:
  "slash \<notin> set n \<Longrightarrow> n \<noteq> [] \<Longrightarrow> short_name_scan (n @ r) p st (Some f) = short_name_scan r (p + length n) (Some p) None"
proof -
  have inner: "slash \<notin> set m \<Longrightarrow> short_name_scan (m @ r) q s None = short_name_scan r (q + length m) s None" for m q s
    by (induction m arbitrary: q) auto
  assume "slash \<notin> set n" "n \<noteq> []"
  then show ?thesis by (cases n) (auto simp: inner)
qed

lemma short_name_scan_slashes:
  "short_name_scan (replicate k slash) p st (Some f) = (st, Some f)"
  by (induction k arbitrary: p) auto

lemma short_name_scan_end:
  "short_name_scan (replicate k slash) p st None = (st, Some p)"
  by (cases k) (auto simp: short_name_scan_slashes)

lemma short_name_scan_prefix:
  "\<exists>st' f'. short_name_scan (d @ slash # r) p st f = short_name_scan r (p + length d + 1) st' (Some f')"
proof (induction d arbitrary: p st f)
  case Nil
  then show ?case by (cases f) auto
next
  case (Cons c d)
  show ?case
  proof (cases "c = slash")
    case True
    then show ?thesis using Cons [of "p + 1" st "case f of None \<Rightarrow> Some p | Some f \<Rightarrow> Some f"] by (simp add: add.commute add.left_commute)
  next
    case False
    then show ?thesis
      using Cons [of "p + 1" st None] Cons [of "p + 1" "Some p" None]
      by (cases f) (simp_all add: add.commute add.left_commute)
  qed
qed

text \<open>
  C28. For a URI whose path is a directory, a slash, a name and any number of trailing
  slashes, the parent is the same URI at the directory without the fragment, and the short
  path name is the name.
\<close>

theorem parent_and_short_name:
  assumes "elem_text (uri_elem u) = Some (d @ ''/'' @ n @ replicate k slash)"
    and "d = [] \<or> last d \<noteq> slash" and "n \<noteq> []" "slash \<notin> set n" "is_cstring n"
  shows "gnome_vfs_uri_get_parent u =
           Some (with_text (if d = [] then ''/'' else d) (gnome_vfs_uri_dup u))
       \<and> gnome_vfs_uri_extract_short_path_name u = Some n"
proof
  show "gnome_vfs_uri_get_parent u = Some (with_text (if d = [] then ''/'' else d) (gnome_vfs_uri_dup u))"
    using assms parent_text_child [OF assms(2-5), of k] by (simp add: gnome_vfs_uri_get_parent_def)
next
  obtain st f where "short_name_scan (d @ slash # n @ replicate k slash) 0 None (Some 0) =
      short_name_scan (n @ replicate k slash) (length d + 1) st (Some f)"
    using short_name_scan_prefix [of d "n @ replicate k slash" 0 None "Some 0"] by auto
  then have "short_name_scan (d @ slash # n @ replicate k slash) 0 None (Some 0) =
      (Some (length d + 1), Some (length d + 1 + length n))"
    using short_name_scan_run [OF assms(4,3)] short_name_scan_end by simp
  then show "gnome_vfs_uri_extract_short_path_name u = Some n"
    using assms(1) by (simp add: gnome_vfs_uri_extract_short_path_name_def substring_def)
qed

theorem parent_and_short_name_witness:
  "gnome_vfs_uri_get_parent (file_uri ''/d/n//'') = Some (with_text ''/d'' (gnome_vfs_uri_dup (file_uri ''/d/n//'')))
   \<and> gnome_vfs_uri_extract_short_path_name (file_uri ''/d/n//'') = Some ''n''"
  using parent_and_short_name [of "file_uri ''/d/n//''" "''/d''" "''n''" 2]
  by (simp add: numeral_2_eq_2 NUL_def)

inductive ancestor :: "GnomeVFSURI \<Rightarrow> GnomeVFSURI \<Rightarrow> bool" where
  parent: "gnome_vfs_uri_get_parent u = Some v \<Longrightarrow> ancestor u v"
| step: "gnome_vfs_uri_get_parent u = Some v \<Longrightarrow> ancestor v w \<Longrightarrow> ancestor u w"

inductive_cases ancestorE: "ancestor u v"

lemma ancestor_unfold:
  "ancestor u w \<longleftrightarrow> (\<exists>v. gnome_vfs_uri_get_parent u = Some v \<and> (v = w \<or> ancestor v w))"
  by (auto elim: ancestorE intro: ancestor.intros)

lemma is_parent_loop_ancestor:
  assumes "\<And>v. uri_matches_as_parent env p v \<noteq> None"
  shows "is_parent_loop env p item = Some (\<exists>v. ancestor item v \<and> uri_matches_as_parent env p v = Some True)"
  using assms
proof (induction env p item rule: is_parent_loop.induct)
  case (1 env p item)
  show ?case
  proof (cases "gnome_vfs_uri_get_parent item")
    case None
    then show ?thesis by (subst is_parent_loop.simps) (simp add: ancestor_unfold [of item])
  next
    case (Some v)
    obtain b where b: "uri_matches_as_parent env p v = Some b" using "1.prems" by blast
    then show ?thesis using Some "1.IH" [OF Some b] "1.prems"
      by (subst is_parent_loop.simps) (auto simp: ancestor_unfold [of item] split: bool.splits)
  qed
qed

text \<open>
  C27. For a possible parent with a single element and a non-empty text (a chained possible
  parent can make the comparison run for ever, and one without a path is compared through
  its host part): asking recursively whether it is a parent of any URI always returns, and
  the answer is whether some ancestor of the child, however far up, compares equal to it.
\<close>

theorem is_parent_iff_ancestor:
  assumes "elem_text e \<noteq> None" "elem_text e \<noteq> Some []"
  shows "gnome_vfs_uri_is_parent env (Toplevel e t) c True =
         Some (\<exists>v. ancestor (gnome_vfs_uri_dup c) v \<and> gnome_vfs_uri_equal False (Toplevel e t) v = Some True)"
proof -
  have "uri_matches_as_parent env (Toplevel e t) v = gnome_vfs_uri_equal False (Toplevel e t) v" for v
    using assms by (auto simp: uri_matches_as_parent_def)
  moreover have "gnome_vfs_uri_equal False (Toplevel e t) v \<noteq> None" for v
    by (subst equal_returns) simp
  ultimately show ?thesis by (simp add: gnome_vfs_uri_is_parent_def is_parent_loop_ancestor)
qed

theorem is_parent_iff_ancestor_witness:
  "gnome_vfs_uri_is_parent \<lparr>env_method_get = (\<lambda>_. Some 0), env_transform = (\<lambda>_ _. None), env_oob = (\<lambda>_. False)\<rparr>
     (file_uri ''/d'') (file_uri ''/d/s/n'') True = Some True
   \<and> gnome_vfs_uri_is_parent \<lparr>env_method_get = (\<lambda>_. Some 0), env_transform = (\<lambda>_ _. None), env_oob = (\<lambda>_. False)\<rparr>
     (file_uri ''/e'') (file_uri ''/d/s/n'') True = Some False"
proof -
  have p: "gnome_vfs_uri_get_parent (gnome_vfs_uri_dup (file_uri ''/d/s/n'')) = Some (file_uri ''/d/s'')"
    "gnome_vfs_uri_get_parent (file_uri ''/d/s'') = Some (file_uri ''/d'')"
    "gnome_vfs_uri_get_parent (file_uri ''/d'') = Some (file_uri ''/'')"
    "gnome_vfs_uri_get_parent (file_uri ''/'') = None"
    by code_simp+
  have a: "ancestor (gnome_vfs_uri_dup (file_uri ''/d/s/n'')) v \<longleftrightarrow>
             v \<in> {file_uri ''/d/s'', file_uri ''/d'', file_uri ''/''}" for v
    by (auto simp: p ancestor_unfold [of "gnome_vfs_uri_dup _"] ancestor_unfold [of "file_uri _"])
  have e: "gnome_vfs_uri_equal False (file_uri x) (file_uri y) = Some (x = y)" for x y
    by (auto simp: file_uri_def uri_equal_toplevel toplevel_match_def compare_elements_def
        toplevel_equal_def string_match_refl string_match_def sample_element_def)
  show ?thesis
    using is_parent_iff_ancestor [of "sample_element ''/d''" _ empty_toplevel "file_uri ''/d/s/n''"]
      is_parent_iff_ancestor [of "sample_element ''/e''" _ empty_toplevel "file_uri ''/d/s/n''"]
    by (simp add: file_uri_def [symmetric] a e ex_disj_distrib conj_disj_distribR)
qed

end
