(* ===== verification/VFS_Refcount.thy ===== *)
theory VFS_Refcount
  imports VFS_Prelude
begin

text \<open>
  The contract of the reference-counted objects of the library (URIs, file informations):
  dropping a reference that was taken gives the object back. \<open>room\<close> is the number of further
  references the 32-bit counter can take. What clients need of it is proved once here: any
  sequence of takes and drops that never drops more than it took leaves the object alive,
  and a balanced one leaves it as it was.
\<close>

datatype ref_op = Take | Drop

locale refcounted =
  fixes take_ref :: "'o \<Rightarrow> 'o"
    and drop_ref :: "'o \<Rightarrow> 'o option"
    and room :: "'o \<Rightarrow> nat"
  assumes drop_take: "room x > 0 \<Longrightarrow> drop_ref (take_ref x) = Some x"
    and room_take: "room x > 0 \<Longrightarrow> room (take_ref x) = room x - 1"
begin

fun run_ops :: "ref_op list \<Rightarrow> 'o \<Rightarrow> 'o option" where
  "run_ops [] x = Some x"
| "run_ops (Take # ops) x = run_ops ops (take_ref x)"
| "run_ops (Drop # ops) x = (case drop_ref x of None \<Rightarrow> None | Some y \<Rightarrow> run_ops ops y)"

text \<open>\<open>excess n ops\<close>: how many references are held at the end, starting with \<open>n\<close>; \<open>None\<close> if it went below zero.\<close>

fun excess :: "nat \<Rightarrow> ref_op list \<Rightarrow> nat option" where
  "excess n [] = Some n"
| "excess n (Take # ops) = excess (n + 1) ops"
| "excess n (Drop # ops) = (if n = 0 then None else excess (n - 1) ops)"

lemma room_funpow: "n \<le> room x \<Longrightarrow> room ((take_ref ^^ n) x) = room x - n"
proof (induction n)
  case (Suc n)
  then have "room ((take_ref ^^ n) x) = room x - n" by simp
  with Suc.prems show ?case by (simp add: room_take)
qed simp

lemma drop_funpow: "Suc n \<le> room x \<Longrightarrow> drop_ref ((take_ref ^^ Suc n) x) = Some ((take_ref ^^ n) x)"
  using room_funpow [of n x] by (simp add: drop_take)

theorem run_ops_excess:
  "excess n ops = Some m \<Longrightarrow> n + length ops \<le> room x \<Longrightarrow>
   run_ops ops ((take_ref ^^ n) x) = Some ((take_ref ^^ m) x)"
proof (induction n ops rule: excess.induct)
  case (2 n ops)
  then show ?case by simp
next
  case (3 n ops)
  then obtain k where "n = Suc k" by (cases n) auto
  with 3 show ?case using drop_funpow [of k x] by simp
qed simp

theorem balanced_keeps: "excess 0 ops = Some 0 \<Longrightarrow> length ops \<le> room x \<Longrightarrow> run_ops ops x = Some x"
  using run_ops_excess [of 0 ops 0 x] by simp

lemma drops_undo_takes: "n \<le> room x \<Longrightarrow> run_ops (replicate n Drop) ((take_ref ^^ n) x) = Some x"
proof (induction n)
  case (Suc n)
  then show ?case using drop_funpow [of n x] by simp
qed simp

end

end
