(* ===== verification/VFS_FileInfo.thy ===== *)
theory VFS_FileInfo
  imports VFS_URI_Laws VFS_Refcount
begin

text \<open>
  File informations (\<^verbatim>\<open>libgnomevfs/gnome-vfs-file-info.c\<close>): the structure, its reference
  count, copying and comparison, lists of them, and the results of asynchronous queries.
  An object is a value; objects that several lists share live in a store of addresses.
\<close>

section \<open>The structure\<close>

datatype GnomeVFSFileType =
    GNOME_VFS_FILE_TYPE_UNKNOWN | GNOME_VFS_FILE_TYPE_REGULAR | GNOME_VFS_FILE_TYPE_DIRECTORY
  | GNOME_VFS_FILE_TYPE_FIFO | GNOME_VFS_FILE_TYPE_SOCKET | GNOME_VFS_FILE_TYPE_CHARACTER_DEVICE
  | GNOME_VFS_FILE_TYPE_BLOCK_DEVICE | GNOME_VFS_FILE_TYPE_SYMBOLIC_LINK

record GnomeVFSFileInfo =
  fi_name :: "string option"
  valid_fields :: guint
  file_type :: GnomeVFSFileType
  permissions :: guint
  fi_flags :: guint
  device :: int
  inode :: "64 word"
  link_count :: guint
  uid :: guint
  gid :: guint
  fi_size :: "64 word"
  block_count :: "64 word"
  io_block_size :: guint
  atime :: int
  mtime :: int
  ctime :: int
  symlink_name :: "string option"
  mime_type :: "string option"
  refcount :: guint
  acl :: "nat option"
  selinux_context :: "string option"

definition zero_info :: GnomeVFSFileInfo where
  "zero_info =
     \<lparr>fi_name = None, valid_fields = 0, file_type = GNOME_VFS_FILE_TYPE_UNKNOWN, permissions = 0, fi_flags = 0,
      device = 0, inode = 0, link_count = 0, uid = 0, gid = 0, fi_size = 0, block_count = 0, io_block_size = 0,
      atime = 0, mtime = 0, ctime = 0, symlink_name = None, mime_type = None, refcount = 0, acl = None,
      selinux_context = None\<rparr>"

section \<open>Flags\<close>

text \<open>Open modes, fields of an information, options of queries and changes, options of visits.\<close>

definition GNOME_VFS_OPEN_READ :: guint where "GNOME_VFS_OPEN_READ = 1"
definition GNOME_VFS_OPEN_WRITE :: guint where "GNOME_VFS_OPEN_WRITE = 2"
definition GNOME_VFS_OPEN_RANDOM :: guint where "GNOME_VFS_OPEN_RANDOM = 4"
definition GNOME_VFS_OPEN_TRUNCATE :: guint where "GNOME_VFS_OPEN_TRUNCATE = 8"
definition GNOME_VFS_FILE_FLAGS_LOCAL :: guint where "GNOME_VFS_FILE_FLAGS_LOCAL = 2"
definition GNOME_VFS_FILE_INFO_FIELDS_PERMISSIONS :: guint where "GNOME_VFS_FILE_INFO_FIELDS_PERMISSIONS = 2"
definition GNOME_VFS_FILE_INFO_FIELDS_DEVICE :: guint where "GNOME_VFS_FILE_INFO_FIELDS_DEVICE = 8"
definition GNOME_VFS_FILE_INFO_FIELDS_INODE :: guint where "GNOME_VFS_FILE_INFO_FIELDS_INODE = 16"
definition GNOME_VFS_FILE_INFO_FIELDS_SIZE :: guint where "GNOME_VFS_FILE_INFO_FIELDS_SIZE = 64"
definition GNOME_VFS_FILE_INFO_FIELDS_IO_BLOCK_SIZE :: guint where "GNOME_VFS_FILE_INFO_FIELDS_IO_BLOCK_SIZE = 256"
definition GNOME_VFS_FILE_INFO_FIELDS_SYMLINK_NAME :: guint where "GNOME_VFS_FILE_INFO_FIELDS_SYMLINK_NAME = 4096"
definition GNOME_VFS_FILE_INFO_FIELDS_ACCESS :: guint where "GNOME_VFS_FILE_INFO_FIELDS_ACCESS = 16384"
definition GNOME_VFS_PERM_SGID :: guint where "GNOME_VFS_PERM_SGID = 1024"
definition GNOME_VFS_PERM_ACCESS_WRITABLE :: guint where "GNOME_VFS_PERM_ACCESS_WRITABLE = 131072"
definition GNOME_VFS_PERM_ACCESS_EXECUTABLE :: guint where "GNOME_VFS_PERM_ACCESS_EXECUTABLE = 262144"
definition GNOME_VFS_FILE_INFO_DEFAULT :: guint where "GNOME_VFS_FILE_INFO_DEFAULT = 0"
definition GNOME_VFS_FILE_INFO_FOLLOW_LINKS :: guint where "GNOME_VFS_FILE_INFO_FOLLOW_LINKS = 8"
definition GNOME_VFS_FILE_INFO_GET_ACCESS_RIGHTS :: guint where "GNOME_VFS_FILE_INFO_GET_ACCESS_RIGHTS = 16"
definition GNOME_VFS_SET_FILE_INFO_NAME :: guint where "GNOME_VFS_SET_FILE_INFO_NAME = 1"
definition GNOME_VFS_SET_FILE_INFO_PERMISSIONS :: guint where "GNOME_VFS_SET_FILE_INFO_PERMISSIONS = 2"
definition GNOME_VFS_SET_FILE_INFO_OWNER :: guint where "GNOME_VFS_SET_FILE_INFO_OWNER = 4"
definition GNOME_VFS_SET_FILE_INFO_TIME :: guint where "GNOME_VFS_SET_FILE_INFO_TIME = 8"
definition GNOME_VFS_DIRECTORY_VISIT_SAMEFS :: guint where "GNOME_VFS_DIRECTORY_VISIT_SAMEFS = 1"
definition GNOME_VFS_DIRECTORY_VISIT_LOOPCHECK :: guint where "GNOME_VFS_DIRECTORY_VISIT_LOOPCHECK = 2"
definition GNOME_VFS_DIRECTORY_VISIT_IGNORE_RECURSE_ERROR :: guint where "GNOME_VFS_DIRECTORY_VISIT_IGNORE_RECURSE_ERROR = 4"

definition GNOME_VFS_FILE_INFO_LOCAL :: "GnomeVFSFileInfo \<Rightarrow> bool" where
  "GNOME_VFS_FILE_INFO_LOCAL info \<longleftrightarrow> (fi_flags info AND GNOME_VFS_FILE_FLAGS_LOCAL) \<noteq> 0"

definition GNOME_VFS_FILE_INFO_SGID :: "GnomeVFSFileInfo \<Rightarrow> bool" where
  "GNOME_VFS_FILE_INFO_SGID info \<longleftrightarrow> (permissions info AND GNOME_VFS_PERM_SGID) \<noteq> 0"

section \<open>Operations\<close>

definition gnome_vfs_file_info_new :: GnomeVFSFileInfo where
  "gnome_vfs_file_info_new = zero_info\<lparr>refcount := 1\<rparr>"

definition gnome_vfs_file_info_ref :: "GnomeVFSFileInfo \<Rightarrow> GnomeVFSFileInfo" where
  "gnome_vfs_file_info_ref info =
     (if refcount info > 0 then info\<lparr>refcount := refcount info + 1\<rparr> else info)"

definition gnome_vfs_file_info_clear :: "GnomeVFSFileInfo \<Rightarrow> GnomeVFSFileInfo" where
  "gnome_vfs_file_info_clear info = zero_info\<lparr>refcount := refcount info\<rparr>"

text \<open>\<open>None\<close>: the count reached zero, the structure was cleared and freed.\<close>

definition gnome_vfs_file_info_unref :: "GnomeVFSFileInfo \<Rightarrow> GnomeVFSFileInfo option" where
  "gnome_vfs_file_info_unref info =
     (if refcount info > 0 then
        (let info' = info\<lparr>refcount := refcount info - 1\<rparr>
         in if refcount info' = 0 then None else Some info')
      else Some info)"

definition gnome_vfs_file_info_get_mime_type :: "GnomeVFSFileInfo \<Rightarrow> string option" where
  "gnome_vfs_file_info_get_mime_type info = mime_type info"

definition gnome_vfs_file_info_copy :: "GnomeVFSFileInfo \<Rightarrow> GnomeVFSFileInfo \<Rightarrow> GnomeVFSFileInfo" where
  "gnome_vfs_file_info_copy dest src = src\<lparr>refcount := refcount dest\<rparr>"

definition gnome_vfs_file_info_dup :: "GnomeVFSFileInfo \<Rightarrow> GnomeVFSFileInfo" where
  "gnome_vfs_file_info_dup orig = gnome_vfs_file_info_copy gnome_vfs_file_info_new orig"

definition mime_matches :: "string option \<Rightarrow> string option \<Rightarrow> bool" where
  "mime_matches a b =
     (case (a, b) of
        (None, None) \<Rightarrow> True
      | (Some x, Some y) \<Rightarrow> g_ascii_strdown x = g_ascii_strdown y
      | _ \<Rightarrow> False)"

definition symlink_name_matches :: "string option \<Rightarrow> string option \<Rightarrow> bool" where
  "symlink_name_matches a b =
     (case (a, b) of (None, None) \<Rightarrow> True | (Some x, Some y) \<Rightarrow> x = y | _ \<Rightarrow> False)"

definition selinux_context_matches :: "string option \<Rightarrow> string option \<Rightarrow> bool" where
  "selinux_context_matches a b = symlink_name_matches a b"

definition gnome_vfs_file_info_matches :: "GnomeVFSFileInfo \<Rightarrow> GnomeVFSFileInfo \<Rightarrow> bool" where
  "gnome_vfs_file_info_matches a b =
     (if fi_name a = None \<or> fi_name b = None then False
      else if file_type a \<noteq> file_type b \<or> fi_size a \<noteq> fi_size b \<or> block_count a \<noteq> block_count b
           \<or> atime a \<noteq> atime b \<or> mtime a \<noteq> mtime b \<or> ctime a \<noteq> ctime b
           \<or> fi_flags a \<noteq> fi_flags b \<or> permissions a \<noteq> permissions b
           \<or> device a \<noteq> device b \<or> inode a \<noteq> inode b \<or> link_count a \<noteq> link_count b
           \<or> uid a \<noteq> uid b \<or> gid a \<noteq> gid b
           \<or> fi_name a \<noteq> fi_name b
           \<or> \<not> selinux_context_matches (selinux_context a) (selinux_context b)
           \<or> \<not> mime_matches (mime_type a) (mime_type b)
           \<or> \<not> symlink_name_matches (symlink_name a) (symlink_name b)
      then False else True)"

section \<open>Lists of shared informations\<close>

type_synonym info_store = "nat \<Rightarrow> GnomeVFSFileInfo option"

definition store_ref :: "nat \<Rightarrow> info_store \<Rightarrow> info_store" where
  "store_ref a s = s(a := map_option gnome_vfs_file_info_ref (s a))"

definition store_unref :: "nat \<Rightarrow> info_store \<Rightarrow> info_store" where
  "store_unref a s = s(a := (case s a of None \<Rightarrow> None | Some i \<Rightarrow> gnome_vfs_file_info_unref i))"

definition gnome_vfs_file_info_list_ref :: "nat list \<Rightarrow> info_store \<Rightarrow> nat list \<times> info_store" where
  "gnome_vfs_file_info_list_ref l s = (l, fold store_ref l s)"

definition gnome_vfs_file_info_list_unref :: "nat list \<Rightarrow> info_store \<Rightarrow> nat list \<times> info_store" where
  "gnome_vfs_file_info_list_unref l s = (l, fold store_unref l s)"

definition gnome_vfs_file_info_list_copy :: "nat list \<Rightarrow> info_store \<Rightarrow> nat list \<times> info_store" where
  "gnome_vfs_file_info_list_copy l s = gnome_vfs_file_info_list_ref l s"

definition gnome_vfs_file_info_list_free :: "nat list \<Rightarrow> info_store \<Rightarrow> info_store" where
  "gnome_vfs_file_info_list_free l s = snd (gnome_vfs_file_info_list_unref l s)"

section \<open>Query results\<close>

text \<open>A result holds a URI and an information; both live in stores.\<close>

record GnomeVFSGetFileInfoResult =
  gfi_uri :: nat
  gfi_result :: GnomeVFSResult
  gfi_file_info :: nat

record object_store =
  uri_store :: "nat \<Rightarrow> GnomeVFSURI option"
  infos :: info_store

definition store_uri_ref :: "nat \<Rightarrow> object_store \<Rightarrow> object_store" where
  "store_uri_ref a s = s\<lparr>uri_store := (uri_store s)(a := map_option gnome_vfs_uri_ref (uri_store s a))\<rparr>"

text \<open>A URI whose last reference is dropped leaves the store.\<close>

definition drop_uri :: "GnomeVFSURI \<Rightarrow> GnomeVFSURI option" where
  "drop_uri u = (case gnome_vfs_uri_unref u of Some (u', []) \<Rightarrow> Some u' | _ \<Rightarrow> None)"

definition store_uri_unref :: "nat \<Rightarrow> object_store \<Rightarrow> object_store" where
  "store_uri_unref a s = s\<lparr>uri_store := (uri_store s)(a := Option.bind (uri_store s a) drop_uri)\<rparr>"

definition gnome_vfs_get_file_info_result_dup ::
    "GnomeVFSGetFileInfoResult \<Rightarrow> object_store \<Rightarrow> GnomeVFSGetFileInfoResult \<times> object_store" where
  "gnome_vfs_get_file_info_result_dup r s =
     (let s1 = store_uri_ref (gfi_uri r) s
      in (\<lparr>gfi_uri = gfi_uri r, gfi_result = gfi_result r, gfi_file_info = gfi_file_info r\<rparr>,
          s1\<lparr>infos := store_ref (gfi_file_info r) (infos s1)\<rparr>))"

definition gnome_vfs_get_file_info_result_free ::
    "GnomeVFSGetFileInfoResult \<Rightarrow> object_store \<Rightarrow> object_store" where
  "gnome_vfs_get_file_info_result_free r s =
     (let s1 = store_uri_unref (gfi_uri r) s
      in s1\<lparr>infos := store_unref (gfi_file_info r) (infos s1)\<rparr>)"

section \<open>Reference counts\<close>

definition info_room :: "GnomeVFSFileInfo \<Rightarrow> nat" where
  "info_room i = (if refcount i = 0 then 0 else 2 ^ 32 - 1 - unat (refcount i))"

definition max_count :: "GnomeVFSURI \<Rightarrow> nat" where
  "max_count u = Max (unat ` ref_count ` set (uri_elements u))"

definition uri_room :: "GnomeVFSURI \<Rightarrow> nat" where
  "uri_room u = (if counts_all (\<lambda>n. n \<noteq> 0) u then 2 ^ 32 - 1 - max_count u else 0)"

lemma plus_1_no_wrap: "unat (n :: guint) < 2 ^ 32 - 1 \<Longrightarrow> unat (n + 1) = unat n + 1"
  by (simp add: unat_word_ariths)

lemma info_drop_take: "info_room i > 0 \<Longrightarrow> gnome_vfs_file_info_unref (gnome_vfs_file_info_ref i) = Some i"
proof -
  assume a: "info_room i > 0"
  then have "refcount i \<noteq> 0" "unat (refcount i) < 2 ^ 32 - 1" by (auto simp: info_room_def split: if_splits)
  then have "refcount i + 1 > 0" "refcount i > 0"
    using plus_1_no_wrap [of "refcount i"] by (auto simp: word_less_nat_alt unat_gt_0)
  with \<open>refcount i \<noteq> 0\<close> show ?thesis
    by (simp add: gnome_vfs_file_info_ref_def gnome_vfs_file_info_unref_def)
qed

lemma info_room_take: "info_room i > 0 \<Longrightarrow> info_room (gnome_vfs_file_info_ref i) = info_room i - 1"
proof -
  assume a: "info_room i > 0"
  then have "refcount i \<noteq> 0" "unat (refcount i) < 2 ^ 32 - 1" by (auto simp: info_room_def split: if_splits)
  then have "refcount i > 0" "unat (refcount i + 1) = unat (refcount i) + 1"
    using plus_1_no_wrap [of "refcount i"] by (simp_all add: word_neq_0_conv)
  moreover from this(2) have "refcount i + 1 \<noteq> 0" by (metis Suc_eq_plus1 nat.distinct(1) unat_0)
  ultimately show ?thesis using \<open>refcount i \<noteq> 0\<close>
    by (simp add: gnome_vfs_file_info_ref_def info_room_def)
qed

interpretation info_refs: refcounted gnome_vfs_file_info_ref gnome_vfs_file_info_unref info_room
  by unfold_locales (simp_all add: info_drop_take info_room_take)

lemma counts_all_iff: "counts_all P u \<longleftrightarrow> (\<forall>e\<in>set (uri_elements u). P (ref_count e))"
  by (induction u) auto

lemma uri_elements_ne [simp]: "uri_elements u \<noteq> []"
  by (cases u) auto

lemma uri_elements_ref:
  "uri_elements (gnome_vfs_uri_ref u) = map (\<lambda>e. e\<lparr>ref_count := ref_count e + 1\<rparr>) (uri_elements u)"
proof -
  have "uri_elements (map_elements f u) = map f (uri_elements u)" for f
    by (induction u) auto
  then show ?thesis by (simp add: gnome_vfs_uri_ref_def)
qed

lemma max_count_ge: "e \<in> set (uri_elements u) \<Longrightarrow> unat (ref_count e) \<le> max_count u"
  unfolding max_count_def by (rule Max_ge) auto

lemma uri_room_counts:
  assumes "uri_room u > 0" "e \<in> set (uri_elements u)"
  shows "ref_count e \<noteq> 0" "unat (ref_count e + 1) = unat (ref_count e) + 1" "ref_count e + 1 \<noteq> 0"
proof -
  have "max_count u < 2 ^ 32 - 1" and nz: "ref_count e \<noteq> 0"
    using assms by (auto simp: uri_room_def counts_all_iff split: if_splits)
  then have "unat (ref_count e) < 2 ^ 32 - 1" using max_count_ge [OF assms(2)] by simp
  then show "ref_count e \<noteq> 0" "unat (ref_count e + 1) = unat (ref_count e) + 1"
    using nz plus_1_no_wrap [of "ref_count e"] by auto
  then show "ref_count e + 1 \<noteq> 0" by (metis Suc_eq_plus1 nat.distinct(1) unat_0)
qed

lemma uri_drop_take: "uri_room u > 0 \<Longrightarrow> drop_uri (gnome_vfs_uri_ref u) = Some u"
proof -
  assume "uri_room u > 0"
  then have "counts_all (\<lambda>n. n + 1 \<noteq> 0 \<and> n \<noteq> 0) u"
    using uri_room_counts [of u] by (auto simp: counts_all_iff)
  then have "unref_loop (gnome_vfs_uri_ref u) = Some (u, [])" "ref_count (uri_elem (gnome_vfs_uri_ref u)) \<noteq> 0"
    using unref_ref_loop [of u] by (auto simp: gnome_vfs_uri_ref_def, cases u, auto)
  then show ?thesis by (simp add: drop_uri_def gnome_vfs_uri_unref_def)
qed

lemma uri_room_take: "uri_room u > 0 \<Longrightarrow> uri_room (gnome_vfs_uri_ref u) = uri_room u - 1"
proof -
  assume r: "uri_room u > 0"
  define ns where "ns = unat ` ref_count ` set (uri_elements u)"
  have "unat ` ref_count ` set (uri_elements (gnome_vfs_uri_ref u)) = Suc ` ns"
    using uri_room_counts(2) [OF r] by (auto simp: uri_elements_ref ns_def image_image image_iff)
  moreover have "Max (Suc ` ns) = Suc (Max ns)"
    by (rule mono_Max_commute [symmetric]) (auto simp: ns_def mono_def)
  ultimately have "max_count (gnome_vfs_uri_ref u) = Suc (max_count u)"
    by (simp add: max_count_def ns_def)
  moreover have "counts_all (\<lambda>n. n \<noteq> 0) (gnome_vfs_uri_ref u)" "counts_all (\<lambda>n. n \<noteq> 0) u"
    using uri_room_counts(1,3) [OF r] by (auto simp: counts_all_iff uri_elements_ref)
  ultimately show ?thesis by (simp add: uri_room_def)
qed

interpretation uri_refs: refcounted gnome_vfs_uri_ref drop_uri uri_room
  by unfold_locales (simp_all add: uri_drop_take uri_room_take)

section \<open>Lists and results\<close>

lemma fold_store_ref: "fold store_ref l s a = map_option (gnome_vfs_file_info_ref ^^ count_list l a) (s a)"
  by (induction l arbitrary: s)
     (simp_all add: store_ref_def funpow_swap1 option.map_comp comp_def option.map_id id_def option.map_ident)

lemma fold_store_unref:
  "fold store_unref l s a = Option.bind (s a) (info_refs.run_ops (replicate (count_list l a) Drop))"
proof (induction l arbitrary: s)
  case Nil
  then show ?case by (cases "s a") auto
next
  case (Cons b l)
  then show ?case by (cases "s a") (auto simp: store_unref_def split: option.splits)
qed

text \<open>
  Copying a list of file informations and freeing the copy leaves every information of
  the store exactly as it was, also when the list names the same information several times,
  as long as the counters have room for that many references.
\<close>

theorem file_info_list_copy_free:
  assumes "\<And>a i. s a = Some i \<Longrightarrow> count_list l a \<le> info_room i"
  shows "gnome_vfs_file_info_list_free l (snd (gnome_vfs_file_info_list_copy l s)) = s"
proof
  fix a
  show "gnome_vfs_file_info_list_free l (snd (gnome_vfs_file_info_list_copy l s)) a = s a"
    using assms [of a] info_refs.drops_undo_takes [of "count_list l a"]
    by (cases "s a")
       (simp_all add: gnome_vfs_file_info_list_free_def gnome_vfs_file_info_list_unref_def
          gnome_vfs_file_info_list_copy_def gnome_vfs_file_info_list_ref_def fold_store_unref fold_store_ref)
qed

theorem file_info_list_copy_free_witness:
  "gnome_vfs_file_info_list_free [7, 7]
     (snd (gnome_vfs_file_info_list_copy [7, 7] [7 \<mapsto> gnome_vfs_file_info_new])) = [7 \<mapsto> gnome_vfs_file_info_new]"
  by (rule file_info_list_copy_free)
     (auto simp: info_room_def gnome_vfs_file_info_new_def split: if_splits)

text \<open>
  Duplicating the result of a file information query and freeing the duplicate leaves
  the URI and the information it refers to as they were.
\<close>

theorem file_info_result_dup_free:
  assumes "uri_store s (gfi_uri r) = Some u" "uri_room u > 0"
    and "infos s (gfi_file_info r) = Some i" "info_room i > 0"
  shows "(case gnome_vfs_get_file_info_result_dup r s of (r', s') \<Rightarrow> (r', gnome_vfs_get_file_info_result_free r' s'))
         = (r, s)"
  using assms uri_drop_take [of u] info_drop_take [of i]
  by (simp add: gnome_vfs_get_file_info_result_dup_def gnome_vfs_get_file_info_result_free_def Let_def
        store_uri_ref_def store_uri_unref_def store_ref_def store_unref_def fun_upd_idem)

theorem file_info_result_dup_free_witness:
  "(case gnome_vfs_get_file_info_result_dup \<lparr>gfi_uri = 1, gfi_result = GNOME_VFS_OK, gfi_file_info = 2\<rparr>
           \<lparr>uri_store = [1 \<mapsto> file_uri ''/a''], infos = [2 \<mapsto> gnome_vfs_file_info_new]\<rparr> of
      (r', s') \<Rightarrow> (r', gnome_vfs_get_file_info_result_free r' s')) =
   (\<lparr>gfi_uri = 1, gfi_result = GNOME_VFS_OK, gfi_file_info = 2\<rparr>,
    \<lparr>uri_store = [1 \<mapsto> file_uri ''/a''], infos = [2 \<mapsto> gnome_vfs_file_info_new]\<rparr>)"
  by (rule file_info_result_dup_free [where u = "file_uri ''/a''" and i = gnome_vfs_file_info_new])
     (simp_all add: info_room_def gnome_vfs_file_info_new_def uri_room_def file_uri_def sample_element_def max_count_def)

section \<open>Comparison\<close>

lemma symlink_name_matches_eq: "symlink_name_matches a b \<longleftrightarrow> a = b"
  by (auto simp: symlink_name_matches_def split: option.splits)

lemma mime_matches_eq: "mime_matches a b \<longleftrightarrow> map_option g_ascii_strdown a = map_option g_ascii_strdown b"
  by (auto simp: mime_matches_def split: option.splits)

text \<open>What the comparison looks at.\<close>

definition info_key where
  "info_key a =
     ((file_type a, fi_size a, block_count a, atime a, mtime a, ctime a, fi_flags a, permissions a),
      (device a, inode a, link_count a, uid a, gid a, fi_name a, selinux_context a),
      map_option g_ascii_strdown (mime_type a), symlink_name a)"

lemma file_info_matches_key:
  "gnome_vfs_file_info_matches a b \<longleftrightarrow> fi_name a \<noteq> None \<and> info_key a = info_key b"
  unfolding gnome_vfs_file_info_matches_def info_key_def selinux_context_matches_def
    symlink_name_matches_eq mime_matches_eq prod.inject
  by (cases "fi_name a"; cases "fi_name b") simp_all

text \<open>
  Comparing file informations: a duplicate of a named information matches the original,
  and matching is symmetric and transitive.
\<close>

theorem file_info_matches_laws:
  "(fi_name a \<noteq> None \<longrightarrow> gnome_vfs_file_info_matches (gnome_vfs_file_info_dup a) a)
   \<and> gnome_vfs_file_info_matches a b = gnome_vfs_file_info_matches b a
   \<and> (gnome_vfs_file_info_matches a b \<longrightarrow> gnome_vfs_file_info_matches b c \<longrightarrow> gnome_vfs_file_info_matches a c)"
proof -
  have "info_key (gnome_vfs_file_info_dup a) = info_key a" "fi_name (gnome_vfs_file_info_dup a) = fi_name a"
    by (simp_all add: info_key_def gnome_vfs_file_info_dup_def gnome_vfs_file_info_copy_def)
  moreover have "info_key x = info_key y \<Longrightarrow> fi_name x = fi_name y" for x y
    by (simp add: info_key_def)
  ultimately show ?thesis unfolding file_info_matches_key by metis
qed

theorem file_info_matches_laws_witness:
  "gnome_vfs_file_info_matches (gnome_vfs_file_info_dup (zero_info\<lparr>fi_name := Some ''a''\<rparr>)) (zero_info\<lparr>fi_name := Some ''a''\<rparr>)"
  using file_info_matches_laws [of "zero_info\<lparr>fi_name := Some ''a''\<rparr>"] by simp

end
