(* ===== verification/VFS_Cancellation.thy ===== *)
theory VFS_Cancellation
  imports VFS_Prelude
begin

text \<open>
  Cancellation objects and contexts (\<^verbatim>\<open>libgnomevfs/gnome-vfs-cancellation.c\<close>,
  \<^verbatim>\<open>gnome-vfs-context.c\<close>): the flag, the notification pipe and the daemon handle. The pipe is
  the operating system's: what \<^verbatim>\<open>pipe()\<close> returns is an argument, and the bytes written and
  not yet read are counted in \<open>pipe_bytes\<close>.
\<close>

section \<open>Cancellation objects\<close>

record GnomeVFSCancellation =
  is_cancelled :: bool
  pipe_in :: int
  pipe_out :: int
  daemon_handle :: "32 word"
  connection :: "32 word"
  pipe_bytes :: nat

definition gnome_vfs_cancellation_new :: GnomeVFSCancellation where
  "gnome_vfs_cancellation_new =
     \<lparr>is_cancelled = False, pipe_in = -1, pipe_out = -1, daemon_handle = 0, connection = 0, pipe_bytes = 0\<rparr>"

text \<open>The descriptors that destroying the object closes.\<close>

definition gnome_vfs_cancellation_destroy :: "GnomeVFSCancellation \<Rightarrow> int list" where
  "gnome_vfs_cancellation_destroy c = (if pipe_in c \<ge> 0 then [pipe_in c, pipe_out c] else [])"

text \<open>\<open>None\<close>: the assertion that no handle is set fails.\<close>

definition gnome_vfs_cancellation_set_handle ::
    "GnomeVFSCancellation \<Rightarrow> 32 word \<Rightarrow> 32 word \<Rightarrow> GnomeVFSCancellation option" where
  "gnome_vfs_cancellation_set_handle c conn h =
     (if daemon_handle c = 0 then Some (c\<lparr>connection := conn, daemon_handle := h\<rparr>) else None)"

definition gnome_vfs_cancellation_unset_handle :: "GnomeVFSCancellation \<Rightarrow> GnomeVFSCancellation" where
  "gnome_vfs_cancellation_unset_handle c = c\<lparr>connection := 0, daemon_handle := 0\<rparr>"

text \<open>The object afterwards and the message sent to the daemon, if any.\<close>

definition gnome_vfs_cancellation_cancel ::
    "GnomeVFSCancellation \<Rightarrow> GnomeVFSCancellation \<times> (32 word \<times> 32 word) option" where
  "gnome_vfs_cancellation_cancel c =
     (if is_cancelled c then (c, None)
      else
        (let c1 = (if pipe_out c \<ge> 0 then c\<lparr>pipe_bytes := pipe_bytes c + 1\<rparr> else c);
             h = (if daemon_handle c1 \<noteq> 0 then daemon_handle c1 else 0);
             conn = (if daemon_handle c1 \<noteq> 0 then connection c1 else 0)
         in (c1\<lparr>is_cancelled := True\<rparr>, if h \<noteq> 0 then Some (h, conn) else None)))"

definition gnome_vfs_cancellation_check :: "GnomeVFSCancellation option \<Rightarrow> bool" where
  "gnome_vfs_cancellation_check c = (case c of None \<Rightarrow> False | Some x \<Rightarrow> is_cancelled x)"

text \<open>\<open>None\<close>: the read blocks, the pipe being empty.\<close>

definition gnome_vfs_cancellation_ack :: "GnomeVFSCancellation \<Rightarrow> GnomeVFSCancellation option" where
  "gnome_vfs_cancellation_ack c =
     (if pipe_in c \<ge> 0 then
        (if pipe_bytes c = 0 then None
         else Some (c\<lparr>pipe_bytes := pipe_bytes c - 1, is_cancelled := False\<rparr>))
      else Some (c\<lparr>is_cancelled := False\<rparr>))"

text \<open>The descriptor returned, given what \<^verbatim>\<open>pipe()\<close> returns if it is called.\<close>

definition gnome_vfs_cancellation_get_fd ::
    "(int \<times> int) option \<Rightarrow> GnomeVFSCancellation \<Rightarrow> int \<times> GnomeVFSCancellation" where
  "gnome_vfs_cancellation_get_fd pipefd c =
     (if pipe_in c \<le> 0 then
        (case pipefd of
           None \<Rightarrow> (-1, c)
         | Some (i, j) \<Rightarrow> (i, c\<lparr>pipe_in := i, pipe_out := j, pipe_bytes := 0\<rparr>))
      else (pipe_in c, c))"

section \<open>Contexts\<close>

record GnomeVFSContext =
  cancellation :: "GnomeVFSCancellation option"

definition sync_context :: GnomeVFSContext where
  "sync_context = \<lparr>cancellation = None\<rparr>"

definition gnome_vfs_context_new :: GnomeVFSContext where
  "gnome_vfs_context_new = \<lparr>cancellation = Some gnome_vfs_cancellation_new\<rparr>"

definition gnome_vfs_context_get_cancellation :: "GnomeVFSContext option \<Rightarrow> GnomeVFSCancellation option" where
  "gnome_vfs_context_get_cancellation ctx = Option.bind ctx cancellation"

text \<open>The context of the job the thread runs, or the token context of a synchronous call.\<close>

definition gnome_vfs_context_peek_current :: "GnomeVFSContext option \<Rightarrow> GnomeVFSContext" where
  "gnome_vfs_context_peek_current current_job_context =
     (case current_job_context of None \<Rightarrow> sync_context | Some ctx \<Rightarrow> ctx)"

definition gnome_vfs_context_check_cancellation_current :: "GnomeVFSContext option \<Rightarrow> bool" where
  "gnome_vfs_context_check_cancellation_current current_job_context =
     (case current_job_context of
        None \<Rightarrow> False
      | Some ctx \<Rightarrow> gnome_vfs_cancellation_check (gnome_vfs_context_get_cancellation (Some ctx)))"

section \<open>Behaviour\<close>

text \<open>
  What clients do with an object between creating and destroying it: every public operation
  that changes it. A run is \<open>None\<close> when a handle is set twice (the assertion) or an
  acknowledgement blocks in \<^verbatim>\<open>read\<close>.
\<close>

datatype cancel_op =
    Do_Cancel | Do_Ack | Do_Get_Fd "(int \<times> int) option" | Do_Set_Handle "32 word" "32 word"
  | Do_Unset_Handle

fun cancel_step :: "cancel_op \<Rightarrow> GnomeVFSCancellation \<Rightarrow> GnomeVFSCancellation option" where
  "cancel_step Do_Cancel c = Some (fst (gnome_vfs_cancellation_cancel c))"
| "cancel_step Do_Ack c = gnome_vfs_cancellation_ack c"
| "cancel_step (Do_Get_Fd p) c = Some (snd (gnome_vfs_cancellation_get_fd p c))"
| "cancel_step (Do_Set_Handle conn h) c = gnome_vfs_cancellation_set_handle c conn h"
| "cancel_step Do_Unset_Handle c = Some (gnome_vfs_cancellation_unset_handle c)"

fun cancel_steps :: "cancel_op list \<Rightarrow> GnomeVFSCancellation \<Rightarrow> GnomeVFSCancellation option" where
  "cancel_steps [] c = Some c"
| "cancel_steps (x # xs) c = Option.bind (cancel_step x c) (cancel_steps xs)"

text \<open>The descriptors of a pipe are positive, unless the process closed its standard input.\<close>

definition good_pipe :: "(int \<times> int) option \<Rightarrow> bool" where
  "good_pipe p = (case p of None \<Rightarrow> True | Some (i, j) \<Rightarrow> i > 0 \<and> j > 0)"

fun good_op :: "cancel_op \<Rightarrow> bool" where
  "good_op (Do_Get_Fd p) = good_pipe p"
| "good_op _ = True"

text \<open>The invariant: both ends or none; at most one byte waits, and only while the flag is set.\<close>

definition cancellation_ok :: "GnomeVFSCancellation \<Rightarrow> bool" where
  "cancellation_ok c \<longleftrightarrow>
     (pipe_in c = -1 \<and> pipe_out c = -1 \<and> pipe_bytes c = 0 \<or> pipe_in c > 0 \<and> pipe_out c > 0)
     \<and> pipe_bytes c \<le> 1 \<and> (pipe_bytes c = 1 \<longrightarrow> is_cancelled c)"

named_theorems cancellation_defs
declare gnome_vfs_cancellation_cancel_def [cancellation_defs]
  gnome_vfs_cancellation_ack_def [cancellation_defs]
  gnome_vfs_cancellation_get_fd_def [cancellation_defs]
  gnome_vfs_cancellation_set_handle_def [cancellation_defs]
  gnome_vfs_cancellation_unset_handle_def [cancellation_defs]
  gnome_vfs_cancellation_new_def [cancellation_defs]

lemma cancellation_ok_new: "cancellation_ok gnome_vfs_cancellation_new"
  by (simp add: cancellation_ok_def cancellation_defs)

lemma cancellation_ok_step:
  "cancellation_ok c \<Longrightarrow> good_op x \<Longrightarrow> cancel_step x c = Some c' \<Longrightarrow>
     cancellation_ok c' \<and> (pipe_in c > 0 \<longrightarrow> pipe_in c' = pipe_in c)
     \<and> (is_cancelled c \<and> pipe_in c > 0 \<and> x \<noteq> Do_Ack \<longrightarrow> pipe_bytes c' = pipe_bytes c)"
  by (cases x)
     (auto simp: cancellation_ok_def cancellation_defs good_pipe_def Let_def
        split: if_splits option.splits)

lemma cancel_step_flag:
  "cancel_step x c = Some c' \<Longrightarrow>
     is_cancelled c' \<longleftrightarrow> x = Do_Cancel \<or> is_cancelled c \<and> x \<noteq> Do_Ack"
  by (cases x)
     (auto simp: cancellation_defs Let_def split: if_splits option.splits)

lemma cancellation_ok_steps:
  "cancellation_ok c \<Longrightarrow> list_all good_op xs \<Longrightarrow> cancel_steps xs c = Some c' \<Longrightarrow>
     cancellation_ok c' \<and> (pipe_in c > 0 \<longrightarrow> pipe_in c' = pipe_in c)
     \<and> (is_cancelled c \<and> pipe_in c > 0 \<and> Do_Ack \<notin> set xs \<longrightarrow> pipe_bytes c' = pipe_bytes c)"
proof (induction xs arbitrary: c)
  case (Cons x xs)
  then obtain d where d: "cancel_step x c = Some d" "cancel_steps xs d = Some c'"
    by (cases "cancel_step x c") auto
  have "cancellation_ok d \<and> (pipe_in c > 0 \<longrightarrow> pipe_in d = pipe_in c)
      \<and> (is_cancelled c \<and> pipe_in c > 0 \<and> x \<noteq> Do_Ack \<longrightarrow> pipe_bytes d = pipe_bytes c \<and> is_cancelled d)"
    using cancellation_ok_step [OF Cons.prems(1) _ d(1)] cancel_step_flag [OF d(1)] Cons.prems(2) by simp
  with Cons.IH [of d] Cons.prems(2) d(2) show ?case by auto
qed simp

text \<open>A request that no acknowledgement follows.\<close>

fun request_pending :: "cancel_op list \<Rightarrow> bool" where
  "request_pending [] = False"
| "request_pending (x # xs) = (request_pending xs \<or> x = Do_Cancel \<and> Do_Ack \<notin> set xs)"

lemma request_pending_iff:
  "request_pending xs \<longleftrightarrow> (\<exists>before after. xs = before @ Do_Cancel # after \<and> Do_Ack \<notin> set after)"
  by (induction xs) (auto simp: Cons_eq_append_conv)

lemma cancel_steps_flag:
  "cancel_steps xs c = Some c' \<Longrightarrow>
     is_cancelled c' \<longleftrightarrow> request_pending xs \<or> is_cancelled c \<and> Do_Ack \<notin> set xs"
proof (induction xs arbitrary: c)
  case (Cons x xs)
  then obtain d where d: "cancel_step x c = Some d" "cancel_steps xs d = Some c'"
    by (cases "cancel_step x c") auto
  from Cons.IH [OF d(2)] cancel_step_flag [OF d(1)] show ?case by auto
qed simp

lemma cancel_steps_append:
  "cancel_steps (xs @ ys) c = Option.bind (cancel_steps xs c) (cancel_steps ys)"
  by (induction xs arbitrary: c) (auto split: Option.bind_splits)

lemma announced_once:
  assumes "cancellation_ok d" "list_all good_op ys" "Do_Ack \<notin> set ys"
    and "cancel_steps (Do_Cancel # ys) d = Some c" "\<not> is_cancelled d" "0 < pipe_in d"
  shows "pipe_in c = pipe_in d \<and> pipe_bytes c = 1"
proof -
  define e where "e = fst (gnome_vfs_cancellation_cancel d)"
  have e: "is_cancelled e" "pipe_in e = pipe_in d" "pipe_bytes e = 1"
    using assms(1,5,6) by (auto simp: e_def gnome_vfs_cancellation_cancel_def Let_def cancellation_ok_def)
  have "cancellation_ok e"
    using cancellation_ok_step [OF assms(1), of Do_Cancel] by (simp add: e_def)
  from cancellation_ok_steps [OF this assms(2), of c] assms(3,4,6) e show ?thesis
    by (simp add: e_def)
qed

text \<open>
  C37. The cancellation protocol, over every sequence of the public operations on a new
  object (cancel, acknowledge, asking for the descriptor, setting and unsetting the daemon
  handle) that neither blocks nor fails the assertion, where \<^verbatim>\<open>pipe()\<close> returns positive
  descriptors: the check answers true exactly when some cancel has not been followed by an
  acknowledgement; while it answers false no byte waits on the pipe; and a request that
  found the flag clear and the descriptor handed out keeps exactly one byte waiting on that
  same descriptor for as long as it is not acknowledged, however often it is repeated.
\<close>

theorem cancellation_sticks:
  assumes "list_all good_op xs" and "cancel_steps xs gnome_vfs_cancellation_new = Some c"
  shows "(gnome_vfs_cancellation_check (Some c)
            \<longleftrightarrow> (\<exists>before after. xs = before @ Do_Cancel # after \<and> Do_Ack \<notin> set after))
       \<and> (\<not> gnome_vfs_cancellation_check (Some c) \<longrightarrow> pipe_bytes c = 0)
       \<and> (\<forall>before after d. xs = before @ Do_Cancel # after \<and> Do_Ack \<notin> set after
             \<and> cancel_steps before gnome_vfs_cancellation_new = Some d
             \<and> \<not> gnome_vfs_cancellation_check (Some d) \<and> 0 < pipe_in d
             \<longrightarrow> pipe_in c = pipe_in d \<and> pipe_bytes c = 1)"
proof (intro conjI allI impI)
  have ok: "cancellation_ok c"
    using cancellation_ok_steps [OF cancellation_ok_new assms] by simp
  show "gnome_vfs_cancellation_check (Some c)
          \<longleftrightarrow> (\<exists>before after. xs = before @ Do_Cancel # after \<and> Do_Ack \<notin> set after)"
    using cancel_steps_flag [OF assms(2)] request_pending_iff [of xs]
    by (simp add: gnome_vfs_cancellation_check_def gnome_vfs_cancellation_new_def)
  show "\<not> gnome_vfs_cancellation_check (Some c) \<Longrightarrow> pipe_bytes c = 0"
    using ok by (auto simp: cancellation_ok_def gnome_vfs_cancellation_check_def le_Suc_eq)
next
  fix before after d
  assume h: "xs = before @ Do_Cancel # after \<and> Do_Ack \<notin> set after
      \<and> cancel_steps before gnome_vfs_cancellation_new = Some d
      \<and> \<not> gnome_vfs_cancellation_check (Some d) \<and> 0 < pipe_in d"
  have "cancellation_ok d"
    using cancellation_ok_steps [OF cancellation_ok_new, of before d] h assms(1) by simp
  then have "pipe_in c = pipe_in d \<and> pipe_bytes c = 1"
    by (rule announced_once)
       (use h assms in \<open>auto simp: cancel_steps_append gnome_vfs_cancellation_check_def\<close>)
  then show "pipe_in c = pipe_in d" "pipe_bytes c = 1" by auto
qed

theorem cancellation_sticks_witness:
  "\<exists>c. cancel_steps [Do_Get_Fd (Some (3, 4)), Do_Cancel, Do_Ack, Do_Cancel, Do_Cancel, Do_Get_Fd None]
          gnome_vfs_cancellation_new = Some c
     \<and> gnome_vfs_cancellation_check (Some c) \<and> pipe_in c = 3 \<and> pipe_bytes c = 1"
proof -
  let ?before = "[Do_Get_Fd (Some (3, 4)), Do_Cancel, Do_Ack]"
  let ?after = "[Do_Cancel, Do_Get_Fd None]"
  define d where "d = gnome_vfs_cancellation_new\<lparr>pipe_in := 3, pipe_out := 4\<rparr>"
  define c where "c = d\<lparr>is_cancelled := True, pipe_bytes := 1\<rparr>"
  have d: "cancel_steps ?before gnome_vfs_cancellation_new = Some d"
    "\<not> gnome_vfs_cancellation_check (Some d)" "0 < pipe_in d"
    by (simp_all add: d_def cancellation_defs gnome_vfs_cancellation_check_def)
  have c: "cancel_steps (?before @ Do_Cancel # ?after) gnome_vfs_cancellation_new = Some c"
    by (simp add: c_def d_def cancellation_defs)
  have good: "list_all good_op (?before @ Do_Cancel # ?after)" by (simp add: good_pipe_def)
  have "Do_Ack \<notin> set ?after" by simp
  with d cancellation_sticks [OF good c]
  have "gnome_vfs_cancellation_check (Some c) \<and> pipe_in c = pipe_in d \<and> pipe_bytes c = 1"
    by blast
  moreover have "pipe_in d = 3" by (simp add: d_def)
  ultimately show ?thesis using c by auto
qed

text \<open>
  As the comment in \<^verbatim>\<open>gnome_vfs_cancellation_ack\<close> suspects: acknowledging a request that came
  before the descriptor was asked for blocks, since nothing was ever written to the pipe.
\<close>

lemma ack_of_early_request_blocks:
  assumes "is_cancelled c" "pipe_in c = -1" "0 < i"
  shows "cancel_steps [Do_Get_Fd (Some (i, j)), Do_Ack] c = None"
  using assms by (simp add: cancellation_defs)

text \<open>
  Where the first descriptor of the pipe is 0 (standard input was closed), asking for the
  descriptor twice makes a second pipe, and the first one is never closed.
\<close>

theorem get_fd_zero_leaks:
  "gnome_vfs_cancellation_destroy
     (snd (gnome_vfs_cancellation_get_fd (Some (6, 7))
        (snd (gnome_vfs_cancellation_get_fd (Some (0, 5)) gnome_vfs_cancellation_new)))) = [6, 7]"
  by (simp add: gnome_vfs_cancellation_get_fd_def gnome_vfs_cancellation_new_def gnome_vfs_cancellation_destroy_def)

end
