(* ===== verification/VFS_Job.thy ===== *)
theory VFS_Job
  imports VFS_FileInfo VFS_Cancellation
begin

text \<open>
  Jobs and their execution by a worker thread (\<^verbatim>\<open>libgnomevfs/gnome-vfs-job.c\<close>, the structures
  of \<^verbatim>\<open>gnome-vfs-job.h\<close>): operations, notifications, and one function per \<^verbatim>\<open>execute_\<close> routine.
  Executing an operation calls into a file system module; what those calls return is the
  argument \<open>vfs_calls\<close>. The result of a routine is the job afterwards and the
  notifications it asks to deliver, each with whether the worker waits for it.
\<close>

section \<open>Operations\<close>

datatype GnomeVFSOpType =
    GNOME_VFS_OP_OPEN | GNOME_VFS_OP_OPEN_AS_CHANNEL | GNOME_VFS_OP_CREATE | GNOME_VFS_OP_CREATE_SYMBOLIC_LINK
  | GNOME_VFS_OP_CREATE_AS_CHANNEL | GNOME_VFS_OP_CLOSE | GNOME_VFS_OP_READ | GNOME_VFS_OP_WRITE
  | GNOME_VFS_OP_SEEK | GNOME_VFS_OP_READ_WRITE_DONE | GNOME_VFS_OP_LOAD_DIRECTORY | GNOME_VFS_OP_FIND_DIRECTORY
  | GNOME_VFS_OP_XFER | GNOME_VFS_OP_GET_FILE_INFO | GNOME_VFS_OP_SET_FILE_INFO | GNOME_VFS_OP_MODULE_CALLBACK
  | GNOME_VFS_OP_FILE_CONTROL

text \<open>A callback with its data: one of the application's, or the silent close's.\<close>

datatype callback = App_Callback nat | Empty_Close_Callback

datatype GnomeVFSSpecificOp =
    No_Specifics
  | OpenOp "GnomeVFSURI option" guint
  | OpenAsChannelOp "GnomeVFSURI option" guint guint
  | CreateOp "GnomeVFSURI option" guint bool guint
  | CreateLinkOp GnomeVFSURI string
  | CreateAsChannelOp "GnomeVFSURI option" guint bool guint
  | ReadOp nat "64 word"
  | WriteOp nat "64 word"
  | SeekOp nat int
  | GetFileInfoOp "GnomeVFSURI list" guint
  | SetFileInfoOp GnomeVFSURI GnomeVFSFileInfo guint guint
  | FindDirectoryOp "GnomeVFSURI list" nat bool bool guint
  | LoadDirectoryOp "GnomeVFSURI option" guint guint
  | XferOp "GnomeVFSURI list" "GnomeVFSURI list" guint nat nat
  | FileControlOp string nat

record GnomeVFSOp =
  op_type :: GnomeVFSOpType
  op_callback :: callback
  specifics :: GnomeVFSSpecificOp
  op_context :: GnomeVFSContext

record GnomeVFSJob =
  job_vfs_handle :: "nat option"
  cancelled :: bool
  failed :: bool
  job_op :: GnomeVFSOp
  job_handle :: guint
  priority :: int

datatype GnomeVFSSpecificNotifyResult =
    OpenOpResult GnomeVFSResult
  | OpenAsChannelOpResult GnomeVFSResult "nat option"
  | CreateOpResult GnomeVFSResult
  | CreateAsChannelOpResult GnomeVFSResult "nat option"
  | CloseOpResult GnomeVFSResult
  | ReadOpResult GnomeVFSResult nat "64 word" "64 word"
  | WriteOpResult GnomeVFSResult nat "64 word" "64 word"
  | SeekOpResult GnomeVFSResult
  | GetFileInfoOpResult "(GnomeVFSURI \<times> GnomeVFSResult \<times> GnomeVFSFileInfo) list"
  | SetFileInfoOpResult GnomeVFSResult GnomeVFSResult GnomeVFSFileInfo
  | FindDirectoryOpResult "(GnomeVFSResult \<times> GnomeVFSURI option) list"
  | LoadDirectoryOpResult GnomeVFSResult "GnomeVFSFileInfo list" guint
  | XferOpResult nat
  | ModuleCallbackOpResult nat
  | FileControlOpResult GnomeVFSResult nat

record GnomeVFSNotifyResult =
  nr_job_handle :: guint
  nr_callback_id :: guint
  nr_cancelled :: bool
  nr_type :: GnomeVFSOpType
  nr_callback :: callback
  nr_specifics :: GnomeVFSSpecificNotifyResult

text \<open>Whether the worker waits until the main thread has acknowledged the notification.\<close>

datatype notify_kind = Oneway | Sync

section \<open>What the modules return\<close>

text \<open>
  \<open>call_open\<close> and \<open>call_create\<close> also return what is in the handle variable afterwards: a
  failing call leaves it as it was, and the worker's variable has no initial value.
  \<open>call_load_reads\<close> lists the turns of the loop that reads a directory: whether the context
  was found cancelled, and what the read returned.
\<close>

record vfs_calls =
  call_open :: "GnomeVFSURI \<Rightarrow> guint \<Rightarrow> GnomeVFSResult \<times> nat option"
  call_create :: "GnomeVFSURI \<Rightarrow> guint \<Rightarrow> bool \<Rightarrow> guint \<Rightarrow> GnomeVFSResult \<times> nat option"
  call_create_symbolic_link :: "GnomeVFSURI \<Rightarrow> string \<Rightarrow> GnomeVFSResult"
  call_close :: "nat option \<Rightarrow> GnomeVFSResult"
  call_read :: "nat option \<Rightarrow> 64 word \<Rightarrow> GnomeVFSResult \<times> 64 word"
  call_write :: "nat option \<Rightarrow> 64 word \<Rightarrow> GnomeVFSResult \<times> 64 word"
  call_seek :: "nat option \<Rightarrow> nat \<Rightarrow> int \<Rightarrow> GnomeVFSResult"
  call_get_file_info :: "GnomeVFSURI \<Rightarrow> guint \<Rightarrow> GnomeVFSResult \<times> GnomeVFSFileInfo"
  call_set_file_info :: "GnomeVFSURI \<Rightarrow> GnomeVFSFileInfo \<Rightarrow> guint \<Rightarrow> GnomeVFSResult"
  call_find_directory :: "GnomeVFSURI \<Rightarrow> nat \<Rightarrow> GnomeVFSResult \<times> GnomeVFSURI option"
  call_directory_open :: "GnomeVFSURI \<Rightarrow> guint \<Rightarrow> GnomeVFSResult"
  call_load_reads :: "(bool \<times> GnomeVFSResult \<times> GnomeVFSFileInfo) list"
  call_xfer :: "nat list \<times> GnomeVFSResult"
  call_file_control :: "nat option \<Rightarrow> string \<Rightarrow> GnomeVFSResult"
  call_pipe :: "(nat \<times> nat) option"
  call_uri_env :: vfs_env

section \<open>Completion\<close>

text \<open>\<open>None\<close>: \<^verbatim>\<open>g_assert_not_reached\<close>.\<close>

definition gnome_vfs_job_complete :: "GnomeVFSJob \<Rightarrow> bool option" where
  "gnome_vfs_job_complete job =
     (case op_type (job_op job) of
        GNOME_VFS_OP_OPEN \<Rightarrow> Some (cancelled job \<or> failed job)
      | GNOME_VFS_OP_OPEN_AS_CHANNEL \<Rightarrow> Some (cancelled job \<or> failed job)
      | GNOME_VFS_OP_CREATE \<Rightarrow> Some (cancelled job \<or> failed job)
      | GNOME_VFS_OP_CREATE_AS_CHANNEL \<Rightarrow> Some (cancelled job \<or> failed job)
      | GNOME_VFS_OP_CREATE_SYMBOLIC_LINK \<Rightarrow> Some (cancelled job \<or> failed job)
      | GNOME_VFS_OP_READ \<Rightarrow> None
      | GNOME_VFS_OP_WRITE \<Rightarrow> None
      | GNOME_VFS_OP_READ_WRITE_DONE \<Rightarrow> Some False
      | GNOME_VFS_OP_FILE_CONTROL \<Rightarrow> Some False
      | GNOME_VFS_OP_SEEK \<Rightarrow> Some False
      | _ \<Rightarrow> Some True)"

section \<open>Execution\<close>

definition notify_for :: "GnomeVFSJob \<Rightarrow> GnomeVFSSpecificNotifyResult \<Rightarrow> GnomeVFSNotifyResult" where
  "notify_for job spec =
     \<lparr>nr_job_handle = job_handle job, nr_callback_id = 0, nr_cancelled = False, nr_type = op_type (job_op job),
      nr_callback = op_callback (job_op job), nr_specifics = spec\<rparr>"

type_synonym exec_result = "GnomeVFSJob \<times> (notify_kind \<times> GnomeVFSNotifyResult) list"

definition set_op_type :: "GnomeVFSOpType \<Rightarrow> GnomeVFSJob \<Rightarrow> GnomeVFSJob" where
  "set_op_type t job = job\<lparr>job_op := (job_op job)\<lparr>op_type := t\<rparr>\<rparr>"

definition execute_open :: "vfs_calls \<Rightarrow> GnomeVFSJob \<Rightarrow> GnomeVFSURI option \<Rightarrow> guint \<Rightarrow> exec_result" where
  "execute_open calls job uri open_mode =
     (let (result, job1) =
            (case uri of
               None \<Rightarrow> (GNOME_VFS_ERROR_INVALID_URI, job)
             | Some u \<Rightarrow> let (r, h) = call_open calls u open_mode in (r, job\<lparr>job_vfs_handle := h\<rparr>));
          nr = notify_for job1 (OpenOpResult result)
      in (if result \<noteq> GNOME_VFS_OK then job1\<lparr>failed := True\<rparr> else job1, [(Oneway, nr)]))"

text \<open>The served channel is pure input and output and is not followed further.\<close>

definition execute_open_as_channel ::
    "vfs_calls \<Rightarrow> GnomeVFSJob \<Rightarrow> GnomeVFSURI option \<Rightarrow> guint \<Rightarrow> guint \<Rightarrow> exec_result" where
  "execute_open_as_channel calls job uri open_mode advised_block_size =
     (let result = (case uri of None \<Rightarrow> GNOME_VFS_ERROR_INVALID_URI | Some u \<Rightarrow> fst (call_open calls u open_mode))
      in if result \<noteq> GNOME_VFS_OK
         then (job\<lparr>failed := True\<rparr>, [(Oneway, notify_for job (OpenAsChannelOpResult result None))])
         else (case call_pipe calls of
                 None \<Rightarrow> (job\<lparr>failed := True\<rparr>,
                           [(Oneway, notify_for job (OpenAsChannelOpResult GNOME_VFS_ERROR_INTERNAL None))])
               | Some (channel_in, channel_out) \<Rightarrow>
                   (job, [(Sync, notify_for job (OpenAsChannelOpResult GNOME_VFS_OK
                            (if (open_mode AND GNOME_VFS_OPEN_READ) \<noteq> 0 then Some channel_in else Some channel_out)))])))"

definition execute_create ::
    "vfs_calls \<Rightarrow> GnomeVFSJob \<Rightarrow> GnomeVFSURI option \<Rightarrow> guint \<Rightarrow> bool \<Rightarrow> guint \<Rightarrow> exec_result" where
  "execute_create calls job uri open_mode exclusive perm =
     (let (result, job1) =
            (case uri of
               None \<Rightarrow> (GNOME_VFS_ERROR_INVALID_URI, job)
             | Some u \<Rightarrow> let (r, h) = call_create calls u open_mode exclusive perm in (r, job\<lparr>job_vfs_handle := h\<rparr>));
          nr = notify_for job1 (CreateOpResult result)
      in (if result \<noteq> GNOME_VFS_OK then job1\<lparr>failed := True\<rparr> else job1, [(Oneway, nr)]))"

definition execute_create_symbolic_link ::
    "vfs_calls \<Rightarrow> GnomeVFSJob \<Rightarrow> GnomeVFSURI \<Rightarrow> string \<Rightarrow> exec_result" where
  "execute_create_symbolic_link calls job uri uri_reference =
     (let result = call_create_symbolic_link calls uri uri_reference;
          nr = notify_for job (CreateOpResult result)
      in (if result \<noteq> GNOME_VFS_OK then job\<lparr>failed := True\<rparr> else job, [(Oneway, nr)]))"

definition execute_create_as_channel ::
    "vfs_calls \<Rightarrow> GnomeVFSJob \<Rightarrow> GnomeVFSURI option \<Rightarrow> guint \<Rightarrow> bool \<Rightarrow> guint \<Rightarrow> exec_result" where
  "execute_create_as_channel calls job uri open_mode exclusive perm =
     (let result = (case uri of None \<Rightarrow> GNOME_VFS_ERROR_INVALID_URI
                    | Some u \<Rightarrow> fst (call_create calls u open_mode exclusive perm))
      in if result \<noteq> GNOME_VFS_OK
         then (job\<lparr>failed := True\<rparr>, [(Oneway, notify_for job (CreateAsChannelOpResult result None))])
         else (case call_pipe calls of
                 None \<Rightarrow> (job\<lparr>failed := True\<rparr>,
                           [(Oneway, notify_for job (CreateAsChannelOpResult GNOME_VFS_ERROR_INTERNAL None))])
               | Some (channel_in, channel_out) \<Rightarrow>
                   (job, [(Sync, notify_for job (CreateAsChannelOpResult GNOME_VFS_OK (Some channel_out)))])))"

definition execute_close :: "vfs_calls \<Rightarrow> GnomeVFSJob \<Rightarrow> exec_result" where
  "execute_close calls job =
     (job, [(Oneway, notify_for job (CloseOpResult (call_close calls (job_vfs_handle job))))])"

definition execute_read :: "vfs_calls \<Rightarrow> GnomeVFSJob \<Rightarrow> nat \<Rightarrow> 64 word \<Rightarrow> exec_result" where
  "execute_read calls job buffer num_bytes =
     (let (r, bytes_read) = call_read calls (job_vfs_handle job) num_bytes
      in (set_op_type GNOME_VFS_OP_READ_WRITE_DONE job,
          [(Oneway, notify_for job (ReadOpResult r buffer num_bytes bytes_read))]))"

definition execute_write :: "vfs_calls \<Rightarrow> GnomeVFSJob \<Rightarrow> nat \<Rightarrow> 64 word \<Rightarrow> exec_result" where
  "execute_write calls job buffer num_bytes =
     (let (r, bytes_written) = call_write calls (job_vfs_handle job) num_bytes
      in (set_op_type GNOME_VFS_OP_READ_WRITE_DONE job,
          [(Oneway, notify_for job (WriteOpResult r buffer num_bytes bytes_written))]))"

definition execute_seek :: "vfs_calls \<Rightarrow> GnomeVFSJob \<Rightarrow> nat \<Rightarrow> int \<Rightarrow> exec_result" where
  "execute_seek calls job whence offset =
     (job, [(Oneway, notify_for job (SeekOpResult (call_seek calls (job_vfs_handle job) whence offset)))])"

text \<open>The results are prepended one by one, and the list reversed at the end.\<close>

fun get_file_info_loop ::
    "vfs_calls \<Rightarrow> guint \<Rightarrow> GnomeVFSURI list \<Rightarrow> (GnomeVFSURI \<times> GnomeVFSResult \<times> GnomeVFSFileInfo) list
      \<Rightarrow> (GnomeVFSURI \<times> GnomeVFSResult \<times> GnomeVFSFileInfo) list" where
  "get_file_info_loop calls opts [] result_list = rev result_list"
| "get_file_info_loop calls opts (u # us) result_list =
     get_file_info_loop calls opts us ((u, call_get_file_info calls u opts) # result_list)"

definition execute_get_file_info :: "vfs_calls \<Rightarrow> GnomeVFSJob \<Rightarrow> GnomeVFSURI list \<Rightarrow> guint \<Rightarrow> exec_result" where
  "execute_get_file_info calls job uris opts =
     (job, [(Oneway, notify_for job (GetFileInfoOpResult (get_file_info_loop calls opts uris [])))])"

text \<open>The URI after the change: the name may have changed.\<close>

definition set_file_info_uri_after ::
    "vfs_calls \<Rightarrow> GnomeVFSResult \<Rightarrow> GnomeVFSURI \<Rightarrow> GnomeVFSFileInfo \<Rightarrow> guint \<Rightarrow> GnomeVFSURI" where
  "set_file_info_uri_after calls result uri info msk =
     (case (if result = GNOME_VFS_OK \<and> (msk AND GNOME_VFS_SET_FILE_INFO_NAME) \<noteq> 0 then
              (case gnome_vfs_uri_get_parent uri of
                 None \<Rightarrow> None
               | Some parent_uri \<Rightarrow>
                   (case fi_name info of None \<Rightarrow> None
                    | Some n \<Rightarrow> gnome_vfs_uri_append_file_name (call_uri_env calls) parent_uri n))
            else None) of
        None \<Rightarrow> uri
      | Some u \<Rightarrow> u)"

definition execute_set_file_info ::
    "vfs_calls \<Rightarrow> GnomeVFSJob \<Rightarrow> GnomeVFSURI \<Rightarrow> GnomeVFSFileInfo \<Rightarrow> guint \<Rightarrow> guint \<Rightarrow> exec_result" where
  "execute_set_file_info calls job uri info msk opts =
     (let set_result = call_set_file_info calls uri info msk;
          uri_after = set_file_info_uri_after calls set_result uri info msk;
          (get_result, new_info) = call_get_file_info calls uri_after opts
      in (job, [(Oneway, notify_for job (SetFileInfoOpResult set_result get_result new_info))]))"

fun find_directory_loop ::
    "vfs_calls \<Rightarrow> nat \<Rightarrow> GnomeVFSURI list \<Rightarrow> (GnomeVFSResult \<times> GnomeVFSURI option) list
      \<Rightarrow> (GnomeVFSResult \<times> GnomeVFSURI option) list" where
  "find_directory_loop calls kind [] result_list = rev result_list"
| "find_directory_loop calls kind (u # us) result_list =
     find_directory_loop calls kind us (call_find_directory calls u kind # result_list)"

definition execute_find_directory :: "vfs_calls \<Rightarrow> GnomeVFSJob \<Rightarrow> GnomeVFSURI list \<Rightarrow> nat \<Rightarrow> exec_result" where
  "execute_find_directory calls job uris kind =
     (job, [(Oneway, notify_for job (FindDirectoryOpResult (find_directory_loop calls kind uris [])))])"

text \<open>
  The loop of \<^verbatim>\<open>load_directory_details\<close>: one element of \<open>reads\<close> per turn, the entries collected
  so far (newest first) and their number. A list that ends before the loop does stands for
  a directory that is still being read.
\<close>

fun load_directory_loop ::
    "guint \<Rightarrow> (bool \<times> GnomeVFSResult \<times> GnomeVFSFileInfo) list \<Rightarrow> GnomeVFSFileInfo list \<Rightarrow> guint
      \<Rightarrow> GnomeVFSSpecificNotifyResult list" where
  "load_directory_loop items [] directory_list count = []"
| "load_directory_loop items ((check_cancellation, result, info) # reads) directory_list count =
     (if check_cancellation then []
      else
        (let directory_list' = (if result = GNOME_VFS_OK then info # directory_list else directory_list);
             count' = (if result = GNOME_VFS_OK then count + 1 else count)
         in if count' = items \<or> result \<noteq> GNOME_VFS_OK then
              LoadDirectoryOpResult result (rev directory_list') count' #
              (if result \<noteq> GNOME_VFS_OK then [] else load_directory_loop items reads [] 0)
            else load_directory_loop items reads directory_list' count'))"

definition execute_load_directory ::
    "vfs_calls \<Rightarrow> GnomeVFSJob \<Rightarrow> GnomeVFSURI option \<Rightarrow> guint \<Rightarrow> guint \<Rightarrow> exec_result" where
  "execute_load_directory calls job uri opts items_per_notification =
     (let result = (case uri of None \<Rightarrow> GNOME_VFS_ERROR_INVALID_URI | Some u \<Rightarrow> call_directory_open calls u opts)
      in if result \<noteq> GNOME_VFS_OK
         then (job, [(Oneway, notify_for job (LoadDirectoryOpResult result [] 0))])
         else (job, map (\<lambda>spec. (Oneway, notify_for job spec))
                      (load_directory_loop items_per_notification (call_load_reads calls) [] 0)))"

text \<open>The transfer reports its progress synchronously; a failing transfer is reported once more.\<close>

definition execute_xfer :: "vfs_calls \<Rightarrow> GnomeVFSJob \<Rightarrow> exec_result" where
  "execute_xfer calls job =
     (let (progress, result) = call_xfer calls
      in (job, map (\<lambda>info. (Sync, notify_for job (XferOpResult info))) progress @
               (if result \<noteq> GNOME_VFS_OK \<and> result \<noteq> GNOME_VFS_ERROR_INTERRUPTED
                then [(Sync, notify_for job (XferOpResult 0))] else [])))"

definition execute_file_control :: "vfs_calls \<Rightarrow> GnomeVFSJob \<Rightarrow> string \<Rightarrow> nat \<Rightarrow> exec_result" where
  "execute_file_control calls job operation operation_data =
     (set_op_type GNOME_VFS_OP_FILE_CONTROL job,
      [(Oneway, notify_for job (FileControlOpResult (call_file_control calls (job_vfs_handle job) operation) operation_data))])"

text \<open>
  The specifics are a union tagged by the type of the operation: \<open>op_kind\<close> is the tag a member
  belongs to. An operation whose type has no routine is reported and skipped.
\<close>

fun op_kind :: "GnomeVFSSpecificOp \<Rightarrow> GnomeVFSOpType" where
  "op_kind No_Specifics = GNOME_VFS_OP_CLOSE"
| "op_kind (OpenOp _ _) = GNOME_VFS_OP_OPEN"
| "op_kind (OpenAsChannelOp _ _ _) = GNOME_VFS_OP_OPEN_AS_CHANNEL"
| "op_kind (CreateOp _ _ _ _) = GNOME_VFS_OP_CREATE"
| "op_kind (CreateLinkOp _ _) = GNOME_VFS_OP_CREATE_SYMBOLIC_LINK"
| "op_kind (CreateAsChannelOp _ _ _ _) = GNOME_VFS_OP_CREATE_AS_CHANNEL"
| "op_kind (ReadOp _ _) = GNOME_VFS_OP_READ"
| "op_kind (WriteOp _ _) = GNOME_VFS_OP_WRITE"
| "op_kind (SeekOp _ _) = GNOME_VFS_OP_SEEK"
| "op_kind (GetFileInfoOp _ _) = GNOME_VFS_OP_GET_FILE_INFO"
| "op_kind (SetFileInfoOp _ _ _ _) = GNOME_VFS_OP_SET_FILE_INFO"
| "op_kind (FindDirectoryOp _ _ _ _ _) = GNOME_VFS_OP_FIND_DIRECTORY"
| "op_kind (LoadDirectoryOp _ _ _) = GNOME_VFS_OP_LOAD_DIRECTORY"
| "op_kind (XferOp _ _ _ _ _) = GNOME_VFS_OP_XFER"
| "op_kind (FileControlOp _ _) = GNOME_VFS_OP_FILE_CONTROL"

definition execute_specifics :: "vfs_calls \<Rightarrow> GnomeVFSJob \<Rightarrow> exec_result" where
  "execute_specifics calls job =
     (case specifics (job_op job) of
        OpenOp u m \<Rightarrow> execute_open calls job u m
      | OpenAsChannelOp u m b \<Rightarrow> execute_open_as_channel calls job u m b
      | CreateOp u m e p \<Rightarrow> execute_create calls job u m e p
      | CreateAsChannelOp u m e p \<Rightarrow> execute_create_as_channel calls job u m e p
      | CreateLinkOp u r \<Rightarrow> execute_create_symbolic_link calls job u r
      | No_Specifics \<Rightarrow> execute_close calls job
      | ReadOp b n \<Rightarrow> execute_read calls job b n
      | WriteOp b n \<Rightarrow> execute_write calls job b n
      | SeekOp w off \<Rightarrow> execute_seek calls job w off
      | LoadDirectoryOp u opts n \<Rightarrow> execute_load_directory calls job u opts n
      | FindDirectoryOp us k c f p \<Rightarrow> execute_find_directory calls job us k
      | XferOp src tgt opts e ov \<Rightarrow> execute_xfer calls job
      | GetFileInfoOp us opts \<Rightarrow> execute_get_file_info calls job us opts
      | SetFileInfoOp u i m opts \<Rightarrow> execute_set_file_info calls job u i m opts
      | FileControlOp operation d \<Rightarrow> execute_file_control calls job operation d)"

definition gnome_vfs_job_execute :: "vfs_calls \<Rightarrow> GnomeVFSJob \<Rightarrow> exec_result" where
  "gnome_vfs_job_execute calls job =
     (if \<not> cancelled job then
        (if op_type (job_op job) = op_kind (specifics (job_op job)) then execute_specifics calls job else (job, []))
      else if op_type (job_op job) = GNOME_VFS_OP_READ \<or> op_type (job_op job) = GNOME_VFS_OP_WRITE
        then (set_op_type GNOME_VFS_OP_READ_WRITE_DONE job, [])
      else (job, []))"

section \<open>What an execution leaves alone\<close>

lemmas execute_defs =
  execute_open_def execute_open_as_channel_def execute_create_def execute_create_as_channel_def
  execute_create_symbolic_link_def execute_close_def execute_read_def execute_write_def execute_seek_def
  execute_load_directory_def execute_find_directory_def execute_xfer_def execute_get_file_info_def
  execute_set_file_info_def execute_file_control_def

lemma execute_specifics_frame:
  assumes "execute_specifics calls job = (job', nrs)"
  shows "cancelled job' = cancelled job \<and> job_handle job' = job_handle job
       \<and> op_callback (job_op job') = op_callback (job_op job) \<and> priority job' = priority job
       \<and> (\<forall>(k, nr)\<in>set nrs. nr_job_handle nr = job_handle job \<and> nr_callback nr = op_callback (job_op job)
             \<and> \<not> nr_cancelled nr)"
  using assms
  by (cases "specifics (job_op job)")
     (auto simp: execute_specifics_def execute_defs notify_for_def set_op_type_def Let_def
        split: if_splits option.splits prod.splits)

lemma gnome_vfs_job_execute_frame:
  assumes "gnome_vfs_job_execute calls job = (job', nrs)"
  shows "cancelled job' = cancelled job \<and> job_handle job' = job_handle job
       \<and> op_callback (job_op job') = op_callback (job_op job) \<and> priority job' = priority job
       \<and> (\<forall>(k, nr)\<in>set nrs. nr_job_handle nr = job_handle job \<and> nr_callback nr = op_callback (job_op job)
             \<and> \<not> nr_cancelled nr)"
  using assms execute_specifics_frame [of calls job job' nrs]
  by (auto simp: gnome_vfs_job_execute_def set_op_type_def split: if_splits)

section \<open>Loading a directory\<close>

text \<open>The reference: full blocks of \<open>n\<close> entries, and what is left over.\<close>

function full_blocks :: "nat \<Rightarrow> 'a list \<Rightarrow> 'a list list" where
  "full_blocks n es = (if n = 0 \<or> length es < n then [] else take n es # full_blocks n (drop n es))"
  by pat_completeness auto
termination
  by (relation "measure (\<lambda>(n, es). length es)") auto

declare full_blocks.simps [simp del]

definition left_over :: "nat \<Rightarrow> 'a list \<Rightarrow> 'a list" where
  "left_over n es = drop (n * length (full_blocks n es)) es"

lemma full_blocks_short: "length es < n \<Longrightarrow> full_blocks n es = []"
  by (simp add: full_blocks.simps)

lemma full_blocks_step: "length b = n \<Longrightarrow> n > 0 \<Longrightarrow> full_blocks n (b @ es) = b # full_blocks n es"
  by (subst full_blocks.simps) simp

lemma left_over_short: "length es < n \<Longrightarrow> left_over n es = es"
  by (simp add: left_over_def full_blocks_short)

lemma left_over_step: "length b = n \<Longrightarrow> n > 0 \<Longrightarrow> left_over n (b @ es) = left_over n es"
  by (simp add: left_over_def full_blocks_step)

lemma blocks_partition: "n > 0 \<Longrightarrow> concat (full_blocks n es) @ left_over n es = es \<and> length (left_over n es) < n"
proof (induction n es rule: full_blocks.induct)
  case (1 n es)
  show ?case
  proof (cases "length es < n")
    case True
    then show ?thesis by (simp add: full_blocks_short left_over_short)
  next
    case False
    then have "full_blocks n (take n es @ drop n es) = take n es # full_blocks n (drop n es)"
      "left_over n (take n es @ drop n es) = left_over n (drop n es)"
      using "1.prems" by (intro full_blocks_step left_over_step; simp)+
    with 1 False show ?thesis by simp
  qed
qed

lemma unat_guint_less: "unat (w :: guint) < 2 ^ 32"
  using unsigned_less [of w] by simp

lemma of_nat_guint_eq: "m < 2 ^ 32 \<Longrightarrow> (of_nat m :: guint) = w \<longleftrightarrow> m = unat w"
  by (auto simp: unsigned_of_nat take_bit_nat_eq_self)

lemma load_directory_blocks:
  assumes n: "n = unat items" "n > 0" and r: "r \<noteq> GNOME_VFS_OK"
  shows "length dl < n \<Longrightarrow>
    load_directory_loop items (map (\<lambda>e. (False, GNOME_VFS_OK, e)) es @ (False, r, x) # later) dl (of_nat (length dl)) =
    map (\<lambda>b. LoadDirectoryOpResult GNOME_VFS_OK b items) (full_blocks n (rev dl @ es)) @
      [LoadDirectoryOpResult r (left_over n (rev dl @ es)) (of_nat (length (left_over n (rev dl @ es))))]"
proof (induction es arbitrary: dl)
  case Nil
  then show ?case using r by (simp add: full_blocks_short left_over_short)
next
  case (Cons e es)
  have lt: "length dl + 1 < 2 ^ 32" using Cons.prems n unat_guint_less [of items] by simp
  have cnt: "(of_nat (length dl) + 1 :: guint) = of_nat (length (e # dl))" by simp
  show ?case
  proof (cases "length (e # dl) = n")
    case True
    then have "(of_nat (length (e # dl)) :: guint) = items" using n by simp
    moreover have "full_blocks n (rev dl @ e # es) = (rev dl @ [e]) # full_blocks n es"
      "left_over n (rev dl @ e # es) = left_over n es"
      using True n full_blocks_step [of "rev dl @ [e]" n es] left_over_step [of "rev dl @ [e]" n es] by simp_all
    ultimately show ?thesis
      using Cons.IH [of "[]"] n(2) by (simp add: Let_def add.commute)
  next
    case False
    have "(of_nat (length (e # dl)) :: guint) \<noteq> items"
      using of_nat_guint_eq [of "length (e # dl)" items] lt False n by simp
    then show ?thesis using Cons.IH [of "e # dl"] Cons.prems False by (simp add: Let_def add.commute)
  qed
qed

text \<open>
  C18. Loading a directory delivers every entry exactly once and in order: the entries arrive
  in full blocks of the requested size, each reported with success and its size, followed
  by one last notification with what is left over and the result that ended the reading.
\<close>

theorem load_directory_delivers:
  assumes "call_directory_open calls u opts = GNOME_VFS_OK" "items > 0" "r \<noteq> GNOME_VFS_OK"
    and "call_load_reads calls = map (\<lambda>e. (False, GNOME_VFS_OK, e)) es @ (False, r, x) # later"
  shows "map (\<lambda>(k, nr). nr_specifics nr) (snd (execute_load_directory calls job (Some u) opts items)) =
           map (\<lambda>b. LoadDirectoryOpResult GNOME_VFS_OK b items) (full_blocks (unat items) es) @
             [LoadDirectoryOpResult r (left_over (unat items) es) (of_nat (length (left_over (unat items) es)))]
       \<and> concat (full_blocks (unat items) es) @ left_over (unat items) es = es
       \<and> length (left_over (unat items) es) < unat items"
proof -
  have n: "unat items > 0" using assms(2) by (simp add: unat_gt_0 word_neq_0_conv)
  then show ?thesis
    using load_directory_blocks [OF refl n assms(3), of "[]" es x later] blocks_partition [OF n, of es] assms(1,4)
    by (simp add: execute_load_directory_def notify_for_def comp_def)
qed

definition sample_calls :: vfs_calls where
  "sample_calls =
     \<lparr>call_open = (\<lambda>_ _. (GNOME_VFS_OK, Some 1)), call_create = (\<lambda>_ _ _ _. (GNOME_VFS_OK, Some 1)),
      call_create_symbolic_link = (\<lambda>_ _. GNOME_VFS_OK), call_close = (\<lambda>_. GNOME_VFS_OK),
      call_read = (\<lambda>_ n. (GNOME_VFS_OK, n)), call_write = (\<lambda>_ n. (GNOME_VFS_OK, n)),
      call_seek = (\<lambda>_ _ _. GNOME_VFS_OK), call_get_file_info = (\<lambda>_ _. (GNOME_VFS_OK, gnome_vfs_file_info_new)),
      call_set_file_info = (\<lambda>_ _ _. GNOME_VFS_OK), call_find_directory = (\<lambda>u _. (GNOME_VFS_OK, Some u)),
      call_directory_open = (\<lambda>_ _. GNOME_VFS_OK),
      call_load_reads = [(False, GNOME_VFS_OK, gnome_vfs_file_info_new), (False, GNOME_VFS_ERROR_EOF, zero_info)],
      call_xfer = ([], GNOME_VFS_OK), call_file_control = (\<lambda>_ _. GNOME_VFS_OK), call_pipe = None,
      call_uri_env = \<lparr>env_method_get = (\<lambda>_. Some 0), env_transform = (\<lambda>_ _. None), env_oob = (\<lambda>_. False)\<rparr>\<rparr>"

definition sample_job :: GnomeVFSJob where
  "sample_job =
     \<lparr>job_vfs_handle = None, cancelled = False, failed = False,
      job_op = \<lparr>op_type = GNOME_VFS_OP_LOAD_DIRECTORY, op_callback = App_Callback 0,
        specifics = LoadDirectoryOp (Some (file_uri ''/d'')) 0 1, op_context = gnome_vfs_context_new\<rparr>,
      job_handle = 1, priority = 0\<rparr>"

theorem load_directory_delivers_witness:
  "map (\<lambda>(k, nr). nr_specifics nr) (snd (execute_load_directory sample_calls sample_job (Some (file_uri ''/d'')) 0 1)) =
     [LoadDirectoryOpResult GNOME_VFS_OK [gnome_vfs_file_info_new] 1, LoadDirectoryOpResult GNOME_VFS_ERROR_EOF [] 0]"
  using load_directory_delivers [of sample_calls "file_uri ''/d''" 0 1 GNOME_VFS_ERROR_EOF "[gnome_vfs_file_info_new]"
      zero_info "[]" sample_job]
  by (simp add: sample_calls_def full_blocks.simps left_over_def)

lemma get_file_info_loop_map:
  "get_file_info_loop calls opts us acc = rev acc @ map (\<lambda>u. (u, call_get_file_info calls u opts)) us"
  by (induction us arbitrary: acc) simp_all

text \<open>
  A query for several URIs reports one result per URI, in the order of the URIs.
\<close>

theorem get_file_info_in_order:
  "snd (execute_get_file_info calls job us opts) =
     [(Oneway, notify_for job (GetFileInfoOpResult (map (\<lambda>u. (u, call_get_file_info calls u opts)) us)))]"
  by (simp add: execute_get_file_info_def get_file_info_loop_map)

end
