(* ===== verification/VFS_Async.thy ===== *)
theory VFS_Async
  imports VFS_Job
begin

text \<open>
  Asynchronous jobs: the job map and the callback map (\<^verbatim>\<open>gnome-vfs-async-job-map.c\<close>), the
  worker's and the main thread's side of a job (\<^verbatim>\<open>gnome-vfs-job.c\<close>), the queue of jobs
  (\<^verbatim>\<open>gnome-vfs-job-queue.c\<close>) and the calls of the application (\<^verbatim>\<open>gnome-vfs-async-ops.c\<close>).
  The state is explicit; a step is what one thread does between taking and releasing the
  locks, and a step that has to wait for a lock is not enabled (\<open>None\<close>). The dispatch of a
  notification by the main loop is three steps: reading its state, calling back, and
  acknowledging; the calls of the application may come from any thread. The thread pool and
  the main loop are GLib's: the pool is a collection any queued job can be taken from, the
  idle callbacks are a queue.
\<close>

section \<open>Tables of unique identifiers\<close>

text \<open>
  Both maps are hash tables from a counter's values to objects. Their contract is a locale,
  interpreted for the association lists that model \<^verbatim>\<open>GHashTable\<close>.
\<close>

type_synonym 'v table = "(guint \<times> 'v) list"

definition table_lookup :: "'v table \<Rightarrow> guint \<Rightarrow> 'v option" where
  "table_lookup t k = map_of t k"

definition table_insert :: "guint \<Rightarrow> 'v \<Rightarrow> 'v table \<Rightarrow> 'v table" where
  "table_insert k v t = (k, v) # filter (\<lambda>(k', _). k' \<noteq> k) t"

definition table_remove :: "guint \<Rightarrow> 'v table \<Rightarrow> 'v table" where
  "table_remove k t = filter (\<lambda>(k', _). k' \<noteq> k) t"

definition table_foreach :: "('v \<Rightarrow> 'v) \<Rightarrow> 'v table \<Rightarrow> 'v table" where
  "table_foreach f t = map (\<lambda>(k, v). (k, f v)) t"

locale id_table =
  fixes lookup :: "'t \<Rightarrow> guint \<Rightarrow> 'v option"
    and insert_id :: "guint \<Rightarrow> 'v \<Rightarrow> 't \<Rightarrow> 't"
    and remove_id :: "guint \<Rightarrow> 't \<Rightarrow> 't"
    and foreach :: "('v \<Rightarrow> 'v) \<Rightarrow> 't \<Rightarrow> 't"
  assumes lookup_insert: "lookup (insert_id k v t) k' = (if k' = k then Some v else lookup t k')"
    and lookup_remove: "lookup (remove_id k t) k' = (if k' = k then None else lookup t k')"
    and lookup_foreach: "lookup (foreach f t) k = map_option f (lookup t k)"
begin

text \<open>What every entry satisfies, kept by each operation under its own condition.\<close>

definition all_entries :: "(guint \<Rightarrow> 'v \<Rightarrow> bool) \<Rightarrow> 't \<Rightarrow> bool" where
  "all_entries P t \<longleftrightarrow> (\<forall>k v. lookup t k = Some v \<longrightarrow> P k v)"

lemma all_entries_insert: "all_entries P t \<Longrightarrow> P k v \<Longrightarrow> all_entries P (insert_id k v t)"
  by (auto simp: all_entries_def lookup_insert)

lemma all_entries_remove: "all_entries P t \<Longrightarrow> all_entries P (remove_id k t)"
  by (auto simp: all_entries_def lookup_remove)

lemma all_entries_foreach:
  "(\<And>k v. lookup t k = Some v \<Longrightarrow> P k (f v)) \<Longrightarrow> all_entries P (foreach f t)"
  by (auto simp: all_entries_def lookup_foreach)

lemma all_entries_mono: "all_entries P t \<Longrightarrow> (\<And>k v. P k v \<Longrightarrow> Q k v) \<Longrightarrow> all_entries Q t"
  by (auto simp: all_entries_def)

lemma all_entries_lookup: "all_entries P t \<Longrightarrow> lookup t k = Some v \<Longrightarrow> P k v"
  by (simp add: all_entries_def)

end

lemma map_of_filter_key: "map_of (filter (\<lambda>(k', _). k' \<noteq> k) t) k' = (if k' = k then None else map_of t k')"
  by (induction t) auto

interpretation tab: id_table table_lookup table_insert table_remove table_foreach
  by unfold_locales
     (auto simp: table_lookup_def table_insert_def table_remove_def table_foreach_def map_of_filter_key map_of_map)

section \<open>State\<close>

datatype fault = Use_After_Free | Failed_Assertion

text \<open>What a worker thread is doing with a job (named by its address).\<close>

datatype worker =
    Started nat
  | Executing nat "(notify_kind \<times> GnomeVFSNotifyResult) list"
  | Waiting nat "(notify_kind \<times> GnomeVFSNotifyResult) list"
  | Finished nat bool

fun worker_job :: "worker \<Rightarrow> nat" where
  "worker_job (Started a) = a"
| "worker_job (Executing a _) = a"
| "worker_job (Waiting a _) = a"
| "worker_job (Finished a _) = a"

text \<open>
  Where the main loop's thread is in the dispatch of a notification: it has asked whether the
  notification is still valid and cancelled, and is about to call back or to deal with the
  cancellation; or it has called back and is about to acknowledge to the worker. The code
  holds no lock at these points, so that the other threads may do anything in between.
\<close>

datatype dispatch_stage =
    To_Callback notify_kind GnomeVFSNotifyResult bool
  | To_Acknowledge GnomeVFSNotifyResult

record async_state =
  jobs :: "nat \<Rightarrow> GnomeVFSJob option"
  next_addr :: nat
  async_job_map :: "nat table option"
  async_job_map_next_id :: guint
  shutting_down :: bool
  async_job_callback_map :: "GnomeVFSNotifyResult table option"
  async_job_callback_map_next_id :: guint
  pool :: "nat list"
  workers :: "worker list"
  idle :: "(notify_kind \<times> GnomeVFSNotifyResult) list"
  dispatching :: "dispatch_stage option"
  job_count :: int
  gnome_vfs_quitting :: bool
  delivered :: "(guint \<times> callback \<times> GnomeVFSSpecificNotifyResult) list"
  fault :: "fault option"

definition async_init :: async_state where
  "async_init =
     \<lparr>jobs = (\<lambda>_. None), next_addr = 0, async_job_map = None, async_job_map_next_id = 0, shutting_down = False,
      async_job_callback_map = None, async_job_callback_map_next_id = 0, pool = [], workers = [], idle = [], dispatching = None,
      job_count = 0, gnome_vfs_quitting = False, delivered = [], fault = None\<rparr>"

definition set_fault :: "fault \<Rightarrow> async_state \<Rightarrow> async_state" where
  "set_fault f s = s\<lparr>fault := Some f\<rparr>"

text \<open>A worker holds the job's lock from the start until it has finished, except while it waits for an acknowledgement.\<close>

fun holds_lock :: "nat \<Rightarrow> worker \<Rightarrow> bool" where
  "holds_lock a (Started b) = (a = b)"
| "holds_lock a (Executing b _) = (a = b)"
| "holds_lock a (Waiting b _) = False"
| "holds_lock a (Finished b _) = False"

definition job_locked :: "async_state \<Rightarrow> nat \<Rightarrow> bool" where
  "job_locked s a \<longleftrightarrow> (\<exists>w\<in>set (workers s). holds_lock a w)"

definition update_job :: "nat \<Rightarrow> (GnomeVFSJob \<Rightarrow> GnomeVFSJob) \<Rightarrow> async_state \<Rightarrow> async_state" where
  "update_job a f s = s\<lparr>jobs := (jobs s)(a := map_option f (jobs s a))\<rparr>"

section \<open>The maps\<close>

definition gnome_vfs_async_job_map_get_job :: "async_state \<Rightarrow> guint \<Rightarrow> nat option" where
  "gnome_vfs_async_job_map_get_job s handle =
     (case async_job_map s of None \<Rightarrow> None | Some m \<Rightarrow> table_lookup m handle)"

definition gnome_vfs_async_job_map_add_job :: "nat \<Rightarrow> async_state \<Rightarrow> async_state" where
  "gnome_vfs_async_job_map_add_job a s =
     (if shutting_down s then set_fault Failed_Assertion s
      else
        (let h = async_job_map_next_id s + 1;
             s1 = update_job a (\<lambda>j. j\<lparr>job_handle := h\<rparr>) (s\<lparr>async_job_map_next_id := h\<rparr>);
             m = (case async_job_map s of None \<Rightarrow> [] | Some m \<Rightarrow> m)
         in s1\<lparr>async_job_map := Some (table_insert h a m)\<rparr>))"

definition gnome_vfs_async_job_map_remove_job :: "guint \<Rightarrow> async_state \<Rightarrow> async_state" where
  "gnome_vfs_async_job_map_remove_job h s =
     (case async_job_map s of
        None \<Rightarrow> set_fault Failed_Assertion s
      | Some m \<Rightarrow> s\<lparr>async_job_map := Some (table_remove h m)\<rparr>)"

definition gnome_vfs_async_job_completed :: "guint \<Rightarrow> async_state \<Rightarrow> async_state" where
  "gnome_vfs_async_job_completed h s =
     (case async_job_map s of
        None \<Rightarrow> set_fault Failed_Assertion s
      | Some m \<Rightarrow>
          (let m' = (if table_lookup m h \<noteq> None then table_remove h m else m)
           in if shutting_down s \<and> m' = [] then s\<lparr>async_job_map := None\<rparr>
              else s\<lparr>async_job_map := Some m'\<rparr>))"

definition async_job_callback_map_destroy :: "async_state \<Rightarrow> async_state" where
  "async_job_callback_map_destroy s = s\<lparr>async_job_callback_map := None\<rparr>"

definition gnome_vfs_async_job_map_shutdown :: "async_state \<Rightarrow> async_state" where
  "gnome_vfs_async_job_map_shutdown s =
     (let s1 = (case async_job_map s of
                  None \<Rightarrow> s
                | Some m \<Rightarrow> if m = [] then s\<lparr>shutting_down := True, async_job_map := None\<rparr>
                            else s\<lparr>shutting_down := True\<rparr>)
      in async_job_callback_map_destroy s1)"

text \<open>Whether the callback is still in the map, and whether it is cancelled.\<close>

definition gnome_vfs_async_job_callback_valid :: "async_state \<Rightarrow> guint \<Rightarrow> bool \<times> bool" where
  "gnome_vfs_async_job_callback_valid s callback_id =
     (case (case async_job_callback_map s of None \<Rightarrow> None | Some m \<Rightarrow> table_lookup m callback_id) of
        None \<Rightarrow> (False, False)
      | Some nr \<Rightarrow> (True, nr_cancelled nr))"

text \<open>The notification gets its identifier, and is entered unless the job is cancelled.\<close>

definition gnome_vfs_async_job_add_callback ::
    "bool \<Rightarrow> GnomeVFSNotifyResult \<Rightarrow> async_state \<Rightarrow> (GnomeVFSNotifyResult \<times> async_state) option" where
  "gnome_vfs_async_job_add_callback job_cancelled nr s =
     (if shutting_down s then None
      else
        (let cid = async_job_callback_map_next_id s + 1;
             nr' = nr\<lparr>nr_callback_id := cid\<rparr>;
             m = (case async_job_callback_map s of None \<Rightarrow> [] | Some m \<Rightarrow> m);
             m' = (if \<not> job_cancelled then table_insert cid nr' m else m)
         in Some (nr', s\<lparr>async_job_callback_map_next_id := cid, async_job_callback_map := Some m'\<rparr>)))"

definition gnome_vfs_async_job_remove_callback :: "guint \<Rightarrow> async_state \<Rightarrow> async_state" where
  "gnome_vfs_async_job_remove_callback callback_id s =
     (case async_job_callback_map s of
        None \<Rightarrow> set_fault Failed_Assertion s
      | Some m \<Rightarrow> s\<lparr>async_job_callback_map := Some (table_remove callback_id m)\<rparr>)"

definition callback_map_cancel_one :: "guint \<Rightarrow> GnomeVFSNotifyResult \<Rightarrow> GnomeVFSNotifyResult" where
  "callback_map_cancel_one h nr = (if nr_job_handle nr = h then nr\<lparr>nr_cancelled := True\<rparr> else nr)"

definition gnome_vfs_async_job_cancel_job_and_callbacks :: "guint \<Rightarrow> nat option \<Rightarrow> async_state \<Rightarrow> async_state" where
  "gnome_vfs_async_job_cancel_job_and_callbacks h job s =
     (let s1 = (case job of None \<Rightarrow> s | Some a \<Rightarrow> update_job a (\<lambda>j. j\<lparr>cancelled := True\<rparr>) s)
      in case async_job_callback_map s1 of
           None \<Rightarrow> s1
         | Some m \<Rightarrow> s1\<lparr>async_job_callback_map := Some (table_foreach (callback_map_cancel_one h) m)\<rparr>)"

section \<open>Jobs\<close>

text \<open>\<open>None\<close>: the job's lock is taken, the caller waits.\<close>

definition gnome_vfs_job_set ::
    "nat \<Rightarrow> GnomeVFSOpType \<Rightarrow> callback \<Rightarrow> GnomeVFSSpecificOp \<Rightarrow> async_state \<Rightarrow> async_state option" where
  "gnome_vfs_job_set a type cb spec s =
     (if job_locked s a then None
      else Some (update_job a (\<lambda>j. j\<lparr>job_op := \<lparr>op_type = type, op_callback = cb, specifics = spec,
                                     op_context = gnome_vfs_context_new\<rparr>, cancelled := False\<rparr>) s))"

definition gnome_vfs_job_destroy :: "nat \<Rightarrow> async_state \<Rightarrow> async_state" where
  "gnome_vfs_job_destroy a s = s\<lparr>jobs := (jobs s)(a := None), job_count := job_count s - 1\<rparr>"

text \<open>
  \<open>pushed\<close>: \<^verbatim>\<open>g_thread_pool_push\<close> reported no error. GLib documents that a job pushed with an
  error (no thread could be created) stays in the queue.
\<close>

definition gnome_vfs_job_schedule :: "bool \<Rightarrow> nat \<Rightarrow> async_state \<Rightarrow> bool \<times> async_state" where
  "gnome_vfs_job_schedule pushed a s =
     (if gnome_vfs_quitting s then (False, s)
      else
        (let s1 = s\<lparr>pool := pool s @ [a]\<rparr>
         in if pushed then (True, s1)
            else (False, case jobs s1 a of None \<Rightarrow> s1 | Some j \<Rightarrow> gnome_vfs_async_job_completed (job_handle j) s1)))"

definition gnome_vfs_job_go :: "bool \<Rightarrow> nat \<Rightarrow> async_state \<Rightarrow> async_state" where
  "gnome_vfs_job_go pushed a s =
     (case gnome_vfs_job_schedule pushed a s of
        (True, s1) \<Rightarrow> s1
      | (False, s1) \<Rightarrow> gnome_vfs_job_destroy a s1)"

text \<open>The address of the new job is the next free one.\<close>

definition gnome_vfs_job_new ::
    "GnomeVFSOpType \<Rightarrow> int \<Rightarrow> callback \<Rightarrow> GnomeVFSSpecificOp \<Rightarrow> async_state \<Rightarrow> nat \<times> async_state" where
  "gnome_vfs_job_new type prio cb spec s =
     (let a = next_addr s;
          j = \<lparr>job_vfs_handle = None, cancelled = False, failed = False,
               job_op = \<lparr>op_type = type, op_callback = cb, specifics = spec, op_context = gnome_vfs_context_new\<rparr>,
               job_handle = 0, priority = prio\<rparr>;
          s1 = gnome_vfs_async_job_map_add_job a (s\<lparr>jobs := (jobs s)(a \<mapsto> j), next_addr := a + 1\<rparr>)
      in (a, s1\<lparr>job_count := job_count s1 + 1\<rparr>))"

definition gnome_vfs_job_module_cancel :: "nat \<Rightarrow> async_state \<Rightarrow> async_state" where
  "gnome_vfs_job_module_cancel a s =
     update_job a (\<lambda>j. j\<lparr>job_op := (job_op j)\<lparr>op_context :=
        (op_context (job_op j))\<lparr>cancellation :=
           map_option (\<lambda>c. fst (gnome_vfs_cancellation_cancel c)) (cancellation (op_context (job_op j)))\<rparr>\<rparr>\<rparr>) s"

section \<open>Calls of the application\<close>

text \<open>
  The operations that start a job (open, create, load directory, transfer and so on) and
  those on the handle of a job (read, write, seek, file control).
\<close>

definition starts_job :: "GnomeVFSSpecificOp \<Rightarrow> bool" where
  "starts_job spec \<longleftrightarrow>
     op_kind spec \<notin> {GNOME_VFS_OP_CLOSE, GNOME_VFS_OP_READ, GNOME_VFS_OP_WRITE, GNOME_VFS_OP_SEEK,
                       GNOME_VFS_OP_FILE_CONTROL}"

definition on_handle_op :: "GnomeVFSSpecificOp \<Rightarrow> bool" where
  "on_handle_op spec \<longleftrightarrow>
     op_kind spec \<in> {GNOME_VFS_OP_READ, GNOME_VFS_OP_WRITE, GNOME_VFS_OP_SEEK, GNOME_VFS_OP_FILE_CONTROL}"

definition GNOME_VFS_PRIORITY_MIN :: int where "GNOME_VFS_PRIORITY_MIN = -10"
definition GNOME_VFS_PRIORITY_MAX :: int where "GNOME_VFS_PRIORITY_MAX = 10"

definition async_start ::
    "GnomeVFSSpecificOp \<Rightarrow> int \<Rightarrow> nat \<Rightarrow> bool \<Rightarrow> async_state \<Rightarrow> async_state" where
  "async_start spec prio cb pushed s =
     (if prio < GNOME_VFS_PRIORITY_MIN \<or> prio > GNOME_VFS_PRIORITY_MAX then s
      else let (a, s1) = gnome_vfs_job_new (op_kind spec) prio (App_Callback cb) spec s
      in if fault s1 \<noteq> None then s1 else gnome_vfs_job_go pushed a s1)"

definition async_on_handle ::
    "guint \<Rightarrow> GnomeVFSSpecificOp \<Rightarrow> nat \<Rightarrow> bool \<Rightarrow> async_state \<Rightarrow> async_state option" where
  "async_on_handle h spec cb pushed s =
     (case gnome_vfs_async_job_map_get_job s h of
        None \<Rightarrow> Some s
      | Some a \<Rightarrow>
          if jobs s a = None then Some (set_fault Use_After_Free s)
          else (case gnome_vfs_job_set a (op_kind spec) (App_Callback cb) spec s of
                  None \<Rightarrow> None
                | Some s1 \<Rightarrow> Some (gnome_vfs_job_go pushed a s1)))"

text \<open>Closing waits while a read or a write is still to be done.\<close>

definition gnome_vfs_async_close :: "guint \<Rightarrow> nat \<Rightarrow> bool \<Rightarrow> async_state \<Rightarrow> async_state option" where
  "gnome_vfs_async_close h cb pushed s =
     (case gnome_vfs_async_job_map_get_job s h of
        None \<Rightarrow> Some s
      | Some a \<Rightarrow>
          (case jobs s a of
             None \<Rightarrow> Some (set_fault Use_After_Free s)
           | Some j \<Rightarrow>
               if op_type (job_op j) \<noteq> GNOME_VFS_OP_READ \<and> op_type (job_op j) \<noteq> GNOME_VFS_OP_WRITE then
                 (case gnome_vfs_job_set a GNOME_VFS_OP_CLOSE (App_Callback cb) No_Specifics s of
                    None \<Rightarrow> None
                  | Some s1 \<Rightarrow> Some (gnome_vfs_job_go pushed a s1))
               else None))"

definition gnome_vfs_async_cancel :: "guint \<Rightarrow> async_state \<Rightarrow> async_state" where
  "gnome_vfs_async_cancel h s =
     (case gnome_vfs_async_job_map_get_job s h of
        None \<Rightarrow> gnome_vfs_async_job_cancel_job_and_callbacks h None s
      | Some a \<Rightarrow>
          if jobs s a = None then set_fault Use_After_Free s
          else gnome_vfs_async_job_cancel_job_and_callbacks h (Some a) (gnome_vfs_job_module_cancel a s))"

section \<open>The queue\<close>

text \<open>
  The order of the queue: \<^verbatim>\<open>int retval = GPOINTER_TO_UINT (a) - GPOINTER_TO_UINT (b)\<close>, an
  unsigned difference read as a signed number.
\<close>

definition prioritize_threads :: "GnomeVFSJob \<Rightarrow> GnomeVFSJob \<Rightarrow> int" where
  "prioritize_threads job_a job_b =
     (if priority job_a > priority job_b then - 1
      else if priority job_a < priority job_b then 1
      else sint (job_handle job_a - job_handle job_b))"

definition DEFAULT_THREAD_COUNT_LIMIT :: int where "DEFAULT_THREAD_COUNT_LIMIT = 10"
definition MIN_THREADS :: int where "MIN_THREADS = 2"

text \<open>The limit is kept by the thread pool, which starts with the default.\<close>

definition gnome_vfs_async_set_job_limit :: "int \<Rightarrow> int \<Rightarrow> int" where
  "gnome_vfs_async_set_job_limit limit max_threads = (if limit < MIN_THREADS then max_threads else limit)"

definition gnome_vfs_async_get_job_limit :: "int \<Rightarrow> int" where
  "gnome_vfs_async_get_job_limit max_threads = max_threads"

section \<open>The worker threads\<close>

text \<open>Taking the \<open>p\<close>-th queued job: nothing more happens to a job that is no longer in the map.\<close>

definition remove_nth :: "nat \<Rightarrow> 'a list \<Rightarrow> 'a list" where
  "remove_nth i xs = take i xs @ drop (Suc i) xs"

definition thread_begin :: "nat \<Rightarrow> async_state \<Rightarrow> async_state option" where
  "thread_begin p s =
     (if p < length (pool s) then
        (let a = pool s ! p;
             s1 = s\<lparr>pool := remove_nth p (pool s)\<rparr>
         in case jobs s a of
              None \<Rightarrow> Some (set_fault Use_After_Free s1)
            | Some j \<Rightarrow>
                if gnome_vfs_async_job_map_get_job s (job_handle j) = None then Some s1
                else if job_locked s a then None
                else Some (s1\<lparr>workers := workers s @ [Started a]\<rparr>))
      else None)"

definition thread_execute :: "nat \<Rightarrow> vfs_calls \<Rightarrow> async_state \<Rightarrow> async_state option" where
  "thread_execute i calls s =
     (if i < length (workers s) then
        (case workers s ! i of
           Started a \<Rightarrow>
             (case jobs s a of
                None \<Rightarrow> Some (set_fault Use_After_Free s)
              | Some j \<Rightarrow>
                  (let (j', nrs) = gnome_vfs_job_execute calls j
                   in Some (s\<lparr>jobs := (jobs s)(a \<mapsto> j'), workers := (workers s)[i := Executing a nrs]\<rparr>)))
         | _ \<Rightarrow> None)
      else None)"

text \<open>\<^verbatim>\<open>job_oneway_notify\<close> and \<^verbatim>\<open>job_notify\<close>.\<close>

definition thread_notify :: "nat \<Rightarrow> async_state \<Rightarrow> async_state option" where
  "thread_notify i s =
     (if i < length (workers s) then
        (case workers s ! i of
           Executing a ((kind, nr) # rest) \<Rightarrow>
             (case jobs s a of
                None \<Rightarrow> Some (set_fault Use_After_Free s)
              | Some j \<Rightarrow>
                  (case gnome_vfs_async_job_add_callback (cancelled j) nr s of
                     None \<Rightarrow> Some (set_fault Failed_Assertion s)
                   | Some (nr', s1) \<Rightarrow>
                       if cancelled j then Some (s1\<lparr>workers := (workers s)[i := Executing a rest]\<rparr>)
                       else Some (s1\<lparr>idle := idle s @ [(kind, nr')],
                                     workers := (workers s)[i := (case kind of Oneway \<Rightarrow> Executing a rest
                                                                             | Sync \<Rightarrow> Waiting a rest)]\<rparr>)))
         | _ \<Rightarrow> None)
      else None)"

definition thread_finish :: "nat \<Rightarrow> async_state \<Rightarrow> async_state option" where
  "thread_finish i s =
     (if i < length (workers s) then
        (case workers s ! i of
           Executing a [] \<Rightarrow>
             (case jobs s a of
                None \<Rightarrow> Some (set_fault Use_After_Free s)
              | Some j \<Rightarrow>
                  (case gnome_vfs_job_complete j of
                     None \<Rightarrow> Some (set_fault Failed_Assertion s)
                   | Some complete \<Rightarrow> Some (s\<lparr>workers := (workers s)[i := Finished a complete]\<rparr>)))
         | _ \<Rightarrow> None)
      else None)"

definition thread_end :: "nat \<Rightarrow> async_state \<Rightarrow> async_state option" where
  "thread_end i s =
     (if i < length (workers s) then
        (case workers s ! i of
           Finished a complete \<Rightarrow>
             (let s1 = s\<lparr>workers := remove_nth i (workers s)\<rparr>
              in if \<not> complete then Some s1
                 else (case jobs s a of
                         None \<Rightarrow> Some (set_fault Use_After_Free s1)
                       | Some j \<Rightarrow>
                           (let s2 = gnome_vfs_async_job_completed (job_handle j) s1
                            in Some (if fault s2 \<noteq> None then s2 else gnome_vfs_job_destroy a s2))))
         | _ \<Rightarrow> None)
      else None)"

section \<open>The main loop\<close>

definition handle_cancelled_open :: "bool \<Rightarrow> nat \<Rightarrow> async_state \<Rightarrow> async_state option" where
  "handle_cancelled_open pushed a s =
     map_option (gnome_vfs_job_go pushed a)
       (gnome_vfs_job_set a GNOME_VFS_OP_CLOSE Empty_Close_Callback No_Specifics s)"

definition is_open_op :: "GnomeVFSOpType \<Rightarrow> bool" where
  "is_open_op t \<longleftrightarrow>
     t \<in> {GNOME_VFS_OP_OPEN, GNOME_VFS_OP_OPEN_AS_CHANNEL, GNOME_VFS_OP_CREATE, GNOME_VFS_OP_CREATE_AS_CHANNEL,
          GNOME_VFS_OP_CREATE_SYMBOLIC_LINK}"

text \<open>What is done about the job of a cancelled notification.\<close>

definition dispatch_cancelled :: "bool \<Rightarrow> guint \<Rightarrow> async_state \<Rightarrow> async_state option" where
  "dispatch_cancelled pushed h s =
     (case gnome_vfs_async_job_map_get_job s h of
        None \<Rightarrow> Some s
      | Some a \<Rightarrow>
          if job_locked s a then None
          else (case jobs s a of
                  None \<Rightarrow> Some (set_fault Use_After_Free s)
                | Some j \<Rightarrow>
                    if is_open_op (op_type (job_op j)) \<and> job_vfs_handle j \<noteq> None
                    then handle_cancelled_open pushed a s
                    else Some (gnome_vfs_async_job_map_remove_job (job_handle j) s)))"

definition deliver :: "GnomeVFSNotifyResult \<Rightarrow> async_state \<Rightarrow> async_state" where
  "deliver nr s = s\<lparr>delivered := delivered s @ [(nr_job_handle nr, nr_callback nr, nr_specifics nr)]\<rparr>"

text \<open>
  The entry points of the idle callbacks, up to where the callback map's lock is last
  released: whether the notification is valid and cancelled is read, and it is taken out of
  the map. (The map is locked separately for the two; what another thread can do in between,
  marking this notification, is too late for the first and gone with the second.)
\<close>

definition dispatch_job_callback :: "GnomeVFSNotifyResult \<Rightarrow> async_state \<Rightarrow> async_state" where
  "dispatch_job_callback nr s =
     (let (valid, was_cancelled) = gnome_vfs_async_job_callback_valid s (nr_callback_id nr);
          s1 = gnome_vfs_async_job_remove_callback (nr_callback_id nr) s
      in if fault s1 \<noteq> None then s1
         else if \<not> valid then s1
         else s1\<lparr>dispatching := Some (To_Callback Oneway nr was_cancelled)\<rparr>)"

definition dispatch_sync_job_callback :: "GnomeVFSNotifyResult \<Rightarrow> async_state \<Rightarrow> async_state" where
  "dispatch_sync_job_callback nr s =
     (let (valid, was_cancelled) = gnome_vfs_async_job_callback_valid s (nr_callback_id nr);
          s1 = gnome_vfs_async_job_remove_callback (nr_callback_id nr) s
      in if fault s1 \<noteq> None then s1
         else if \<not> valid then set_fault Failed_Assertion s1
         else s1\<lparr>dispatching := Some (To_Callback Sync nr was_cancelled)\<rparr>)"

definition main_loop_dispatch :: "async_state \<Rightarrow> async_state option" where
  "main_loop_dispatch s =
     (if dispatching s \<noteq> None then None
      else case idle s of
             [] \<Rightarrow> None
           | (kind, nr) # rest \<Rightarrow>
               Some (case kind of
                       Oneway \<Rightarrow> dispatch_job_callback nr (s\<lparr>idle := rest\<rparr>)
                     | Sync \<Rightarrow> dispatch_sync_job_callback nr (s\<lparr>idle := rest\<rparr>)))"

text \<open>
  The rest of the two entry points: the cancellation is dealt with, or the application is
  called back; a callback that a worker waits for is then acknowledged. A cancelled transfer
  is not called back, but acknowledged.
\<close>

definition dispatch_callback :: "bool \<Rightarrow> async_state \<Rightarrow> async_state option" where
  "dispatch_callback pushed s =
     (case dispatching s of
        Some (To_Callback kind nr was_cancelled) \<Rightarrow>
          (let s1 = s\<lparr>dispatching := None\<rparr>
           in case kind of
                Oneway \<Rightarrow> if was_cancelled then dispatch_cancelled pushed (nr_job_handle nr) s1 else Some (deliver nr s1)
              | Sync \<Rightarrow>
                  Some ((if nr_type nr = GNOME_VFS_OP_XFER \<and> was_cancelled then s1 else deliver nr s1)
                          \<lparr>dispatching := Some (To_Acknowledge nr)\<rparr>))
      | _ \<Rightarrow> None)"

text \<open>The worker that waits for the acknowledgement goes on.\<close>

fun wake_worker :: "nat \<Rightarrow> worker \<Rightarrow> worker" where
  "wake_worker a (Waiting b rest) = (if a = b then Executing b rest else Waiting b rest)"
| "wake_worker a w = w"

definition dispatch_acknowledge :: "async_state \<Rightarrow> async_state option" where
  "dispatch_acknowledge s =
     (case dispatching s of
        Some (To_Acknowledge nr) \<Rightarrow>
          (let s1 = s\<lparr>dispatching := None\<rparr>
           in case gnome_vfs_async_job_map_get_job s1 (nr_job_handle nr) of
                None \<Rightarrow> Some (set_fault Use_After_Free s1)
              | Some a \<Rightarrow>
                  if job_locked s1 a then None
                  else Some (s1\<lparr>workers := map (wake_worker a) (workers s1)\<rparr>))
      | _ \<Rightarrow> None)"

text \<open>
  Shutting down: the queue is closed, then the main loop runs until no job is left, and
  only then are the maps destroyed.
\<close>

definition job_queue_close :: "async_state \<Rightarrow> async_state" where
  "job_queue_close s = s\<lparr>gnome_vfs_quitting := True\<rparr>"

definition gnome_vfs_job_queue_shutdown_end :: "async_state \<Rightarrow> async_state option" where
  "gnome_vfs_job_queue_shutdown_end s =
     (if gnome_vfs_quitting s \<and> job_count s = 0 then Some (gnome_vfs_async_job_map_shutdown s) else None)"

section \<open>Runs\<close>

datatype async_event =
    Start GnomeVFSSpecificOp int nat bool
  | On_Handle guint GnomeVFSSpecificOp nat bool
  | Close guint nat bool
  | Cancel guint
  | Begin nat
  | Execute nat vfs_calls
  | Notify nat
  | Finish nat
  | End nat
  | Dispatch
  | Callback bool
  | Acknowledge
  | Quit
  | Shutdown_End

text \<open>No step is made from a state with a fault.\<close>

fun async_effect :: "async_event \<Rightarrow> async_state \<Rightarrow> async_state option" where
  "async_effect (Start spec prio cb pushed) s =
     (if starts_job spec then Some (async_start spec prio cb pushed s) else None)"
| "async_effect (On_Handle h spec cb pushed) s =
     (if on_handle_op spec then async_on_handle h spec cb pushed s else None)"
| "async_effect (Close h cb pushed) s = gnome_vfs_async_close h cb pushed s"
| "async_effect (Cancel h) s = Some (gnome_vfs_async_cancel h s)"
| "async_effect (Begin p) s = thread_begin p s"
| "async_effect (Execute i calls) s = thread_execute i calls s"
| "async_effect (Notify i) s = thread_notify i s"
| "async_effect (Finish i) s = thread_finish i s"
| "async_effect (End i) s = thread_end i s"
| "async_effect Dispatch s = main_loop_dispatch s"
| "async_effect (Callback pushed) s = dispatch_callback pushed s"
| "async_effect Acknowledge s = dispatch_acknowledge s"
| "async_effect Quit s = Some (job_queue_close s)"
| "async_effect Shutdown_End s = gnome_vfs_job_queue_shutdown_end s"

inductive async_run :: "async_state \<Rightarrow> async_event list \<Rightarrow> async_state \<Rightarrow> bool" where
  none: "async_run s [] s"
| step: "fault s = None \<Longrightarrow> async_effect e s = Some s' \<Longrightarrow> async_run s' es s'' \<Longrightarrow> async_run s (e # es) s''"

inductive_cases async_run_ConsE: "async_run s (e # es) s''"
inductive_cases async_run_NilE: "async_run s [] s'"

fun async_exec :: "async_state \<Rightarrow> async_event list \<Rightarrow> async_state option" where
  "async_exec s [] = Some s"
| "async_exec s (e # es) =
     (if fault s = None then (case async_effect e s of None \<Rightarrow> None | Some s' \<Rightarrow> async_exec s' es) else None)"

lemma async_exec_run: "async_exec s es = Some s' \<Longrightarrow> async_run s es s'"
  by (induction es arbitrary: s) (auto intro: async_run.intros split: if_splits option.splits)

end
