(* ===== verification/VFS_Async_Laws.thy ===== *)
theory VFS_Async_Laws
  imports VFS_Async
begin

text \<open>
  Runs of the asynchronous machinery of \<^verbatim>\<open>VFS_Async\<close>: the job count is the number of jobs
  that are not freed; a job nothing refers to stays that way and keeps the shutdown from
  ending; two races between cancelling and completing; the order of the queue; a worker
  runs to its end.
\<close>

section \<open>What the building blocks leave alone\<close>

lemma update_job_fields [simp]:
  "next_addr (update_job a f s) = next_addr s" "async_job_map (update_job a f s) = async_job_map s"
  "async_job_map_next_id (update_job a f s) = async_job_map_next_id s" "shutting_down (update_job a f s) = shutting_down s"
  "async_job_callback_map (update_job a f s) = async_job_callback_map s"
  "async_job_callback_map_next_id (update_job a f s) = async_job_callback_map_next_id s"
  "pool (update_job a f s) = pool s" "dispatching (update_job a f s) = dispatching s" "workers (update_job a f s) = workers s" "idle (update_job a f s) = idle s"
  "job_count (update_job a f s) = job_count s" "gnome_vfs_quitting (update_job a f s) = gnome_vfs_quitting s"
  "delivered (update_job a f s) = delivered s" "fault (update_job a f s) = fault s"
  "jobs (update_job a f s) = (jobs s)(a := map_option f (jobs s a))"
  by (simp_all add: update_job_def)

lemma set_fault_fields [simp]:
  "next_addr (set_fault f s) = next_addr s" "async_job_map (set_fault f s) = async_job_map s"
  "async_job_map_next_id (set_fault f s) = async_job_map_next_id s" "shutting_down (set_fault f s) = shutting_down s"
  "async_job_callback_map (set_fault f s) = async_job_callback_map s"
  "async_job_callback_map_next_id (set_fault f s) = async_job_callback_map_next_id s"
  "pool (set_fault f s) = pool s" "dispatching (set_fault f s) = dispatching s" "workers (set_fault f s) = workers s" "idle (set_fault f s) = idle s"
  "job_count (set_fault f s) = job_count s" "gnome_vfs_quitting (set_fault f s) = gnome_vfs_quitting s"
  "delivered (set_fault f s) = delivered s" "fault (set_fault f s) = Some f"
  "jobs (set_fault f s) = jobs s"
  by (simp_all add: set_fault_def)

lemma table_lookup_Nil [simp]: "table_lookup [] k = None"
  by (simp add: table_lookup_def)

text \<open>Whatever sets only other fields leaves the job map as it was.\<close>

lemma get_job_cong:
  "async_job_map t = async_job_map s \<Longrightarrow> gnome_vfs_async_job_map_get_job t k = gnome_vfs_async_job_map_get_job s k"
  by (simp add: gnome_vfs_async_job_map_get_job_def)

lemma dom_update_job [simp]: "dom ((jobs s)(a := map_option f (jobs s a))) = dom (jobs s)"
  by (auto simp: dom_def)

lemma set_remove_nth: "set (remove_nth i xs) \<subseteq> set xs"
  by (auto simp: remove_nth_def dest: in_set_takeD in_set_dropD)

section \<open>The number of jobs\<close>

text \<open>\<^verbatim>\<open>job_count\<close> is the number of jobs that are not freed.\<close>

definition counted :: "async_state \<Rightarrow> bool" where
  "counted s \<longleftrightarrow> finite (dom (jobs s)) \<and> dom (jobs s) \<subseteq> {..<next_addr s} \<and> job_count s = int (card (dom (jobs s)))"

lemma completed_fields [simp]:
  "jobs (gnome_vfs_async_job_completed h s) = jobs s" "next_addr (gnome_vfs_async_job_completed h s) = next_addr s"
  "job_count (gnome_vfs_async_job_completed h s) = job_count s" "pool (gnome_vfs_async_job_completed h s) = pool s"
  "workers (gnome_vfs_async_job_completed h s) = workers s"
  "dispatching (gnome_vfs_async_job_completed h s) = dispatching s"
  by (simp_all add: gnome_vfs_async_job_completed_def Let_def split: option.splits)

lemma destroy_dispatching [simp]: "dispatching (gnome_vfs_job_destroy a s) = dispatching s"
  by (simp add: gnome_vfs_job_destroy_def)

lemma remove_job_fields [simp]:
  "jobs (gnome_vfs_async_job_map_remove_job h s) = jobs s"
  "next_addr (gnome_vfs_async_job_map_remove_job h s) = next_addr s"
  "job_count (gnome_vfs_async_job_map_remove_job h s) = job_count s"
  "pool (gnome_vfs_async_job_map_remove_job h s) = pool s"
  "workers (gnome_vfs_async_job_map_remove_job h s) = workers s"
  "dispatching (gnome_vfs_async_job_map_remove_job h s) = dispatching s"
  by (simp_all add: gnome_vfs_async_job_map_remove_job_def split: option.splits)

lemma remove_callback_fields [simp]:
  "jobs (gnome_vfs_async_job_remove_callback k s) = jobs s"
  "next_addr (gnome_vfs_async_job_remove_callback k s) = next_addr s"
  "job_count (gnome_vfs_async_job_remove_callback k s) = job_count s"
  "pool (gnome_vfs_async_job_remove_callback k s) = pool s"
  "workers (gnome_vfs_async_job_remove_callback k s) = workers s"
  "async_job_map (gnome_vfs_async_job_remove_callback k s) = async_job_map s"
  "dispatching (gnome_vfs_async_job_remove_callback k s) = dispatching s"
  by (simp_all add: gnome_vfs_async_job_remove_callback_def split: option.splits)

lemma add_callback_fields:
  "gnome_vfs_async_job_add_callback c nr s = Some (nr', t) \<Longrightarrow>
     jobs t = jobs s \<and> next_addr t = next_addr s \<and> job_count t = job_count s \<and> pool t = pool s \<and> workers t = workers s
     \<and> async_job_map t = async_job_map s"
  by (auto simp: gnome_vfs_async_job_add_callback_def Let_def split: if_splits)

lemma deliver_fields [simp]:
  "jobs (deliver nr s) = jobs s" "next_addr (deliver nr s) = next_addr s" "job_count (deliver nr s) = job_count s"
  "pool (deliver nr s) = pool s" "workers (deliver nr s) = workers s" "async_job_map (deliver nr s) = async_job_map s"
  by (simp_all add: deliver_def)

lemma cancel_callbacks_fields [simp]:
  "dom (jobs (gnome_vfs_async_job_cancel_job_and_callbacks h ja s)) = dom (jobs s)"
  "next_addr (gnome_vfs_async_job_cancel_job_and_callbacks h ja s) = next_addr s"
  "job_count (gnome_vfs_async_job_cancel_job_and_callbacks h ja s) = job_count s"
  "pool (gnome_vfs_async_job_cancel_job_and_callbacks h ja s) = pool s"
  "workers (gnome_vfs_async_job_cancel_job_and_callbacks h ja s) = workers s"
  "async_job_map (gnome_vfs_async_job_cancel_job_and_callbacks h ja s) = async_job_map s"
  by (auto simp: gnome_vfs_async_job_cancel_job_and_callbacks_def Let_def split: option.splits)

lemma async_cancel_fields [simp]:
  "dom (jobs (gnome_vfs_async_cancel h s)) = dom (jobs s)" "next_addr (gnome_vfs_async_cancel h s) = next_addr s"
  "job_count (gnome_vfs_async_cancel h s) = job_count s" "pool (gnome_vfs_async_cancel h s) = pool s"
  "workers (gnome_vfs_async_cancel h s) = workers s" "async_job_map (gnome_vfs_async_cancel h s) = async_job_map s"
  by (auto simp: gnome_vfs_async_cancel_def gnome_vfs_job_module_cancel_def split: option.splits)

lemma counted_simps [simp]:
  "counted (set_fault f s) = counted s" "counted (gnome_vfs_async_job_remove_callback k s) = counted s"
  "counted (gnome_vfs_async_job_map_remove_job h s) = counted s" "counted (gnome_vfs_async_job_completed h s) = counted s"
  "counted (deliver nr s) = counted s" "counted (s\<lparr>idle := i\<rparr>) = counted s" "counted (s\<lparr>workers := w\<rparr>) = counted s"
  "counted (s\<lparr>pool := p\<rparr>) = counted s" "counted (s\<lparr>dispatching := d\<rparr>) = counted s" "counted (gnome_vfs_async_cancel h s) = counted s"
  "counted (job_queue_close s) = counted s"
  by (simp_all add: counted_def job_queue_close_def)

lemma counted_destroy: "counted s \<Longrightarrow> jobs s a \<noteq> None \<Longrightarrow> counted (gnome_vfs_job_destroy a s)"
proof -
  assume c: "counted s" "jobs s a \<noteq> None"
  then have a: "a \<in> dom (jobs s)" by auto
  then have "card (dom (jobs s)) = Suc (card (dom (jobs s) - {a}))"
    using c card.remove [of "dom (jobs s)" a] by (simp add: counted_def)
  then show ?thesis
    using c by (auto simp: counted_def gnome_vfs_job_destroy_def)
qed

lemma counted_go:
  assumes "counted s" "jobs s a \<noteq> None"
  shows "counted (gnome_vfs_job_go pushed a s)"
  using assms by (auto simp: gnome_vfs_job_go_def gnome_vfs_job_schedule_def Let_def intro!: counted_destroy)

lemma job_set_fields:
  assumes "gnome_vfs_job_set a t cb spec s = Some s'"
  shows "dom (jobs s') = dom (jobs s)" "next_addr s' = next_addr s" "job_count s' = job_count s" "pool s' = pool s"
    "workers s' = workers s" "async_job_map s' = async_job_map s"
  using assms by (auto simp: gnome_vfs_job_set_def split: if_splits)

lemma counted_set_go:
  assumes "counted s" "jobs s a \<noteq> None" "gnome_vfs_job_set a t cb spec s = Some s'"
  shows "counted (gnome_vfs_job_go pushed a s')"
proof -
  have "counted s'" "jobs s' a \<noteq> None"
    using assms job_set_fields [OF assms(3)] by (auto simp: counted_def)
  then show ?thesis by (rule counted_go)
qed

lemma job_new_shape:
  assumes "gnome_vfs_job_new t prio cb spec s = (a, s1)"
  shows "a = next_addr s" "dom (jobs s1) = insert a (dom (jobs s))" "next_addr s1 = Suc a" "job_count s1 = job_count s + 1"
    "pool s1 = pool s" "workers s1 = workers s"
    "gnome_vfs_async_job_map_get_job s1 k = Some b \<Longrightarrow> b = a \<or> gnome_vfs_async_job_map_get_job s k = Some b"
  using assms
  by (auto simp: gnome_vfs_job_new_def gnome_vfs_async_job_map_add_job_def Let_def gnome_vfs_async_job_map_get_job_def
        tab.lookup_insert split: if_splits option.splits)

lemma counted_new:
  assumes "counted s" "gnome_vfs_job_new t prio cb spec s = (a, s1)"
  shows "counted s1" "jobs s1 a \<noteq> None"
proof -
  have "a \<notin> dom (jobs s)" using assms job_new_shape(1) [OF assms(2)] by (auto simp: counted_def)
  then show "counted s1" using assms job_new_shape(1-4) [OF assms(2)] by (auto simp: counted_def lessThan_Suc)
  have "a \<in> dom (jobs s1)" using job_new_shape(2) [OF assms(2)] by simp
  then show "jobs s1 a \<noteq> None" by auto
qed

lemma counted_start: "counted s \<Longrightarrow> counted (async_start spec prio cb pushed s)"
  unfolding async_start_def
  by (auto split: prod.splits dest: counted_new intro: counted_go)

lemma counted_on_handle: "counted s \<Longrightarrow> async_on_handle h spec cb pushed s = Some t \<Longrightarrow> counted t"
  by (auto simp: async_on_handle_def split: option.splits if_splits intro: counted_set_go)

lemma counted_close: "counted s \<Longrightarrow> gnome_vfs_async_close h cb pushed s = Some t \<Longrightarrow> counted t"
  by (auto simp: gnome_vfs_async_close_def split: option.splits if_splits intro: counted_set_go)

lemma counted_thread:
  "counted s \<Longrightarrow> thread_begin i s = Some t \<Longrightarrow> counted t"
  "counted s \<Longrightarrow> thread_finish i s = Some t \<Longrightarrow> counted t"
  by (auto simp: thread_begin_def thread_finish_def Let_def split: option.splits if_splits worker.splits list.splits)

lemma counted_replace: "counted s \<Longrightarrow> jobs s a = Some j \<Longrightarrow> counted (s\<lparr>jobs := (jobs s)(a \<mapsto> j'), workers := w\<rparr>)"
proof -
  assume "counted s" "jobs s a = Some j"
  moreover from this have "dom ((jobs s)(a \<mapsto> j')) = dom (jobs s)" by auto
  ultimately show ?thesis by (simp add: counted_def del: dom_fun_upd)
qed

lemma counted_execute: "counted s \<Longrightarrow> thread_execute i calls s = Some t \<Longrightarrow> counted t"
  by (auto simp: thread_execute_def Let_def intro!: counted_replace split: option.splits if_splits worker.splits prod.splits)

lemma counted_notify: "counted s \<Longrightarrow> thread_notify i s = Some t \<Longrightarrow> counted t"
proof -
  have "gnome_vfs_async_job_add_callback c nr s = Some (nr', u) \<Longrightarrow> counted u = counted s" for c nr nr' u
    by (drule add_callback_fields) (simp add: counted_def)
  then show "counted s \<Longrightarrow> thread_notify i s = Some t \<Longrightarrow> counted t"
    by (auto simp: thread_notify_def Let_def split: option.splits if_splits worker.splits prod.splits list.splits)
qed

lemma counted_end: "counted s \<Longrightarrow> thread_end i s = Some t \<Longrightarrow> counted t"
proof -
  assume c: "counted s" and t: "thread_end i s = Some t"
  have "counted (gnome_vfs_async_job_completed h (s\<lparr>workers := w\<rparr>))" for h w using c by (simp add: counted_def)
  then have "jobs s a \<noteq> None \<Longrightarrow> counted (gnome_vfs_job_destroy a (gnome_vfs_async_job_completed h (s\<lparr>workers := w\<rparr>)))"
    for a h w by (rule counted_destroy) simp
  with c t show ?thesis
    by (auto simp: thread_end_def Let_def split: option.splits if_splits worker.splits)
qed

lemma counted_dispatch_cancelled: "counted s \<Longrightarrow> dispatch_cancelled pushed h s = Some t \<Longrightarrow> counted t"
  by (auto simp: dispatch_cancelled_def handle_cancelled_open_def split: option.splits if_splits
        intro: counted_set_go)

lemmas dispatch_defs = main_loop_dispatch_def dispatch_job_callback_def dispatch_sync_job_callback_def
  dispatch_callback_def dispatch_acknowledge_def
lemmas dispatch_splits = list.splits prod.splits notify_kind.splits option.splits if_splits dispatch_stage.splits

lemma counted_dispatch:
  "counted s \<Longrightarrow> main_loop_dispatch s = Some t \<Longrightarrow> counted t"
  "counted s \<Longrightarrow> dispatch_callback pushed s = Some t \<Longrightarrow> counted t"
  "counted s \<Longrightarrow> dispatch_acknowledge s = Some t \<Longrightarrow> counted t"
  by (auto simp: dispatch_defs Let_def split: dispatch_splits dest: counted_dispatch_cancelled [rotated])

lemma counted_shutdown: "counted s \<Longrightarrow> gnome_vfs_job_queue_shutdown_end s = Some t \<Longrightarrow> counted t"
  by (auto simp: gnome_vfs_job_queue_shutdown_end_def gnome_vfs_async_job_map_shutdown_def
        async_job_callback_map_destroy_def Let_def counted_def split: if_splits option.splits)

lemma counted_step: "async_effect e s = Some t \<Longrightarrow> counted s \<Longrightarrow> counted t"
  by (cases e)
     (auto dest: counted_thread counted_execute counted_notify counted_end
       counted_dispatch counted_shutdown counted_close counted_on_handle counted_start split: if_splits)

lemma counted_run: "async_run s es t \<Longrightarrow> counted s \<Longrightarrow> counted t"
  by (induction rule: async_run.induct) (auto dest: counted_step)

section \<open>Jobs nothing refers to\<close>

text \<open>
  A job that is not freed, but neither queued nor with a worker nor in the job map: nothing
  can reach it any more.
\<close>

definition forgotten :: "nat \<Rightarrow> async_state \<Rightarrow> bool" where
  "forgotten a s \<longleftrightarrow>
     jobs s a \<noteq> None \<and> a < next_addr s \<and> a \<notin> set (pool s) \<and> (\<forall>w\<in>set (workers s). worker_job w \<noteq> a)
     \<and> (\<forall>k. gnome_vfs_async_job_map_get_job s k \<noteq> Some a)"

lemma forgotten_mono:
  assumes "forgotten a s" "dom (jobs t) = dom (jobs s)" "next_addr t = next_addr s" "set (pool t) \<subseteq> set (pool s)"
    "worker_job ` set (workers t) \<subseteq> worker_job ` set (workers s)"
    "\<And>k b. gnome_vfs_async_job_map_get_job t k = Some b \<Longrightarrow> gnome_vfs_async_job_map_get_job s k = Some b"
  shows "forgotten a t"
proof -
  have "a \<in> dom (jobs t)" using assms(1,2) by (auto simp: forgotten_def)
  moreover have "a \<notin> worker_job ` set (workers s)" using assms(1) by (auto simp: forgotten_def)
  then have "\<forall>w\<in>set (workers t). worker_job w \<noteq> a" using assms(5) by auto
  moreover have "\<forall>k. gnome_vfs_async_job_map_get_job t k \<noteq> Some a" using assms(1) assms(6) unfolding forgotten_def by blast
  ultimately show ?thesis using assms(1,3,4) by (auto simp: forgotten_def)
qed

lemma get_job_completed:
  "gnome_vfs_async_job_map_get_job (gnome_vfs_async_job_completed h s) k = Some b \<Longrightarrow>
     gnome_vfs_async_job_map_get_job s k = Some b"
  by (auto simp: gnome_vfs_async_job_completed_def gnome_vfs_async_job_map_get_job_def Let_def tab.lookup_remove
       split: option.splits if_splits)

lemma get_job_remove_job:
  "gnome_vfs_async_job_map_get_job (gnome_vfs_async_job_map_remove_job h s) k = Some b \<Longrightarrow>
     gnome_vfs_async_job_map_get_job s k = Some b"
  by (auto simp: gnome_vfs_async_job_map_remove_job_def gnome_vfs_async_job_map_get_job_def tab.lookup_remove
       split: option.splits if_splits)

lemma forgotten_simps [simp]:
  "forgotten a (set_fault f s) = forgotten a s" "forgotten a (gnome_vfs_async_job_remove_callback k s) = forgotten a s"
  "forgotten a (deliver nr s) = forgotten a s" "forgotten a (s\<lparr>idle := i\<rparr>) = forgotten a s"
  "forgotten a (job_queue_close s) = forgotten a s"
  by (simp_all add: forgotten_def job_queue_close_def gnome_vfs_async_job_map_get_job_def)

lemma forgotten_removals:
  "forgotten a s \<Longrightarrow> forgotten a (gnome_vfs_async_job_map_remove_job h s)"
  "forgotten a s \<Longrightarrow> forgotten a (gnome_vfs_async_job_completed h s)"
  by (erule forgotten_mono; auto dest: get_job_completed get_job_remove_job)+

lemma forgotten_cancel: "forgotten a s \<Longrightarrow> forgotten a (gnome_vfs_async_cancel h s)"
  by (erule forgotten_mono) (simp_all add: gnome_vfs_async_job_map_get_job_def)

lemma forgotten_destroy: "forgotten a s \<Longrightarrow> b \<noteq> a \<Longrightarrow> forgotten a (gnome_vfs_job_destroy b s)"
  by (simp add: forgotten_def gnome_vfs_job_destroy_def gnome_vfs_async_job_map_get_job_def)

lemma forgotten_go: "forgotten a s \<Longrightarrow> b \<noteq> a \<Longrightarrow> forgotten a (gnome_vfs_job_go pushed b s)"
proof -
  assume a: "forgotten a s" "b \<noteq> a"
  then have "forgotten a (s\<lparr>pool := pool s @ [b]\<rparr>)"
    by (simp add: forgotten_def gnome_vfs_async_job_map_get_job_def)
  with a show ?thesis
    by (auto simp: gnome_vfs_job_go_def gnome_vfs_job_schedule_def Let_def split: option.splits
          intro: forgotten_destroy forgotten_removals)
qed

lemma forgotten_set: "forgotten a s \<Longrightarrow> gnome_vfs_job_set b t cb spec s = Some s' \<Longrightarrow> forgotten a s'"
  by (erule forgotten_mono) (simp_all add: job_set_fields gnome_vfs_async_job_map_get_job_def)

lemma forgotten_get: "forgotten a s \<Longrightarrow> gnome_vfs_async_job_map_get_job s k = Some b \<Longrightarrow> b \<noteq> a"
  by (auto simp: forgotten_def)

lemma forgotten_new:
  assumes "forgotten a s" "gnome_vfs_job_new t prio cb spec s = (b, s1)"
  shows "forgotten a s1" "b \<noteq> a"
proof -
  note new = job_new_shape [OF assms(2)]
  show "b \<noteq> a" using assms(1) new(1) by (simp add: forgotten_def)
  then have "a \<in> dom (jobs s1)" "gnome_vfs_async_job_map_get_job s1 k \<noteq> Some a" for k
    using assms(1) new(2) new(7) [of k a] by (auto simp: forgotten_def)
  then show "forgotten a s1" using assms(1) new(1,3,5,6) by (auto simp: forgotten_def)
qed

lemma forgotten_set_go:
  assumes "forgotten a s" "gnome_vfs_async_job_map_get_job s k = Some b" "gnome_vfs_job_set b t cb spec s = Some s'"
  shows "forgotten a (gnome_vfs_job_go pushed b s')"
  using assms forgotten_set forgotten_get forgotten_go by blast

lemma forgotten_new_go:
  assumes "forgotten a s" "gnome_vfs_job_new t prio cb spec s = (b, s1)"
  shows "forgotten a (gnome_vfs_job_go pushed b s1)"
  using forgotten_go forgotten_new [OF assms] by blast

lemma forgotten_calls:
  "forgotten a s \<Longrightarrow> forgotten a (async_start spec prio cb pushed s)"
  "forgotten a s \<Longrightarrow> async_on_handle h spec cb pushed s = Some t \<Longrightarrow> forgotten a t"
  "forgotten a s \<Longrightarrow> gnome_vfs_async_close h cb pushed s = Some t \<Longrightarrow> forgotten a t"
  "forgotten a s \<Longrightarrow> dispatch_cancelled pushed h s = Some t \<Longrightarrow> forgotten a t"
  by (auto simp: async_start_def async_on_handle_def gnome_vfs_async_close_def dispatch_cancelled_def
        handle_cancelled_open_def split: option.splits if_splits prod.splits
        intro: forgotten_set_go forgotten_new_go forgotten_new forgotten_removals)

lemma forgotten_worker:
  assumes "forgotten a s" "w \<in> set (workers s)" "dom (jobs t) = dom (jobs s)" "next_addr t = next_addr s"
    "pool t = pool s" "async_job_map t = async_job_map s" "set (workers t) \<subseteq> insert w' (set (workers s))"
    "worker_job w' = worker_job w"
  shows "forgotten a t"
proof (rule forgotten_mono [OF assms(1,3,4)])
  show "worker_job ` set (workers t) \<subseteq> worker_job ` set (workers s)"
    using assms(2,7,8) by (auto dest!: subsetD)
qed (simp_all add: assms gnome_vfs_async_job_map_get_job_def)

lemma forgotten_thread:
  assumes f: "forgotten a s"
  shows "thread_begin i s = Some t \<Longrightarrow> forgotten a t" "thread_execute i calls s = Some t \<Longrightarrow> forgotten a t"
    "thread_notify i s = Some t \<Longrightarrow> forgotten a t" "thread_finish i s = Some t \<Longrightarrow> forgotten a t"
proof -
  show "thread_begin i s = Some t \<Longrightarrow> forgotten a t"
    using f set_remove_nth [of i "pool s"]
    by (auto simp: thread_begin_def Let_def forgotten_def gnome_vfs_async_job_map_get_job_def dest: nth_mem
         split: option.splits if_splits)
  have upd: "i < length (workers s) \<Longrightarrow> workers u = (workers s)[i := w'] \<Longrightarrow> worker_job w' = worker_job (workers s ! i)
      \<Longrightarrow> dom (jobs u) = dom (jobs s) \<Longrightarrow> next_addr u = next_addr s \<Longrightarrow> pool u = pool s
      \<Longrightarrow> async_job_map u = async_job_map s \<Longrightarrow> forgotten a u" for u w'
    by (rule forgotten_worker [OF f, of "workers s ! i" _ w']) (simp_all add: set_update_subset_insert)
  show "thread_execute i calls s = Some t \<Longrightarrow> forgotten a t"
    using f by (auto simp: thread_execute_def Let_def split: option.splits if_splits worker.splits prod.splits
                 intro: upd)
  show "thread_finish i s = Some t \<Longrightarrow> forgotten a t"
    using f by (auto simp: thread_finish_def Let_def split: option.splits if_splits worker.splits list.splits
                 intro: upd)
  show "thread_notify i s = Some t \<Longrightarrow> forgotten a t"
    using f by (auto simp: thread_notify_def Let_def dest!: add_callback_fields
                  split: option.splits if_splits worker.splits prod.splits list.splits notify_kind.splits
                 intro: upd)
qed

lemma forgotten_end:
  assumes f: "forgotten a s" and t: "thread_end i s = Some t"
  shows "forgotten a t"
proof -
  let ?s = "s\<lparr>workers := remove_nth i (workers s)\<rparr>"
  have s1: "forgotten a ?s"
    using f set_remove_nth [of i "workers s"] by (auto simp: forgotten_def gnome_vfs_async_job_map_get_job_def)
  have "i < length (workers s) \<Longrightarrow> worker_job (workers s ! i) \<noteq> a"
    using f nth_mem by (fastforce simp: forgotten_def)
  then have "i < length (workers s) \<Longrightarrow> workers s ! i = Finished b c \<Longrightarrow> b \<noteq> a" for b c by auto
  then show ?thesis
    using t s1 by (auto simp: thread_end_def Let_def split: option.splits if_splits worker.splits
         intro: forgotten_destroy forgotten_removals)
qed

lemma forgotten_stage [simp]: "forgotten a (s\<lparr>dispatching := d\<rparr>) = forgotten a s"
  by (simp add: forgotten_def gnome_vfs_async_job_map_get_job_def)

lemma forgotten_dispatch:
  assumes "forgotten a s"
  shows "main_loop_dispatch s = Some t \<Longrightarrow> forgotten a t" "dispatch_callback pushed s = Some t \<Longrightarrow> forgotten a t"
    "dispatch_acknowledge s = Some t \<Longrightarrow> forgotten a t"
proof -
  have wake: "worker_job (wake_worker b w) = worker_job w" for b w by (cases w) auto
  have wakes: "forgotten a s \<Longrightarrow> ws = workers s \<Longrightarrow> forgotten a (s\<lparr>workers := map (wake_worker b) ws\<rparr>)" for s b ws
    by (erule forgotten_mono) (auto simp: gnome_vfs_async_job_map_get_job_def wake)
  show "main_loop_dispatch s = Some t \<Longrightarrow> forgotten a t" "dispatch_callback pushed s = Some t \<Longrightarrow> forgotten a t"
    "dispatch_acknowledge s = Some t \<Longrightarrow> forgotten a t"
    using assms by (auto simp: dispatch_defs Let_def split: dispatch_splits dest: forgotten_calls(4) [rotated] intro: wakes)
qed

lemma forgotten_shutdown:
  "counted s \<Longrightarrow> forgotten a s \<Longrightarrow> gnome_vfs_job_queue_shutdown_end s = None"
  by (auto simp: gnome_vfs_job_queue_shutdown_end_def counted_def forgotten_def)

lemma forgotten_step: "async_effect e s = Some t \<Longrightarrow> counted s \<Longrightarrow> forgotten a s \<Longrightarrow> forgotten a t"
  by (cases e)
     (auto dest: forgotten_thread forgotten_end forgotten_dispatch forgotten_shutdown forgotten_calls forgotten_cancel
       split: if_splits)

lemma forgotten_run: "async_run s es t \<Longrightarrow> counted s \<Longrightarrow> forgotten a s \<Longrightarrow> forgotten a t"
  by (induction rule: async_run.induct) (auto dest: forgotten_step counted_step)

section \<open>Cancellation races\<close>

text \<open>Events that run one queued operation to its end, with what the calls of the file system return.\<close>

definition run_job :: "async_event list" where
  "run_job = [Begin 0, Execute 0 sample_calls, Notify 0, Finish 0, End 0]"

text \<open>A file is opened, a read is made, and its handle is cancelled before the result is dispatched.\<close>

definition cancelled_read :: "async_event list" where
  "cancelled_read =
     [Start (OpenOp (Some (file_uri ''/f'')) 1) 0 7 True] @ run_job @ [Dispatch, Callback True, On_Handle 1 (ReadOp 0 10) 8 True]
     @ run_job @ [Cancel 1, Dispatch, Callback True]"

text \<open>
  A handle is cancelled after its open has succeeded; the open's worker has decided that the
  job is complete, but has not ended, when the main loop takes up the notification.
\<close>

definition cancelled_open :: "async_event list" where
  "cancelled_open =
     [Start (OpenOp (Some (file_uri ''/f'')) 1) 0 7 True, Begin 0, Execute 0 sample_calls, Notify 0, Cancel 1, Finish 0, Dispatch]"

lemma counted_init: "counted async_init"
  by (simp add: counted_def async_init_def)

lemma table_lookup_code [simp]: "table_lookup ((k, v) # t) k' = (if k' = k then Some v else table_lookup t k')"
  by (simp add: table_lookup_def)

lemma cancelled_read_state:
  "case async_exec async_init cancelled_read of
     None \<Rightarrow> False
   | Some s \<Rightarrow> fault s = None \<and> pool s = [] \<and> workers s = [] \<and> async_job_map s = Some [] \<and> jobs s 0 \<noteq> None \<and> next_addr s = 1"
  unfolding cancelled_read_def run_job_def by code_simp

text \<open>
  C12. A job no thread and no table refers to is never freed, so \<^verbatim>\<open>_gnome_vfs_job_queue_shutdown\<close>
  never leaves its loop, whatever happens next.
\<close>

theorem forgotten_job_blocks_shutdown:
  assumes "async_run async_init es s" "forgotten a s" "async_run s es' t"
  shows "gnome_vfs_job_queue_shutdown_end t = None"
  using assms counted_run counted_init forgotten_run forgotten_shutdown by metis

theorem forgotten_job_blocks_shutdown_witness:
  "\<exists>s. async_exec async_init cancelled_read = Some s \<and> fault s = None
     \<and> gnome_vfs_job_queue_shutdown_end (job_queue_close s) = None"
proof -
  obtain s where s: "async_exec async_init cancelled_read = Some s" "fault s = None" "pool s = []" "workers s = []"
      "async_job_map s = Some []" "jobs s 0 \<noteq> None" "next_addr s = 1"
    using cancelled_read_state by (auto split: option.splits)
  have "async_run async_init cancelled_read s" using s(1) by (rule async_exec_run)
  moreover have "forgotten 0 s" using s by (simp add: forgotten_def gnome_vfs_async_job_map_get_job_def)
  moreover have "async_run s [Quit] (job_queue_close s)" using s(2) by (auto intro!: async_run.intros)
  ultimately show ?thesis using forgotten_job_blocks_shutdown [of cancelled_read s 0 "[Quit]"] s by blast
qed

text \<open>
  C23. A race between cancelling and completing. In any state (no fault, not quitting) in which
  the main loop is about to deal with a cancelled notification of a job whose operation is an
  open or a creation that has produced a handle, while a worker that has already found this
  job complete has not yet ended and no thread holds the job's lock: the main loop sets the job
  to a silent close and queues it, the worker ends and frees the job, and the worker that is
  then given the queued job uses it after it is freed. Nothing disables any of the three steps.
\<close>

theorem cancelled_open_use_after_free:
  assumes "fault s = None" "\<not> gnome_vfs_quitting s" "dispatching s = Some (To_Callback Oneway nr True)"
    and "gnome_vfs_async_job_map_get_job s (nr_job_handle nr) = Some a" "jobs s a = Some j"
    and "is_open_op (op_type (job_op j))" "job_vfs_handle j \<noteq> None" "\<not> job_locked s a"
    and "i < length (workers s)" "workers s ! i = Finished a True"
  shows "\<exists>t. async_exec s [Callback True, End i, Begin (length (pool s))] = Some t \<and> fault t = Some Use_After_Free"
proof -
  define s0 where "s0 = s\<lparr>dispatching := None\<rparr>"
  define f :: "GnomeVFSJob \<Rightarrow> GnomeVFSJob" where "f = (\<lambda>j. j\<lparr>job_op := \<lparr>op_type = GNOME_VFS_OP_CLOSE, op_callback = Empty_Close_Callback,
      specifics = No_Specifics, op_context = gnome_vfs_context_new\<rparr>, cancelled := False\<rparr>)"
  define s1 where "s1 = (update_job a f s0)\<lparr>pool := pool s @ [a]\<rparr>"
  have un: "\<not> job_locked s0 a" using assms(8) by (simp add: s0_def job_locked_def)
  have g: "gnome_vfs_async_job_map_get_job s0 (nr_job_handle nr) = Some a"
    using assms(4) by (simp add: s0_def gnome_vfs_async_job_map_get_job_def)
  have "dispatch_cancelled True (nr_job_handle nr) s0 = Some s1"
    using un g assms(2,5-7)
    by (simp add: dispatch_cancelled_def handle_cancelled_open_def gnome_vfs_job_set_def gnome_vfs_job_go_def
        gnome_vfs_job_schedule_def s0_def s1_def f_def Let_def)
  then have 1: "async_effect (Callback True) s = Some s1"
    by (simp add: dispatch_callback_def assms(3) s0_def)
  have s1: "fault s1 = None" "workers s1 = workers s" "jobs s1 a = Some (f j)" "pool s1 = pool s @ [a]"
    "async_job_map s1 = async_job_map s"
    using assms(1,5) by (simp_all add: s1_def s0_def)
  obtain m where m: "async_job_map s = Some m"
    using assms(4) by (auto simp: gnome_vfs_async_job_map_get_job_def split: option.splits)
  define s2 where "s2 = gnome_vfs_async_job_completed (job_handle (f j)) (s1\<lparr>workers := remove_nth i (workers s1)\<rparr>)"
  define s3 where "s3 = gnome_vfs_job_destroy a s2"
  have "fault s2 = None" using s1 m by (simp add: s2_def gnome_vfs_async_job_completed_def Let_def)
  then have 2: "async_effect (End i) s1 = Some s3" "fault s3 = None"
    using assms(9,10) s1 by (simp_all add: thread_end_def Let_def s2_def s3_def gnome_vfs_job_destroy_def)
  have "pool s3 = pool s @ [a]" "jobs s3 a = None" using s1 by (simp_all add: s2_def s3_def gnome_vfs_job_destroy_def)
  then have "\<exists>t. async_effect (Begin (length (pool s))) s3 = Some t \<and> fault t = Some Use_After_Free"
    by (simp add: thread_begin_def)
  then show ?thesis using 1 2 s1(1) assms(1) by auto
qed

lemma cancelled_open_state:
  "case async_exec async_init cancelled_open of
     None \<Rightarrow> False
   | Some s \<Rightarrow> fault s = None \<and> \<not> gnome_vfs_quitting s \<and> pool s = [] \<and> workers s = [Finished 0 True] \<and> \<not> job_locked s 0
     \<and> (case dispatching s of Some (To_Callback Oneway nr True) \<Rightarrow> gnome_vfs_async_job_map_get_job s (nr_job_handle nr) = Some 0 | _ \<Rightarrow> False)
     \<and> (case jobs s 0 of None \<Rightarrow> False | Some j \<Rightarrow> is_open_op (op_type (job_op j)) \<and> job_vfs_handle j \<noteq> None)"
  unfolding cancelled_open_def by code_simp

theorem cancelled_open_use_after_free_witness:
  "\<exists>s t. async_exec async_init cancelled_open = Some s \<and> async_exec s [Callback True, End 0, Begin 0] = Some t
     \<and> fault t = Some Use_After_Free"
proof -
  obtain s nr j where s: "async_exec async_init cancelled_open = Some s" "fault s = None" "\<not> gnome_vfs_quitting s" "pool s = []"
      "workers s = [Finished 0 True]" "\<not> job_locked s 0" "dispatching s = Some (To_Callback Oneway nr True)"
      "gnome_vfs_async_job_map_get_job s (nr_job_handle nr) = Some 0" "jobs s 0 = Some j"
      "is_open_op (op_type (job_op j))" "job_vfs_handle j \<noteq> None"
    using cancelled_open_state by (auto split: option.splits dispatch_stage.splits notify_kind.splits bool.splits)
  then show ?thesis
    using cancelled_open_use_after_free [of s nr 0 j 0] by auto
qed

section \<open>The order of the queue\<close>

lemma sint_diff_small:
  fixes x y :: guint
  assumes "uint x < 2 ^ 31" "uint y < 2 ^ 31"
  shows "sint (x - y) = uint x - uint y"
proof -
  have nonneg: "0 \<le> uint z" for z :: guint by simp
  have "signed_take_bit 31 (uint z) = uint z" if "uint z < 2 ^ 31" for z :: guint
    using that nonneg [of z] by (intro signed_take_bit_int_eq_self) linarith+
  then have s: "sint z = uint z" if "uint z < 2 ^ 31" for z :: guint using that by (simp add: sint_uint)
  have "signed_take_bit 31 (uint x - uint y) = uint x - uint y"
    using assms nonneg [of x] nonneg [of y] by (intro signed_take_bit_int_eq_self) linarith+
  then show ?thesis using s [OF assms(1)] s [OF assms(2)] by (simp add: sint_word_diff)
qed

text \<open>
  The comparison function ranks the job with the higher priority first and, among jobs of the
  same priority, the older one, as long as handles are below \<open>2 ^ 31\<close>: what the comment in the
  code wants, the other way round than it says.
\<close>

lemma prioritize_oldest_first:
  assumes "uint (job_handle a) < 2 ^ 31" "uint (job_handle b) < 2 ^ 31"
  shows "prioritize_threads a b < 0 \<longleftrightarrow>
     priority b < priority a \<or> priority a = priority b \<and> job_handle a < job_handle b"
  using sint_diff_small [OF assms] by (auto simp: prioritize_threads_def word_less_def)

section \<open>A worker reaches its end\<close>

abbreviation queued :: "async_state \<Rightarrow> GnomeVFSSpecificNotifyResult list" where
  "queued s \<equiv> map (nr_specifics \<circ> snd) (idle s)"

text \<open>
  C13. A worker needs no other thread to finish. From any state without a fault, before the
  shutdown, in which a worker is executing a job that exists and has only notifications left
  that wait for no answer: if from there on this worker alone is run, with no step of another
  thread in between, then after one step for each notification and two more it has ended; it has
  queued its notifications in order, all of them if the job was not cancelled at the start and
  none of them if it was, and has freed the job exactly when \<^verbatim>\<open>_gnome_vfs_job_complete\<close> says that
  it is complete. (With other threads in between, a cancellation may drop the later
  notifications only, as in the run of \<open>VFS_Async_Cancel\<close> that is cancelled half-way.)
\<close>

theorem worker_runs_to_end:
  assumes "fault s = None" "\<not> shutting_down s" "async_job_map s \<noteq> None" "i < length (workers s)"
    "workers s ! i = Executing a nrs" "jobs s a = Some j" "\<forall>x\<in>set nrs. fst x = Oneway" "gnome_vfs_job_complete j = Some c"
  shows "\<exists>t. async_exec s (replicate (length nrs) (Notify i) @ [Finish i, End i]) = Some t \<and> fault t = None
     \<and> workers t = remove_nth i (workers s) \<and> (jobs t a = None) = c
     \<and> queued t = queued s @ (if cancelled j then [] else map (nr_specifics \<circ> snd) nrs)"
  using assms
proof (induction nrs arbitrary: s)
  case Nil
  let ?s = "s\<lparr>workers := (workers s)[i := Finished a c]\<rparr>"
  have rm: "remove_nth i ((workers s)[i := w]) = remove_nth i (workers s)" for w
    using Nil.prems(4) by (simp add: remove_nth_def)
  have "thread_finish i s = Some ?s" using Nil.prems by (simp add: thread_finish_def)
  moreover have "\<exists>t. thread_end i ?s = Some t \<and> fault t = None \<and> workers t = remove_nth i (workers s) \<and> (jobs t a = None) = c
      \<and> idle t = idle s"
    using Nil.prems rm
    by (auto simp: thread_end_def Let_def gnome_vfs_async_job_completed_def gnome_vfs_job_destroy_def)
  ultimately show ?case using Nil.prems by auto
next
  case (Cons x nrs)
  obtain nr where x: "x = (Oneway, nr)" using Cons.prems(7) by (cases x) auto
  obtain nr' s1 where s1: "gnome_vfs_async_job_add_callback (cancelled j) nr s = Some (nr', s1)"
    using Cons.prems(2) by (auto simp: gnome_vfs_async_job_add_callback_def Let_def)
  have f: "nr_specifics nr' = nr_specifics nr" "fault s1 = None" "\<not> shutting_down s1" "async_job_map s1 = async_job_map s"
      "jobs s1 = jobs s" "idle s1 = idle s" "workers s1 = workers s"
    using s1 Cons.prems(1,2) by (auto simp: gnome_vfs_async_job_add_callback_def Let_def)
  let ?w = "(workers s)[i := Executing a nrs]"
  let ?t = "if cancelled j then s1\<lparr>workers := ?w\<rparr> else s1\<lparr>idle := idle s @ [(Oneway, nr')], workers := ?w\<rparr>"
  have n: "thread_notify i s = Some ?t" using Cons.prems s1 x by (simp add: thread_notify_def)
  have rm: "remove_nth i ?w = remove_nth i (workers s)" using Cons.prems(4) by (simp add: remove_nth_def)
  have "\<exists>t. async_exec ?t (replicate (length nrs) (Notify i) @ [Finish i, End i]) = Some t \<and> fault t = None
     \<and> workers t = remove_nth i (workers ?t) \<and> (jobs t a = None) = c
     \<and> queued t = queued ?t @ (if cancelled j then [] else map (nr_specifics \<circ> snd) nrs)"
    using Cons.prems f by (intro Cons.IH) auto
  then show ?case using n x f rm Cons.prems(1) by (auto simp: comp_def split: if_splits)
qed

text \<open>The state in which a worker has loaded a directory and not yet notified.\<close>

definition loaded :: "async_event list" where
  "loaded = [Start (LoadDirectoryOp (Some (file_uri ''/d'')) 0 1) 0 7 True, Begin 0, Execute 0 sample_calls]"

lemma loaded_state:
  "case async_exec async_init loaded of
     None \<Rightarrow> False
   | Some s \<Rightarrow> fault s = None \<and> \<not> shutting_down s \<and> async_job_map s \<noteq> None \<and> length (workers s) = 1
     \<and> (case workers s ! 0 of Executing a nrs \<Rightarrow> a = 0 \<and> length nrs = 2 \<and> list_all (\<lambda>x. fst x = Oneway) nrs | _ \<Rightarrow> False)
     \<and> (case jobs s 0 of None \<Rightarrow> False | Some j \<Rightarrow> gnome_vfs_job_complete j = Some True)"
  unfolding loaded_def by code_simp

theorem worker_runs_to_end_witness:
  "\<exists>s t. async_exec async_init loaded = Some s \<and> async_exec s [Notify 0, Notify 0, Finish 0, End 0] = Some t
     \<and> fault t = None \<and> jobs t 0 = None"
proof -
  obtain s nrs j where s: "async_exec async_init loaded = Some s" "fault s = None" "\<not> shutting_down s" "async_job_map s \<noteq> None"
      "length (workers s) = 1" "workers s ! 0 = Executing 0 nrs" "length nrs = 2" "\<forall>x\<in>set nrs. fst x = Oneway"
      "jobs s 0 = Some j" "gnome_vfs_job_complete j = Some True"
    using loaded_state by (auto simp: list_all_iff split: option.splits worker.splits)
  then show ?thesis
    using worker_runs_to_end [of s 0 0 nrs j True] by (auto simp: numeral_2_eq_2)
qed

end
