(* ===== verification/VFS_Async_Inv.thy ===== *)
theory VFS_Async_Inv
  imports VFS_Async_Laws
begin

text \<open>
  The invariant of the asynchronous machinery: jobs, workers, queued notifications and both
  tables agree, in every state a run reaches, as long as the identifiers have not wrapped
  around. With it: once a handle is cancelled, nothing of it reaches the application.
\<close>

section \<open>Invariants\<close>

fun pending :: "worker \<Rightarrow> (notify_kind \<times> GnomeVFSNotifyResult) list" where
  "pending (Executing a nrs) = nrs"
| "pending (Waiting a nrs) = nrs"
| "pending _ = []"

fun may_wait :: "worker \<Rightarrow> bool" where
  "may_wait (Executing a nrs) = (Sync \<in> fst ` set nrs)"
| "may_wait (Waiting a nrs) = True"
| "may_wait _ = False"

fun opens_file :: "GnomeVFSSpecificOp \<Rightarrow> bool" where
  "opens_file (OpenOp _ _) = True"
| "opens_file (CreateOp _ _ _ _) = True"
| "opens_file _ = False"

fun channel_result :: "GnomeVFSSpecificNotifyResult \<Rightarrow> bool" where
  "channel_result (OpenAsChannelOpResult _ _) = True"
| "channel_result (CreateAsChannelOpResult _ _) = True"
| "channel_result _ = False"

definition cb_lookup :: "async_state \<Rightarrow> guint \<Rightarrow> GnomeVFSNotifyResult option" where
  "cb_lookup s k = (case async_job_callback_map s of None \<Rightarrow> None | Some m \<Rightarrow> table_lookup m k)"

definition sync_ok :: "notify_kind \<times> GnomeVFSNotifyResult \<Rightarrow> bool" where
  "sync_ok x \<longleftrightarrow> (fst x = Sync \<longrightarrow> nr_type (snd x) = GNOME_VFS_OP_XFER \<or> channel_result (nr_specifics (snd x)))"

text \<open>What the execution of an operation guarantees about the job and its notifications.\<close>

definition exec_ok :: "GnomeVFSJob \<Rightarrow> exec_result \<Rightarrow> bool" where
  "exec_ok j r \<longleftrightarrow>
     (case r of (j', nrs) \<Rightarrow>
        job_handle j' = job_handle j \<and> cancelled j' = cancelled j \<and> op_callback (job_op j') = op_callback (job_op j)
      \<and> specifics (job_op j') = specifics (job_op j)
      \<and> (op_type (job_op j') = op_type (job_op j) \<or> \<not> is_open_op (op_type (job_op j')))
      \<and> (job_vfs_handle j' = job_vfs_handle j \<or> opens_file (specifics (job_op j)))
      \<and> (\<forall>x\<in>set nrs. sync_ok x \<and> nr_job_handle (snd x) = job_handle j \<and> nr_callback (snd x) = op_callback (job_op j)
           \<and> \<not> nr_cancelled (snd x) \<and> (fst x = Sync \<longrightarrow> \<not> opens_file (specifics (job_op j)))))"

lemma exec_ok_specifics:
  assumes "op_type (job_op j) = op_kind (specifics (job_op j))"
  shows "exec_ok j (execute_specifics calls j)"
  using assms
  by (cases "specifics (job_op j)")
     (auto simp: exec_ok_def execute_specifics_def execute_defs notify_for_def set_op_type_def Let_def sync_ok_def
        is_open_op_def split: option.splits prod.splits)

lemma exec_ok_idle: "exec_ok j (j, [])" "exec_ok j (set_op_type GNOME_VFS_OP_READ_WRITE_DONE j, [])"
  by (simp_all add: exec_ok_def set_op_type_def is_open_op_def)

lemma exec_ok_execute: "exec_ok j (gnome_vfs_job_execute calls j)"
  by (simp add: gnome_vfs_job_execute_def exec_ok_specifics exec_ok_idle)

lemma execute_cancelled: "cancelled j \<Longrightarrow> snd (gnome_vfs_job_execute calls j) = []"
  by (simp add: gnome_vfs_job_execute_def)

definition job_ok :: "async_state \<Rightarrow> GnomeVFSJob \<Rightarrow> bool" where
  "job_ok s j \<longleftrightarrow> unat (job_handle j) \<le> unat (async_job_map_next_id s)
     \<and> (is_open_op (op_type (job_op j)) \<and> job_vfs_handle j \<noteq> None \<longrightarrow> opens_file (specifics (job_op j)))"

definition jobs_ok :: "async_state \<Rightarrow> bool" where
  "jobs_ok s \<longleftrightarrow> (\<forall>a j. jobs s a = Some j \<longrightarrow> a < next_addr s \<and> job_ok s j)"

text \<open>A worker agrees with the job it works on.\<close>

definition serves :: "GnomeVFSJob \<Rightarrow> worker \<Rightarrow> bool" where
  "serves j w \<longleftrightarrow> (\<forall>x\<in>set (pending w). nr_job_handle (snd x) = job_handle j)
     \<and> (may_wait w \<longrightarrow> \<not> opens_file (specifics (job_op j)))"

definition worker_ok :: "async_state \<Rightarrow> worker \<Rightarrow> bool" where
  "worker_ok s w \<longleftrightarrow> worker_job w < next_addr s \<and> (\<forall>x\<in>set (pending w). sync_ok x \<and> \<not> nr_cancelled (snd x))
     \<and> (\<forall>j. jobs s (worker_job w) = Some j \<longrightarrow> serves j w)"

definition workers_ok :: "async_state \<Rightarrow> bool" where
  "workers_ok s \<longleftrightarrow> (\<forall>w\<in>set (workers s). worker_ok s w)"

definition same_note :: "GnomeVFSNotifyResult \<Rightarrow> GnomeVFSNotifyResult \<Rightarrow> bool" where
  "same_note nr nr' \<longleftrightarrow> nr_job_handle nr = nr_job_handle nr' \<and> nr_callback nr = nr_callback nr'"

definition idle_ok :: "async_state \<Rightarrow> bool" where
  "idle_ok s \<longleftrightarrow>
     (\<forall>x\<in>set (idle s). sync_ok x \<and> unat (nr_callback_id (snd x)) \<le> unat (async_job_callback_map_next_id s) \<and>
        (\<forall>nr. cb_lookup s (nr_callback_id (snd x)) = Some nr \<longrightarrow> same_note nr (snd x)))"

definition map_ok :: "async_state \<Rightarrow> bool" where
  "map_ok s \<longleftrightarrow>
     (\<forall>k a. gnome_vfs_async_job_map_get_job s k = Some a \<longrightarrow>
        a < next_addr s \<and> (\<forall>j. jobs s a = Some j \<longrightarrow> job_handle j = k))"

text \<open>The notification whose dispatch is under way.\<close>

fun stage_ok :: "dispatch_stage option \<Rightarrow> bool" where
  "stage_ok (Some (To_Callback kind nr c)) = sync_ok (kind, nr)"
| "stage_ok _ = True"

definition async_inv :: "async_state \<Rightarrow> bool" where
  "async_inv s \<longleftrightarrow> jobs_ok s \<and> workers_ok s \<and> idle_ok s \<and> map_ok s \<and> stage_ok (dispatching s)"

text \<open>Before the handle \<open>h\<close> is cancelled: its job is in the map, none of its callbacks is marked.\<close>

fun stage_tracked :: "guint \<Rightarrow> dispatch_stage option \<Rightarrow> bool" where
  "stage_tracked h (Some (To_Callback kind nr c)) = (nr_job_handle nr = h \<longrightarrow> \<not> c)"
| "stage_tracked h _ = True"

definition tracked :: "guint \<Rightarrow> async_state \<Rightarrow> bool" where
  "tracked h s \<longleftrightarrow>
     (\<forall>a j. jobs s a = Some j \<and> job_handle j = h \<longrightarrow> gnome_vfs_async_job_map_get_job s h = Some a)
     \<and> (\<forall>k nr. cb_lookup s k = Some nr \<and> nr_job_handle nr = h \<longrightarrow> \<not> nr_cancelled nr)
     \<and> stage_tracked h (dispatching s)"

text \<open>After it is cancelled: what is still to come for it is marked, or belongs to the silent close.\<close>

definition hushed :: "GnomeVFSJob \<Rightarrow> worker \<Rightarrow> bool" where
  "hushed j w \<longleftrightarrow> cancelled j \<or> (\<forall>x\<in>set (pending w). nr_callback (snd x) = Empty_Close_Callback)"

definition silent_for :: "guint \<Rightarrow> guint \<times> callback \<times> GnomeVFSSpecificNotifyResult \<Rightarrow> bool" where
  "silent_for h d \<longleftrightarrow> (case d of (k, cb, res) \<Rightarrow> k = h \<longrightarrow> cb = Empty_Close_Callback \<or> channel_result res)"

fun stage_quiet :: "guint \<Rightarrow> dispatch_stage option \<Rightarrow> bool" where
  "stage_quiet h (Some (To_Callback kind nr c)) =
     (\<not> c \<longrightarrow> silent_for h (nr_job_handle nr, nr_callback nr, nr_specifics nr))"
| "stage_quiet h _ = True"

definition quiet :: "guint \<Rightarrow> async_state \<Rightarrow> bool" where
  "quiet h s \<longleftrightarrow>
     (\<forall>k nr. cb_lookup s k = Some nr \<and> nr_job_handle nr = h \<longrightarrow> nr_cancelled nr \<or> nr_callback nr = Empty_Close_Callback)
     \<and> (\<forall>a j. jobs s a = Some j \<and> job_handle j = h \<longrightarrow> cancelled j \<or> op_callback (job_op j) = Empty_Close_Callback)
     \<and> (\<forall>w\<in>set (workers s). \<forall>j. jobs s (worker_job w) = Some j \<and> job_handle j = h \<longrightarrow> hushed j w)
     \<and> unat h \<le> unat (async_job_map_next_id s) \<and> stage_quiet h (dispatching s)"

section \<open>Steps that only take away\<close>

definition shrinks :: "async_state \<Rightarrow> async_state \<Rightarrow> bool" where
  "shrinks s t \<longleftrightarrow> next_addr t = next_addr s \<and> async_job_map_next_id t = async_job_map_next_id s
     \<and> async_job_callback_map_next_id t = async_job_callback_map_next_id s \<and> delivered t = delivered s
     \<and> (\<forall>a j. jobs t a = Some j \<longrightarrow> jobs s a = Some j)
     \<and> (\<forall>k a. gnome_vfs_async_job_map_get_job t k = Some a \<longrightarrow> gnome_vfs_async_job_map_get_job s k = Some a)
     \<and> (\<forall>k nr. cb_lookup t k = Some nr \<longrightarrow> cb_lookup s k = Some nr)
     \<and> set (workers t) \<subseteq> set (workers s) \<and> set (idle t) \<subseteq> set (idle s)
     \<and> (dispatching t = dispatching s \<or> dispatching t = None)"

lemma shrinksD:
  assumes "shrinks s t"
  shows "next_addr t = next_addr s" "async_job_map_next_id t = async_job_map_next_id s"
    "async_job_callback_map_next_id t = async_job_callback_map_next_id s" "delivered t = delivered s"
    "jobs t a = Some j \<Longrightarrow> jobs s a = Some j"
    "gnome_vfs_async_job_map_get_job t k = Some a \<Longrightarrow> gnome_vfs_async_job_map_get_job s k = Some a"
    "cb_lookup t k = Some nr \<Longrightarrow> cb_lookup s k = Some nr"
    "w \<in> set (workers t) \<Longrightarrow> w \<in> set (workers s)" "x \<in> set (idle t) \<Longrightarrow> x \<in> set (idle s)"
    "dispatching t = dispatching s \<or> dispatching t = None"
  using assms unfolding shrinks_def by auto

lemma async_inv_shrinks: "async_inv s \<Longrightarrow> shrinks s t \<Longrightarrow> async_inv t"
proof -
  assume i: "async_inv s" and sh: "shrinks s t"
  note d = shrinksD [OF sh]
  have "jobs_ok t" using i by (auto simp: async_inv_def jobs_ok_def job_ok_def d(1,2) dest!: d(5))
  moreover have "workers_ok t" using i by (auto simp: async_inv_def workers_ok_def worker_ok_def d(1) dest!: d(8) d(5))
  moreover have "idle_ok t" using i by (auto simp: async_inv_def idle_ok_def d(3) dest!: d(9) d(7))
  moreover have "map_ok t" using i by (auto simp: async_inv_def map_ok_def d(1) dest!: d(6) d(5))
  moreover have "stage_ok (dispatching t)" using i d(10) by (auto simp: async_inv_def)
  ultimately show ?thesis by (simp add: async_inv_def)
qed

lemma quiet_shrinks: "quiet h s \<Longrightarrow> shrinks s t \<Longrightarrow> quiet h t"
proof -
  assume q: "quiet h s" and sh: "shrinks s t"
  note d = shrinksD [OF sh]
  show ?thesis using q d(2,10) unfolding quiet_def by (auto dest!: d(5) d(7) d(8))
qed

lemma shrinks_refl [simp]: "shrinks s s"
  by (simp add: shrinks_def)

lemma shrinks_trans: "shrinks s t \<Longrightarrow> shrinks t u \<Longrightarrow> shrinks s u"
  unfolding shrinks_def by (elim conjE, intro conjI) auto

lemma cb_lookup_cong: "async_job_callback_map t = async_job_callback_map s \<Longrightarrow> cb_lookup t = cb_lookup s"
  by (rule ext) (simp add: cb_lookup_def)

lemma shrinks_fields:
  "shrinks s (set_fault f s)" "shrinks s (s\<lparr>pool := p\<rparr>)" "shrinks s (job_queue_close s)"
  "shrinks s (gnome_vfs_job_destroy a s)"
  by (simp_all add: shrinks_def gnome_vfs_async_job_map_get_job_def cb_lookup_def job_queue_close_def
        gnome_vfs_job_destroy_def)

lemma shrinks_idle: "set xs \<subseteq> set (idle s) \<Longrightarrow> shrinks s (s\<lparr>idle := xs\<rparr>)"
  by (simp add: shrinks_def gnome_vfs_async_job_map_get_job_def cb_lookup_def)

lemma shrinks_workers: "set ws \<subseteq> set (workers s) \<Longrightarrow> shrinks s (s\<lparr>workers := ws\<rparr>)"
  by (simp add: shrinks_def gnome_vfs_async_job_map_get_job_def cb_lookup_def)

lemma shrinks_completed: "shrinks s (gnome_vfs_async_job_completed h s)"
  by (auto simp: shrinks_def gnome_vfs_async_job_completed_def gnome_vfs_async_job_map_get_job_def cb_lookup_def
        Let_def tab.lookup_remove split: option.splits if_splits)

lemma shrinks_remove_job: "shrinks s (gnome_vfs_async_job_map_remove_job h s)"
  by (auto simp: shrinks_def gnome_vfs_async_job_map_remove_job_def gnome_vfs_async_job_map_get_job_def cb_lookup_def
        tab.lookup_remove split: option.splits if_splits)

lemma cb_lookup_remove_callback:
  "cb_lookup (gnome_vfs_async_job_remove_callback k s) k' = (if k' = k then None else cb_lookup s k')"
  by (auto simp: cb_lookup_def gnome_vfs_async_job_remove_callback_def tab.lookup_remove split: option.splits)

lemma shrinks_remove_callback: "shrinks s (gnome_vfs_async_job_remove_callback k s)"
  by (auto simp: shrinks_def gnome_vfs_async_job_map_get_job_def cb_lookup_remove_callback
        gnome_vfs_async_job_remove_callback_def cb_lookup_def tab.lookup_remove split: option.splits if_splits)

lemma shrinks_shutdown: "gnome_vfs_job_queue_shutdown_end s = Some t \<Longrightarrow> shrinks s t"
  by (auto simp: shrinks_def gnome_vfs_job_queue_shutdown_end_def gnome_vfs_async_job_map_shutdown_def
        async_job_callback_map_destroy_def gnome_vfs_async_job_map_get_job_def cb_lookup_def
        split: option.splits if_splits)

lemma shrinks_go: "shrinks s (gnome_vfs_job_go pushed a s)"
proof -
  have "shrinks s (gnome_vfs_job_destroy a (gnome_vfs_async_job_completed h (s\<lparr>pool := p\<rparr>)))" for h p
    by (rule shrinks_trans [OF shrinks_trans [OF shrinks_fields(2) shrinks_completed] shrinks_fields(4)])
  moreover have "shrinks s (gnome_vfs_job_destroy a (s\<lparr>pool := p\<rparr>))" for p
    by (rule shrinks_trans [OF shrinks_fields(2) shrinks_fields(4)])
  ultimately show ?thesis
    by (auto simp: gnome_vfs_job_go_def gnome_vfs_job_schedule_def Let_def shrinks_fields split: option.splits)
qed

lemma shrinks_end: "thread_end i s = Some t \<Longrightarrow> shrinks s t"
proof -
  have w: "shrinks s (s\<lparr>workers := remove_nth i (workers s)\<rparr>)" by (rule shrinks_workers) (rule set_remove_nth)
  note w1 = shrinks_trans [OF w shrinks_fields(1)] shrinks_trans [OF w shrinks_completed]
  note w2 = shrinks_trans [OF w1(2) shrinks_fields(4)]
  show "thread_end i s = Some t \<Longrightarrow> shrinks s t"
    by (auto simp: thread_end_def Let_def w w1 w2 split: if_splits worker.splits option.splits)
qed

section \<open>Steps that change a job or add one\<close>

text \<open>What a change of a job may do: the handle stays, and what workers rely on stays.\<close>

definition job_change_ok :: "async_state \<Rightarrow> nat \<Rightarrow> (GnomeVFSJob \<Rightarrow> GnomeVFSJob) \<Rightarrow> bool" where
  "job_change_ok s a f \<longleftrightarrow>
     (\<forall>j. jobs s a = Some j \<longrightarrow> job_handle (f j) = job_handle j \<and> (job_ok s j \<longrightarrow> job_ok s (f j))
        \<and> (opens_file (specifics (job_op (f j))) \<longrightarrow> opens_file (specifics (job_op j))))"

lemma serves_change:
  "serves j w \<Longrightarrow> job_handle j' = job_handle j \<Longrightarrow> opens_file (specifics (job_op j')) \<longrightarrow> opens_file (specifics (job_op j))
     \<Longrightarrow> serves j' w"
  by (auto simp: serves_def)

lemma async_inv_update:
  assumes "async_inv s" "job_change_ok s a f"
  shows "async_inv (update_job a f s)"
proof -
  let ?t = "update_job a f s"
  have g: "gnome_vfs_async_job_map_get_job ?t k = gnome_vfs_async_job_map_get_job s k" "cb_lookup ?t k = cb_lookup s k" for k
    by (simp_all add: gnome_vfs_async_job_map_get_job_def cb_lookup_def)
  have "jobs_ok ?t" using assms by (auto simp: async_inv_def jobs_ok_def job_ok_def job_change_ok_def)
  moreover have "worker_ok ?t w" if w: "w \<in> set (workers s)" for w
  proof -
    have ok: "worker_ok s w" using assms(1) w by (simp add: async_inv_def workers_ok_def)
    show ?thesis
    proof (cases "worker_job w = a")
      case True
      then have "serves j w \<Longrightarrow> jobs s a = Some j \<Longrightarrow> serves (f j) w" for j
        using assms(2) serves_change [of j w "f j"] by (simp add: job_change_ok_def)
      with True ok show ?thesis by (auto simp: worker_ok_def)
    qed (use ok in \<open>auto simp: worker_ok_def\<close>)
  qed
  then have "workers_ok ?t" by (simp add: workers_ok_def)
  moreover have "idle_ok ?t" using assms by (simp add: async_inv_def idle_ok_def g)
  moreover have "map_ok ?t" using assms by (auto simp: async_inv_def map_ok_def g job_change_ok_def)
  ultimately show ?thesis using assms(1) by (simp add: async_inv_def)
qed

lemma job_set_update:
  assumes "gnome_vfs_job_set a t cb spec s = Some s'"
  obtains f where "s' = update_job a f s" "\<And>j. job_handle (f j) = job_handle j" "\<And>j. \<not> cancelled (f j)"
    "\<And>j. op_type (job_op (f j)) = t" "\<And>j. op_callback (job_op (f j)) = cb" "\<And>j. specifics (job_op (f j)) = spec"
    "\<not> job_locked s a"
  using assms by (auto simp: gnome_vfs_job_set_def split: if_splits)

lemma async_inv_set:
  assumes "async_inv s" "gnome_vfs_job_set a t cb spec s = Some s'" "\<not> opens_file spec" "\<not> is_open_op t"
  shows "async_inv s'"
  using assms(2)
proof (rule job_set_update)
  fix f assume "s' = update_job a f s" "\<And>j. job_handle (f j) = job_handle j" "\<And>j. op_type (job_op (f j)) = t"
    "\<And>j. specifics (job_op (f j)) = spec"
  then show "async_inv s'"
    using assms async_inv_update [of s a f] by (auto simp: job_change_ok_def job_ok_def)
qed

text \<open>The new job: in the map under the next handle, or, with a failed assertion, in no map and with no handle.\<close>

lemma job_new_cases:
  assumes "gnome_vfs_job_new t prio cb spec s = (a, s1)"
  obtains j where "jobs s1 = (jobs s)(a \<mapsto> j)" "job_vfs_handle j = None" "a = next_addr s" "next_addr s1 = Suc a"
    "workers s1 = workers s" "idle s1 = idle s" "cb_lookup s1 = cb_lookup s" "delivered s1 = delivered s"
    "dispatching s1 = dispatching s" "async_job_callback_map_next_id s1 = async_job_callback_map_next_id s"
    "if shutting_down s
     then job_handle j = 0 \<and> async_job_map_next_id s1 = async_job_map_next_id s \<and> fault s1 \<noteq> None
        \<and> gnome_vfs_async_job_map_get_job s1 = gnome_vfs_async_job_map_get_job s
     else job_handle j = async_job_map_next_id s + 1 \<and> async_job_map_next_id s1 = async_job_map_next_id s + 1
        \<and> fault s1 = fault s \<and> gnome_vfs_async_job_map_get_job s1 = (gnome_vfs_async_job_map_get_job s)(job_handle j \<mapsto> a)"
proof -
  note unfold = gnome_vfs_job_new_def gnome_vfs_async_job_map_add_job_def Let_def
  show thesis
  proof (rule that [of "the (jobs s1 a)"])
  show "if shutting_down s
     then job_handle (the (jobs s1 a)) = 0 \<and> async_job_map_next_id s1 = async_job_map_next_id s \<and> fault s1 \<noteq> None
        \<and> gnome_vfs_async_job_map_get_job s1 = gnome_vfs_async_job_map_get_job s
     else job_handle (the (jobs s1 a)) = async_job_map_next_id s + 1 \<and> async_job_map_next_id s1 = async_job_map_next_id s + 1
        \<and> fault s1 = fault s
        \<and> gnome_vfs_async_job_map_get_job s1 = (gnome_vfs_async_job_map_get_job s)(job_handle (the (jobs s1 a)) \<mapsto> a)"
    using assms
    by (cases "async_job_map s")
       (auto simp: gnome_vfs_job_new_def gnome_vfs_async_job_map_add_job_def Let_def gnome_vfs_async_job_map_get_job_def
          tab.lookup_insert fun_eq_iff)
next
  show "cb_lookup s1 = cb_lookup s" using assms by (intro cb_lookup_cong) (auto simp: unfold)
next
  show "jobs s1 = (jobs s)(a \<mapsto> the (jobs s1 a))" using assms by (auto simp: unfold)
qed (use assms in \<open>auto simp: unfold\<close>)
qed

lemma async_inv_new:
  assumes i: "async_inv s" and new: "gnome_vfs_job_new t prio cb spec s = (a, s1)"
    and n: "unat (async_job_map_next_id s) + 1 < 2 ^ 32"
  shows "async_inv s1"
  using new
proof (rule job_new_cases)
  fix j assume j: "jobs s1 = (jobs s)(a \<mapsto> j)" "job_vfs_handle j = None" and a: "a = next_addr s" "next_addr s1 = Suc a"
    and f: "workers s1 = workers s" "idle s1 = idle s" "cb_lookup s1 = cb_lookup s" "dispatching s1 = dispatching s"
      "async_job_callback_map_next_id s1 = async_job_callback_map_next_id s"
    and c: "if shutting_down s
       then job_handle j = 0 \<and> async_job_map_next_id s1 = async_job_map_next_id s \<and> fault s1 \<noteq> None
          \<and> gnome_vfs_async_job_map_get_job s1 = gnome_vfs_async_job_map_get_job s
       else job_handle j = async_job_map_next_id s + 1 \<and> async_job_map_next_id s1 = async_job_map_next_id s + 1
          \<and> fault s1 = fault s \<and> gnome_vfs_async_job_map_get_job s1 = (gnome_vfs_async_job_map_get_job s)(job_handle j \<mapsto> a)"
  have nx: "unat (async_job_map_next_id s + 1) = unat (async_job_map_next_id s) + 1"
    using n by (simp add: unat_add_lem [THEN iffD1])
  have "unat (async_job_map_next_id s) \<le> unat (async_job_map_next_id s1)" "job_ok s1 j"
    using c nx j(2) by (auto simp: job_ok_def split: if_splits)
  then have "jobs_ok s1"
    using i by (fastforce simp: async_inv_def jobs_ok_def job_ok_def j(1) a)
  moreover have "workers_ok s1"
    using i by (auto simp: async_inv_def workers_ok_def worker_ok_def f j a)
  moreover have "idle_ok s1" using i by (simp add: async_inv_def idle_ok_def f)
  moreover have "map_ok s1"
    using i c by (auto simp: async_inv_def map_ok_def j a less_SucI split: if_splits)
  ultimately show "async_inv s1" using i f(4) by (simp add: async_inv_def)
qed

section \<open>Steps of the workers\<close>

lemma async_inv_workers:
  assumes "async_inv s" "\<And>w. w \<in> set ws \<Longrightarrow> worker_ok s w"
  shows "async_inv (s\<lparr>workers := ws\<rparr>)"
proof -
  let ?t = "s\<lparr>workers := ws\<rparr>"
  have g: "gnome_vfs_async_job_map_get_job ?t k = gnome_vfs_async_job_map_get_job s k" "cb_lookup ?t k = cb_lookup s k" for k
    by (simp_all add: gnome_vfs_async_job_map_get_job_def cb_lookup_def)
  show ?thesis
    using assms
    by (simp add: async_inv_def jobs_ok_def job_ok_def workers_ok_def worker_ok_def idle_ok_def map_ok_def g)
qed

lemma worker_okI:
  "async_inv s \<Longrightarrow> w \<in> set (workers s) \<Longrightarrow> worker_ok s w"
  by (simp add: async_inv_def workers_ok_def)

lemma worker_ok_mono:
  assumes "worker_ok s w" "worker_job w' = worker_job w" "set (pending w') \<subseteq> set (pending w)" "may_wait w' \<longrightarrow> may_wait w"
  shows "worker_ok s w'"
  using assms by (auto simp: worker_ok_def serves_def)

lemma async_inv_replace:
  assumes "async_inv s" "i < length (workers s)" "worker_ok s w'"
  shows "async_inv (s\<lparr>workers := (workers s)[i := w']\<rparr>)"
  using assms(1)
proof (rule async_inv_workers)
  fix w assume "w \<in> set ((workers s)[i := w'])"
  then have "w = w' \<or> w \<in> set (workers s)" using set_update_subset_insert by fastforce
  then show "worker_ok s w" using assms worker_okI by auto
qed

lemma async_inv_begin:
  assumes "async_inv s" "thread_begin p s = Some t"
  shows "async_inv t"
proof -
  let ?s = "s\<lparr>pool := remove_nth p (pool s)\<rparr>"
  have s: "async_inv ?s" using assms(1) shrinks_fields(2) by (rule async_inv_shrinks)
  then have "async_inv (set_fault Use_After_Free ?s)" using shrinks_fields(1) by (rule async_inv_shrinks)
  moreover have "jobs s a = Some j \<Longrightarrow> async_inv (?s\<lparr>workers := workers s @ [Started a]\<rparr>)" for a j
  proof (rule async_inv_workers [OF s])
    fix w assume j: "jobs s a = Some j" and w: "w \<in> set (workers s @ [Started a])"
    have "a < next_addr s" using assms(1) j by (auto simp: async_inv_def jobs_ok_def)
    then have "worker_ok ?s (Started a)" by (simp add: worker_ok_def serves_def)
    moreover have "w \<in> set (workers s) \<Longrightarrow> worker_ok ?s w" using worker_okI [OF s] by simp
    ultimately show "worker_ok ?s w" using w by auto
  qed
  ultimately show ?thesis
    using assms(2) s by (auto simp: thread_begin_def Let_def split: if_splits option.splits)
qed

lemma async_inv_execute_step:
  assumes "async_inv s" "i < length (workers s)" "workers s ! i = Started a" "jobs s a = Some j"
    "gnome_vfs_job_execute calls j = (j', nrs)"
  shows "async_inv (s\<lparr>jobs := (jobs s)(a \<mapsto> j'), workers := (workers s)[i := Executing a nrs]\<rparr>)"
proof -
  let ?u = "update_job a (\<lambda>_. j') s"
  have ok: "exec_ok j (j', nrs)" using exec_ok_execute [of j calls] assms(5) by simp
  have "job_change_ok s a (\<lambda>_. j')" using ok assms(4) by (auto simp: job_change_ok_def exec_ok_def job_ok_def)
  then have u: "async_inv ?u" by (rule async_inv_update [OF assms(1)])
  have "a < next_addr s" using assms(1,4) by (auto simp: async_inv_def jobs_ok_def)
  then have "worker_ok ?u (Executing a nrs)"
    using ok assms(4) by (auto simp: worker_ok_def serves_def exec_ok_def)
  with u assms(2) have "async_inv (?u\<lparr>workers := (workers ?u)[i := Executing a nrs]\<rparr>)"
    by (intro async_inv_replace) simp_all
  then show ?thesis using assms(4) by (simp add: update_job_def)
qed

lemma async_inv_execute: "async_inv s \<Longrightarrow> thread_execute i calls s = Some t \<Longrightarrow> async_inv t"
  by (auto simp: thread_execute_def Let_def intro: async_inv_execute_step async_inv_shrinks [OF _ shrinks_fields(1)]
        split: if_splits option.splits worker.splits prod.splits)

lemma async_inv_finish: "async_inv s \<Longrightarrow> thread_finish i s = Some t \<Longrightarrow> async_inv t"
proof -
  have "async_inv s \<Longrightarrow> i < length (workers s) \<Longrightarrow> workers s ! i = Executing a [] \<Longrightarrow>
      async_inv (s\<lparr>workers := (workers s)[i := Finished a c]\<rparr>)" for a c
    using worker_okI [of s "workers s ! i"] nth_mem [of i "workers s"]
    by (intro async_inv_replace) (auto intro: worker_ok_mono [of s "Executing a []"])
  then show "async_inv s \<Longrightarrow> thread_finish i s = Some t \<Longrightarrow> async_inv t"
    by (auto simp: thread_finish_def Let_def intro: async_inv_shrinks [OF _ shrinks_fields(1)]
          split: if_splits option.splits worker.splits prod.splits list.splits)
qed

text \<open>Adding a notification.\<close>

lemma add_callback_shape:
  assumes "gnome_vfs_async_job_add_callback c nr s = Some (nr', s1)"
  shows "nr' = nr\<lparr>nr_callback_id := async_job_callback_map_next_id s + 1\<rparr>"
    "async_job_callback_map_next_id s1 = async_job_callback_map_next_id s + 1"
    "cb_lookup s1 k = (if \<not> c \<and> k = async_job_callback_map_next_id s + 1 then Some nr' else cb_lookup s k)"
    "jobs s1 = jobs s" "next_addr s1 = next_addr s" "workers s1 = workers s" "idle s1 = idle s"
    "async_job_map_next_id s1 = async_job_map_next_id s" "delivered s1 = delivered s" "async_job_map s1 = async_job_map s"
    "dispatching s1 = dispatching s"
  using assms by (auto simp: gnome_vfs_async_job_add_callback_def Let_def cb_lookup_def tab.lookup_insert
                    split: if_splits option.splits)

lemma async_inv_add_callback:
  assumes "async_inv s" "gnome_vfs_async_job_add_callback c nr s = Some (nr', s1)" "sync_ok (kind, nr)"
    "unat (async_job_callback_map_next_id s) + 1 < 2 ^ 32"
    "set xs \<subseteq> (if c then set (idle s) else insert (kind, nr') (set (idle s)))"
  shows "async_inv (s1\<lparr>idle := xs\<rparr>)"
proof -
  note sh = add_callback_shape [OF assms(2)]
  let ?n = "async_job_callback_map_next_id s"
  let ?t = "s1\<lparr>idle := xs\<rparr>"
  have nx: "unat (?n + 1) = unat ?n + 1" using assms(4) by (simp add: unat_add_lem [THEN iffD1])
  have g: "gnome_vfs_async_job_map_get_job ?t k = gnome_vfs_async_job_map_get_job s k" for k
    by (rule get_job_cong) (simp add: sh(10))
  have cb: "cb_lookup ?t k = cb_lookup s1 k" for k by (simp add: cb_lookup_def)
  have fresh: "x \<in> set (idle s) \<Longrightarrow> nr_callback_id (snd x) \<noteq> ?n + 1" for x
    using assms(1) nx by (fastforce simp: async_inv_def idle_ok_def)
  have old: "x \<in> set (idle s) \<Longrightarrow> sync_ok x \<and> unat (nr_callback_id (snd x)) \<le> unat (?n + 1)
      \<and> (\<forall>m. cb_lookup s1 (nr_callback_id (snd x)) = Some m \<longrightarrow> same_note m (snd x))" for x
    using assms(1) fresh [of x] nx by (auto simp: async_inv_def idle_ok_def sh(3))
  have new: "sync_ok (kind, nr') \<and> unat (nr_callback_id nr') \<le> unat (?n + 1)
      \<and> (\<forall>m. cb_lookup s1 (nr_callback_id nr') = Some m \<longrightarrow> same_note m nr')" if "\<not> c"
    using assms(3) that by (simp add: sh(1,3) sync_ok_def same_note_def)
  have "x \<in> set xs \<Longrightarrow> x \<in> set (idle s) \<or> (\<not> c \<and> x = (kind, nr'))" for x
    using assms(5) by (auto split: if_splits)
  then have "idle_ok ?t" unfolding idle_ok_def cb using old new sh(2) by fastforce
  moreover have "jobs_ok ?t" "workers_ok ?t" "map_ok ?t"
    using assms(1) by (simp_all add: async_inv_def jobs_ok_def job_ok_def workers_ok_def worker_ok_def map_ok_def sh(4-8) g)
  ultimately show ?thesis using assms(1) sh(11) by (simp add: async_inv_def)
qed

lemma thread_notifyE:
  assumes t: "thread_notify i s = Some t"
  obtains (fault) f where "t = set_fault f s"
    | (go) a kind nr rest j nr' s1 where "i < length (workers s)" "workers s ! i = Executing a ((kind, nr) # rest)"
        "gnome_vfs_async_job_add_callback (cancelled j) nr s = Some (nr', s1)"
        "t = s1\<lparr>idle := (if cancelled j then idle s else idle s @ [(kind, nr')]),
               workers := (workers s)[i := (if cancelled j \<or> kind = Oneway then Executing a rest else Waiting a rest)]\<rparr>"
        "jobs s a = Some j"
proof -
  from t obtain a kind nr rest where w: "i < length (workers s)" "workers s ! i = Executing a ((kind, nr) # rest)"
    by (auto simp: thread_notify_def split: if_splits worker.splits list.splits prod.splits)
  show thesis
  proof (cases "jobs s a")
    case None
    then show thesis using t w by (intro fault [of Use_After_Free]) (simp add: thread_notify_def)
  next
    case j: (Some j)
    show thesis
    proof (cases "gnome_vfs_async_job_add_callback (cancelled j) nr s")
      case None
      then show thesis using t w j by (intro fault [of Failed_Assertion]) (simp add: thread_notify_def)
    next
      case (Some p)
      then obtain nr' s1 where p: "gnome_vfs_async_job_add_callback (cancelled j) nr s = Some (nr', s1)" by (cases p) auto
      have "s1\<lparr>idle := idle s\<rparr> = s1" using add_callback_shape(7) [OF p] by (metis (no_types) async_state.surjective async_state.update_convs(10))
      then have "t = s1\<lparr>idle := (if cancelled j then idle s else idle s @ [(kind, nr')]),
               workers := (workers s)[i := (if cancelled j \<or> kind = Oneway then Executing a rest else Waiting a rest)]\<rparr>"
        using t w j p by (cases kind) (auto simp: thread_notify_def)
      then show thesis using go w p j by blast
    qed
  qed
qed

lemma async_inv_notify:
  assumes i: "async_inv s" and t: "thread_notify i s = Some t" and n: "unat (async_job_callback_map_next_id s) + 1 < 2 ^ 32"
  shows "async_inv t"
  using t
proof (cases rule: thread_notifyE)
  case fault
  then show ?thesis using i shrinks_fields(1) async_inv_shrinks by blast
next
  case (go a kind nr rest j nr' s1)
  have w: "worker_ok s (Executing a ((kind, nr) # rest))" using worker_okI [OF i nth_mem [OF go(1)]] go(2) by simp
  then have k: "sync_ok (kind, nr)" by (simp add: worker_ok_def)
  let ?u = "s1\<lparr>idle := (if cancelled j then idle s else idle s @ [(kind, nr')])\<rparr>"
  have u: "async_inv ?u" by (rule async_inv_add_callback [OF i go(3) k n]) auto
  let ?w = "if cancelled j \<or> kind = Oneway then Executing a rest else Waiting a rest"
  have "worker_ok s ?w" by (rule worker_ok_mono [OF w]) (cases kind; auto)+
  moreover have "worker_ok ?u v = worker_ok s v" for v by (simp add: worker_ok_def add_callback_shape(4,5) [OF go(3)])
  ultimately have "worker_ok ?u ?w" by blast
  then have "async_inv (?u\<lparr>workers := (workers ?u)[i := ?w]\<rparr>)"
    using u go(1) by (intro async_inv_replace) (simp_all add: add_callback_shape(6) [OF go(3)])
  then show ?thesis by (simp add: go(4) add_callback_shape(6) [OF go(3)])
qed

section \<open>Steps of the main thread\<close>

lemma async_inv_set_go:
  assumes "async_inv s" "gnome_vfs_job_set a t cb spec s = Some s'" "\<not> opens_file spec" "\<not> is_open_op t"
  shows "async_inv (gnome_vfs_job_go pushed a s')"
  using async_inv_set [OF assms] shrinks_go by (rule async_inv_shrinks)

lemma async_inv_deliver [simp]: "async_inv (deliver nr s) = async_inv s"
  by (simp add: async_inv_def jobs_ok_def job_ok_def workers_ok_def worker_ok_def idle_ok_def map_ok_def deliver_def
        gnome_vfs_async_job_map_get_job_def cb_lookup_def)

lemma async_inv_wake:
  assumes "async_inv s" "ws = workers s"
  shows "async_inv (s\<lparr>workers := map (wake_worker a) ws\<rparr>)"
  using assms(1)
proof (rule async_inv_workers)
  fix w assume "w \<in> set (map (wake_worker a) ws)"
  then obtain v where v: "v \<in> set (workers s)" "w = wake_worker a v" using assms(2) by auto
  have "worker_ok s (wake_worker a v)"
    by (rule worker_ok_mono [OF worker_okI [OF assms(1) v(1)]]) (cases v; auto)+
  then show "worker_ok s w" using v(2) by simp
qed

lemma async_inv_dispatch_cancelled: "async_inv s \<Longrightarrow> dispatch_cancelled pushed h s = Some t \<Longrightarrow> async_inv t"
  by (auto simp: dispatch_cancelled_def handle_cancelled_open_def is_open_op_def split: option.splits if_splits
        intro: async_inv_set_go async_inv_shrinks [OF _ shrinks_fields(1)] async_inv_shrinks [OF _ shrinks_remove_job])

text \<open>The notification is taken out of the queue and out of the map of callbacks.\<close>

lemma shrinks_dispatch:
  "idle s = x # rest \<Longrightarrow> shrinks s (gnome_vfs_async_job_remove_callback k (s\<lparr>idle := rest\<rparr>))"
  by (rule shrinks_trans [OF shrinks_idle shrinks_remove_callback]) auto

lemma async_inv_stage: "async_inv s \<Longrightarrow> stage_ok d \<Longrightarrow> async_inv (s\<lparr>dispatching := d\<rparr>)"
  by (simp add: async_inv_def jobs_ok_def job_ok_def workers_ok_def worker_ok_def idle_ok_def map_ok_def
        gnome_vfs_async_job_map_get_job_def cb_lookup_def)

text \<open>A dispatch that starts: the notification leaves the queue and the map, and its stage is noted.\<close>

lemma main_loop_dispatch_cases:
  assumes "main_loop_dispatch s = Some t"
  obtains (starts) kind nr rest c where "idle s = (kind, nr) # rest" "dispatching s = None"
      "gnome_vfs_async_job_callback_valid (s\<lparr>idle := rest\<rparr>) (nr_callback_id nr) = (True, c)"
      "t = (gnome_vfs_async_job_remove_callback (nr_callback_id nr) (s\<lparr>idle := rest\<rparr>))
             \<lparr>dispatching := Some (To_Callback kind nr c)\<rparr>"
  | (drops) kind nr rest where "idle s = (kind, nr) # rest"
      "t = gnome_vfs_async_job_remove_callback (nr_callback_id nr) (s\<lparr>idle := rest\<rparr>)
       \<or> t = set_fault Failed_Assertion (gnome_vfs_async_job_remove_callback (nr_callback_id nr) (s\<lparr>idle := rest\<rparr>))"
proof -
  obtain kind nr rest where x: "idle s = (kind, nr) # rest" "dispatching s = None"
    using assms by (auto simp: main_loop_dispatch_def split: list.splits if_splits)
  obtain v c where v: "gnome_vfs_async_job_callback_valid (s\<lparr>idle := rest\<rparr>) (nr_callback_id nr) = (v, c)" by fastforce
  from assms x v starts [OF x] drops [OF x(1)] show thesis
    by (cases v) (auto simp: main_loop_dispatch_def dispatch_job_callback_def dispatch_sync_job_callback_def Let_def
         split: notify_kind.splits if_splits)
qed

lemma async_inv_dispatch:
  assumes i: "async_inv s"
  shows "main_loop_dispatch s = Some t \<Longrightarrow> async_inv t" "dispatch_callback pushed s = Some t \<Longrightarrow> async_inv t"
    "dispatch_acknowledge s = Some t \<Longrightarrow> async_inv t"
proof -
  have removed: "async_inv (gnome_vfs_async_job_remove_callback k (s\<lparr>idle := rest\<rparr>))" if "idle s = x # rest" for k x rest
    using i shrinks_dispatch [OF that] by (rule async_inv_shrinks)
  show "async_inv t" if "main_loop_dispatch s = Some t"
    using that
  proof (cases rule: main_loop_dispatch_cases)
    case (starts kind nr rest c)
    have "sync_ok (kind, nr)" using i starts(1) by (simp add: async_inv_def idle_ok_def)
    then show ?thesis using removed [OF starts(1)] starts(4) by (simp add: async_inv_stage)
  next
    case (drops kind nr rest)
    then show ?thesis using removed [OF drops(1)] by (auto intro: async_inv_shrinks [OF _ shrinks_fields(1)])
  qed
  have stop: "async_inv (s\<lparr>dispatching := None\<rparr>)" using i by (simp add: async_inv_stage)
  show "async_inv t" if "dispatch_callback pushed s = Some t"
    using that stop i
    by (auto simp: dispatch_callback_def Let_def split: option.splits dispatch_stage.splits notify_kind.splits if_splits
         intro: async_inv_dispatch_cancelled intro!: async_inv_stage)
  show "async_inv t" if "dispatch_acknowledge s = Some t"
    using that stop
    by (auto simp: dispatch_acknowledge_def Let_def split: option.splits dispatch_stage.splits if_splits
         intro: async_inv_wake async_inv_shrinks [OF _ shrinks_fields(1)])
qed

lemma cb_lookup_cancel:
  "cb_lookup (gnome_vfs_async_job_cancel_job_and_callbacks h ja s) k = map_option (callback_map_cancel_one h) (cb_lookup s k)"
  by (auto simp: gnome_vfs_async_job_cancel_job_and_callbacks_def Let_def cb_lookup_def tab.lookup_foreach split: option.splits)

lemma same_note_cancel [simp]: "same_note (callback_map_cancel_one h nr) nr' = same_note nr nr'"
  by (simp add: same_note_def callback_map_cancel_one_def)

lemma async_inv_mark:
  assumes "async_inv s" "async_job_callback_map s = Some m"
  shows "async_inv (s\<lparr>async_job_callback_map := Some (table_foreach (callback_map_cancel_one h) m)\<rparr>)"
proof -
  let ?t = "s\<lparr>async_job_callback_map := Some (table_foreach (callback_map_cancel_one h) m)\<rparr>"
  have g: "gnome_vfs_async_job_map_get_job ?t k = gnome_vfs_async_job_map_get_job s k" for k
    by (simp add: gnome_vfs_async_job_map_get_job_def)
  have cb: "cb_lookup ?t k = map_option (callback_map_cancel_one h) (cb_lookup s k)" for k
    using assms(2) by (simp add: cb_lookup_def tab.lookup_foreach)
  have "idle_ok ?t" using assms(1) by (auto simp: async_inv_def idle_ok_def cb)
  then show ?thesis
    using assms(1) by (simp add: async_inv_def jobs_ok_def job_ok_def workers_ok_def worker_ok_def map_ok_def g)
qed

lemma async_inv_flag:
  assumes "async_inv s"
  shows "async_inv (update_job a (\<lambda>j. j\<lparr>cancelled := True\<rparr>) s)" "async_inv (gnome_vfs_job_module_cancel a s)"
  unfolding gnome_vfs_job_module_cancel_def
  by (rule async_inv_update [OF assms]; simp add: job_change_ok_def job_ok_def)+

lemma async_inv_cancel: "async_inv s \<Longrightarrow> async_inv (gnome_vfs_async_cancel h s)"
proof -
  have *: "async_inv s \<Longrightarrow> async_inv (gnome_vfs_async_job_cancel_job_and_callbacks h ja s)" for s ja
    by (auto simp: gnome_vfs_async_job_cancel_job_and_callbacks_def Let_def split: option.splits
          intro: async_inv_mark async_inv_flag)
  show "async_inv s \<Longrightarrow> async_inv (gnome_vfs_async_cancel h s)"
    by (auto simp: gnome_vfs_async_cancel_def split: option.splits
          intro: * async_inv_flag async_inv_shrinks [OF _ shrinks_fields(1)])
qed

lemma async_inv_start:
  assumes "async_inv s" "unat (async_job_map_next_id s) + 1 < 2 ^ 32"
  shows "async_inv (async_start spec prio cb pushed s)"
proof -
  obtain a s1 where new: "gnome_vfs_job_new (op_kind spec) prio (App_Callback cb) spec s = (a, s1)" by fastforce
  have "async_inv s1" by (rule async_inv_new [OF assms(1) new assms(2)])
  then show ?thesis using assms(1) new by (auto simp: async_start_def intro: async_inv_shrinks [OF _ shrinks_go])
qed

lemma on_handle_op_no_open: "on_handle_op spec \<Longrightarrow> \<not> opens_file spec \<and> \<not> is_open_op (op_kind spec)"
  by (cases spec) (auto simp: on_handle_op_def is_open_op_def)

lemma async_inv_calls:
  assumes "async_inv s"
  shows "on_handle_op spec \<Longrightarrow> async_on_handle h spec cb pushed s = Some t \<Longrightarrow> async_inv t"
    "gnome_vfs_async_close h cb pushed s = Some t \<Longrightarrow> async_inv t"
  using assms on_handle_op_no_open [of spec]
  by (auto simp: async_on_handle_def gnome_vfs_async_close_def is_open_op_def split: option.splits if_splits
        intro: async_inv_set_go async_inv_shrinks [OF _ shrinks_fields(1)])

definition room :: "async_state \<Rightarrow> nat \<Rightarrow> bool" where
  "room s n \<longleftrightarrow> unat (async_job_map_next_id s) + n < 2 ^ 32 \<and> unat (async_job_callback_map_next_id s) + n < 2 ^ 32"

lemma async_inv_step:
  assumes "async_effect e s = Some t" "async_inv s" "room s 1"
  shows "async_inv t"
proof (cases e)
  case (Start spec prio cb pushed)
  then show ?thesis using assms by (auto simp: room_def split: if_splits intro: async_inv_start)
next
  case (Notify i)
  then show ?thesis using assms async_inv_notify [of s i t] by (simp add: room_def)
next
  case (On_Handle h spec cb pushed)
  then show ?thesis using assms async_inv_calls(1) [of s spec h cb pushed t] by (simp split: if_splits)
next
  case (End i)
  then show ?thesis using assms async_inv_shrinks [OF _ shrinks_end] by simp
next
  case Shutdown_End
  then show ?thesis using assms async_inv_shrinks [OF _ shrinks_shutdown] by simp
next
  case Quit
  then show ?thesis using assms async_inv_shrinks [OF _ shrinks_fields(3)] by auto
next
  case (Close h cb pushed)
  then show ?thesis using assms async_inv_calls(2) [of s h cb pushed t] by simp
next
  case (Cancel h)
  then show ?thesis using assms async_inv_cancel [of s h] by auto
next
  case (Begin p)
  then show ?thesis using assms async_inv_begin [of s p t] by simp
next
  case (Execute i calls)
  then show ?thesis using assms async_inv_execute [of s i calls t] by simp
next
  case (Finish i)
  then show ?thesis using assms async_inv_finish [of s i t] by simp
next
  case Dispatch
  then show ?thesis using assms async_inv_dispatch(1) [of s t] by simp
next
  case (Callback pushed)
  then show ?thesis using assms async_inv_dispatch(2) [of s pushed t] by simp
next
  case Acknowledge
  then show ?thesis using assms async_inv_dispatch(3) [of s t] by simp
qed

section \<open>After the cancellation\<close>

definition quiet_change :: "guint \<Rightarrow> async_state \<Rightarrow> nat \<Rightarrow> GnomeVFSJob \<Rightarrow> GnomeVFSJob \<Rightarrow> bool" where
  "quiet_change h s a j j' \<longleftrightarrow> job_handle j' = job_handle j \<and>
     (job_handle j = h \<longrightarrow>
        cancelled j' \<or> (cancelled j' = cancelled j \<and> op_callback (job_op j') = op_callback (job_op j))
        \<or> (op_callback (job_op j') = Empty_Close_Callback \<and> (\<forall>w\<in>set (workers s). worker_job w = a \<longrightarrow> pending w = [])))"

lemma quietI:
  assumes "\<And>k nr. cb_lookup s k = Some nr \<Longrightarrow> nr_job_handle nr = h \<Longrightarrow> nr_cancelled nr \<or> nr_callback nr = Empty_Close_Callback"
    "\<And>a j. jobs s a = Some j \<Longrightarrow> job_handle j = h \<Longrightarrow> cancelled j \<or> op_callback (job_op j) = Empty_Close_Callback"
    "\<And>w j. w \<in> set (workers s) \<Longrightarrow> jobs s (worker_job w) = Some j \<Longrightarrow> job_handle j = h \<Longrightarrow> hushed j w"
    "unat h \<le> unat (async_job_map_next_id s)" "stage_quiet h (dispatching s)"
  shows "quiet h s"
  unfolding quiet_def using assms by blast

lemma quietD:
  assumes "quiet h s"
  shows "cb_lookup s k = Some nr \<Longrightarrow> nr_job_handle nr = h \<Longrightarrow> nr_cancelled nr \<or> nr_callback nr = Empty_Close_Callback"
    "jobs s a = Some j \<Longrightarrow> job_handle j = h \<Longrightarrow> cancelled j \<or> op_callback (job_op j) = Empty_Close_Callback"
    "w \<in> set (workers s) \<Longrightarrow> jobs s (worker_job w) = Some j \<Longrightarrow> job_handle j = h \<Longrightarrow> hushed j w"
    "unat h \<le> unat (async_job_map_next_id s)" "stage_quiet h (dispatching s)"
  using assms unfolding quiet_def by blast+

lemma quiet_update:
  assumes q: "quiet h s" and f: "\<And>j. jobs s a = Some j \<Longrightarrow> quiet_change h s a j (f j)"
  shows "quiet h (update_job a f s)"
proof -
  let ?t = "update_job a f s"
  have cb: "cb_lookup ?t = cb_lookup s" by (rule cb_lookup_cong) simp
  have "cancelled j \<or> op_callback (job_op j) = Empty_Close_Callback" if b: "jobs ?t b = Some j" "job_handle j = h" for b j
  proof (cases "b = a")
    case True
    then obtain j0 where j0: "jobs s a = Some j0" "j = f j0" using b by auto
    then have "quiet_change h s a j0 j" "job_handle j0 = h" using f b by (auto simp: quiet_change_def)
    moreover from this j0 have "cancelled j0 \<or> op_callback (job_op j0) = Empty_Close_Callback" using q by (auto simp: quiet_def)
    ultimately show ?thesis by (auto simp: quiet_change_def)
  qed (use q b in \<open>auto simp: quiet_def\<close>)
  moreover have "hushed j w" if w: "w \<in> set (workers s)" "jobs ?t (worker_job w) = Some j" "job_handle j = h" for w j
  proof (cases "worker_job w = a")
    case True
    then obtain j0 where j0: "jobs s a = Some j0" "j = f j0" using w by auto
    then have "quiet_change h s a j0 j" "job_handle j0 = h" using f w by (auto simp: quiet_change_def)
    moreover from this j0 have "hushed j0 w" using q w(1) True by (auto simp: quiet_def)
    ultimately show ?thesis using w True by (auto simp: quiet_change_def hushed_def)
  qed (use q w in \<open>auto simp: quiet_def\<close>)
  ultimately show ?thesis by (intro quietI) (simp_all add: cb quietD [OF q])
qed

lemma quiet_workers:
  assumes "quiet h s" "\<And>w j. w \<in> set ws \<Longrightarrow> jobs s (worker_job w) = Some j \<Longrightarrow> job_handle j = h \<Longrightarrow> hushed j w"
  shows "quiet h (s\<lparr>workers := ws\<rparr>)"
proof -
  have "cb_lookup (s\<lparr>workers := ws\<rparr>) = cb_lookup s" by (rule cb_lookup_cong) simp
  then show ?thesis using assms by (auto simp: quiet_def)
qed

lemma quiet_hushed: "quiet h s \<Longrightarrow> w \<in> set (workers s) \<Longrightarrow> jobs s (worker_job w) = Some j \<Longrightarrow> job_handle j = h \<Longrightarrow> hushed j w"
  by (auto simp: quiet_def)

lemma quiet_job: "quiet h s \<Longrightarrow> jobs s a = Some j \<Longrightarrow> job_handle j = h \<Longrightarrow> cancelled j \<or> op_callback (job_op j) = Empty_Close_Callback"
  by (auto simp: quiet_def)

lemma quiet_replace:
  assumes "quiet h s" "\<And>j. jobs s (worker_job w') = Some j \<Longrightarrow> job_handle j = h \<Longrightarrow> hushed j w'"
  shows "quiet h (s\<lparr>workers := (workers s)[i := w']\<rparr>)"
  using assms(1)
proof (rule quiet_workers)
  fix w j assume "w \<in> set ((workers s)[i := w'])" "jobs s (worker_job w) = Some j" "job_handle j = h"
  moreover from this have "w = w' \<or> w \<in> set (workers s)" using set_update_subset_insert by fastforce
  ultimately show "hushed j w" using assms quiet_hushed by blast
qed

lemma quiet_deliver [simp]: "quiet h (deliver nr s) = quiet h s"
  by (simp add: quiet_def deliver_def cb_lookup_def)

lemma quiet_set_go:
  assumes "async_inv s" "quiet h s" "gnome_vfs_async_job_map_get_job s k = Some a" "k \<noteq> h"
    "gnome_vfs_job_set a t cb spec s = Some s'"
  shows "quiet h (gnome_vfs_job_go pushed a s')"
proof -
  have "jobs s a = Some j \<Longrightarrow> job_handle j \<noteq> h" for j using assms(1,3,4) by (auto simp: async_inv_def map_ok_def)
  then have "quiet h s'"
    using assms(2) by (rule_tac job_set_update [OF assms(5)]) (auto intro!: quiet_update simp: quiet_change_def)
  then show ?thesis using shrinks_go by (rule quiet_shrinks)
qed

lemma quiet_calls:
  assumes "async_inv s" "quiet h s" "k \<noteq> h"
  shows "async_on_handle k spec cb pushed s = Some t \<Longrightarrow> quiet h t"
    "gnome_vfs_async_close k cb pushed s = Some t \<Longrightarrow> quiet h t"
  using assms
  by (auto simp: async_on_handle_def gnome_vfs_async_close_def split: option.splits if_splits
        intro: quiet_set_go quiet_shrinks [OF _ shrinks_fields(1)])

lemma unlocked_pending:
  assumes "async_inv s" "\<not> job_locked s a" "jobs s a = Some j" "opens_file (specifics (job_op j))"
    "w \<in> set (workers s)" "worker_job w = a"
  shows "pending w = []"
proof -
  have "\<not> may_wait w" "\<not> holds_lock a w"
    using assms worker_okI [OF assms(1,5)] by (auto simp: worker_ok_def serves_def job_locked_def)
  then show ?thesis using assms(6) by (cases w) auto
qed

lemma quiet_cancelled_open:
  assumes "async_inv s" "quiet h s" "jobs s a = Some j" "is_open_op (op_type (job_op j))" "job_vfs_handle j \<noteq> None"
    "handle_cancelled_open pushed a s = Some t"
  shows "quiet h t"
proof -
  have "opens_file (specifics (job_op j))" using assms(1,3-5) by (auto simp: async_inv_def jobs_ok_def job_ok_def)
  then have p: "\<not> job_locked s a \<Longrightarrow> w \<in> set (workers s) \<Longrightarrow> worker_job w = a \<Longrightarrow> pending w = []" for w
    using unlocked_pending assms(1,3) by blast
  obtain s1 where s1: "gnome_vfs_job_set a GNOME_VFS_OP_CLOSE Empty_Close_Callback No_Specifics s = Some s1"
      "t = gnome_vfs_job_go pushed a s1" using assms(6) by (auto simp: handle_cancelled_open_def)
  have "quiet h s1"
    using assms(2,3) p by (rule_tac job_set_update [OF s1(1)]) (auto intro!: quiet_update simp: quiet_change_def)
  then show ?thesis using s1(2) quiet_shrinks shrinks_go by blast
qed

lemma quiet_dispatch_cancelled:
  "async_inv s \<Longrightarrow> quiet h s \<Longrightarrow> dispatch_cancelled pushed k s = Some t \<Longrightarrow> quiet h t"
  by (auto simp: dispatch_cancelled_def split: option.splits if_splits
        intro: quiet_cancelled_open quiet_shrinks [OF _ shrinks_fields(1)] quiet_shrinks [OF _ shrinks_remove_job])

lemma quiet_wake:
  assumes "quiet h s" "ws = workers s"
  shows "quiet h (s\<lparr>workers := map (wake_worker a) ws\<rparr>)"
  using assms(1)
proof (rule quiet_workers)
  fix w j assume w: "w \<in> set (map (wake_worker a) ws)" "jobs s (worker_job w) = Some j" "job_handle j = h"
  then obtain v where v: "v \<in> set (workers s)" "w = wake_worker a v" using assms(2) by auto
  moreover have "worker_job (wake_worker a v) = worker_job v" "pending (wake_worker a v) = pending v" by (cases v; simp)+
  ultimately show "hushed j w" using quiet_hushed [OF assms(1) v(1)] w by (simp add: hushed_def)
qed

lemma callback_valid_lookup:
  "gnome_vfs_async_job_callback_valid s k = (True, c) \<Longrightarrow> \<exists>m. cb_lookup s k = Some m \<and> nr_cancelled m = c"
  by (auto simp: gnome_vfs_async_job_callback_valid_def cb_lookup_def split: option.splits)

text \<open>A notification of \<open>h\<close> that is delivered although \<open>h\<close> is cancelled.\<close>

lemma silent_dispatch_note:
  assumes "async_inv s" "quiet h s" "(kind, nr) \<in> set (idle s)" "cb_lookup s (nr_callback_id nr) = Some m"
    "\<not> nr_cancelled m \<or> kind = Sync \<and> nr_type nr \<noteq> GNOME_VFS_OP_XFER"
  shows "silent_for h (nr_job_handle nr, nr_callback nr, nr_specifics nr)"
proof -
  have "same_note m nr" "sync_ok (kind, nr)" using assms(1,3,4) by (auto simp: async_inv_def idle_ok_def)
  moreover have "nr_job_handle m = h \<Longrightarrow> nr_cancelled m \<or> nr_callback m = Empty_Close_Callback"
    using quietD(1) [OF assms(2,4)] by simp
  ultimately show ?thesis using assms(5) by (auto simp: silent_for_def same_note_def sync_ok_def)
qed

lemma quiet_stage: "quiet h s \<Longrightarrow> stage_quiet h d \<Longrightarrow> quiet h (s\<lparr>dispatching := d\<rparr>)"
  unfolding quiet_def cb_lookup_def by simp blast

lemma quiet_dispatch:
  assumes i: "async_inv s" and q: "quiet h s"
  shows "main_loop_dispatch s = Some t \<Longrightarrow> quiet h t" "dispatch_callback pushed s = Some t \<Longrightarrow> quiet h t"
    "dispatch_acknowledge s = Some t \<Longrightarrow> quiet h t"
proof -
  have removed: "quiet h (gnome_vfs_async_job_remove_callback k (s\<lparr>idle := rest\<rparr>))" if "idle s = x # rest" for k x rest
    using q shrinks_dispatch [OF that] by (rule quiet_shrinks)
  show "quiet h t" if "main_loop_dispatch s = Some t"
    using that
  proof (cases rule: main_loop_dispatch_cases)
    case (starts kind nr rest c)
    obtain m where "cb_lookup s (nr_callback_id nr) = Some m" "nr_cancelled m = c"
      using callback_valid_lookup [OF starts(3)] by (auto simp: cb_lookup_def)
    then have "stage_quiet h (Some (To_Callback kind nr c))"
      using silent_dispatch_note [OF i q, of kind nr m] starts(1) by simp
    then show ?thesis using removed [OF starts(1)] starts(4) by (simp add: quiet_stage)
  next
    case (drops kind nr rest)
    then show ?thesis using removed [OF drops(1)] by (auto intro: quiet_shrinks [OF _ shrinks_fields(1)])
  qed
  have stop: "quiet h (s\<lparr>dispatching := None\<rparr>)" "async_inv (s\<lparr>dispatching := None\<rparr>)"
    using i q by (simp_all add: quiet_stage async_inv_stage)
  show "quiet h t" if "dispatch_callback pushed s = Some t"
    using that stop q
    by (auto simp: dispatch_callback_def Let_def split: option.splits dispatch_stage.splits notify_kind.splits if_splits
         intro: quiet_dispatch_cancelled intro!: quiet_stage)
  show "quiet h t" if "dispatch_acknowledge s = Some t"
    using that stop
    by (auto simp: dispatch_acknowledge_def Let_def split: option.splits dispatch_stage.splits if_splits
         intro: quiet_wake quiet_shrinks [OF _ shrinks_fields(1)])
qed

lemma quiet_mark:
  assumes "quiet h s" "async_job_callback_map s = Some m"
  shows "quiet h (s\<lparr>async_job_callback_map := Some (table_foreach (callback_map_cancel_one k) m)\<rparr>)"
proof -
  let ?t = "s\<lparr>async_job_callback_map := Some (table_foreach (callback_map_cancel_one k) m)\<rparr>"
  have cb: "cb_lookup ?t i = map_option (callback_map_cancel_one k) (cb_lookup s i)" for i
    using assms(2) by (simp add: cb_lookup_def tab.lookup_foreach)
  have "nr_cancelled nr \<or> nr_callback nr = Empty_Close_Callback" if "cb_lookup ?t i = Some nr" "nr_job_handle nr = h" for i nr
    using that assms(1) by (auto simp: quiet_def cb callback_map_cancel_one_def split: if_splits)
  then show ?thesis using quietD [OF assms(1)] by (intro quietI) simp_all
qed

lemma quiet_cancel: "quiet h s \<Longrightarrow> quiet h (gnome_vfs_async_cancel k s)"
proof -
  have flag: "quiet h s \<Longrightarrow> quiet h (update_job a (\<lambda>j. j\<lparr>cancelled := True\<rparr>) s)"
    "quiet h s \<Longrightarrow> quiet h (gnome_vfs_job_module_cancel a s)" for s a
    unfolding gnome_vfs_job_module_cancel_def by (erule quiet_update; simp add: quiet_change_def)+
  have *: "quiet h s \<Longrightarrow> quiet h (gnome_vfs_async_job_cancel_job_and_callbacks k ja s)" for s ja
    by (auto simp: gnome_vfs_async_job_cancel_job_and_callbacks_def Let_def split: option.splits intro: quiet_mark flag)
  show "quiet h s \<Longrightarrow> quiet h (gnome_vfs_async_cancel k s)"
    by (auto simp: gnome_vfs_async_cancel_def split: option.splits intro: * flag quiet_shrinks [OF _ shrinks_fields(1)])
qed

lemma quiet_start:
  assumes q: "quiet h s" and h: "h \<noteq> 0" and i: "async_inv s" and n: "unat (async_job_map_next_id s) + 1 < 2 ^ 32"
  shows "quiet h (async_start spec prio cb pushed s)"
proof -
  obtain a s1 where new: "gnome_vfs_job_new (op_kind spec) prio (App_Callback cb) spec s = (a, s1)" by fastforce
  from new have "quiet h s1"
  proof (rule job_new_cases)
    fix j assume j: "jobs s1 = (jobs s)(a \<mapsto> j)" and a: "a = next_addr s"
      and f: "workers s1 = workers s" "cb_lookup s1 = cb_lookup s" "dispatching s1 = dispatching s"
      and c: "if shutting_down s
         then job_handle j = 0 \<and> async_job_map_next_id s1 = async_job_map_next_id s \<and> fault s1 \<noteq> None
            \<and> gnome_vfs_async_job_map_get_job s1 = gnome_vfs_async_job_map_get_job s
         else job_handle j = async_job_map_next_id s + 1 \<and> async_job_map_next_id s1 = async_job_map_next_id s + 1
            \<and> fault s1 = fault s \<and> gnome_vfs_async_job_map_get_job s1 = (gnome_vfs_async_job_map_get_job s)(job_handle j \<mapsto> a)"
    have nx: "unat (async_job_map_next_id s + 1) = unat (async_job_map_next_id s) + 1"
      using n by (simp add: unat_add_lem [THEN iffD1])
    have le: "unat h \<le> unat (async_job_map_next_id s)" using q by (simp add: quiet_def)
    have "job_handle j \<noteq> h" "unat h \<le> unat (async_job_map_next_id s1)"
      using c le h nx by (auto split: if_splits)
    moreover have "w \<in> set (workers s) \<Longrightarrow> worker_job w \<noteq> a" for w
      using worker_okI [OF i, of w] a by (auto simp: worker_ok_def)
    ultimately show "quiet h s1" using q by (auto simp: quiet_def j f)
  qed
  then show ?thesis using q new by (auto simp: async_start_def intro: quiet_shrinks [OF _ shrinks_go])
qed

lemma quiet_begin:
  assumes "quiet h s" "thread_begin p s = Some t"
  shows "quiet h t"
proof -
  let ?s = "s\<lparr>pool := remove_nth p (pool s)\<rparr>"
  have s: "quiet h ?s" using assms(1) shrinks_fields(2) by (rule quiet_shrinks)
  then have "quiet h (set_fault Use_After_Free ?s)" using shrinks_fields(1) by (rule quiet_shrinks)
  moreover have "quiet h (?s\<lparr>workers := workers s @ [Started a]\<rparr>)" for a
    by (rule quiet_workers [OF s]) (use quiet_hushed [OF assms(1)] in \<open>auto simp: hushed_def\<close>)
  ultimately show ?thesis
    using assms(2) s by (auto simp: thread_begin_def Let_def split: if_splits option.splits)
qed

lemma quiet_execute_step:
  assumes q: "quiet h s" and w: "i < length (workers s)" "workers s ! i = Started a" and j: "jobs s a = Some j"
    and x: "gnome_vfs_job_execute calls j = (j', nrs)"
  shows "quiet h (s\<lparr>jobs := (jobs s)(a \<mapsto> j'), workers := (workers s)[i := Executing a nrs]\<rparr>)"
proof -
  let ?u = "update_job a (\<lambda>_. j') s"
  have ok: "exec_ok j (j', nrs)" using exec_ok_execute [of j calls] x by simp
  then have u: "quiet h ?u" using j by (intro quiet_update [OF q]) (auto simp: quiet_change_def exec_ok_def)
  have "job_handle j' = h \<Longrightarrow> hushed j' (Executing a nrs)"
    using quiet_job [OF u, of a j'] ok j by (auto simp: hushed_def exec_ok_def)
  then have "quiet h (?u\<lparr>workers := (workers ?u)[i := Executing a nrs]\<rparr>)"
    using j by (intro quiet_replace [OF u]) auto
  then show ?thesis using j by (simp add: update_job_def)
qed

lemma quiet_execute: "quiet h s \<Longrightarrow> thread_execute i calls s = Some t \<Longrightarrow> quiet h t"
  by (auto simp: thread_execute_def Let_def intro: quiet_execute_step quiet_shrinks [OF _ shrinks_fields(1)]
        split: if_splits option.splits worker.splits prod.splits)

lemma quiet_finish: "quiet h s \<Longrightarrow> thread_finish i s = Some t \<Longrightarrow> quiet h t"
proof -
  have "quiet h s \<Longrightarrow> quiet h (s\<lparr>workers := (workers s)[i := Finished a c]\<rparr>)" for a c
    by (erule quiet_replace) (simp add: hushed_def)
  then show "quiet h s \<Longrightarrow> thread_finish i s = Some t \<Longrightarrow> quiet h t"
    by (auto simp: thread_finish_def Let_def intro: quiet_shrinks [OF _ shrinks_fields(1)]
          split: if_splits option.splits worker.splits prod.splits list.splits)
qed

lemma quiet_notify:
  assumes i: "async_inv s" and q: "quiet h s" and t: "thread_notify i s = Some t"
  shows "quiet h t"
  using t
proof (cases rule: thread_notifyE)
  case fault
  then show ?thesis using q shrinks_fields(1) quiet_shrinks by blast
next
  case (go a kind nr rest j nr' s1)
  note sh = add_callback_shape [OF go(3)]
  let ?u = "s1\<lparr>idle := (if cancelled j then idle s else idle s @ [(kind, nr')])\<rparr>"
  let ?w = "if cancelled j \<or> kind = Oneway then Executing a rest else Waiting a rest"
  let ?old = "Executing a ((kind, nr) # rest)"
  have w0: "?old \<in> set (workers s)" using go(1,2) nth_mem by metis
  then have hd: "nr_job_handle nr = job_handle j" using worker_okI [OF i w0] go(5) by (simp add: worker_ok_def serves_def)
  have hush: "job_handle j = h \<Longrightarrow> hushed j ?old" using quiet_hushed [OF q w0] go(5) by simp
  have cb: "cb_lookup ?u k = cb_lookup s1 k" for k by (simp add: cb_lookup_def)
  have "nr_cancelled m \<or> nr_callback m = Empty_Close_Callback" if "cb_lookup ?u k = Some m" "nr_job_handle m = h" for k m
    using that q hush hd unfolding cb sh(3) by (auto simp: quiet_def hushed_def sh(1) split: if_splits)
  then have u: "quiet h ?u" using quietD [OF q] by (intro quietI) (simp_all add: sh(4-8,11))
  have "quiet h (?u\<lparr>workers := (workers ?u)[i := ?w]\<rparr>)"
    by (rule quiet_replace [OF u]) (use hush go(5) in \<open>auto simp: sh(4) hushed_def split: if_splits\<close>)
  then show ?thesis by (simp add: go(4) sh(6))
qed

text \<open>Events that do not use the handle.\<close>

fun leaves_alone :: "guint \<Rightarrow> async_event \<Rightarrow> bool" where
  "leaves_alone h (On_Handle k _ _ _) = (k \<noteq> h)"
| "leaves_alone h (Close k _ _) = (k \<noteq> h)"
| "leaves_alone h _ = True"

lemma quiet_step:
  assumes "async_effect e s = Some t" "async_inv s" "room s 1" "quiet h s" "h \<noteq> 0" "leaves_alone h e"
  shows "quiet h t"
proof (cases e)
  case (Start spec prio cb pushed)
  then show ?thesis using assms by (auto simp: room_def split: if_splits intro: quiet_start)
next
  case (On_Handle k spec cb pushed)
  then show ?thesis using assms quiet_calls(1) [of s h k spec cb pushed t] by (simp split: if_splits)
next
  case (Close k cb pushed)
  then show ?thesis using assms quiet_calls(2) [of s h k cb pushed t] by simp
next
  case (Cancel k)
  then show ?thesis using assms quiet_cancel [of h s k] by auto
next
  case (Begin p)
  then show ?thesis using assms quiet_begin [of h s p t] by simp
next
  case (Execute i calls)
  then show ?thesis using assms quiet_execute [of h s i calls t] by simp
next
  case (Notify i)
  then show ?thesis using assms quiet_notify [of s h i t] by simp
next
  case (Finish i)
  then show ?thesis using assms quiet_finish [of h s i t] by simp
next
  case (End i)
  then show ?thesis using assms quiet_shrinks [OF _ shrinks_end] by simp
next
  case Dispatch
  then show ?thesis using assms quiet_dispatch(1) [of s h t] by simp
next
  case (Callback pushed)
  then show ?thesis using assms quiet_dispatch(2) [of s h pushed t] by simp
next
  case Acknowledge
  then show ?thesis using assms quiet_dispatch(3) [of s h t] by simp
next
  case Quit
  then show ?thesis using assms quiet_shrinks [OF _ shrinks_fields(3)] by auto
next
  case Shutdown_End
  then show ?thesis using assms quiet_shrinks [OF _ shrinks_shutdown] by simp
qed

section \<open>What is delivered\<close>

lemma shrinks_delivered: "shrinks s t \<Longrightarrow> delivered t = delivered s"
  by (rule shrinksD(4))

lemma dispatch_cancelled_delivered: "dispatch_cancelled pushed h s = Some t \<Longrightarrow> delivered t = delivered s"
  by (auto simp: dispatch_cancelled_def handle_cancelled_open_def gnome_vfs_job_set_def shrinks_delivered [OF shrinks_go]
       shrinks_delivered [OF shrinks_remove_job] split: option.splits if_splits)

lemma callback_delivered:
  assumes i: "async_inv s" and q: "quiet h s" and t: "dispatch_callback pushed s = Some t"
  shows "\<exists>new. delivered t = delivered s @ new \<and> (\<forall>d\<in>set new. silent_for h d)"
proof -
  obtain kind nr c where st: "dispatching s = Some (To_Callback kind nr c)"
    using t by (auto simp: dispatch_callback_def split: option.splits dispatch_stage.splits)
  have "silent_for h (nr_job_handle nr, nr_callback nr, nr_specifics nr)"
    if "\<not> c \<or> kind = Sync \<and> nr_type nr \<noteq> GNOME_VFS_OP_XFER"
    using that i quietD(5) [OF q] by (auto simp: st async_inv_def sync_ok_def silent_for_def)
  then show ?thesis
    using t by (auto simp: dispatch_callback_def st Let_def deliver_def split: notify_kind.splits if_splits
         dest!: dispatch_cancelled_delivered)
qed

lemma step_delivered:
  assumes "async_effect e s = Some t" "\<forall>pushed. e \<noteq> Callback pushed"
  shows "delivered t = delivered s"
proof -
  have go: "delivered (gnome_vfs_job_go p a u) = delivered u" for p a u by (rule shrinks_delivered [OF shrinks_go])
  have set: "gnome_vfs_job_set a ty cb spec s = Some u \<Longrightarrow> delivered u = delivered s" for a ty cb spec u
    by (auto simp: gnome_vfs_job_set_def split: if_splits)
  have new: "gnome_vfs_job_new ty pr cb spec s = (a, u) \<Longrightarrow> delivered u = delivered s" for ty pr cb spec a u
    by (erule job_new_cases)
  show ?thesis
  proof (cases e)
    case (Start spec prio cb pushed)
    then show ?thesis using assms(1) by (auto simp: async_start_def go split: prod.splits if_splits dest: new)
  next
    case (On_Handle k spec cb pushed)
    then show ?thesis using assms(1) by (auto simp: async_on_handle_def go split: option.splits if_splits dest: set)
  next
    case (Close k cb pushed)
    then show ?thesis using assms(1) by (auto simp: gnome_vfs_async_close_def go split: option.splits if_splits dest: set)
  next
    case (Cancel k)
    then show ?thesis
      using assms(1) by (auto simp: gnome_vfs_async_cancel_def gnome_vfs_async_job_cancel_job_and_callbacks_def Let_def
           gnome_vfs_job_module_cancel_def split: option.splits)
  next
    case (Begin p)
    then show ?thesis using assms(1) by (auto simp: thread_begin_def Let_def split: option.splits if_splits)
  next
    case (Execute i calls)
    then show ?thesis
      using assms(1) by (auto simp: thread_execute_def Let_def split: option.splits if_splits worker.splits prod.splits)
  next
    case (Notify i)
    then have "thread_notify i s = Some t" using assms(1) by simp
    then show ?thesis by (cases rule: thread_notifyE) (auto simp: add_callback_shape(9))
  next
    case (Finish i)
    then show ?thesis
      using assms(1) by (auto simp: thread_finish_def Let_def split: option.splits if_splits worker.splits list.splits)
  next
    case (End i)
    then show ?thesis using assms(1) shrinks_delivered [OF shrinks_end] by simp
  next
    case Dispatch
    then have "main_loop_dispatch s = Some t" using assms(1) by simp
    then show ?thesis
      by (cases rule: main_loop_dispatch_cases) (use shrinks_delivered [OF shrinks_dispatch] in auto)
  next
    case Acknowledge
    then show ?thesis
      using assms(1) by (auto simp: dispatch_acknowledge_def Let_def split: option.splits dispatch_stage.splits if_splits)
  next
    case Quit
    then show ?thesis using assms(1) by (auto simp: job_queue_close_def)
  next
    case Shutdown_End
    then show ?thesis using assms(1) shrinks_delivered [OF shrinks_shutdown] by simp
  qed (use assms(2) in auto)
qed

end
