(* ===== verification/VFS_Async_Cancel.thy ===== *)
theory VFS_Async_Cancel
  imports VFS_Async_Inv
begin

text \<open>
  Cancelling a handle silences it. Two invariants carry the proof: before the cancellation
  the handle's job is in the job map and none of its callbacks is marked (\<open>tracked\<close>); after
  it, everything still to come for the handle is marked or belongs to the silent close
  (\<open>quiet\<close>).
\<close>

section \<open>The identifiers\<close>

definition ids :: "async_state \<Rightarrow> guint \<times> guint" where
  "ids s = (async_job_map_next_id s, async_job_callback_map_next_id s)"

lemma shrinks_ids: "shrinks s t \<Longrightarrow> ids t = ids s"
  by (simp add: ids_def shrinksD)

lemma ids_simps [simp]:
  "ids (update_job a f s) = ids s" "ids (set_fault e s) = ids s" "ids (deliver nr s) = ids s"
  "ids (s\<lparr>workers := ws\<rparr>) = ids s" "ids (s\<lparr>pool := p\<rparr>) = ids s" "ids (s\<lparr>jobs := js\<rparr>) = ids s" "ids (s\<lparr>idle := x\<rparr>) = ids s"
  "ids (s\<lparr>dispatching := d\<rparr>) = ids s"
  "ids (s\<lparr>async_job_callback_map := m\<rparr>) = ids s"
  "ids (gnome_vfs_job_go pushed a s) = ids s" "ids (gnome_vfs_async_job_map_remove_job h s) = ids s"
  "ids (gnome_vfs_async_job_remove_callback k s) = ids s"
  by (simp_all add: shrinks_ids [OF shrinks_go] shrinks_ids [OF shrinks_remove_job] shrinks_ids [OF shrinks_remove_callback])
     (simp_all add: ids_def deliver_def)

lemma job_set_ids: "gnome_vfs_job_set a ty cb spec s = Some u \<Longrightarrow> ids u = ids s"
  by (auto simp: gnome_vfs_job_set_def split: if_splits)

lemma dispatch_cancelled_ids: "dispatch_cancelled pushed h s = Some t \<Longrightarrow> ids t = ids s"
  by (auto simp: dispatch_cancelled_def handle_cancelled_open_def split: option.splits if_splits dest: job_set_ids)

lemma step_ids:
  assumes "async_effect e s = Some t" "\<forall>spec prio cb pushed. e \<noteq> Start spec prio cb pushed" "\<forall>i. e \<noteq> Notify i"
  shows "ids t = ids s"
proof (cases e)
  case (On_Handle k spec cb pushed)
  then show ?thesis using assms(1) by (auto simp: async_on_handle_def split: option.splits if_splits dest: job_set_ids)
next
  case (Close k cb pushed)
  then show ?thesis using assms(1) by (auto simp: gnome_vfs_async_close_def split: option.splits if_splits dest: job_set_ids)
next
  case (Cancel k)
  then show ?thesis
    using assms(1) by (auto simp: gnome_vfs_async_cancel_def gnome_vfs_async_job_cancel_job_and_callbacks_def Let_def
         gnome_vfs_job_module_cancel_def split: option.splits)
next
  case (Begin p)
  then show ?thesis using assms(1) by (auto simp: thread_begin_def Let_def split: option.splits if_splits)
next
  case (Execute i calls)
  then show ?thesis
    using assms(1) by (auto simp: thread_execute_def Let_def split: option.splits if_splits worker.splits prod.splits)
next
  case (Finish i)
  then show ?thesis
    using assms(1) by (auto simp: thread_finish_def Let_def split: option.splits if_splits worker.splits list.splits)
next
  case (End i)
  then show ?thesis using assms(1) shrinks_ids [OF shrinks_end] by simp
next
  case Dispatch
  then show ?thesis using assms(1) by (auto simp: dispatch_defs Let_def split: dispatch_splits)
next
  case (Callback pushed)
  then show ?thesis using assms(1) by (auto simp: dispatch_defs Let_def split: dispatch_splits dest!: dispatch_cancelled_ids)
next
  case Acknowledge
  then show ?thesis using assms(1) by (auto simp: dispatch_defs Let_def split: dispatch_splits)
next
  case Quit
  then show ?thesis using assms(1) shrinks_ids [OF shrinks_fields(3)] by auto
next
  case Shutdown_End
  then show ?thesis using assms(1) shrinks_ids [OF shrinks_shutdown] by simp
qed (use assms(2,3) in auto)

lemma unat_Suc_le: "unat (x + 1 :: guint) \<le> Suc (unat x)"
  by (simp add: unat_word_ariths)

lemma room_step:
  assumes "async_effect e s = Some t" "room s (Suc n)"
  shows "room t n"
proof -
  have "unat (async_job_map_next_id t) \<le> Suc (unat (async_job_map_next_id s))
      \<and> unat (async_job_callback_map_next_id t) \<le> Suc (unat (async_job_callback_map_next_id s))"
  proof (cases e)
    case (Start spec prio cb pushed)
    obtain a s1 where new: "gnome_vfs_job_new (op_kind spec) prio (App_Callback cb) spec s = (a, s1)" by fastforce
    have "ids t = ids s \<or> ids t = ids s1" using Start assms(1) new by (auto simp: async_start_def split: if_splits)
    moreover from new have "ids s1 = ids s \<or> ids s1 = (async_job_map_next_id s + 1, async_job_callback_map_next_id s)"
      by (rule job_new_cases) (auto simp: ids_def split: if_splits)
    ultimately show ?thesis by (auto simp: ids_def unat_Suc_le)
  next
    case (Notify i)
    then have "thread_notify i s = Some t" using assms(1) by simp
    then show ?thesis by (cases rule: thread_notifyE) (auto simp: add_callback_shape(2,8) unat_Suc_le)
  qed (use step_ids [OF assms(1)] in \<open>auto simp: ids_def\<close>)
  then show ?thesis using assms(2) by (auto simp: room_def)
qed

lemma room_mono: "room s n \<Longrightarrow> m \<le> n \<Longrightarrow> room s m"
  by (auto simp: room_def)

lemma quiet_run:
  assumes "async_run s es t" "async_inv s" "quiet h s" "h \<noteq> 0" "room s (length es)" "list_all (leaves_alone h) es"
  shows "\<exists>new. delivered t = delivered s @ new \<and> (\<forall>d\<in>set new. silent_for h d)"
  using assms
proof (induction rule: async_run.induct)
  case (step s e s' es s'')
  have r: "room s 1" "room s' (length es)"
    using step.prems(4) room_mono [of s _ 1] room_step [OF step.hyps(2)] by auto
  have s': "async_inv s'" "quiet h s'"
    using async_inv_step [OF step.hyps(2) step.prems(1) r(1)] quiet_step [OF step.hyps(2) step.prems(1) r(1) step.prems(2,3)]
      step.prems(5) by auto
  obtain new where new: "delivered s'' = delivered s' @ new" "\<forall>d\<in>set new. silent_for h d"
    using step.IH s' step.prems(3,5) r(2) by auto
  have "\<exists>first. delivered s' = delivered s @ first \<and> (\<forall>d\<in>set first. silent_for h d)"
  proof (cases "\<exists>pushed. e = Callback pushed")
    case True
    then show ?thesis using step.hyps(2) callback_delivered [OF step.prems(1,2)] by auto
  next
    case False
    then show ?thesis using step_delivered [OF step.hyps(2)] by auto
  qed
  then show ?case using new by auto
qed simp

section \<open>Before the cancellation\<close>

lemma trackedI:
  assumes "\<And>a j. jobs s a = Some j \<Longrightarrow> job_handle j = h \<Longrightarrow> gnome_vfs_async_job_map_get_job s h = Some a"
    "\<And>k nr. cb_lookup s k = Some nr \<Longrightarrow> nr_job_handle nr = h \<Longrightarrow> \<not> nr_cancelled nr"
    "stage_tracked h (dispatching s)"
  shows "tracked h s"
  unfolding tracked_def using assms by blast

lemma trackedD:
  assumes "tracked h s"
  shows "jobs s a = Some j \<Longrightarrow> job_handle j = h \<Longrightarrow> gnome_vfs_async_job_map_get_job s h = Some a"
    "cb_lookup s k = Some nr \<Longrightarrow> nr_job_handle nr = h \<Longrightarrow> \<not> nr_cancelled nr"
    "stage_tracked h (dispatching s)"
  using assms unfolding tracked_def by blast+

lemma tracked_same:
  assumes "tracked h s" "jobs t = jobs s" "async_job_map t = async_job_map s" "async_job_callback_map t = async_job_callback_map s"
    "dispatching t = dispatching s"
  shows "tracked h t"
  using trackedD [OF assms(1)] assms(2-)
  by (intro trackedI) (simp_all add: gnome_vfs_async_job_map_get_job_def cb_lookup_def)

lemma tracked_simps [simp]:
  "tracked h (set_fault f s) = tracked h s" "tracked h (s\<lparr>pool := p\<rparr>) = tracked h s"
  "tracked h (s\<lparr>workers := ws\<rparr>) = tracked h s" "tracked h (s\<lparr>idle := x\<rparr>) = tracked h s"
  "tracked h (deliver nr s) = tracked h s" "tracked h (job_queue_close s) = tracked h s"
  by (simp_all add: tracked_def gnome_vfs_async_job_map_get_job_def cb_lookup_def deliver_def job_queue_close_def)

lemma tracked_update:
  assumes "tracked h s" "\<And>j. jobs s a = Some j \<Longrightarrow> job_handle (f j) = job_handle j"
  shows "tracked h (update_job a f s)"
  using trackedD [OF assms(1)] assms(2)
  by (intro trackedI) (auto simp: gnome_vfs_async_job_map_get_job_def cb_lookup_def split: if_splits)

lemma tracked_destroy: "tracked h s \<Longrightarrow> tracked h (gnome_vfs_job_destroy a s)"
  by (intro trackedI)
     (auto simp: gnome_vfs_job_destroy_def gnome_vfs_async_job_map_get_job_def cb_lookup_def tracked_def split: if_splits)

lemma get_job_completed_other:
  "k \<noteq> h \<Longrightarrow> gnome_vfs_async_job_map_get_job s h = Some a \<Longrightarrow>
     gnome_vfs_async_job_map_get_job (gnome_vfs_async_job_completed k s) h = Some a"
  by (auto simp: gnome_vfs_async_job_completed_def gnome_vfs_async_job_map_get_job_def Let_def tab.lookup_remove
       split: option.splits) (metis table_lookup_Nil tab.lookup_remove option.distinct(1))+

lemma completed_cb [simp]: "cb_lookup (gnome_vfs_async_job_completed k s) = cb_lookup s"
  by (rule cb_lookup_cong) (simp add: gnome_vfs_async_job_completed_def Let_def split: option.splits)

lemma tracked_completed_destroy:
  assumes t: "tracked h s" and j: "jobs s a = Some j"
  shows "tracked h (gnome_vfs_job_destroy a (gnome_vfs_async_job_completed (job_handle j) s))"
proof (rule trackedI)
  let ?c = "gnome_vfs_async_job_completed (job_handle j) s"
  fix b i assume "jobs (gnome_vfs_job_destroy a ?c) b = Some i" and h: "job_handle i = h"
  then have b: "b \<noteq> a" "jobs s b = Some i" by (auto simp: gnome_vfs_job_destroy_def split: if_splits)
  have "gnome_vfs_async_job_map_get_job s h = Some b" using trackedD(1) [OF t b(2) h] .
  moreover from this have "job_handle j \<noteq> h" using trackedD(1) [OF t j] b(1) by auto
  ultimately have "gnome_vfs_async_job_map_get_job ?c h = Some b" by (intro get_job_completed_other) auto
  then show "gnome_vfs_async_job_map_get_job (gnome_vfs_job_destroy a ?c) h = Some b"
    by (simp add: gnome_vfs_job_destroy_def gnome_vfs_async_job_map_get_job_def)
next
  fix k nr assume "cb_lookup (gnome_vfs_job_destroy a (gnome_vfs_async_job_completed (job_handle j) s)) k = Some nr"
  moreover have "cb_lookup (gnome_vfs_job_destroy a u) = cb_lookup u" for u
    by (rule cb_lookup_cong) (simp add: gnome_vfs_job_destroy_def)
  ultimately show "nr_job_handle nr = h \<Longrightarrow> \<not> nr_cancelled nr" using trackedD(2) [OF t] by simp
next
  show "stage_tracked h (dispatching (gnome_vfs_job_destroy a (gnome_vfs_async_job_completed (job_handle j) s)))"
    using trackedD(3) [OF t] by simp
qed

lemma tracked_go: "tracked h s \<Longrightarrow> tracked h (gnome_vfs_job_go pushed a s)"
proof -
  assume t: "tracked h s"
  then have "jobs s a = Some j \<Longrightarrow> tracked h (gnome_vfs_job_destroy a (gnome_vfs_async_job_completed (job_handle j) (s\<lparr>pool := p\<rparr>)))"
    for j p by (intro tracked_completed_destroy) simp_all
  with t show ?thesis
    by (auto simp: gnome_vfs_job_go_def gnome_vfs_job_schedule_def Let_def tracked_destroy split: option.splits)
qed

lemma tracked_set_go:
  "tracked h s \<Longrightarrow> gnome_vfs_job_set a t cb spec s = Some s' \<Longrightarrow> tracked h (gnome_vfs_job_go pushed a s')"
  by (rule tracked_go) (auto elim!: job_set_update intro: tracked_update)

lemma tracked_calls:
  "tracked h s \<Longrightarrow> async_on_handle k spec cb pushed s = Some t \<Longrightarrow> tracked h t"
  "tracked h s \<Longrightarrow> gnome_vfs_async_close k cb pushed s = Some t \<Longrightarrow> tracked h t"
  by (auto simp: async_on_handle_def gnome_vfs_async_close_def split: option.splits if_splits intro: tracked_set_go)

lemma tracked_cancel: "tracked h s \<Longrightarrow> k \<noteq> h \<Longrightarrow> tracked h (gnome_vfs_async_cancel k s)"
proof -
  have flag: "tracked h s \<Longrightarrow> tracked h (update_job a (\<lambda>j. j\<lparr>cancelled := True\<rparr>) s)"
    "tracked h s \<Longrightarrow> tracked h (gnome_vfs_job_module_cancel a s)" for s a
    unfolding gnome_vfs_job_module_cancel_def by (erule tracked_update; simp)+
  have mark: "tracked h (s\<lparr>async_job_callback_map := Some (table_foreach (callback_map_cancel_one k) m)\<rparr>)"
    if "tracked h s" "async_job_callback_map s = Some m" "k \<noteq> h" for s m
    using that by (auto simp: tracked_def gnome_vfs_async_job_map_get_job_def cb_lookup_def tab.lookup_foreach
         callback_map_cancel_one_def split: if_splits)
  have *: "tracked h s \<Longrightarrow> k \<noteq> h \<Longrightarrow> tracked h (gnome_vfs_async_job_cancel_job_and_callbacks k ja s)" for s ja
    by (auto simp: gnome_vfs_async_job_cancel_job_and_callbacks_def Let_def split: option.splits intro: mark flag)
  show "tracked h s \<Longrightarrow> k \<noteq> h \<Longrightarrow> tracked h (gnome_vfs_async_cancel k s)"
    by (auto simp: gnome_vfs_async_cancel_def split: option.splits intro: * flag)
qed

lemma tracked_start:
  assumes t: "tracked h s" and i: "async_inv s" and n: "unat (async_job_map_next_id s) + 1 < 2 ^ 32"
    and ok: "fault (async_start spec prio cb pushed s) = None"
  shows "tracked h (async_start spec prio cb pushed s)"
proof -
  obtain a s1 where new: "gnome_vfs_job_new (op_kind spec) prio (App_Callback cb) spec s = (a, s1)" by fastforce
  have "tracked h s1" if "fault s1 = None" using new
  proof (rule job_new_cases)
    fix j assume j: "jobs s1 = (jobs s)(a \<mapsto> j)" and cb: "cb_lookup s1 = cb_lookup s" "dispatching s1 = dispatching s"
      and c: "if shutting_down s
         then job_handle j = 0 \<and> async_job_map_next_id s1 = async_job_map_next_id s \<and> fault s1 \<noteq> None
            \<and> gnome_vfs_async_job_map_get_job s1 = gnome_vfs_async_job_map_get_job s
         else job_handle j = async_job_map_next_id s + 1 \<and> async_job_map_next_id s1 = async_job_map_next_id s + 1
            \<and> fault s1 = fault s \<and> gnome_vfs_async_job_map_get_job s1 = (gnome_vfs_async_job_map_get_job s)(job_handle j \<mapsto> a)"
    have nx: "unat (async_job_map_next_id s + 1) = unat (async_job_map_next_id s) + 1"
      using n by (simp add: unat_add_lem [THEN iffD1])
    have "jobs s b = Some i \<Longrightarrow> job_handle i \<noteq> async_job_map_next_id s + 1" for b i
      using i nx by (fastforce simp: async_inv_def jobs_ok_def job_ok_def)
    moreover have "job_handle j = async_job_map_next_id s + 1"
      "gnome_vfs_async_job_map_get_job s1 = (gnome_vfs_async_job_map_get_job s)(job_handle j \<mapsto> a)"
      using c that by (auto split: if_splits)
    ultimately show "tracked h s1"
      using trackedD [OF t] by (intro trackedI) (auto simp: j cb split: if_splits)
  qed
  then show ?thesis using t new ok by (auto simp: async_start_def intro: tracked_go split: if_splits)
qed

lemma tracked_notify:
  assumes i: "async_inv s" and q: "tracked h s" and t: "thread_notify i s = Some t"
  shows "tracked h t"
  using t
proof (cases rule: thread_notifyE)
  case (go a kind nr rest j nr' s1)
  note sh = add_callback_shape [OF go(3)]
  have "Executing a ((kind, nr) # rest) \<in> set (workers s)" using go(1,2) nth_mem by metis
  then have nr: "\<not> nr_cancelled nr" using worker_okI [OF i] by (fastforce simp: worker_ok_def)
  have "tracked h s1"
    using trackedD [OF q] nr
    by (intro trackedI) (auto simp: sh(3,4,11) get_job_cong [OF sh(10)] sh(1) split: if_splits)
  then show ?thesis by (simp add: go(4))
qed (use q in simp)

lemma tracked_remove_callback: "tracked h s \<Longrightarrow> tracked h (gnome_vfs_async_job_remove_callback k s)"
  by (intro trackedI)
     (auto simp: cb_lookup_remove_callback get_job_cong [of "gnome_vfs_async_job_remove_callback k s" s] dest: trackedD
       split: if_splits)

lemma tracked_dispatch_cancelled:
  assumes i: "async_inv s" and q: "tracked h s" and k: "k \<noteq> h" and t: "dispatch_cancelled pushed k s = Some t"
  shows "tracked h t"
proof -
  have other: "tracked h (gnome_vfs_async_job_map_remove_job (job_handle j) s)"
    if "gnome_vfs_async_job_map_get_job s k = Some a" "jobs s a = Some j" for a j
  proof -
    have jk: "job_handle j = k" using i that by (auto simp: async_inv_def map_ok_def)
    have "cb_lookup (gnome_vfs_async_job_map_remove_job k s) = cb_lookup s"
      by (rule cb_lookup_cong) (simp add: gnome_vfs_async_job_map_remove_job_def split: option.splits)
    moreover have "gnome_vfs_async_job_map_get_job (gnome_vfs_async_job_map_remove_job k s) h = gnome_vfs_async_job_map_get_job s h"
      using k by (auto simp: gnome_vfs_async_job_map_remove_job_def gnome_vfs_async_job_map_get_job_def tab.lookup_remove
           split: option.splits)
    ultimately show ?thesis using trackedD [OF q] by (intro trackedI) (simp_all add: jk)
  qed
  show ?thesis
    using t q by (auto simp: dispatch_cancelled_def handle_cancelled_open_def split: option.splits if_splits
         intro: tracked_set_go other)
qed

lemma tracked_stage: "tracked h s \<Longrightarrow> stage_tracked h d \<Longrightarrow> tracked h (s\<lparr>dispatching := d\<rparr>)"
  unfolding tracked_def gnome_vfs_async_job_map_get_job_def cb_lookup_def by simp blast

lemma tracked_dispatch:
  assumes i: "async_inv s" and q: "tracked h s"
  shows "main_loop_dispatch s = Some t \<Longrightarrow> tracked h t" "dispatch_callback pushed s = Some t \<Longrightarrow> tracked h t"
    "dispatch_acknowledge s = Some t \<Longrightarrow> tracked h t"
proof -
  show "tracked h t" if "main_loop_dispatch s = Some t"
    using that
  proof (cases rule: main_loop_dispatch_cases)
    case (starts kind nr rest c)
    obtain m where m: "cb_lookup s (nr_callback_id nr) = Some m" "nr_cancelled m = c"
      using callback_valid_lookup [OF starts(3)] by (auto simp: cb_lookup_def)
    then have "same_note m nr" using i starts(1) by (auto simp: async_inv_def idle_ok_def)
    then have "stage_tracked h (Some (To_Callback kind nr c))"
      using trackedD(2) [OF q m(1)] m(2) by (auto simp: same_note_def)
    then show ?thesis using starts(4) q by (simp add: tracked_stage tracked_remove_callback)
  next
    case (drops kind nr rest)
    then show ?thesis using q by (auto simp: tracked_remove_callback)
  qed
  have stop: "tracked h (s\<lparr>dispatching := None\<rparr>)" "async_inv (s\<lparr>dispatching := None\<rparr>)"
    using q i by (simp_all add: tracked_stage async_inv_stage)
  show "tracked h t" if "dispatch_callback pushed s = Some t"
    using that stop q trackedD(3) [OF q]
    by (auto simp: dispatch_callback_def Let_def split: option.splits dispatch_stage.splits notify_kind.splits if_splits
         intro: tracked_dispatch_cancelled intro!: tracked_stage)
  show "tracked h t" if "dispatch_acknowledge s = Some t"
    using that stop
    by (auto simp: dispatch_acknowledge_def Let_def split: option.splits dispatch_stage.splits if_splits)
qed

lemma tracked_shutdown:
  assumes "tracked h s" "gnome_vfs_job_queue_shutdown_end s = Some t"
  shows "tracked h t"
proof (rule trackedI)
  have t: "jobs t = jobs s" "cb_lookup t k = None"
    "gnome_vfs_async_job_map_get_job s h = Some a \<Longrightarrow> gnome_vfs_async_job_map_get_job t h = Some a" for k a
    using assms(2) by (auto simp: gnome_vfs_job_queue_shutdown_end_def gnome_vfs_async_job_map_shutdown_def Let_def
        async_job_callback_map_destroy_def gnome_vfs_async_job_map_get_job_def cb_lookup_def split: if_splits option.splits)
  show "jobs t a = Some j \<Longrightarrow> job_handle j = h \<Longrightarrow> gnome_vfs_async_job_map_get_job t h = Some a" for a j
    using trackedD(1) [OF assms(1)] t by simp
  show "cb_lookup t k = Some nr \<Longrightarrow> nr_job_handle nr = h \<Longrightarrow> \<not> nr_cancelled nr" for k nr using t by simp
  have "dispatching t = dispatching s"
    using assms(2) by (auto simp: gnome_vfs_job_queue_shutdown_end_def gnome_vfs_async_job_map_shutdown_def Let_def
        async_job_callback_map_destroy_def split: if_splits option.splits)
  then show "stage_tracked h (dispatching t)" using trackedD(3) [OF assms(1)] by simp
qed

lemma tracked_end: "tracked h s \<Longrightarrow> thread_end i s = Some t \<Longrightarrow> fault t = None \<Longrightarrow> tracked h t"
proof -
  have "tracked h s \<Longrightarrow> jobs s a = Some j \<Longrightarrow>
      tracked h (gnome_vfs_job_destroy a (gnome_vfs_async_job_completed (job_handle j) (s\<lparr>workers := ws\<rparr>)))" for a j ws
    by (rule tracked_completed_destroy) simp_all
  then show "tracked h s \<Longrightarrow> thread_end i s = Some t \<Longrightarrow> fault t = None \<Longrightarrow> tracked h t"
    by (auto simp: thread_end_def Let_def split: if_splits option.splits worker.splits)
qed

lemma tracked_step:
  assumes "async_effect e s = Some t" "async_inv s" "room s 1" "tracked h s" "fault t = None" "e \<noteq> Cancel h"
  shows "tracked h t"
proof (cases e)
  case (Start spec prio cb pushed)
  then show ?thesis using assms by (auto simp: room_def split: if_splits intro: tracked_start)
next
  case (On_Handle k spec cb pushed)
  then show ?thesis using assms tracked_calls(1) [of h s k spec cb pushed t] by (simp split: if_splits)
next
  case (Close k cb pushed)
  then show ?thesis using assms tracked_calls(2) [of h s k cb pushed t] by simp
next
  case (Cancel k)
  then show ?thesis using assms tracked_cancel [of h s k] by auto
next
  case (Begin p)
  then show ?thesis using assms by (auto simp: thread_begin_def Let_def split: option.splits if_splits)
next
  case (Execute i calls)
  have "jobs s a = Some j \<Longrightarrow> gnome_vfs_job_execute calls j = (j', nrs) \<Longrightarrow> tracked h (s\<lparr>jobs := (jobs s)(a \<mapsto> j'), workers := ws\<rparr>)"
    for a j j' nrs ws
    using tracked_update [OF assms(4), of a "\<lambda>_. j'"] exec_ok_execute [of j calls]
    by (auto simp: update_job_def exec_ok_def)
  then show ?thesis
    using Execute assms by (auto simp: thread_execute_def Let_def split: option.splits if_splits worker.splits prod.splits)
next
  case (Notify i)
  then show ?thesis using assms tracked_notify [of s h i t] by simp
next
  case (Finish i)
  then show ?thesis
    using assms by (auto simp: thread_finish_def Let_def split: option.splits if_splits worker.splits list.splits)
next
  case (End i)
  then show ?thesis using assms tracked_end [of h s i t] by simp
next
  case Dispatch
  then show ?thesis using assms tracked_dispatch(1) [of s h t] by simp
next
  case (Callback pushed)
  then show ?thesis using assms tracked_dispatch(2) [of s h pushed t] by simp
next
  case Acknowledge
  then show ?thesis using assms tracked_dispatch(3) [of s h t] by simp
next
  case Quit
  then show ?thesis using assms by auto
next
  case Shutdown_End
  then show ?thesis using assms tracked_shutdown [of h s t] by simp
qed

lemma tracked_run:
  assumes "async_run s es t" "async_inv s" "tracked h s" "room s (length es + n)" "Cancel h \<notin> set es" "fault t = None"
  shows "async_inv t \<and> tracked h t \<and> room t n"
  using assms
proof (induction rule: async_run.induct)
  case (step s e s' es s'')
  have r: "room s 1" "room s' (length es + n)"
    using step.prems(3) room_mono [of s _ 1] room_step [OF step.hyps(2)] by auto
  have "fault s' = None"
    using step.hyps(3) step.prems(5) by (auto elim: async_run.cases)
  then have "async_inv s'" "tracked h s'"
    using async_inv_step [OF step.hyps(2) step.prems(1) r(1)] tracked_step [OF step.hyps(2) step.prems(1) r(1) step.prems(2)]
      step.prems(4) by auto
  then show ?case using step.IH r(2) step.prems by simp
qed simp

text \<open>
  The main loop is between reading the state of a notification of \<open>h\<close> and calling back for it.
\<close>

definition calling_back :: "guint \<Rightarrow> async_state \<Rightarrow> bool" where
  "calling_back h s \<longleftrightarrow>
     (case dispatching s of Some (To_Callback kind nr c) \<Rightarrow> nr_job_handle nr = h | _ \<Rightarrow> False)"

lemma cancel_dispatching [simp]: "dispatching (gnome_vfs_async_cancel h s) = dispatching s"
  by (simp add: gnome_vfs_async_cancel_def gnome_vfs_async_job_cancel_job_and_callbacks_def Let_def
        gnome_vfs_job_module_cancel_def split: option.splits)

lemma quiet_after_cancel:
  assumes "async_inv s" "tracked h s" "unat h \<le> unat (async_job_map_next_id s)" "fault (gnome_vfs_async_cancel h s) = None"
    "\<not> calling_back h s"
  shows "quiet h (gnome_vfs_async_cancel h s)"
proof (rule quietI)
  let ?t = "gnome_vfs_async_cancel h s"
  have cb: "cb_lookup (gnome_vfs_job_module_cancel a s) = cb_lookup s" for a
    by (rule cb_lookup_cong) (simp add: gnome_vfs_job_module_cancel_def)
  show "nr_cancelled nr \<or> nr_callback nr = Empty_Close_Callback" if nr: "cb_lookup ?t k = Some nr" "nr_job_handle nr = h" for k nr
  proof -
    have "cb_lookup ?t k = map_option (callback_map_cancel_one h) (cb_lookup s k)"
      using assms(4) by (cases "gnome_vfs_async_job_map_get_job s h")
        (auto simp: gnome_vfs_async_cancel_def cb_lookup_cancel cb split: if_splits)
    then obtain m where m: "nr = callback_map_cancel_one h m" using nr(1) by (cases "cb_lookup s k") auto
    then have "nr_job_handle m = h" using nr(2) by (simp add: callback_map_cancel_one_def split: if_splits)
    then show ?thesis using m by (simp add: callback_map_cancel_one_def)
  qed
  have jobs_cb: "jobs (gnome_vfs_async_job_cancel_job_and_callbacks h ja u) =
      (case ja of None \<Rightarrow> jobs u | Some b \<Rightarrow> (jobs u)(b := map_option (\<lambda>j. j\<lparr>cancelled := True\<rparr>) (jobs u b)))" for ja u
    by (simp add: gnome_vfs_async_job_cancel_job_and_callbacks_def Let_def split: option.splits)
  have c: "cancelled j" if a: "jobs ?t a = Some j" "job_handle j = h" for a j
  proof (cases "gnome_vfs_async_job_map_get_job s h")
    case None
    then have "jobs s a = Some j" using a(1) by (simp add: gnome_vfs_async_cancel_def jobs_cb)
    then show ?thesis using trackedD(1) [OF assms(2)] a(2) None by auto
  next
    case (Some b)
    then have jt: "jobs ?t = jobs (gnome_vfs_async_job_cancel_job_and_callbacks h (Some b) (gnome_vfs_job_module_cancel b s))"
      using assms(4) by (auto simp: gnome_vfs_async_cancel_def split: if_splits)
    show ?thesis
    proof (cases "a = b")
      case True
      then show ?thesis using a(1) by (auto simp: jt jobs_cb)
    next
      case False
      then have "jobs s a = Some j" using a(1) by (simp add: jt jobs_cb gnome_vfs_job_module_cancel_def)
      then show ?thesis using trackedD(1) [OF assms(2)] a(2) Some False by auto
    qed
  qed
  show "cancelled j \<or> op_callback (job_op j) = Empty_Close_Callback" if "jobs ?t a = Some j" "job_handle j = h" for a j
    using c that by blast
  show "hushed j w" if "jobs ?t (worker_job w) = Some j" "job_handle j = h" for w j using c that by (auto simp: hushed_def)
  show "stage_quiet h (dispatching ?t)"
    using assms(5) by (auto simp: calling_back_def silent_for_def split: option.splits dispatch_stage.splits
         elim!: stage_quiet.elims(3))
  show "unat h \<le> unat (async_job_map_next_id ?t)"
    using assms(3) by (simp add: gnome_vfs_async_cancel_def gnome_vfs_async_job_cancel_job_and_callbacks_def Let_def
         gnome_vfs_job_module_cancel_def split: option.splits)
qed

lemma async_init_ok: "async_inv async_init" "tracked h async_init" "n < 2 ^ 32 \<Longrightarrow> room async_init n"
  by (simp_all add: async_inv_def jobs_ok_def workers_ok_def idle_ok_def map_ok_def tracked_def room_def async_init_def
        gnome_vfs_async_job_map_get_job_def cb_lookup_def)

lemma cancel_keeps_fault: "fault (gnome_vfs_async_cancel h s) = None \<Longrightarrow> fault s = None"
  by (auto simp: gnome_vfs_async_cancel_def gnome_vfs_async_job_cancel_job_and_callbacks_def Let_def
        gnome_vfs_job_module_cancel_def split: option.splits if_splits)

text \<open>
  C5. Cancelling from the thread of the main loop. A handle that was handed out is cancelled
  for the first time, at a moment when the main loop is not just between reading the state of
  one of the handle's notifications and calling back for it; the thread of the main loop
  itself, inside callbacks too, is never there when it makes a call. From then on, whatever
  the workers, the main loop and the application do, as long as it makes no further operation
  on that handle, no callback of the application is called for the handle other than for an
  open or a creation as a channel: what is still delivered for it belongs to the silent close.
  Fewer than \<open>2 ^ 32\<close> steps in all keep the identifiers from wrapping around. A cancellation
  from another thread can come too late, see \<open>late_cancel_called_back\<close>.
\<close>

theorem cancel_silences:
  assumes "async_run async_init es s" "Cancel h \<notin> set es" "0 < h" "h \<le> async_job_map_next_id s"
    "async_run (gnome_vfs_async_cancel h s) es' t" "list_all (leaves_alone h) es'" "length es + length es' < 2 ^ 32"
    "\<not> calling_back h s"
  shows "\<exists>later. delivered t = delivered s @ later \<and>
     (\<forall>(k, cb, res)\<in>set later. k = h \<longrightarrow> cb = Empty_Close_Callback \<or> channel_result res)"
proof -
  let ?c = "gnome_vfs_async_cancel h s"
  have d: "delivered ?c = delivered s" using step_delivered [of "Cancel h" s ?c] by simp
  show ?thesis
  proof (cases "fault ?c = None")
    case False
    then have "t = ?c" using assms(5) by (auto elim: async_run.cases)
    then show ?thesis using d by auto
  next
    case True
    have s: "async_inv s \<and> tracked h s \<and> room s (length es')"
      using tracked_run [OF assms(1) async_init_ok(1,2) async_init_ok(3) assms(2)] assms(7) cancel_keeps_fault [OF True] by blast
    have "ids ?c = ids s" using step_ids [of "Cancel h" s ?c] by simp
    then have "room ?c (length es')" using s by (auto simp: room_def ids_def)
    moreover have "quiet h ?c" using quiet_after_cancel s True assms(4,8) by (simp add: word_le_nat_alt)
    ultimately have "\<exists>new. delivered t = delivered ?c @ new \<and> (\<forall>d\<in>set new. silent_for h d)"
      using quiet_run [OF assms(5)] async_inv_cancel [of s h] s assms(3,6) by auto
    then show ?thesis by (auto simp: d silent_for_def)
  qed
qed

text \<open>The load of a directory is cancelled while its worker still has a notification to make.\<close>

definition before_cancel :: "async_event list" where
  "before_cancel = [Start (LoadDirectoryOp (Some (file_uri ''/d'')) 0 1) 0 7 True, Begin 0, Execute 0 sample_calls, Notify 0]"

definition after_cancel :: "async_event list" where
  "after_cancel = [Notify 0, Finish 0, Dispatch, Callback True, End 0]"

lemma cancel_run_computes:
  "case async_exec async_init before_cancel of
     None \<Rightarrow> False
   | Some s \<Rightarrow> async_job_map_next_id s = 1 \<and> dispatching s = None \<and> async_exec (gnome_vfs_async_cancel 1 s) after_cancel \<noteq> None"
  unfolding before_cancel_def after_cancel_def by code_simp

theorem cancel_silences_witness:
  "\<exists>s t later. async_exec async_init before_cancel = Some s \<and> async_exec (gnome_vfs_async_cancel 1 s) after_cancel = Some t
     \<and> delivered t = delivered s @ later
     \<and> filter (\<lambda>(k, cb, res). k = 1 \<and> cb \<noteq> Empty_Close_Callback \<and> \<not> channel_result res) later = []"
proof -
  obtain s t where s: "async_exec async_init before_cancel = Some s" "async_job_map_next_id s = 1" "dispatching s = None"
      "async_exec (gnome_vfs_async_cancel 1 s) after_cancel = Some t"
    using cancel_run_computes by (auto split: option.splits)
  have "Cancel 1 \<notin> set before_cancel" "list_all (leaves_alone 1) after_cancel"
    "length before_cancel + length after_cancel < 2 ^ 32"
    by (simp_all add: before_cancel_def after_cancel_def)
  moreover have "\<not> calling_back 1 s" using s(3) by (simp add: calling_back_def)
  ultimately obtain later where "delivered t = delivered s @ later"
      "\<forall>(k, cb, res)\<in>set later. k = 1 \<longrightarrow> cb = Empty_Close_Callback \<or> channel_result res"
    using cancel_silences [OF async_exec_run [OF s(1)] _ _ _ async_exec_run [OF s(4)]] s(2) by auto
  then show ?thesis using s by (fastforce simp: filter_empty_conv)
qed

text \<open>
  The race that the documentation of \<^verbatim>\<open>gnome_vfs_async_cancel\<close> admits for another thread: the
  main loop has read that the notification is not cancelled, another thread cancels the
  handle, and the callback is called all the same.
\<close>

definition late_cancel :: "async_event list" where
  "late_cancel =
     [Start (OpenOp (Some (file_uri ''/f'')) 1) 0 7 True, Begin 0, Execute 0 sample_calls, Notify 0, Finish 0, Dispatch, Cancel 1,
      Callback True]"

lemma late_cancel_called_back:
  "(case async_exec async_init late_cancel of
      None \<Rightarrow> False
    | Some t \<Rightarrow> fault t = None \<and> map (\<lambda>(k, cb, res). (k, cb)) (delivered t) = [(1, App_Callback 7)])"
  unfolding late_cancel_def by code_simp

end
