(* ===== verification/VFS_URI_Text.thy ===== *)
theory VFS_URI_Text
  imports VFS_URI
begin

text \<open>
  URIs as text: the bound on parsed ports, and that a printed URI is parsed back to itself.
  The round trip is built from the scanner upwards: what \<open>uri_strspn_to\<close> skips, printed
  numbers, the host, the user part, the toplevel element, the chain.
\<close>

section \<open>Ports\<close>

lemma split_host_port_bound:
  "split_host_port buf path_end tok cur = Some (host, port, ret) \<Longrightarrow> port \<le> 0xffff"
  by (auto simp: split_host_port_def Let_def split: option.splits if_splits prod.splits)

lemma split_toplevel_port_bound:
  "host_port (snd (split_toplevel_uri path len)) \<le> 0xffff"
  by (auto simp: split_toplevel_uri_def Let_def empty_toplevel_def split: option.splits
           dest: split_host_port_bound)

lemma get_toplevel_set_fragment [simp]:
  "gnome_vfs_uri_get_toplevel (set_fragment f u) = gnome_vfs_uri_get_toplevel u"
  by (cases u) auto

lemma get_toplevel_child [simp]:
  "gnome_vfs_uri_get_toplevel (set_uri_element_child env e p txt len) = gnome_vfs_uri_get_toplevel p"
  by (simp add: set_uri_element_child_def)

lemma parse_uri_substring_toplevel:
  "parse_uri_substring env s p = Some u \<Longrightarrow> gnome_vfs_uri_get_toplevel u = gnome_vfs_uri_get_toplevel p"
proof (induction env s p arbitrary: u rule: parse_uri_substring.induct)
  case (1 env substr parent)
  obtain ms sc where gm: "get_method_string substr = (ms, sc)"
    by (cases "get_method_string substr") auto
  show ?case
  proof (cases "parse_uri_substring env (drop (the (strchr sc hash) + 1) sc)
                  (set_uri_element_child env (new_element ms (env_method_get env ms)) parent sc (the (strchr sc hash)))")
    case None
    then show ?thesis using "1.prems" gm
      by (subst (asm) parse_uri_substring.simps)
         (auto simp: Let_def split: if_splits option.splits)
  next
    case (Some c)
    show ?thesis
    proof (cases "strchr sc hash")
      case None
      then show ?thesis using "1.prems" gm
        by (subst (asm) parse_uri_substring.simps)
           (auto simp: Let_def split: if_splits option.splits)
    next
      case (Some ext)
      then show ?thesis using "1.prems" gm
        by (subst (asm) parse_uri_substring.simps)
           (auto simp: Let_def split: if_splits option.splits dest!: "1.IH")
    qed
  qed
qed

lemma set_uri_element_toplevel_port:
  "host_port (gnome_vfs_uri_get_toplevel (set_uri_element_toplevel env e txt len)) \<le> 0xffff"
  using split_toplevel_port_bound [of "drop 2 txt" "len - 2"]
  by (auto simp: set_uri_element_toplevel_def empty_toplevel_def split: prod.splits)

text \<open>
  C33. Whatever text a URI is parsed from, with whatever transforms, the port of the parsed
  URI is at most 0xffff.
\<close>

theorem uri_port_bound:
  assumes "gnome_vfs_uri_new_private env text_uri unknown unsafe transforms = Some u"
  shows "gnome_vfs_uri_get_host_port u \<le> 0xffff"
  using assms
  by (auto simp: gnome_vfs_uri_new_private_def gnome_vfs_uri_get_host_port_def Let_def
           set_uri_element_toplevel_port [simplified]
           split: option.splits if_splits prod.splits dest!: parse_uri_substring_toplevel)

definition http_env :: vfs_env where
  "http_env = \<lparr>env_method_get = (\<lambda>ms. if ms = ''http'' then Some 1 else if ms = ''gzip'' then Some 2 else None),
     env_transform = (\<lambda>_ _. None), env_oob = (\<lambda>_. False)\<rparr>"

theorem uri_port_bound_witness:
  "\<exists>u. gnome_vfs_uri_new_private http_env (Some ''http://h:8080/a'') False False True = Some u
      \<and> gnome_vfs_uri_get_host_port u = 8080 \<and> gnome_vfs_uri_get_host_port u \<le> 0xffff"
proof -
  have "map_option gnome_vfs_uri_get_host_port
          (gnome_vfs_uri_new_private http_env (Some ''http://h:8080/a'') False False True) = Some 8080"
    by code_simp
  then obtain u where u: "gnome_vfs_uri_new_private http_env (Some ''http://h:8080/a'') False False True = Some u"
      "gnome_vfs_uri_get_host_port u = 8080"
    by auto
  show ?thesis using u uri_port_bound [OF u(1)] by blast
qed


text \<open>
  The bound is checked after 32-bit arithmetic: a port number of 2 to the 32 plus 80 is
  accepted and read as port 80.
\<close>

theorem uri_port_wraps:
  "map_option gnome_vfs_uri_get_host_port (gnome_vfs_uri_new http_env (Some ''http://h:4294967376/a'')) = Some 80"
  by code_simp

section \<open>Scanning\<close>

text \<open>\<open>skips chrs B\<close>: the scanner for the set \<open>chrs\<close> runs over all of \<open>B\<close>.\<close>

definition skips :: "string \<Rightarrow> string \<Rightarrow> bool" where
  "skips chrs B \<longleftrightarrow> (\<forall>x\<in>set B. x \<notin> set chrs \<and> x \<noteq> NUL)"

lemma skips_append [simp]: "skips chrs (A @ B) \<longleftrightarrow> skips chrs A \<and> skips chrs B"
  by (auto simp: skips_def)

lemma skips_Cons [simp]: "skips chrs (x # B) \<longleftrightarrow> x \<notin> set chrs \<and> x \<noteq> NUL \<and> skips chrs B"
  by (auto simp: skips_def)

lemma skips_Nil [simp]: "skips chrs []"
  by (simp add: skips_def)

lemma strspn_run:
  "skips chrs B \<Longrightarrow> length A + length B \<le> path_end \<Longrightarrow>
   uri_strspn_to (A @ B @ C) (length A) chrs path_end =
   uri_strspn_to (A @ B @ C) (length A + length B) chrs path_end"
proof (induction B arbitrary: A)
  case (Cons x B)
  then have "uri_strspn_to (A @ (x # B) @ C) (length A) chrs path_end =
             uri_strspn_to ((A @ [x]) @ B @ C) (length (A @ [x])) chrs path_end"
    by (subst uri_strspn_to.simps) simp
  also have "\<dots> = uri_strspn_to ((A @ [x]) @ B @ C) (length (A @ [x]) + length B) chrs path_end"
    using Cons by (intro Cons.IH) auto
  finally show ?case by simp
qed simp

lemma strspn_hit:
  assumes "skips chrs B" "c \<in> set chrs" "c \<noteq> NUL" "length A + length B < path_end"
  shows "uri_strspn_to (A @ B @ c # C) (length A) chrs path_end = Some (length A + length B)"
proof -
  have "c_at ((A @ B) @ c # C) (length (A @ B)) = c" by (simp only: c_at_append_length0 c_at_0)
  then show ?thesis
    using assms strspn_run [of chrs B A path_end "c # C"]
    by (subst strspn_run) (auto simp: uri_strspn_to.simps [of _ "length A + length B"])
qed

lemma strspn_miss:
  assumes "skips chrs B" "path_end = length A + length B"
  shows "uri_strspn_to (A @ B @ C) (length A) chrs path_end = None"
  using assms by (subst strspn_run) (auto simp: uri_strspn_to.simps)

lemma strspn_hit0:
  assumes "skips chrs B" "c \<in> set chrs" "c \<noteq> NUL" "length B < path_end"
  shows "uri_strspn_to (B @ c # C) 0 chrs path_end = Some (length B)"
  using strspn_hit [of chrs B c "[]"] assms by simp

lemma strspn_miss0: "skips chrs B \<Longrightarrow> uri_strspn_to (B @ C) 0 chrs (length B) = None"
  using strspn_miss [of chrs B "length B" "[]"] by simp

section \<open>Printed numbers are read back\<close>

lemma decimal_digits: "c \<in> set (decimal n) \<Longrightarrow> g_ascii_isdigit c"
proof (induction n rule: decimal.induct)
  case (1 n)
  have "n mod 10 < 10" by simp
  then have "48 + n mod 10 < 256" "n < 10 \<Longrightarrow> 48 + n < 256" by linarith+
  with 1 \<open>n mod 10 < 10\<close> show ?case
    by (subst (asm) (2) decimal.simps) (auto simp: g_ascii_isdigit_def split: if_splits)
qed

lemma decimal_ne [simp]: "decimal n \<noteq> []"
  by (subst decimal.simps) simp

definition read_digits :: "guint \<Rightarrow> string \<Rightarrow> guint" where
  "read_digits port ds = foldl (\<lambda>p c. p * 10 + of_nat (code c - 48)) port ds"

lemma read_decimal: "read_digits 0 (decimal n) = of_nat n"
proof (induction n rule: decimal.induct)
  case (1 n)
  have m: "n mod 10 < 10" by simp
  then have d: "code (char_of (48 + n mod 10)) - 48 = n mod 10" by (simp del: of_char_of)
  show ?case
  proof (cases "n < 10")
    case True
    then show ?thesis using d by (subst decimal.simps) (simp add: read_digits_def)
  next
    case False
    have "(of_nat n :: guint) = of_nat (n div 10 * 10 + n mod 10)" by simp
    also have "\<dots> = of_nat (n div 10) * 10 + of_nat (n mod 10)"
      by (simp only: of_nat_add of_nat_mult of_nat_numeral)
    finally show ?thesis using False 1 d
      by (subst decimal.simps) (simp add: read_digits_def del: of_char_of)
  qed
qed

lemma scan_port_run:
  "(\<And>c. c \<in> set ds \<Longrightarrow> g_ascii_isdigit c) \<Longrightarrow> length A + length ds \<le> path_end \<Longrightarrow>
   scan_port (A @ ds @ C) path_end (length A) port =
   scan_port (A @ ds @ C) path_end (length A + length ds) (read_digits port ds)"
proof (induction ds arbitrary: A port)
  case (Cons x ds)
  have "g_ascii_isdigit x" using Cons by simp
  then have "scan_port (A @ (x # ds) @ C) path_end (length A) port =
             scan_port ((A @ [x]) @ ds @ C) path_end (length (A @ [x])) (port * 10 + of_nat (code x - 48))"
    using Cons.prems by (subst scan_port.simps) simp
  also have "\<dots> = scan_port ((A @ [x]) @ ds @ C) path_end (length (A @ [x]) + length ds)
                     (read_digits (port * 10 + of_nat (code x - 48)) ds)"
    using Cons by (intro Cons.IH) auto
  finally show ?case by (simp add: read_digits_def)
qed (simp add: read_digits_def)

lemma scan_port_decimal:
  assumes "length A + length (decimal n) \<le> path_end" "\<not> g_ascii_isdigit (c_at C 0)"
  shows "scan_port (A @ decimal n @ C) path_end (length A) 0 = (length A + length (decimal n), of_nat n)"
proof -
  have "c_at ((A @ decimal n) @ C) (length (A @ decimal n)) = c_at C 0" by (rule c_at_append_length0)
  then show ?thesis using assms decimal_digits [of _ n]
    by (subst scan_port_run)
       (auto simp: read_decimal scan_port.simps [of _ _ "length A + length (decimal n)"])
qed


section \<open>The parts of a printed URI\<close>

text \<open>A host as the parser leaves it: not empty, in lower case, without delimiters.\<close>

definition wf_host :: "string \<Rightarrow> bool" where
  "wf_host h \<longleftrightarrow> h \<noteq> [] \<and> g_ascii_strdown h = h \<and> skips ''/@[]#'' h"

text \<open>What may follow the host: nothing, a path, or a port and a path.\<close>

definition host_tail :: "guint \<Rightarrow> string \<Rightarrow> string" where
  "host_tail port t = (if port > 0 then '':'' @ decimal (unat port) else []) @ t"

definition wf_tail :: "guint \<Rightarrow> string \<Rightarrow> bool" where
  "wf_tail port t \<longleftrightarrow> port \<le> 0xffff \<and> (c_at t 0 = slash \<or> t = [] \<and> port = 0)"

lemma digits_skip: "skips '':@]/[#'' (decimal n)"
  unfolding skips_def
proof
  fix x assume "x \<in> set (decimal n)"
  then have "48 \<le> code x" "code x \<le> 57" using decimal_digits by (auto simp: g_ascii_isdigit_def)
  then show "x \<notin> set '':@]/[#'' \<and> x \<noteq> NUL" by auto
qed

lemma skips_mono: "skips cs B \<Longrightarrow> set cs' \<subseteq> set cs \<Longrightarrow> skips cs' B"
  by (auto simp: skips_def)

lemma host_tail_cases:
  assumes "wf_tail port t"
  obtains (empty) "host_tail port t = []" "port = 0" "t = []"
    | (path) t' where "host_tail port t = slash # t'" "t = slash # t'" "port = 0"
    | (port) t' where "host_tail port t = colon # decimal (unat port) @ slash # t'" "t = slash # t'" "port > 0"
  using assms by (cases t; cases "port = 0") (auto simp: wf_tail_def host_tail_def word_neq_0_conv)

lemmas delimiter_sets =
  URI_DELIMITER_ALL_SET_def URI_DELIMITER_USER_SET_def URI_DELIMITER_HOST_SET_def URI_DELIMITER_IPV6_SET_def

text \<open>The first slash of the tail, which stops every scan that skips colons.\<close>

lemma tail_slash:
  assumes "wf_tail port t" "host_tail port t \<noteq> []"
  obtains P t' where "host_tail port t = P @ slash # t'" "skips ''@]/[#'' P"
proof (rule host_tail_cases [OF assms(1)])
  fix t' assume "host_tail port t = colon # decimal (unat port) @ slash # t'"
  moreover have "skips ''@]/[#'' (colon # decimal (unat port))"
    using skips_mono [OF digits_skip, of "''@]/[#''" "unat port"] by simp
  ultimately show thesis by (intro that [of "colon # decimal (unat port)" t']) auto
next
  fix t' assume "host_tail port t = slash # t'"
  then show thesis by (intro that [of "[]" t']) auto
qed (use assms in simp)

text \<open>Scanning from inside the host for a set without the colon: to the slash of the tail, or to the end.\<close>

lemma scan_to_slash:
  assumes wt: "wf_tail port t" and sk: "skips chrs H" and ch: "slash \<in> set chrs" "set chrs \<subseteq> set ''@]/[#''"
    and pe: "path_end = length A + length H + length (host_tail port t)"
  shows "\<not> buf_is (A @ H @ host_tail port t @ R)
            (uri_strspn_to (A @ H @ host_tail port t @ R) (length A) chrs path_end) c \<or> c = slash"
proof (cases "host_tail port t = []")
  case True
  then have "uri_strspn_to (A @ H @ host_tail port t @ R) (length A) chrs path_end = None"
    using strspn_miss [OF sk, of path_end A R] pe by simp
  then show ?thesis by (simp add: buf_is_def)
next
  case False
  then obtain P t' where P: "host_tail port t = P @ slash # t'" "skips ''@]/[#'' P"
    using tail_slash [OF wt] by metis
  have "skips chrs (H @ P)" using sk P(2) ch(2) skips_mono by auto
  then have "uri_strspn_to (A @ (H @ P) @ slash # t' @ R) (length A) chrs path_end = Some (length A + length (H @ P))"
    using pe P ch by (intro strspn_hit) auto
  then have "buf_is (A @ H @ host_tail port t @ R)
            (uri_strspn_to (A @ H @ host_tail port t @ R) (length A) chrs path_end) c
       \<longleftrightarrow> c_at ((A @ H @ P) @ slash # t' @ R) (length (A @ H @ P)) = c"
    using P by (simp add: buf_is_def add.assoc)
  then show ?thesis by (simp only: c_at_append_length0 c_at_0) auto
qed

text \<open>Scanning for the end of the host.\<close>

lemma scan_host_end:
  assumes wt: "wf_tail port t" and sk: "skips '':/'' H"
    and pe: "path_end = length A + length H + length (host_tail port t)"
    and ch: "set '':/'' \<subseteq> set chrs" "skips chrs H"
  shows "uri_strspn_to (A @ H @ host_tail port t @ R) (length A) chrs path_end =
         (if host_tail port t = [] then None else Some (length A + length H))"
proof (cases rule: host_tail_cases [OF wt])
  case 1
  then show ?thesis using strspn_miss [OF ch(2), of path_end A R] pe by simp
next
  case (2 t')
  then show ?thesis using strspn_hit [OF ch(2), of slash A path_end "t' @ R"] pe ch by simp
next
  case (3 t')
  then show ?thesis
    using strspn_hit [OF ch(2), of colon A path_end "decimal (unat port) @ slash # t' @ R"] pe ch by simp
qed


text \<open>The two shapes of a printed host.\<close>

lemma host_cases:
  assumes "wf_host h"
  obtains (plain) "host_to_string h = h" "skips '':@]/[#'' h"
    | (ipv6) h1 h2 where "host_to_string h = CHR ''['' # h @ '']''" "h = h1 @ colon # h2"
        "skips '':@]/[#'' h1" "skips ''@]/[#'' h"
proof (cases "colon \<in> set h")
  case True
  then obtain h1 h2 where h: "h = h1 @ colon # h2" "colon \<notin> set h1" by (meson split_list_first)
  moreover have "skips ''@]/[#'' h" using assms by (auto simp: wf_host_def skips_def)
  moreover have "skips '':@]/[#'' h1" using assms h by (auto simp: wf_host_def skips_def)
  ultimately show thesis using True
    by (intro ipv6 [of h1 h2]) (auto simp: host_to_string_def)
next
  case False
  then show thesis using assms
    by (intro plain) (auto simp: host_to_string_def wf_host_def skips_def)
qed

lemma host_to_string_ne: "wf_host h \<Longrightarrow> host_to_string h \<noteq> []"
  by (auto simp: wf_host_def host_to_string_def)

lemma finish_host_printed:
  assumes "wf_host h"
  shows "finish_host (host_to_string h) = h"
proof (cases rule: host_cases [OF assms])
  case 1
  then have "strchr h (CHR ''['') = None" by (intro strchr_notin) (auto simp: skips_def)
  then show ?thesis using 1 assms by (simp add: finish_host_def wf_host_def)
next
  case (2 h1 h2)
  have "c \<noteq> NUL \<Longrightarrow> strchr (host_to_string h) c = None \<longleftrightarrow> c \<notin> set (host_to_string h)" for c
    by (rule strchr_None_iff)
  moreover have "{CHR ''['', CHR '']'', colon} \<subseteq> set (host_to_string h)" using 2(1,2) by auto
  ultimately have "finish_host (host_to_string h) =
      g_ascii_strdown (take (length (host_to_string h) - 2) (drop 1 (host_to_string h)))"
    by (simp add: finish_host_def)
  then show ?thesis using 2(1) assms by (simp add: wf_host_def)
qed

text \<open>Where the code after a user part finds the end of the host.\<close>

lemma host_end_after_user:
  fixes R :: string
  assumes h: "wf_host h" and wt: "wf_tail port t"
    and pe: "path_end = length A + length (host_to_string h) + length (host_tail port t)"
  defines "buf \<equiv> A @ host_to_string h @ host_tail port t @ R"
  shows "(case uri_strspn_to buf (length A) URI_DELIMITER_IPV6_SET path_end of
            Some i \<Rightarrow> if c_at buf i = CHR '']''
                        then uri_strspn_to buf i URI_DELIMITER_HOST_SET path_end
                        else uri_strspn_to buf (length A) URI_DELIMITER_HOST_SET path_end
          | None \<Rightarrow> uri_strspn_to buf (length A) URI_DELIMITER_HOST_SET path_end)
       = (if host_tail port t = [] then None else Some (length A + length (host_to_string h)))"
proof (cases rule: host_cases [OF h])
  case 1
  have "skips '']/'' h" "skips '':/'' h" using 1 by (auto simp: skips_def)
  then have "\<not> buf_is buf (uri_strspn_to buf (length A) URI_DELIMITER_IPV6_SET path_end) (CHR '']'')"
    using scan_to_slash [OF wt, of "'']/''" h path_end A R "CHR '']''"] pe 1
    by (auto simp: buf_def delimiter_sets)
  moreover have "uri_strspn_to buf (length A) URI_DELIMITER_HOST_SET path_end =
                 (if host_tail port t = [] then None else Some (length A + length h))"
    using scan_host_end [OF wt, of h path_end A "'':/''" R] \<open>skips '':/'' h\<close> pe 1
    by (simp add: buf_def delimiter_sets)
  ultimately show ?thesis using 1 by (auto simp: buf_is_def split: option.splits)
next
  case (2 h1 h2)
  have sk: "skips '']/'' (CHR ''['' # h)" using 2 by (auto simp: skips_def)
  have bf: "buf = A @ (CHR ''['' # h) @ CHR '']'' # host_tail port t @ R"
    using 2 by (simp add: buf_def)
  have "uri_strspn_to buf (length A) URI_DELIMITER_IPV6_SET path_end = Some (length A + length (CHR ''['' # h))"
    unfolding bf using pe 2 sk by (intro strspn_hit) (auto simp: delimiter_sets)
  moreover have "c_at buf (length A + length (CHR ''['' # h)) = CHR '']''"
    using c_at_append_length0 [of "A @ CHR ''['' # h" "CHR '']'' # host_tail port t @ R"] bf by simp
  moreover have "uri_strspn_to buf (length A + length (CHR ''['' # h)) URI_DELIMITER_HOST_SET path_end =
                 (if host_tail port t = [] then None else Some (length A + length (host_to_string h)))"
    using scan_host_end [OF wt, of "'']''" path_end "A @ CHR ''['' # h" "'':/''" R] pe 2(1)
    by (simp add: bf delimiter_sets)
  ultimately show ?thesis by simp
qed

lemma split_first_no_user:
  fixes R :: string
  assumes h: "wf_host h" and wt: "wf_tail port t"
    and pe: "path_end = length (host_to_string h) + length (host_tail port t)"
  defines "buf \<equiv> host_to_string h @ host_tail port t @ R"
  shows "split_first_delimiter buf path_end =
         (if host_tail port t = [] then None else Some (length (host_to_string h)))"
proof (cases rule: host_cases [OF h])
  case 1
  have sk: "skips ''@/'' h" "skips '']/'' h" "skips '':/'' h" "skips '':@]/'' h"
    using 1 by (auto simp: skips_def)
  have "\<not> buf_is buf (uri_strspn_to buf 0 URI_DELIMITER_USER_SET path_end) (CHR ''@'')"
    using scan_to_slash [OF wt, of "''@/''" h path_end "[]" R "CHR ''@''"] sk pe 1
    by (auto simp: buf_def delimiter_sets)
  moreover have "\<not> buf_is buf (uri_strspn_to buf 0 URI_DELIMITER_IPV6_SET path_end) (CHR '']'')"
    using scan_to_slash [OF wt, of "'']/''" h path_end "[]" R "CHR '']''"] sk pe 1
    by (auto simp: buf_def delimiter_sets)
  moreover have "uri_strspn_to buf 0 URI_DELIMITER_ALL_SET path_end =
                 (if host_tail port t = [] then None else Some (length h))"
    using scan_host_end [OF wt, of h path_end "[]" "'':@]/''" R] sk pe 1
    by (simp add: buf_def delimiter_sets)
  moreover have "c_at buf (length h) \<noteq> CHR '']''" if "host_tail port t \<noteq> []"
  proof -
    have "c_at (host_tail port t @ R) 0 \<noteq> CHR '']''"
      using that by (cases rule: host_tail_cases [OF wt]) simp_all
    then show ?thesis using 1 c_at_append_length0 [of h "host_tail port t @ R"] by (simp add: buf_def)
  qed
  ultimately show ?thesis using 1 by (auto simp: split_first_delimiter_def Let_def)
next
  case (2 h1 h2)
  have sk: "skips '']/'' (CHR ''['' # h)" "skips '':@]/'' (CHR ''['' # h1)" "skips ''@/'' (CHR ''['' # h @ '']'')"
    using 2 by (auto simp: skips_def)
  have bf: "buf = (CHR ''['' # h) @ CHR '']'' # host_tail port t @ R"
    "buf = (CHR ''['' # h1) @ colon # h2 @ CHR '']'' # host_tail port t @ R"
    using 2 by (simp_all add: buf_def)
  have a: "uri_strspn_to buf 0 URI_DELIMITER_ALL_SET path_end = Some (length (CHR ''['' # h1))"
    unfolding bf(2) using pe 2 sk by (intro strspn_hit0) (auto simp: delimiter_sets)
  have b: "c_at buf (length (CHR ''['' # h1)) = colon"
    unfolding bf(2) by (simp only: c_at_append_length0 c_at_0)
  have c: "\<not> buf_is buf (uri_strspn_to buf 0 URI_DELIMITER_USER_SET path_end) (CHR ''@'')"
    using scan_to_slash [OF wt, of "''@/''" "CHR ''['' # h @ '']''" path_end "[]" R "CHR ''@''"] sk(3) pe 2(1)
    by (auto simp: buf_def delimiter_sets)
  have d: "uri_strspn_to buf 0 URI_DELIMITER_IPV6_SET path_end = Some (length (CHR ''['' # h))"
    unfolding bf(1) using pe 2 sk by (intro strspn_hit0) (auto simp: delimiter_sets)
  have e: "c_at buf (length (CHR ''['' # h)) = CHR '']''"
    unfolding bf(1) by (simp only: c_at_append_length0 c_at_0)
  have f: "uri_strspn_to buf (length (CHR ''['' # h)) URI_DELIMITER_HOST_SET path_end =
           (if host_tail port t = [] then None else Some (length (host_to_string h)))"
    using scan_host_end [OF wt, of "'']''" path_end "CHR ''['' # h" "'':/''" R] pe 2(1)
    by (simp add: bf(1) delimiter_sets)
  have "buf_is buf (Some (length (CHR ''['' # h1))) colon" "buf_is buf (Some (length (CHR ''['' # h))) (CHR '']'')"
    using b e by (simp_all add: buf_is_def)
  then show ?thesis using a c d e f by (simp add: split_first_delimiter_def Let_def)
qed

lemma split_host_port_printed:
  assumes h: "host_to_string h = H" "H \<noteq> []" "slash \<notin> set H" and wt: "wf_tail port t"
    and pe: "path_end = length A + length H + length (host_tail port t)"
    and R: "R = [] \<or> c_at R 0 = hash"
  shows "split_host_port (A @ H @ host_tail port t @ R) path_end (length A)
           (if host_tail port t = [] then None else Some (length A + length H)) = Some (Some H, port, Some t)"
proof (cases rule: host_tail_cases [OF wt])
  case 1
  have "c_at ((A @ butlast H) @ last H # R) (length (A @ butlast H)) = last H"
    by (simp only: c_at_append_length0 c_at_0)
  moreover have "(A @ butlast H) @ last H # R = A @ H @ R" "length (A @ butlast H) = length A + length H - 1"
    using h(2) by (simp_all add: Suc_leI)
  ultimately have "c_at (A @ H @ R) (length A + length H - 1) = last H" by (simp only:)
  moreover have "last H \<noteq> slash" using h by (metis last_in_set)
  ultimately show ?thesis using 1 pe h by (simp add: split_host_port_def substring_def)
next
  case (2 t')
  have "c_at (A @ H @ slash # t' @ R) (length A + length H) = slash"
    using c_at_append_length0 [of "A @ H" "slash # t' @ R"] by simp
  then show ?thesis using 2 pe h
    by (simp add: split_host_port_def substring_def Let_def)
next
  case (3 t')
  define buf where "buf = A @ H @ colon # decimal (unat port) @ slash # t' @ R"
  define C where "C = A @ H @ '':''"
  have "c_at buf (length A + length H) = colon"
    using c_at_append_length0 [of "A @ H" "colon # decimal (unat port) @ slash # t' @ R"] by (simp add: buf_def)
  moreover have "scan_port buf path_end (length A + length H + 1) 0 = (length C + length (decimal (unat port)), port)"
    using scan_port_decimal [of C "unat port" path_end "slash # t' @ R"] pe 3
    by (simp add: C_def buf_def g_ascii_isdigit_def)
  moreover have "c_at buf (length C + length (decimal (unat port))) = slash"
    using c_at_append_length0 [of "C @ decimal (unat port)" "slash # t' @ R"] by (simp add: C_def buf_def add.assoc)
  moreover have "substring buf (length A) (length A + length H) = H"
    "substring buf (length C + length (decimal (unat port))) path_end = slash # t'"
    "length A + length H + 1 < path_end"
    using pe 3 by (simp_all add: buf_def C_def substring_def)
  moreover have "port \<le> 0xffff" using wt by (simp add: wf_tail_def)
  ultimately show ?thesis using 3 pe h
    by (simp add: split_host_port_def buf_def [symmetric] C_def)
qed


section \<open>User and password\<close>

definition wf_secret :: "string option \<Rightarrow> bool" where
  "wf_secret s \<longleftrightarrow> (case s of None \<Rightarrow> True | Some x \<Rightarrow> x \<noteq> [] \<and> is_cstring x)"

definition userinfo :: "string option \<Rightarrow> string option \<Rightarrow> string" where
  "userinfo user pw =
     (case user of None \<Rightarrow> [] | Some x \<Rightarrow> escape_part x) @
     (case pw of None \<Rightarrow> [] | Some x \<Rightarrow> '':'' @ escape_part x) @
     (if user = None \<and> pw = None then [] else ''@'')"

lemma escape_part_eq: "escape_part x = escape_write_pass UNSAFE_ALL x"
  by (simp add: escape_part_def gnome_vfs_escape_string_def gnome_vfs_escape_string_internal_def)

lemma escape_part_skips: "skips '':@]/[#'' (escape_part x)"
proof -
  have "NUL \<notin> set (escape_part x)"
    using is_cstring_escape_write_pass [of UNSAFE_ALL x] by (simp add: escape_part_eq is_cstring_def)
  moreover have "c \<in> set (escape_part x) \<Longrightarrow> c \<notin> set '':@]/[#''" for c
    using escape_all_delimiters [of c x] by (auto simp: escape_part_eq)
  ultimately show ?thesis by (auto simp: skips_def)
qed

lemma escape_write_pass_ne: "x \<noteq> [] \<Longrightarrow> escape_write_pass m x \<noteq> []"
  by (cases x) (auto simp: Let_def escape_char_def)

lemma escape_part_ne: "x \<noteq> [] \<Longrightarrow> escape_part x \<noteq> []"
  by (simp add: escape_part_eq escape_write_pass_ne)

lemma unescape_escape_part:
  "is_cstring x \<Longrightarrow> gnome_vfs_unescape_string (Some (escape_part x)) None = Some x"
  using unescape_escape_write_pass [of x None UNSAFE_ALL]
  by (simp add: gnome_vfs_unescape_string_def escape_part_eq)

text \<open>The user part \<open>U\<close> and the optional password part, both escaped, up to and with the at sign.\<close>

lemma split_user_password_printed:
  fixes R :: string
  assumes user: "wf_secret user" and pw: "wf_secret pw" and some: "user \<noteq> None \<or> pw \<noteq> None"
    and h: "wf_host h" and wt: "wf_tail port t"
  defines "U \<equiv> (case user of None \<Rightarrow> [] | Some x \<Rightarrow> escape_part x)"
  defines "A \<equiv> userinfo user pw"
  defines "path_end \<equiv> length A + length (host_to_string h) + length (host_tail port t)"
  defines "buf \<equiv> A @ host_to_string h @ host_tail port t @ R"
  shows "split_user_password buf path_end (length U) =
           Some (length A, if host_tail port t = [] then None else Some (length A + length (host_to_string h)), user, pw)"
proof -
  have u: "(if length U > 0 then gnome_vfs_unescape_string (Some (substring buf 0 (length U))) None else None) = user"
    using user escape_part_ne unescape_escape_part
    by (cases user) (auto simp: U_def wf_secret_def buf_def A_def userinfo_def substring_def)
  have ne: "host_to_string h \<noteq> []" using h by (rule host_to_string_ne)
  have sp: "split_password buf path_end (length U) = Some (length A - 1, pw)"
  proof (cases pw)
    case None
    then have "buf = U @ CHR ''@'' # host_to_string h @ host_tail port t @ R" "length A = length U + 1"
      using some by (auto simp: buf_def A_def userinfo_def U_def)
    then show ?thesis using None by (simp add: split_password_def)
  next
    case (Some x)
    have b: "buf = U @ colon # escape_part x @ CHR ''@'' # host_to_string h @ host_tail port t @ R"
      and la: "length A = length U + 1 + length (escape_part x) + 1"
      using Some by (auto simp: buf_def A_def userinfo_def U_def)
    have sk: "skips ''@/'' (escape_part x)" by (rule skips_mono [OF escape_part_skips]) auto
    define B where "B = U @ '':''"
    have b': "buf = B @ escape_part x @ CHR ''@'' # host_to_string h @ host_tail port t @ R"
      using b by (simp add: B_def)
    have "uri_strspn_to buf (length U + 1) URI_DELIMITER_USER_SET path_end = Some (length U + 1 + length (escape_part x))"
      using strspn_hit [OF sk, of "CHR ''@''" B path_end "host_to_string h @ host_tail port t @ R"] la ne
      by (simp add: b' delimiter_sets B_def path_end_def)
    moreover have "c_at buf (length U + 1 + length (escape_part x)) = CHR ''@''"
      using c_at_append_length0 [of "B @ escape_part x" "CHR ''@'' # host_to_string h @ host_tail port t @ R"]
      by (simp add: b' B_def add.assoc)
    moreover have "c_at buf (length U) = colon" unfolding b by (simp only: c_at_append_length0 c_at_0)
    moreover have "substring buf (length U + 1) (length U + 1 + length (escape_part x)) = escape_part x"
      by (simp add: b substring_def)
    moreover have "escape_part x \<noteq> []" "gnome_vfs_unescape_string (Some (escape_part x)) None = Some x"
      using pw Some escape_part_ne unescape_escape_part by (auto simp: wf_secret_def)
    moreover have "path_end \<noteq> length U + 1" using la by (simp add: path_end_def)
    ultimately show ?thesis using Some la by (simp add: split_password_def)
  qed
  have la: "A = butlast A @ ''@''" "length A > 0" using some by (auto simp: A_def userinfo_def butlast_append)
  then have "buf = butlast A @ CHR ''@'' # host_to_string h @ host_tail port t @ R" by (simp add: buf_def)
  then have "c_at buf (length A - 1) = CHR ''@''"
    using c_at_append_length0 [of "butlast A"] by simp
  moreover obtain n where n: "length A - 1 = n" "n + 1 = length A" using la(2) by simp
  ultimately have at: "c_at buf n = CHR ''@''" by simp
  have he: "(case uri_strspn_to buf (n + 1) URI_DELIMITER_IPV6_SET path_end of
            Some i \<Rightarrow> if c_at buf i = CHR '']''
                        then uri_strspn_to buf i URI_DELIMITER_HOST_SET path_end
                        else uri_strspn_to buf (n + 1) URI_DELIMITER_HOST_SET path_end
          | None \<Rightarrow> uri_strspn_to buf (n + 1) URI_DELIMITER_HOST_SET path_end)
       = (if host_tail port t = [] then None else Some (length A + length (host_to_string h)))"
    unfolding n(2) buf_def by (rule host_end_after_user [OF h wt]) (simp add: path_end_def)
  have "path_end \<noteq> n + 1" using n ne by (simp add: path_end_def)
  with u sp at he n show ?thesis
    by (simp only: split_user_password_def Let_def option.case prod.case if_False if_True) simp
qed


lemma split_first_user:
  fixes R :: string
  assumes user: "wf_secret user" and pw: "wf_secret pw" and some: "user \<noteq> None \<or> pw \<noteq> None"
  defines "U \<equiv> (case user of None \<Rightarrow> [] | Some x \<Rightarrow> escape_part x)"
  assumes pe: "path_end > length (userinfo user pw)"
  defines "buf \<equiv> userinfo user pw @ R"
  shows "split_first_delimiter buf path_end = Some (length U)"
    and "c_at buf (length U) = CHR ''@'' \<or>
         (\<exists>j. uri_strspn_to buf (length U) URI_DELIMITER_USER_SET path_end = Some j \<and> c_at buf j = CHR ''@'')"
proof -
  have skU: "skips '':@]/[#'' U" using escape_part_skips by (auto simp: U_def split: option.splits)
  then have skU': "skips '':@]/'' U" "skips ''@/'' U" by (auto simp: skips_def)
  have "split_first_delimiter buf path_end = Some (length U) \<and> (c_at buf (length U) = CHR ''@'' \<or>
         (\<exists>j. uri_strspn_to buf (length U) URI_DELIMITER_USER_SET path_end = Some j \<and> c_at buf j = CHR ''@''))"
  proof (cases pw)
    case None
    then have b: "buf = U @ CHR ''@'' # R" and "path_end > length U"
      using some pe by (auto simp: buf_def userinfo_def U_def)
    then have "uri_strspn_to buf 0 URI_DELIMITER_ALL_SET path_end = Some (length U)"
      using skU' by (simp add: b delimiter_sets strspn_hit0)
    moreover have "c_at buf (length U) = CHR ''@''" unfolding b by (simp only: c_at_append_length0 c_at_0)
    ultimately show ?thesis by (simp add: split_first_delimiter_def Let_def buf_is_def)
  next
    case (Some x)
    define P where "P = escape_part x"
    have b: "buf = U @ colon # P @ CHR ''@'' # R" and pe': "path_end > length U + length P + 1"
      using Some pe by (auto simp: buf_def userinfo_def U_def P_def)
    have skP: "skips ''@/'' (colon # P)" using escape_part_skips [of x] by (auto simp: skips_def P_def)
    have b': "buf = (U @ colon # P) @ CHR ''@'' # R" using b by simp
    have a: "uri_strspn_to buf 0 URI_DELIMITER_ALL_SET path_end = Some (length U)"
      using skU' pe' by (simp add: b delimiter_sets strspn_hit0)
    have c: "c_at buf (length U) = colon" unfolding b by (simp only: c_at_append_length0 c_at_0)
    have d: "c_at buf (length (U @ colon # P)) = CHR ''@''" unfolding b' by (simp only: c_at_append_length0 c_at_0)
    have e: "uri_strspn_to buf 0 URI_DELIMITER_USER_SET path_end = Some (length (U @ colon # P))"
      unfolding b' using skU' skP pe' by (intro strspn_hit0) (auto simp: delimiter_sets)
    have "uri_strspn_to buf (length U) URI_DELIMITER_USER_SET path_end = Some (length U + length (colon # P))"
      using strspn_hit [OF skP, of "CHR ''@''" U path_end R] pe' by (simp add: b delimiter_sets)
    then show ?thesis using a c d e by (simp add: split_first_delimiter_def Let_def buf_is_def)
  qed
  then show "split_first_delimiter buf path_end = Some (length U)"
    and "c_at buf (length U) = CHR ''@'' \<or>
         (\<exists>j. uri_strspn_to buf (length U) URI_DELIMITER_USER_SET path_end = Some j \<and> c_at buf j = CHR ''@'')"
    by blast+
qed

definition wf_toplevel :: "toplevel_info \<Rightarrow> string \<Rightarrow> bool" where
  "wf_toplevel tinfo t \<longleftrightarrow>
     (case host_name tinfo of
        None \<Rightarrow> tinfo = empty_toplevel \<and> c_at t 0 = slash
      | Some h \<Rightarrow> wf_host h \<and> wf_tail (host_port tinfo) t
                  \<and> wf_secret (user_name tinfo) \<and> wf_secret (password tinfo))"

definition authority :: "toplevel_info \<Rightarrow> string" where
  "authority tinfo =
     (case host_name tinfo of None \<Rightarrow> []
      | Some h \<Rightarrow> userinfo (user_name tinfo) (password tinfo) @ host_to_string h @ host_tail (host_port tinfo) [])"

lemma host_no_slash: "wf_host h \<Longrightarrow> slash \<notin> set (host_to_string h)"
  by (auto simp: wf_host_def host_to_string_def skips_def)

lemma split_toplevel_printed:
  assumes wf: "wf_toplevel tinfo t" and R: "R = [] \<or> c_at R 0 = hash"
  shows "split_toplevel_uri (authority tinfo @ t @ R) (length (authority tinfo @ t)) = (Some t, tinfo)"
proof (cases "host_name tinfo")
  case None
  then obtain t' where t: "t = slash # t'" "tinfo = empty_toplevel"
    using wf by (cases t) (auto simp: wf_toplevel_def)
  have hit: "slash \<in> set chrs \<Longrightarrow> uri_strspn_to (slash # t' @ R) 0 chrs (length t) = Some 0" for chrs
    using strspn_hit0 [of chrs "[]" slash "length t" "t' @ R"] t by simp
  then have "split_first_delimiter (t @ R) (length t) = Some 0"
    using t by (simp add: split_first_delimiter_def buf_is_def delimiter_sets Let_def)
  moreover have "split_host_port (t @ R) (length t) 0 (Some 0) = Some (None, 0, Some t)"
    using t by (simp add: split_host_port_def substring_def Let_def)
  ultimately show ?thesis using t hit
    by (simp add: split_toplevel_uri_def authority_def buf_is_def empty_toplevel_def delimiter_sets)
next
  case (Some h)
  define port user pw where "port = host_port tinfo" and "user = user_name tinfo" and "pw = password tinfo"
  have h: "wf_host h" and wt: "wf_tail port t" and us: "wf_secret user" "wf_secret pw"
    using wf Some by (simp_all add: wf_toplevel_def port_def user_def pw_def)
  define A H where "A = userinfo user pw" and "H = host_to_string h"
  have Hne: "H \<noteq> []" "slash \<notin> set H" using h host_to_string_ne host_no_slash by (auto simp: H_def)
  define buf path_end where "buf = A @ H @ host_tail port t @ R"
    and "path_end = length A + length H + length (host_tail port t)"
  have eqs: "authority tinfo @ t @ R = buf" "length (authority tinfo @ t) = path_end" "path_end \<noteq> 0"
    using Some Hne by (simp_all add: authority_def buf_def path_end_def A_def H_def port_def user_def pw_def host_tail_def)
  have fin: "split_host_port buf path_end (length A)
           (if host_tail port t = [] then None else Some (length A + length H)) = Some (Some H, port, Some t)"
    unfolding buf_def path_end_def using Hne wt R by (intro split_host_port_printed [of h]) (auto simp: H_def)
  have res: "map_option finish_host (Some H) = Some h" using finish_host_printed [OF h] by (simp add: H_def)
  define stage where "stage =
     (let cur = split_first_delimiter buf path_end;
          next_delimiter = (case cur of None \<Rightarrow> None
                               | Some k \<Rightarrow> uri_strspn_to buf k URI_DELIMITER_USER_SET path_end)
      in case cur of
                  None \<Rightarrow> Some (0, None, None, None)
                | Some k \<Rightarrow>
                    if c_at buf k = CHR ''@''
                       \<or> (next_delimiter \<noteq> None \<and> \<not> buf_is buf next_delimiter slash)
                    then split_user_password buf path_end k
                    else Some (0, Some k, None, None))"
  have stage: "stage = Some (length A, if host_tail port t = [] then None else Some (length A + length H), user, pw)"
  proof (cases "user = None \<and> pw = None")
    case True
    then have A: "A = []" by (simp add: A_def userinfo_def)
    have cur: "split_first_delimiter buf path_end = (if host_tail port t = [] then None else Some (length H))"
      using split_first_no_user [OF h wt, of path_end R] by (simp add: buf_def path_end_def A H_def)
    show ?thesis
    proof (cases "host_tail port t = []")
      case True
      then show ?thesis using cur A \<open>user = None \<and> pw = None\<close> by (simp add: stage_def)
    next
      case False
      have "c_at (host_tail port t @ R) 0 \<noteq> CHR ''@''"
        using False by (cases rule: host_tail_cases [OF wt]) simp_all
      then have "c_at buf (length H) \<noteq> CHR ''@''" by (simp add: buf_def A)
      moreover have "\<not> buf_is buf (uri_strspn_to buf (length H) URI_DELIMITER_USER_SET path_end) c \<or> c = slash" for c
        using scan_to_slash [OF wt, of "''@/''" "[]" path_end H R c] by (auto simp: buf_def A path_end_def delimiter_sets)
      ultimately show ?thesis using cur A \<open>user = None \<and> pw = None\<close> False
        by (cases "uri_strspn_to buf (length H) URI_DELIMITER_USER_SET path_end")
           (auto simp: stage_def buf_is_def Let_def)
    qed
  next
    case False
    define U where "U = (case user of None \<Rightarrow> [] | Some x \<Rightarrow> escape_part x)"
    have pe: "path_end > length (userinfo user pw)" using Hne by (simp add: path_end_def A_def)
    have "split_first_delimiter buf path_end = Some (length U)"
      "c_at buf (length U) = CHR ''@'' \<or>
         (\<exists>j. uri_strspn_to buf (length U) URI_DELIMITER_USER_SET path_end = Some j \<and> c_at buf j = CHR ''@'')"
      using split_first_user [of user pw path_end "H @ host_tail port t @ R"] us False pe
      by (auto simp: U_def buf_def A_def)
    moreover have "split_user_password buf path_end (length U) =
        Some (length A, if host_tail port t = [] then None else Some (length A + length H), user, pw)"
      using split_user_password_printed [OF us _ h wt, of R] False
      by (simp add: U_def A_def H_def buf_def path_end_def)
    ultimately show ?thesis by (auto simp: stage_def buf_is_def)
  qed
  have "split_toplevel_uri buf path_end = (Some t, \<lparr>host_name = Some h, host_port = port, user_name = user, password = pw\<rparr>)"
    using stage fin res eqs(3) unfolding stage_def by (simp add: split_toplevel_uri_def Let_def)
  then show ?thesis using eqs Some by (simp add: port_def user_def pw_def)
qed


section \<open>Printing and parsing\<close>

text \<open>An element as the parser leaves it: its method is known and its text is in normal form.\<close>

definition wf_method :: "vfs_env \<Rightarrow> uri_element \<Rightarrow> bool" where
  "wf_method env e \<longleftrightarrow>
     uri_method e = env_method_get env (method_string e) \<and> uri_method e \<noteq> None \<and> ref_count e = 1
     \<and> (\<forall>c\<in>set (method_string e). is_scheme_char c) \<and> g_ascii_strdown (method_string e) = method_string e"

definition wf_text :: "vfs_env \<Rightarrow> uri_element \<Rightarrow> bool" where
  "wf_text env e \<longleftrightarrow>
     (case elem_text e of None \<Rightarrow> False
      | Some t \<Rightarrow> normalize_text env (method_string e) (Some t) = Some t \<and> hash \<notin> set t)"

text \<open>Only the last element of a chain has a fragment, and the fragment has no colon.\<close>

definition wf_fragment :: "bool \<Rightarrow> uri_element \<Rightarrow> bool" where
  "wf_fragment last_elem e \<longleftrightarrow>
     (case fragment_id e of None \<Rightarrow> True | Some f \<Rightarrow> last_elem \<and> colon \<notin> set f)"

fun wf_uri :: "vfs_env \<Rightarrow> bool \<Rightarrow> GnomeVFSURI \<Rightarrow> bool" where
  "wf_uri env lst (Toplevel e tinfo) \<longleftrightarrow>
     wf_method env e \<and> wf_text env e \<and> wf_fragment lst e \<and> wf_toplevel tinfo (the (elem_text e))
     \<and> method_string e \<noteq> ''pipe'' \<and> (\<forall>r. env_transform env (method_string e) r = None)"
| "wf_uri env lst (Child e p) \<longleftrightarrow>
     wf_method env e \<and> wf_text env e \<and> wf_fragment lst e \<and> elem_text e \<noteq> Some [] \<and> wf_uri env False p"

lemma wf_method_Some:
  "wf_method env e \<Longrightarrow> \<exists>m. env_method_get env (method_string e) = Some m \<and> uri_method e = Some m"
  unfolding wf_method_def by (metis option.exhaust)

lemma get_method_string_printed:
  assumes "wf_method env e"
  shows "get_method_string (method_string e @ colon # r) = (method_string e, r)"
proof -
  have "takeWhile is_scheme_char (method_string e @ colon # r) = method_string e"
    using assms by (subst takeWhile_append2) (auto simp: wf_method_def is_scheme_char_def ascii_defs)
  then show ?thesis using assms by (simp add: get_method_string_def wf_method_def)
qed

fun print_chain :: "uri_element list \<Rightarrow> string" where
  "print_chain [] = []"
| "print_chain (e # es) = ''#'' @ method_string e @ '':'' @ text_and_fragment 0 e @ print_chain es"

fun build_chain :: "GnomeVFSURI \<Rightarrow> uri_element list \<Rightarrow> GnomeVFSURI" where
  "build_chain p [] = p"
| "build_chain p (e # es) = build_chain (Child e p) es"

fun wf_chain :: "vfs_env \<Rightarrow> bool \<Rightarrow> uri_element list \<Rightarrow> bool" where
  "wf_chain env lst [] \<longleftrightarrow> True"
| "wf_chain env lst (e # es) \<longleftrightarrow>
     wf_method env e \<and> wf_text env e \<and> wf_fragment (lst \<and> es = []) e \<and> elem_text e \<noteq> Some []
     \<and> wf_chain env lst es"

lemma colon_in_chain: "es \<noteq> [] \<Longrightarrow> colon \<in> set (print_chain es)"
  by (cases es) auto

lemma hash_print_chain: "es \<noteq> [] \<Longrightarrow> \<exists>r. print_chain es = hash # r"
  by (cases es) auto

lemma set_child_printed:
  assumes "wf_method env e" "wf_text env e" "elem_text e = Some t" "t \<noteq> []"
  shows "set_uri_element_child env (new_element (method_string e) (uri_method e)) p (t @ r) (length t) =
         Child (e\<lparr>fragment_id := None\<rparr>) p"
  using assms by (auto simp: set_uri_element_child_def wf_text_def wf_method_def new_element_def)

lemma parse_chain:
  "wf_chain env True es \<Longrightarrow> es \<noteq> [] \<Longrightarrow>
   parse_uri_substring env (tl (print_chain es)) p = Some (build_chain p es)"
proof (induction es arbitrary: p)
  case (Cons e es)
  then have wm: "wf_method env e" and wt: "wf_text env e" and wf: "wf_fragment (es = []) e" by auto
  from wt Cons.prems(1) obtain t where t: "elem_text e = Some t" "t \<noteq> []" "hash \<notin> set t"
    by (auto simp: wf_text_def split: option.splits)
  define r where "r = (case fragment_id e of None \<Rightarrow> [] | Some f \<Rightarrow> hash # f) @ print_chain es"
  have s: "tl (print_chain (e # es)) = method_string e @ colon # t @ r"
    using t by (simp add: text_and_fragment_def r_def split: option.splits)
  obtain m where m: "env_method_get env (method_string e) = Some m" "uri_method e = Some m"
    using wf_method_Some [OF wm] by blast
  have ne: "c_at (method_string e @ colon # t @ r) 0 \<noteq> NUL"
    using wm by (cases "method_string e") (auto simp: wf_method_def is_scheme_char_def ascii_defs NUL_def)
  have step: "parse_uri_substring env (tl (print_chain (e # es))) p =
    (case strchr (t @ r) hash of
       None \<Rightarrow> Some (set_uri_element_child env (new_element (method_string e) (Some m)) p (t @ r) (length (t @ r)))
     | Some ext \<Rightarrow>
         (let uri = set_uri_element_child env (new_element (method_string e) (Some m)) p (t @ r) ext
          in if strchr (drop ext (t @ r)) colon = None
             then Some (set_fragment (drop (ext + 1) (t @ r)) uri)
             else (case parse_uri_substring env (drop (ext + 1) (t @ r)) uri of
                     None \<Rightarrow> Some uri | Some child \<Rightarrow> Some child)))"
    unfolding s using ne get_method_string_printed [OF wm, of "t @ r"] m
    by (subst parse_uri_substring.simps) simp
  have child: "set_uri_element_child env (new_element (method_string e) (Some m)) p (t @ r) (length t) =
        Child (e\<lparr>fragment_id := None\<rparr>) p" for r
    using set_child_printed [OF wm wt t(1,2)] m by simp
  show ?case
  proof (cases "es = []")
    case True
    show ?thesis
    proof (cases "fragment_id e")
      case None
      then show ?thesis using True step t child [of "[]"] by (simp add: r_def)
    next
      case (Some f)
      then have r: "r = hash # f" "colon \<notin> set f" using True wf by (simp_all add: r_def wf_fragment_def)
      then have "strchr (t @ r) hash = Some (length t)" using t by simp
      then show ?thesis using True step r child [of r] Some by simp
    qed
  next
    case False
    then have r: "r = print_chain es" using wf by (auto simp: r_def wf_fragment_def split: option.splits)
    obtain r' where r': "print_chain es = hash # r'" using hash_print_chain [OF False] by blast
    then have "strchr (t @ r) hash = Some (length t)" using t r by simp
    moreover have "strchr r colon \<noteq> None" using colon_in_chain [OF False] r strchr_None_iff [of colon r] by simp
    moreover have "parse_uri_substring env r' (Child e p) = Some (build_chain (Child e p) es)"
      using Cons.IH [of "Child e p"] Cons.prems False r' by simp
    moreover have "e\<lparr>fragment_id := None\<rparr> = e"
      using wf False by (auto simp: wf_fragment_def split: option.splits)
    ultimately show ?thesis using step r r' child [of r] by (auto simp: Let_def)
  qed
qed simp

lemma wf_chain_snoc:
  "wf_chain env lst (es @ [e]) \<longleftrightarrow>
     wf_chain env False es \<and> wf_method env e \<and> wf_text env e \<and> wf_fragment lst e \<and> elem_text e \<noteq> Some []"
  by (induction es) auto

lemma build_chain_snoc: "build_chain p (es @ [e]) = Child e (build_chain p es)"
  by (induction es arbitrary: p) auto

lemma print_chain_append: "print_chain (es @ es') = print_chain es @ print_chain es'"
  by (induction es) auto

lemma uri_as_chain:
  "wf_uri env lst u \<Longrightarrow> \<exists>e tinfo es. u = build_chain (Toplevel e tinfo) es
     \<and> gnome_vfs_uri_to_string u 0 = toplevel_to_string 0 e tinfo @ text_and_fragment 0 e @ print_chain es
     \<and> wf_uri env (lst \<and> es = []) (Toplevel e tinfo) \<and> wf_chain env lst es"
proof (induction u arbitrary: lst)
  case (Toplevel e tinfo)
  then show ?case by (intro exI [of _ e] exI [of _ tinfo] exI [of _ "[]"]) simp
next
  case (Child e p)
  then have "wf_uri env False p" by simp
  from Child.IH [OF this] obtain e' tinfo es where p: "p = build_chain (Toplevel e' tinfo) es"
      "gnome_vfs_uri_to_string p 0 = toplevel_to_string 0 e' tinfo @ text_and_fragment 0 e' @ print_chain es"
      "wf_uri env (False \<and> es = []) (Toplevel e' tinfo)" "wf_chain env False es"
    by blast
  then have "Child e p = build_chain (Toplevel e' tinfo) (es @ [e])" by (simp add: build_chain_snoc)
  moreover have "gnome_vfs_uri_to_string (Child e p) 0 =
      toplevel_to_string 0 e' tinfo @ text_and_fragment 0 e' @ print_chain (es @ [e])"
    using p(2) by (simp add: print_chain_append)
  moreover have "wf_uri env (lst \<and> es @ [e] = []) (Toplevel e' tinfo)" "wf_chain env lst (es @ [e])"
    using p(3,4) Child.prems by (simp_all add: wf_chain_snoc)
  ultimately show ?case by blast
qed

lemma toplevel_printed:
  assumes "wf_toplevel tinfo t" "elem_text e = Some t"
  shows "toplevel_to_string 0 e tinfo = method_string e @ colon # ''//'' @ authority tinfo"
proof (cases "host_name tinfo")
  case None
  then have "tinfo = empty_toplevel" "c_at t 0 = slash" using assms(1) by (simp_all add: wf_toplevel_def)
  then show ?thesis using assms(2) by (simp add: toplevel_to_string_def authority_def empty_toplevel_def)
next
  case (Some h)
  then show ?thesis
    by (cases "user_name tinfo"; cases "password tinfo")
       (simp_all add: toplevel_to_string_def authority_def userinfo_def host_tail_def)
qed

lemma hash_not_in_skips: "skips cs B \<Longrightarrow> hash \<in> set cs \<Longrightarrow> hash \<notin> set B"
  by (auto simp: skips_def)

lemma authority_no_hash:
  assumes "wf_toplevel tinfo t"
  shows "hash \<notin> set (authority tinfo)"
proof -
  have "hash \<notin> set (escape_part x)" "hash \<notin> set (decimal n)" for x n
    using hash_not_in_skips [OF escape_part_skips] hash_not_in_skips [OF digits_skip] by simp_all
  moreover have "wf_host h \<Longrightarrow> hash \<notin> set (host_to_string h)" for h
    by (auto simp: wf_host_def host_to_string_def skips_def)
  ultimately show ?thesis using assms
    by (auto simp: authority_def wf_toplevel_def userinfo_def host_tail_def split: option.splits)
qed

lemma set_toplevel_printed:
  assumes "wf_method env e" "wf_text env e" "elem_text e = Some t" "wf_toplevel tinfo t" "r = [] \<or> c_at r 0 = hash"
  shows "set_uri_element_toplevel env (new_element (method_string e) (uri_method e))
           (''//'' @ authority tinfo @ t @ r) (length (''//'' @ authority tinfo @ t)) =
         Toplevel (e\<lparr>fragment_id := None\<rparr>) tinfo"
  using assms split_toplevel_printed [OF assms(4,5)]
  by (simp add: set_uri_element_toplevel_def wf_text_def wf_method_def new_element_def)

lemma parse_print_chain:
  assumes wu: "wf_uri env (es = []) (Toplevel e tinfo)" and wc: "wf_chain env True es"
  shows "gnome_vfs_uri_new env (Some (toplevel_to_string 0 e tinfo @ text_and_fragment 0 e @ print_chain es))
           = Some (build_chain (Toplevel e tinfo) es)"
proof -
  have wm: "wf_method env e" and wt: "wf_text env e" and wf: "wf_fragment (es = []) e"
    and wtop: "wf_toplevel tinfo (the (elem_text e))" and nopipe: "method_string e \<noteq> ''pipe''"
    and notr: "\<And>r. env_transform env (method_string e) r = None"
    using wu by auto
  from wt obtain t where t: "elem_text e = Some t" "hash \<notin> set t"
    by (auto simp: wf_text_def split: option.splits)
  define r where "r = (case fragment_id e of None \<Rightarrow> [] | Some f \<Rightarrow> hash # f) @ print_chain es"
  define sc where "sc = ''//'' @ authority tinfo @ t"
  have wtop': "wf_toplevel tinfo t" using wtop t by simp
  have s: "toplevel_to_string 0 e tinfo @ text_and_fragment 0 e @ print_chain es = method_string e @ colon # sc @ r"
    using t toplevel_printed [OF wtop' t(1)] by (simp add: text_and_fragment_def r_def sc_def split: option.splits)
  obtain m where m: "env_method_get env (method_string e) = Some m" "uri_method e = Some m"
    using wf_method_Some [OF wm] by blast
  have ne: "c_at (method_string e @ colon # sc @ r) 0 \<noteq> NUL"
    using wm by (cases "method_string e") (auto simp: wf_method_def is_scheme_char_def ascii_defs NUL_def)
  have hsc: "hash \<notin> set sc" using authority_no_hash [OF wtop'] t by (simp add: sc_def)
  have step: "gnome_vfs_uri_new env (Some (method_string e @ colon # sc @ r)) =
    (case strchr (sc @ r) hash of
       None \<Rightarrow> Some (set_uri_element_toplevel env (new_element (method_string e) (Some m)) (sc @ r) (length (sc @ r)))
     | Some ext \<Rightarrow>
         (let uri = set_uri_element_toplevel env (new_element (method_string e) (Some m)) (sc @ r) ext
          in if strchr (drop ext (sc @ r)) colon = None
             then Some (set_fragment (drop (ext + 1) (sc @ r)) uri)
             else (case parse_uri_substring env (drop (ext + 1) (sc @ r)) uri of
                     None \<Rightarrow> Some uri | Some child \<Rightarrow> Some child)))"
    using ne get_method_string_printed [OF wm, of "sc @ r"] m nopipe notr [of "sc @ r"]
    by (cases "strchr (sc @ r) hash")
       (simp_all add: gnome_vfs_uri_new_def gnome_vfs_uri_new_private_def Let_def)
  have top: "set_uri_element_toplevel env (new_element (method_string e) (Some m)) (sc @ r) (length sc) =
        Toplevel (e\<lparr>fragment_id := None\<rparr>) tinfo" if "r = [] \<or> c_at r 0 = hash" for r
    using set_toplevel_printed [OF wm wt t(1) wtop' that] m by (simp add: sc_def)
  show ?thesis
  proof (cases "es = []")
    case True
    show ?thesis
    proof (cases "fragment_id e")
      case None
      then have "e\<lparr>fragment_id := None\<rparr> = e" by simp
      then show ?thesis using None True s step hsc top [of "[]"] by (simp add: r_def)
    next
      case (Some f)
      then have r: "r = hash # f" "colon \<notin> set f" using True wf by (simp_all add: r_def wf_fragment_def)
      then have "strchr (sc @ r) hash = Some (length sc)" using hsc by simp
      then show ?thesis using True s step r top [of r] Some by simp
    qed
  next
    case False
    then have r: "r = print_chain es" using wf by (auto simp: r_def wf_fragment_def split: option.splits)
    obtain r' where r': "print_chain es = hash # r'" using hash_print_chain [OF False] by blast
    then have "strchr (sc @ r) hash = Some (length sc)" using hsc r by simp
    moreover have "strchr r colon \<noteq> None" using colon_in_chain [OF False] r strchr_None_iff [of colon r] by simp
    moreover have "parse_uri_substring env r' (Toplevel e tinfo) = Some (build_chain (Toplevel e tinfo) es)"
      using parse_chain [OF wc False, of "Toplevel e tinfo"] r' by simp
    moreover have "e\<lparr>fragment_id := None\<rparr> = e"
      using wf False by (auto simp: wf_fragment_def split: option.splits)
    ultimately show ?thesis unfolding s using step r r' top [of r] by (auto simp: Let_def)
  qed
qed

text \<open>
  C1. Printing a URI and parsing the text gives the URI back, for every URI in the form the
  parser produces: any number of chained elements, any bytes in the user name and the
  password, IPv6 addresses, a port up to 0xffff, a fragment on the last element.
\<close>

theorem uri_roundtrip:
  assumes "wf_uri env True u"
  shows "gnome_vfs_uri_new env (Some (gnome_vfs_uri_to_string u GNOME_VFS_URI_HIDE_NONE)) = Some u"
proof -
  obtain e tinfo es where "u = build_chain (Toplevel e tinfo) es"
     "gnome_vfs_uri_to_string u 0 = toplevel_to_string 0 e tinfo @ text_and_fragment 0 e @ print_chain es"
     "wf_uri env (es = []) (Toplevel e tinfo)" "wf_chain env True es"
    using uri_as_chain [OF assms] by auto
  then show ?thesis using parse_print_chain [of env es e tinfo] by (simp add: hide_defs)
qed


definition sample_uri :: GnomeVFSURI where
  "sample_uri = Child
     \<lparr>elem_text = Some ''/m'', fragment_id = Some ''top'', method_string = ''gzip'', uri_method = Some 2, ref_count = 1\<rparr>
     (Toplevel
       \<lparr>elem_text = Some ''/d?q'', fragment_id = None, method_string = ''http'', uri_method = Some 1, ref_count = 1\<rparr>
       \<lparr>host_name = Some ''::1'', host_port = 80, user_name = Some ''a@b'', password = Some ''x:y''\<rparr>)"

lemma sample_texts:
  "normalize_text http_env ''http'' (Some ''/d?q'') = Some ''/d?q''"
  "normalize_text http_env ''gzip'' (Some ''/m'') = Some ''/m''"
  by code_simp+

lemma wf_sample_uri: "wf_uri http_env True sample_uri"
proof -
  have a: "''::1'' \<noteq> [] \<and> g_ascii_strdown ''::1'' = ''::1'' \<and> skips ''/@[]#'' ''::1''"
    by (simp add: g_ascii_strdown_def ascii_defs NUL_def)
  show ?thesis
    using a sample_texts
    by (simp add: sample_uri_def wf_method_def wf_text_def wf_fragment_def wf_toplevel_def wf_host_def
          wf_tail_def wf_secret_def http_env_def is_scheme_char_def ascii_defs g_ascii_strdown_def NUL_def)
qed

theorem uri_roundtrip_witness:
  "gnome_vfs_uri_new http_env (Some (gnome_vfs_uri_to_string sample_uri GNOME_VFS_URI_HIDE_NONE)) = Some sample_uri
   \<and> gnome_vfs_uri_to_string sample_uri GNOME_VFS_URI_HIDE_NONE =
       ''http://a%40b:x%3Ay@[::1]:80/d?q#gzip:/m#top''"
proof
  show "gnome_vfs_uri_new http_env (Some (gnome_vfs_uri_to_string sample_uri GNOME_VFS_URI_HIDE_NONE)) = Some sample_uri"
    by (rule uri_roundtrip [OF wf_sample_uri])
  show "gnome_vfs_uri_to_string sample_uri GNOME_VFS_URI_HIDE_NONE = ''http://a%40b:x%3Ay@[::1]:80/d?q#gzip:/m#top''"
    by code_simp
qed

end
