(* ===== verification/VFS_Async_Ops.thy ===== *)
theory VFS_Async_Ops
  imports VFS_Async_Cancel VFS_URI_Text
begin

text \<open>
  The application's entry points (\<^verbatim>\<open>libgnomevfs/gnome-vfs-async-ops.c\<close>): each checks its
  arguments, starts a job (or reuses the job of a handle) and hands out the job's handle.
  A missing \<^verbatim>\<open>handle_return\<close> is not modelled (it is the caller's own variable); a missing
  callback or URI is \<open>None\<close>. The result of a call that starts a job is the value stored in
  \<^verbatim>\<open>*handle_return\<close> (\<open>None\<close>: left alone) and the state. \<open>pushed\<close> is what the thread pool
  answers.
\<close>

section \<open>Starting jobs\<close>

type_synonym started = "guint option \<times> async_state"

definition priority_ok :: "int \<Rightarrow> bool" where
  "priority_ok prio \<longleftrightarrow> GNOME_VFS_PRIORITY_MIN \<le> prio \<and> prio \<le> GNOME_VFS_PRIORITY_MAX"

text \<open>
  A new job is made, its handle \<^verbatim>\<open>job->job_handle\<close> is read, and only then is the job scheduled,
  which may free it. (Making the job while the job map is shutting down fails an assertion.)
\<close>

definition start_with_handle :: "GnomeVFSSpecificOp \<Rightarrow> int \<Rightarrow> nat \<Rightarrow> bool \<Rightarrow> async_state \<Rightarrow> started" where
  "start_with_handle spec prio cb pushed s =
     (let (job, s1) = gnome_vfs_job_new (op_kind spec) prio (App_Callback cb) spec s
      in if fault s1 \<noteq> None then (None, s1)
         else (map_option job_handle (jobs s1 job), gnome_vfs_job_go pushed job s1))"

definition async_open ::
    "GnomeVFSURI option \<Rightarrow> guint \<Rightarrow> int \<Rightarrow> nat \<Rightarrow> bool \<Rightarrow> async_state \<Rightarrow> started" where
  "async_open uri open_mode prio cb pushed s = start_with_handle (OpenOp uri open_mode) prio cb pushed s"

definition gnome_vfs_async_open_uri ::
    "GnomeVFSURI option \<Rightarrow> guint \<Rightarrow> int \<Rightarrow> nat option \<Rightarrow> bool \<Rightarrow> async_state \<Rightarrow> started" where
  "gnome_vfs_async_open_uri uri open_mode prio callback pushed s =
     (case (uri, callback) of
        (Some u, Some cb) \<Rightarrow> if priority_ok prio then async_open (Some u) open_mode prio cb pushed s else (None, s)
      | _ \<Rightarrow> (None, s))"

definition gnome_vfs_async_open ::
    "vfs_env \<Rightarrow> string option \<Rightarrow> guint \<Rightarrow> int \<Rightarrow> nat option \<Rightarrow> bool \<Rightarrow> async_state \<Rightarrow> started" where
  "gnome_vfs_async_open env text_uri open_mode prio callback pushed s =
     (case (text_uri, callback) of
        (Some t, Some cb) \<Rightarrow>
          if priority_ok prio then async_open (gnome_vfs_uri_new env (Some t)) open_mode prio cb pushed s else (None, s)
      | _ \<Rightarrow> (None, s))"

definition async_open_as_channel ::
    "GnomeVFSURI option \<Rightarrow> guint \<Rightarrow> guint \<Rightarrow> int \<Rightarrow> nat \<Rightarrow> bool \<Rightarrow> async_state \<Rightarrow> started" where
  "async_open_as_channel uri open_mode advised_block_size prio cb pushed s =
     start_with_handle (OpenAsChannelOp uri open_mode advised_block_size) prio cb pushed s"

definition gnome_vfs_async_open_uri_as_channel ::
    "GnomeVFSURI option \<Rightarrow> guint \<Rightarrow> guint \<Rightarrow> int \<Rightarrow> nat option \<Rightarrow> bool \<Rightarrow> async_state \<Rightarrow> started" where
  "gnome_vfs_async_open_uri_as_channel uri open_mode advised_block_size prio callback pushed s =
     (case (uri, callback) of
        (Some u, Some cb) \<Rightarrow>
          if priority_ok prio then async_open_as_channel (Some u) open_mode advised_block_size prio cb pushed s else (None, s)
      | _ \<Rightarrow> (None, s))"

definition gnome_vfs_async_open_as_channel ::
    "vfs_env \<Rightarrow> string option \<Rightarrow> guint \<Rightarrow> guint \<Rightarrow> int \<Rightarrow> nat option \<Rightarrow> bool \<Rightarrow> async_state \<Rightarrow> started" where
  "gnome_vfs_async_open_as_channel env text_uri open_mode advised_block_size prio callback pushed s =
     (case (text_uri, callback) of
        (Some t, Some cb) \<Rightarrow>
          if priority_ok prio
          then async_open_as_channel (gnome_vfs_uri_new env (Some t)) open_mode advised_block_size prio cb pushed s
          else (None, s)
      | _ \<Rightarrow> (None, s))"

definition async_create ::
    "GnomeVFSURI option \<Rightarrow> guint \<Rightarrow> bool \<Rightarrow> guint \<Rightarrow> int \<Rightarrow> nat \<Rightarrow> bool \<Rightarrow> async_state \<Rightarrow> started" where
  "async_create uri open_mode exclusive perm prio cb pushed s =
     start_with_handle (CreateOp uri open_mode exclusive perm) prio cb pushed s"

definition gnome_vfs_async_create_uri ::
    "GnomeVFSURI option \<Rightarrow> guint \<Rightarrow> bool \<Rightarrow> guint \<Rightarrow> int \<Rightarrow> nat option \<Rightarrow> bool \<Rightarrow> async_state \<Rightarrow> started" where
  "gnome_vfs_async_create_uri uri open_mode exclusive perm prio callback pushed s =
     (case (uri, callback) of
        (Some u, Some cb) \<Rightarrow>
          if priority_ok prio then async_create (Some u) open_mode exclusive perm prio cb pushed s else (None, s)
      | _ \<Rightarrow> (None, s))"

definition gnome_vfs_async_create ::
    "vfs_env \<Rightarrow> string option \<Rightarrow> guint \<Rightarrow> bool \<Rightarrow> guint \<Rightarrow> int \<Rightarrow> nat option \<Rightarrow> bool \<Rightarrow> async_state \<Rightarrow> started" where
  "gnome_vfs_async_create env text_uri open_mode exclusive perm prio callback pushed s =
     (case (text_uri, callback) of
        (Some t, Some cb) \<Rightarrow>
          if priority_ok prio
          then async_create (gnome_vfs_uri_new env (Some t)) open_mode exclusive perm prio cb pushed s
          else (None, s)
      | _ \<Rightarrow> (None, s))"

definition gnome_vfs_async_create_uri_as_channel ::
    "GnomeVFSURI option \<Rightarrow> guint \<Rightarrow> bool \<Rightarrow> guint \<Rightarrow> int \<Rightarrow> nat option \<Rightarrow> bool \<Rightarrow> async_state \<Rightarrow> started" where
  "gnome_vfs_async_create_uri_as_channel uri open_mode exclusive perm prio callback pushed s =
     (case (uri, callback) of
        (Some u, Some cb) \<Rightarrow>
          if priority_ok prio
          then start_with_handle (CreateAsChannelOp (Some u) open_mode exclusive perm) prio cb pushed s
          else (None, s)
      | _ \<Rightarrow> (None, s))"

definition gnome_vfs_async_create_as_channel ::
    "vfs_env \<Rightarrow> string option \<Rightarrow> guint \<Rightarrow> bool \<Rightarrow> guint \<Rightarrow> int \<Rightarrow> nat option \<Rightarrow> bool \<Rightarrow> async_state \<Rightarrow> started" where
  "gnome_vfs_async_create_as_channel env text_uri open_mode exclusive perm prio callback pushed s =
     (case text_uri of
        None \<Rightarrow> (None, s)
      | Some t \<Rightarrow>
          gnome_vfs_async_create_uri_as_channel (gnome_vfs_uri_new env (Some t)) open_mode exclusive perm prio callback pushed s)"

definition gnome_vfs_async_create_symbolic_link ::
    "GnomeVFSURI option \<Rightarrow> string \<Rightarrow> int \<Rightarrow> nat option \<Rightarrow> bool \<Rightarrow> async_state \<Rightarrow> started" where
  "gnome_vfs_async_create_symbolic_link uri uri_reference prio callback pushed s =
     (case (uri, callback) of
        (Some u, Some cb) \<Rightarrow>
          if priority_ok prio then start_with_handle (CreateLinkOp u uri_reference) prio cb pushed s else (None, s)
      | _ \<Rightarrow> (None, s))"

definition gnome_vfs_async_get_file_info ::
    "GnomeVFSURI list \<Rightarrow> guint \<Rightarrow> int \<Rightarrow> nat option \<Rightarrow> bool \<Rightarrow> async_state \<Rightarrow> started" where
  "gnome_vfs_async_get_file_info uri_list options prio callback pushed s =
     (case callback of
        Some cb \<Rightarrow> if priority_ok prio then start_with_handle (GetFileInfoOp uri_list options) prio cb pushed s else (None, s)
      | None \<Rightarrow> (None, s))"

definition gnome_vfs_async_set_file_info ::
    "GnomeVFSURI option \<Rightarrow> GnomeVFSFileInfo option \<Rightarrow> guint \<Rightarrow> guint \<Rightarrow> int \<Rightarrow> nat option \<Rightarrow> bool \<Rightarrow> async_state \<Rightarrow> started" where
  "gnome_vfs_async_set_file_info uri info mask_bits options prio callback pushed s =
     (case (uri, info, callback) of
        (Some u, Some i, Some cb) \<Rightarrow>
          if priority_ok prio
          then start_with_handle (SetFileInfoOp u (gnome_vfs_file_info_copy gnome_vfs_file_info_new i) mask_bits options)
                 prio cb pushed s
          else (None, s)
      | _ \<Rightarrow> (None, s))"

definition gnome_vfs_async_find_directory ::
    "GnomeVFSURI list \<Rightarrow> nat \<Rightarrow> bool \<Rightarrow> bool \<Rightarrow> guint \<Rightarrow> int \<Rightarrow> nat option \<Rightarrow> bool \<Rightarrow> async_state \<Rightarrow> started" where
  "gnome_vfs_async_find_directory near_uri_list kind create_if_needed find_if_needed perm prio callback pushed s =
     (case callback of
        Some cb \<Rightarrow>
          if priority_ok prio
          then start_with_handle (FindDirectoryOp near_uri_list kind create_if_needed find_if_needed perm) prio cb pushed s
          else (None, s)
      | None \<Rightarrow> (None, s))"

definition async_load_directory ::
    "GnomeVFSURI option \<Rightarrow> guint \<Rightarrow> guint \<Rightarrow> int \<Rightarrow> nat \<Rightarrow> bool \<Rightarrow> async_state \<Rightarrow> started" where
  "async_load_directory uri options items_per_notification prio cb pushed s =
     start_with_handle (LoadDirectoryOp uri options items_per_notification) prio cb pushed s"

definition gnome_vfs_async_load_directory ::
    "vfs_env \<Rightarrow> string option \<Rightarrow> guint \<Rightarrow> guint \<Rightarrow> int \<Rightarrow> nat option \<Rightarrow> bool \<Rightarrow> async_state \<Rightarrow> started" where
  "gnome_vfs_async_load_directory env text_uri options items_per_notification prio callback pushed s =
     (case (text_uri, callback) of
        (Some t, Some cb) \<Rightarrow>
          if priority_ok prio
          then async_load_directory (gnome_vfs_uri_new env (Some t)) options items_per_notification prio cb pushed s
          else (None, s)
      | _ \<Rightarrow> (None, s))"

definition gnome_vfs_async_load_directory_uri ::
    "GnomeVFSURI option \<Rightarrow> guint \<Rightarrow> guint \<Rightarrow> int \<Rightarrow> nat option \<Rightarrow> bool \<Rightarrow> async_state \<Rightarrow> started" where
  "gnome_vfs_async_load_directory_uri uri options items_per_notification prio callback pushed s =
     (case (uri, callback) of
        (Some u, Some cb) \<Rightarrow>
          if priority_ok prio then async_load_directory (Some u) options items_per_notification prio cb pushed s else (None, s)
      | _ \<Rightarrow> (None, s))"

text \<open>The transfer also returns a result.\<close>

definition gnome_vfs_async_xfer ::
    "GnomeVFSURI list \<Rightarrow> GnomeVFSURI list \<Rightarrow> guint \<Rightarrow> nat \<Rightarrow> nat \<Rightarrow> int \<Rightarrow> nat option \<Rightarrow> bool \<Rightarrow> async_state
      \<Rightarrow> GnomeVFSResult \<times> started" where
  "gnome_vfs_async_xfer source_uri_list target_uri_list xfer_options error_mode overwrite_mode prio callback pushed s =
     (case callback of
        Some cb \<Rightarrow>
          if priority_ok prio
          then (GNOME_VFS_OK,
                start_with_handle (XferOp source_uri_list target_uri_list xfer_options error_mode overwrite_mode) prio cb pushed s)
          else (GNOME_VFS_ERROR_BAD_PARAMETERS, None, s)
      | None \<Rightarrow> (GNOME_VFS_ERROR_BAD_PARAMETERS, None, s))"

section \<open>Operations on a handle\<close>

text \<open>A handle is not \<^verbatim>\<open>NULL\<close>, so not the number 0; a buffer is named by a number.\<close>

definition gnome_vfs_async_read ::
    "guint \<Rightarrow> nat option \<Rightarrow> guint \<Rightarrow> nat option \<Rightarrow> bool \<Rightarrow> async_state \<Rightarrow> async_state option" where
  "gnome_vfs_async_read handle buffer bytes callback pushed s =
     (case (buffer, callback) of
        (Some b, Some cb) \<Rightarrow> if handle = 0 then Some s else async_on_handle handle (ReadOp b (ucast bytes)) cb pushed s
      | _ \<Rightarrow> Some s)"

definition gnome_vfs_async_write ::
    "guint \<Rightarrow> nat option \<Rightarrow> guint \<Rightarrow> nat option \<Rightarrow> bool \<Rightarrow> async_state \<Rightarrow> async_state option" where
  "gnome_vfs_async_write handle buffer bytes callback pushed s =
     (case (buffer, callback) of
        (Some b, Some cb) \<Rightarrow> if handle = 0 then Some s else async_on_handle handle (WriteOp b (ucast bytes)) cb pushed s
      | _ \<Rightarrow> Some s)"

definition gnome_vfs_async_seek ::
    "guint \<Rightarrow> nat \<Rightarrow> int \<Rightarrow> nat option \<Rightarrow> bool \<Rightarrow> async_state \<Rightarrow> async_state option" where
  "gnome_vfs_async_seek handle whence offset callback pushed s =
     (case callback of
        Some cb \<Rightarrow> if handle = 0 then Some s else async_on_handle handle (SeekOp whence offset) cb pushed s
      | None \<Rightarrow> Some s)"

definition gnome_vfs_async_file_control ::
    "guint \<Rightarrow> string option \<Rightarrow> nat \<Rightarrow> nat option \<Rightarrow> bool \<Rightarrow> async_state \<Rightarrow> async_state option" where
  "gnome_vfs_async_file_control handle operation operation_data callback pushed s =
     (case (operation, callback) of
        (Some oper, Some cb) \<Rightarrow>
          if handle = 0 then Some s else async_on_handle handle (FileControlOp oper operation_data) cb pushed s
      | _ \<Rightarrow> Some s)"

lemmas starting_defs =
  gnome_vfs_async_open_uri_def gnome_vfs_async_open_def gnome_vfs_async_open_uri_as_channel_def
  gnome_vfs_async_open_as_channel_def gnome_vfs_async_create_uri_def gnome_vfs_async_create_def
  gnome_vfs_async_create_uri_as_channel_def gnome_vfs_async_create_as_channel_def
  gnome_vfs_async_load_directory_def gnome_vfs_async_load_directory_uri_def async_open_def async_open_as_channel_def
  async_create_def async_load_directory_def

section \<open>Properties\<close>

text \<open>Up to the handle, a starting call is the event of a run that starts the job.\<close>

lemma start_with_handle_start: "priority_ok prio \<Longrightarrow> snd (start_with_handle spec prio cb pushed s) = async_start spec prio cb pushed s"
  by (auto simp: start_with_handle_def async_start_def priority_ok_def split: prod.splits)

text \<open>The handle that is read is the new job's, and the next one in number.\<close>

lemma start_handle:
  assumes "start_with_handle spec prio cb pushed s = (Some h, t)"
  shows "h = async_job_map_next_id s + 1"
proof -
  obtain a s1 where new: "gnome_vfs_job_new (op_kind spec) prio (App_Callback cb) spec s = (a, s1)" by fastforce
  with assms have "fault s1 = None" "map_option job_handle (jobs s1 a) = Some h"
    by (auto simp: start_with_handle_def split: if_splits)
  with new show ?thesis by (auto elim!: job_new_cases split: if_splits)
qed

text \<open>The calls that start a job, with all their arguments.\<close>

datatype start_call =
    Call_Open_URI "GnomeVFSURI option" guint int "nat option" bool
  | Call_Open vfs_env "string option" guint int "nat option" bool
  | Call_Open_URI_As_Channel "GnomeVFSURI option" guint guint int "nat option" bool
  | Call_Open_As_Channel vfs_env "string option" guint guint int "nat option" bool
  | Call_Create_URI "GnomeVFSURI option" guint bool guint int "nat option" bool
  | Call_Create vfs_env "string option" guint bool guint int "nat option" bool
  | Call_Create_URI_As_Channel "GnomeVFSURI option" guint bool guint int "nat option" bool
  | Call_Create_As_Channel vfs_env "string option" guint bool guint int "nat option" bool
  | Call_Create_Symbolic_Link "GnomeVFSURI option" string int "nat option" bool
  | Call_Get_File_Info "GnomeVFSURI list" guint int "nat option" bool
  | Call_Set_File_Info "GnomeVFSURI option" "GnomeVFSFileInfo option" guint guint int "nat option" bool
  | Call_Find_Directory "GnomeVFSURI list" nat bool bool guint int "nat option" bool
  | Call_Load_Directory vfs_env "string option" guint guint int "nat option" bool
  | Call_Load_Directory_URI "GnomeVFSURI option" guint guint int "nat option" bool
  | Call_Xfer "GnomeVFSURI list" "GnomeVFSURI list" guint nat nat int "nat option" bool

fun start_call_effect :: "start_call \<Rightarrow> async_state \<Rightarrow> started" where
  "start_call_effect (Call_Open_URI u m p cb x) s = gnome_vfs_async_open_uri u m p cb x s"
| "start_call_effect (Call_Open env t m p cb x) s = gnome_vfs_async_open env t m p cb x s"
| "start_call_effect (Call_Open_URI_As_Channel u m b p cb x) s = gnome_vfs_async_open_uri_as_channel u m b p cb x s"
| "start_call_effect (Call_Open_As_Channel env t m b p cb x) s = gnome_vfs_async_open_as_channel env t m b p cb x s"
| "start_call_effect (Call_Create_URI u m e r p cb x) s = gnome_vfs_async_create_uri u m e r p cb x s"
| "start_call_effect (Call_Create env t m e r p cb x) s = gnome_vfs_async_create env t m e r p cb x s"
| "start_call_effect (Call_Create_URI_As_Channel u m e r p cb x) s = gnome_vfs_async_create_uri_as_channel u m e r p cb x s"
| "start_call_effect (Call_Create_As_Channel env t m e r p cb x) s = gnome_vfs_async_create_as_channel env t m e r p cb x s"
| "start_call_effect (Call_Create_Symbolic_Link u ref p cb x) s = gnome_vfs_async_create_symbolic_link u ref p cb x s"
| "start_call_effect (Call_Get_File_Info us opts p cb x) s = gnome_vfs_async_get_file_info us opts p cb x s"
| "start_call_effect (Call_Set_File_Info u i m opts p cb x) s = gnome_vfs_async_set_file_info u i m opts p cb x s"
| "start_call_effect (Call_Find_Directory us k c f r p cb x) s = gnome_vfs_async_find_directory us k c f r p cb x s"
| "start_call_effect (Call_Load_Directory env t opts n p cb x) s = gnome_vfs_async_load_directory env t opts n p cb x s"
| "start_call_effect (Call_Load_Directory_URI u opts n p cb x) s = gnome_vfs_async_load_directory_uri u opts n p cb x s"
| "start_call_effect (Call_Xfer us vs opts em om p cb x) s = snd (gnome_vfs_async_xfer us vs opts em om p cb x s)"

lemma start_call_starts:
  assumes "start_call_effect c s = (Some h, t)"
  obtains spec prio cb pushed where "start_with_handle spec prio cb pushed s = (Some h, t)"
proof -
  have "\<exists>spec prio cb pushed. start_with_handle spec prio cb pushed s = (Some h, t)"
    using assms
    by (cases c)
       (auto simp: starting_defs gnome_vfs_async_create_symbolic_link_def gnome_vfs_async_get_file_info_def
          gnome_vfs_async_set_file_info_def gnome_vfs_async_find_directory_def gnome_vfs_async_xfer_def
          split: option.splits if_splits)
  with that show thesis by blast
qed

lemma async_inv_run:
  "async_run s es t \<Longrightarrow> async_inv s \<Longrightarrow> room s (length es + n) \<Longrightarrow> async_inv t \<and> room t n"
proof (induction rule: async_run.induct)
  case (step s e s' es s'')
  have r: "room s 1" "room s' (length es + n)"
    using step.prems(2) room_mono [of s _ 1] room_step [OF step.hyps(2)] by auto
  then show ?case using step.IH async_inv_step [OF step.hyps(2) step.prems(1) r(1)] by simp
qed simp

text \<open>
  C24. Each of the fifteen calls that start a job, made in any state that a run of fewer than
  \<open>2 ^ 32 - 1\<close> steps leads to: if it hands out a handle, the handle is not \<^verbatim>\<open>NULL\<close> and is the
  handle of no job that exists at that moment, so the handles of two jobs never coincide while
  both exist.
\<close>

theorem handles_are_fresh:
  assumes "async_run async_init es s" "length es < 2 ^ 32 - 1"
    "start_call_effect call s = (Some h, t)"
  shows "h \<noteq> 0 \<and> (\<forall>a j. jobs s a = Some j \<longrightarrow> job_handle j \<noteq> h)"
proof -
  have "room async_init (length es + 1)" using assms(2) by (intro async_init_ok(3)) simp
  then have s: "async_inv s" "room s 1" using async_inv_run [OF assms(1) async_init_ok(1)] by blast+
  then have "unat (async_job_map_next_id s + 1) = unat (async_job_map_next_id s) + 1"
    by (simp add: room_def unat_add_lem [THEN iffD1])
  moreover have "h = async_job_map_next_id s + 1"
    using assms(3) by (rule start_call_starts) (rule start_handle)
  moreover have "unat (job_handle j) \<le> unat (async_job_map_next_id s)" if "jobs s a = Some j" for a j
    using s(1) that by (auto simp: async_inv_def jobs_ok_def job_ok_def)
  ultimately show ?thesis by fastforce
qed

lemma loaded_then_open:
  "case async_exec async_init loaded of
     None \<Rightarrow> False
   | Some s \<Rightarrow> jobs s 0 \<noteq> None
     \<and> fst (start_call_effect (Call_Open http_env (Some ''http://h/x'') 1 0 (Some 9) True) s) = Some 2"
  unfolding loaded_def by code_simp

theorem handles_are_fresh_witness:
  "\<exists>s j. async_exec async_init loaded = Some s \<and> jobs s 0 = Some j \<and>
     fst (start_call_effect (Call_Open http_env (Some ''http://h/x'') 1 0 (Some 9) True) s) = Some 2 \<and> job_handle j \<noteq> 2"
proof -
  let ?call = "Call_Open http_env (Some ''http://h/x'') 1 0 (Some 9) True"
  obtain s j where s: "async_exec async_init loaded = Some s" "jobs s 0 = Some j" "fst (start_call_effect ?call s) = Some 2"
    using loaded_then_open by (auto split: option.splits)
  then have "start_call_effect ?call s = (Some 2, snd (start_call_effect ?call s))" by (metis prod.collapse)
  moreover have "length loaded < 2 ^ 32 - 1" by (simp add: loaded_def)
  ultimately show ?thesis using handles_are_fresh [OF async_exec_run [OF s(1)], of ?call 2] s by auto
qed

text \<open>
  A text that is not a URI makes \<^verbatim>\<open>gnome_vfs_async_create_as_channel\<close> do nothing, so its
  callback is never called, whereas \<^verbatim>\<open>gnome_vfs_async_open_as_channel\<close> starts a job for it,
  which reports the error.
\<close>

theorem create_as_channel_drops_bad_uri:
  assumes "gnome_vfs_uri_new env (Some t) = None" "priority_ok prio"
  shows "gnome_vfs_async_create_as_channel env (Some t) mode excl perm prio callback pushed s = (None, s)
     \<and> gnome_vfs_async_open_as_channel env (Some t) mode blk prio (Some cb) pushed s =
         start_with_handle (OpenAsChannelOp None mode blk) prio cb pushed s"
  using assms by (simp add: starting_defs)

theorem create_as_channel_drops_bad_uri_witness:
  "gnome_vfs_async_create_as_channel http_env (Some '''') 1 True 0 0 (Some 3) True async_init = (None, async_init)"
proof -
  have "gnome_vfs_uri_new http_env (Some '''') = None" by code_simp
  moreover have "priority_ok 0" by (simp add: priority_ok_def GNOME_VFS_PRIORITY_MIN_def GNOME_VFS_PRIORITY_MAX_def)
  ultimately show ?thesis
    using create_as_channel_drops_bad_uri [of http_env "''''" 0 1 True 0 "Some 3" True async_init] by simp
qed

end
