(* ===== verification/VFS_Socket.thy ===== *)
theory VFS_Socket
  imports VFS_Cancellation VFS_Result
begin

text \<open>
  Sockets: connections over system calls (\<^verbatim>\<open>libgnomevfs/gnome-vfs-inet-connection.c\<close>), the
  table of functions behind a socket (\<^verbatim>\<open>gnome-vfs-socket.c\<close>) and the buffers in front of it
  (\<^verbatim>\<open>gnome-vfs-socket-buffer.c\<close>). What a socket implementation promises is the locale
  \<open>socket_impl\<close>; the laws of the buffers are proved in it, and the connections interpret it.
  A cancellation that is requested while a call waits shows as the answer of \<^verbatim>\<open>select\<close>; the
  cancellation passed to a call is otherwise read as it is at its start.
\<close>

section \<open>Internet connections\<close>

text \<open>What the system calls answer. \<open>Read_Again\<close> is \<^verbatim>\<open>EAGAIN\<close> with the answer of the \<^verbatim>\<open>select\<close> that follows.\<close>

datatype select_answer = Select_Timeout | Select_Ready | Select_Cancelled | Select_Error errno_code

datatype read_answer = Read_Bytes string | Read_Again select_answer | Read_Error errno_code

datatype write_answer = Wrote nat | Write_Again select_answer | Write_Error errno_code

text \<open>
  A connection with the answers the kernel is going to give: after the last answer to a read
  comes the end of the stream, after the last answer to a write everything is accepted.
  \<open>ic_sent\<close> is what the kernel has accepted. The lists are finite, so a kernel that answers
  \<^verbatim>\<open>EINTR\<close>, or \<^verbatim>\<open>EAGAIN\<close> with a ready \<^verbatim>\<open>select\<close>, for ever is outside the model: there the two
  C loops, which have no bound on their retries (\<open>inet_read_loop_retries\<close>,
  \<open>inet_write_loop_retries\<close>), would not return. That every operation below returns is
  relative to this assumption.
\<close>

record GnomeVFSInetConnection =
  in_answers :: "read_answer list"
  out_answers :: "write_answer list"
  ic_sent :: string
  ic_timeout :: "(int \<times> int) option"
  ic_open :: bool

text \<open>\<open>has\<close>: a cancellation was passed; \<open>set\<close>: it is cancelled.\<close>

fun inet_read_loop :: "bool \<Rightarrow> bool \<Rightarrow> nat \<Rightarrow> read_answer list \<Rightarrow> GnomeVFSResult \<times> string \<times> read_answer list" where
  "inet_read_loop has_c is_set bytes [] = (GNOME_VFS_ERROR_EOF, [], [])"
| "inet_read_loop has_c is_set bytes (Read_Bytes s # rest) =
     (let d = take bytes s
      in (if d = [] then GNOME_VFS_ERROR_EOF else GNOME_VFS_OK, d,
          if length s \<le> bytes then rest else Read_Bytes (drop bytes s) # rest))"
| "inet_read_loop has_c is_set bytes (Read_Again a # rest) =
     (case a of
        Select_Timeout \<Rightarrow> (GNOME_VFS_ERROR_TIMEOUT, [], rest)
      | Select_Ready \<Rightarrow> inet_read_loop has_c is_set bytes rest
      | Select_Cancelled \<Rightarrow> if has_c then (GNOME_VFS_ERROR_CANCELLED, [], rest) else inet_read_loop has_c is_set bytes rest
      | Select_Error e \<Rightarrow>
          if is_set then (GNOME_VFS_ERROR_CANCELLED, [], rest)
          else if e = EINTR then inet_read_loop has_c is_set bytes rest
          else (gnome_vfs_result_from_errno_code e, [], rest))"
| "inet_read_loop has_c is_set bytes (Read_Error e # rest) =
     (if is_set then (GNOME_VFS_ERROR_CANCELLED, [], rest)
      else if e = EINTR then inet_read_loop has_c is_set bytes rest
      else (gnome_vfs_result_from_errno_code e, [], rest))"

definition gnome_vfs_inet_connection_read ::
    "GnomeVFSInetConnection \<Rightarrow> nat \<Rightarrow> GnomeVFSCancellation option \<Rightarrow> GnomeVFSResult \<times> string \<times> GnomeVFSInetConnection" where
  "gnome_vfs_inet_connection_read conn bytes cancel =
     (case inet_read_loop (cancel \<noteq> None) (gnome_vfs_cancellation_check cancel) bytes (in_answers conn) of
        (result, d, rest) \<Rightarrow> (result, d, conn\<lparr>in_answers := rest\<rparr>))"

fun inet_write_loop :: "bool \<Rightarrow> bool \<Rightarrow> nat \<Rightarrow> write_answer list \<Rightarrow> GnomeVFSResult \<times> nat \<times> write_answer list" where
  "inet_write_loop has_c is_set bytes [] = (GNOME_VFS_OK, bytes, [])"
| "inet_write_loop has_c is_set bytes (Wrote n # rest) = (GNOME_VFS_OK, min n bytes, rest)"
| "inet_write_loop has_c is_set bytes (Write_Again a # rest) =
     (case a of
        Select_Timeout \<Rightarrow> (GNOME_VFS_ERROR_TIMEOUT, 0, rest)
      | Select_Ready \<Rightarrow> inet_write_loop has_c is_set bytes rest
      | Select_Cancelled \<Rightarrow> if has_c then (GNOME_VFS_ERROR_CANCELLED, 0, rest) else inet_write_loop has_c is_set bytes rest
      | Select_Error e \<Rightarrow>
          if is_set then (GNOME_VFS_ERROR_CANCELLED, 0, rest)
          else if e = EINTR then inet_write_loop has_c is_set bytes rest
          else (gnome_vfs_result_from_errno_code e, 0, rest))"
| "inet_write_loop has_c is_set bytes (Write_Error e # rest) =
     (if is_set then (GNOME_VFS_ERROR_CANCELLED, 0, rest)
      else if e = EINTR then inet_write_loop has_c is_set bytes rest
      else (gnome_vfs_result_from_errno_code e, 0, rest))"

definition gnome_vfs_inet_connection_write ::
    "GnomeVFSInetConnection \<Rightarrow> string \<Rightarrow> GnomeVFSCancellation option \<Rightarrow> GnomeVFSResult \<times> nat \<times> GnomeVFSInetConnection" where
  "gnome_vfs_inet_connection_write conn buffer cancel =
     (case inet_write_loop (cancel \<noteq> None) (gnome_vfs_cancellation_check cancel) (length buffer) (out_answers conn) of
        (result, n, rest) \<Rightarrow> (result, n, conn\<lparr>out_answers := rest, ic_sent := ic_sent conn @ take n buffer\<rparr>))"

lemma inet_read_loop_retries:
  "inet_read_loop has_c False bytes (replicate k (Read_Error EINTR) @ rest) = inet_read_loop has_c False bytes rest"
  "inet_read_loop has_c is_set bytes (replicate k (Read_Again Select_Ready) @ rest) = inet_read_loop has_c is_set bytes rest"
  by (induction k) simp_all

lemma inet_write_loop_retries:
  "inet_write_loop has_c False bytes (replicate k (Write_Error EINTR) @ rest) = inet_write_loop has_c False bytes rest"
  "inet_write_loop has_c is_set bytes (replicate k (Write_Again Select_Ready) @ rest) = inet_write_loop has_c is_set bytes rest"
  by (induction k) simp_all

definition gnome_vfs_inet_connection_close :: "GnomeVFSInetConnection \<Rightarrow> GnomeVFSInetConnection" where
  "gnome_vfs_inet_connection_close conn = conn\<lparr>ic_open := False\<rparr>"

definition gnome_vfs_inet_connection_set_timeout ::
    "GnomeVFSInetConnection \<Rightarrow> (int \<times> int) option \<Rightarrow> GnomeVFSResult \<times> GnomeVFSInetConnection" where
  "gnome_vfs_inet_connection_set_timeout conn timeout = (GNOME_VFS_OK, conn\<lparr>ic_timeout := timeout\<rparr>)"

section \<open>Sockets\<close>

record 'c GnomeVFSSocketImpl =
  impl_read :: "'c \<Rightarrow> nat \<Rightarrow> GnomeVFSCancellation option \<Rightarrow> GnomeVFSResult \<times> string \<times> 'c"
  impl_write :: "'c \<Rightarrow> string \<Rightarrow> GnomeVFSCancellation option \<Rightarrow> GnomeVFSResult \<times> nat \<times> 'c"
  impl_close :: "'c \<Rightarrow> 'c"
  impl_set_timeout :: "'c \<Rightarrow> (int \<times> int) option \<Rightarrow> GnomeVFSResult \<times> 'c"

record 'c GnomeVFSSocket =
  sock_impl :: "'c GnomeVFSSocketImpl"
  sock_connection :: 'c

definition gnome_vfs_socket_new :: "'c GnomeVFSSocketImpl \<Rightarrow> 'c \<Rightarrow> 'c GnomeVFSSocket" where
  "gnome_vfs_socket_new impl conn = \<lparr>sock_impl = impl, sock_connection = conn\<rparr>"

definition gnome_vfs_socket_write ::
    "'c GnomeVFSSocket \<Rightarrow> string \<Rightarrow> GnomeVFSCancellation option \<Rightarrow> GnomeVFSResult \<times> nat \<times> 'c GnomeVFSSocket" where
  "gnome_vfs_socket_write sock buffer cancel =
     (if gnome_vfs_cancellation_check cancel then (GNOME_VFS_ERROR_CANCELLED, 0, sock)
      else case impl_write (sock_impl sock) (sock_connection sock) buffer cancel of
             (result, n, conn) \<Rightarrow> (result, n, sock\<lparr>sock_connection := conn\<rparr>))"

definition gnome_vfs_socket_read ::
    "'c GnomeVFSSocket \<Rightarrow> nat \<Rightarrow> GnomeVFSCancellation option \<Rightarrow> GnomeVFSResult \<times> string \<times> 'c GnomeVFSSocket" where
  "gnome_vfs_socket_read sock bytes cancel =
     (if gnome_vfs_cancellation_check cancel then (GNOME_VFS_ERROR_CANCELLED, [], sock)
      else case impl_read (sock_impl sock) (sock_connection sock) bytes cancel of
             (result, d, conn) \<Rightarrow> (result, d, sock\<lparr>sock_connection := conn\<rparr>))"

definition gnome_vfs_socket_close :: "'c GnomeVFSSocket \<Rightarrow> GnomeVFSResult \<times> 'c" where
  "gnome_vfs_socket_close sock = (GNOME_VFS_OK, impl_close (sock_impl sock) (sock_connection sock))"

definition gnome_vfs_socket_set_timeout ::
    "'c GnomeVFSSocket \<Rightarrow> (int \<times> int) option \<Rightarrow> GnomeVFSResult \<times> 'c GnomeVFSSocket" where
  "gnome_vfs_socket_set_timeout sock timeout =
     (case impl_set_timeout (sock_impl sock) (sock_connection sock) timeout of
        (result, conn) \<Rightarrow> (result, sock\<lparr>sock_connection := conn\<rparr>))"

definition inet_connection_socket_impl :: "GnomeVFSInetConnection GnomeVFSSocketImpl" where
  "inet_connection_socket_impl =
     \<lparr>impl_read = gnome_vfs_inet_connection_read, impl_write = gnome_vfs_inet_connection_write,
      impl_close = gnome_vfs_inet_connection_close, impl_set_timeout = gnome_vfs_inet_connection_set_timeout\<rparr>"

definition gnome_vfs_inet_connection_to_socket :: "GnomeVFSInetConnection \<Rightarrow> GnomeVFSInetConnection GnomeVFSSocket" where
  "gnome_vfs_inet_connection_to_socket conn = gnome_vfs_socket_new inet_connection_socket_impl conn"

section \<open>Buffers\<close>

definition BUFFER_SIZE :: nat where "BUFFER_SIZE = 4096"

text \<open>\<open>bdata\<close> is the array, always \<open>BUFFER_SIZE\<close> long.\<close>

record Buffer =
  bdata :: string
  offset :: nat
  byte_count :: nat
  last_error :: GnomeVFSResult

record 'c GnomeVFSSocketBuffer =
  socket :: "'c GnomeVFSSocket"
  input_buffer :: Buffer
  output_buffer :: Buffer

text \<open>\<^verbatim>\<open>memcpy\<close> of bytes into an array at a position, and out of it.\<close>

definition poke :: "string \<Rightarrow> nat \<Rightarrow> string \<Rightarrow> string" where
  "poke mem pos bytes = take pos mem @ bytes @ drop (pos + length bytes) mem"

definition peek :: "string \<Rightarrow> nat \<Rightarrow> nat \<Rightarrow> string" where
  "peek mem pos n = take n (drop pos mem)"

text \<open>\<open>mem\<close>: what the allocated array happens to hold.\<close>

definition buffer_init :: "string \<Rightarrow> Buffer" where
  "buffer_init mem = \<lparr>bdata = mem, offset = 0, byte_count = 0, last_error = GNOME_VFS_OK\<rparr>"

definition gnome_vfs_socket_buffer_new :: "string \<Rightarrow> string \<Rightarrow> 'c GnomeVFSSocket \<Rightarrow> 'c GnomeVFSSocketBuffer" where
  "gnome_vfs_socket_buffer_new mem1 mem2 sock =
     \<lparr>socket = sock, input_buffer = buffer_init mem1, output_buffer = buffer_init mem2\<rparr>"

definition refill_input_buffer ::
    "'c GnomeVFSSocketBuffer \<Rightarrow> GnomeVFSCancellation option \<Rightarrow> bool \<times> 'c GnomeVFSSocketBuffer" where
  "refill_input_buffer sb cancel =
     (let ib = input_buffer sb
      in if last_error ib \<noteq> GNOME_VFS_OK then (False, sb)
         else
           (let ib1 = (if offset ib > 0
                       then ib\<lparr>bdata := poke (bdata ib) 0 (peek (bdata ib) (offset ib) (byte_count ib)), offset := 0\<rparr>
                       else ib)
            in case gnome_vfs_socket_read (socket sb) (BUFFER_SIZE - byte_count ib1) cancel of
                 (result, d, sock) \<Rightarrow>
                   (if result \<noteq> GNOME_VFS_OK
                    then (False, sb\<lparr>socket := sock, input_buffer := ib1\<lparr>last_error := result\<rparr>\<rparr>)
                    else (True, sb\<lparr>socket := sock,
                                   input_buffer := ib1\<lparr>bdata := poke (bdata ib1) (byte_count ib1) d,
                                                       byte_count := byte_count ib1 + length d\<rparr>\<rparr>))))"

text \<open>The error of an earlier refill is reported once, when the buffer is empty.\<close>

definition refill_if_empty ::
    "'c GnomeVFSSocketBuffer \<Rightarrow> GnomeVFSCancellation option \<Rightarrow> GnomeVFSResult \<times> 'c GnomeVFSSocketBuffer" where
  "refill_if_empty sb cancel =
     (if byte_count (input_buffer sb) = 0 then
        (case refill_input_buffer sb cancel of
           (True, sb1) \<Rightarrow> (GNOME_VFS_OK, sb1)
         | (False, sb1) \<Rightarrow> (last_error (input_buffer sb1),
                            sb1\<lparr>input_buffer := (input_buffer sb1)\<lparr>last_error := GNOME_VFS_OK\<rparr>\<rparr>))
      else (GNOME_VFS_OK, sb))"

text \<open>Takes \<open>n\<close> bytes out of the buffer.\<close>

definition consume :: "nat \<Rightarrow> 'c GnomeVFSSocketBuffer \<Rightarrow> string \<times> 'c GnomeVFSSocketBuffer" where
  "consume n sb =
     (let ib = input_buffer sb
      in (peek (bdata ib) (offset ib) n,
          sb\<lparr>input_buffer := ib\<lparr>byte_count := byte_count ib - n, offset := offset ib + n\<rparr>\<rparr>))"

definition gnome_vfs_socket_buffer_read ::
    "'c GnomeVFSSocketBuffer \<Rightarrow> nat \<Rightarrow> GnomeVFSCancellation option
      \<Rightarrow> GnomeVFSResult \<times> string \<times> 'c GnomeVFSSocketBuffer" where
  "gnome_vfs_socket_buffer_read sb bytes cancel =
     (if bytes = 0 then (GNOME_VFS_OK, [], sb)
      else
        (case refill_if_empty sb cancel of
           (result, sb1) \<Rightarrow>
             if byte_count (input_buffer sb1) \<noteq> 0
             then (case consume (min bytes (byte_count (input_buffer sb1))) sb1 of (d, sb2) \<Rightarrow> (result, d, sb2))
             else (result, [], sb1)))"

text \<open>The result is the character, if there is no error.\<close>

definition gnome_vfs_socket_buffer_peekc ::
    "'c GnomeVFSSocketBuffer \<Rightarrow> GnomeVFSCancellation option \<Rightarrow> GnomeVFSResult \<times> char option \<times> 'c GnomeVFSSocketBuffer" where
  "gnome_vfs_socket_buffer_peekc sb cancel =
     (case refill_if_empty sb cancel of
        (result, sb1) \<Rightarrow>
          (result, if result = GNOME_VFS_OK then Some (bdata (input_buffer sb1) ! offset (input_buffer sb1)) else None, sb1))"

text \<open>\<open>None\<close>: the loop never ends.\<close>

partial_function (option) refill_until ::
    "nat \<Rightarrow> GnomeVFSCancellation option \<Rightarrow> 'c GnomeVFSSocketBuffer \<Rightarrow> 'c GnomeVFSSocketBuffer option" where
  "refill_until boundary_len cancel sb =
     (if byte_count (input_buffer sb) \<le> boundary_len then
        (let (filled, sb1) = refill_input_buffer sb cancel
         in if filled then refill_until boundary_len cancel sb1 else Some sb1)
      else Some sb)"

text \<open>The scan: the number of bytes to fetch, and whether the boundary was found.\<close>

fun scan_boundary :: "string \<Rightarrow> string \<Rightarrow> nat \<times> bool" where
  "scan_boundary boundary s =
     (if length boundary \<le> length s then
        (if take (length boundary) s = boundary then (length boundary, True)
         else (case s of [] \<Rightarrow> (0, False) | _ # rest \<Rightarrow> (case scan_boundary boundary rest of (n, f) \<Rightarrow> (Suc n, f))))
      else (0, False))"

declare scan_boundary.simps [simp del]

text \<open>How many bytes of the buffer to fetch; with at most as many bytes as the boundary, only a match at the front counts.\<close>

definition fetch_count :: "string \<Rightarrow> Buffer \<Rightarrow> nat \<Rightarrow> nat \<times> bool" where
  "fetch_count boundary ib bytes =
     (let max_scan = min (byte_count ib) bytes;
          start = peek (bdata ib) (offset ib) max_scan
      in if max_scan > length boundary then scan_boundary boundary start
         else (max_scan, max_scan = length boundary \<and> start = boundary))"

definition gnome_vfs_socket_buffer_read_until ::
    "'c GnomeVFSSocketBuffer \<Rightarrow> nat \<Rightarrow> string \<Rightarrow> GnomeVFSCancellation option
      \<Rightarrow> (GnomeVFSResult \<times> string \<times> bool \<times> 'c GnomeVFSSocketBuffer) option" where
  "gnome_vfs_socket_buffer_read_until sb bytes boundary cancel =
     (if \<not> length boundary < BUFFER_SIZE then Some (GNOME_VFS_ERROR_TOO_BIG, [], False, sb)
      else if bytes = 0 then Some (GNOME_VFS_OK, [], False, sb)
      else
        (case refill_until (length boundary) cancel sb of
           None \<Rightarrow> None
         | Some sb1 \<Rightarrow>
             (case fetch_count boundary (input_buffer sb1) bytes of
                (n, got) \<Rightarrow>
                  if n > 0 then (case consume n sb1 of (d, sb2) \<Rightarrow> Some (GNOME_VFS_OK, d, got, sb2))
                  else Some (last_error (input_buffer sb1), [], got,
                             sb1\<lparr>input_buffer := (input_buffer sb1)\<lparr>last_error := GNOME_VFS_OK\<rparr>\<rparr>))))"

text \<open>\<open>None\<close>: the loop never ends.\<close>

partial_function (option) flush ::
    "GnomeVFSCancellation option \<Rightarrow> 'c GnomeVFSSocketBuffer \<Rightarrow> (GnomeVFSResult \<times> 'c GnomeVFSSocketBuffer) option" where
  "flush cancel sb =
     (let ob = output_buffer sb
      in if byte_count ob > 0 then
           (case gnome_vfs_socket_write (socket sb) (peek (bdata ob) 0 (byte_count ob)) cancel of
              (result, n, sock) \<Rightarrow>
                if result \<noteq> GNOME_VFS_OK
                then Some (result, sb\<lparr>socket := sock, output_buffer := ob\<lparr>last_error := result\<rparr>\<rparr>)
                else flush cancel
                       (sb\<lparr>socket := sock,
                           output_buffer := ob\<lparr>bdata := poke (bdata ob) 0 (peek (bdata ob) n (byte_count ob - n)),
                                               byte_count := byte_count ob - n, last_error := result\<rparr>\<rparr>))
         else Some (GNOME_VFS_OK, sb))"

text \<open>The loop of a write; the result is the number of bytes written.\<close>

partial_function (option) write_loop ::
    "GnomeVFSCancellation option \<Rightarrow> string \<Rightarrow> nat \<Rightarrow> 'c GnomeVFSSocketBuffer
      \<Rightarrow> (GnomeVFSResult \<times> nat \<times> 'c GnomeVFSSocketBuffer) option" where
  "write_loop cancel p write_count sb =
     (if p = [] then Some (GNOME_VFS_OK, write_count, sb)
      else
        (let ob = output_buffer sb;
             n = (if byte_count ob < BUFFER_SIZE then min (BUFFER_SIZE - byte_count ob) (length p) else 0);
             sb1 = sb\<lparr>output_buffer := ob\<lparr>bdata := poke (bdata ob) (byte_count ob) (take n p), byte_count := byte_count ob + n\<rparr>\<rparr>
         in if byte_count (output_buffer sb1) \<ge> BUFFER_SIZE then
              (case flush cancel sb1 of
                 None \<Rightarrow> None
               | Some (result, sb2) \<Rightarrow>
                   if result \<noteq> GNOME_VFS_OK then Some (result, write_count + n, sb2)
                   else write_loop cancel (drop n p) (write_count + n) sb2)
            else write_loop cancel (drop n p) (write_count + n) sb1))"

definition gnome_vfs_socket_buffer_write ::
    "'c GnomeVFSSocketBuffer \<Rightarrow> string \<Rightarrow> GnomeVFSCancellation option
      \<Rightarrow> (GnomeVFSResult \<times> nat \<times> 'c GnomeVFSSocketBuffer) option" where
  "gnome_vfs_socket_buffer_write sb buffer cancel = write_loop cancel buffer 0 sb"

definition gnome_vfs_socket_buffer_flush ::
    "'c GnomeVFSSocketBuffer \<Rightarrow> GnomeVFSCancellation option \<Rightarrow> (GnomeVFSResult \<times> 'c GnomeVFSSocketBuffer) option" where
  "gnome_vfs_socket_buffer_flush sb cancel = flush cancel sb"

text \<open>The result of the last flush is not reported.\<close>

definition gnome_vfs_socket_buffer_destroy ::
    "'c GnomeVFSSocketBuffer \<Rightarrow> bool \<Rightarrow> GnomeVFSCancellation option \<Rightarrow> (GnomeVFSResult \<times> 'c) option" where
  "gnome_vfs_socket_buffer_destroy sb close_socket cancel =
     (case gnome_vfs_socket_buffer_flush sb cancel of
        None \<Rightarrow> None
      | Some (_, sb1) \<Rightarrow>
          Some (if close_socket then gnome_vfs_socket_close (socket sb1) else (GNOME_VFS_OK, sock_connection (socket sb1))))"


section \<open>The contract of a socket implementation\<close>

text \<open>
  A stream of bytes to come and a stream of bytes sent: a read takes bytes off the front of
  the one, at least one if it succeeds and at most as many as asked for; a write appends a
  prefix of its buffer to the other. \<open>credit\<close> bounds how often a write may succeed without
  accepting anything.
\<close>

locale socket_impl =
  fixes impl :: "'c GnomeVFSSocketImpl"
    and incoming :: "'c \<Rightarrow> string"
    and outgoing :: "'c \<Rightarrow> string"
    and credit :: "'c \<Rightarrow> nat"
  assumes read_takes: "impl_read impl c n cancel = (r, d, c') \<Longrightarrow> incoming c = d @ incoming c'"
    and read_bounded: "impl_read impl c n cancel = (r, d, c') \<Longrightarrow> length d \<le> n"
    and read_ok: "impl_read impl c n cancel = (r, d, c') \<Longrightarrow> r = GNOME_VFS_OK \<longleftrightarrow> d \<noteq> []"
    and read_keeps: "impl_read impl c n cancel = (r, d, c') \<Longrightarrow> outgoing c' = outgoing c"
    and write_appends: "impl_write impl c b cancel = (r, k, c') \<Longrightarrow> outgoing c' = outgoing c @ take k b"
    and write_bounded: "impl_write impl c b cancel = (r, k, c') \<Longrightarrow> k \<le> length b"
    and write_fails: "impl_write impl c b cancel = (r, k, c') \<Longrightarrow> r \<noteq> GNOME_VFS_OK \<Longrightarrow> k = 0"
    and write_progress: "impl_write impl c b cancel = (GNOME_VFS_OK, 0, c') \<Longrightarrow> b \<noteq> [] \<Longrightarrow> credit c' < credit c"
    and write_keeps: "impl_write impl c b cancel = (r, k, c') \<Longrightarrow> incoming c' = incoming c \<and> credit c' \<le> credit c"

section \<open>Arrays\<close>

lemma length_poke [simp]: "pos + length b \<le> length mem \<Longrightarrow> length (poke mem pos b) = length mem"
  by (simp add: poke_def)

lemma length_peek [simp]: "pos + n \<le> length mem \<Longrightarrow> length (peek mem pos n) = n"
  by (simp add: peek_def)

lemma peek_poke_same: "pos + length b \<le> length mem \<Longrightarrow> peek (poke mem pos b) pos (length b) = b"
  by (simp add: poke_def peek_def)

lemma peek_poke_append:
  "n + length b \<le> length mem \<Longrightarrow> peek (poke mem n b) 0 (n + length b) = peek mem 0 n @ b"
  by (simp add: poke_def peek_def)

lemma peek_split: "k \<le> n \<Longrightarrow> peek mem pos n = peek mem pos k @ peek mem (pos + k) (n - k)"
  by (simp add: peek_def add.commute flip: drop_drop take_add)

lemma peek_take: "k \<le> n \<Longrightarrow> take k (peek mem pos n) = peek mem pos k"
  by (simp add: peek_def min_def)

definition wf_buffer :: "Buffer \<Rightarrow> bool" where
  "wf_buffer b \<longleftrightarrow> length (bdata b) = BUFFER_SIZE \<and> offset b + byte_count b \<le> BUFFER_SIZE"

definition buffered :: "Buffer \<Rightarrow> string" where
  "buffered b = peek (bdata b) (offset b) (byte_count b)"

lemma length_buffered [simp]: "wf_buffer b \<Longrightarrow> length (buffered b) = byte_count b"
  by (simp add: wf_buffer_def buffered_def)

section \<open>The scan for a boundary\<close>

lemma scan_boundary_found:
  "scan_boundary b s = (n, True) \<Longrightarrow> length b \<le> n \<and> n \<le> length s \<and> take (length b) (drop (n - length b) s) = b
     \<and> (\<forall>p < n - length b. take (length b) (drop p s) \<noteq> b)"
proof (induction s arbitrary: n)
  case Nil
  then show ?case by (subst (asm) scan_boundary.simps) (auto split: if_splits)
next
  case (Cons c s)
  show ?case
  proof (cases "length b \<le> Suc (length s) \<and> take (length b) (c # s) \<noteq> b")
    case False
    then show ?thesis using Cons.prems by (subst (asm) scan_boundary.simps) (auto split: if_splits)
  next
    case True
    then obtain m where m: "scan_boundary b s = (m, True)" "n = Suc m"
      using Cons.prems by (subst (asm) scan_boundary.simps) (auto split: prod.splits)
    have "take (length b) (drop p (c # s)) \<noteq> b" if "p < n - length b" for p
      using that True Cons.IH [OF m(1)] m(2) by (cases p) auto
    then show ?thesis using Cons.IH [OF m(1)] m(2) by (auto simp: Suc_diff_le)
  qed
qed

lemma scan_boundary_missing:
  "scan_boundary b s = (n, False) \<Longrightarrow> length b \<le> Suc (length s) \<Longrightarrow>
     n = Suc (length s) - length b \<and> (\<forall>p < n. take (length b) (drop p s) \<noteq> b)"
proof (induction s arbitrary: n)
  case Nil
  then show ?case by (subst (asm) scan_boundary.simps) (cases b; auto split: if_splits)
next
  case (Cons c s)
  show ?case
  proof (cases "length b \<le> Suc (length s)")
    case False
    then show ?thesis using Cons.prems by (subst (asm) scan_boundary.simps) auto
  next
    case True
    then obtain m where m: "scan_boundary b s = (m, False)" "n = Suc m" "take (length b) (c # s) \<noteq> b"
      using Cons.prems by (subst (asm) scan_boundary.simps) (auto split: prod.splits if_splits)
    have "take (length b) (drop p (c # s)) \<noteq> b" if "p < n" for p
      using that m Cons.IH [OF m(1) True] by (cases p) auto
    then show ?thesis using Cons.IH [OF m(1) True] m(2) True by auto
  qed
qed

section \<open>The buffers over a socket that keeps the contract\<close>

context socket_impl
begin

text \<open>The arrays are in bounds, and the socket is of this implementation.\<close>

definition wf :: "'c GnomeVFSSocketBuffer \<Rightarrow> bool" where
  "wf sb \<longleftrightarrow> wf_buffer (input_buffer sb) \<and> wf_buffer (output_buffer sb) \<and> offset (output_buffer sb) = 0
     \<and> sock_impl (socket sb) = impl"

definition in_stream :: "'c GnomeVFSSocketBuffer \<Rightarrow> string" where
  "in_stream sb = buffered (input_buffer sb) @ incoming (sock_connection (socket sb))"

definition out_stream :: "'c GnomeVFSSocketBuffer \<Rightarrow> string" where
  "out_stream sb = outgoing (sock_connection (socket sb)) @ buffered (output_buffer sb)"

lemma socket_impl_kept:
  "gnome_vfs_socket_read sock n cancel = (r, d, sock') \<Longrightarrow> sock_impl sock' = sock_impl sock"
  "gnome_vfs_socket_write sock b cancel = (r, k, sock') \<Longrightarrow> sock_impl sock' = sock_impl sock"
  by (auto simp: gnome_vfs_socket_read_def gnome_vfs_socket_write_def split: if_splits prod.splits)

lemma socket_read_laws:
  assumes "gnome_vfs_socket_read sock n cancel = (r, d, sock')" "sock_impl sock = impl"
  shows "incoming (sock_connection sock) = d @ incoming (sock_connection sock')" "length d \<le> n" "r = GNOME_VFS_OK \<longleftrightarrow> d \<noteq> []"
    "outgoing (sock_connection sock') = outgoing (sock_connection sock)"
  using assms(1) unfolding gnome_vfs_socket_read_def assms(2)
  by (auto split: if_splits prod.splits dest: read_takes read_bounded read_ok read_keeps)

lemma socket_write_laws:
  assumes "gnome_vfs_socket_write sock b cancel = (r, k, sock')" "sock_impl sock = impl"
  shows "outgoing (sock_connection sock') = outgoing (sock_connection sock) @ take k b" "k \<le> length b"
    "r \<noteq> GNOME_VFS_OK \<Longrightarrow> k = 0"
    "r = GNOME_VFS_OK \<Longrightarrow> k = 0 \<Longrightarrow> b \<noteq> [] \<Longrightarrow> credit (sock_connection sock') < credit (sock_connection sock)"
    "incoming (sock_connection sock') = incoming (sock_connection sock)"
    "credit (sock_connection sock') \<le> credit (sock_connection sock)"
  using assms(1) unfolding gnome_vfs_socket_write_def assms(2)
  by (auto split: if_splits prod.splits dest: write_appends write_bounded write_fails write_progress write_keeps)

lemma refill_laws:
  assumes w: "wf sb" and r: "refill_input_buffer sb cancel = (filled, sb')"
  shows "wf sb'" "in_stream sb' = in_stream sb" "out_stream sb' = out_stream sb"
    "filled \<Longrightarrow> byte_count (input_buffer sb) < byte_count (input_buffer sb') \<and> last_error (input_buffer sb') = GNOME_VFS_OK"
    "\<not> filled \<Longrightarrow> byte_count (input_buffer sb') = byte_count (input_buffer sb) \<and> last_error (input_buffer sb') \<noteq> GNOME_VFS_OK"
proof -
  let ?ib = "input_buffer sb"
  define ib1 where "ib1 = (if offset ?ib > 0
      then ?ib\<lparr>bdata := poke (bdata ?ib) 0 (peek (bdata ?ib) (offset ?ib) (byte_count ?ib)), offset := 0\<rparr> else ?ib)"
  have wb: "wf_buffer ?ib" and impl: "sock_impl (socket sb) = impl" using w by (auto simp: wf_def)
  have ib1: "wf_buffer ib1" "buffered ib1 = buffered ?ib" "offset ib1 = 0" "byte_count ib1 = byte_count ?ib"
      "last_error ib1 = last_error ?ib"
    using wb peek_poke_same [of 0 "buffered ?ib" "bdata ?ib"] by (auto simp: ib1_def wf_buffer_def buffered_def)
  have "wf sb' \<and> in_stream sb' = in_stream sb \<and> out_stream sb' = out_stream sb
        \<and> (filled \<longrightarrow> byte_count ?ib < byte_count (input_buffer sb') \<and> last_error (input_buffer sb') = GNOME_VFS_OK)
        \<and> (\<not> filled \<longrightarrow> byte_count (input_buffer sb') = byte_count ?ib \<and> last_error (input_buffer sb') \<noteq> GNOME_VFS_OK)"
  proof (cases "last_error ?ib = GNOME_VFS_OK")
    case False
    then show ?thesis
      using w r by (auto simp: refill_input_buffer_def)
  next
    case True
    obtain res d sock where read: "gnome_vfs_socket_read (socket sb) (BUFFER_SIZE - byte_count ib1) cancel = (res, d, sock)"
      by (metis prod_cases3)
    note laws = socket_read_laws [OF read impl]
    have sb': "filled = (res = GNOME_VFS_OK)"
      "sb' = (if res \<noteq> GNOME_VFS_OK then sb\<lparr>socket := sock, input_buffer := ib1\<lparr>last_error := res\<rparr>\<rparr>
              else sb\<lparr>socket := sock, input_buffer := ib1\<lparr>bdata := poke (bdata ib1) (byte_count ib1) d,
                                                       byte_count := byte_count ib1 + length d\<rparr>\<rparr>)"
      using r True read by (auto simp: refill_input_buffer_def Let_def ib1_def [symmetric] split: if_splits)
    have fit: "byte_count ib1 + length d \<le> BUFFER_SIZE" using laws(2) ib1(1) by (auto simp: wf_buffer_def)
    then have "wf_buffer (ib1\<lparr>bdata := poke (bdata ib1) (byte_count ib1) d, byte_count := byte_count ib1 + length d\<rparr>)"
      "buffered (ib1\<lparr>bdata := poke (bdata ib1) (byte_count ib1) d, byte_count := byte_count ib1 + length d\<rparr>) = buffered ?ib @ d"
      using ib1 peek_poke_append [of "byte_count ib1" d "bdata ib1"] by (auto simp: wf_buffer_def buffered_def)
    moreover have "wf_buffer (ib1\<lparr>last_error := res\<rparr>)" "buffered (ib1\<lparr>last_error := res\<rparr>) = buffered ?ib"
      using ib1 by (simp_all add: wf_buffer_def buffered_def)
    ultimately show ?thesis
      using w laws ib1 True socket_impl_kept(1) [OF read] by (auto simp: sb' wf_def in_stream_def out_stream_def)
  qed
  then show "wf sb'" "in_stream sb' = in_stream sb" "out_stream sb' = out_stream sb"
    "filled \<Longrightarrow> byte_count (input_buffer sb) < byte_count (input_buffer sb') \<and> last_error (input_buffer sb') = GNOME_VFS_OK"
    "\<not> filled \<Longrightarrow> byte_count (input_buffer sb') = byte_count (input_buffer sb) \<and> last_error (input_buffer sb') \<noteq> GNOME_VFS_OK"
    by auto
qed

lemma clear_error [simp]:
  "wf (sb\<lparr>input_buffer := (input_buffer sb)\<lparr>last_error := e\<rparr>\<rparr>) = wf sb"
  "in_stream (sb\<lparr>input_buffer := (input_buffer sb)\<lparr>last_error := e\<rparr>\<rparr>) = in_stream sb"
  "out_stream (sb\<lparr>input_buffer := (input_buffer sb)\<lparr>last_error := e\<rparr>\<rparr>) = out_stream sb"
  by (simp_all add: wf_def in_stream_def out_stream_def wf_buffer_def buffered_def)

lemma refill_if_empty_laws:
  assumes w: "wf sb" and r: "refill_if_empty sb cancel = (res, sb')"
  shows "wf sb' \<and> in_stream sb' = in_stream sb \<and> out_stream sb' = out_stream sb
     \<and> (res = GNOME_VFS_OK \<longleftrightarrow> byte_count (input_buffer sb') \<noteq> 0)"
proof (cases "byte_count (input_buffer sb) = 0")
  case True
  obtain filled sb1 where f: "refill_input_buffer sb cancel = (filled, sb1)" by fastforce
  show ?thesis using r True f refill_laws [OF w f] by (cases filled) (auto simp: refill_if_empty_def)
qed (use r w in \<open>auto simp: refill_if_empty_def\<close>)

lemma consume_laws:
  assumes w: "wf sb" and n: "n \<le> byte_count (input_buffer sb)" and c: "consume n sb = (d, sb')"
  shows "wf sb'" "in_stream sb = d @ in_stream sb'" "out_stream sb' = out_stream sb" "length d = n"
    "d = take n (buffered (input_buffer sb))"
proof -
  let ?ib = "input_buffer sb"
  have ib: "length (bdata ?ib) = BUFFER_SIZE" "offset ?ib + byte_count ?ib \<le> BUFFER_SIZE" using w by (auto simp: wf_def wf_buffer_def)
  have d: "d = peek (bdata ?ib) (offset ?ib) n" using c by (simp add: consume_def Let_def)
  have "buffered ?ib = d @ buffered (input_buffer sb')"
    using n c peek_split [of n "byte_count ?ib" "bdata ?ib" "offset ?ib"] by (auto simp: consume_def Let_def buffered_def)
  then show "in_stream sb = d @ in_stream sb'" using c by (auto simp: in_stream_def consume_def Let_def)
  show "wf sb'" "out_stream sb' = out_stream sb" using w n c by (auto simp: wf_def wf_buffer_def out_stream_def consume_def Let_def)
  show "length d = n" using d ib n by simp
  show "d = take n (buffered ?ib)" using d n by (simp add: buffered_def peek_take)
qed

lemma buffer_read_laws:
  assumes w: "wf sb" and r: "gnome_vfs_socket_buffer_read sb bytes cancel = (res, d, sb')"
  shows "wf sb' \<and> in_stream sb = d @ in_stream sb' \<and> out_stream sb' = out_stream sb \<and> length d \<le> bytes
     \<and> (bytes \<noteq> 0 \<longrightarrow> (res = GNOME_VFS_OK \<longleftrightarrow> d \<noteq> []))"
proof (cases "bytes = 0")
  case False
  obtain res1 sb1 where e: "refill_if_empty sb cancel = (res1, sb1)" by fastforce
  note l = refill_if_empty_laws [OF w e]
  show ?thesis
  proof (cases "byte_count (input_buffer sb1) = 0")
    case True
    then show ?thesis using r e l False by (auto simp: gnome_vfs_socket_buffer_read_def)
  next
    case nonempty: False
    obtain d2 sb2 where c: "consume (min bytes (byte_count (input_buffer sb1))) sb1 = (d2, sb2)" by fastforce
    have "wf sb1" using l by simp
    note k = consume_laws [OF this _ c]
    have "res = res1" "d = d2" "sb' = sb2"
      using r e c nonempty False by (auto simp: gnome_vfs_socket_buffer_read_def)
    then show ?thesis using l k nonempty False by auto
  qed
qed (use w r in \<open>auto simp: gnome_vfs_socket_buffer_read_def\<close>)

lemma buffer_peekc_laws:
  assumes w: "wf sb" and r: "gnome_vfs_socket_buffer_peekc sb cancel = (res, c, sb')"
  shows "wf sb' \<and> in_stream sb' = in_stream sb \<and> out_stream sb' = out_stream sb
     \<and> (res = GNOME_VFS_OK \<longrightarrow> in_stream sb \<noteq> [] \<and> c = Some (hd (in_stream sb))) \<and> (res \<noteq> GNOME_VFS_OK \<longrightarrow> c = None)"
proof -
  obtain res1 sb1 where e: "refill_if_empty sb cancel = (res1, sb1)" by fastforce
  note l = refill_if_empty_laws [OF w e]
  have s: "sb' = sb1" "res = res1" "c = (if res1 = GNOME_VFS_OK then Some (bdata (input_buffer sb1) ! offset (input_buffer sb1)) else None)"
    using r e by (auto simp: gnome_vfs_socket_buffer_peekc_def)
  have "bdata (input_buffer sb1) ! offset (input_buffer sb1) = hd (in_stream sb) \<and> in_stream sb \<noteq> []"
    if ok: "res1 = GNOME_VFS_OK"
  proof -
    let ?ib = "input_buffer sb1"
    have ib: "length (bdata ?ib) = BUFFER_SIZE" "offset ?ib + byte_count ?ib \<le> BUFFER_SIZE" "byte_count ?ib > 0"
      using l ok by (auto simp: wf_def wf_buffer_def)
    then have "buffered ?ib \<noteq> [] \<and> hd (buffered ?ib) = bdata ?ib ! offset ?ib"
      by (auto simp: buffered_def peek_def hd_drop_conv_nth)
    then have "in_stream sb1 \<noteq> []" "hd (in_stream sb1) = bdata ?ib ! offset ?ib" by (auto simp: in_stream_def)
    then show ?thesis using l by simp
  qed
  then show ?thesis using l s by auto
qed

end

text \<open>Filling the buffer beyond the boundary ends.\<close>

context socket_impl
begin

lemma refill_until_laws:
  assumes "wf sb"
  shows "\<exists>sb'. refill_until m cancel sb = Some sb' \<and> wf sb' \<and> in_stream sb' = in_stream sb \<and> out_stream sb' = out_stream sb
     \<and> (m < byte_count (input_buffer sb') \<or> last_error (input_buffer sb') \<noteq> GNOME_VFS_OK)"
  using assms
proof (induction "BUFFER_SIZE - byte_count (input_buffer sb)" arbitrary: sb rule: less_induct)
  case less
  show ?case
  proof (cases "byte_count (input_buffer sb) \<le> m")
    case False
    then show ?thesis using less.prems by (subst refill_until.simps) auto
  next
    case True
    obtain filled sb1 where f: "refill_input_buffer sb cancel = (filled, sb1)" by fastforce
    note l = refill_laws [OF less.prems f]
    show ?thesis
    proof (cases filled)
      case False
      then show ?thesis using True f l by (subst refill_until.simps) auto
    next
      case filled: True
      have "byte_count (input_buffer sb1) \<le> BUFFER_SIZE" using l(1) by (auto simp: wf_def wf_buffer_def)
      then have "BUFFER_SIZE - byte_count (input_buffer sb1) < BUFFER_SIZE - byte_count (input_buffer sb)"
        using l(4) filled by auto
      note ih = less.hyps [OF this l(1)]
      have "refill_until m cancel sb = refill_until m cancel sb1" using True f filled by (subst refill_until.simps) simp
      with ih show ?thesis using l(2,3) by simp
    qed
  qed
qed

text \<open>No occurrence of \<open>b\<close> in the stream starts before position \<open>n\<close>.\<close>

definition absent_before :: "string \<Rightarrow> string \<Rightarrow> nat \<Rightarrow> bool" where
  "absent_before b stream n \<longleftrightarrow> (\<forall>p < n. take (length b) (drop p stream) \<noteq> b)"

lemma absent_before_prefix:
  assumes "\<forall>p < n. take (length b) (drop p s) \<noteq> b" "\<And>p. p < n \<Longrightarrow> p + length b \<le> length s"
  shows "absent_before b (s @ rest) n"
proof -
  have "take (length b) (drop p (s @ rest)) = take (length b) (drop p s)" if "p < n" for p
    using assms(2) [OF that] by simp
  then show ?thesis unfolding absent_before_def using assms(1) by metis
qed

lemma read_until_laws:
  assumes w: "wf sb" and len: "length b < BUFFER_SIZE" and bytes: "bytes \<noteq> 0"
  shows "\<exists>res d got sb'. gnome_vfs_socket_buffer_read_until sb bytes b cancel = Some (res, d, got, sb')
     \<and> wf sb' \<and> in_stream sb = d @ in_stream sb' \<and> out_stream sb' = out_stream sb \<and> length d \<le> bytes
     \<and> (d \<noteq> [] \<longrightarrow> res = GNOME_VFS_OK)
     \<and> (length b < bytes \<and> last_error (input_buffer sb') = GNOME_VFS_OK \<and> res = GNOME_VFS_OK \<longrightarrow>
          (if got then (\<exists>pre. d = pre @ b \<and> absent_before b (in_stream sb) (length pre))
           else absent_before b (in_stream sb) (length d)))"
proof -
  obtain sb1 where r: "refill_until (length b) cancel sb = Some sb1" and w1: "wf sb1" "in_stream sb1 = in_stream sb"
      "out_stream sb1 = out_stream sb" "length b < byte_count (input_buffer sb1) \<or> last_error (input_buffer sb1) \<noteq> GNOME_VFS_OK"
    using refill_until_laws [OF w, of "length b" cancel] by blast
  let ?ib = "input_buffer sb1"
  define mx where "mx = min (byte_count ?ib) bytes"
  define str where "str = peek (bdata ?ib) (offset ?ib) mx"
  obtain n got where fc: "fetch_count b ?ib bytes = (n, got)" by fastforce
  then have ng: "(if mx > length b then scan_boundary b str else (mx, mx = length b \<and> str = b)) = (n, got)"
    by (simp only: fetch_count_def Let_def mx_def str_def)
  have ib: "length (bdata ?ib) = BUFFER_SIZE" "offset ?ib + byte_count ?ib \<le> BUFFER_SIZE" using w1(1) by (auto simp: wf_def wf_buffer_def)
  have ls: "length str = mx" using ib by (simp add: str_def mx_def)
  have "buffered ?ib = str @ peek (bdata ?ib) (offset ?ib + mx) (byte_count ?ib - mx)"
    unfolding buffered_def str_def by (rule peek_split) (simp add: mx_def)
  then have "\<exists>rest. in_stream sb1 = str @ rest" by (simp add: in_stream_def)
  then have stream: "\<exists>rest. in_stream sb = str @ rest" using w1(2) by simp
  have n: "n \<le> mx"
  proof (cases got)
    case True
    then show ?thesis using ng ls scan_boundary_found [of b str n] by (auto split: if_splits)
  next
    case False
    then show ?thesis using ng ls scan_boundary_missing [of b str n] by (cases b) (auto split: if_splits)
  qed
  show ?thesis
  proof (cases "n > 0")
    case True
    obtain d sb2 where c: "consume n sb1 = (d, sb2)" by fastforce
    note k = consume_laws [OF w1(1) _ c]
    have d: "d = take n str" using k(5) n by (simp add: str_def mx_def buffered_def peek_take)
    have eq: "gnome_vfs_socket_buffer_read_until sb bytes b cancel = Some (GNOME_VFS_OK, d, got, sb2)"
      using len bytes r fc True c by (simp add: gnome_vfs_socket_buffer_read_until_def)
    have err: "last_error (input_buffer sb2) = last_error ?ib" using c by (auto simp: consume_def Let_def)
    have "if got then (\<exists>pre. d = pre @ b \<and> absent_before b (in_stream sb) (length pre))
        else absent_before b (in_stream sb) (length d)"
      if "length b < bytes" "last_error ?ib = GNOME_VFS_OK"
    proof -
      have big: "mx > length b" using that w1(4) by (auto simp: mx_def)
      obtain rest where rest: "in_stream sb = str @ rest" using stream by blast
      show ?thesis
      proof (cases got)
        case g: True
        have f: "length b \<le> n" "take (length b) (drop (n - length b) str) = b"
            "\<forall>p < n - length b. take (length b) (drop p str) \<noteq> b"
          using scan_boundary_found [of b str n] ng big g by auto
        have "d = take (n - length b) str @ b"
          using d f(1,2) n ls by (metis take_add add.commute le_add_diff_inverse2)
        moreover have "absent_before b (in_stream sb) (n - length b)"
          unfolding rest using f n ls by (intro absent_before_prefix) auto
        ultimately show ?thesis using g n ls by auto
      next
        case g: False
        have f: "n = Suc (length str) - length b" "\<forall>p < n. take (length b) (drop p str) \<noteq> b"
          using scan_boundary_missing [of b str n] ng big g ls by auto
        have "absent_before b (in_stream sb) n" unfolding rest using f big ls by (intro absent_before_prefix) auto
        then show ?thesis using g d n ls by simp
      qed
    qed
    then show ?thesis using eq k n w1 err by (auto simp: mx_def)
  next
    case False
    have eq: "gnome_vfs_socket_buffer_read_until sb bytes b cancel =
        Some (last_error ?ib, [], got, sb1\<lparr>input_buffer := ?ib\<lparr>last_error := GNOME_VFS_OK\<rparr>\<rparr>)"
      using len bytes r fc False by (simp add: gnome_vfs_socket_buffer_read_until_def)
    have "got \<Longrightarrow> b = []" if "last_error ?ib = GNOME_VFS_OK" "length b < bytes"
      using that w1(4) ng False scan_boundary_found [of b str n] by (auto simp: mx_def split: if_splits)
    then show ?thesis using eq w1 by (auto simp: absent_before_def)
  qed
qed

end

text \<open>Writing and flushing.\<close>

context socket_impl
begin

lemma flush_laws:
  assumes "wf sb"
  shows "\<exists>res sb'. flush cancel sb = Some (res, sb') \<and> wf sb' \<and> in_stream sb' = in_stream sb \<and> out_stream sb' = out_stream sb
     \<and> (res = GNOME_VFS_OK \<longrightarrow> byte_count (output_buffer sb') = 0)"
  using assms
proof (induction "byte_count (output_buffer sb) + credit (sock_connection (socket sb))" arbitrary: sb rule: less_induct)
  case less
  let ?ob = "output_buffer sb"
  show ?case
  proof (cases "byte_count ?ob > 0")
    case False
    then show ?thesis using less.prems by (subst flush.simps) auto
  next
    case True
    have ob: "length (bdata ?ob) = BUFFER_SIZE" "byte_count ?ob \<le> BUFFER_SIZE" "offset ?ob = 0"
      and impl: "sock_impl (socket sb) = impl"
      using less.prems by (auto simp: wf_def wf_buffer_def)
    let ?b = "peek (bdata ?ob) 0 (byte_count ?ob)"
    have b: "?b \<noteq> []" "length ?b = byte_count ?ob" using True ob by (auto simp: peek_def)
    obtain res k sock where wr: "gnome_vfs_socket_write (socket sb) ?b cancel = (res, k, sock)" by (metis prod_cases3)
    note l = socket_write_laws [OF wr impl]
    show ?thesis
    proof (cases "res = GNOME_VFS_OK")
      case False
      then have "flush cancel sb = Some (res, sb\<lparr>socket := sock, output_buffer := ?ob\<lparr>last_error := res\<rparr>\<rparr>)"
        using True wr by (subst flush.simps) (simp add: Let_def)
      then show ?thesis
        using False l less.prems socket_impl_kept(2) [OF wr]
        by (auto simp: wf_def wf_buffer_def in_stream_def out_stream_def buffered_def)
    next
      case ok: True
      define sb1 where "sb1 = sb\<lparr>socket := sock,
          output_buffer := ?ob\<lparr>bdata := poke (bdata ?ob) 0 (peek (bdata ?ob) k (byte_count ?ob - k)),
                              byte_count := byte_count ?ob - k, last_error := res\<rparr>\<rparr>"
      have k: "k \<le> byte_count ?ob" using l(2) b(2) by simp
      have left: "length (peek (bdata ?ob) k (byte_count ?ob - k)) = byte_count ?ob - k" using k ob by simp
      have "buffered (output_buffer sb1) = peek (bdata ?ob) k (byte_count ?ob - k)"
        using peek_poke_same [of 0 "peek (bdata ?ob) k (byte_count ?ob - k)" "bdata ?ob"] left ob k
        by (simp add: sb1_def buffered_def)
      moreover have "take k ?b @ peek (bdata ?ob) k (byte_count ?ob - k) = buffered ?ob"
        using peek_split [OF k, of "bdata ?ob" 0] peek_take [OF k, of "bdata ?ob" 0] ob(3) by (simp add: buffered_def)
      ultimately have out: "out_stream sb1 = out_stream sb" using l(1) by (simp add: out_stream_def sb1_def)
      have w1: "wf sb1" using less.prems left ob k socket_impl_kept(2) [OF wr] by (auto simp: wf_def wf_buffer_def sb1_def)
      have "byte_count (output_buffer sb1) + credit (sock_connection (socket sb1))
          < byte_count ?ob + credit (sock_connection (socket sb))"
        using l(4) [OF ok] l(6) b(1) k True by (cases "k = 0") (auto simp: sb1_def)
      note ih = less.hyps [OF this w1]
      have "flush cancel sb = flush cancel sb1" using True wr ok by (subst flush.simps) (simp add: Let_def sb1_def)
      moreover have "in_stream sb1 = in_stream sb" using l(5) by (simp add: in_stream_def sb1_def)
      ultimately show ?thesis using ih out by simp
    qed
  qed
qed

lemma write_loop_laws:
  assumes "wf sb"
  shows "\<exists>res n sb'. write_loop cancel p wc sb = Some (res, wc + n, sb') \<and> wf sb' \<and> in_stream sb' = in_stream sb
     \<and> n \<le> length p \<and> out_stream sb' = out_stream sb @ take n p \<and> (res = GNOME_VFS_OK \<longrightarrow> n = length p)"
  using assms
proof (induction "2 * length p + (if byte_count (output_buffer sb) = BUFFER_SIZE then 1 else 0)" arbitrary: p wc sb
    rule: less_induct)
  case less
  let ?ob = "output_buffer sb"
  show ?case
  proof (cases "p = []")
    case True
    then show ?thesis using less.prems by (subst write_loop.simps) auto
  next
    case False
    have ob: "length (bdata ?ob) = BUFFER_SIZE" "byte_count ?ob \<le> BUFFER_SIZE" "offset ?ob = 0"
      using less.prems by (auto simp: wf_def wf_buffer_def)
    define n where "n = (if byte_count ?ob < BUFFER_SIZE then min (BUFFER_SIZE - byte_count ?ob) (length p) else 0)"
    define sb1 where "sb1 = sb\<lparr>output_buffer := ?ob\<lparr>bdata := poke (bdata ?ob) (byte_count ?ob) (take n p),
        byte_count := byte_count ?ob + n\<rparr>\<rparr>"
    have n: "n \<le> length p" "byte_count ?ob + n \<le> BUFFER_SIZE" "byte_count ?ob < BUFFER_SIZE \<longrightarrow> n > 0"
      using False ob by (auto simp: n_def)
    have step: "write_loop cancel p wc sb =
        (if byte_count (output_buffer sb1) \<ge> BUFFER_SIZE then
           (case flush cancel sb1 of
              None \<Rightarrow> None
            | Some (result, sb2) \<Rightarrow>
                if result \<noteq> GNOME_VFS_OK then Some (result, wc + n, sb2) else write_loop cancel (drop n p) (wc + n) sb2)
         else write_loop cancel (drop n p) (wc + n) sb1)"
      unfolding sb1_def n_def using False by (subst write_loop.simps) (simp only: Let_def if_False)
    have w1: "wf sb1" using less.prems n ob by (auto simp: sb1_def wf_def wf_buffer_def)
    have "buffered (output_buffer sb1) = buffered ?ob @ take n p"
      using peek_poke_append [of "byte_count ?ob" "take n p" "bdata ?ob"] n ob by (simp add: sb1_def buffered_def min_absorb2)
    then have o1: "out_stream sb1 = out_stream sb @ take n p" by (simp add: out_stream_def sb1_def)
    have i1: "in_stream sb1 = in_stream sb" by (simp add: in_stream_def sb1_def)
    have "\<exists>res k sb'. write_loop cancel p wc sb = Some (res, wc + n + k, sb') \<and> wf sb' \<and> in_stream sb' = in_stream sb
        \<and> k \<le> length (drop n p) \<and> out_stream sb' = out_stream sb1 @ take k (drop n p)
        \<and> (res = GNOME_VFS_OK \<longrightarrow> k = length (drop n p))"
    proof (cases "byte_count (output_buffer sb1) \<ge> BUFFER_SIZE")
      case False
      then have "2 * length (drop n p) + (if byte_count (output_buffer sb1) = BUFFER_SIZE then 1 else 0)
          < 2 * length p + (if byte_count ?ob = BUFFER_SIZE then 1 else 0)"
        using n \<open>p \<noteq> []\<close> by (auto simp: sb1_def)
      note ih = less.hyps [OF this w1, of "wc + n"]
      have "write_loop cancel p wc sb = write_loop cancel (drop n p) (wc + n) sb1"
        using step False by simp
      then show ?thesis using ih i1 by simp
    next
      case full: True
      obtain res sb2 where fl: "flush cancel sb1 = Some (res, sb2)" "wf sb2" "in_stream sb2 = in_stream sb1"
          "out_stream sb2 = out_stream sb1" "res = GNOME_VFS_OK \<longrightarrow> byte_count (output_buffer sb2) = 0"
        using flush_laws [OF w1, of cancel] by blast
      show ?thesis
      proof (cases "res = GNOME_VFS_OK")
        case False
        then have "write_loop cancel p wc sb = Some (res, wc + n, sb2)"
          using step full fl by simp
        then show ?thesis using False fl i1 by auto
      next
        case ok: True
        have "BUFFER_SIZE \<noteq> 0" by (simp add: BUFFER_SIZE_def)
        then have "2 * length (drop n p) + (if byte_count (output_buffer sb2) = BUFFER_SIZE then 1 else 0)
            < 2 * length p + (if byte_count ?ob = BUFFER_SIZE then 1 else 0)"
          using n ob fl(5) ok \<open>p \<noteq> []\<close> by auto
        note ih = less.hyps [OF this fl(2), of "wc + n"]
        have "write_loop cancel p wc sb = write_loop cancel (drop n p) (wc + n) sb2"
          using step full fl ok by simp
        then show ?thesis using ih i1 fl by simp
      qed
    qed
    then obtain res k sb' where r: "write_loop cancel p wc sb = Some (res, wc + n + k, sb')" "wf sb'" "in_stream sb' = in_stream sb"
        "k \<le> length (drop n p)" "out_stream sb' = out_stream sb1 @ take k (drop n p)" "res = GNOME_VFS_OK \<longrightarrow> k = length (drop n p)"
      by blast
    then have "out_stream sb' = out_stream sb @ take (n + k) p" using o1 by (simp add: take_add)
    then show ?thesis using r n by (intro exI [of _ res] exI [of _ "n + k"] exI [of _ sb']) auto
  qed
qed

end

section \<open>The connections keep the contract\<close>

fun answer_bytes :: "read_answer \<Rightarrow> string" where
  "answer_bytes (Read_Bytes s) = s"
| "answer_bytes _ = []"

definition ic_incoming :: "GnomeVFSInetConnection \<Rightarrow> string" where
  "ic_incoming conn = concat (map answer_bytes (in_answers conn))"

definition ic_credit :: "GnomeVFSInetConnection \<Rightarrow> nat" where
  "ic_credit conn = length (out_answers conn)"

lemma inet_read_loop_stream:
  "inet_read_loop h c n as = (r, d, as') \<Longrightarrow>
     concat (map answer_bytes as) = d @ concat (map answer_bytes as') \<and> length d \<le> n \<and> (r = GNOME_VFS_OK \<longleftrightarrow> d \<noteq> [])"
proof (induction h c n as rule: inet_read_loop.induct)
  case (3 h c n a rest)
  then show ?case by (cases a) (auto simp: result_from_errno_not_ok split: if_splits)
qed (auto simp: Let_def result_from_errno_not_ok split: if_splits)

lemma inet_write_loop_bounds:
  "inet_write_loop h c n as = (r, k, as') \<Longrightarrow>
     k \<le> n \<and> (r \<noteq> GNOME_VFS_OK \<longrightarrow> k = 0) \<and> length as' \<le> length as \<and> (r = GNOME_VFS_OK \<and> k = 0 \<and> n > 0 \<longrightarrow> length as' < length as)"
proof (induction h c n as rule: inet_write_loop.induct)
  case (3 h c n a rest)
  then show ?case by (cases a) (auto split: if_splits dest: le_SucI)
qed (auto split: if_splits)

interpretation inet: socket_impl inet_connection_socket_impl ic_incoming ic_sent ic_credit
  by unfold_locales
     (auto simp: inet_connection_socket_impl_def gnome_vfs_inet_connection_read_def gnome_vfs_inet_connection_write_def
        ic_incoming_def ic_credit_def split: prod.splits dest!: inet_read_loop_stream inet_write_loop_bounds)

section \<open>Buffered connections\<close>

type_synonym inet_buffer = "GnomeVFSInetConnection GnomeVFSSocketBuffer"

definition inet_wf :: "inet_buffer \<Rightarrow> bool" where
  "inet_wf sb \<longleftrightarrow> wf_buffer (input_buffer sb) \<and> wf_buffer (output_buffer sb) \<and> offset (output_buffer sb) = 0
     \<and> sock_impl (socket sb) = inet_connection_socket_impl"

text \<open>The bytes still to come: those in the buffer, then those of the connection.\<close>

definition inet_stream :: "inet_buffer \<Rightarrow> string" where
  "inet_stream sb = buffered (input_buffer sb) @ ic_incoming (sock_connection (socket sb))"

definition inet_sent :: "inet_buffer \<Rightarrow> string" where
  "inet_sent sb = ic_sent (sock_connection (socket sb))"

lemma inet_folds:
  "inet.wf = inet_wf" "inet.in_stream = inet_stream" "inet.out_stream sb = inet_sent sb @ buffered (output_buffer sb)"
  by (simp_all add: fun_eq_iff inet.wf_def inet_wf_def inet.in_stream_def inet_stream_def inet.out_stream_def inet_sent_def)

lemma inet_absent: "inet.absent_before b s n \<longleftrightarrow> (\<forall>p < n. take (length b) (drop p s) \<noteq> b)"
  by (simp add: inet.absent_before_def)

lemma inet_wf_new:
  "length m1 = BUFFER_SIZE \<Longrightarrow> length m2 = BUFFER_SIZE \<Longrightarrow>
     inet_wf (gnome_vfs_socket_buffer_new m1 m2 (gnome_vfs_inet_connection_to_socket conn))"
  by (simp add: inet_wf_def gnome_vfs_socket_buffer_new_def buffer_init_def wf_buffer_def
        gnome_vfs_inet_connection_to_socket_def gnome_vfs_socket_new_def)

text \<open>The operations on the input, each with the cancellation it is given.\<close>

datatype in_op =
    Op_Read nat "GnomeVFSCancellation option"
  | Op_Peek "GnomeVFSCancellation option"
  | Op_Read_Until nat string "GnomeVFSCancellation option"

fun in_step :: "in_op \<Rightarrow> 'c GnomeVFSSocketBuffer \<Rightarrow> (string \<times> 'c GnomeVFSSocketBuffer) option" where
  "in_step (Op_Read n c) sb = (case gnome_vfs_socket_buffer_read sb n c of (_, d, sb') \<Rightarrow> Some (d, sb'))"
| "in_step (Op_Peek c) sb = (case gnome_vfs_socket_buffer_peekc sb c of (_, _, sb') \<Rightarrow> Some ([], sb'))"
| "in_step (Op_Read_Until n b c) sb =
     (case gnome_vfs_socket_buffer_read_until sb n b c of None \<Rightarrow> None | Some (_, d, _, sb') \<Rightarrow> Some (d, sb'))"

fun in_steps :: "in_op list \<Rightarrow> 'c GnomeVFSSocketBuffer \<Rightarrow> (string \<times> 'c GnomeVFSSocketBuffer) option" where
  "in_steps [] sb = Some ([], sb)"
| "in_steps (x # xs) sb =
     (case in_step x sb of
        None \<Rightarrow> None
      | Some (d, sb1) \<Rightarrow> map_option (\<lambda>(ds, sb2). (d @ ds, sb2)) (in_steps xs sb1))"

lemma in_step_stream:
  assumes w: "inet_wf sb"
  shows "\<exists>d sb'. in_step x sb = Some (d, sb') \<and> inet_wf sb' \<and> inet_stream sb = d @ inet_stream sb'"
proof (cases x)
  case (Op_Read n c)
  obtain r d sb' where "gnome_vfs_socket_buffer_read sb n c = (r, d, sb')" by (metis prod_cases3)
  then show ?thesis using Op_Read inet.buffer_read_laws [of sb n c r d sb'] w by (simp add: inet_folds)
next
  case (Op_Peek c)
  obtain r d sb' where "gnome_vfs_socket_buffer_peekc sb c = (r, d, sb')" by (metis prod_cases3)
  then show ?thesis using Op_Peek inet.buffer_peekc_laws [of sb c r d sb'] w by (simp add: inet_folds)
next
  case (Op_Read_Until n b c)
  show ?thesis
  proof (cases "length b < BUFFER_SIZE \<and> n \<noteq> 0")
    case True
    then show ?thesis using Op_Read_Until inet.read_until_laws [of sb b n c] w by (fastforce simp: inet_folds)
  qed (use Op_Read_Until w in \<open>auto simp: gnome_vfs_socket_buffer_read_until_def\<close>)
qed

text \<open>
  C8. Whatever mixture of reads, peeks and boundary reads is made on a buffered connection,
  and whatever the system calls answer in between (short reads, interruptions, time-outs,
  cancellations), every operation returns, and the bytes handed out are exactly the bytes of
  the stream, in order, none lost and none twice; the array accesses stay in bounds.
\<close>

theorem socket_buffer_reads_stream:
  assumes "inet_wf sb"
  shows "\<exists>ds sb'. in_steps ops sb = Some (ds, sb') \<and> inet_wf sb' \<and> inet_stream sb = ds @ inet_stream sb'"
  using assms
proof (induction ops arbitrary: sb)
  case (Cons x xs)
  obtain d sb1 where d: "in_step x sb = Some (d, sb1)" "inet_wf sb1" "inet_stream sb = d @ inet_stream sb1"
    using in_step_stream [OF Cons.prems] by blast
  then show ?case using Cons.IH [OF d(2)] by auto
qed simp

definition sample_connection :: GnomeVFSInetConnection where
  "sample_connection =
     \<lparr>in_answers = [Read_Error EINTR, Read_Bytes ''ab'', Read_Again Select_Timeout, Read_Bytes ''c\<newline>d''],
      out_answers = [Wrote 1, Wrote 0], ic_sent = [], ic_timeout = None, ic_open = True\<rparr>"

definition sample_buffer :: inet_buffer where
  "sample_buffer =
     gnome_vfs_socket_buffer_new (replicate BUFFER_SIZE NUL) (replicate BUFFER_SIZE NUL)
       (gnome_vfs_inet_connection_to_socket sample_connection)"

lemma sample_buffer_wf: "inet_wf sample_buffer"
  by (simp add: sample_buffer_def inet_wf_new)

theorem socket_buffer_reads_stream_witness:
  "\<exists>ds sb'. in_steps [Op_Read 1 None, Op_Peek None, Op_Read_Until 9 ''\<newline>'' None] sample_buffer = Some (ds, sb')
     \<and> inet_stream sample_buffer = ds @ inet_stream sb'"
  using socket_buffer_reads_stream [OF sample_buffer_wf, of "[Op_Read 1 None, Op_Peek None, Op_Read_Until 9 ''\<newline>'' None]"]
  by blast

text \<open>
  C20. Reading up to a boundary that is shorter than the 4096-byte buffer, with room for more
  bytes than the boundary has, when the call succeeds and leaves no error of a refill pending
  in the buffer: if the boundary was found, the data ends with its first occurrence in the
  stream; if not, no occurrence starts within the data that was fetched, so the next call can
  still find it. (With an error pending, the code hands out all that is buffered, part of a
  boundary included.)
\<close>

theorem read_until_finds_first:
  assumes "inet_wf sb" "length b < bytes" "length b < BUFFER_SIZE"
    "gnome_vfs_socket_buffer_read_until sb bytes b cancel = Some (GNOME_VFS_OK, d, got, sb')"
    "last_error (input_buffer sb') = GNOME_VFS_OK"
  shows "inet_stream sb = d @ inet_stream sb' \<and>
     (if got then \<exists>pre. d = pre @ b \<and> (\<forall>p < length pre. take (length b) (drop p (inet_stream sb)) \<noteq> b)
      else \<forall>p < length d. take (length b) (drop p (inet_stream sb)) \<noteq> b)"
  using inet.read_until_laws [of sb b bytes cancel] assms by (auto simp: inet_folds inet_absent)

lemma sample_read_until:
  "\<exists>sb'. gnome_vfs_socket_buffer_read_until sample_buffer 2 ''b'' None = Some (GNOME_VFS_OK, ''ab'', True, sb')
     \<and> last_error (input_buffer sb') = GNOME_VFS_OK"
proof -
  define ib where "ib = (buffer_init (replicate BUFFER_SIZE NUL))\<lparr>bdata := poke (replicate BUFFER_SIZE NUL) 0 ''ab'', byte_count := 2\<rparr>"
  define sb where "sb = sample_buffer\<lparr>input_buffer := ib,
    socket := gnome_vfs_socket_new inet_connection_socket_impl
      (sample_connection\<lparr>in_answers := [Read_Again Select_Timeout, Read_Bytes ''c\<newline>d'']\<rparr>)\<rparr>"
  have "refill_input_buffer sample_buffer None = (True, sb)"
    by (simp add: refill_input_buffer_def sample_buffer_def gnome_vfs_socket_buffer_new_def buffer_init_def Let_def
          gnome_vfs_socket_read_def gnome_vfs_cancellation_check_def gnome_vfs_inet_connection_to_socket_def
          gnome_vfs_socket_new_def inet_connection_socket_impl_def gnome_vfs_inet_connection_read_def sample_connection_def
          BUFFER_SIZE_def sb_def ib_def)
  moreover have "byte_count (input_buffer sample_buffer) = 0" "byte_count (input_buffer sb) = 2"
    by (simp_all add: sample_buffer_def gnome_vfs_socket_buffer_new_def buffer_init_def sb_def ib_def)
  ultimately have r: "refill_until 1 None sample_buffer = Some sb"
    by (subst refill_until.simps, simp, subst refill_until.simps, simp)
  have pk: "peek (bdata ib) (offset ib) 2 = ''ab''"
    by (simp add: ib_def buffer_init_def peek_def poke_def)
  have "fetch_count ''b'' ib 2 = (2, True)"
    using pk by (simp add: fetch_count_def Let_def scan_boundary.simps) (simp add: ib_def scan_boundary.simps)
  then show ?thesis
    using r pk by (simp add: gnome_vfs_socket_buffer_read_until_def BUFFER_SIZE_def consume_def Let_def sb_def ib_def buffer_init_def)
qed

theorem read_until_finds_first_witness:
  "\<exists>sb'. gnome_vfs_socket_buffer_read_until sample_buffer 2 ''b'' None = Some (GNOME_VFS_OK, ''ab'', True, sb')
     \<and> inet_stream sample_buffer = ''ab'' @ inet_stream sb'"
proof -
  obtain sb' where r: "gnome_vfs_socket_buffer_read_until sample_buffer 2 ''b'' None = Some (GNOME_VFS_OK, ''ab'', True, sb')"
      "last_error (input_buffer sb') = GNOME_VFS_OK"
    using sample_read_until by blast
  then show ?thesis
    using read_until_finds_first [OF sample_buffer_wf _ _ r(1) r(2)] by (auto simp: BUFFER_SIZE_def)
qed

text \<open>
  C38. With room for exactly as many bytes as the boundary has, an occurrence in the buffer
  that starts behind the front, but within the first bytes that are fetched, is torn apart:
  the call succeeds without having found a boundary, hands out the bytes before the occurrence
  together with the first bytes of it, and leaves the other bytes of it at the front of the
  buffer, where no later call can recognise it. The documentation promises that every
  boundary is found with that much room.
\<close>

theorem read_until_tears_boundary:
  assumes "inet_wf sb" "buffered (input_buffer sb) = pre @ b @ post" "length b < BUFFER_SIZE"
    and "pre \<noteq> []" "length pre < length b" "take (length b) (pre @ b) \<noteq> b"
  shows "\<exists>sb'. gnome_vfs_socket_buffer_read_until sb (length b) b cancel =
              Some (GNOME_VFS_OK, pre @ take (length b - length pre) b, False, sb')
           \<and> buffered (input_buffer sb') = drop (length b - length pre) b @ post"
proof -
  let ?ib = "input_buffer sb"
  have "length (buffered ?ib) = byte_count ?ib"
    using assms(1) by (auto simp: inet_wf_def wf_buffer_def buffered_def peek_def)
  then have bc: "byte_count ?ib = length pre + length b + length post" using assms(2) by simp
  have front: "take (length b) (buffered ?ib) = pre @ take (length b - length pre) b"
    using assms(2,5) by simp
  have "refill_until (length b) cancel sb = Some sb"
    using bc assms(4) by (subst refill_until.simps) simp
  moreover have "fetch_count b ?ib (length b) = (length b, False)"
    using bc front assms(2,5,6) by (auto simp: fetch_count_def Let_def buffered_def peek_take)
  ultimately have "gnome_vfs_socket_buffer_read_until sb (length b) b cancel =
      Some (GNOME_VFS_OK, take (length b) (buffered ?ib), False, snd (consume (length b) sb))"
    using assms(3-5) bc
    by (auto simp: gnome_vfs_socket_buffer_read_until_def consume_def Let_def buffered_def peek_take)
  moreover have "buffered (input_buffer (snd (consume (length b) sb))) = drop (length b) (buffered ?ib)"
    by (simp add: consume_def Let_def buffered_def peek_def drop_take add.commute)
  moreover have "drop (length b) (buffered ?ib) = drop (length b - length pre) b @ post"
    using assms(2,5) by simp
  ultimately show ?thesis using front by auto
qed

definition holding :: "string \<Rightarrow> inet_buffer" where
  "holding t = sample_buffer\<lparr>input_buffer :=
     (buffer_init (poke (replicate BUFFER_SIZE NUL) 0 t))\<lparr>byte_count := length t\<rparr>\<rparr>"

theorem read_until_tears_boundary_witness:
  "\<exists>sb'. gnome_vfs_socket_buffer_read_until (holding ''xaby'') 2 ''ab'' None = Some (GNOME_VFS_OK, ''xa'', False, sb')
       \<and> buffered (input_buffer sb') = ''by''"
proof -
  have "buffered (input_buffer (holding ''xaby'')) = ''x'' @ ''ab'' @ ''y''"
    by (simp add: holding_def buffer_init_def buffered_def peek_def poke_def)
  moreover have "inet_wf (holding ''xaby'')"
    using sample_buffer_wf by (simp add: holding_def inet_wf_def buffer_init_def wf_buffer_def poke_def BUFFER_SIZE_def)
  ultimately show ?thesis
    using read_until_tears_boundary [of "holding ''xaby''" "''x''" "''ab''" "''y''" None]
    by (simp add: BUFFER_SIZE_def numeral_2_eq_2)
qed

section \<open>Output\<close>

text \<open>Several buffers are written one after the other, then flushed; the first error ends it.\<close>

fun write_all :: "GnomeVFSCancellation option \<Rightarrow> string list \<Rightarrow> 'c GnomeVFSSocketBuffer
    \<Rightarrow> (GnomeVFSResult \<times> 'c GnomeVFSSocketBuffer) option" where
  "write_all cancel [] sb = gnome_vfs_socket_buffer_flush sb cancel"
| "write_all cancel (b # bs) sb =
     (case gnome_vfs_socket_buffer_write sb b cancel of
        None \<Rightarrow> None
      | Some (res, _, sb1) \<Rightarrow> if res \<noteq> GNOME_VFS_OK then Some (res, sb1) else write_all cancel bs sb1)"

text \<open>
  C19. Writing buffers and flushing always returns; what the connection has accepted is then a
  prefix of what it should be, and all of it if no error is reported, whatever the system
  calls answer.
\<close>

theorem socket_buffer_writes_stream:
  assumes "inet_wf sb"
  shows "\<exists>res sb' rest. write_all cancel bs sb = Some (res, sb') \<and> inet_wf sb'
     \<and> inet_sent sb @ buffered (output_buffer sb) @ concat bs = inet_sent sb' @ rest \<and> (res = GNOME_VFS_OK \<longrightarrow> rest = [])"
  using assms
proof (induction bs arbitrary: sb)
  case Nil
  obtain res sb' where f: "flush cancel sb = Some (res, sb')" "inet_wf sb'"
      "inet_sent sb' @ buffered (output_buffer sb') = inet_sent sb @ buffered (output_buffer sb)"
      "res = GNOME_VFS_OK \<longrightarrow> byte_count (output_buffer sb') = 0"
    using inet.flush_laws [of sb cancel] Nil by (auto simp: inet_folds)
  then have "res = GNOME_VFS_OK \<longrightarrow> buffered (output_buffer sb') = []" by (simp add: buffered_def peek_def)
  then show ?case
    using f(1,2) f(3) [symmetric]
    by (intro exI [of _ res] exI [of _ sb'] exI [of _ "buffered (output_buffer sb')"]) (simp add: gnome_vfs_socket_buffer_flush_def)
next
  case (Cons b bs)
  obtain res n sb1 where w: "write_loop cancel b 0 sb = Some (res, n, sb1)" "inet_wf sb1" "n \<le> length b"
      "inet_sent sb1 @ buffered (output_buffer sb1) = inet_sent sb @ buffered (output_buffer sb) @ take n b"
      "res = GNOME_VFS_OK \<longrightarrow> n = length b"
    using inet.write_loop_laws [of sb cancel b 0] Cons.prems by (auto simp: inet_folds)
  show ?case
  proof (cases "res = GNOME_VFS_OK")
    case False
    have "inet_sent sb @ buffered (output_buffer sb) @ concat (b # bs)
        = inet_sent sb1 @ buffered (output_buffer sb1) @ drop n b @ concat bs"
      using w(4) by (metis append.assoc append_take_drop_id concat.simps(2))
    moreover have "write_all cancel (b # bs) sb = Some (res, sb1)"
      using False w(1) by (simp add: gnome_vfs_socket_buffer_write_def)
    ultimately show ?thesis using False w(2) by blast
  next
    case True
    then have "inet_sent sb @ buffered (output_buffer sb) @ concat (b # bs)
        = inet_sent sb1 @ buffered (output_buffer sb1) @ concat bs"
      using w(4,5) by (metis append.assoc concat.simps(2) take_all_iff order_refl)
    moreover have "write_all cancel (b # bs) sb = write_all cancel bs sb1"
      using True w(1) by (simp add: gnome_vfs_socket_buffer_write_def)
    ultimately show ?thesis using Cons.IH [OF w(2)] by presburger
  qed
qed

theorem socket_buffer_writes_stream_witness:
  "\<exists>res sb' rest. write_all None [''ab'', ''c''] sample_buffer = Some (res, sb') \<and> ''abc'' = inet_sent sb' @ rest"
proof -
  have "inet_sent sample_buffer @ buffered (output_buffer sample_buffer) = []"
    by (simp add: sample_buffer_def gnome_vfs_socket_buffer_new_def buffer_init_def buffered_def peek_def inet_sent_def
          gnome_vfs_inet_connection_to_socket_def gnome_vfs_socket_new_def sample_connection_def)
  then show ?thesis using socket_buffer_writes_stream [OF sample_buffer_wf, of None "[''ab'', ''c'']"] by auto
qed

end
