(* ===== verification/VFS_Ops.thy ===== *)
theory VFS_Ops
  imports VFS_FileInfo VFS_Cancellation VFS_Result "HOL-Library.Monad_Syntax"
begin

text \<open>
  The synchronous operations: the table of functions of a method (\<^verbatim>\<open>gnome-vfs-method.h\<close>),
  handles (\<^verbatim>\<open>gnome-vfs-handle.c\<close>), the cancellable operations
  (\<^verbatim>\<open>gnome-vfs-cancellable-ops.c\<close>), the operations without a context (\<^verbatim>\<open>gnome-vfs-ops.c\<close>), and
  the resolution of symbolic links on top of them (\<^verbatim>\<open>gnome-vfs-utils.c\<close>).

  The methods are plugins: what they do is a parameter, one function on a world of type \<open>'w\<close>
  per entry of the table. An operation returns its result code, what it stores through its
  output parameters, and the world.
\<close>

unbundle bit_operations_syntax

section \<open>Methods\<close>

type_synonym file_size = "64 word"
type_synonym vfs_context = "GnomeVFSContext option"

text \<open>
  An entry that the method does not provide (it is null, or behind the end of a table of an
  older version) is \<open>None\<close>. Method handles are numbers; the bytes that a read stores are as
  many as it reports; a write reports how much was written, or leaves the variable alone.
\<close>

record 'w GnomeVFSMethod =
  m_open :: "(GnomeVFSURI \<Rightarrow> guint \<Rightarrow> vfs_context \<Rightarrow> 'w \<Rightarrow> GnomeVFSResult \<times> nat \<times> 'w) option"
  m_create :: "(GnomeVFSURI \<Rightarrow> guint \<Rightarrow> bool \<Rightarrow> guint \<Rightarrow> vfs_context \<Rightarrow> 'w \<Rightarrow> GnomeVFSResult \<times> nat \<times> 'w) option"
  m_close :: "(nat \<Rightarrow> vfs_context \<Rightarrow> 'w \<Rightarrow> GnomeVFSResult \<times> 'w) option"
  m_read :: "(nat \<Rightarrow> file_size \<Rightarrow> vfs_context \<Rightarrow> 'w \<Rightarrow> GnomeVFSResult \<times> string \<times> 'w) option"
  m_write :: "(nat \<Rightarrow> string \<Rightarrow> vfs_context \<Rightarrow> 'w \<Rightarrow> GnomeVFSResult \<times> nat option \<times> 'w) option"
  m_seek :: "(nat \<Rightarrow> nat \<Rightarrow> int \<Rightarrow> vfs_context \<Rightarrow> 'w \<Rightarrow> GnomeVFSResult \<times> 'w) option"
  m_tell :: "(nat \<Rightarrow> 'w \<Rightarrow> GnomeVFSResult \<times> file_size \<times> 'w) option"
  m_truncate_handle :: "(nat \<Rightarrow> file_size \<Rightarrow> vfs_context \<Rightarrow> 'w \<Rightarrow> GnomeVFSResult \<times> 'w) option"
  m_open_directory :: "(GnomeVFSURI \<Rightarrow> guint \<Rightarrow> vfs_context \<Rightarrow> 'w \<Rightarrow> GnomeVFSResult \<times> nat \<times> 'w) option"
  m_close_directory :: "(nat \<Rightarrow> vfs_context \<Rightarrow> 'w \<Rightarrow> GnomeVFSResult \<times> 'w) option"
  m_read_directory :: "(nat \<Rightarrow> GnomeVFSFileInfo \<Rightarrow> vfs_context \<Rightarrow> 'w \<Rightarrow> GnomeVFSResult \<times> GnomeVFSFileInfo \<times> 'w) option"
  m_get_file_info ::
    "(GnomeVFSURI \<Rightarrow> GnomeVFSFileInfo \<Rightarrow> guint \<Rightarrow> vfs_context \<Rightarrow> 'w \<Rightarrow> GnomeVFSResult \<times> GnomeVFSFileInfo \<times> 'w) option"
  m_get_file_info_from_handle ::
    "(nat \<Rightarrow> GnomeVFSFileInfo \<Rightarrow> guint \<Rightarrow> vfs_context \<Rightarrow> 'w \<Rightarrow> GnomeVFSResult \<times> GnomeVFSFileInfo \<times> 'w) option"
  m_make_directory :: "(GnomeVFSURI \<Rightarrow> guint \<Rightarrow> vfs_context \<Rightarrow> 'w \<Rightarrow> GnomeVFSResult \<times> 'w) option"
  m_remove_directory :: "(GnomeVFSURI \<Rightarrow> vfs_context \<Rightarrow> 'w \<Rightarrow> GnomeVFSResult \<times> 'w) option"
  m_move :: "(GnomeVFSURI \<Rightarrow> GnomeVFSURI \<Rightarrow> bool \<Rightarrow> vfs_context \<Rightarrow> 'w \<Rightarrow> GnomeVFSResult \<times> 'w) option"
  m_unlink :: "(GnomeVFSURI \<Rightarrow> vfs_context \<Rightarrow> 'w \<Rightarrow> GnomeVFSResult \<times> 'w) option"
  m_check_same_fs :: "(GnomeVFSURI \<Rightarrow> GnomeVFSURI \<Rightarrow> vfs_context \<Rightarrow> 'w \<Rightarrow> GnomeVFSResult \<times> bool \<times> 'w) option"
  m_set_file_info :: "(GnomeVFSURI \<Rightarrow> GnomeVFSFileInfo \<Rightarrow> guint \<Rightarrow> vfs_context \<Rightarrow> 'w \<Rightarrow> GnomeVFSResult \<times> 'w) option"
  m_truncate :: "(GnomeVFSURI \<Rightarrow> file_size \<Rightarrow> vfs_context \<Rightarrow> 'w \<Rightarrow> GnomeVFSResult \<times> 'w) option"
  m_find_directory ::
    "(GnomeVFSURI \<Rightarrow> nat \<Rightarrow> bool \<Rightarrow> bool \<Rightarrow> guint \<Rightarrow> vfs_context \<Rightarrow> 'w \<Rightarrow> GnomeVFSResult \<times> GnomeVFSURI option \<times> 'w) option"
  m_create_symbolic_link :: "(GnomeVFSURI \<Rightarrow> string \<Rightarrow> vfs_context \<Rightarrow> 'w \<Rightarrow> GnomeVFSResult \<times> 'w) option"
  m_file_control :: "(nat \<Rightarrow> string \<Rightarrow> nat \<Rightarrow> vfs_context \<Rightarrow> 'w \<Rightarrow> GnomeVFSResult \<times> 'w) option"
  m_forget_cache :: "(nat \<Rightarrow> int \<Rightarrow> file_size \<Rightarrow> 'w \<Rightarrow> GnomeVFSResult \<times> 'w) option"
  m_get_volume_free_space :: "(GnomeVFSURI \<Rightarrow> 'w \<Rightarrow> GnomeVFSResult \<times> file_size \<times> 'w) option"

text \<open>
  The library: how it makes URIs, the methods behind the method pointers of URIs, the home
  directory, and \<^verbatim>\<open>g_build_filename\<close>.
\<close>

record 'w vfs_library =
  lib_env :: vfs_env
  lib_method :: "nat \<Rightarrow> 'w GnomeVFSMethod"
  lib_home :: string
  lib_build_filename :: "string \<Rightarrow> string \<Rightarrow> string"

text \<open>The method of a URI; every URI that the library makes has one.\<close>

definition method_of :: "'w vfs_library \<Rightarrow> GnomeVFSURI \<Rightarrow> 'w GnomeVFSMethod" where
  "method_of L uri = lib_method L (case uri_method (uri_elem uri) of None \<Rightarrow> 0 | Some m \<Rightarrow> m)"

definition gnome_vfs_context_check_cancellation :: "vfs_context \<Rightarrow> bool" where
  "gnome_vfs_context_check_cancellation ctx =
     gnome_vfs_cancellation_check (gnome_vfs_context_get_cancellation ctx)"

section \<open>Handles\<close>

text \<open>The handle owns a reference to its URI; references to URIs are counted in \<^verbatim>\<open>VFS_URI\<close>.\<close>

record GnomeVFSHandle =
  h_uri :: GnomeVFSURI
  h_method_handle :: nat
  h_open_mode :: guint

definition gnome_vfs_handle_new :: "GnomeVFSURI \<Rightarrow> nat \<Rightarrow> guint \<Rightarrow> GnomeVFSHandle" where
  "gnome_vfs_handle_new uri method_handle open_mode =
     \<lparr>h_uri = uri, h_method_handle = method_handle, h_open_mode = open_mode\<rparr>"

definition gnome_vfs_handle_get_open_mode :: "GnomeVFSHandle \<Rightarrow> guint" where
  "gnome_vfs_handle_get_open_mode handle = h_open_mode handle"

definition gnome_vfs_handle_do_close ::
    "'w vfs_library \<Rightarrow> GnomeVFSHandle \<Rightarrow> vfs_context \<Rightarrow> 'w \<Rightarrow> GnomeVFSResult \<times> 'w" where
  "gnome_vfs_handle_do_close L handle ctx w =
     (case m_close (method_of L (h_uri handle)) of
        None \<Rightarrow> (GNOME_VFS_ERROR_NOT_SUPPORTED, w) | Some f \<Rightarrow> f (h_method_handle handle) ctx w)"

definition gnome_vfs_handle_do_read ::
    "'w vfs_library \<Rightarrow> GnomeVFSHandle \<Rightarrow> file_size \<Rightarrow> vfs_context \<Rightarrow> 'w \<Rightarrow> GnomeVFSResult \<times> string \<times> 'w" where
  "gnome_vfs_handle_do_read L handle num_bytes ctx w =
     (case m_read (method_of L (h_uri handle)) of
        None \<Rightarrow> (GNOME_VFS_ERROR_NOT_SUPPORTED, [], w) | Some f \<Rightarrow> f (h_method_handle handle) num_bytes ctx w)"

definition gnome_vfs_handle_forget_cache ::
    "'w vfs_library \<Rightarrow> GnomeVFSHandle \<Rightarrow> int \<Rightarrow> file_size \<Rightarrow> 'w \<Rightarrow> GnomeVFSResult \<times> 'w" where
  "gnome_vfs_handle_forget_cache L handle offset len w =
     (case m_forget_cache (method_of L (h_uri handle)) of
        None \<Rightarrow> (GNOME_VFS_ERROR_NOT_SUPPORTED, w) | Some f \<Rightarrow> f (h_method_handle handle) offset len w)"

definition gnome_vfs_handle_do_write ::
    "'w vfs_library \<Rightarrow> GnomeVFSHandle \<Rightarrow> string \<Rightarrow> vfs_context \<Rightarrow> 'w \<Rightarrow> GnomeVFSResult \<times> nat option \<times> 'w" where
  "gnome_vfs_handle_do_write L handle buffer ctx w =
     (case m_write (method_of L (h_uri handle)) of
        None \<Rightarrow> (GNOME_VFS_ERROR_NOT_SUPPORTED, None, w) | Some f \<Rightarrow> f (h_method_handle handle) buffer ctx w)"

definition gnome_vfs_handle_do_seek ::
    "'w vfs_library \<Rightarrow> GnomeVFSHandle \<Rightarrow> nat \<Rightarrow> int \<Rightarrow> vfs_context \<Rightarrow> 'w \<Rightarrow> GnomeVFSResult \<times> 'w" where
  "gnome_vfs_handle_do_seek L handle whence offset ctx w =
     (case m_seek (method_of L (h_uri handle)) of
        None \<Rightarrow> (GNOME_VFS_ERROR_NOT_SUPPORTED, w) | Some f \<Rightarrow> f (h_method_handle handle) whence offset ctx w)"

definition gnome_vfs_handle_do_tell ::
    "'w vfs_library \<Rightarrow> GnomeVFSHandle \<Rightarrow> 'w \<Rightarrow> GnomeVFSResult \<times> file_size option \<times> 'w" where
  "gnome_vfs_handle_do_tell L handle w =
     (case m_tell (method_of L (h_uri handle)) of
        None \<Rightarrow> (GNOME_VFS_ERROR_NOT_SUPPORTED, None, w)
      | Some f \<Rightarrow> let (result, offset, w') = f (h_method_handle handle) w in (result, Some offset, w'))"

definition gnome_vfs_handle_do_get_file_info ::
    "'w vfs_library \<Rightarrow> GnomeVFSHandle \<Rightarrow> GnomeVFSFileInfo \<Rightarrow> guint \<Rightarrow> vfs_context \<Rightarrow> 'w
      \<Rightarrow> GnomeVFSResult \<times> GnomeVFSFileInfo \<times> 'w" where
  "gnome_vfs_handle_do_get_file_info L handle info options ctx w =
     (case m_get_file_info_from_handle (method_of L (h_uri handle)) of
        None \<Rightarrow> (GNOME_VFS_ERROR_NOT_SUPPORTED, info, w) | Some f \<Rightarrow> f (h_method_handle handle) info options ctx w)"

definition gnome_vfs_handle_do_truncate ::
    "'w vfs_library \<Rightarrow> GnomeVFSHandle \<Rightarrow> file_size \<Rightarrow> vfs_context \<Rightarrow> 'w \<Rightarrow> GnomeVFSResult \<times> 'w" where
  "gnome_vfs_handle_do_truncate L handle len ctx w =
     (case m_truncate_handle (method_of L (h_uri handle)) of
        None \<Rightarrow> (GNOME_VFS_ERROR_NOT_SUPPORTED, w) | Some f \<Rightarrow> f (h_method_handle handle) len ctx w)"

definition gnome_vfs_handle_do_file_control ::
    "'w vfs_library \<Rightarrow> GnomeVFSHandle \<Rightarrow> string \<Rightarrow> nat \<Rightarrow> vfs_context \<Rightarrow> 'w \<Rightarrow> GnomeVFSResult \<times> 'w" where
  "gnome_vfs_handle_do_file_control L handle operation operation_data ctx w =
     (case m_file_control (method_of L (h_uri handle)) of
        None \<Rightarrow> (GNOME_VFS_ERROR_NOT_SUPPORTED, w)
      | Some f \<Rightarrow> f (h_method_handle handle) operation operation_data ctx w)"

section \<open>Cancellable operations\<close>

text \<open>A returned handle of \<open>None\<close>: the caller's variable was not written.\<close>

definition gnome_vfs_open_uri_cancellable ::
    "'w vfs_library \<Rightarrow> GnomeVFSURI \<Rightarrow> guint \<Rightarrow> vfs_context \<Rightarrow> 'w \<Rightarrow> GnomeVFSResult \<times> GnomeVFSHandle option \<times> 'w" where
  "gnome_vfs_open_uri_cancellable L uri open_mode ctx w =
     (if uri_method (uri_elem uri) = None then (GNOME_VFS_ERROR_BAD_PARAMETERS, None, w)
      else if gnome_vfs_context_check_cancellation ctx then (GNOME_VFS_ERROR_CANCELLED, None, w)
      else case m_open (method_of L uri) of
             None \<Rightarrow> (GNOME_VFS_ERROR_NOT_SUPPORTED, None, w)
           | Some f \<Rightarrow>
               let (result, method_handle, w') = f uri open_mode ctx w
               in if result \<noteq> GNOME_VFS_OK then (result, None, w')
                  else (GNOME_VFS_OK, Some (gnome_vfs_handle_new uri method_handle open_mode), w'))"

definition gnome_vfs_create_uri_cancellable ::
    "'w vfs_library \<Rightarrow> GnomeVFSURI \<Rightarrow> guint \<Rightarrow> bool \<Rightarrow> guint \<Rightarrow> vfs_context \<Rightarrow> 'w
      \<Rightarrow> GnomeVFSResult \<times> GnomeVFSHandle option \<times> 'w" where
  "gnome_vfs_create_uri_cancellable L uri open_mode exclusive perm ctx w =
     (if gnome_vfs_context_check_cancellation ctx then (GNOME_VFS_ERROR_CANCELLED, None, w)
      else case m_create (method_of L uri) of
             None \<Rightarrow> (GNOME_VFS_ERROR_NOT_SUPPORTED, None, w)
           | Some f \<Rightarrow>
               let (result, method_handle, w') = f uri open_mode exclusive perm ctx w
               in if result \<noteq> GNOME_VFS_OK then (result, None, w')
                  else (GNOME_VFS_OK, Some (gnome_vfs_handle_new uri method_handle open_mode), w'))"

definition gnome_vfs_close_cancellable ::
    "'w vfs_library \<Rightarrow> GnomeVFSHandle \<Rightarrow> vfs_context \<Rightarrow> 'w \<Rightarrow> GnomeVFSResult \<times> 'w" where
  "gnome_vfs_close_cancellable L handle ctx w =
     (if gnome_vfs_context_check_cancellation ctx then (GNOME_VFS_ERROR_CANCELLED, w)
      else gnome_vfs_handle_do_close L handle ctx w)"

text \<open>The second component is what was read: empty whenever the result is not OK.\<close>

definition gnome_vfs_read_cancellable ::
    "'w vfs_library \<Rightarrow> GnomeVFSHandle \<Rightarrow> file_size \<Rightarrow> vfs_context \<Rightarrow> 'w \<Rightarrow> GnomeVFSResult \<times> string \<times> 'w" where
  "gnome_vfs_read_cancellable L handle bytes ctx w =
     (if gnome_vfs_context_check_cancellation ctx then (GNOME_VFS_ERROR_CANCELLED, [], w)
      else if bytes = 0 then (GNOME_VFS_OK, [], w)
      else let (res, buffer, w') = gnome_vfs_handle_do_read L handle bytes ctx w
           in (res, if res \<noteq> GNOME_VFS_OK then [] else buffer, w'))"

text \<open>The second component is the number of bytes written, \<open>None\<close> where the variable is left alone.\<close>

definition gnome_vfs_write_cancellable ::
    "'w vfs_library \<Rightarrow> GnomeVFSHandle \<Rightarrow> string \<Rightarrow> vfs_context \<Rightarrow> 'w \<Rightarrow> GnomeVFSResult \<times> nat option \<times> 'w" where
  "gnome_vfs_write_cancellable L handle buffer ctx w =
     (if gnome_vfs_context_check_cancellation ctx then (GNOME_VFS_ERROR_CANCELLED, None, w)
      else if buffer = [] then (GNOME_VFS_OK, Some 0, w)
      else gnome_vfs_handle_do_write L handle buffer ctx w)"

definition gnome_vfs_seek_cancellable ::
    "'w vfs_library \<Rightarrow> GnomeVFSHandle \<Rightarrow> nat \<Rightarrow> int \<Rightarrow> vfs_context \<Rightarrow> 'w \<Rightarrow> GnomeVFSResult \<times> 'w" where
  "gnome_vfs_seek_cancellable L handle whence offset ctx w =
     (if gnome_vfs_context_check_cancellation ctx then (GNOME_VFS_ERROR_CANCELLED, w)
      else gnome_vfs_handle_do_seek L handle whence offset ctx w)"

definition gnome_vfs_get_file_info_uri_cancellable ::
    "'w vfs_library \<Rightarrow> GnomeVFSURI \<Rightarrow> GnomeVFSFileInfo \<Rightarrow> guint \<Rightarrow> vfs_context \<Rightarrow> 'w
      \<Rightarrow> GnomeVFSResult \<times> GnomeVFSFileInfo \<times> 'w" where
  "gnome_vfs_get_file_info_uri_cancellable L uri info options ctx w =
     (if gnome_vfs_context_check_cancellation ctx then (GNOME_VFS_ERROR_CANCELLED, info, w)
      else case m_get_file_info (method_of L uri) of
             None \<Rightarrow> (GNOME_VFS_ERROR_NOT_SUPPORTED, info, w)
           | Some f \<Rightarrow> f uri info options ctx w)"

definition gnome_vfs_get_file_info_from_handle_cancellable ::
    "'w vfs_library \<Rightarrow> GnomeVFSHandle \<Rightarrow> GnomeVFSFileInfo \<Rightarrow> guint \<Rightarrow> vfs_context \<Rightarrow> 'w
      \<Rightarrow> GnomeVFSResult \<times> GnomeVFSFileInfo \<times> 'w" where
  "gnome_vfs_get_file_info_from_handle_cancellable L handle info options ctx w =
     (if gnome_vfs_context_check_cancellation ctx then (GNOME_VFS_ERROR_CANCELLED, info, w)
      else gnome_vfs_handle_do_get_file_info L handle info options ctx w)"

definition gnome_vfs_truncate_uri_cancellable ::
    "'w vfs_library \<Rightarrow> GnomeVFSURI \<Rightarrow> file_size \<Rightarrow> vfs_context \<Rightarrow> 'w \<Rightarrow> GnomeVFSResult \<times> 'w" where
  "gnome_vfs_truncate_uri_cancellable L uri len ctx w =
     (if gnome_vfs_context_check_cancellation ctx then (GNOME_VFS_ERROR_CANCELLED, w)
      else case m_truncate (method_of L uri) of
             None \<Rightarrow> (GNOME_VFS_ERROR_NOT_SUPPORTED, w) | Some f \<Rightarrow> f uri len ctx w)"

definition gnome_vfs_truncate_handle_cancellable ::
    "'w vfs_library \<Rightarrow> GnomeVFSHandle \<Rightarrow> file_size \<Rightarrow> vfs_context \<Rightarrow> 'w \<Rightarrow> GnomeVFSResult \<times> 'w" where
  "gnome_vfs_truncate_handle_cancellable L handle len ctx w =
     (if gnome_vfs_context_check_cancellation ctx then (GNOME_VFS_ERROR_CANCELLED, w)
      else gnome_vfs_handle_do_truncate L handle len ctx w)"

definition gnome_vfs_make_directory_for_uri_cancellable ::
    "'w vfs_library \<Rightarrow> GnomeVFSURI \<Rightarrow> guint \<Rightarrow> vfs_context \<Rightarrow> 'w \<Rightarrow> GnomeVFSResult \<times> 'w" where
  "gnome_vfs_make_directory_for_uri_cancellable L uri perm ctx w =
     (if gnome_vfs_context_check_cancellation ctx then (GNOME_VFS_ERROR_CANCELLED, w)
      else case m_make_directory (method_of L uri) of
             None \<Rightarrow> (GNOME_VFS_ERROR_NOT_SUPPORTED, w) | Some f \<Rightarrow> f uri perm ctx w)"

definition gnome_vfs_remove_directory_from_uri_cancellable ::
    "'w vfs_library \<Rightarrow> GnomeVFSURI \<Rightarrow> vfs_context \<Rightarrow> 'w \<Rightarrow> GnomeVFSResult \<times> 'w" where
  "gnome_vfs_remove_directory_from_uri_cancellable L uri ctx w =
     (if gnome_vfs_context_check_cancellation ctx then (GNOME_VFS_ERROR_CANCELLED, w)
      else case m_remove_directory (method_of L uri) of
             None \<Rightarrow> (GNOME_VFS_ERROR_NOT_SUPPORTED, w) | Some f \<Rightarrow> f uri ctx w)"

definition gnome_vfs_unlink_from_uri_cancellable ::
    "'w vfs_library \<Rightarrow> GnomeVFSURI \<Rightarrow> vfs_context \<Rightarrow> 'w \<Rightarrow> GnomeVFSResult \<times> 'w" where
  "gnome_vfs_unlink_from_uri_cancellable L uri ctx w =
     (if gnome_vfs_context_check_cancellation ctx then (GNOME_VFS_ERROR_CANCELLED, w)
      else case m_unlink (method_of L uri) of
             None \<Rightarrow> (GNOME_VFS_ERROR_NOT_SUPPORTED, w) | Some f \<Rightarrow> f uri ctx w)"

definition gnome_vfs_create_symbolic_link_cancellable ::
    "'w vfs_library \<Rightarrow> GnomeVFSURI \<Rightarrow> string \<Rightarrow> vfs_context \<Rightarrow> 'w \<Rightarrow> GnomeVFSResult \<times> 'w" where
  "gnome_vfs_create_symbolic_link_cancellable L uri target_reference ctx w =
     (if gnome_vfs_context_check_cancellation ctx then (GNOME_VFS_ERROR_CANCELLED, w)
      else case m_create_symbolic_link (method_of L uri) of
             None \<Rightarrow> (GNOME_VFS_ERROR_NOT_SUPPORTED, w) | Some f \<Rightarrow> f uri target_reference ctx w)"

definition check_same_fs_in_uri :: "GnomeVFSURI \<Rightarrow> GnomeVFSURI \<Rightarrow> bool" where
  "check_same_fs_in_uri a b =
     (if uri_method (uri_elem a) \<noteq> uri_method (uri_elem b) then False
      else if method_string (uri_elem a) \<noteq> method_string (uri_elem b) then False
      else True)"

text \<open>\<open>None\<close>: the comparison of the two URIs does not return.\<close>

definition gnome_vfs_move_uri_cancellable ::
    "'w vfs_library \<Rightarrow> GnomeVFSURI \<Rightarrow> GnomeVFSURI \<Rightarrow> bool \<Rightarrow> vfs_context \<Rightarrow> 'w \<Rightarrow> (GnomeVFSResult \<times> 'w) option" where
  "gnome_vfs_move_uri_cancellable L old_uri new_uri force_replace ctx w =
     (if gnome_vfs_context_check_cancellation ctx then Some (GNOME_VFS_ERROR_CANCELLED, w)
      else if \<not> check_same_fs_in_uri old_uri new_uri then Some (GNOME_VFS_ERROR_NOT_SAME_FILE_SYSTEM, w)
      else do {
        equal \<leftarrow> gnome_vfs_uri_equal False old_uri new_uri;
        if equal then Some (GNOME_VFS_OK, w)
        else case m_move (method_of L old_uri) of
               None \<Rightarrow> Some (GNOME_VFS_ERROR_NOT_SUPPORTED, w)
             | Some f \<Rightarrow> Some (f old_uri new_uri force_replace ctx w)
      })"

text \<open>The second component is \<open>None\<close> where the caller's variable was not written.\<close>

definition gnome_vfs_check_same_fs_uris_cancellable ::
    "'w vfs_library \<Rightarrow> GnomeVFSURI \<Rightarrow> GnomeVFSURI \<Rightarrow> vfs_context \<Rightarrow> 'w \<Rightarrow> GnomeVFSResult \<times> bool option \<times> 'w" where
  "gnome_vfs_check_same_fs_uris_cancellable L a b ctx w =
     (if gnome_vfs_context_check_cancellation ctx then (GNOME_VFS_ERROR_CANCELLED, None, w)
      else if \<not> check_same_fs_in_uri a b then (GNOME_VFS_OK, Some False, w)
      else case m_check_same_fs (method_of L a) of
             None \<Rightarrow> (GNOME_VFS_OK, Some False, w)
           | Some f \<Rightarrow> let (result, same, w') = f a b ctx w in (result, Some same, w'))"

text \<open>With \<^verbatim>\<open>GNOME_VFS_SET_FILE_INFO_NAME\<close> the information has a name.\<close>

definition gnome_vfs_set_file_info_cancellable ::
    "'w vfs_library \<Rightarrow> GnomeVFSURI \<Rightarrow> GnomeVFSFileInfo \<Rightarrow> guint \<Rightarrow> vfs_context \<Rightarrow> 'w \<Rightarrow> GnomeVFSResult \<times> 'w" where
  "gnome_vfs_set_file_info_cancellable L a info msk ctx w =
     (if gnome_vfs_context_check_cancellation ctx then (GNOME_VFS_ERROR_CANCELLED, w)
      else case m_set_file_info (method_of L a) of
             None \<Rightarrow> (GNOME_VFS_ERROR_NOT_SUPPORTED, w)
           | Some f \<Rightarrow>
               if (msk AND GNOME_VFS_SET_FILE_INFO_NAME) \<noteq> 0
                  \<and> (case fi_name info of None \<Rightarrow> False | Some n \<Rightarrow> strchr n slash \<noteq> None)
               then (GNOME_VFS_ERROR_BAD_PARAMETERS, w)
               else f a info msk ctx w)"

definition gnome_vfs_file_control_cancellable ::
    "'w vfs_library \<Rightarrow> GnomeVFSHandle \<Rightarrow> string \<Rightarrow> nat \<Rightarrow> vfs_context \<Rightarrow> 'w \<Rightarrow> GnomeVFSResult \<times> 'w" where
  "gnome_vfs_file_control_cancellable L handle operation operation_data ctx w =
     (if gnome_vfs_context_check_cancellation ctx then (GNOME_VFS_ERROR_CANCELLED, w)
      else gnome_vfs_handle_do_file_control L handle operation operation_data ctx w)"

section \<open>Operations without a context\<close>

definition gnome_vfs_open_uri ::
    "'w vfs_library \<Rightarrow> GnomeVFSURI \<Rightarrow> guint \<Rightarrow> 'w \<Rightarrow> GnomeVFSResult \<times> GnomeVFSHandle option \<times> 'w" where
  "gnome_vfs_open_uri L uri open_mode w = gnome_vfs_open_uri_cancellable L uri open_mode None w"

text \<open>A text URI is \<open>None\<close> when it is null; the returned handle is \<open>None\<close> when it is null.\<close>

definition gnome_vfs_open ::
    "'w vfs_library \<Rightarrow> string option \<Rightarrow> guint \<Rightarrow> 'w \<Rightarrow> GnomeVFSResult \<times> GnomeVFSHandle option \<times> 'w" where
  "gnome_vfs_open L text_uri open_mode w =
     (if text_uri = None then (GNOME_VFS_ERROR_BAD_PARAMETERS, None, w)
      else case gnome_vfs_uri_new (lib_env L) text_uri of
             None \<Rightarrow> (GNOME_VFS_ERROR_INVALID_URI, None, w)
           | Some uri \<Rightarrow> gnome_vfs_open_uri L uri open_mode w)"

definition gnome_vfs_create_uri ::
    "'w vfs_library \<Rightarrow> GnomeVFSURI \<Rightarrow> guint \<Rightarrow> bool \<Rightarrow> guint \<Rightarrow> 'w \<Rightarrow> GnomeVFSResult \<times> GnomeVFSHandle option \<times> 'w" where
  "gnome_vfs_create_uri L uri open_mode exclusive perm w =
     gnome_vfs_create_uri_cancellable L uri open_mode exclusive perm None w"

definition gnome_vfs_create ::
    "'w vfs_library \<Rightarrow> string option \<Rightarrow> guint \<Rightarrow> bool \<Rightarrow> guint \<Rightarrow> 'w \<Rightarrow> GnomeVFSResult \<times> GnomeVFSHandle option \<times> 'w" where
  "gnome_vfs_create L text_uri open_mode exclusive perm w =
     (if text_uri = None then (GNOME_VFS_ERROR_BAD_PARAMETERS, None, w)
      else case gnome_vfs_uri_new (lib_env L) text_uri of
             None \<Rightarrow> (GNOME_VFS_ERROR_INVALID_URI, None, w)
           | Some uri \<Rightarrow> gnome_vfs_create_uri L uri open_mode exclusive perm w)"

definition gnome_vfs_forget_cache ::
    "'w vfs_library \<Rightarrow> GnomeVFSHandle \<Rightarrow> int \<Rightarrow> file_size \<Rightarrow> 'w \<Rightarrow> GnomeVFSResult \<times> 'w" where
  "gnome_vfs_forget_cache L handle offset len w = gnome_vfs_handle_forget_cache L handle offset len w"

definition gnome_vfs_close :: "'w vfs_library \<Rightarrow> GnomeVFSHandle \<Rightarrow> 'w \<Rightarrow> GnomeVFSResult \<times> 'w" where
  "gnome_vfs_close L handle w = gnome_vfs_close_cancellable L handle None w"

definition gnome_vfs_read ::
    "'w vfs_library \<Rightarrow> GnomeVFSHandle \<Rightarrow> file_size \<Rightarrow> 'w \<Rightarrow> GnomeVFSResult \<times> string \<times> 'w" where
  "gnome_vfs_read L handle bytes w = gnome_vfs_read_cancellable L handle bytes None w"

definition gnome_vfs_write ::
    "'w vfs_library \<Rightarrow> GnomeVFSHandle \<Rightarrow> string \<Rightarrow> 'w \<Rightarrow> GnomeVFSResult \<times> nat option \<times> 'w" where
  "gnome_vfs_write L handle buffer w = gnome_vfs_write_cancellable L handle buffer None w"

definition gnome_vfs_seek ::
    "'w vfs_library \<Rightarrow> GnomeVFSHandle \<Rightarrow> nat \<Rightarrow> int \<Rightarrow> 'w \<Rightarrow> GnomeVFSResult \<times> 'w" where
  "gnome_vfs_seek L handle whence offset w = gnome_vfs_seek_cancellable L handle whence offset None w"

definition gnome_vfs_tell ::
    "'w vfs_library \<Rightarrow> GnomeVFSHandle \<Rightarrow> 'w \<Rightarrow> GnomeVFSResult \<times> file_size option \<times> 'w" where
  "gnome_vfs_tell L handle w = gnome_vfs_handle_do_tell L handle w"

definition gnome_vfs_get_file_info_uri ::
    "'w vfs_library \<Rightarrow> GnomeVFSURI \<Rightarrow> GnomeVFSFileInfo \<Rightarrow> guint \<Rightarrow> 'w \<Rightarrow> GnomeVFSResult \<times> GnomeVFSFileInfo \<times> 'w" where
  "gnome_vfs_get_file_info_uri L uri info options w =
     gnome_vfs_get_file_info_uri_cancellable L uri info options None w"

definition gnome_vfs_get_file_info ::
    "'w vfs_library \<Rightarrow> string option \<Rightarrow> GnomeVFSFileInfo \<Rightarrow> guint \<Rightarrow> 'w \<Rightarrow> GnomeVFSResult \<times> GnomeVFSFileInfo \<times> 'w" where
  "gnome_vfs_get_file_info L text_uri info options w =
     (case gnome_vfs_uri_new (lib_env L) text_uri of
        None \<Rightarrow> (GNOME_VFS_ERROR_NOT_SUPPORTED, info, w)
      | Some uri \<Rightarrow> gnome_vfs_get_file_info_uri L uri info options w)"

definition gnome_vfs_get_file_info_from_handle ::
    "'w vfs_library \<Rightarrow> GnomeVFSHandle \<Rightarrow> GnomeVFSFileInfo \<Rightarrow> guint \<Rightarrow> 'w \<Rightarrow> GnomeVFSResult \<times> GnomeVFSFileInfo \<times> 'w" where
  "gnome_vfs_get_file_info_from_handle L handle info options w =
     gnome_vfs_get_file_info_from_handle_cancellable L handle info options None w"

definition gnome_vfs_truncate_uri ::
    "'w vfs_library \<Rightarrow> GnomeVFSURI \<Rightarrow> file_size \<Rightarrow> 'w \<Rightarrow> GnomeVFSResult \<times> 'w" where
  "gnome_vfs_truncate_uri L uri len w = gnome_vfs_truncate_uri_cancellable L uri len None w"

definition gnome_vfs_truncate ::
    "'w vfs_library \<Rightarrow> string option \<Rightarrow> file_size \<Rightarrow> 'w \<Rightarrow> GnomeVFSResult \<times> 'w" where
  "gnome_vfs_truncate L text_uri len w =
     (case gnome_vfs_uri_new (lib_env L) text_uri of
        None \<Rightarrow> (GNOME_VFS_ERROR_NOT_SUPPORTED, w)
      | Some uri \<Rightarrow> gnome_vfs_truncate_uri L uri len w)"

definition gnome_vfs_truncate_handle ::
    "'w vfs_library \<Rightarrow> GnomeVFSHandle \<Rightarrow> file_size \<Rightarrow> 'w \<Rightarrow> GnomeVFSResult \<times> 'w" where
  "gnome_vfs_truncate_handle L handle len w = gnome_vfs_truncate_handle_cancellable L handle len None w"

definition gnome_vfs_make_directory_for_uri ::
    "'w vfs_library \<Rightarrow> GnomeVFSURI \<Rightarrow> guint \<Rightarrow> 'w \<Rightarrow> GnomeVFSResult \<times> 'w" where
  "gnome_vfs_make_directory_for_uri L uri perm w = gnome_vfs_make_directory_for_uri_cancellable L uri perm None w"

definition gnome_vfs_make_directory ::
    "'w vfs_library \<Rightarrow> string option \<Rightarrow> guint \<Rightarrow> 'w \<Rightarrow> GnomeVFSResult \<times> 'w" where
  "gnome_vfs_make_directory L text_uri perm w =
     (if text_uri = None then (GNOME_VFS_ERROR_BAD_PARAMETERS, w)
      else case gnome_vfs_uri_new (lib_env L) text_uri of
             None \<Rightarrow> (GNOME_VFS_ERROR_INVALID_URI, w)
           | Some uri \<Rightarrow> gnome_vfs_make_directory_for_uri L uri perm w)"

definition gnome_vfs_remove_directory_from_uri :: "'w vfs_library \<Rightarrow> GnomeVFSURI \<Rightarrow> 'w \<Rightarrow> GnomeVFSResult \<times> 'w" where
  "gnome_vfs_remove_directory_from_uri L uri w = gnome_vfs_remove_directory_from_uri_cancellable L uri None w"

definition gnome_vfs_remove_directory :: "'w vfs_library \<Rightarrow> string option \<Rightarrow> 'w \<Rightarrow> GnomeVFSResult \<times> 'w" where
  "gnome_vfs_remove_directory L text_uri w =
     (if text_uri = None then (GNOME_VFS_ERROR_BAD_PARAMETERS, w)
      else case gnome_vfs_uri_new (lib_env L) text_uri of
             None \<Rightarrow> (GNOME_VFS_ERROR_INVALID_URI, w)
           | Some uri \<Rightarrow> gnome_vfs_remove_directory_from_uri L uri w)"

definition gnome_vfs_unlink_from_uri :: "'w vfs_library \<Rightarrow> GnomeVFSURI \<Rightarrow> 'w \<Rightarrow> GnomeVFSResult \<times> 'w" where
  "gnome_vfs_unlink_from_uri L uri w = gnome_vfs_unlink_from_uri_cancellable L uri None w"

definition gnome_vfs_create_symbolic_link ::
    "'w vfs_library \<Rightarrow> GnomeVFSURI \<Rightarrow> string \<Rightarrow> 'w \<Rightarrow> GnomeVFSResult \<times> 'w" where
  "gnome_vfs_create_symbolic_link L uri target_reference w =
     gnome_vfs_create_symbolic_link_cancellable L uri target_reference None w"

definition gnome_vfs_unlink :: "'w vfs_library \<Rightarrow> string option \<Rightarrow> 'w \<Rightarrow> GnomeVFSResult \<times> 'w" where
  "gnome_vfs_unlink L text_uri w =
     (if text_uri = None then (GNOME_VFS_ERROR_BAD_PARAMETERS, w)
      else case gnome_vfs_uri_new (lib_env L) text_uri of
             None \<Rightarrow> (GNOME_VFS_ERROR_INVALID_URI, w)
           | Some uri \<Rightarrow> gnome_vfs_unlink_from_uri L uri w)"

definition gnome_vfs_move_uri ::
    "'w vfs_library \<Rightarrow> GnomeVFSURI \<Rightarrow> GnomeVFSURI \<Rightarrow> bool \<Rightarrow> 'w \<Rightarrow> (GnomeVFSResult \<times> 'w) option" where
  "gnome_vfs_move_uri L old_uri new_uri force_replace w =
     gnome_vfs_move_uri_cancellable L old_uri new_uri force_replace None w"

definition gnome_vfs_move ::
    "'w vfs_library \<Rightarrow> string option \<Rightarrow> string option \<Rightarrow> bool \<Rightarrow> 'w \<Rightarrow> (GnomeVFSResult \<times> 'w) option" where
  "gnome_vfs_move L old_text_uri new_text_uri force_replace w =
     (if old_text_uri = None \<or> new_text_uri = None then Some (GNOME_VFS_ERROR_BAD_PARAMETERS, w)
      else case (gnome_vfs_uri_new (lib_env L) old_text_uri, gnome_vfs_uri_new (lib_env L) new_text_uri) of
             (Some old_uri, Some new_uri) \<Rightarrow> gnome_vfs_move_uri L old_uri new_uri force_replace w
           | _ \<Rightarrow> Some (GNOME_VFS_ERROR_INVALID_URI, w))"

definition gnome_vfs_check_same_fs_uris ::
    "'w vfs_library \<Rightarrow> GnomeVFSURI \<Rightarrow> GnomeVFSURI \<Rightarrow> 'w \<Rightarrow> GnomeVFSResult \<times> bool option \<times> 'w" where
  "gnome_vfs_check_same_fs_uris L source_uri target_uri w =
     gnome_vfs_check_same_fs_uris_cancellable L source_uri target_uri None w"

text \<open>Here the variable is cleared first.\<close>

definition gnome_vfs_check_same_fs ::
    "'w vfs_library \<Rightarrow> string option \<Rightarrow> string option \<Rightarrow> 'w \<Rightarrow> GnomeVFSResult \<times> bool \<times> 'w" where
  "gnome_vfs_check_same_fs L source target w =
     (if source = None \<or> target = None then (GNOME_VFS_ERROR_BAD_PARAMETERS, False, w)
      else case (gnome_vfs_uri_new (lib_env L) source, gnome_vfs_uri_new (lib_env L) target) of
             (Some a_uri, Some b_uri) \<Rightarrow>
               let (retval, same, w') = gnome_vfs_check_same_fs_uris L a_uri b_uri w
               in (retval, case same of None \<Rightarrow> False | Some b \<Rightarrow> b, w')
           | _ \<Rightarrow> (GNOME_VFS_ERROR_INVALID_URI, False, w))"

definition gnome_vfs_set_file_info_uri ::
    "'w vfs_library \<Rightarrow> GnomeVFSURI \<Rightarrow> GnomeVFSFileInfo \<Rightarrow> guint \<Rightarrow> 'w \<Rightarrow> GnomeVFSResult \<times> 'w" where
  "gnome_vfs_set_file_info_uri L uri info msk w = gnome_vfs_set_file_info_cancellable L uri info msk None w"

definition gnome_vfs_set_file_info ::
    "'w vfs_library \<Rightarrow> string option \<Rightarrow> GnomeVFSFileInfo \<Rightarrow> guint \<Rightarrow> 'w \<Rightarrow> GnomeVFSResult \<times> 'w" where
  "gnome_vfs_set_file_info L text_uri info msk w =
     (case gnome_vfs_uri_new (lib_env L) text_uri of
        None \<Rightarrow> (GNOME_VFS_ERROR_INVALID_URI, w)
      | Some uri \<Rightarrow> gnome_vfs_set_file_info_uri L uri info msk w)"

definition gnome_vfs_uri_exists :: "'w vfs_library \<Rightarrow> GnomeVFSURI \<Rightarrow> 'w \<Rightarrow> bool \<times> 'w" where
  "gnome_vfs_uri_exists L uri w =
     (let (result, info, w') = gnome_vfs_get_file_info_uri L uri gnome_vfs_file_info_new GNOME_VFS_FILE_INFO_DEFAULT w
      in (result = GNOME_VFS_OK, w'))"

definition gnome_vfs_file_control ::
    "'w vfs_library \<Rightarrow> GnomeVFSHandle \<Rightarrow> string \<Rightarrow> nat \<Rightarrow> 'w \<Rightarrow> GnomeVFSResult \<times> 'w" where
  "gnome_vfs_file_control L handle operation operation_data w =
     gnome_vfs_file_control_cancellable L handle operation operation_data None w"

text \<open>The size is \<open>None\<close> where the caller's variable was not written.\<close>

definition gnome_vfs_get_volume_free_space ::
    "'w vfs_library \<Rightarrow> GnomeVFSURI \<Rightarrow> 'w \<Rightarrow> GnomeVFSResult \<times> file_size option \<times> 'w" where
  "gnome_vfs_get_volume_free_space L vfs_uri w =
     (case m_get_volume_free_space (method_of L vfs_uri) of
        None \<Rightarrow> (GNOME_VFS_ERROR_NOT_SUPPORTED, None, w)
      | Some f \<Rightarrow> let (result, len, w') = f vfs_uri w in (result, Some len, w'))"

section \<open>Symbolic links in a URI\<close>

definition MAX_SYMLINKS_FOLLOWED :: nat where "MAX_SYMLINKS_FOLLOWED = 32"

text \<open>Past the slashes at a position, and past the component that follows.\<close>

definition component_end :: "string \<Rightarrow> nat \<Rightarrow> nat" where
  "component_end t p =
     (let q = p + length (takeWhile (\<lambda>c. c = slash) (drop p t))
      in q + length (takeWhile (\<lambda>c. c \<noteq> slash) (drop q t)))"

lemma component_end_less:
  assumes "p < length t"
  shows "p < component_end t p"
proof -
  obtain c r where c: "drop p t = c # r" using assms by (metis Cons_nth_drop_Suc)
  show ?thesis
    by (cases "c = slash") (simp_all add: component_end_def Let_def c)
qed

text \<open>
  The loop of \<^verbatim>\<open>_gnome_vfs_uri_resolve_all_symlinks_uri\<close>: \<open>p\<close> is the position in the text of
  \<open>uri\<close>. \<open>None\<close>: a URI without a text, a link without a name, or a result that is no URI (an
  assertion of the code).
\<close>

function resolve_symlinks_loop ::
    "'w vfs_library \<Rightarrow> GnomeVFSURI \<Rightarrow> nat \<Rightarrow> nat \<Rightarrow> 'w \<Rightarrow> (GnomeVFSResult \<times> GnomeVFSURI option \<times> 'w) option" where
  "resolve_symlinks_loop L uri p n_followed w =
     (case elem_text (uri_elem uri) of
        None \<Rightarrow> None
      | Some t \<Rightarrow>
          if length t \<le> p then Some (GNOME_VFS_OK, Some (gnome_vfs_uri_dup uri), w)
          else
            (let p' = component_end t p;
                 new_uri = with_text (take p' t) (gnome_vfs_uri_dup uri);
                 (res, info, w1) = gnome_vfs_get_file_info_uri L new_uri gnome_vfs_file_info_new GNOME_VFS_FILE_INFO_DEFAULT w
             in if res \<noteq> GNOME_VFS_OK then Some (res, None, w1)
                else if file_type info = GNOME_VFS_FILE_TYPE_SYMBOLIC_LINK
                        \<and> (valid_fields info AND GNOME_VFS_FILE_INFO_FIELDS_SYMLINK_NAME) \<noteq> 0 then
                  if n_followed + 1 > MAX_SYMLINKS_FOLLOWED then Some (GNOME_VFS_ERROR_TOO_MANY_LINKS, None, w1)
                  else
                    (case gnome_vfs_escape_path_string (symlink_name info) of
                       None \<Rightarrow> None
                     | Some escaped_symlink \<Rightarrow>
                         (let resolved_uri = gnome_vfs_uri_resolve_symbolic_link (lib_build_filename L) new_uri escaped_symlink
                          in if p' < length t then
                               (case gnome_vfs_uri_append_string (lib_env L) resolved_uri (drop p' t) of
                                  None \<Rightarrow> None
                                | Some u \<Rightarrow> resolve_symlinks_loop L u 0 (n_followed + 1) w1)
                             else resolve_symlinks_loop L resolved_uri 0 (n_followed + 1) w1))
                else resolve_symlinks_loop L uri p' n_followed w1))"
  by pat_completeness auto
termination
  by (relation "measures [\<lambda>(L, uri, p, n, w). MAX_SYMLINKS_FOLLOWED - n, \<lambda>(L, uri, p, n, w). text_length uri - p]")
     (auto simp: text_length_def component_end_less diff_less_mono2)

declare resolve_symlinks_loop.simps [simp del]

definition gnome_vfs_uri_resolve_all_symlinks_uri ::
    "'w vfs_library \<Rightarrow> GnomeVFSURI \<Rightarrow> 'w \<Rightarrow> (GnomeVFSResult \<times> GnomeVFSURI option \<times> 'w) option" where
  "gnome_vfs_uri_resolve_all_symlinks_uri L uri w = resolve_symlinks_loop L uri 0 0 w"

definition gnome_vfs_uri_resolve_all_symlinks ::
    "'w vfs_library \<Rightarrow> string \<Rightarrow> 'w \<Rightarrow> (GnomeVFSResult \<times> string option \<times> 'w) option" where
  "gnome_vfs_uri_resolve_all_symlinks L text_uri w =
     (case gnome_vfs_uri_new (lib_env L) (Some text_uri) of
        None \<Rightarrow> Some (GNOME_VFS_ERROR_NOT_SUPPORTED, None, w)
      | Some uri \<Rightarrow>
          if elem_text (uri_elem uri) = None then Some (GNOME_VFS_ERROR_NOT_SUPPORTED, None, w)
          else do {
            (res, resolved_uri, w') \<leftarrow> gnome_vfs_uri_resolve_all_symlinks_uri L uri w;
            Some (res, if res = GNOME_VFS_OK
                       then map_option (\<lambda>u. gnome_vfs_uri_to_string u GNOME_VFS_URI_HIDE_NONE) resolved_uri
                       else None, w')
          })"

text \<open>The walk up from the resolved parent; \<open>dir\<close> is the URI as it was given.\<close>

function in_subdir_loop ::
    "'w vfs_library \<Rightarrow> GnomeVFSURI \<Rightarrow> GnomeVFSFileInfo \<Rightarrow> GnomeVFSURI \<Rightarrow> GnomeVFSFileInfo \<Rightarrow> 'w \<Rightarrow> (bool \<times> 'w) option" where
  "in_subdir_loop L dir dirinfo parent info w =
     (let (res, info', w1) = gnome_vfs_get_file_info_uri L parent info GNOME_VFS_FILE_INFO_DEFAULT w;
          has_both = (\<lambda>i. (valid_fields i AND GNOME_VFS_FILE_INFO_FIELDS_DEVICE) \<noteq> 0
                        \<and> (valid_fields i AND GNOME_VFS_FILE_INFO_FIELDS_INODE) \<noteq> 0)
      in if res \<noteq> GNOME_VFS_OK then Some (False, w1)
         else do {
           is_in_dir \<leftarrow> (if has_both dirinfo \<and> has_both info'
                        then Some (device dirinfo = device info' \<and> inode dirinfo = inode info')
                        else gnome_vfs_uri_equal False dir parent);
           if is_in_dir then Some (True, w1)
           else case gnome_vfs_uri_get_parent parent of
                  None \<Rightarrow> Some (False, w1)
                | Some tmp \<Rightarrow> in_subdir_loop L dir dirinfo tmp info' w1
         })"
  by pat_completeness auto
termination
  by (relation "measures [\<lambda>(L, dir, di, parent, i, w). length (uri_elements parent), \<lambda>(L, dir, di, parent, i, w). text_length parent]")
     (auto dest: get_parent_smaller)

declare in_subdir_loop.simps [simp del]

definition gnome_vfs_uri_is_in_subdir ::
    "'w vfs_library \<Rightarrow> GnomeVFSURI \<Rightarrow> GnomeVFSURI \<Rightarrow> 'w \<Rightarrow> (bool \<times> 'w) option" where
  "gnome_vfs_uri_is_in_subdir L uri dir w =
     (let (res, dirinfo, w1) = gnome_vfs_get_file_info_uri L dir gnome_vfs_file_info_new GNOME_VFS_FILE_INFO_DEFAULT w
      in if res \<noteq> GNOME_VFS_OK \<or> file_type dirinfo \<noteq> GNOME_VFS_FILE_TYPE_DIRECTORY then Some (False, w1)
         else do {
           (res1, resolved_dir, w2) \<leftarrow> gnome_vfs_uri_resolve_all_symlinks_uri L dir w1;
           if res1 \<noteq> GNOME_VFS_OK then Some (False, w2)
           else do {
             (res2, tmp, w3) \<leftarrow> gnome_vfs_uri_resolve_all_symlinks_uri L uri w2;
             if res2 \<noteq> GNOME_VFS_OK then Some (False, w3)
             else case Option.bind tmp gnome_vfs_uri_get_parent of
                    None \<Rightarrow> Some (False, w3)
                  | Some parent \<Rightarrow> in_subdir_loop L dir dirinfo parent gnome_vfs_file_info_new w3
           }
         })"

text \<open>Without a near URI the home directory stands in; that it has a URI is an assertion of the code.\<close>

definition gnome_vfs_find_directory_cancellable ::
    "'w vfs_library \<Rightarrow> GnomeVFSURI option \<Rightarrow> nat \<Rightarrow> bool \<Rightarrow> bool \<Rightarrow> guint \<Rightarrow> vfs_context \<Rightarrow> 'w
      \<Rightarrow> (GnomeVFSResult \<times> GnomeVFSURI option \<times> 'w) option" where
  "gnome_vfs_find_directory_cancellable L near_uri kind create_if_needed find_if_needed perms ctx w =
     (if gnome_vfs_context_check_cancellation ctx then Some (GNOME_VFS_ERROR_CANCELLED, None, w)
      else do {
        near \<leftarrow> (case near_uri of
                  Some u \<Rightarrow> Some u
                | None \<Rightarrow> do {
                    text_uri \<leftarrow> gnome_vfs_get_uri_from_local_path (Some (lib_home L));
                    gnome_vfs_uri_new (lib_env L) (Some text_uri)
                  });
        if Option.is_none (m_find_directory (method_of L near)) then Some (GNOME_VFS_ERROR_NOT_SUPPORTED, None, w)
        else do {
          (result, resolved_uri, w1) \<leftarrow> gnome_vfs_uri_resolve_all_symlinks_uri L near w;
          if result \<noteq> GNOME_VFS_OK then Some (result, None, w1)
          else do {
            r \<leftarrow> resolved_uri;
            case m_find_directory (method_of L r) of
              None \<Rightarrow> Some (GNOME_VFS_ERROR_NOT_SUPPORTED, None, w1)
            | Some f \<Rightarrow> Some (f r kind create_if_needed find_if_needed perms ctx w1)
          }
        }
      })"

end
