(* ===== verification/VFS_Directory.thy ===== *)
theory VFS_Directory
  imports VFS_Ops
begin

text \<open>
  Directories (\<^verbatim>\<open>libgnomevfs/gnome-vfs-directory.c\<close>): opening, reading and closing, and the
  recursive visit with its check for loops. A visit may run for ever (a loop without the
  check, a directory that always has a next entry), so it is a partial function.
\<close>

section \<open>Handles\<close>

record GnomeVFSDirectoryHandle =
  d_uri :: GnomeVFSURI
  d_method_handle :: nat
  d_options :: guint

definition gnome_vfs_directory_handle_new :: "GnomeVFSURI \<Rightarrow> nat \<Rightarrow> guint \<Rightarrow> GnomeVFSDirectoryHandle" where
  "gnome_vfs_directory_handle_new uri method_handle options =
     \<lparr>d_uri = uri, d_method_handle = method_handle, d_options = options\<rparr>"

definition directory_open_from_uri ::
    "'w vfs_library \<Rightarrow> GnomeVFSURI \<Rightarrow> guint \<Rightarrow> vfs_context \<Rightarrow> 'w \<Rightarrow> GnomeVFSResult \<times> GnomeVFSDirectoryHandle option \<times> 'w" where
  "directory_open_from_uri L uri options ctx w =
     (case m_open_directory (method_of L uri) of
        None \<Rightarrow> (GNOME_VFS_ERROR_NOT_SUPPORTED, None, w)
      | Some f \<Rightarrow>
          let (result, method_handle, w') = f uri options ctx w
          in if result \<noteq> GNOME_VFS_OK then (result, None, w')
             else (GNOME_VFS_OK, Some (gnome_vfs_directory_handle_new uri method_handle options), w'))"

definition directory_do_open ::
    "'w vfs_library \<Rightarrow> string \<Rightarrow> guint \<Rightarrow> vfs_context \<Rightarrow> 'w \<Rightarrow> GnomeVFSResult \<times> GnomeVFSDirectoryHandle option \<times> 'w" where
  "directory_do_open L text_uri options ctx w =
     (case gnome_vfs_uri_new (lib_env L) (Some text_uri) of
        None \<Rightarrow> (GNOME_VFS_ERROR_INVALID_URI, None, w)
      | Some uri \<Rightarrow> directory_open_from_uri L uri options ctx w)"

definition gnome_vfs_directory_open ::
    "'w vfs_library \<Rightarrow> string option \<Rightarrow> guint \<Rightarrow> 'w \<Rightarrow> GnomeVFSResult \<times> GnomeVFSDirectoryHandle option \<times> 'w" where
  "gnome_vfs_directory_open L text_uri options w =
     (case text_uri of
        None \<Rightarrow> (GNOME_VFS_ERROR_BAD_PARAMETERS, None, w)
      | Some t \<Rightarrow> directory_do_open L t options None w)"

definition gnome_vfs_directory_open_from_uri ::
    "'w vfs_library \<Rightarrow> GnomeVFSURI \<Rightarrow> guint \<Rightarrow> 'w \<Rightarrow> GnomeVFSResult \<times> GnomeVFSDirectoryHandle option \<times> 'w" where
  "gnome_vfs_directory_open_from_uri L uri options w = directory_open_from_uri L uri options None w"

definition gnome_vfs_directory_open_from_uri_cancellable ::
    "'w vfs_library \<Rightarrow> GnomeVFSURI \<Rightarrow> guint \<Rightarrow> vfs_context \<Rightarrow> 'w \<Rightarrow> GnomeVFSResult \<times> GnomeVFSDirectoryHandle option \<times> 'w" where
  "gnome_vfs_directory_open_from_uri_cancellable L uri options ctx w = directory_open_from_uri L uri options ctx w"

definition gnome_vfs_directory_read_next_cancellable ::
    "'w vfs_library \<Rightarrow> GnomeVFSDirectoryHandle \<Rightarrow> GnomeVFSFileInfo \<Rightarrow> vfs_context \<Rightarrow> 'w
      \<Rightarrow> GnomeVFSResult \<times> GnomeVFSFileInfo \<times> 'w" where
  "gnome_vfs_directory_read_next_cancellable L handle info ctx w =
     (case m_read_directory (method_of L (d_uri handle)) of
        None \<Rightarrow> (GNOME_VFS_ERROR_NOT_SUPPORTED, info, w)
      | Some f \<Rightarrow> f (d_method_handle handle) (gnome_vfs_file_info_clear info) ctx w)"

definition gnome_vfs_directory_read_next ::
    "'w vfs_library \<Rightarrow> GnomeVFSDirectoryHandle \<Rightarrow> GnomeVFSFileInfo \<Rightarrow> 'w \<Rightarrow> GnomeVFSResult \<times> GnomeVFSFileInfo \<times> 'w" where
  "gnome_vfs_directory_read_next L handle info w =
     (case m_read_directory (method_of L (d_uri handle)) of
        None \<Rightarrow> (GNOME_VFS_ERROR_NOT_SUPPORTED, info, w)
      | Some f \<Rightarrow> f (d_method_handle handle) (gnome_vfs_file_info_clear info) None w)"

definition gnome_vfs_directory_close ::
    "'w vfs_library \<Rightarrow> GnomeVFSDirectoryHandle \<Rightarrow> 'w \<Rightarrow> GnomeVFSResult \<times> 'w" where
  "gnome_vfs_directory_close L handle w =
     (case m_close_directory (method_of L (d_uri handle)) of
        None \<Rightarrow> (GNOME_VFS_ERROR_NOT_SUPPORTED, w) | Some f \<Rightarrow> f (d_method_handle handle) None w)"

section \<open>Ancestors\<close>

definition VFS_MAXIMUM_SYMBOLIC_LINK_DEPTH :: nat where "VFS_MAXIMUM_SYMBOLIC_LINK_DEPTH = 256"

record DirectoryReference =
  ref_inode :: "64 word"
  ref_device :: int

definition prepend_reference :: "DirectoryReference list \<Rightarrow> GnomeVFSFileInfo \<Rightarrow> DirectoryReference list" where
  "prepend_reference reference_list info = \<lparr>ref_inode = inode info, ref_device = device info\<rparr> # reference_list"

definition lookup_ancestor :: "DirectoryReference list \<Rightarrow> bool \<Rightarrow> 64 word \<Rightarrow> int \<Rightarrow> bool" where
  "lookup_ancestor ancestors valid ino dev =
     (if \<not> valid then VFS_MAXIMUM_SYMBOLIC_LINK_DEPTH \<le> length ancestors
      else list_ex (\<lambda>r. ref_inode r = ino \<and> ref_device r = dev) ancestors)"

section \<open>Visiting\<close>

text \<open>
  The callback gets the relative path, the information and whether going down would loop,
  and returns whether to go on and the value of \<^verbatim>\<open>*recurse\<close>. Its data, of type \<open>'d\<close>, is
  threaded with the world. The reference that the code prepends around the recursive call is
  removed after it, so the list is an argument here.
\<close>

type_synonym ('d, 'w) visit_func =
  "string \<Rightarrow> GnomeVFSFileInfo \<Rightarrow> bool \<Rightarrow> 'd \<Rightarrow> 'w \<Rightarrow> (bool \<times> bool \<times> 'd \<times> 'w) option"

definition is_dot_name :: "string \<Rightarrow> bool" where
  "is_dot_name n \<longleftrightarrow> n = ''.'' \<or> n = ''..''"

definition visit_rel_path :: "string option \<Rightarrow> string \<Rightarrow> string" where
  "visit_rel_path prefix n = (case prefix of None \<Rightarrow> n | Some p \<Rightarrow> p @ n)"

definition recursing_will_loop :: "guint \<Rightarrow> DirectoryReference list \<Rightarrow> GnomeVFSFileInfo \<Rightarrow> bool" where
  "recursing_will_loop visit_options ancestors info \<longleftrightarrow>
     file_type info = GNOME_VFS_FILE_TYPE_DIRECTORY
     \<and> (visit_options AND GNOME_VFS_DIRECTORY_VISIT_LOOPCHECK) \<noteq> 0
     \<and> lookup_ancestor ancestors
         ((valid_fields info AND GNOME_VFS_FILE_INFO_FIELDS_DEVICE) \<noteq> 0
          \<and> (valid_fields info AND GNOME_VFS_FILE_INFO_FIELDS_INODE) \<noteq> 0) (inode info) (device info)"

definition eof_is_ok :: "GnomeVFSResult \<Rightarrow> GnomeVFSResult" where
  "eof_is_ok result = (if result = GNOME_VFS_ERROR_EOF then GNOME_VFS_OK else result)"

definition inner_references :: "DirectoryReference list \<Rightarrow> GnomeVFSFileInfo \<Rightarrow> DirectoryReference list" where
  "inner_references ancestors info =
     (if GNOME_VFS_FILE_INFO_LOCAL info then prepend_reference ancestors info else ancestors)"

text \<open>What a visit is given, and the directory it is in.\<close>

record ('d, 'w) visit =
  v_library :: "'w vfs_library"
  v_callback :: "('d, 'w) visit_func"
  v_info_options :: guint
  v_visit_options :: guint

record visit_frame =
  v_uri :: GnomeVFSURI
  v_prefix :: "string option"
  v_ancestors :: "DirectoryReference list"
  v_handle :: GnomeVFSDirectoryHandle

definition child_frame :: "visit_frame \<Rightarrow> GnomeVFSURI \<Rightarrow> string \<Rightarrow> GnomeVFSFileInfo \<Rightarrow> GnomeVFSDirectoryHandle \<Rightarrow> visit_frame" where
  "child_frame F new_uri n info handle =
     \<lparr>v_uri = new_uri, v_prefix = Some (visit_rel_path (v_prefix F) n @ ''/''),
      v_ancestors = inner_references (v_ancestors F) info, v_handle = handle\<rparr>"

text \<open>
  The loop over the entries of an open directory; the recursive call of
  \<^verbatim>\<open>directory_visit_internal\<close> (open, loop, close) is written out in it. \<open>None\<close>: the visit does
  not return, or an entry has no name.
\<close>

partial_function (option) visit_loop ::
    "('d, 'w) visit \<Rightarrow> visit_frame \<Rightarrow> 'd \<Rightarrow> 'w \<Rightarrow> (GnomeVFSResult \<times> 'd \<times> 'w) option" where
  "visit_loop V F d w =
     (let (result, info, w1) = gnome_vfs_directory_read_next (v_library V) (v_handle F) gnome_vfs_file_info_new w
      in if result \<noteq> GNOME_VFS_OK then Some (result, d, w1)
         else do {
           n \<leftarrow> fi_name info;
           if is_dot_name n then visit_loop V F d w1
           else do {
             (go_on, recurse, d1, w2) \<leftarrow>
               v_callback V (visit_rel_path (v_prefix F) n) info
                 (recursing_will_loop (v_visit_options V) (v_ancestors F) info) d w1;
             if \<not> go_on then Some (GNOME_VFS_ERROR_INTERRUPTED, d1, w2)
             else if recurse \<and> file_type info = GNOME_VFS_FILE_TYPE_DIRECTORY then do {
               new_uri \<leftarrow> gnome_vfs_uri_append_file_name (lib_env (v_library V)) (v_uri F) n;
               let (opened, sub, w3) = gnome_vfs_directory_open_from_uri (v_library V) new_uri (v_info_options V) w2;
               (result', d2, w5) \<leftarrow>
                 (if opened \<noteq> GNOME_VFS_OK then Some (opened, d1, w3)
                  else do {
                    h \<leftarrow> sub;
                    (r, d', w4) \<leftarrow> visit_loop V (child_frame F new_uri n info h) d1 w3;
                    Some (eof_is_ok r, d', snd (gnome_vfs_directory_close (v_library V) h w4))
                  });
               if result' \<noteq> GNOME_VFS_OK \<and> (v_visit_options V AND GNOME_VFS_DIRECTORY_VISIT_IGNORE_RECURSE_ERROR) = 0
               then Some (result', d2, w5)
               else visit_loop V F d2 w5
             }
             else visit_loop V F d1 w2
           }
         })"

declare visit_loop.simps [code]

definition directory_visit_internal ::
    "'w vfs_library \<Rightarrow> ('d, 'w) visit_func \<Rightarrow> guint \<Rightarrow> guint \<Rightarrow> GnomeVFSURI \<Rightarrow> 'd \<Rightarrow> 'w
      \<Rightarrow> (GnomeVFSResult \<times> 'd \<times> 'w) option" where
  "directory_visit_internal L callback info_options visit_options uri d w =
     (let (result, info, w1) = gnome_vfs_get_file_info_uri L uri gnome_vfs_file_info_new info_options w
      in if result \<noteq> GNOME_VFS_OK then Some (result, d, w1)
         else if file_type info \<noteq> GNOME_VFS_FILE_TYPE_DIRECTORY then Some (GNOME_VFS_ERROR_NOT_A_DIRECTORY, d, w1)
         else
           (let (opened, handle, w2) = gnome_vfs_directory_open_from_uri L uri info_options w1
            in if opened \<noteq> GNOME_VFS_OK then Some (opened, d, w2)
               else do {
                 h \<leftarrow> handle;
                 (r, d', w3) \<leftarrow>
                   visit_loop \<lparr>v_library = L, v_callback = callback, v_info_options = info_options, v_visit_options = visit_options\<rparr>
                     \<lparr>v_uri = uri, v_prefix = None, v_ancestors = prepend_reference [] info, v_handle = h\<rparr> d w2;
                 Some (eof_is_ok r, d', snd (gnome_vfs_directory_close L h w3))
               }))"

definition gnome_vfs_directory_visit_uri ::
    "'w vfs_library \<Rightarrow> GnomeVFSURI \<Rightarrow> guint \<Rightarrow> guint \<Rightarrow> ('d, 'w) visit_func \<Rightarrow> 'd \<Rightarrow> 'w
      \<Rightarrow> (GnomeVFSResult \<times> 'd \<times> 'w) option" where
  "gnome_vfs_directory_visit_uri L uri info_options visit_options callback d w =
     directory_visit_internal L callback info_options visit_options uri d w"

definition gnome_vfs_directory_visit ::
    "'w vfs_library \<Rightarrow> string option \<Rightarrow> guint \<Rightarrow> guint \<Rightarrow> ('d, 'w) visit_func \<Rightarrow> 'd \<Rightarrow> 'w
      \<Rightarrow> (GnomeVFSResult \<times> 'd \<times> 'w) option" where
  "gnome_vfs_directory_visit L text_uri info_options visit_options callback d w =
     (if text_uri = None then Some (GNOME_VFS_ERROR_BAD_PARAMETERS, d, w)
      else case gnome_vfs_uri_new (lib_env L) text_uri of
             None \<Rightarrow> Some (GNOME_VFS_ERROR_INVALID_URI, d, w)
           | Some uri \<Rightarrow> directory_visit_internal L callback info_options visit_options uri d w)"

text \<open>
  The visit of named files: the result of the query is ignored, a directory among the files
  makes the code visit the base directory (not that directory), and every error is dropped.
\<close>

fun visit_files_loop ::
    "'w vfs_library \<Rightarrow> GnomeVFSURI \<Rightarrow> guint \<Rightarrow> guint \<Rightarrow> ('d, 'w) visit_func \<Rightarrow> string list
      \<Rightarrow> GnomeVFSFileInfo \<Rightarrow> 'd \<Rightarrow> 'w \<Rightarrow> ('d \<times> 'w) option" where
  "visit_files_loop L uri info_options visit_options callback [] info d w = Some (d, w)"
| "visit_files_loop L uri info_options visit_options callback (p # ps) info d w =
     do {
       file_uri \<leftarrow> gnome_vfs_uri_append_file_name (lib_env L) uri p;
       let (ignored, info', w1) = gnome_vfs_get_file_info_uri L file_uri info info_options w;
       n \<leftarrow> fi_name info';
       (go_on, recurse, d1, w2) \<leftarrow> callback n info' False d w1;
       (result, d2, w3) \<leftarrow>
         (if go_on \<and> recurse \<and> file_type info' = GNOME_VFS_FILE_TYPE_DIRECTORY
          then gnome_vfs_directory_visit_uri L uri info_options visit_options callback d1 w2
          else Some (GNOME_VFS_OK, d1, w2));
       if result \<noteq> GNOME_VFS_OK \<or> \<not> go_on then Some (d2, w3)
       else visit_files_loop L uri info_options visit_options callback ps info' d2 w3
     }"

definition gnome_vfs_directory_visit_files_at_uri ::
    "'w vfs_library \<Rightarrow> GnomeVFSURI \<Rightarrow> string list \<Rightarrow> guint \<Rightarrow> guint \<Rightarrow> ('d, 'w) visit_func \<Rightarrow> 'd \<Rightarrow> 'w
      \<Rightarrow> (GnomeVFSResult \<times> 'd \<times> 'w) option" where
  "gnome_vfs_directory_visit_files_at_uri L uri file_list info_options visit_options callback d w =
     (if file_list = [] then Some (GNOME_VFS_ERROR_BAD_PARAMETERS, d, w)
      else do {
        (d', w') \<leftarrow> visit_files_loop L uri info_options visit_options callback file_list gnome_vfs_file_info_new d w;
        Some (GNOME_VFS_OK, d', w')
      })"

definition gnome_vfs_directory_visit_files ::
    "'w vfs_library \<Rightarrow> string option \<Rightarrow> string list \<Rightarrow> guint \<Rightarrow> guint \<Rightarrow> ('d, 'w) visit_func \<Rightarrow> 'd \<Rightarrow> 'w
      \<Rightarrow> (GnomeVFSResult \<times> 'd \<times> 'w) option" where
  "gnome_vfs_directory_visit_files L text_uri file_list info_options visit_options callback d w =
     (case gnome_vfs_uri_new (lib_env L) text_uri of
        None \<Rightarrow> Some (GNOME_VFS_ERROR_INVALID_URI, d, w)
      | Some uri \<Rightarrow>
          gnome_vfs_directory_visit_files_at_uri L uri file_list info_options visit_options callback d w)"

section \<open>Loading a directory\<close>

partial_function (option) load_from_handle_loop ::
    "'w vfs_library \<Rightarrow> GnomeVFSDirectoryHandle \<Rightarrow> GnomeVFSFileInfo list \<Rightarrow> 'w
      \<Rightarrow> (GnomeVFSResult \<times> GnomeVFSFileInfo list \<times> 'w) option" where
  "load_from_handle_loop L handle acc w =
     (let (result, info, w1) = gnome_vfs_directory_read_next L handle gnome_vfs_file_info_new w
      in if result \<noteq> GNOME_VFS_OK then Some (result, acc, w1)
         else load_from_handle_loop L handle (info # acc) w1)"

declare load_from_handle_loop.simps [code]

definition load_from_handle ::
    "'w vfs_library \<Rightarrow> GnomeVFSDirectoryHandle \<Rightarrow> 'w \<Rightarrow> (GnomeVFSResult \<times> GnomeVFSFileInfo list \<times> 'w) option" where
  "load_from_handle L handle w =
     do {
       (result, acc, w1) \<leftarrow> load_from_handle_loop L handle [] w;
       Some (GNOME_VFS_OK, if result \<noteq> GNOME_VFS_ERROR_EOF then [] else rev acc, w1)
     }"

text \<open>The list is \<open>None\<close> where the caller's variable was not written.\<close>

definition gnome_vfs_directory_list_load ::
    "'w vfs_library \<Rightarrow> string option \<Rightarrow> guint \<Rightarrow> 'w \<Rightarrow> (GnomeVFSResult \<times> GnomeVFSFileInfo list option \<times> 'w) option" where
  "gnome_vfs_directory_list_load L text_uri options w =
     (let (opened, handle, w1) = gnome_vfs_directory_open L text_uri options w
      in if opened \<noteq> GNOME_VFS_OK then Some (opened, None, w1)
         else do {
           h \<leftarrow> handle;
           (result, infos, w2) \<leftarrow> load_from_handle L h w1;
           Some (result, Some infos, snd (gnome_vfs_directory_close L h w2))
         })"

end
