(* ===== verification/VFS_Xfer_Base.thy ===== *)
theory VFS_Xfer_Base
  imports VFS_Directory
begin

text \<open>
  Transfers (\<^verbatim>\<open>libgnomevfs/gnome-vfs-xfer.c\<close>), first part: progress reports, what is done about
  errors and conflicts, deletion, and the count of items and bytes before a transfer. Loops
  that try again as long as the application says so are partial functions; \<open>None\<close> is a loop
  that does not end, or a null pointer that the code would follow.
\<close>

section \<open>Progress\<close>

datatype GnomeVFSXferProgressStatus =
    GNOME_VFS_XFER_PROGRESS_STATUS_OK | GNOME_VFS_XFER_PROGRESS_STATUS_VFSERROR
  | GNOME_VFS_XFER_PROGRESS_STATUS_OVERWRITE | GNOME_VFS_XFER_PROGRESS_STATUS_DUPLICATE

datatype GnomeVFSXferOverwriteMode =
    GNOME_VFS_XFER_OVERWRITE_MODE_ABORT | GNOME_VFS_XFER_OVERWRITE_MODE_QUERY
  | GNOME_VFS_XFER_OVERWRITE_MODE_REPLACE | GNOME_VFS_XFER_OVERWRITE_MODE_SKIP

datatype GnomeVFSXferErrorMode = GNOME_VFS_XFER_ERROR_MODE_ABORT | GNOME_VFS_XFER_ERROR_MODE_QUERY

datatype GnomeVFSXferPhase =
    GNOME_VFS_XFER_PHASE_INITIAL | GNOME_VFS_XFER_CHECKING_DESTINATION | GNOME_VFS_XFER_PHASE_COLLECTING
  | GNOME_VFS_XFER_PHASE_READYTOGO | GNOME_VFS_XFER_PHASE_OPENSOURCE | GNOME_VFS_XFER_PHASE_OPENTARGET
  | GNOME_VFS_XFER_PHASE_COPYING | GNOME_VFS_XFER_PHASE_MOVING | GNOME_VFS_XFER_PHASE_READSOURCE
  | GNOME_VFS_XFER_PHASE_WRITETARGET | GNOME_VFS_XFER_PHASE_CLOSESOURCE | GNOME_VFS_XFER_PHASE_CLOSETARGET
  | GNOME_VFS_XFER_PHASE_DELETESOURCE | GNOME_VFS_XFER_PHASE_SETATTRIBUTES | GNOME_VFS_XFER_PHASE_FILECOMPLETED
  | GNOME_VFS_XFER_PHASE_CLEANUP | GNOME_VFS_XFER_PHASE_COMPLETED

text \<open>
  The answers of a progress callback are plain integers in the code; \<open>0\<close> is to stop in all of
  them.
\<close>

definition GNOME_VFS_XFER_OVERWRITE_ACTION_ABORT :: int where "GNOME_VFS_XFER_OVERWRITE_ACTION_ABORT = 0"
definition GNOME_VFS_XFER_OVERWRITE_ACTION_REPLACE :: int where "GNOME_VFS_XFER_OVERWRITE_ACTION_REPLACE = 1"
definition GNOME_VFS_XFER_OVERWRITE_ACTION_REPLACE_ALL :: int where "GNOME_VFS_XFER_OVERWRITE_ACTION_REPLACE_ALL = 2"
definition GNOME_VFS_XFER_OVERWRITE_ACTION_SKIP :: int where "GNOME_VFS_XFER_OVERWRITE_ACTION_SKIP = 3"
definition GNOME_VFS_XFER_OVERWRITE_ACTION_SKIP_ALL :: int where "GNOME_VFS_XFER_OVERWRITE_ACTION_SKIP_ALL = 4"
definition GNOME_VFS_XFER_ERROR_ACTION_ABORT :: int where "GNOME_VFS_XFER_ERROR_ACTION_ABORT = 0"
definition GNOME_VFS_XFER_ERROR_ACTION_RETRY :: int where "GNOME_VFS_XFER_ERROR_ACTION_RETRY = 1"
definition GNOME_VFS_XFER_ERROR_ACTION_SKIP :: int where "GNOME_VFS_XFER_ERROR_ACTION_SKIP = 2"

definition GNOME_VFS_XFER_FOLLOW_LINKS :: guint where "GNOME_VFS_XFER_FOLLOW_LINKS = 2"
definition GNOME_VFS_XFER_RECURSIVE :: guint where "GNOME_VFS_XFER_RECURSIVE = 8"
definition GNOME_VFS_XFER_SAMEFS :: guint where "GNOME_VFS_XFER_SAMEFS = 16"
definition GNOME_VFS_XFER_DELETE_ITEMS :: guint where "GNOME_VFS_XFER_DELETE_ITEMS = 32"
definition GNOME_VFS_XFER_EMPTY_DIRECTORIES :: guint where "GNOME_VFS_XFER_EMPTY_DIRECTORIES = 64"
definition GNOME_VFS_XFER_NEW_UNIQUE_DIRECTORY :: guint where "GNOME_VFS_XFER_NEW_UNIQUE_DIRECTORY = 128"
definition GNOME_VFS_XFER_REMOVESOURCE :: guint where "GNOME_VFS_XFER_REMOVESOURCE = 256"
definition GNOME_VFS_XFER_USE_UNIQUE_NAMES :: guint where "GNOME_VFS_XFER_USE_UNIQUE_NAMES = 512"
definition GNOME_VFS_XFER_LINK_ITEMS :: guint where "GNOME_VFS_XFER_LINK_ITEMS = 1024"
definition GNOME_VFS_XFER_FOLLOW_LINKS_RECURSIVE :: guint where "GNOME_VFS_XFER_FOLLOW_LINKS_RECURSIVE = 2048"
definition GNOME_VFS_XFER_TARGET_DEFAULT_PERMS :: guint where "GNOME_VFS_XFER_TARGET_DEFAULT_PERMS = 4096"

definition has_option :: "guint \<Rightarrow> guint \<Rightarrow> bool" where
  "has_option options flag \<longleftrightarrow> (options AND flag) \<noteq> 0"

record GnomeVFSXferProgressInfo =
  pi_status :: GnomeVFSXferProgressStatus
  pi_vfs_status :: GnomeVFSResult
  pi_phase :: GnomeVFSXferPhase
  pi_source_name :: "string option"
  pi_target_name :: "string option"
  pi_file_index :: "64 word"
  pi_files_total :: "64 word"
  pi_bytes_total :: file_size
  pi_file_size :: file_size
  pi_bytes_copied :: file_size
  pi_total_bytes_copied :: file_size
  pi_duplicate_name :: "string option"
  pi_duplicate_count :: int
  pi_top_level_item :: bool

record GnomeVFSProgressCallbackState =
  progress_info :: GnomeVFSXferProgressInfo
  next_update_callback_time :: int
  next_text_update_callback_time :: int

record 'w xfer_state =
  xs_progress :: GnomeVFSProgressCallbackState
  xs_world :: 'w

text \<open>
  What a transfer is given and does not change: the library, the two callbacks, the clock, the
  error mode, and what a local variable that was never assigned happens to hold. A callback
  answers with a number; of the structure it is shown it replaces at most the duplicate name.
\<close>

type_synonym 'w progress_callback = "GnomeVFSXferProgressInfo \<Rightarrow> 'w \<Rightarrow> int \<times> string option \<times> 'w"

record 'w xfer =
  x_library :: "'w vfs_library"
  x_sync_callback :: "'w progress_callback option"
  x_update_callback :: "'w progress_callback option"
  x_time :: "'w \<Rightarrow> int \<times> 'w"
  x_error_mode :: GnomeVFSXferErrorMode
  x_unset :: bool

definition DEFAULT_SIZE_OVERHEAD :: file_size where "DEFAULT_SIZE_OVERHEAD = 1024"
definition UPDATE_PERIOD :: int where "UPDATE_PERIOD = 500 * 1000"

definition init_progress :: GnomeVFSProgressCallbackState where
  "init_progress =
     \<lparr>progress_info =
        \<lparr>pi_status = GNOME_VFS_XFER_PROGRESS_STATUS_OK, pi_vfs_status = GNOME_VFS_OK,
         pi_phase = GNOME_VFS_XFER_PHASE_INITIAL, pi_source_name = None, pi_target_name = None,
         pi_file_index = 0, pi_files_total = 0, pi_bytes_total = 0, pi_file_size = 0, pi_bytes_copied = 0,
         pi_total_bytes_copied = 0, pi_duplicate_name = None, pi_duplicate_count = 0, pi_top_level_item = False\<rparr>,
      next_update_callback_time = 0, next_text_update_callback_time = 0\<rparr>"

definition on_info :: "(GnomeVFSXferProgressInfo \<Rightarrow> GnomeVFSXferProgressInfo) \<Rightarrow> 'w xfer_state \<Rightarrow> 'w xfer_state" where
  "on_info f s = s\<lparr>xs_progress := (xs_progress s)\<lparr>progress_info := f (progress_info (xs_progress s))\<rparr>\<rparr>"

abbreviation info_of :: "'w xfer_state \<Rightarrow> GnomeVFSXferProgressInfo" where
  "info_of s \<equiv> progress_info (xs_progress s)"

text \<open>Calls into the library, on the world of the state.\<close>

definition on_world :: "('w \<Rightarrow> 'a \<times> 'w) \<Rightarrow> 'w xfer_state \<Rightarrow> 'a \<times> 'w xfer_state" where
  "on_world f s = (let (a, w) = f (xs_world s) in (a, s\<lparr>xs_world := w\<rparr>))"

definition on_world2 :: "('w \<Rightarrow> 'a \<times> 'b \<times> 'w) \<Rightarrow> 'w xfer_state \<Rightarrow> 'a \<times> 'b \<times> 'w xfer_state" where
  "on_world2 f s = (let (a, b, w) = f (xs_world s) in (a, b, s\<lparr>xs_world := w\<rparr>))"

definition set_phase :: "GnomeVFSXferPhase \<Rightarrow> 'w xfer_state \<Rightarrow> 'w xfer_state" where
  "set_phase phase = on_info (\<lambda>i. i\<lparr>pi_phase := phase\<rparr>)"

definition set_status :: "GnomeVFSXferProgressStatus \<Rightarrow> 'w xfer_state \<Rightarrow> 'w xfer_state" where
  "set_status status = on_info (\<lambda>i. i\<lparr>pi_status := status\<rparr>)"

definition progress_set_source_target_uris ::
    "GnomeVFSURI option \<Rightarrow> GnomeVFSURI option \<Rightarrow> 'w xfer_state \<Rightarrow> 'w xfer_state" where
  "progress_set_source_target_uris source_uri dest_uri =
     on_info (\<lambda>i. i\<lparr>pi_source_name := map_option (\<lambda>u. gnome_vfs_uri_to_string u GNOME_VFS_URI_HIDE_NONE) source_uri,
                    pi_target_name := map_option (\<lambda>u. gnome_vfs_uri_to_string u GNOME_VFS_URI_HIDE_NONE) dest_uri\<rparr>)"

definition progress_set_source_target :: "string option \<Rightarrow> string option \<Rightarrow> 'w xfer_state \<Rightarrow> 'w xfer_state" where
  "progress_set_source_target source dest =
     on_info (\<lambda>i. i\<lparr>pi_source_name := source, pi_target_name := dest\<rparr>)"

text \<open>A callback that is set replaces the result so far.\<close>

definition run_callback :: "'w progress_callback option \<Rightarrow> int \<times> 'w xfer_state \<Rightarrow> int \<times> 'w xfer_state" where
  "run_callback callback rs =
     (case callback of
        None \<Rightarrow> rs
      | Some f \<Rightarrow>
          let (r, dup, w) = f (info_of (snd rs)) (xs_world (snd rs))
          in (r, on_info (\<lambda>i. i\<lparr>pi_duplicate_name := dup\<rparr>) ((snd rs)\<lparr>xs_world := w\<rparr>)))"

definition system_time :: "'w xfer \<Rightarrow> 'w xfer_state \<Rightarrow> int \<times> 'w xfer_state" where
  "system_time X s = on_world (x_time X) s"

definition set_next_update :: "int \<Rightarrow> 'w xfer_state \<Rightarrow> 'w xfer_state" where
  "set_next_update t s = s\<lparr>xs_progress := (xs_progress s)\<lparr>next_update_callback_time := t\<rparr>\<rparr>"

definition set_next_text_update :: "int \<Rightarrow> 'w xfer_state \<Rightarrow> 'w xfer_state" where
  "set_next_text_update t s = s\<lparr>xs_progress := (xs_progress s)\<lparr>next_text_update_callback_time := t\<rparr>\<rparr>"

definition call_progress :: "'w xfer \<Rightarrow> GnomeVFSXferPhase \<Rightarrow> 'w xfer_state \<Rightarrow> int \<times> 'w xfer_state" where
  "call_progress X phase s =
     (let (now, s1) = system_time X (progress_set_source_target_uris None None s);
          s2 = set_phase phase (set_next_update (now + UPDATE_PERIOD) s1)
      in run_callback (x_update_callback X) (run_callback (x_sync_callback X) (0, s2)))"

definition call_progress_with_current_names ::
    "'w xfer \<Rightarrow> GnomeVFSXferPhase \<Rightarrow> 'w xfer_state \<Rightarrow> int \<times> 'w xfer_state" where
  "call_progress_with_current_names X phase s =
     (let (now, s1) = system_time X s;
          s2 = set_phase phase (set_next_update (now + UPDATE_PERIOD) (set_next_text_update (now + UPDATE_PERIOD) s1))
      in run_callback (x_update_callback X)
           (run_callback (x_sync_callback X) (GNOME_VFS_XFER_ERROR_ACTION_ABORT, s2)))"

definition call_progress_uri ::
    "'w xfer \<Rightarrow> GnomeVFSURI option \<Rightarrow> GnomeVFSURI option \<Rightarrow> GnomeVFSXferPhase \<Rightarrow> 'w xfer_state \<Rightarrow> int \<times> 'w xfer_state" where
  "call_progress_uri X source_uri dest_uri phase s =
     (let (now, s1) = system_time X (progress_set_source_target_uris source_uri dest_uri s);
          s2 = set_phase phase (set_next_update (now + UPDATE_PERIOD) (set_next_text_update (now + UPDATE_PERIOD) s1))
      in run_callback (x_update_callback X) (run_callback (x_sync_callback X) (0, s2)))"

definition at_end :: "'w xfer_state \<Rightarrow> bool" where
  "at_end s \<longleftrightarrow> pi_bytes_total (info_of s) \<le> pi_total_bytes_copied (info_of s)"

text \<open>
  The pointer to one of the two times is the pair of a reader and a writer. The callback for
  updates is left out while its time has not come.
\<close>

definition call_progress_often_internal ::
    "'w xfer \<Rightarrow> GnomeVFSXferPhase \<Rightarrow> (GnomeVFSProgressCallbackState \<Rightarrow> int) \<Rightarrow> (int \<Rightarrow> 'w xfer_state \<Rightarrow> 'w xfer_state)
      \<Rightarrow> 'w xfer_state \<Rightarrow> int \<times> 'w xfer_state" where
  "call_progress_often_internal X phase next_time set_next_time s =
     (let (now, s1) = system_time X s;
          (result, s2) = run_callback (x_sync_callback X) (1, set_phase phase s1)
      in if now < next_time (xs_progress s2) \<and> \<not> at_end s2 then (result, s2)
         else run_callback (x_update_callback X) (result, set_next_time (now + UPDATE_PERIOD) s2))"

definition call_progress_often :: "'w xfer \<Rightarrow> GnomeVFSXferPhase \<Rightarrow> 'w xfer_state \<Rightarrow> int \<times> 'w xfer_state" where
  "call_progress_often X phase s =
     call_progress_often_internal X phase next_update_callback_time set_next_update s"

definition call_progress_with_uris_often ::
    "'w xfer \<Rightarrow> GnomeVFSURI option \<Rightarrow> GnomeVFSURI option \<Rightarrow> GnomeVFSXferPhase \<Rightarrow> 'w xfer_state \<Rightarrow> int \<times> 'w xfer_state" where
  "call_progress_with_uris_often X source_uri dest_uri phase s =
     call_progress_often_internal X phase next_text_update_callback_time set_next_text_update
       (progress_set_source_target_uris source_uri dest_uri s)"

section \<open>Errors and conflicts\<close>

text \<open>Returns whether to try again, the result to return, \<^verbatim>\<open>*skip\<close>, and the state.\<close>

definition handle_error :: "'w xfer \<Rightarrow> GnomeVFSResult \<Rightarrow> 'w xfer_state \<Rightarrow> bool \<times> GnomeVFSResult \<times> bool \<times> 'w xfer_state" where
  "handle_error X result s =
     (case x_error_mode X of
        GNOME_VFS_XFER_ERROR_MODE_ABORT \<Rightarrow> (False, result, False, s)
      | GNOME_VFS_XFER_ERROR_MODE_QUERY \<Rightarrow>
          (let s1 = on_info (\<lambda>i. i\<lparr>pi_status := GNOME_VFS_XFER_PROGRESS_STATUS_VFSERROR, pi_vfs_status := result\<rparr>) s;
               (action, s2) = call_progress_with_current_names X (pi_phase (info_of s1)) s1;
               s3 = set_status GNOME_VFS_XFER_PROGRESS_STATUS_OK s2
           in if action = GNOME_VFS_XFER_ERROR_ACTION_RETRY then (True, result, False, s3)
              else if action = GNOME_VFS_XFER_ERROR_ACTION_ABORT then (False, GNOME_VFS_ERROR_INTERRUPTED, False, s3)
              else if action = GNOME_VFS_XFER_ERROR_ACTION_SKIP then (False, GNOME_VFS_OK, True, s3)
              else (False, result, False, s3)))"

text \<open>
  Returns whether to try again, and what is stored through the pointers: the result,
  \<^verbatim>\<open>*replace\<close>, \<^verbatim>\<open>*skip\<close>, the overwrite mode; and the state.
\<close>

definition handle_overwrite ::
    "'w xfer \<Rightarrow> GnomeVFSResult \<Rightarrow> GnomeVFSXferOverwriteMode \<Rightarrow> 'w xfer_state
      \<Rightarrow> bool \<times> GnomeVFSResult \<times> bool \<times> bool \<times> GnomeVFSXferOverwriteMode \<times> 'w xfer_state" where
  "handle_overwrite X result mode s =
     (case mode of
        GNOME_VFS_XFER_OVERWRITE_MODE_ABORT \<Rightarrow> (False, GNOME_VFS_ERROR_FILE_EXISTS, False, False, mode, s)
      | GNOME_VFS_XFER_OVERWRITE_MODE_REPLACE \<Rightarrow> (True, result, True, False, mode, s)
      | GNOME_VFS_XFER_OVERWRITE_MODE_SKIP \<Rightarrow> (False, result, False, True, mode, s)
      | GNOME_VFS_XFER_OVERWRITE_MODE_QUERY \<Rightarrow>
          (let s1 = on_info (\<lambda>i. i\<lparr>pi_vfs_status := result, pi_status := GNOME_VFS_XFER_PROGRESS_STATUS_OVERWRITE\<rparr>) s;
               (action, s2) = call_progress_with_current_names X (pi_phase (info_of s1)) s1;
               s3 = set_status GNOME_VFS_XFER_PROGRESS_STATUS_OK s2
           in if action = GNOME_VFS_XFER_OVERWRITE_ACTION_ABORT
                then (False, GNOME_VFS_ERROR_FILE_EXISTS, False, False, mode, s3)
              else if action = GNOME_VFS_XFER_OVERWRITE_ACTION_REPLACE then (True, result, True, False, mode, s3)
              else if action = GNOME_VFS_XFER_OVERWRITE_ACTION_REPLACE_ALL
                then (True, result, True, False, GNOME_VFS_XFER_OVERWRITE_MODE_REPLACE, s3)
              else if action = GNOME_VFS_XFER_OVERWRITE_ACTION_SKIP then (False, result, False, True, mode, s3)
              else if action = GNOME_VFS_XFER_OVERWRITE_ACTION_SKIP_ALL
                then (False, result, False, True, GNOME_VFS_XFER_OVERWRITE_MODE_SKIP, s3)
              else (False, result, False, False, mode, s3)))"

section \<open>Deleting\<close>

definition add_total_copied :: "file_size \<Rightarrow> 'w xfer_state \<Rightarrow> 'w xfer_state" where
  "add_total_copied n = on_info (\<lambda>i. i\<lparr>pi_total_bytes_copied := pi_total_bytes_copied i + n\<rparr>)"

definition next_file_index :: "'w xfer_state \<Rightarrow> 'w xfer_state" where
  "next_file_index = on_info (\<lambda>i. i\<lparr>pi_file_index := pi_file_index i + 1\<rparr>)"

text \<open>The report after one item was deleted.\<close>

definition item_deleted :: "'w xfer \<Rightarrow> GnomeVFSURI \<Rightarrow> 'w xfer_state \<Rightarrow> GnomeVFSResult \<times> 'w xfer_state" where
  "item_deleted X uri s =
     (let (action, s1) = call_progress_with_uris_often X (Some uri) None GNOME_VFS_XFER_PHASE_DELETESOURCE
                           (add_total_copied DEFAULT_SIZE_OVERHEAD s)
      in (if action = GNOME_VFS_XFER_OVERWRITE_ACTION_ABORT then GNOME_VFS_ERROR_INTERRUPTED else GNOME_VFS_OK, s1))"

text \<open>\<open>skip\<close> is the caller's variable: an item that is deleted at the first try leaves it alone.\<close>

partial_function (option) remove_file_loop ::
    "'w xfer \<Rightarrow> GnomeVFSURI \<Rightarrow> bool \<Rightarrow> 'w xfer_state \<Rightarrow> (GnomeVFSResult \<times> bool \<times> 'w xfer_state) option" where
  "remove_file_loop X uri skip s =
     (let (result, s1) = on_world (gnome_vfs_unlink_from_uri (x_library X) uri) s
      in if result \<noteq> GNOME_VFS_OK then
           (let (retry, result', skip', s2) = handle_error X result s1
            in if retry then remove_file_loop X uri skip' s2 else Some (result', skip', s2))
         else (let (result', s2) = item_deleted X uri s1 in Some (result', skip, s2)))"

declare remove_file_loop.simps [code]

definition remove_file ::
    "'w xfer \<Rightarrow> GnomeVFSURI \<Rightarrow> bool \<Rightarrow> 'w xfer_state \<Rightarrow> (GnomeVFSResult \<times> bool \<times> 'w xfer_state) option" where
  "remove_file X uri skip s = remove_file_loop X uri skip (next_file_index s)"

partial_function (option) remove_directory_loop ::
    "'w xfer \<Rightarrow> GnomeVFSURI \<Rightarrow> bool \<Rightarrow> 'w xfer_state \<Rightarrow> (GnomeVFSResult \<times> bool \<times> 'w xfer_state) option" where
  "remove_directory_loop X uri skip s =
     (let (result, s1) = on_world (gnome_vfs_remove_directory_from_uri (x_library X) uri) s
      in if result \<noteq> GNOME_VFS_OK then
           (let (retry, result', skip', s2) = handle_error X result s1
            in if retry then remove_directory_loop X uri skip' s2 else Some (result', skip', s2))
         else (let (result', s2) = item_deleted X uri s1 in Some (result', skip, s2)))"

declare remove_directory_loop.simps [code]

definition PrependOneURIToList :: "'w xfer \<Rightarrow> GnomeVFSURI \<Rightarrow> (GnomeVFSURI list, 'w) visit_func" where
  "PrependOneURIToList X base_uri rel_path info will_loop uri_list w =
     do {
       uri \<leftarrow> gnome_vfs_uri_append_path (lib_env (x_library X)) base_uri rel_path;
       if will_loop then Some (False, False, uri # uri_list, w) else Some (True, True, uri # uri_list, w)
     }"

text \<open>
  \<^verbatim>\<open>remove_directory\<close> with \<^verbatim>\<open>recursive\<close> false: the directory itself. The loop over the flat list
  goes on after an error and returns the result of the last item.
\<close>

definition remove_directory_itself ::
    "'w xfer \<Rightarrow> GnomeVFSURI \<Rightarrow> bool \<Rightarrow> 'w xfer_state \<Rightarrow> (GnomeVFSResult \<times> bool \<times> 'w xfer_state) option" where
  "remove_directory_itself X uri skip s = remove_directory_loop X uri skip (next_file_index s)"

fun remove_listed ::
    "'w xfer \<Rightarrow> GnomeVFSURI list \<Rightarrow> GnomeVFSResult \<Rightarrow> bool \<Rightarrow> 'w xfer_state
      \<Rightarrow> (GnomeVFSResult \<times> bool \<times> 'w xfer_state) option" where
  "remove_listed X [] result skip s = Some (result, skip, s)"
| "remove_listed X (uri # uris) result skip s =
     (let (result1, info, s1) =
            on_world2 (gnome_vfs_get_file_info_uri (x_library X) uri gnome_vfs_file_info_new GNOME_VFS_FILE_INFO_DEFAULT) s;
          s2 = progress_set_source_target_uris (Some uri) None s1
      in do {
        (result2, skip2, s3) \<leftarrow>
          (if result1 \<noteq> GNOME_VFS_OK then Some (result1, skip, s2)
           else if file_type info = GNOME_VFS_FILE_TYPE_DIRECTORY then remove_directory_itself X uri skip s2
           else remove_file X uri skip s2);
        remove_listed X uris result2 skip2 s3
      })"

definition non_recursive_empty_directory ::
    "'w xfer \<Rightarrow> GnomeVFSURI \<Rightarrow> bool \<Rightarrow> 'w xfer_state \<Rightarrow> (GnomeVFSResult \<times> bool \<times> 'w xfer_state) option" where
  "non_recursive_empty_directory X directory_uri skip s =
     do {
       (result, uri_list, w) \<leftarrow>
         gnome_vfs_directory_visit_uri (x_library X) directory_uri GNOME_VFS_FILE_INFO_DEFAULT
           (GNOME_VFS_DIRECTORY_VISIT_SAMEFS OR GNOME_VFS_DIRECTORY_VISIT_LOOPCHECK)
           (PrependOneURIToList X directory_uri) [] (xs_world s);
       if result = GNOME_VFS_OK then remove_listed X uri_list result skip (s\<lparr>xs_world := w\<rparr>)
       else Some (result, skip, s\<lparr>xs_world := w\<rparr>)
     }"

text \<open>The first loop of \<^verbatim>\<open>empty_directory\<close>: opening the directory.\<close>

partial_function (option) empty_open_loop ::
    "'w xfer \<Rightarrow> GnomeVFSURI \<Rightarrow> bool \<Rightarrow> 'w xfer_state
      \<Rightarrow> (GnomeVFSResult \<times> GnomeVFSDirectoryHandle option \<times> bool \<times> 'w xfer_state) option" where
  "empty_open_loop X uri skip s =
     (let (result, handle, s1) =
            on_world2 (gnome_vfs_directory_open_from_uri (x_library X) uri GNOME_VFS_FILE_INFO_DEFAULT) s
      in if result \<noteq> GNOME_VFS_OK then
           (let (retry, result', skip', s2) = handle_error X result s1
            in if retry then empty_open_loop X uri skip' s2 else Some (result', handle, skip', s2))
         else Some (result, handle, skip, s1))"

declare empty_open_loop.simps [code]

text \<open>What \<^verbatim>\<open>remove_directory\<close> does after \<^verbatim>\<open>empty_directory\<close> returned.\<close>

definition remove_emptied_directory ::
    "'w xfer \<Rightarrow> GnomeVFSURI \<Rightarrow> GnomeVFSResult \<Rightarrow> bool \<Rightarrow> 'w xfer_state
      \<Rightarrow> (GnomeVFSResult \<times> bool \<times> 'w xfer_state) option" where
  "remove_emptied_directory X uri result skip s =
     do {
       (result1, skip1, s1) \<leftarrow>
         (if result = GNOME_VFS_ERROR_TOO_MANY_OPEN_FILES then non_recursive_empty_directory X uri skip s
          else Some (result, skip, s));
       if eof_is_ok result1 = GNOME_VFS_OK then remove_directory_itself X uri skip1 s1
       else Some (eof_is_ok result1, skip1, s1)
     }"

text \<open>
  The loop of \<^verbatim>\<open>empty_directory\<close> over the entries, with the recursive call of
  \<^verbatim>\<open>remove_directory\<close> written out; \<open>empty_loop_unfold\<close> below states it with the call.
\<close>

partial_function (option) empty_loop ::
    "'w xfer \<Rightarrow> GnomeVFSURI \<Rightarrow> GnomeVFSDirectoryHandle \<Rightarrow> bool \<Rightarrow> 'w xfer_state
      \<Rightarrow> (GnomeVFSResult \<times> bool \<times> 'w xfer_state) option" where
  "empty_loop X uri handle skip s =
     (let (result, info, s1) = on_world2 (gnome_vfs_directory_read_next (x_library X) handle gnome_vfs_file_info_new) s
      in if result \<noteq> GNOME_VFS_OK then Some (result, skip, s1)
         else do {
           n \<leftarrow> fi_name info;
           if is_dot_name n then empty_loop X uri handle skip s1
           else do {
             item_uri \<leftarrow> gnome_vfs_uri_append_file_name (lib_env (x_library X)) uri n;
             (result2, skip2, s2) \<leftarrow>
               (if file_type info = GNOME_VFS_FILE_TYPE_DIRECTORY then do {
                  (opened, sub, skip3, s3) \<leftarrow>
                    empty_open_loop X item_uri False (progress_set_source_target_uris (Some item_uri) None s1);
                  (result4, skip4, s4) \<leftarrow>
                    (if opened \<noteq> GNOME_VFS_OK \<or> skip3 then Some (opened, skip3, s3)
                     else do {
                       h \<leftarrow> sub;
                       (r, skip5, s5) \<leftarrow> empty_loop X item_uri h skip3 s3;
                       Some (eof_is_ok r, skip5, snd (on_world (gnome_vfs_directory_close (x_library X) h) s5))
                     });
                  remove_emptied_directory X item_uri result4 skip4 s4
                }
                else remove_file X item_uri skip (progress_set_source_target_uris (Some item_uri) None s1));
             if result2 \<noteq> GNOME_VFS_OK then Some (result2, skip2, s2)
             else empty_loop X uri handle skip2 s2
           }
         })"

declare empty_loop.simps [code]

definition empty_directory ::
    "'w xfer \<Rightarrow> GnomeVFSURI \<Rightarrow> 'w xfer_state \<Rightarrow> (GnomeVFSResult \<times> bool \<times> 'w xfer_state) option" where
  "empty_directory X uri s =
     do {
       (opened, handle, skip, s1) \<leftarrow> empty_open_loop X uri False s;
       if opened \<noteq> GNOME_VFS_OK \<or> skip then Some (opened, skip, s1)
       else do {
         h \<leftarrow> handle;
         (r, skip2, s2) \<leftarrow> empty_loop X uri h skip s1;
         Some (eof_is_ok r, skip2, snd (on_world (gnome_vfs_directory_close (x_library X) h) s2))
       }
     }"

definition remove_directory ::
    "'w xfer \<Rightarrow> GnomeVFSURI \<Rightarrow> bool \<Rightarrow> bool \<Rightarrow> 'w xfer_state \<Rightarrow> (GnomeVFSResult \<times> bool \<times> 'w xfer_state) option" where
  "remove_directory X uri recursive skip s =
     (if recursive then do {
        (result, skip1, s1) \<leftarrow> empty_directory X uri s;
        remove_emptied_directory X uri result skip1 s1
      }
      else remove_directory_itself X uri skip s)"

lemma empty_loop_unfold:
  "empty_loop X uri handle skip s =
     (let (result, info, s1) = on_world2 (gnome_vfs_directory_read_next (x_library X) handle gnome_vfs_file_info_new) s
      in if result \<noteq> GNOME_VFS_OK then Some (result, skip, s1)
         else do {
           n \<leftarrow> fi_name info;
           if is_dot_name n then empty_loop X uri handle skip s1
           else do {
             item_uri \<leftarrow> gnome_vfs_uri_append_file_name (lib_env (x_library X)) uri n;
             (result2, skip2, s2) \<leftarrow>
               (if file_type info = GNOME_VFS_FILE_TYPE_DIRECTORY
                then remove_directory X item_uri True skip (progress_set_source_target_uris (Some item_uri) None s1)
                else remove_file X item_uri skip (progress_set_source_target_uris (Some item_uri) None s1));
             if result2 \<noteq> GNOME_VFS_OK then Some (result2, skip2, s2)
             else empty_loop X uri handle skip2 s2
           }
         })"
  by (subst empty_loop.simps)
     (simp only: remove_directory_def empty_directory_def split_def Option.bind_assoc if_True)

end
