(* ===== verification/VFS_Xfer_Copy.thy ===== *)
theory VFS_Xfer_Copy
  imports VFS_Xfer_Base
begin

text \<open>
  Transfers (\<^verbatim>\<open>libgnomevfs/gnome-vfs-xfer.c\<close>), second part: the count of items and bytes, name
  conflicts, and the copying of files, links and directories.
\<close>

section \<open>Counting\<close>

text \<open>The state of a transfer as the data of a visit: the world is threaded by the visit.\<close>

definition visit_state :: "GnomeVFSProgressCallbackState \<Rightarrow> 'w \<Rightarrow> 'w xfer_state" where
  "visit_state p w = \<lparr>xs_progress = p, xs_world = w\<rparr>"

text \<open>
  Returns whether to go on and the value of \<^verbatim>\<open>*recurse\<close>. The code also stores a result in the
  parameters of the visit, which nothing reads.
\<close>

definition count_each_file_size_one ::
    "'w xfer \<Rightarrow> string \<Rightarrow> GnomeVFSFileInfo \<Rightarrow> bool \<Rightarrow> bool \<Rightarrow> 'w xfer_state \<Rightarrow> bool \<times> bool \<times> 'w xfer_state" where
  "count_each_file_size_one X rel_path info will_loop recurse s =
     (let (action, s1) = call_progress_often X (pi_phase (info_of s)) s
      in if action = 0 then (False, False, s1)
         else
           (let s2 = progress_set_source_target (Some rel_path) None s1;
                s3 = on_info (\<lambda>i. i\<lparr>pi_files_total := pi_files_total i + 1,
                                    pi_bytes_total := pi_bytes_total i
                                      + (if file_type info = GNOME_VFS_FILE_TYPE_REGULAR then fi_size info + DEFAULT_SIZE_OVERHEAD
                                         else if file_type info = GNOME_VFS_FILE_TYPE_DIRECTORY then DEFAULT_SIZE_OVERHEAD
                                         else 0)\<rparr>) s2
            in if will_loop then (False, recurse, s3) else (True, True, s3)))"

definition count_visit :: "'w xfer \<Rightarrow> (GnomeVFSProgressCallbackState, 'w) visit_func" where
  "count_visit X rel_path info will_loop p w =
     (let (go_on, recurse, s) = count_each_file_size_one X rel_path info will_loop False (visit_state p w)
      in Some (go_on, recurse, xs_progress s, xs_world s))"

text \<open>\<^verbatim>\<open>gnome_vfs_visit_list\<close> with this callback, the only one it is called with.\<close>

fun gnome_vfs_visit_list ::
    "'w xfer \<Rightarrow> GnomeVFSURI list \<Rightarrow> guint \<Rightarrow> guint \<Rightarrow> bool \<Rightarrow> 'w xfer_state \<Rightarrow> (GnomeVFSResult \<times> 'w xfer_state) option" where
  "gnome_vfs_visit_list X [] info_options visit_options recursive s = Some (GNOME_VFS_OK, s)"
| "gnome_vfs_visit_list X (uri # uris) info_options visit_options recursive s =
     (let (result, info, s1) =
            on_world2 (gnome_vfs_get_file_info_uri (x_library X) uri gnome_vfs_file_info_new info_options) s
      in if result \<noteq> GNOME_VFS_OK then Some (result, s1)
         else do {
           path \<leftarrow> gnome_vfs_uri_get_path uri;
           let (go_on, recurse, s2) = count_each_file_size_one X path info False True s1;
           if \<not> go_on then Some (GNOME_VFS_ERROR_INTERRUPTED, s2)
           else if recursive \<and> file_type info = GNOME_VFS_FILE_TYPE_DIRECTORY then do {
             (result', p, w) \<leftarrow>
               gnome_vfs_directory_visit_uri (x_library X) uri info_options visit_options (count_visit X)
                 (xs_progress s2) (xs_world s2);
             if result' \<noteq> GNOME_VFS_OK then Some (result', visit_state p w)
             else gnome_vfs_visit_list X uris info_options visit_options recursive (visit_state p w)
           }
           else gnome_vfs_visit_list X uris info_options visit_options recursive s2
         })"

definition visit_options_of :: "guint \<Rightarrow> guint" where
  "visit_options_of xfer_options =
     (if has_option xfer_options GNOME_VFS_XFER_SAMEFS
      then GNOME_VFS_DIRECTORY_VISIT_LOOPCHECK OR GNOME_VFS_DIRECTORY_VISIT_SAMEFS
      else GNOME_VFS_DIRECTORY_VISIT_LOOPCHECK)"

definition info_options_of :: "guint \<Rightarrow> guint" where
  "info_options_of xfer_options =
     (if has_option xfer_options GNOME_VFS_XFER_FOLLOW_LINKS then GNOME_VFS_FILE_INFO_FOLLOW_LINKS
      else GNOME_VFS_FILE_INFO_DEFAULT)"

definition list_add_items_and_size ::
    "'w xfer \<Rightarrow> GnomeVFSURI list \<Rightarrow> guint \<Rightarrow> bool \<Rightarrow> 'w xfer_state \<Rightarrow> (GnomeVFSResult \<times> 'w xfer_state) option" where
  "list_add_items_and_size X name_uri_list xfer_options recurse s =
     gnome_vfs_visit_list X name_uri_list (info_options_of xfer_options) (visit_options_of xfer_options) recurse s"

definition count_items_and_size ::
    "'w xfer \<Rightarrow> GnomeVFSURI list \<Rightarrow> guint \<Rightarrow> bool \<Rightarrow> bool \<Rightarrow> 'w xfer_state \<Rightarrow> (GnomeVFSResult \<times> 'w xfer_state) option" where
  "count_items_and_size X name_uri_list xfer_options move link s =
     list_add_items_and_size X name_uri_list xfer_options
       (\<not> link \<and> \<not> move \<and> has_option xfer_options GNOME_VFS_XFER_RECURSIVE)
       (on_info (\<lambda>i. i\<lparr>pi_files_total := 0, pi_bytes_total := 0\<rparr>) s)"

definition directory_add_items_and_size ::
    "'w xfer \<Rightarrow> GnomeVFSURI \<Rightarrow> guint \<Rightarrow> 'w xfer_state \<Rightarrow> (GnomeVFSResult \<times> 'w xfer_state) option" where
  "directory_add_items_and_size X dir_uri xfer_options s =
     do {
       (result, p, w) \<leftarrow>
         gnome_vfs_directory_visit_uri (x_library X) dir_uri (info_options_of xfer_options) (visit_options_of xfer_options)
           (count_visit X) (xs_progress s) (xs_world s);
       Some (result, visit_state p w)
     }"

section \<open>Name conflicts\<close>

function move_source_loop ::
    "'w xfer \<Rightarrow> GnomeVFSURI \<Rightarrow> GnomeVFSURI \<Rightarrow> 'w xfer_state \<Rightarrow> (bool \<times> 'w xfer_state) option" where
  "move_source_loop X parent target s =
     do {
       (inside, w) \<leftarrow> gnome_vfs_uri_is_in_subdir (x_library X) parent target (xs_world s);
       if inside then Some (True, s\<lparr>xs_world := w\<rparr>)
       else case gnome_vfs_uri_get_parent parent of
              None \<Rightarrow> Some (False, s\<lparr>xs_world := w\<rparr>)
            | Some tmp \<Rightarrow> move_source_loop X tmp target (s\<lparr>xs_world := w\<rparr>)
     }"
  by pat_completeness auto
termination
  by (relation "measures [\<lambda>(X, parent, t, s). length (uri_elements parent), \<lambda>(X, parent, t, s). text_length parent]")
     (auto dest: get_parent_smaller)

declare move_source_loop.simps [simp del]

definition move_source_is_in_target ::
    "'w xfer \<Rightarrow> GnomeVFSURI \<Rightarrow> GnomeVFSURI \<Rightarrow> 'w xfer_state \<Rightarrow> (bool \<times> 'w xfer_state) option" where
  "move_source_is_in_target X source target s = move_source_loop X source target s"

definition remove_conflicting ::
    "'w xfer \<Rightarrow> GnomeVFSURI \<Rightarrow> GnomeVFSURI \<Rightarrow> GnomeVFSFileInfo \<Rightarrow> 'w xfer_state \<Rightarrow> (GnomeVFSResult \<times> 'w xfer_state) option" where
  "remove_conflicting X source_uri target_uri target_info s =
     (if file_type target_info = GNOME_VFS_FILE_TYPE_DIRECTORY then do {
        (inside, s1) \<leftarrow> move_source_is_in_target X source_uri target_uri s;
        if inside then Some (GNOME_VFS_ERROR_DIRECTORY_NOT_EMPTY, s1)
        else do {
          (result, skip, s2) \<leftarrow> remove_directory X target_uri True False s1;
          Some (result, s2)
        }
      }
      else do {
        (result, skip, s2) \<leftarrow> remove_file X target_uri False s;
        Some (result, s2)
      })"

text \<open>The data of the visit: the progress, and \<^verbatim>\<open>params->result\<close>.\<close>

definition handle_merged_name_conflict_visit ::
    "'w xfer \<Rightarrow> GnomeVFSURI \<Rightarrow> GnomeVFSURI \<Rightarrow> (GnomeVFSProgressCallbackState \<times> GnomeVFSResult, 'w) visit_func" where
  "handle_merged_name_conflict_visit X source target rel_path info will_loop d w =
     do {
       target_uri \<leftarrow> gnome_vfs_uri_append_path (lib_env (x_library X)) target rel_path;
       let (found, target_info, s1) =
         on_world2 (gnome_vfs_get_file_info_uri (x_library X) target_uri gnome_vfs_file_info_new GNOME_VFS_FILE_INFO_DEFAULT)
           (visit_state (fst d) w);
       (result, s3) \<leftarrow>
         (if found = GNOME_VFS_OK then do {
            source_uri \<leftarrow> gnome_vfs_uri_append_path (lib_env (x_library X)) source rel_path;
            let (found', source_info, s2) =
              on_world2 (gnome_vfs_get_file_info_uri (x_library X) source_uri gnome_vfs_file_info_new GNOME_VFS_FILE_INFO_DEFAULT) s1;
            if found' = GNOME_VFS_OK
               \<and> (file_type target_info \<noteq> GNOME_VFS_FILE_TYPE_DIRECTORY \<or> file_type source_info \<noteq> GNOME_VFS_FILE_TYPE_DIRECTORY)
            then remove_conflicting X source_uri target_uri target_info s2
            else Some (GNOME_VFS_OK, s2)
          }
          else Some (GNOME_VFS_OK, s1));
       Some (result = GNOME_VFS_OK, \<not> will_loop, (xs_progress s3, result), xs_world s3)
     }"

text \<open>The result of the visit itself is ignored, and the options for links are computed and not used.\<close>

definition handle_merged_directory_name_conflicts ::
    "'w xfer \<Rightarrow> guint \<Rightarrow> GnomeVFSURI \<Rightarrow> GnomeVFSURI \<Rightarrow> 'w xfer_state \<Rightarrow> (GnomeVFSResult \<times> 'w xfer_state) option" where
  "handle_merged_directory_name_conflicts X xfer_options source_uri target_uri s =
     do {
       (ignored, d, w) \<leftarrow>
         gnome_vfs_directory_visit_uri (x_library X) source_uri GNOME_VFS_FILE_INFO_DEFAULT (visit_options_of xfer_options)
           (handle_merged_name_conflict_visit X source_uri target_uri) (xs_progress s, GNOME_VFS_OK) (xs_world s);
       Some (snd d, visit_state (fst d) w)
     }"

text \<open>The first loop: none, one or more conflicts.\<close>

fun count_conflicts :: "'w xfer \<Rightarrow> GnomeVFSURI list \<Rightarrow> int \<Rightarrow> 'w xfer_state \<Rightarrow> int \<times> 'w xfer_state" where
  "count_conflicts X [] n s = (n, s)"
| "count_conflicts X (uri # uris) n s =
     (let (exists, s1) = on_world (gnome_vfs_uri_exists (x_library X) uri) s
      in if exists then (if n + 1 > 1 then (n + 1, s1) else count_conflicts X uris (n + 1) s1)
         else count_conflicts X uris n s1)"

text \<open>
  A target that is to be replaced: the result, \<^verbatim>\<open>skip\<close> and \<^verbatim>\<open>must_copy\<close>. A directory over a
  directory is merged, anything else is removed first.
\<close>

definition replace_target ::
    "'w xfer \<Rightarrow> guint \<Rightarrow> bool \<Rightarrow> bool \<Rightarrow> GnomeVFSURI \<Rightarrow> GnomeVFSURI \<Rightarrow> GnomeVFSFileInfo \<Rightarrow> bool \<Rightarrow> 'w xfer_state
      \<Rightarrow> (GnomeVFSResult \<times> bool \<times> bool \<times> 'w xfer_state) option" where
  "replace_target X xfer_options move link source_uri uri target_info skip s =
     (if file_type target_info = GNOME_VFS_FILE_TYPE_DIRECTORY then do {
        (inside, s1) \<leftarrow> move_source_is_in_target X source_uri uri s;
        if inside then Some (GNOME_VFS_ERROR_DIRECTORY_NOT_EMPTY, skip, False, s1)
        else
          (let (found, source_info, s2) =
                 (if link then (GNOME_VFS_OK, gnome_vfs_file_info_new, s1)
                  else on_world2 (gnome_vfs_get_file_info_uri (x_library X) source_uri gnome_vfs_file_info_new
                                    GNOME_VFS_FILE_INFO_DEFAULT) s1)
           in if \<not> link \<and> found = GNOME_VFS_OK \<and> file_type source_info = GNOME_VFS_FILE_TYPE_DIRECTORY then
                (if move \<or> has_option xfer_options GNOME_VFS_XFER_RECURSIVE then do {
                   (result, s3) \<leftarrow> handle_merged_directory_name_conflicts X xfer_options source_uri uri s2;
                   Some (result, skip, True, s3)
                 }
                 else Some (GNOME_VFS_OK, skip, True, s2))
              else do {
                (result, skip', s3) \<leftarrow> remove_directory X uri True skip s2;
                Some (result, skip', False, s3)
              })
      }
      else do {
        (result, skip', s3) \<leftarrow> remove_file X uri skip s;
        Some (result, skip', False, s3)
      })"

text \<open>
  What is done about one pair: the result, whether to skip it, whether it must be copied, the
  overwrite mode, and the caller's structure, which is reused for every pair.
\<close>

definition resolve_conflict ::
    "'w xfer \<Rightarrow> guint \<Rightarrow> bool \<Rightarrow> bool \<Rightarrow> GnomeVFSURI \<Rightarrow> GnomeVFSURI \<Rightarrow> GnomeVFSXferOverwriteMode \<Rightarrow> GnomeVFSFileInfo
      \<Rightarrow> 'w xfer_state \<Rightarrow> (GnomeVFSResult \<times> bool \<times> bool \<times> GnomeVFSXferOverwriteMode \<times> GnomeVFSFileInfo \<times> 'w xfer_state) option" where
  "resolve_conflict X xfer_options move link source_uri uri mode target_info s =
     do {
       is_move_to_self \<leftarrow> (if has_option xfer_options GNOME_VFS_XFER_REMOVESOURCE
                           then gnome_vfs_uri_equal False source_uri uri else Some False);
       if is_move_to_self then Some (GNOME_VFS_OK, False, False, mode, target_info, s)
       else
         (let (found, info, s1) = on_world2 (gnome_vfs_get_file_info_uri (x_library X) uri target_info GNOME_VFS_FILE_INFO_DEFAULT) s
          in if found \<noteq> GNOME_VFS_OK then Some (GNOME_VFS_OK, False, False, mode, info, s1)
             else do {
               let s2 = progress_set_source_target_uris (Some source_uri) (Some uri) s1;
               same \<leftarrow> gnome_vfs_uri_equal False uri source_uri;
               let (replace, result, skip, mode', s3) =
                 (if same then (False, GNOME_VFS_OK, True, mode, s2)
                  else let (again, result, replace, skip, mode', s3) = handle_overwrite X GNOME_VFS_OK mode s2
                       in (again, result, skip, mode', s3));
               (result', skip', must_copy, s4) \<leftarrow>
                 (if replace then replace_target X xfer_options move link source_uri uri info skip
                                    (progress_set_source_target_uris (Some uri) None s3)
                  else Some (result, skip, False, s3));
               Some (result', skip', must_copy, mode', gnome_vfs_file_info_clear info, s4)
             })
     }"

record xfer_lists =
  xl_sources :: "GnomeVFSURI list"
  xl_targets :: "GnomeVFSURI list"
  xl_merge_sources :: "GnomeVFSURI list"
  xl_merge_targets :: "GnomeVFSURI list"

definition keep_pair :: "GnomeVFSURI \<Rightarrow> GnomeVFSURI \<Rightarrow> xfer_lists \<Rightarrow> xfer_lists" where
  "keep_pair source target l = l\<lparr>xl_sources := source # xl_sources l, xl_targets := target # xl_targets l\<rparr>"

text \<open>
  The second loop. A skipped pair is taken out of the lists; a directory that is merged into
  another during a move goes to the front of the other two lists. \<open>l\<close> holds what the loop put
  into those, and the result what is left of the lists.
\<close>

fun conflict_loop ::
    "'w xfer \<Rightarrow> guint \<Rightarrow> bool \<Rightarrow> bool \<Rightarrow> GnomeVFSURI list \<Rightarrow> GnomeVFSURI list \<Rightarrow> GnomeVFSXferOverwriteMode \<Rightarrow> GnomeVFSFileInfo
      \<Rightarrow> xfer_lists \<Rightarrow> 'w xfer_state \<Rightarrow> (GnomeVFSResult \<times> xfer_lists \<times> GnomeVFSXferOverwriteMode \<times> 'w xfer_state) option" where
  "conflict_loop X xfer_options move link sources [] mode target_info l s =
     Some (GNOME_VFS_OK, l\<lparr>xl_sources := sources, xl_targets := []\<rparr>, mode, s)"
| "conflict_loop X xfer_options move link [] (uri # uris) mode target_info l s = None"
| "conflict_loop X xfer_options move link (source_uri # sources) (uri # uris) mode target_info l s =
     do {
       (result, skip, must_copy, mode', info', s1) \<leftarrow>
         resolve_conflict X xfer_options move link source_uri uri mode target_info s;
       if result \<noteq> GNOME_VFS_OK
       then Some (result, l\<lparr>xl_sources := source_uri # sources, xl_targets := uri # uris\<rparr>, mode', s1)
       else if skip then conflict_loop X xfer_options move link sources uris mode' info' l s1
       else if move \<and> must_copy
       then conflict_loop X xfer_options move link sources uris mode' info'
              (l\<lparr>xl_merge_sources := source_uri # xl_merge_sources l, xl_merge_targets := uri # xl_merge_targets l\<rparr>) s1
       else do {
         (result', l', mode'', s2) \<leftarrow> conflict_loop X xfer_options move link sources uris mode' info' l s1;
         Some (result', keep_pair source_uri uri l', mode'', s2)
       }
     }"

definition handle_name_conflicts ::
    "'w xfer \<Rightarrow> guint \<Rightarrow> bool \<Rightarrow> bool \<Rightarrow> GnomeVFSURI list \<Rightarrow> GnomeVFSURI list \<Rightarrow> GnomeVFSXferOverwriteMode \<Rightarrow> 'w xfer_state
      \<Rightarrow> (GnomeVFSResult \<times> xfer_lists \<times> GnomeVFSXferOverwriteMode \<times> 'w xfer_state) option" where
  "handle_name_conflicts X xfer_options move link sources targets mode s =
     (let (conflict_count, s1) = count_conflicts X targets 0 s;
          l = \<lparr>xl_sources = sources, xl_targets = targets, xl_merge_sources = [], xl_merge_targets = []\<rparr>
      in if conflict_count = 0 then Some (GNOME_VFS_OK, l, mode, s1)
         else conflict_loop X xfer_options move link sources targets mode gnome_vfs_file_info_new l
                (on_info (\<lambda>i. i\<lparr>pi_duplicate_count := conflict_count\<rparr>) s1))"

section \<open>Creating a directory\<close>

text \<open>Returns the result, the open directory (\<open>None\<close>: null), \<^verbatim>\<open>*skip\<close>, the overwrite mode, and the state.\<close>

partial_function (option) create_directory_loop ::
    "'w xfer \<Rightarrow> GnomeVFSURI \<Rightarrow> guint \<Rightarrow> GnomeVFSXferOverwriteMode \<Rightarrow> 'w xfer_state
      \<Rightarrow> (GnomeVFSResult \<times> GnomeVFSDirectoryHandle option \<times> bool \<times> GnomeVFSXferOverwriteMode \<times> 'w xfer_state) option" where
  "create_directory_loop X dir_uri xfer_options mode s =
     (let (result, s1) = on_world (gnome_vfs_make_directory_for_uri (x_library X) dir_uri 511) s
      in if result = GNOME_VFS_ERROR_FILE_EXISTS \<and> has_option xfer_options GNOME_VFS_XFER_USE_UNIQUE_NAMES
         then Some (result, None, False, mode, s1)
         else do {
           (finished, result', skip, mode', s4) \<leftarrow>
             (if result = GNOME_VFS_ERROR_FILE_EXISTS then
                (let (found, info, s2) =
                       on_world2 (gnome_vfs_get_file_info_uri (x_library X) dir_uri gnome_vfs_file_info_new
                                    GNOME_VFS_FILE_INFO_DEFAULT) s1
                 in if found = GNOME_VFS_OK \<and> file_type info = GNOME_VFS_FILE_TYPE_DIRECTORY
                    then Some (False, GNOME_VFS_OK, False, mode, s2)
                    else
                      (let (again, result2, force_replace, skip2, mode2, s3) = handle_overwrite X result mode s2
                       in if skip2 then Some (True, GNOME_VFS_OK, True, mode2, s3)
                          else if force_replace then do {
                            (result3, skip3, s4) \<leftarrow> remove_file X dir_uri skip2 s3;
                            Some (False, result3, skip3, mode2, s4)
                          }
                          else Some (False, GNOME_VFS_OK, skip2, mode2, s3)))
              else Some (False, result, False, mode, s1));
           if finished then Some (result', None, skip, mode', s4)
           else if result' = GNOME_VFS_OK then
             (let (opened, handle, s5) =
                    on_world2 (gnome_vfs_directory_open_from_uri (x_library X) dir_uri GNOME_VFS_FILE_INFO_DEFAULT) s4
              in Some (opened, handle, skip, mode', s5))
           else
             (let (retry, result'', skip', s5) = handle_error X result' s4
              in if skip' then Some (GNOME_VFS_OK, None, skip', mode', s5)
                 else if retry then create_directory_loop X dir_uri xfer_options mode' s5
                 else Some (result'', None, skip', mode', s5))
         })"

declare create_directory_loop.simps [code]

definition create_directory ::
    "'w xfer \<Rightarrow> GnomeVFSURI \<Rightarrow> guint \<Rightarrow> GnomeVFSXferOverwriteMode \<Rightarrow> 'w xfer_state
      \<Rightarrow> (GnomeVFSResult \<times> GnomeVFSDirectoryHandle option \<times> bool \<times> GnomeVFSXferOverwriteMode \<times> 'w xfer_state) option" where
  "create_directory X dir_uri xfer_options mode s = create_directory_loop X dir_uri xfer_options mode s"

section \<open>Copying the data of a file\<close>

definition DROP_CACHE_SIZE_LIMIT :: file_size where "DROP_CACHE_SIZE_LIMIT = 20 * 1024 * 1024"
definition DROP_CACHE_BATCH_SIZE :: file_size where "DROP_CACHE_BATCH_SIZE = 512 * 1024"

record copy_handles =
  cp_target :: GnomeVFSHandle
  cp_source :: GnomeVFSHandle
  cp_block_size :: file_size
  cp_forget_cache :: bool

text \<open>Reading one block: the result, the bytes, \<^verbatim>\<open>*skip\<close>.\<close>

partial_function (option) copy_read_loop ::
    "'w xfer \<Rightarrow> copy_handles \<Rightarrow> bool \<Rightarrow> 'w xfer_state \<Rightarrow> (GnomeVFSResult \<times> string \<times> bool \<times> 'w xfer_state) option" where
  "copy_read_loop X C skip s =
     (let (result, buffer, s1) = on_world2 (gnome_vfs_read (x_library X) (cp_source C) (cp_block_size C)) s
      in if result \<noteq> GNOME_VFS_OK \<and> result \<noteq> GNOME_VFS_ERROR_EOF then
           (let (retry, result', skip', s2) = handle_error X result s1
            in if retry then copy_read_loop X C skip' s2 else Some (result', buffer, skip', s2))
         else Some (result, buffer, skip, s1))"

declare copy_read_loop.simps [code]

text \<open>
  Writing one block: \<open>rest\<close> is what is left to write, \<open>written\<close> the variable
  \<^verbatim>\<open>bytes_written\<close>, which has no value before the first write that stores one. Using it
  without a value, or going past the end of the buffer, is \<open>None\<close>.
\<close>

partial_function (option) copy_write_loop ::
    "'w xfer \<Rightarrow> copy_handles \<Rightarrow> string \<Rightarrow> nat option \<times> bool \<Rightarrow> 'w xfer_state
      \<Rightarrow> (GnomeVFSResult \<times> string \<times> bool \<times> 'w xfer_state) option" where
  "copy_write_loop X C rest ws s =
     (let (result, stored, s1) = on_world2 (gnome_vfs_write (x_library X) (cp_target C) rest) s;
          written = (case stored of None \<Rightarrow> fst ws | Some n \<Rightarrow> Some n);
          (retry, result', skip', s2) = (if result \<noteq> GNOME_VFS_OK then handle_error X result s1 else (False, result, snd ws, s1))
      in do {
        n \<leftarrow> written;
        if length rest < n then None
        else if result' = GNOME_VFS_OK \<and> n < length rest \<or> retry
        then copy_write_loop X C (drop n rest) (written, skip') s2
        else Some (result', drop n rest, skip', s2)
      })"

declare copy_write_loop.simps [code]

definition forget_copied :: "'w xfer \<Rightarrow> copy_handles \<Rightarrow> file_size \<Rightarrow> file_size \<Rightarrow> 'w xfer_state \<Rightarrow> 'w xfer_state" where
  "forget_copied X C from_pos n s =
     snd (on_world (gnome_vfs_forget_cache (x_library X) (cp_target C) (sint from_pos) n)
       (snd (on_world (gnome_vfs_forget_cache (x_library X) (cp_source C) (sint from_pos) n) s)))"

text \<open>
  The loop over the blocks. The first component says that the progress callback stopped the
  copy, which makes the function return at once.
\<close>

partial_function (option) copy_blocks_loop ::
    "'w xfer \<Rightarrow> copy_handles \<Rightarrow> file_size \<times> file_size \<Rightarrow> bool \<Rightarrow> 'w xfer_state
      \<Rightarrow> (bool \<times> GnomeVFSResult \<times> bool \<times> 'w xfer_state) option" where
  "copy_blocks_loop X C pos skip s =
     do {
       (result, buffer, skip1, s1) \<leftarrow>
         copy_read_loop X C skip
           (on_info (\<lambda>i. i\<lparr>pi_status := GNOME_VFS_XFER_PROGRESS_STATUS_OK, pi_vfs_status := GNOME_VFS_OK,
                           pi_phase := GNOME_VFS_XFER_PHASE_READSOURCE\<rparr>) s);
       if result \<noteq> GNOME_VFS_OK \<or> buffer = [] \<or> skip1 then Some (False, result, skip1, s1)
       else do {
         let total = fst pos + of_nat (length buffer);
         (result2, rest, skip2, s2) \<leftarrow> copy_write_loop X C buffer (None, skip1) (set_phase GNOME_VFS_XFER_PHASE_WRITETARGET s1);
         let drop_now = (cp_forget_cache C \<and> rest = [] \<and> DROP_CACHE_BATCH_SIZE < total - snd pos);
         let s3 = (if drop_now then forget_copied X C (snd pos) (total - snd pos) s2 else s2);
         let s4 = on_info (\<lambda>i. i\<lparr>pi_phase := GNOME_VFS_XFER_PHASE_COPYING,
                                 pi_bytes_copied := pi_bytes_copied i + of_nat (length buffer),
                                 pi_total_bytes_copied := pi_total_bytes_copied i + of_nat (length buffer)\<rparr>) s3;
         let (action, s5) = call_progress_often X GNOME_VFS_XFER_PHASE_COPYING s4;
         if action = 0 then Some (True, GNOME_VFS_ERROR_INTERRUPTED, skip2, s5)
         else if skip2 \<or> result2 \<noteq> GNOME_VFS_OK then Some (False, result2, skip2, s5)
         else copy_blocks_loop X C (total, if drop_now then total else snd pos) skip2 s5
       }
     }"

declare copy_blocks_loop.simps [code]

definition copy_file_data ::
    "'w xfer \<Rightarrow> GnomeVFSHandle \<Rightarrow> GnomeVFSHandle \<Rightarrow> guint \<Rightarrow> guint \<Rightarrow> 'w xfer_state
      \<Rightarrow> (GnomeVFSResult \<times> bool \<times> 'w xfer_state) option" where
  "copy_file_data X target_handle source_handle source_block_size target_block_size s =
     (let (action, s1) = call_progress_often X GNOME_VFS_XFER_PHASE_COPYING s
      in if action = 0 then Some (GNOME_VFS_ERROR_INTERRUPTED, False, s1)
         else do {
           (stopped, result, skip, s2) \<leftarrow>
             copy_blocks_loop X
               \<lparr>cp_target = target_handle, cp_source = source_handle,
                cp_block_size = ucast (max source_block_size target_block_size),
                cp_forget_cache = (DROP_CACHE_SIZE_LIMIT \<le> pi_bytes_total (info_of s1))\<rparr> (0, 0) False s1;
           if stopped then Some (result, skip, s2)
           else if eof_is_ok result = GNOME_VFS_OK then
             Some (GNOME_VFS_OK, skip,
                   snd (call_progress_often X GNOME_VFS_XFER_PHASE_COPYING (add_total_copied DEFAULT_SIZE_OVERHEAD s2)))
           else Some (eof_is_ok result, skip, s2)
         })"

section \<open>Copying a file\<close>

partial_function (option) open_source_loop ::
    "'w xfer \<Rightarrow> GnomeVFSURI \<Rightarrow> 'w xfer_state \<Rightarrow> (GnomeVFSResult \<times> GnomeVFSHandle option \<times> bool \<times> 'w xfer_state) option" where
  "open_source_loop X source_uri s =
     (let (result, handle, s1) = on_world2 (gnome_vfs_open_uri (x_library X) source_uri GNOME_VFS_OPEN_READ) s
      in if result \<noteq> GNOME_VFS_OK then
           (let (retry, result', skip, s2) = handle_error X result s1
            in if retry then open_source_loop X source_uri s2 else Some (result', None, skip, s2))
         else Some (result, handle, False, s1))"

declare open_source_loop.simps [code]

text \<open>The query about the open file replaces the result of opening it.\<close>

definition xfer_open_source ::
    "'w xfer \<Rightarrow> GnomeVFSURI \<Rightarrow> 'w xfer_state \<Rightarrow> (GnomeVFSResult \<times> GnomeVFSHandle option \<times> bool \<times> 'w xfer_state) option" where
  "xfer_open_source X source_uri s =
     do {
       (result, handle, skip, s1) \<leftarrow>
         open_source_loop X source_uri (snd (call_progress_often X GNOME_VFS_XFER_PHASE_OPENSOURCE s));
       case handle of
         None \<Rightarrow> Some (result, handle, skip, s1)
       | Some h \<Rightarrow>
           if pi_file_size (info_of s1) \<noteq> 0 then Some (result, handle, skip, s1)
           else
             (let (result', info, s2) =
                    on_world2 (gnome_vfs_get_file_info_from_handle (x_library X) h gnome_vfs_file_info_new
                                 GNOME_VFS_FILE_INFO_DEFAULT) s1
              in Some (result', handle, skip,
                   if result' = GNOME_VFS_OK \<and> (valid_fields info AND GNOME_VFS_FILE_INFO_FIELDS_SIZE) \<noteq> 0
                   then on_info (\<lambda>i. i\<lparr>pi_file_size := fi_size info\<rparr>) s2 else s2))
     }"

partial_function (option) create_target_loop ::
    "'w xfer \<Rightarrow> GnomeVFSURI \<Rightarrow> bool \<Rightarrow> GnomeVFSXferOverwriteMode \<Rightarrow> 'w xfer_state
      \<Rightarrow> (GnomeVFSResult \<times> GnomeVFSHandle option \<times> bool \<times> GnomeVFSXferOverwriteMode \<times> 'w xfer_state) option" where
  "create_target_loop X target_uri exclusive mode s =
     (let (result, handle, s1) = on_world2 (gnome_vfs_create_uri (x_library X) target_uri GNOME_VFS_OPEN_WRITE exclusive 438) s
      in if result = GNOME_VFS_ERROR_FILE_EXISTS then
           (let (retry, result', replace, skip, mode', s2) = handle_overwrite X result mode s1
            in if retry then create_target_loop X target_uri (exclusive \<and> \<not> replace) mode' s2
               else Some (result', handle, skip, mode', s2))
         else if result \<noteq> GNOME_VFS_OK then
           (let (retry, result', skip, s2) = handle_error X result s1
            in if retry then create_target_loop X target_uri exclusive mode s2
               else Some (result', handle, skip, mode, s2))
         else Some (result, handle, False, mode, s1))"

declare create_target_loop.simps [code]

definition xfer_create_target ::
    "'w xfer \<Rightarrow> GnomeVFSURI \<Rightarrow> GnomeVFSXferOverwriteMode \<Rightarrow> 'w xfer_state
      \<Rightarrow> (GnomeVFSResult \<times> GnomeVFSHandle option \<times> bool \<times> GnomeVFSXferOverwriteMode \<times> 'w xfer_state) option" where
  "xfer_create_target X target_uri mode s =
     create_target_loop X target_uri (mode \<noteq> GNOME_VFS_XFER_OVERWRITE_MODE_REPLACE) mode s"

partial_function (option) copy_symlink_loop ::
    "'w xfer \<Rightarrow> GnomeVFSURI \<times> GnomeVFSURI \<times> string \<Rightarrow> bool \<Rightarrow> GnomeVFSXferOverwriteMode \<Rightarrow> 'w xfer_state
      \<Rightarrow> (GnomeVFSResult \<times> bool \<times> GnomeVFSXferOverwriteMode \<times> 'w xfer_state) option" where
  "copy_symlink_loop X link tried_remove mode s =
     (let source_uri = fst link;
          target_uri = fst (snd link);
          (result, s1) = on_world (gnome_vfs_create_symbolic_link (x_library X) target_uri (snd (snd link))) s
      in if result = GNOME_VFS_ERROR_FILE_EXISTS then
           (let (tried', retry, result', remove, skip, mode', s2) =
                  (if mode = GNOME_VFS_XFER_OVERWRITE_MODE_REPLACE \<and> \<not> tried_remove
                   then (True, False, result, True, False, mode, s1)
                   else (tried_remove, handle_overwrite X result mode s1));
                s3 = (if remove then snd (on_world (gnome_vfs_unlink_from_uri (x_library X) target_uri) s2) else s2)
            in if retry then copy_symlink_loop X link tried' mode' s3 else Some (result', skip, mode', s3))
         else if result \<noteq> GNOME_VFS_OK then
           (let (retry, result', skip, s2) = handle_error X result s1
            in if retry then copy_symlink_loop X link tried_remove mode s2 else Some (result', skip, mode, s2))
         else
           (let (action, s2) = call_progress_with_uris_often X (Some source_uri) (Some target_uri) GNOME_VFS_XFER_PHASE_OPENTARGET s1
            in Some (if action = 0 then GNOME_VFS_ERROR_INTERRUPTED else result, False, mode, s2)))"

declare copy_symlink_loop.simps [code]

definition copy_symlink ::
    "'w xfer \<Rightarrow> GnomeVFSURI \<Rightarrow> GnomeVFSURI \<Rightarrow> string \<Rightarrow> GnomeVFSXferOverwriteMode \<Rightarrow> 'w xfer_state
      \<Rightarrow> (GnomeVFSResult \<times> bool \<times> GnomeVFSXferOverwriteMode \<times> 'w xfer_state) option" where
  "copy_symlink X source_uri target_uri link_name mode s =
     do {
       (result, skip, mode', s1) \<leftarrow> copy_symlink_loop X (source_uri, target_uri, link_name) False mode s;
       Some (if skip then GNOME_VFS_OK else result, skip, mode', s1)
     }"

definition io_block_size_of :: "GnomeVFSFileInfo \<Rightarrow> guint" where
  "io_block_size_of info =
     (if (valid_fields info AND GNOME_VFS_FILE_INFO_FIELDS_IO_BLOCK_SIZE) \<noteq> 0 \<and> 0 < io_block_size info
      then io_block_size info else 8192)"

text \<open>Errors while attributes are set are ignored.\<close>

definition set_target_attributes :: "'w xfer \<Rightarrow> guint \<Rightarrow> GnomeVFSURI \<Rightarrow> GnomeVFSFileInfo \<Rightarrow> 'w xfer_state \<Rightarrow> 'w xfer_state" where
  "set_target_attributes X xfer_options target_uri info s =
     (let s1 = (if \<not> has_option xfer_options GNOME_VFS_XFER_TARGET_DEFAULT_PERMS
                   \<and> (valid_fields info AND GNOME_VFS_FILE_INFO_FIELDS_PERMISSIONS) \<noteq> 0
                then snd (on_world (gnome_vfs_set_file_info_uri (x_library X) target_uri info
                            (GNOME_VFS_SET_FILE_INFO_OWNER OR GNOME_VFS_SET_FILE_INFO_PERMISSIONS)) s)
                else s)
      in snd (on_world (gnome_vfs_set_file_info_uri (x_library X) target_uri info GNOME_VFS_SET_FILE_INFO_TIME) s1))"

text \<open>
  Closing both files, then the attributes: the result, \<^verbatim>\<open>*skip\<close>, and the state. An error while
  the source is closed leaves the target open.
\<close>

definition copy_file_end ::
    "'w xfer \<Rightarrow> guint \<Rightarrow> GnomeVFSFileInfo \<Rightarrow> GnomeVFSURI \<Rightarrow> GnomeVFSHandle \<Rightarrow> GnomeVFSHandle \<Rightarrow> GnomeVFSResult \<Rightarrow> bool
      \<Rightarrow> 'w xfer_state \<Rightarrow> GnomeVFSResult \<times> bool \<times> 'w xfer_state" where
  "copy_file_end X xfer_options info target_uri source_handle target_handle result skip s =
     (let (close_result, s1) = on_world (gnome_vfs_close (x_library X) source_handle) s
      in if result = GNOME_VFS_OK \<and> close_result \<noteq> GNOME_VFS_OK then
           (let (retry, result', skip', s2) = handle_error X close_result s1 in (result', skip', s2))
         else
           (let (close_result, s2) = on_world (gnome_vfs_close (x_library X) target_handle) s1
            in if result = GNOME_VFS_OK \<and> close_result \<noteq> GNOME_VFS_OK then
                 (let (retry, result', skip', s3) = handle_error X close_result s2 in (result', skip', s3))
               else
                 (let s3 = (if result = GNOME_VFS_OK then set_target_attributes X xfer_options target_uri info s2 else s2)
                  in (if skip then GNOME_VFS_OK else result, skip, s3))))"

text \<open>The information about the target directory may be a null pointer.\<close>

definition copy_file ::
    "'w xfer \<Rightarrow> guint \<Rightarrow> GnomeVFSFileInfo \<Rightarrow> GnomeVFSFileInfo option \<Rightarrow> GnomeVFSURI \<Rightarrow> GnomeVFSURI
      \<Rightarrow> GnomeVFSXferOverwriteMode \<Rightarrow> 'w xfer_state \<Rightarrow> (GnomeVFSResult \<times> bool \<times> GnomeVFSXferOverwriteMode \<times> 'w xfer_state) option" where
  "copy_file X xfer_options info target_dir_info source_uri target_uri mode s =
     do {
       let s0 = progress_set_source_target_uris (Some source_uri) (Some target_uri)
                  (on_info (\<lambda>i. i\<lparr>pi_phase := GNOME_VFS_XFER_PHASE_OPENSOURCE, pi_bytes_copied := 0, pi_file_size := fi_size info\<rparr>) s);
       (result1, source_handle, skip1, s1) \<leftarrow> xfer_open_source X source_uri s0;
       if skip1 then Some (GNOME_VFS_OK, skip1, mode, s1)
       else if result1 \<noteq> GNOME_VFS_OK then Some (result1, skip1, mode, s1)
       else do {
         sh \<leftarrow> source_handle;
         (result2, target_handle, skip2, mode2, s2) \<leftarrow>
           xfer_create_target X target_uri mode (set_phase GNOME_VFS_XFER_PHASE_OPENTARGET s1);
         if skip2 \<or> result2 \<noteq> GNOME_VFS_OK then
           (let s3 = snd (on_world (gnome_vfs_close (x_library X) sh) s2)
            in Some (if skip2 then GNOME_VFS_OK else result2, skip2, mode2, s3))
         else do {
           th \<leftarrow> target_handle;
           let (action, s3) = call_progress_with_uris_often X (Some source_uri) (Some target_uri) GNOME_VFS_XFER_PHASE_OPENTARGET s2;
           (result4, skip4, s4) \<leftarrow>
             (if action = GNOME_VFS_XFER_OVERWRITE_ACTION_ABORT then Some (result2, skip2, s3)
              else do {
                dir_info \<leftarrow> target_dir_info;
                copy_file_data X th sh (io_block_size_of info) (io_block_size_of dir_info) s3
              });
           let (result5, s5) =
             (if result4 = GNOME_VFS_OK then
                (let (action, s5) = call_progress_often X GNOME_VFS_XFER_PHASE_CLOSETARGET s4
                 in (if action = 0 then GNOME_VFS_ERROR_INTERRUPTED else result4, s5))
              else (result4, s4));
           let (result6, skip6, s6) = copy_file_end X xfer_options info target_uri sh th result5 skip4 s5;
           Some (result6, skip6, mode2, s6)
         }
       }
     }"

section \<open>Copying a directory\<close>

record copy_frame =
  cf_info :: GnomeVFSFileInfo
  cf_source :: GnomeVFSURI
  cf_target :: GnomeVFSURI
  cf_source_handle :: GnomeVFSDirectoryHandle
  cf_dest_handle :: "GnomeVFSDirectoryHandle option"
  cf_target_info :: "GnomeVFSFileInfo option"

text \<open>
  \<^verbatim>\<open>copy_directory\<close> up to its loop: the frame to go on with (\<open>None\<close>: return now), whether to
  enter the loop, the result, \<^verbatim>\<open>*skip\<close> and the overwrite mode. Until the target is created
  \<^verbatim>\<open>*skip\<close> is as the caller left it.
\<close>

definition copy_directory_begin ::
    "'w xfer \<Rightarrow> guint \<Rightarrow> GnomeVFSFileInfo \<Rightarrow> GnomeVFSURI \<Rightarrow> GnomeVFSURI \<Rightarrow> bool \<Rightarrow> GnomeVFSXferOverwriteMode \<Rightarrow> 'w xfer_state
      \<Rightarrow> (copy_frame option \<times> bool \<times> GnomeVFSResult \<times> bool \<times> GnomeVFSXferOverwriteMode \<times> 'w xfer_state) option" where
  "copy_directory_begin X xfer_options info source_dir_uri target_dir_uri skip mode s =
     (let L = x_library X;
          (result, source_handle, s1) = on_world2 (gnome_vfs_directory_open_from_uri L source_dir_uri GNOME_VFS_FILE_INFO_DEFAULT) s
      in if result \<noteq> GNOME_VFS_OK then Some (None, False, result, skip, mode, s1)
         else
           (let (action, s2) =
                  call_progress_with_uris_often X (Some source_dir_uri) (Some target_dir_uri) GNOME_VFS_XFER_PHASE_COPYING
                    (on_info (\<lambda>i. i\<lparr>pi_bytes_copied := 0\<rparr>) s1)
            in if action = GNOME_VFS_XFER_OVERWRITE_ACTION_ABORT then Some (None, False, GNOME_VFS_ERROR_INTERRUPTED, skip, mode, s2)
               else do {
                 sh \<leftarrow> source_handle;
                 (result3, dest_handle, skip3, mode3, s3) \<leftarrow> create_directory X target_dir_uri xfer_options mode s2;
                 if skip3 \<or> result3 \<noteq> GNOME_VFS_OK then
                   Some (None, False, if skip3 then GNOME_VFS_OK else result3, skip3, mode3,
                         snd (on_world (gnome_vfs_directory_close L sh) s3))
                 else
                   (let (result4, target_info, s4) =
                          on_world2 (gnome_vfs_get_file_info_uri L target_dir_uri gnome_vfs_file_info_new GNOME_VFS_FILE_INFO_DEFAULT) s3;
                        F = \<lparr>cf_info = info, cf_source = source_dir_uri, cf_target = target_dir_uri, cf_source_handle = sh,
                             cf_dest_handle = dest_handle,
                             cf_target_info = (if result4 = GNOME_VFS_OK then Some target_info else None)\<rparr>;
                        (action, s5) = call_progress_with_uris_often X (Some source_dir_uri) (Some target_dir_uri)
                                         GNOME_VFS_XFER_PHASE_OPENTARGET s4
                    in if action = 0 then Some (Some F, False, result4, skip3, mode3, s5)
                       else Some (Some F, True, result4, skip3, mode3,
                                  on_info (\<lambda>i. i\<lparr>pi_total_bytes_copied := pi_total_bytes_copied i + DEFAULT_SIZE_OVERHEAD,
                                                 pi_top_level_item := False\<rparr>) s5))
               }))"

definition inherit_gid :: "GnomeVFSFileInfo option \<Rightarrow> GnomeVFSFileInfo \<Rightarrow> GnomeVFSFileInfo" where
  "inherit_gid target_info info =
     (case target_info of
        None \<Rightarrow> info
      | Some t \<Rightarrow> if GNOME_VFS_FILE_INFO_SGID t then info\<lparr>gid := gid t\<rparr> else info)"

text \<open>\<^verbatim>\<open>copy_directory\<close> after its loop.\<close>

definition copy_directory_end ::
    "'w xfer \<Rightarrow> guint \<Rightarrow> copy_frame \<Rightarrow> GnomeVFSResult \<Rightarrow> 'w xfer_state \<Rightarrow> (GnomeVFSResult \<times> 'w xfer_state) option" where
  "copy_directory_end X xfer_options F result s =
     do {
       dest \<leftarrow> cf_dest_handle F;
       let s1 = snd (on_world (gnome_vfs_directory_close (x_library X) dest) s);
       let s2 = snd (on_world (gnome_vfs_directory_close (x_library X) (cf_source_handle F)) s1);
       Some (eof_is_ok result,
             if eof_is_ok result = GNOME_VFS_OK
             then set_target_attributes X xfer_options (cf_target F) (inherit_gid (cf_target_info F) (cf_info F)) s2
             else s2)
     }"

text \<open>An entry that is not a directory: the result, \<^verbatim>\<open>skip_child\<close> and the overwrite mode.\<close>

definition copy_entry ::
    "'w xfer \<Rightarrow> guint \<Rightarrow> copy_frame \<Rightarrow> GnomeVFSFileInfo \<Rightarrow> GnomeVFSURI \<Rightarrow> GnomeVFSURI \<Rightarrow> GnomeVFSXferOverwriteMode
      \<Rightarrow> 'w xfer_state \<Rightarrow> (GnomeVFSResult \<times> bool \<times> GnomeVFSXferOverwriteMode \<times> 'w xfer_state) option" where
  "copy_entry X xfer_options F info source_uri dest_uri mode s =
     (if file_type info = GNOME_VFS_FILE_TYPE_REGULAR
      then copy_file X xfer_options info (cf_target_info F) source_uri dest_uri mode s
      else if file_type info = GNOME_VFS_FILE_TYPE_SYMBOLIC_LINK then
        (if has_option xfer_options GNOME_VFS_XFER_FOLLOW_LINKS_RECURSIVE then
           (let (result, link_info, s1) =
                  on_world2 (gnome_vfs_get_file_info_uri (x_library X) source_uri gnome_vfs_file_info_new
                               GNOME_VFS_FILE_INFO_FOLLOW_LINKS) s
            in if result = GNOME_VFS_OK
               then copy_file X xfer_options link_info (cf_target_info F) source_uri dest_uri mode s1
               else Some (result, x_unset X, mode, s1))
         else do {
           link_name \<leftarrow> symlink_name info;
           copy_symlink X source_uri dest_uri link_name mode s
         })
      else Some (GNOME_VFS_OK, x_unset X, mode, s))"

text \<open>The loop over the entries, with the recursive call of \<^verbatim>\<open>copy_directory\<close> written out.\<close>

partial_function (option) copy_entries_loop ::
    "'w xfer \<Rightarrow> guint \<Rightarrow> copy_frame \<Rightarrow> bool \<times> GnomeVFSXferOverwriteMode \<Rightarrow> 'w xfer_state
      \<Rightarrow> (GnomeVFSResult \<times> bool \<times> GnomeVFSXferOverwriteMode \<times> 'w xfer_state) option" where
  "copy_entries_loop X xfer_options F sm s =
     (let (result, info0, s1) = on_world2 (gnome_vfs_directory_read_next (x_library X) (cf_source_handle F) gnome_vfs_file_info_new) s
      in if result \<noteq> GNOME_VFS_OK then Some (result, fst sm, snd sm, s1)
         else do {
           n \<leftarrow> fi_name info0;
           if is_dot_name n then copy_entries_loop X xfer_options F sm s1
           else do {
             source_uri \<leftarrow> gnome_vfs_uri_append_file_name (lib_env (x_library X)) (cf_source F) n;
             dest_uri \<leftarrow> gnome_vfs_uri_append_file_name (lib_env (x_library X)) (cf_target F) n;
             let info = inherit_gid (cf_target_info F) info0;
             let s2 = progress_set_source_target_uris (Some source_uri) (Some dest_uri) (next_file_index s1);
             (result3, skip_child, mode3, s3) \<leftarrow>
               (if file_type info = GNOME_VFS_FILE_TYPE_DIRECTORY then do {
                  (enter, looping, result4, skip4, mode4, s4) \<leftarrow>
                    copy_directory_begin X xfer_options info source_uri dest_uri (x_unset X) (snd sm) s2;
                  if enter = None then Some (result4, skip4, mode4, s4)
                  else do {
                    F' \<leftarrow> enter;
                    (result5, skip5, mode5, s5) \<leftarrow>
                      (if looping then copy_entries_loop X xfer_options F' (skip4, mode4) s4
                       else Some (result4, skip4, mode4, s4));
                    (result6, s6) \<leftarrow> copy_directory_end X xfer_options F' result5 s5;
                    Some (result6, skip5, mode5, s6)
                  }
                }
                else copy_entry X xfer_options F info source_uri dest_uri (snd sm) s2);
             if result3 = GNOME_VFS_OK then copy_entries_loop X xfer_options F (fst sm \<or> skip_child, mode3) s3
             else Some (result3, fst sm \<or> skip_child, mode3, s3)
           }
         })"

declare copy_entries_loop.simps [code]

definition copy_directory ::
    "'w xfer \<Rightarrow> guint \<Rightarrow> GnomeVFSFileInfo \<Rightarrow> GnomeVFSURI \<Rightarrow> GnomeVFSURI \<Rightarrow> bool \<Rightarrow> GnomeVFSXferOverwriteMode \<Rightarrow> 'w xfer_state
      \<Rightarrow> (GnomeVFSResult \<times> bool \<times> GnomeVFSXferOverwriteMode \<times> 'w xfer_state) option" where
  "copy_directory X xfer_options info source_dir_uri target_dir_uri skip mode s =
     do {
       (enter, looping, result, skip1, mode1, s1) \<leftarrow>
         copy_directory_begin X xfer_options info source_dir_uri target_dir_uri skip mode s;
       if enter = None then Some (result, skip1, mode1, s1)
       else do {
         F \<leftarrow> enter;
         (result2, skip2, mode2, s2) \<leftarrow>
           (if looping then copy_entries_loop X xfer_options F (skip1, mode1) s1 else Some (result, skip1, mode1, s1));
         (result3, s3) \<leftarrow> copy_directory_end X xfer_options F result2 s2;
         Some (result3, skip2, mode2, s3)
       }
     }"

lemma copy_entries_loop_unfold:
  "copy_entries_loop X xfer_options F sm s =
     (let (result, info0, s1) = on_world2 (gnome_vfs_directory_read_next (x_library X) (cf_source_handle F) gnome_vfs_file_info_new) s
      in if result \<noteq> GNOME_VFS_OK then Some (result, fst sm, snd sm, s1)
         else do {
           n \<leftarrow> fi_name info0;
           if is_dot_name n then copy_entries_loop X xfer_options F sm s1
           else do {
             source_uri \<leftarrow> gnome_vfs_uri_append_file_name (lib_env (x_library X)) (cf_source F) n;
             dest_uri \<leftarrow> gnome_vfs_uri_append_file_name (lib_env (x_library X)) (cf_target F) n;
             let info = inherit_gid (cf_target_info F) info0;
             let s2 = progress_set_source_target_uris (Some source_uri) (Some dest_uri) (next_file_index s1);
             (result3, skip_child, mode3, s3) \<leftarrow>
               (if file_type info = GNOME_VFS_FILE_TYPE_DIRECTORY
                then copy_directory X xfer_options info source_uri dest_uri (x_unset X) (snd sm) s2
                else copy_entry X xfer_options F info source_uri dest_uri (snd sm) s2);
             if result3 = GNOME_VFS_OK then copy_entries_loop X xfer_options F (fst sm \<or> skip_child, mode3) s3
             else Some (result3, fst sm \<or> skip_child, mode3, s3)
           }
         })"
  by (subst copy_entries_loop.simps) (simp only: copy_directory_def)

end
