(* ===== verification/VFS_Xfer.thy ===== *)
theory VFS_Xfer
  imports VFS_Xfer_Copy
begin

text \<open>
  Transfers (\<^verbatim>\<open>libgnomevfs/gnome-vfs-xfer.c\<close>), third part: lists of items, and the functions that
  an application or an asynchronous job calls.
\<close>

section \<open>Copying, moving and linking items\<close>

text \<open>A pair of URIs with what does not change while a name for the target is looked for.\<close>

record xfer_item =
  xi_options :: guint
  xi_source :: GnomeVFSURI
  xi_target :: GnomeVFSURI
  xi_target_dir :: GnomeVFSURI

record copy_item = xfer_item +
  xi_info :: GnomeVFSFileInfo
  xi_dir_info :: GnomeVFSFileInfo
  xi_mode :: GnomeVFSXferOverwriteMode

definition set_duplicate_name :: "string option \<Rightarrow> 'w xfer_state \<Rightarrow> 'w xfer_state" where
  "set_duplicate_name name = on_info (\<lambda>i. i\<lparr>pi_duplicate_name := name\<rparr>)"

text \<open>A name conflict: the callback is asked for a better name, and may give up.\<close>

definition ask_for_name ::
    "'w xfer \<Rightarrow> GnomeVFSURI option \<Rightarrow> GnomeVFSURI \<Rightarrow> string option \<Rightarrow> int \<Rightarrow> GnomeVFSResult \<Rightarrow> 'w xfer_state \<Rightarrow> int \<times> 'w xfer_state" where
  "ask_for_name X source_uri target_uri name count result s =
     (let (action, s1) = call_progress_uri X source_uri (Some target_uri) GNOME_VFS_XFER_PHASE_COPYING
            (on_info (\<lambda>i. i\<lparr>pi_duplicate_name := name, pi_duplicate_count := count,
                            pi_status := GNOME_VFS_XFER_PROGRESS_STATUS_DUPLICATE, pi_vfs_status := result\<rparr>) s)
      in (action, set_status GNOME_VFS_XFER_PROGRESS_STATUS_OK s1))"

text \<open>One try at one name. The overwrite mode is a copy that the next try and the next item do not see.\<close>

definition copy_item_once ::
    "'w xfer \<Rightarrow> copy_item \<Rightarrow> GnomeVFSURI \<Rightarrow> GnomeVFSResult \<Rightarrow> bool \<Rightarrow> 'w xfer_state
      \<Rightarrow> (GnomeVFSResult \<times> bool \<times> 'w xfer_state) option" where
  "copy_item_once X I target_uri result skip s =
     (let info = xi_info I;
          (action, s1) = call_progress_with_uris_often X (Some (xi_source I)) (Some target_uri) GNOME_VFS_XFER_PHASE_COPYING
            (on_info (\<lambda>i. i\<lparr>pi_status := GNOME_VFS_XFER_PROGRESS_STATUS_OK, pi_file_size := fi_size info, pi_bytes_copied := 0,
                            pi_top_level_item := True\<rparr>) s);
          result1 = (if action = 0 then GNOME_VFS_ERROR_INTERRUPTED else result);
          mode = (if has_option (xi_options I) GNOME_VFS_XFER_USE_UNIQUE_NAMES then GNOME_VFS_XFER_OVERWRITE_MODE_ABORT else xi_mode I)
      in do {
        (result2, skip2, mode2, s2) \<leftarrow>
          (if file_type info = GNOME_VFS_FILE_TYPE_REGULAR
           then copy_file X (xi_options I) info (Some (xi_dir_info I)) (xi_source I) target_uri mode s1
           else if file_type info = GNOME_VFS_FILE_TYPE_DIRECTORY
           then copy_directory X (xi_options I) info (xi_source I) target_uri skip mode s1
           else if file_type info = GNOME_VFS_FILE_TYPE_SYMBOLIC_LINK
           then do { link_name \<leftarrow> symlink_name info; copy_symlink X (xi_source I) target_uri link_name mode s1 }
           else Some (result1, skip, mode, s1));
        Some (result2, skip2, s2)
      })"

partial_function (option) copy_item_loop ::
    "'w xfer \<Rightarrow> copy_item \<Rightarrow> int \<times> GnomeVFSResult \<times> bool \<Rightarrow> 'w xfer_state \<Rightarrow> (GnomeVFSResult \<times> bool \<times> 'w xfer_state) option" where
  "copy_item_loop X I crs s =
     do {
       name \<leftarrow> pi_duplicate_name (info_of s);
       target_uri \<leftarrow> gnome_vfs_uri_append_string (lib_env (x_library X)) (xi_target_dir I) name;
       (result, skip, s1) \<leftarrow> copy_item_once X I target_uri (fst (snd crs)) (snd (snd crs)) s;
       if result \<noteq> GNOME_VFS_ERROR_FILE_EXISTS \<or> \<not> has_option (xi_options I) GNOME_VFS_XFER_USE_UNIQUE_NAMES
       then Some (result, skip, s1)
       else
         (let (action, s2) = ask_for_name X (Some (xi_source I)) target_uri
                (gnome_vfs_uri_extract_short_path_name (xi_target I)) (fst crs) result s1
          in if action = GNOME_VFS_XFER_OVERWRITE_ACTION_ABORT \<or> skip then Some (result, skip, s2)
             else copy_item_loop X I (fst crs + 1, result, skip) s2)
     }"

declare copy_item_loop.simps [code]

text \<open>
  The copied sources are put in front of a list. Lists of different lengths are an assertion
  of the code.
\<close>

fun copy_items ::
    "'w xfer \<Rightarrow> guint \<Rightarrow> GnomeVFSXferOverwriteMode \<Rightarrow> GnomeVFSURI list \<Rightarrow> GnomeVFSURI list \<Rightarrow> GnomeVFSURI list \<Rightarrow> 'w xfer_state
      \<Rightarrow> (GnomeVFSResult \<times> GnomeVFSURI list \<times> 'w xfer_state) option" where
  "copy_items X xfer_options mode [] targets copied s = Some (GNOME_VFS_OK, copied, s)"
| "copy_items X xfer_options mode (source # sources) [] copied s = None"
| "copy_items X xfer_options mode (source # sources) (target # targets) copied s =
     (let L = x_library X;
          (result, info, s1) =
            on_world2 (gnome_vfs_get_file_info_uri L source gnome_vfs_file_info_new GNOME_VFS_FILE_INFO_DEFAULT) (next_file_index s);
          s2 = set_duplicate_name (gnome_vfs_uri_extract_short_path_name target) s1
      in if result \<noteq> GNOME_VFS_OK then Some (result, copied, s2)
         else do {
           target_dir \<leftarrow> gnome_vfs_uri_get_parent target;
           let (found, dir_info, s3) =
             on_world2 (gnome_vfs_get_file_info_uri L target_dir gnome_vfs_file_info_new GNOME_VFS_FILE_INFO_DEFAULT) s2;
           (result2, skip, s4) \<leftarrow>
             copy_item_loop X
               \<lparr>xi_options = xfer_options, xi_source = source, xi_target = target, xi_target_dir = target_dir,
                xi_info = (if found = GNOME_VFS_OK then inherit_gid (Some dir_info) info else info),
                xi_dir_info = dir_info, xi_mode = mode\<rparr> (1, GNOME_VFS_OK, False) s3;
           let copied' = (if result2 = GNOME_VFS_OK \<and> \<not> skip then source # copied else copied);
           if result2 \<noteq> GNOME_VFS_OK then Some (result2, copied', s4)
           else if (sources = []) \<noteq> (targets = []) then None
           else copy_items X xfer_options mode sources targets copied' s4
         })"

partial_function (option) move_item_loop ::
    "'w xfer \<Rightarrow> xfer_item \<Rightarrow> int \<Rightarrow> 'w xfer_state \<Rightarrow> (GnomeVFSResult \<times> bool \<times> 'w xfer_state) option" where
  "move_item_loop X I conflict_count s =
     do {
       name \<leftarrow> pi_duplicate_name (info_of s);
       target_uri \<leftarrow> gnome_vfs_uri_append_string (lib_env (x_library X)) (xi_target_dir I) name;
       let s1 = on_info (\<lambda>i. i\<lparr>pi_file_size := 0, pi_bytes_copied := 0, pi_top_level_item := True\<rparr>)
                  (progress_set_source_target_uris (Some (xi_source I)) (Some target_uri) s);
       (result, w) \<leftarrow> gnome_vfs_move_uri (x_library X) (xi_source I) target_uri
                       (\<not> has_option (xi_options I) GNOME_VFS_XFER_USE_UNIQUE_NAMES) (xs_world s1);
       let s2 = s1\<lparr>xs_world := w\<rparr>;
       if result = GNOME_VFS_ERROR_FILE_EXISTS then
         (let (action, s3) = ask_for_name X (Some (xi_source I)) target_uri
                (gnome_vfs_uri_extract_short_path_name (xi_target I)) conflict_count result s2
          in if action = GNOME_VFS_XFER_OVERWRITE_ACTION_ABORT then Some (result, False, s3)
             else move_item_loop X I (conflict_count + 1) s3)
       else
         (let (retry, result', skip, s3) = (if result \<noteq> GNOME_VFS_OK then handle_error X result s2 else (False, result, False, s2));
              (stop, s4) =
                (if result' = GNOME_VFS_OK \<and> \<not> skip then
                   (let (action, s4) = call_progress_with_uris_often X (Some (xi_source I)) (Some target_uri) GNOME_VFS_XFER_PHASE_MOVING s3
                    in (action = 0, s4))
                 else (False, s3))
          in if stop then Some (GNOME_VFS_ERROR_INTERRUPTED, skip, s4)
             else if retry then move_item_loop X I conflict_count s4
             else Some (result', skip, s4))
     }"

declare move_item_loop.simps [code]

fun move_items ::
    "'w xfer \<Rightarrow> guint \<Rightarrow> GnomeVFSURI list \<Rightarrow> GnomeVFSURI list \<Rightarrow> 'w xfer_state \<Rightarrow> (GnomeVFSResult \<times> 'w xfer_state) option" where
  "move_items X xfer_options [] targets s = Some (GNOME_VFS_OK, s)"
| "move_items X xfer_options (source # sources) [] s = None"
| "move_items X xfer_options (source # sources) (target # targets) s =
     do {
       target_dir \<leftarrow> gnome_vfs_uri_get_parent target;
       (result, skip, s1) \<leftarrow>
         move_item_loop X \<lparr>xi_options = xfer_options, xi_source = source, xi_target = target, xi_target_dir = target_dir\<rparr> 1
           (set_duplicate_name (gnome_vfs_uri_extract_short_path_name target) (next_file_index s));
       if result \<noteq> GNOME_VFS_OK \<and> \<not> skip then Some (result, s1)
       else if (sources = []) \<noteq> (targets = []) then None
       else if sources = [] then Some (result, s1)
       else move_items X xfer_options sources targets s1
     }"

text \<open>The text of the source URI is what the link refers to.\<close>

partial_function (option) link_item_loop ::
    "'w xfer \<Rightarrow> xfer_item \<Rightarrow> int \<Rightarrow> 'w xfer_state \<Rightarrow> (GnomeVFSResult \<times> bool \<times> 'w xfer_state) option" where
  "link_item_loop X I conflict_count s =
     do {
       name \<leftarrow> pi_duplicate_name (info_of s);
       target_uri \<leftarrow> gnome_vfs_uri_append_string (lib_env (x_library X)) (xi_target_dir I) name;
       let s1 = progress_set_source_target_uris (Some (xi_source I)) (Some target_uri)
                  (on_info (\<lambda>i. i\<lparr>pi_file_size := 0, pi_bytes_copied := 0, pi_top_level_item := True\<rparr>) s);
       let (result, s2) = on_world (gnome_vfs_create_symbolic_link (x_library X) target_uri
                            (gnome_vfs_uri_to_string (xi_source I) GNOME_VFS_URI_HIDE_NONE)) s1;
       if result = GNOME_VFS_ERROR_FILE_EXISTS then
         (let (action, s3) = ask_for_name X (Some (xi_source I)) target_uri
                (gnome_vfs_uri_extract_short_path_name (xi_target I)) conflict_count result s2
          in if action = GNOME_VFS_XFER_OVERWRITE_ACTION_ABORT then Some (result, False, s3)
             else link_item_loop X I (conflict_count + 1) s3)
       else
         (let (retry, result', skip, s3) = (if result \<noteq> GNOME_VFS_OK then handle_error X result s2 else (False, result, False, s2));
              (stop, s4) =
                (if result' = GNOME_VFS_OK then
                   (let (action, s4) = call_progress_with_uris_often X (Some (xi_source I)) (Some target_uri) GNOME_VFS_XFER_PHASE_OPENTARGET s3
                    in (action = 0, s4))
                 else (False, s3))
          in if stop then Some (GNOME_VFS_ERROR_INTERRUPTED, skip, s4)
             else if retry then link_item_loop X I conflict_count s4
             else Some (result', skip, s4))
     }"

declare link_item_loop.simps [code]

fun link_items ::
    "'w xfer \<Rightarrow> guint \<Rightarrow> GnomeVFSURI list \<Rightarrow> GnomeVFSURI list \<Rightarrow> 'w xfer_state \<Rightarrow> (GnomeVFSResult \<times> 'w xfer_state) option" where
  "link_items X xfer_options [] targets s = Some (GNOME_VFS_OK, s)"
| "link_items X xfer_options (source # sources) [] s = None"
| "link_items X xfer_options (source # sources) (target # targets) s =
     do {
       target_dir \<leftarrow> gnome_vfs_uri_get_parent target;
       (result, skip, s1) \<leftarrow>
         link_item_loop X \<lparr>xi_options = xfer_options, xi_source = source, xi_target = target, xi_target_dir = target_dir\<rparr> 1
           (set_duplicate_name (gnome_vfs_uri_extract_short_path_name target) (next_file_index s));
       if result \<noteq> GNOME_VFS_OK \<and> \<not> skip then Some (result, s1)
       else if (sources = []) \<noteq> (targets = []) then None
       else if sources = [] then Some (result, s1)
       else link_items X xfer_options sources targets s1
     }"

section \<open>Deleting items\<close>

definition delete_options :: guint where
  "delete_options = GNOME_VFS_XFER_REMOVESOURCE OR GNOME_VFS_XFER_RECURSIVE"

fun count_trash :: "'w xfer \<Rightarrow> GnomeVFSURI list \<Rightarrow> GnomeVFSResult \<Rightarrow> 'w xfer_state \<Rightarrow> (GnomeVFSResult \<times> 'w xfer_state) option" where
  "count_trash X [] result s = Some (result, s)"
| "count_trash X (uri # uris) result s =
     do {
       (result1, s1) \<leftarrow> directory_add_items_and_size X uri delete_options s;
       if result1 = GNOME_VFS_ERROR_TOO_MANY_OPEN_FILES then Some (GNOME_VFS_OK, s1)
       else count_trash X uris result1
              (on_info (\<lambda>i. i\<lparr>pi_bytes_total := pi_files_total i * DEFAULT_SIZE_OVERHEAD\<rparr>) s1)
     }"

fun empty_trash :: "'w xfer \<Rightarrow> GnomeVFSURI list \<Rightarrow> GnomeVFSResult \<Rightarrow> 'w xfer_state \<Rightarrow> (GnomeVFSResult \<times> 'w xfer_state) option" where
  "empty_trash X [] result s = Some (result, s)"
| "empty_trash X (uri # uris) result s =
     do {
       (result1, skip, s1) \<leftarrow> empty_directory X uri s;
       (result2, skip2, s2) \<leftarrow>
         (if result1 = GNOME_VFS_ERROR_TOO_MANY_OPEN_FILES then non_recursive_empty_directory X uri skip s1
          else Some (result1, skip, s1));
       empty_trash X uris result2 s2
     }"

definition gnome_vfs_xfer_empty_directories ::
    "'w xfer \<Rightarrow> GnomeVFSURI list \<Rightarrow> 'w xfer_state \<Rightarrow> (GnomeVFSResult \<times> 'w xfer_state) option" where
  "gnome_vfs_xfer_empty_directories X trash_dir_uris s =
     do {
       (result, s1) \<leftarrow> count_trash X trash_dir_uris GNOME_VFS_OK
         (on_info (\<lambda>i. i\<lparr>pi_files_total := 0, pi_bytes_total := 0, pi_phase := GNOME_VFS_XFER_PHASE_COLLECTING\<rparr>) s);
       empty_trash X trash_dir_uris result (snd (call_progress X GNOME_VFS_XFER_PHASE_READYTOGO s1))
     }"

text \<open>Items that cannot be deleted do not stop the loop, items that cannot be queried do.\<close>

fun delete_items_loop ::
    "'w xfer \<Rightarrow> GnomeVFSURI list \<Rightarrow> GnomeVFSResult \<Rightarrow> 'w xfer_state \<Rightarrow> (GnomeVFSResult \<times> 'w xfer_state) option" where
  "delete_items_loop X [] result s = Some (result, s)"
| "delete_items_loop X (uri # uris) result s =
     (let (found, info, s1) =
            on_world2 (gnome_vfs_get_file_info_uri (x_library X) uri gnome_vfs_file_info_new GNOME_VFS_FILE_INFO_DEFAULT) s
      in if found \<noteq> GNOME_VFS_OK then Some (found, s1)
         else do {
           let s2 = progress_set_source_target_uris (Some uri) None s1;
           (result3, skip, s3) \<leftarrow>
             (if file_type info = GNOME_VFS_FILE_TYPE_DIRECTORY then remove_directory X uri True False s2
              else remove_file X uri False s2);
           delete_items_loop X uris result3 s3
         })"

definition gnome_vfs_xfer_delete_items_common ::
    "'w xfer \<Rightarrow> GnomeVFSURI list \<Rightarrow> 'w xfer_state \<Rightarrow> (GnomeVFSResult \<times> 'w xfer_state) option" where
  "gnome_vfs_xfer_delete_items_common X source_uri_list s = delete_items_loop X source_uri_list GNOME_VFS_OK s"

definition gnome_vfs_xfer_delete_items ::
    "'w xfer \<Rightarrow> GnomeVFSURI list \<Rightarrow> 'w xfer_state \<Rightarrow> (GnomeVFSResult \<times> 'w xfer_state) option" where
  "gnome_vfs_xfer_delete_items X source_uri_list s =
     do {
       (result, s1) \<leftarrow> count_items_and_size X source_uri_list delete_options False False
         (snd (call_progress X GNOME_VFS_XFER_PHASE_COLLECTING
            (on_info (\<lambda>i. i\<lparr>pi_files_total := 0, pi_bytes_total := 0\<rparr>) s)));
       let s2 = on_info (\<lambda>i. i\<lparr>pi_bytes_total := pi_files_total i * DEFAULT_SIZE_OVERHEAD, pi_top_level_item := True\<rparr>) s1;
       if result \<noteq> GNOME_VFS_ERROR_INTERRUPTED
       then gnome_vfs_xfer_delete_items_common X source_uri_list (snd (call_progress X GNOME_VFS_XFER_PHASE_READYTOGO s2))
       else Some (result, s2)
     }"

section \<open>A new directory\<close>

partial_function (option) new_directory_loop ::
    "'w xfer \<Rightarrow> GnomeVFSURI \<times> string \<Rightarrow> int \<Rightarrow> GnomeVFSXferOverwriteMode \<Rightarrow> 'w xfer_state
      \<Rightarrow> (GnomeVFSResult \<times> GnomeVFSURI \<times> GnomeVFSDirectoryHandle option \<times> 'w xfer_state) option" where
  "new_directory_loop X dn conflict_count mode s =
     do {
       name \<leftarrow> pi_duplicate_name (info_of s);
       target_uri \<leftarrow> gnome_vfs_uri_append_string (lib_env (x_library X)) (fst dn) name;
       (result, handle, skip, mode', s1) \<leftarrow> create_directory X target_uri GNOME_VFS_XFER_USE_UNIQUE_NAMES mode s;
       if result \<noteq> GNOME_VFS_ERROR_FILE_EXISTS \<and> result \<noteq> GNOME_VFS_ERROR_NAME_TOO_LONG
       then Some (result, target_uri, handle, s1)
       else
         (let (action, s2) = ask_for_name X None target_uri (Some (snd dn)) conflict_count result s1
          in if action = GNOME_VFS_XFER_OVERWRITE_ACTION_ABORT then Some (result, target_uri, handle, s2)
             else new_directory_loop X dn (conflict_count + 1) mode' s2)
     }"

declare new_directory_loop.simps [code]

definition gnome_vfs_new_directory_with_unique_name ::
    "'w xfer \<Rightarrow> GnomeVFSURI \<Rightarrow> string \<Rightarrow> GnomeVFSXferOverwriteMode \<Rightarrow> 'w xfer_state \<Rightarrow> (GnomeVFSResult \<times> 'w xfer_state) option" where
  "gnome_vfs_new_directory_with_unique_name X target_dir_uri name mode s =
     do {
       (result, target_uri, handle, s1) \<leftarrow> new_directory_loop X (target_dir_uri, name) 1 mode
         (on_info (\<lambda>i. i\<lparr>pi_top_level_item := True, pi_duplicate_name := Some name\<rparr>) s);
       let s2 = snd (call_progress_uri X None (Some target_uri) GNOME_VFS_XFER_PHASE_OPENTARGET
                       (on_info (\<lambda>i. i\<lparr>pi_vfs_status := result\<rparr>) s1));
       Some (result, case handle of None \<Rightarrow> s2 | Some h \<Rightarrow> snd (on_world (gnome_vfs_directory_close (x_library X) h) s2))
     }"

section \<open>Transfers\<close>

text \<open>A null URI (the target has no parent) is refused by the query.\<close>

definition gnome_vfs_destination_is_writable ::
    "'w xfer \<Rightarrow> GnomeVFSURI option \<Rightarrow> 'w xfer_state \<Rightarrow> GnomeVFSResult \<times> 'w xfer_state" where
  "gnome_vfs_destination_is_writable X uri s =
     (let (result, info, s1) =
            (case uri of
               None \<Rightarrow> (GNOME_VFS_ERROR_BAD_PARAMETERS, gnome_vfs_file_info_new, s)
             | Some u \<Rightarrow> on_world2 (gnome_vfs_get_file_info_uri (x_library X) u gnome_vfs_file_info_new
                                     GNOME_VFS_FILE_INFO_GET_ACCESS_RIGHTS) s)
      in if result \<noteq> GNOME_VFS_OK then (result, s1)
         else if (valid_fields info AND GNOME_VFS_FILE_INFO_FIELDS_ACCESS) \<noteq> 0
                 \<and> \<not> ((permissions info AND GNOME_VFS_PERM_ACCESS_WRITABLE) \<noteq> 0
                      \<and> (permissions info AND GNOME_VFS_PERM_ACCESS_EXECUTABLE) \<noteq> 0)
         then (GNOME_VFS_ERROR_ACCESS_DENIED, s1)
         else (GNOME_VFS_OK, s1))"

text \<open>Whether every source is on the file system of the target directory.\<close>

fun same_fs_loop ::
    "'w xfer \<Rightarrow> GnomeVFSURI \<Rightarrow> GnomeVFSURI list \<Rightarrow> bool \<Rightarrow> 'w xfer_state \<Rightarrow> (GnomeVFSResult \<times> bool \<times> 'w xfer_state) option" where
  "same_fs_loop X target_dir_uri [] move s = Some (GNOME_VFS_OK, move, s)"
| "same_fs_loop X target_dir_uri (source # sources) move s =
     (let (result, same_fs, s1) = on_world2 (gnome_vfs_check_same_fs_uris (x_library X) source target_dir_uri) s
      in if result \<noteq> GNOME_VFS_OK then Some (result, move, s1)
         else do { b \<leftarrow> same_fs; same_fs_loop X target_dir_uri sources (move \<and> b) s1 })"

text \<open>Only an interruption counts here: other errors show again during the transfer.\<close>

definition only_interruptions :: "GnomeVFSResult \<Rightarrow> GnomeVFSResult" where
  "only_interruptions result = (if result \<noteq> GNOME_VFS_ERROR_INTERRUPTED then GNOME_VFS_OK else result)"

text \<open>The free space is compared only where it is known; the result of the comparison is \<open>NO_SPACE\<close> or OK.\<close>

definition check_free_space ::
    "'w xfer \<Rightarrow> GnomeVFSURI \<Rightarrow> bool \<Rightarrow> 'w xfer_state \<Rightarrow> (GnomeVFSResult \<times> 'w xfer_state) option" where
  "check_free_space X uri needed s =
     do {
       target_dir_uri \<leftarrow> gnome_vfs_uri_get_parent uri;
       let (result, free_bytes, s1) = on_world2 (gnome_vfs_get_volume_free_space (x_library X) target_dir_uri) s;
       if result \<noteq> GNOME_VFS_OK then Some (GNOME_VFS_OK, s1)
       else do {
         n \<leftarrow> free_bytes;
         if needed \<and> n < pi_bytes_total (info_of s1)
         then Some (GNOME_VFS_ERROR_NO_SPACE, progress_set_source_target_uris None (Some target_dir_uri) s1)
         else Some (GNOME_VFS_OK, s1)
       }
     }"

text \<open>
  Moves that became copies: their size without what is below them is taken off, by counting
  it and negating the counters, and their whole size is added.
\<close>

definition recount_merged ::
    "'w xfer \<Rightarrow> guint \<Rightarrow> xfer_lists \<Rightarrow> 'w xfer_state \<Rightarrow> (GnomeVFSResult \<times> 'w xfer_state) option" where
  "recount_merged X xfer_options l s =
     do {
       (result, s1) \<leftarrow> list_add_items_and_size X (xl_merge_sources l) xfer_options False s;
       let s2 = on_info (\<lambda>i. i\<lparr>pi_bytes_total := - pi_bytes_total i, pi_files_total := - pi_files_total i\<rparr>) s1;
       if only_interruptions result \<noteq> GNOME_VFS_OK then Some (only_interruptions result, s2)
       else do {
         (result3, s3) \<leftarrow> list_add_items_and_size X (xl_merge_sources l) xfer_options True s2;
         if only_interruptions result3 \<noteq> GNOME_VFS_OK then Some (only_interruptions result3, s3)
         else case xl_merge_targets l of [] \<Rightarrow> None | target # targets \<Rightarrow> check_free_space X target True s3
       }
     }"

definition prepare_lists ::
    "'w xfer \<Rightarrow> guint \<Rightarrow> bool \<Rightarrow> bool \<Rightarrow> GnomeVFSURI list \<Rightarrow> GnomeVFSURI list \<Rightarrow> GnomeVFSXferOverwriteMode \<Rightarrow> 'w xfer_state
      \<Rightarrow> (GnomeVFSResult \<times> xfer_lists \<times> GnomeVFSXferOverwriteMode \<times> 'w xfer_state) option" where
  "prepare_lists X xfer_options move link sources targets mode s =
     (if has_option xfer_options GNOME_VFS_XFER_USE_UNIQUE_NAMES
      then Some (GNOME_VFS_OK, \<lparr>xl_sources = sources, xl_targets = targets, xl_merge_sources = [], xl_merge_targets = []\<rparr>, mode, s)
      else do {
        let bytes_total = pi_bytes_total (info_of s);
        let files_total = pi_files_total (info_of s);
        let no_totals = on_info (\<lambda>i. i\<lparr>pi_bytes_total := 0, pi_files_total := 0\<rparr>);
        (result, l, mode', s1) \<leftarrow> handle_name_conflicts X xfer_options move link sources targets mode (no_totals s);
        (result2, s2) \<leftarrow>
          (if result = GNOME_VFS_OK \<and> move \<and> xl_merge_sources l \<noteq> [] then recount_merged X xfer_options l (no_totals s1)
           else Some (result, no_totals s1));
        Some (result2, l, mode',
              on_info (\<lambda>i. i\<lparr>pi_bytes_total := pi_bytes_total i + bytes_total, pi_files_total := pi_files_total i + files_total\<rparr>) s2)
      })"

text \<open>The transfer proper, and the deletion of the sources that were copied.\<close>

definition transfer_lists ::
    "'w xfer \<Rightarrow> guint \<Rightarrow> bool \<Rightarrow> bool \<Rightarrow> xfer_lists \<Rightarrow> GnomeVFSXferOverwriteMode \<Rightarrow> 'w xfer_state \<Rightarrow> (GnomeVFSResult \<times> 'w xfer_state) option" where
  "transfer_lists X xfer_options move link l mode s =
     do {
       let s0 = snd (call_progress X GNOME_VFS_XFER_PHASE_READYTOGO s);
       (result, copied, s1) \<leftarrow>
         (if move then do {
            (result1, s1) \<leftarrow> move_items X xfer_options (xl_sources l) (xl_targets l) s0;
            if result1 = GNOME_VFS_OK \<and> xl_merge_sources l \<noteq> []
            then copy_items X xfer_options mode (xl_merge_sources l) (xl_merge_targets l) [] s1
            else Some (result1, [], s1)
          }
          else if link then do {
            (result1, s1) \<leftarrow> link_items X xfer_options (xl_sources l) (xl_targets l) s0;
            Some (result1, [], s1)
          }
          else copy_items X xfer_options mode (xl_sources l) (xl_targets l) [] s0);
       if result = GNOME_VFS_OK \<and> has_option xfer_options GNOME_VFS_XFER_REMOVESOURCE \<and> \<not> link
       then gnome_vfs_xfer_delete_items_common X copied (snd (call_progress X GNOME_VFS_XFER_PHASE_CLEANUP s1))
       else Some (result, s1)
     }"

text \<open>From the point where it is known whether items are moved or copied.\<close>

definition transfer_counted ::
    "'w xfer \<Rightarrow> guint \<Rightarrow> bool \<Rightarrow> bool \<Rightarrow> GnomeVFSURI list \<Rightarrow> GnomeVFSURI list \<Rightarrow> GnomeVFSXferOverwriteMode \<Rightarrow> 'w xfer_state
      \<Rightarrow> (GnomeVFSResult \<times> 'w xfer_state) option" where
  "transfer_counted X xfer_options move link sources targets mode s =
     do {
       target \<leftarrow> (case targets of [] \<Rightarrow> None | t # ts \<Rightarrow> Some t);
       (result, s1) \<leftarrow> check_free_space X target (\<not> move \<and> \<not> link) s;
       let (result1, s2) =
         (if result \<noteq> GNOME_VFS_OK then (let (retry, result', skip, s2) = handle_error X result s1 in (result', s2)) else (result, s1));
       if result1 \<noteq> GNOME_VFS_OK then Some (result1, s2)
       else do {
         (result3, l, mode', s3) \<leftarrow> prepare_lists X xfer_options move link sources targets mode s2;
         let s4 = on_info (\<lambda>i. i\<lparr>pi_file_index := 0, pi_total_bytes_copied := 0\<rparr>) s3;
         if result3 \<noteq> GNOME_VFS_OK then
           (let (handled, result5, skip, s5) = handle_error X result3 s4
            in Some (if handled then GNOME_VFS_OK else result5, s5))
         else transfer_lists X xfer_options move link l mode' s4
       }
     }"

definition gnome_vfs_xfer_uri_internal ::
    "'w xfer \<Rightarrow> GnomeVFSURI list \<Rightarrow> GnomeVFSURI list \<Rightarrow> guint \<Rightarrow> GnomeVFSXferOverwriteMode \<Rightarrow> 'w xfer_state
      \<Rightarrow> (GnomeVFSResult \<times> 'w xfer_state) option" where
  "gnome_vfs_xfer_uri_internal X sources targets xfer_options mode s =
     do {
       let s0 = snd (call_progress X GNOME_VFS_XFER_CHECKING_DESTINATION s);
       first_target \<leftarrow> (case targets of [] \<Rightarrow> None | t # ts \<Rightarrow> Some t);
       let parent = gnome_vfs_uri_get_parent first_target;
       let (result, s1) = gnome_vfs_destination_is_writable X parent s0;
       let s2 = progress_set_source_target_uris None parent s1;
       if result \<noteq> GNOME_VFS_OK then (let (retry, result', skip, s3) = handle_error X result s2 in Some (result', s3))
       else do {
         let removesource = has_option xfer_options GNOME_VFS_XFER_REMOVESOURCE;
         let link = has_option xfer_options GNOME_VFS_XFER_LINK_ITEMS;
         if removesource \<and> link then Some (GNOME_VFS_ERROR_BAD_PARAMETERS, s2)
         else do {
           target_dir_uri \<leftarrow> parent;
           (result3, move, s3) \<leftarrow>
             (if has_option xfer_options GNOME_VFS_XFER_USE_UNIQUE_NAMES then Some (GNOME_VFS_OK, removesource, s2)
              else same_fs_loop X target_dir_uri sources removesource s2);
           if result3 \<noteq> GNOME_VFS_OK then Some (result3, s3)
           else do {
             (result4, s4) \<leftarrow>
               count_items_and_size X sources xfer_options move link (snd (call_progress X GNOME_VFS_XFER_PHASE_COLLECTING s3));
             if only_interruptions result4 \<noteq> GNOME_VFS_OK then Some (only_interruptions result4, s4)
             else transfer_counted X xfer_options move link sources targets mode s4
           }
         }
       }
     }"

section \<open>Entry points\<close>

definition xfer_start :: "'w \<Rightarrow> 'w xfer_state" where
  "xfer_start w = \<lparr>xs_progress = init_progress, xs_world = w\<rparr>"

text \<open>The asynchronous job's entry point reports success whatever happened.\<close>

definition gnome_vfs_xfer_private ::
    "'w xfer \<Rightarrow> GnomeVFSURI list \<Rightarrow> GnomeVFSURI list \<Rightarrow> guint \<Rightarrow> GnomeVFSXferOverwriteMode \<Rightarrow> 'w \<Rightarrow> (GnomeVFSResult \<times> 'w) option" where
  "gnome_vfs_xfer_private X sources targets xfer_options mode w =
     do {
       let s = xfer_start w;
       let s0 = snd (call_progress X GNOME_VFS_XFER_PHASE_INITIAL s);
       (result, s1) \<leftarrow>
         (if has_option xfer_options GNOME_VFS_XFER_EMPTY_DIRECTORIES then
            (if sources = [] \<or> targets \<noteq> [] then None else gnome_vfs_xfer_empty_directories X sources s0)
          else if has_option xfer_options GNOME_VFS_XFER_DELETE_ITEMS then
            (if sources = [] \<or> targets \<noteq> [] then None else gnome_vfs_xfer_delete_items X sources s0)
          else if has_option xfer_options GNOME_VFS_XFER_NEW_UNIQUE_DIRECTORY then
            (case targets of
               [target] \<Rightarrow>
                 if sources \<noteq> [] then None
                 else (case gnome_vfs_uri_get_parent target of
                         None \<Rightarrow> Some (GNOME_VFS_ERROR_INVALID_URI, s)
                       | Some target_dir_uri \<Rightarrow> do {
                           short_name \<leftarrow> gnome_vfs_uri_extract_short_path_name target;
                           gnome_vfs_new_directory_with_unique_name X target_dir_uri short_name mode s
                         })
             | _ \<Rightarrow> None)
          else
            (if sources = [] \<or> targets = [] \<or> length sources \<noteq> length targets then None
             else gnome_vfs_xfer_uri_internal X sources targets xfer_options mode s0));
       Some (GNOME_VFS_OK, xs_world (snd (call_progress X GNOME_VFS_XFER_PHASE_COMPLETED s1)))
     }"

text \<open>The callback of the synchronous functions; \<open>None\<close> is allowed unless errors are to be asked about.\<close>

definition sync_xfer :: "'w xfer \<Rightarrow> 'w progress_callback option \<Rightarrow> GnomeVFSXferErrorMode \<Rightarrow> 'w xfer" where
  "sync_xfer X callback error_mode =
     X\<lparr>x_sync_callback := callback, x_update_callback := None, x_error_mode := error_mode\<rparr>"

definition gnome_vfs_xfer_uri_list ::
    "'w xfer \<Rightarrow> GnomeVFSURI list \<Rightarrow> GnomeVFSURI list \<Rightarrow> guint \<Rightarrow> GnomeVFSXferErrorMode \<Rightarrow> GnomeVFSXferOverwriteMode
      \<Rightarrow> 'w progress_callback option \<Rightarrow> 'w \<Rightarrow> (GnomeVFSResult \<times> 'w) option" where
  "gnome_vfs_xfer_uri_list X sources targets xfer_options error_mode mode callback w =
     (if sources = [] \<or> targets = [] \<or> Option.is_none callback \<and> error_mode = GNOME_VFS_XFER_ERROR_MODE_QUERY
      then Some (GNOME_VFS_ERROR_BAD_PARAMETERS, w)
      else do {
        let Y = sync_xfer X callback error_mode;
        (result, s) \<leftarrow> gnome_vfs_xfer_uri_internal Y sources targets xfer_options mode
          (snd (call_progress Y GNOME_VFS_XFER_PHASE_INITIAL (xfer_start w)));
        Some (result, xs_world (snd (call_progress Y GNOME_VFS_XFER_PHASE_COMPLETED s)))
      })"

definition gnome_vfs_xfer_uri ::
    "'w xfer \<Rightarrow> GnomeVFSURI \<Rightarrow> GnomeVFSURI \<Rightarrow> guint \<Rightarrow> GnomeVFSXferErrorMode \<Rightarrow> GnomeVFSXferOverwriteMode
      \<Rightarrow> 'w progress_callback option \<Rightarrow> 'w \<Rightarrow> (GnomeVFSResult \<times> 'w) option" where
  "gnome_vfs_xfer_uri X source_uri target_uri xfer_options error_mode mode callback w =
     (if Option.is_none callback \<and> error_mode = GNOME_VFS_XFER_ERROR_MODE_QUERY then Some (GNOME_VFS_ERROR_BAD_PARAMETERS, w)
      else gnome_vfs_xfer_uri_list X [source_uri] [target_uri] xfer_options error_mode mode callback w)"

definition gnome_vfs_xfer_delete_list ::
    "'w xfer \<Rightarrow> GnomeVFSURI list \<Rightarrow> GnomeVFSXferErrorMode \<Rightarrow> 'w progress_callback option \<Rightarrow> 'w \<Rightarrow> (GnomeVFSResult \<times> 'w) option" where
  "gnome_vfs_xfer_delete_list X sources error_mode callback w =
     (if sources = [] \<or> Option.is_none callback \<and> error_mode = GNOME_VFS_XFER_ERROR_MODE_QUERY
      then Some (GNOME_VFS_ERROR_BAD_PARAMETERS, w)
      else do {
        let Y = sync_xfer X callback error_mode;
        (result, s) \<leftarrow> gnome_vfs_xfer_delete_items Y sources (snd (call_progress Y GNOME_VFS_XFER_PHASE_INITIAL (xfer_start w)));
        Some (result, xs_world (snd (call_progress Y GNOME_VFS_XFER_PHASE_COMPLETED s)))
      })"

end
