(* ===== verification/VFS_Xfer_Laws.thy ===== *)
theory VFS_Xfer_Laws
  imports VFS_Xfer
begin

text \<open>
  What progress reports leave alone, and the contract of a copy: when the two handles are
  streams of bytes, a copy that reports success has moved every byte of one to the other.
\<close>

section \<open>Reports\<close>

lemma xs_world_simps [simp]:
  "xs_world (on_info g s) = xs_world s"
  "xs_world (set_phase p s) = xs_world s"
  "xs_world (set_status v s) = xs_world s"
  "xs_world (progress_set_source_target_uris a b s) = xs_world s"
  "xs_world (progress_set_source_target c d s) = xs_world s"
  "xs_world (set_next_update t s) = xs_world s"
  "xs_world (set_next_text_update t s) = xs_world s"
  "xs_world (add_total_copied n s) = xs_world s"
  "xs_world (next_file_index s) = xs_world s"
  "xs_world (set_duplicate_name m s) = xs_world s"
  "xs_world (visit_state pr w) = w"
  by (simp_all add: on_info_def set_phase_def set_status_def progress_set_source_target_uris_def
      progress_set_source_target_def set_next_update_def set_next_text_update_def add_total_copied_def
      next_file_index_def set_duplicate_name_def visit_state_def)

lemma xs_world_on_world [simp]:
  "xs_world (snd (on_world g s)) = snd (g (xs_world s))"
  "xs_world (snd (snd (on_world2 h s))) = snd (snd (h (xs_world s)))"
  by (simp_all add: on_world_def on_world2_def split_def Let_def)

lemma fst_on_world [simp]:
  "fst (on_world g s) = fst (g (xs_world s))"
  "fst (on_world2 h s) = fst (h (xs_world s))"
  "fst (snd (on_world2 h s)) = fst (snd (h (xs_world s)))"
  by (simp_all add: on_world_def on_world2_def split_def Let_def)

lemma progress_on_world [simp]:
  "xs_progress (snd (on_world g s)) = xs_progress s"
  "xs_progress (snd (snd (on_world2 h s))) = xs_progress s"
  by (simp_all add: on_world_def on_world2_def split_def Let_def)

lemma on_world_eq: "on_world g s = (a, s') \<longleftrightarrow> (\<exists>w. g (xs_world s) = (a, w) \<and> s' = s\<lparr>xs_world := w\<rparr>)"
  by (cases "g (xs_world s)") (auto simp: on_world_def)

lemma on_world2_eq: "on_world2 h s = (a, b, s') \<longleftrightarrow> (\<exists>w. h (xs_world s) = (a, b, w) \<and> s' = s\<lparr>xs_world := w\<rparr>)"
  by (cases "h (xs_world s)") (auto simp: on_world2_def)

text \<open>The counters of bytes, which no report changes.\<close>

definition counters :: "'w xfer_state \<Rightarrow> file_size \<times> file_size" where
  "counters s = (pi_bytes_copied (info_of s), pi_total_bytes_copied (info_of s))"

lemma counters_simps [simp]:
  "counters (set_phase p s) = counters s"
  "counters (set_status v s) = counters s"
  "counters (progress_set_source_target_uris a b s) = counters s"
  "counters (set_next_update t s) = counters s"
  "counters (set_next_text_update t s) = counters s"
  "counters (s\<lparr>xs_world := w\<rparr>) = counters s"
  "counters (snd (on_world g s)) = counters s"
  "counters (snd (snd (on_world2 h s))) = counters s"
  by (simp_all add: counters_def on_info_def set_phase_def set_status_def progress_set_source_target_uris_def
      set_next_update_def set_next_text_update_def)

lemma counters_run_callback [simp]: "counters (snd (run_callback cb rs)) = counters (snd rs)"
  by (auto simp: run_callback_def counters_def on_info_def split: option.splits prod.splits)

lemma counters_call_progress_often_internal [simp]:
  "(\<And>t s. counters (set_next t s) = counters s) \<Longrightarrow>
   counters (snd (call_progress_often_internal X phase next_time set_next s)) = counters s"
  by (simp add: call_progress_often_internal_def system_time_def split_def Let_def)

lemma counters_progress [simp]:
  "counters (snd (call_progress_often X phase s)) = counters s"
  "counters (snd (call_progress_with_uris_often X a b phase s)) = counters s"
  "counters (snd (call_progress_with_current_names X phase s)) = counters s"
  by (simp_all add: call_progress_often_def call_progress_with_uris_often_def call_progress_with_current_names_def
      system_time_def split_def Let_def)

lemma counters_handle_error [simp]: "counters (snd (snd (snd (handle_error X r s)))) = counters s"
proof -
  have "counters (on_info (\<lambda>i. i\<lparr>pi_status := st, pi_vfs_status := r\<rparr>) s) = counters s" for st
    by (simp add: counters_def on_info_def)
  then show ?thesis
    by (simp add: handle_error_def split_def Let_def split: GnomeVFSXferErrorMode.split)
qed

text \<open>
  An invariant of the world that the clock and the callbacks keep is kept by every report,
  and by the handling of errors and conflicts.
\<close>

locale xfer_inv =
  fixes X :: "'w xfer" and I :: "'w \<Rightarrow> bool"
  assumes clock: "I w \<Longrightarrow> I (snd (x_time X w))"
    and sync_callback: "x_sync_callback X = Some cb \<Longrightarrow> I w \<Longrightarrow> I (snd (snd (cb i w)))"
    and update_callback: "x_update_callback X = Some cb \<Longrightarrow> I w \<Longrightarrow> I (snd (snd (cb i w)))"
begin

abbreviation J :: "'w xfer_state \<Rightarrow> bool" where "J s \<equiv> I (xs_world s)"

lemma run_sync [simp]: "J (snd rs) \<Longrightarrow> J (snd (run_callback (x_sync_callback X) rs))"
  by (auto simp: run_callback_def on_info_def split_def Let_def dest: sync_callback split: option.splits)

lemma run_update [simp]: "J (snd rs) \<Longrightarrow> J (snd (run_callback (x_update_callback X) rs))"
  by (auto simp: run_callback_def on_info_def split_def Let_def dest: update_callback split: option.splits)

lemma inv_time [simp]: "J s \<Longrightarrow> J (snd (system_time X s))"
  by (simp add: system_time_def clock)

lemma inv_call_progress [simp]: "J s \<Longrightarrow> J (snd (call_progress X phase s))"
  by (simp add: call_progress_def split_def Let_def)

lemma inv_call_progress_with_current_names [simp]: "J s \<Longrightarrow> J (snd (call_progress_with_current_names X phase s))"
  by (simp add: call_progress_with_current_names_def split_def Let_def)

lemma inv_call_progress_uri [simp]: "J s \<Longrightarrow> J (snd (call_progress_uri X a b phase s))"
  by (simp add: call_progress_uri_def split_def Let_def)

lemma inv_call_progress_often_internal:
  "J s \<Longrightarrow> (\<And>t s. xs_world (set_next t s) = xs_world s) \<Longrightarrow>
   J (snd (call_progress_often_internal X phase next_time set_next s))"
  by (simp add: call_progress_often_internal_def split_def Let_def)

lemma inv_call_progress_often [simp]: "J s \<Longrightarrow> J (snd (call_progress_often X phase s))"
  by (simp add: call_progress_often_def inv_call_progress_often_internal)

lemma inv_call_progress_with_uris_often [simp]: "J s \<Longrightarrow> J (snd (call_progress_with_uris_often X a b phase s))"
  by (simp add: call_progress_with_uris_often_def inv_call_progress_often_internal)

lemma inv_handle_error [simp]: "J s \<Longrightarrow> J (snd (snd (snd (handle_error X r s))))"
  by (simp add: handle_error_def split_def Let_def split: GnomeVFSXferErrorMode.split)

lemma inv_handle_overwrite [simp]: "J s \<Longrightarrow> J (snd (snd (snd (snd (snd (handle_overwrite X r mode s))))))"
  by (simp add: handle_overwrite_def split_def Let_def split: GnomeVFSXferOverwriteMode.split)

end

section \<open>Copying a stream\<close>

definition at_streams :: "('w \<Rightarrow> bool) \<Rightarrow> ('w \<Rightarrow> string) \<Rightarrow> ('w \<Rightarrow> string) \<Rightarrow> string \<Rightarrow> string \<Rightarrow> 'w \<Rightarrow> bool" where
  "at_streams sound unread written a b w \<longleftrightarrow> sound w \<and> unread w = a \<and> written w = b"

text \<open>
  The contract of the two handles of a copy: \<open>unread\<close> is what is still to be read from the
  source, \<open>written\<close> what was written to the target. A read takes from the front, fails without
  taking anything, and reports the end only there; a write may be short and fails without
  writing anything.
\<close>

locale byte_streams =
  fixes X :: "'w xfer" and C :: copy_handles and unread written :: "'w \<Rightarrow> string" and sound :: "'w \<Rightarrow> bool"
  assumes read_source: "sound w \<Longrightarrow> gnome_vfs_read (x_library X) (cp_source C) (cp_block_size C) w = (r, buf, w') \<Longrightarrow>
      sound w' \<and> written w' = written w \<and> (r = GNOME_VFS_ERROR_EOF \<longrightarrow> unread w = [])
      \<and> (if r = GNOME_VFS_OK then buf \<noteq> [] \<and> unread w = buf @ unread w' else unread w' = unread w)"
    and write_target: "sound w \<Longrightarrow> gnome_vfs_write (x_library X) (cp_target C) data w = (r, n, w') \<Longrightarrow>
      sound w' \<and> unread w' = unread w \<and> r \<noteq> GNOME_VFS_ERROR_EOF
      \<and> (\<exists>k \<le> length data. n = Some k \<and> written w' = written w @ take k data \<and> (r \<noteq> GNOME_VFS_OK \<longrightarrow> k = 0))"
    and forget: "h \<in> {cp_source C, cp_target C} \<Longrightarrow> sound w \<Longrightarrow>
      (let w' = snd (gnome_vfs_forget_cache (x_library X) h offset len w)
       in sound w' \<and> unread w' = unread w \<and> written w' = written w)"
    and quiet: "xfer_inv X (at_streams sound unread written a b)"
begin

abbreviation at :: "string \<Rightarrow> string \<Rightarrow> 'w xfer_state \<Rightarrow> bool" where
  "at a b s \<equiv> at_streams sound unread written a b (xs_world s)"

lemmas quiet_rules = xfer_inv.inv_handle_error [OF quiet] xfer_inv.inv_call_progress_often [OF quiet]

lemma read_step:
  assumes "on_world2 (gnome_vfs_read (x_library X) (cp_source C) (cp_block_size C)) s = (r, buf, s')" and "at a b s"
  shows "counters s' = counters s \<and> (r = GNOME_VFS_ERROR_EOF \<longrightarrow> a = [])
    \<and> (if r = GNOME_VFS_OK then buf \<noteq> [] \<and> (\<exists>a'. a = buf @ a' \<and> at a' b s') else at a b s')"
  using assms read_source [of "xs_world s" r buf] by (auto simp: at_streams_def on_world2_eq)

lemma error_step:
  assumes "handle_error X r s = (retry, r', skip, s')" and "at a b s"
  shows "counters s' = counters s \<and> at a b s' \<and> (r \<noteq> GNOME_VFS_ERROR_EOF \<longrightarrow> r' \<noteq> GNOME_VFS_ERROR_EOF)
    \<and> (r \<noteq> GNOME_VFS_OK \<and> r' = GNOME_VFS_OK \<longrightarrow> skip \<and> \<not> retry)"
proof -
  have "s' = snd (snd (snd (handle_error X r s)))" using assms(1) by simp
  moreover have "(r \<noteq> GNOME_VFS_ERROR_EOF \<longrightarrow> r' \<noteq> GNOME_VFS_ERROR_EOF) \<and> (r \<noteq> GNOME_VFS_OK \<and> r' = GNOME_VFS_OK \<longrightarrow> skip \<and> \<not> retry)"
    using assms(1)
    by (auto simp: handle_error_def split_def Let_def split: GnomeVFSXferErrorMode.splits if_splits)
  ultimately show ?thesis using quiet_rules(1) [OF assms(2), of r] by simp
qed

definition read_ok :: "string \<Rightarrow> string \<Rightarrow> 'w xfer_state \<Rightarrow> GnomeVFSResult \<times> string \<times> bool \<times> 'w xfer_state \<Rightarrow> bool" where
  "read_ok a b s = (\<lambda>(r, buf, skip', s'). at a b s \<longrightarrow> counters s' = counters s
     \<and> (r = GNOME_VFS_ERROR_EOF \<longrightarrow> a = [] \<and> at a b s')
     \<and> (r = GNOME_VFS_OK \<and> \<not> skip' \<longrightarrow> buf \<noteq> [] \<and> (\<exists>a'. a = buf @ a' \<and> at a' b s')))"

lemma copy_read_loop_ok:
  assumes "copy_read_loop X C skip s = Some res"
  shows "read_ok a b s res"
proof -
  let ?P = "\<lambda>X' C' (skip :: bool) s res. X' = X \<longrightarrow> C' = C \<longrightarrow> read_ok a b s res"
  have "?P X C skip s res"
  proof (rule copy_read_loop.raw_induct [where P = ?P, OF _ assms], goal_cases)
    case (1 f X' C' skip s res)
    show ?case
    proof (intro impI)
      assume X: "X' = X" "C' = C"
      obtain r buf s1 where read: "on_world2 (gnome_vfs_read (x_library X) (cp_source C) (cp_block_size C)) s = (r, buf, s1)"
        by (metis prod_cases3)
      obtain retry r' skip' s2 where err: "handle_error X r s1 = (retry, r', skip', s2)"
        by (metis prod_cases4)
      show "read_ok a b s res"
        using 1(2) 1(1) [of X C skip' s2 res] read_step [OF read, of a b] error_step [OF err, of a b]
        by (auto simp: X read err read_ok_def split: if_splits)
    qed
  qed
  then show ?thesis by simp
qed

lemma write_step:
  assumes "on_world2 (gnome_vfs_write (x_library X) (cp_target C) data) s = (r, n, s')" and "at a b s"
  shows "counters s' = counters s \<and> r \<noteq> GNOME_VFS_ERROR_EOF
    \<and> (\<exists>k \<le> length data. n = Some k \<and> at a (b @ take k data) s' \<and> (r \<noteq> GNOME_VFS_OK \<longrightarrow> k = 0))"
  using assms write_target [of "xs_world s" data r n] by (fastforce simp: at_streams_def on_world2_eq)

definition write_ok :: "string \<Rightarrow> string \<Rightarrow> string \<Rightarrow> 'w xfer_state \<Rightarrow> GnomeVFSResult \<times> string \<times> bool \<times> 'w xfer_state \<Rightarrow> bool" where
  "write_ok a b data s = (\<lambda>(r, rest', skip', s'). at a b s \<longrightarrow> counters s' = counters s \<and> r \<noteq> GNOME_VFS_ERROR_EOF
     \<and> (\<exists>d. data = d @ rest' \<and> at a (b @ d) s') \<and> (r = GNOME_VFS_OK \<longrightarrow> rest' = []))"

lemma write_ok_step:
  assumes "write_ok a (b @ take k data) (drop k data) s2 res" and "counters s2 = counters s" and "at a (b @ take k data) s2"
  shows "write_ok a b data s res"
proof (cases res)
  case (fields r rest' skip' s')
  have *: "data = (take k data @ d) @ rest'" if "drop k data = d @ rest'" for d
    using that append_take_drop_id [of k data] by simp
  show ?thesis
    using assms * unfolding fields write_ok_def by (auto intro!: exI [where x = "take k data @ d" for d])
qed

lemma copy_write_loop_ok:
  assumes "copy_write_loop X C data ws s = Some res"
  shows "write_ok a b data s res"
proof -
  let ?P = "\<lambda>X' C' data (ws :: nat option \<times> bool) s res. X' = X \<longrightarrow> C' = C \<longrightarrow> (\<forall>b. write_ok a b data s res)"
  have "?P X C data ws s res"
  proof (rule copy_write_loop.raw_induct [where P = ?P, OF _ assms], goal_cases)
    case (1 f X' C' data ws s res)
    show ?case
    proof (intro impI allI)
      fix b
      assume X: "X' = X" "C' = C"
      obtain r n s1 where wr: "on_world2 (gnome_vfs_write (x_library X) (cp_target C) data) s = (r, n, s1)"
        by (metis prod_cases3)
      obtain retry r' skip' s2 where err: "handle_error X r s1 = (retry, r', skip', s2)"
        by (metis prod_cases4)
      show "write_ok a b data s res"
      proof (cases "at a b s")
        case True
        then obtain k where k: "k \<le> length data" "n = Some k" "at a (b @ take k data) s1" "r \<noteq> GNOME_VFS_OK \<longrightarrow> k = 0"
          and w: "counters s1 = counters s" "r \<noteq> GNOME_VFS_ERROR_EOF"
          using write_step [OF wr] by blast
        note e = error_step [OF err k(3)]
        define t where "t = (if r \<noteq> GNOME_VFS_OK then s2 else s1)"
        have t: "counters t = counters s" "at a (b @ take k data) t"
          using e w k(3) unfolding t_def by (auto simp del: take_0)
        show ?thesis
        proof (cases "(r = GNOME_VFS_OK \<or> r' = GNOME_VFS_OK) \<and> k < length data \<or> r \<noteq> GNOME_VFS_OK \<and> retry")
          case True
          have "f X C (drop k data) (Some k, if r \<noteq> GNOME_VFS_OK then skip' else snd ws) t = Some res"
            using 1(2) True k e by (auto simp: X wr err t_def split: if_splits)
          then show ?thesis using 1(1) write_ok_step [OF _ t] by blast
        next
          case False
          then show ?thesis using 1(2) k e t w
            by (cases res) (auto simp: X wr err t_def write_ok_def split: if_splits)
        qed
      qed (cases res, simp add: write_ok_def)
    qed
  qed
  then show ?thesis by simp
qed

lemma forget_copied_at: "at a b s \<Longrightarrow> at a b (forget_copied X C p n s)"
  unfolding forget_copied_def xs_world_on_world at_streams_def Let_def
  using forget [of "cp_source C" "xs_world s" "sint p" n] forget [of "cp_target C" _ "sint p" n] by (simp add: Let_def)

lemma counters_forget_copied [simp]: "counters (forget_copied X' C' p n s) = counters s"
  by (simp add: forget_copied_def)

lemma progress_step:
  assumes "call_progress_often X phase s = (action, s')" and "at a b s"
  shows "at a b s' \<and> counters s' = counters s"
proof -
  have "s' = snd (call_progress_often X phase s)" using assms(1) by simp
  then show ?thesis using quiet_rules(2) [OF assms(2)] by simp
qed

definition blocks_ok :: "string \<Rightarrow> string \<Rightarrow> 'w xfer_state \<Rightarrow> bool \<times> GnomeVFSResult \<times> bool \<times> 'w xfer_state \<Rightarrow> bool" where
  "blocks_ok a b s = (\<lambda>(stopped, r, skip', s'). at a b s \<longrightarrow> (stopped \<longrightarrow> r = GNOME_VFS_ERROR_INTERRUPTED)
     \<and> (eof_is_ok r = GNOME_VFS_OK \<and> \<not> skip' \<longrightarrow>
     at [] (b @ a) s' \<and> counters s' = (fst (counters s) + of_nat (length a), snd (counters s) + of_nat (length a))))"

text \<open>One turn of the loop, after the block \<open>buf\<close> was read and written.\<close>

lemma blocks_ok_step:
  assumes "blocks_ok a' (b @ buf) s5 res" and "at a' (b @ buf) s5"
    and "counters s5 = (fst (counters s) + of_nat (length buf), snd (counters s) + of_nat (length buf))"
  shows "blocks_ok (buf @ a') b s res"
  using assms by (cases res) (auto simp: blocks_ok_def)

lemma count_block:
  "counters (on_info (\<lambda>i. i\<lparr>pi_phase := p, pi_bytes_copied := pi_bytes_copied i + n,
     pi_total_bytes_copied := pi_total_bytes_copied i + n\<rparr>) s) = (fst (counters s) + n, snd (counters s) + n)"
  by (simp add: counters_def on_info_def)

lemma counters_start:
  "counters (on_info (\<lambda>i. i\<lparr>pi_status := v, pi_vfs_status := r, pi_phase := p\<rparr>) s) = counters s"
  by (simp add: counters_def on_info_def)

text \<open>The state after a block was written, from the state \<open>s2\<close> after the last write.\<close>

definition after_block :: "file_size \<Rightarrow> file_size \<Rightarrow> bool \<Rightarrow> nat \<Rightarrow> 'w xfer_state \<Rightarrow> 'w xfer_state" where
  "after_block from_pos n drop_now len s2 =
     on_info (\<lambda>i. i\<lparr>pi_phase := GNOME_VFS_XFER_PHASE_COPYING, pi_bytes_copied := pi_bytes_copied i + of_nat len,
                    pi_total_bytes_copied := pi_total_bytes_copied i + of_nat len\<rparr>)
       (if drop_now then forget_copied X C from_pos n s2 else s2)"

lemma after_block:
  "at a b s \<Longrightarrow> at a b (after_block p n d len s)"
  "counters (after_block p n d len s) = (fst (counters s) + of_nat len, snd (counters s) + of_nat len)"
  by (simp_all add: after_block_def forget_copied_at count_block)

lemma blocks_turn:
  assumes rd: "copy_read_loop X C skip s0 = Some (GNOME_VFS_OK, buf, False, s1)" and s0: "at a b s0"
    and wr: "copy_write_loop X C buf (None, False) (set_phase GNOME_VFS_XFER_PHASE_WRITETARGET s1) = Some (r2, rest, skip2, s2)"
    and pr: "call_progress_often X GNOME_VFS_XFER_PHASE_COPYING (after_block p n d (length buf) s2) = (action, s5)"
    and loop: "r2 = GNOME_VFS_OK \<Longrightarrow> \<not> skip2 \<Longrightarrow> action \<noteq> 0 \<Longrightarrow> \<forall>a b. blocks_ok a b s5 res"
    and stop: "r2 \<noteq> GNOME_VFS_OK \<or> skip2 \<Longrightarrow> action \<noteq> 0 \<Longrightarrow> res = (False, r2, skip2, s5)"
    and intr: "action = 0 \<Longrightarrow> res = (True, GNOME_VFS_ERROR_INTERRUPTED, skip2, s5)"
  shows "blocks_ok a b s0 res"
proof -
  obtain a' where a: "a = buf @ a'" "at a' b s1" and c1: "counters s1 = counters s0"
    using copy_read_loop_ok [OF rd, of a b] s0 by (auto simp: read_ok_def)
  have w: "counters s2 = counters s1" "r2 \<noteq> GNOME_VFS_ERROR_EOF" "r2 = GNOME_VFS_OK \<Longrightarrow> at a' (b @ buf) s2"
    using copy_write_loop_ok [OF wr, of a' b] a(2) by (auto simp: write_ok_def)
  show ?thesis
  proof (cases "r2 = GNOME_VFS_OK \<and> \<not> skip2 \<and> action \<noteq> 0")
    case True
    then have "at a' (b @ buf) s5 \<and> counters s5 = counters (after_block p n d (length buf) s2)"
      using progress_step [OF pr] after_block(1) w(3) by blast
    then show ?thesis unfolding a(1) using loop True w c1
      by (intro blocks_ok_step [of a' b buf s5]) (auto simp: after_block(2))
  next
    case False
    then show ?thesis using stop intr w(2) by (cases "action = 0") (auto simp: blocks_ok_def eof_is_ok_def)
  qed
qed

lemma copy_blocks_loop_ok:
  assumes "copy_blocks_loop X C pos skip s = Some res"
  shows "blocks_ok a b s res"
proof -
  let ?P = "\<lambda>X' C' (pos :: file_size \<times> file_size) (skip :: bool) s res. X' = X \<longrightarrow> C' = C \<longrightarrow> (\<forall>a b. blocks_ok a b s res)"
  have "?P X C pos skip s res"
  proof (rule copy_blocks_loop.raw_induct [where P = ?P, OF _ assms], goal_cases)
    case (1 f X' C' pos skip s res)
    show ?case
    proof (intro impI allI)
      fix a b
      assume X: "X' = X" "C' = C"
      define s0 where "s0 = on_info (\<lambda>i. i\<lparr>pi_status := GNOME_VFS_XFER_PROGRESS_STATUS_OK, pi_vfs_status := GNOME_VFS_OK,
                           pi_phase := GNOME_VFS_XFER_PHASE_READSOURCE\<rparr>) s"
      have s0: "blocks_ok a b s0 res = blocks_ok a b s res" "at a b s0 = at a b s"
        by (simp_all add: s0_def counters_start blocks_ok_def)
      obtain r1 buf skip1 s1 where rd: "copy_read_loop X C skip s0 = Some (r1, buf, skip1, s1)"
        using 1(2) by (auto simp: X s0_def Option.bind_eq_Some_conv)
      show "blocks_ok a b s res"
      proof (cases "at a b s \<and> r1 = GNOME_VFS_OK \<and> buf \<noteq> [] \<and> \<not> skip1")
        case False
        then show ?thesis using 1(2) copy_read_loop_ok [OF rd, of a b] s0
          by (cases res) (auto simp: X rd [unfolded s0_def] read_ok_def blocks_ok_def eof_is_ok_def s0_def counters_start split: if_splits)
      next
        case True
        obtain r2 rest skip2 s2 where wr:
          "copy_write_loop X C buf (None, False) (set_phase GNOME_VFS_XFER_PHASE_WRITETARGET s1) = Some (r2, rest, skip2, s2)"
          using 1(2) True by (auto simp: X rd [unfolded s0_def] Let_def Option.bind_eq_Some_conv)
        define total where "total = fst pos + of_nat (length buf)"
        define drop_now where "drop_now = (cp_forget_cache C \<and> rest = [] \<and> DROP_CACHE_BATCH_SIZE < total - snd pos)"
        obtain action s5 where pr: "call_progress_often X GNOME_VFS_XFER_PHASE_COPYING
            (after_block (snd pos) (total - snd pos) drop_now (length buf) s2) = (action, s5)" by (metis surj_pair)
        have "if action = 0 then res = (True, GNOME_VFS_ERROR_INTERRUPTED, skip2, s5)
            else if skip2 \<or> r2 \<noteq> GNOME_VFS_OK then res = (False, r2, skip2, s5)
            else f X C (total, if drop_now then total else snd pos) skip2 s5 = Some res"
          using 1(2) True pr
          by (auto simp: X rd [unfolded s0_def] wr after_block_def drop_now_def total_def Let_def split: if_splits)
        then have "blocks_ok a b s0 res"
          using 1(1) True rd s0 by (intro blocks_turn [OF _ _ wr pr, where skip = skip]) (auto split: if_splits)
        then show ?thesis by (simp add: s0)
      qed
    qed
  qed
  then show ?thesis by simp
qed

theorem copy_data_complete:
  assumes "copy_file_data X (cp_target C) (cp_source C) m n s = Some (GNOME_VFS_OK, False, s')"
    and C: "cp_block_size C = ucast (max m n)"
      "cp_forget_cache C = (DROP_CACHE_SIZE_LIMIT \<le> pi_bytes_total (info_of (snd (call_progress_often X GNOME_VFS_XFER_PHASE_COPYING s))))"
    and "at a b s"
  shows "at [] (b @ a) s' \<and> fst (counters s') = fst (counters s) + of_nat (length a)
    \<and> snd (counters s') = snd (counters s) + of_nat (length a) + DEFAULT_SIZE_OVERHEAD"
proof -
  obtain action s1 where p: "call_progress_often X GNOME_VFS_XFER_PHASE_COPYING s = (action, s1)" by (metis surj_pair)
  have C': "\<lparr>cp_target = cp_target C, cp_source = cp_source C, cp_block_size = ucast (max m n),
      cp_forget_cache = (DROP_CACHE_SIZE_LIMIT \<le> pi_bytes_total (info_of s1))\<rparr> = C"
    using C by (simp add: p)
  have s1: "at a b s1" "counters s1 = counters s" using progress_step [OF p assms(4)] by blast+
  obtain st r s2 where l: "copy_blocks_loop X C (0, 0) False s1 = Some (st, r, False, s2)" "eof_is_ok r = GNOME_VFS_OK"
    and s': "\<not> st \<Longrightarrow> s' = snd (call_progress_often X GNOME_VFS_XFER_PHASE_COPYING (add_total_copied DEFAULT_SIZE_OVERHEAD s2))"
    using assms(1) unfolding copy_file_data_def p Let_def split C'
    by (auto simp: Option.bind_eq_Some_conv eof_is_ok_def split: if_splits)
  note ok = copy_blocks_loop_ok [OF l(1), of a b] l(2) s1
  from ok have s2: "at [] (b @ a) s2" "counters s2 = (fst (counters s) + of_nat (length a), snd (counters s) + of_nat (length a))"
    by (simp_all add: blocks_ok_def)
  have s': "s' = snd (call_progress_often X GNOME_VFS_XFER_PHASE_COPYING (add_total_copied DEFAULT_SIZE_OVERHEAD s2))"
    using ok s' by (auto simp: blocks_ok_def eof_is_ok_def split: if_splits)
  have "counters (add_total_copied k t) = (fst (counters t), snd (counters t) + k)" for k t
    by (simp add: add_total_copied_def counters_def on_info_def)
  then have "counters s' = (fst (counters s2), snd (counters s2) + DEFAULT_SIZE_OVERHEAD)" by (simp add: s')
  then show ?thesis using s2 quiet_rules(2) [of "[]" "b @ a"] by (simp add: s')
qed

end

text \<open>
  Streams that do not fail, and callbacks that let the copy go on: then the copy comes to an
  end and reports success.
\<close>

locale live_streams = byte_streams +
  assumes reads: "sound w \<Longrightarrow> fst (gnome_vfs_read (x_library X) (cp_source C) (cp_block_size C) w)
      = (if unread w = [] then GNOME_VFS_ERROR_EOF else GNOME_VFS_OK)"
    and writes: "sound w \<Longrightarrow> data \<noteq> [] \<Longrightarrow> gnome_vfs_write (x_library X) (cp_target C) data w = (r, n, w') \<Longrightarrow>
      r = GNOME_VFS_OK \<and> n \<noteq> Some 0"
    and goes_on: "x_sync_callback X = Some cb \<or> x_update_callback X = Some cb \<Longrightarrow> fst (cb i w) \<noteq> 0"
begin

lemma progress_goes_on: "fst (call_progress_often X phase s) \<noteq> 0"
proof -
  have "fst (run_callback cb rs) \<noteq> 0" if "fst rs \<noteq> 0" "cb = x_sync_callback X \<or> cb = x_update_callback X" for cb rs
    using that goes_on by (auto simp: run_callback_def split_def Let_def split: option.splits)
  then show ?thesis
    by (simp add: call_progress_often_def call_progress_often_internal_def split_def Let_def)
qed

lemma read_returns:
  assumes "at a b s"
  shows "\<exists>buf s'. copy_read_loop X C False s
    = Some (if a = [] then GNOME_VFS_ERROR_EOF else GNOME_VFS_OK, buf, False, s')"
proof -
  obtain r buf s1 where e: "on_world2 (gnome_vfs_read (x_library X) (cp_source C) (cp_block_size C)) s = (r, buf, s1)"
    by (metis prod_cases3)
  have "r = (if a = [] then GNOME_VFS_ERROR_EOF else GNOME_VFS_OK)"
    using reads [of "xs_world s"] assms e by (auto simp: on_world2_eq at_streams_def)
  then show ?thesis by (subst copy_read_loop.simps) (auto simp: e)
qed

lemma write_returns:
  "at a b s \<Longrightarrow> data \<noteq> [] \<Longrightarrow> \<exists>s'. copy_write_loop X C data (v, False) s = Some (GNOME_VFS_OK, [], False, s')"
proof (induction "length data" arbitrary: data b s v rule: less_induct)
  case less
  obtain r n s1 where e: "on_world2 (gnome_vfs_write (x_library X) (cp_target C) data) s = (r, n, s1)"
    by (metis prod_cases3)
  obtain k where k: "k \<le> length data" "n = Some k" "at a (b @ take k data) s1"
    using write_step [OF e less.prems(1)] by blast
  have r: "r = GNOME_VFS_OK" "0 < k"
    using writes [of "xs_world s" data r n] less.prems e k(2) by (auto simp: on_world2_eq at_streams_def)
  show ?case
  proof (cases "k < length data")
    case True
    then obtain s' where "copy_write_loop X C (drop k data) (Some k, False) s1 = Some (GNOME_VFS_OK, [], False, s')"
      using less.hyps [of "drop k data" "b @ take k data" s1 "Some k"] k(3) r(2) diff_less [of k "length data"]
      by fastforce
    then show ?thesis using True k r by (subst copy_write_loop.simps) (simp add: e)
  qed (use k r in \<open>subst copy_write_loop.simps, simp add: e\<close>)
qed

lemma blocks_return:
  "at a b s \<Longrightarrow> \<exists>s'. copy_blocks_loop X C pos False s = Some (False, GNOME_VFS_ERROR_EOF, False, s')"
proof (induction "length a" arbitrary: a b s pos rule: less_induct)
  case less
  define s0 where "s0 = on_info (\<lambda>i. i\<lparr>pi_status := GNOME_VFS_XFER_PROGRESS_STATUS_OK, pi_vfs_status := GNOME_VFS_OK,
                           pi_phase := GNOME_VFS_XFER_PHASE_READSOURCE\<rparr>) s"
  have at0: "at a b s0" using less.prems by (simp add: s0_def)
  obtain buf s1 where rd: "copy_read_loop X C False s0 = Some (if a = [] then GNOME_VFS_ERROR_EOF else GNOME_VFS_OK, buf, False, s1)"
    using read_returns [OF at0] by blast
  show ?case
  proof (cases "a = []")
    case True
    then show ?thesis using rd by (subst copy_blocks_loop.simps) (simp add: s0_def)
  next
    case False
    then obtain a' where a: "buf \<noteq> []" "a = buf @ a'" "at a' b s1"
      using copy_read_loop_ok [OF rd, of a b] at0 by (auto simp: read_ok_def)
    then obtain s2 where wr: "copy_write_loop X C buf (None, False) (set_phase GNOME_VFS_XFER_PHASE_WRITETARGET s1)
        = Some (GNOME_VFS_OK, [], False, s2)"
      using write_returns [of a' b "set_phase GNOME_VFS_XFER_PHASE_WRITETARGET s1" buf] by auto
    have "at a' (b @ buf) s2" using copy_write_loop_ok [OF wr, of a' b] a(3) by (auto simp: write_ok_def)
    define total where "total = fst pos + of_nat (length buf)"
    define drop_now where "drop_now = (cp_forget_cache C \<and> DROP_CACHE_BATCH_SIZE < total - snd pos)"
    obtain action s5 where pr: "call_progress_often X GNOME_VFS_XFER_PHASE_COPYING
        (after_block (snd pos) (total - snd pos) drop_now (length buf) s2) = (action, s5)" by (metis surj_pair)
    have "at a' (b @ buf) s5" using progress_step [OF pr] after_block(1) \<open>at a' (b @ buf) s2\<close> by blast
    then obtain s' where "copy_blocks_loop X C (total, if drop_now then total else snd pos) False s5
        = Some (False, GNOME_VFS_ERROR_EOF, False, s')"
      using less.hyps [of a' "b @ buf" s5] a by auto
    moreover have "action \<noteq> 0"
      using progress_goes_on [of GNOME_VFS_XFER_PHASE_COPYING "after_block (snd pos) (total - snd pos) drop_now (length buf) s2"] pr
      by simp
    moreover have "copy_blocks_loop X C pos False s
        = copy_blocks_loop X C (total, if drop_now then total else snd pos) False s5" if "action \<noteq> 0"
      using rd wr pr a(1) False that
      by (subst copy_blocks_loop.simps) (simp add: s0_def Let_def total_def drop_now_def after_block_def)
    ultimately show ?thesis by simp
  qed
qed

theorem copy_data_returns:
  assumes "at a b s" and "cp_block_size C = ucast (max m n)"
    and "cp_forget_cache C = (DROP_CACHE_SIZE_LIMIT \<le> pi_bytes_total (info_of (snd (call_progress_often X GNOME_VFS_XFER_PHASE_COPYING s))))"
  shows "\<exists>s'. copy_file_data X (cp_target C) (cp_source C) m n s = Some (GNOME_VFS_OK, False, s')"
proof -
  obtain action s1 where p: "call_progress_often X GNOME_VFS_XFER_PHASE_COPYING s = (action, s1)" by (metis surj_pair)
  have C': "\<lparr>cp_target = cp_target C, cp_source = cp_source C, cp_block_size = ucast (max m n),
      cp_forget_cache = (DROP_CACHE_SIZE_LIMIT \<le> pi_bytes_total (info_of s1))\<rparr> = C"
    using assms by (simp add: p)
  have "action \<noteq> 0" using progress_goes_on [of GNOME_VFS_XFER_PHASE_COPYING s] p by simp
  moreover obtain s' where "copy_blocks_loop X C (0, 0) False s1 = Some (False, GNOME_VFS_ERROR_EOF, False, s')"
    using blocks_return progress_step [OF p assms(1)] by blast
  ultimately show ?thesis unfolding copy_file_data_def p Let_def split C' by (simp add: eof_is_ok_def)
qed

end

end
