(* ===== verification/VFS_Post.thy ===== *)
theory VFS_Post
  imports VFS_Prelude
begin

text \<open>
  Conditions on what a computation returns if it returns, and rules that carry a condition on
  the last component of tuples (the state) through the computations of the model.
\<close>

text \<open>When the computation returns, its result satisfies the condition.\<close>

definition post :: "('r \<Rightarrow> bool) \<Rightarrow> 'r option \<Rightarrow> bool" where
  "post Q m \<longleftrightarrow> (\<forall>r. m = Some r \<longrightarrow> Q r)"

named_theorems post_rules

lemma postI: "(\<And>r. m = Some r \<Longrightarrow> Q r) \<Longrightarrow> post Q m"
  by (simp add: post_def)

lemma postD: "post Q m \<Longrightarrow> m = Some r \<Longrightarrow> Q r"
  by (simp add: post_def)

lemma post_Some [post_rules]: "Q r \<Longrightarrow> post Q (Some r)"
  by (simp add: post_def)

lemma post_None [post_rules]: "post Q None"
  by (simp add: post_def)

lemma post_if [post_rules]: "(b \<Longrightarrow> post Q x) \<Longrightarrow> (\<not> b \<Longrightarrow> post Q y) \<Longrightarrow> post Q (if b then x else y)"
  by simp

lemma post_case_option [post_rules]:
  "(x = None \<Longrightarrow> post Q y) \<Longrightarrow> (\<And>a. x = Some a \<Longrightarrow> post Q (f a)) \<Longrightarrow> post Q (case x of None \<Rightarrow> y | Some a \<Rightarrow> f a)"
  by (cases x) simp_all

lemma post_value: "(\<And>x. m = Some x \<Longrightarrow> post Q (f x)) \<Longrightarrow> post Q (Option.bind m f)"
  by (cases m) (simp_all add: post_def)

lemma post_let: "(\<And>x. x = e \<Longrightarrow> post Q (f x)) \<Longrightarrow> post Q (Let e f)"
  by simp

lemma post_case_sum [post_rules]:
  "(\<And>a. x = Inl a \<Longrightarrow> post Q (f a)) \<Longrightarrow> (\<And>b. x = Inr b \<Longrightarrow> post Q (g b)) \<Longrightarrow> post Q (case x of Inl a \<Rightarrow> f a | Inr b \<Rightarrow> g b)"
  by (cases x) simp_all

text \<open>The condition on what comes last in a tuple, for values and for computations.\<close>

lemma let2: "P (snd e) \<Longrightarrow> (\<And>a s. P s \<Longrightarrow> post Q (f a s)) \<Longrightarrow> post Q (Let e (\<lambda>(a, s). f a s))"
  by (cases e) simp

lemma let3: "P (snd (snd e)) \<Longrightarrow> (\<And>a b s. P s \<Longrightarrow> post Q (f a b s)) \<Longrightarrow> post Q (Let e (\<lambda>(a, b, s). f a b s))"
  by (cases e) simp

lemma let4: "P (snd (snd (snd e))) \<Longrightarrow> (\<And>a b c s. P s \<Longrightarrow> post Q (f a b c s)) \<Longrightarrow> post Q (Let e (\<lambda>(a, b, c, s). f a b c s))"
  by (cases e) simp

lemma bind2: "post (\<lambda>r. P (snd r)) m \<Longrightarrow> (\<And>a s. P s \<Longrightarrow> post Q (f a s)) \<Longrightarrow> post Q (Option.bind m (\<lambda>(a, s). f a s))"
  by (cases m) (auto simp: post_def)

lemma bind3:
  "post (\<lambda>r. P (snd (snd r))) m \<Longrightarrow> (\<And>a b s. P s \<Longrightarrow> post Q (f a b s)) \<Longrightarrow> post Q (Option.bind m (\<lambda>(a, b, s). f a b s))"
  by (cases m) (auto simp: post_def)

lemma bind4:
  "post (\<lambda>r. P (snd (snd (snd r)))) m \<Longrightarrow> (\<And>a b c s. P s \<Longrightarrow> post Q (f a b c s)) \<Longrightarrow>
    post Q (Option.bind m (\<lambda>(a, b, c, s). f a b c s))"
  by (cases m) (auto simp: post_def)

end
