(* ===== verification/VFS_Safe.thy ===== *)
theory VFS_Safe
  imports VFS_Xfer_Laws VFS_Post
begin

text \<open>
  Transfers that destroy nothing: a transfer that does not remove its sources and may not
  overwrite makes only calls of a kind that leaves existing files alone, whatever its
  callbacks answer and whatever fails.
\<close>

section \<open>Modes\<close>

text \<open>Modes in which nothing is overwritten.\<close>

definition careful :: "GnomeVFSXferOverwriteMode \<Rightarrow> bool" where
  "careful mode \<longleftrightarrow> mode = GNOME_VFS_XFER_OVERWRITE_MODE_ABORT \<or> mode = GNOME_VFS_XFER_OVERWRITE_MODE_SKIP"

lemma careful_not_replace [simp]: "careful mode \<Longrightarrow> mode \<noteq> GNOME_VFS_XFER_OVERWRITE_MODE_REPLACE"
  by (auto simp: careful_def)

section \<open>Calls that leave files alone\<close>

definition harmless_options :: "guint set" where
  "harmless_options = {GNOME_VFS_FILE_INFO_DEFAULT, GNOME_VFS_FILE_INFO_FOLLOW_LINKS, GNOME_VFS_FILE_INFO_GET_ACCESS_RIGHTS}"

lemma harmless_options_intros [simp]:
  "GNOME_VFS_FILE_INFO_DEFAULT \<in> harmless_options" "GNOME_VFS_FILE_INFO_FOLLOW_LINKS \<in> harmless_options"
  "GNOME_VFS_FILE_INFO_GET_ACCESS_RIGHTS \<in> harmless_options" "info_options_of x \<in> harmless_options"
  by (simp_all add: harmless_options_def info_options_of_def)

text \<open>
  An invariant that queries, reading, writing to open files, exclusive creation, new
  directories and links, and changes of attributes keep. Nothing is assumed of unlinking,
  removing, renaming, truncating, or creation over an existing file.
\<close>

locale harmless = xfer_inv X I for X :: "'w xfer" and I :: "'w \<Rightarrow> bool" +
  fixes L :: "'w vfs_library"
  assumes library: "x_library X = L"
    and info: "opts \<in> harmless_options \<Longrightarrow> I w \<Longrightarrow> I (snd (snd (gnome_vfs_get_file_info_uri L u i opts w)))"
    and open_read: "I w \<Longrightarrow> I (snd (snd (gnome_vfs_open_uri L u GNOME_VFS_OPEN_READ w)))"
    and handle_info: "I w \<Longrightarrow> I (snd (snd (gnome_vfs_get_file_info_from_handle L h i GNOME_VFS_FILE_INFO_DEFAULT w)))"
    and reading: "I w \<Longrightarrow> I (snd (snd (gnome_vfs_read L h n w)))"
    and writing: "I w \<Longrightarrow> I (snd (snd (gnome_vfs_write L h data w)))"
    and closing: "I w \<Longrightarrow> I (snd (gnome_vfs_close L h w))"
    and forgetting: "I w \<Longrightarrow> I (snd (gnome_vfs_forget_cache L h off n w))"
    and creating: "I w \<Longrightarrow> I (snd (snd (gnome_vfs_create_uri L u GNOME_VFS_OPEN_WRITE True perm w)))"
    and making_directory: "I w \<Longrightarrow> I (snd (gnome_vfs_make_directory_for_uri L u perm w))"
    and opening_directory: "opts \<in> harmless_options \<Longrightarrow> I w \<Longrightarrow> I (snd (snd (gnome_vfs_directory_open_from_uri L u opts w)))"
    and reading_directory: "I w \<Longrightarrow> I (snd (snd (gnome_vfs_directory_read_next L d i w)))"
    and closing_directory: "I w \<Longrightarrow> I (snd (gnome_vfs_directory_close L d w))"
    and linking: "I w \<Longrightarrow> I (snd (gnome_vfs_create_symbolic_link L u text w))"
    and attributes: "ch \<in> {GNOME_VFS_SET_FILE_INFO_OWNER OR GNOME_VFS_SET_FILE_INFO_PERMISSIONS, GNOME_VFS_SET_FILE_INFO_TIME} \<Longrightarrow>
      I w \<Longrightarrow> I (snd (gnome_vfs_set_file_info_uri L u i ch w))"
    and same_fs: "I w \<Longrightarrow> I (snd (snd (gnome_vfs_check_same_fs_uris L u v w)))"
    and free_space: "I w \<Longrightarrow> I (snd (snd (gnome_vfs_get_volume_free_space L u w)))"
begin

lemmas calls [simp] = library info open_read handle_info reading writing closing forgetting creating making_directory
  opening_directory reading_directory closing_directory linking attributes same_fs free_space

lemma exists_inv [simp]: "I w \<Longrightarrow> I (snd (gnome_vfs_uri_exists L u w))"
  by (simp add: gnome_vfs_uri_exists_def split_def Let_def)

text \<open>Results that end in a state, and results that end in an overwrite mode and a state.\<close>

abbreviation S2 where "S2 r \<equiv> J (snd r)"
abbreviation S3 where "S3 r \<equiv> J (snd (snd r))"
abbreviation S4 where "S4 r \<equiv> J (snd (snd (snd r)))"
abbreviation M4 where "M4 r \<equiv> careful (fst (snd (snd r))) \<and> J (snd (snd (snd r)))"
abbreviation M5 where "M5 r \<equiv> careful (fst (snd (snd (snd r)))) \<and> J (snd (snd (snd (snd r))))"
abbreviation M6 where "M6 r \<equiv> careful (fst (snd (snd (snd (snd r))))) \<and> J (snd (snd (snd (snd (snd r)))))"

lemmas state_rules [post_rules] = let2 [where P = J] let3 [where P = J] let4 [where P = J] bind2 [where P = J] bind3 [where P = J]
lemmas bind_state4 = bind4 [where P = J]

lemma bind_mode4 [post_rules]:
  fixes m :: "('a \<times> 'b \<times> GnomeVFSXferOverwriteMode \<times> 'w xfer_state) option"
  assumes "post M4 m" "\<And>a b md s. careful md \<Longrightarrow> J s \<Longrightarrow> post Q (f a b md s)"
  shows "post Q (Option.bind m (\<lambda>(a, b, md, s). f a b md s))"
  using assms by (cases m) (auto simp: post_def)

lemma bind_mode5 [post_rules]:
  fixes m :: "('a \<times> 'b \<times> 'c \<times> GnomeVFSXferOverwriteMode \<times> 'w xfer_state) option"
  assumes "post M5 m" "\<And>a b c md s. careful md \<Longrightarrow> J s \<Longrightarrow> post Q (f a b c md s)"
  shows "post Q (Option.bind m (\<lambda>(a, b, c, md, s). f a b c md s))"
  using assms by (cases m) (auto simp: post_def)

lemma bind_mode6 [post_rules]:
  fixes m :: "('a \<times> 'b \<times> 'c \<times> 'd \<times> GnomeVFSXferOverwriteMode \<times> 'w xfer_state) option"
  assumes "post M6 m" "\<And>a b c d md s. careful md \<Longrightarrow> J s \<Longrightarrow> post Q (f a b c d md s)"
  shows "post Q (Option.bind m (\<lambda>(a, b, c, d, md, s). f a b c d md s))"
  using assms by (cases m) (auto simp: post_def)

lemma overwrite [post_rules]:
  assumes "J s" "careful mode" "\<And>r skip s'. J s' \<Longrightarrow> post Q (f False r False skip mode s')"
  shows "post Q (Let (handle_overwrite X r mode s) (\<lambda>(a, b, c, d, md, s). f a b c d md s))"
  using assms by (auto simp: handle_overwrite_def careful_def)

lemma overwrite_case [post_rules]:
  assumes "J s" "careful mode" "\<And>r skip s'. J s' \<Longrightarrow> post Q (f False r False skip mode s')"
  shows "post Q (case handle_overwrite X r mode s of (a, b, c, d, md, s) \<Rightarrow> f a b c d md s)"
  using assms by (auto simp: handle_overwrite_def careful_def)

subsection \<open>Copying a file\<close>

lemma copy_read_loop_inv [post_rules]:
  assumes "J s"
  shows "post S4 (copy_read_loop X C skip s)"
proof (rule postI)
  fix res
  assume res: "copy_read_loop X C skip s = Some res"
  have "X = X \<longrightarrow> J s \<longrightarrow> S4 res"
  proof (rule copy_read_loop.raw_induct [where P = "\<lambda>X' C skip s res. X' = X \<longrightarrow> J s \<longrightarrow> S4 res", OF _ res], goal_cases)
    case (1 f X' C skip s res)
    then have IH: "J s \<Longrightarrow> post S4 (f X C skip s)" for C skip s by (auto simp: post_def)
    show ?case
      by (intro impI, rule postD [OF _ 1(2)], hypsubst) (rule post_rules IH bind_state4 | rule post_let post_value | simp)+
  qed
  then show "S4 res" using assms by blast
qed

lemma copy_write_loop_inv [post_rules]:
  assumes "J s"
  shows "post S4 (copy_write_loop X C data ws s)"
proof (rule postI)
  fix res
  assume res: "copy_write_loop X C data ws s = Some res"
  have "X = X \<longrightarrow> J s \<longrightarrow> S4 res"
  proof (rule copy_write_loop.raw_induct [where P = "\<lambda>X' C d ws s res. X' = X \<longrightarrow> J s \<longrightarrow> S4 res", OF _ res], goal_cases)
    case (1 f X' C d ws s res)
    then have IH: "J s \<Longrightarrow> post S4 (f X C d ws s)" for C d ws s by (auto simp: post_def)
    show ?case
      by (intro impI, rule postD [OF _ 1(2)], hypsubst) (rule post_rules IH bind_state4 | rule post_let post_value | simp)+
  qed
  then show "S4 res" using assms by blast
qed

lemma forget_copied_inv [simp]: "J s \<Longrightarrow> J (forget_copied X C p n s)"
  by (simp add: forget_copied_def)

lemma copy_blocks_loop_inv [post_rules]:
  assumes "J s"
  shows "post S4 (copy_blocks_loop X C pos skip s)"
proof (rule postI)
  fix res
  assume res: "copy_blocks_loop X C pos skip s = Some res"
  have "X = X \<longrightarrow> J s \<longrightarrow> S4 res"
  proof (rule copy_blocks_loop.raw_induct [where P = "\<lambda>X' C pos skip s res. X' = X \<longrightarrow> J s \<longrightarrow> S4 res", OF _ res], goal_cases)
    case (1 f X' C pos skip s res)
    then have IH: "J s \<Longrightarrow> post S4 (f X C pos skip s)" for C pos skip s by (auto simp: post_def)
    show ?case
      by (intro impI, rule postD [OF _ 1(2)], hypsubst) (rule post_rules IH bind_state4 | rule post_let post_value | simp)+
  qed
  then show "S4 res" using assms by blast
qed

lemma copy_file_data_inv [post_rules]: "J s \<Longrightarrow> post S3 (copy_file_data X th sh m n s)"
  unfolding copy_file_data_def by (rule post_rules bind_state4 | rule post_let post_value | simp)+

lemma open_source_loop_inv [post_rules]:
  assumes "J s"
  shows "post S4 (open_source_loop X u s)"
proof (rule postI)
  fix res
  assume res: "open_source_loop X u s = Some res"
  have "X = X \<longrightarrow> J s \<longrightarrow> S4 res"
  proof (rule open_source_loop.raw_induct [where P = "\<lambda>X' u s res. X' = X \<longrightarrow> J s \<longrightarrow> S4 res", OF _ res], goal_cases)
    case (1 f X' u s res)
    then have IH: "J s \<Longrightarrow> post S4 (f X u s)" for u s by (auto simp: post_def)
    show ?case
      by (intro impI, rule postD [OF _ 1(2)], hypsubst) (rule post_rules IH bind_state4 | rule post_let post_value | simp)+
  qed
  then show "S4 res" using assms by blast
qed

lemma xfer_open_source_inv: "J s \<Longrightarrow> post S4 (xfer_open_source X u s)"
  unfolding xfer_open_source_def by (rule post_rules bind_state4 | rule post_let post_value | simp)+

lemma create_target_loop_inv [post_rules]:
  assumes "J s" "careful mode"
  shows "post M5 (create_target_loop X u True mode s)"
proof (rule postI)
  fix res
  assume res: "create_target_loop X u True mode s = Some res"
  have "X = X \<longrightarrow> True \<longrightarrow> J s \<longrightarrow> careful mode \<longrightarrow> M5 res"
  proof (rule create_target_loop.raw_induct
      [where P = "\<lambda>X' u ex mode s res. X' = X \<longrightarrow> ex \<longrightarrow> J s \<longrightarrow> careful mode \<longrightarrow> M5 res", OF _ res], goal_cases)
    case (1 f X' u ex mode s res)
    then have IH: "J s \<Longrightarrow> careful mode \<Longrightarrow> post M5 (f X u True mode s)" for u mode s by (auto simp: post_def)
    show ?case
      by (intro impI, rule postD [OF _ 1(2)], hypsubst) (rule post_rules IH bind_state4 | rule post_let post_value | simp)+
  qed
  then show "M5 res" using assms by blast
qed

lemma xfer_create_target_inv [post_rules]: "J s \<Longrightarrow> careful mode \<Longrightarrow> post M5 (xfer_create_target X u mode s)"
  unfolding xfer_create_target_def using create_target_loop_inv by (auto simp: careful_def)

lemma copy_symlink_loop_inv [post_rules]:
  assumes "J s" "careful mode"
  shows "post M4 (copy_symlink_loop X link tried mode s)"
proof (rule postI)
  fix res
  assume res: "copy_symlink_loop X link tried mode s = Some res"
  have "X = X \<longrightarrow> J s \<longrightarrow> careful mode \<longrightarrow> M4 res"
  proof (rule copy_symlink_loop.raw_induct
      [where P = "\<lambda>X' l t mode s res. X' = X \<longrightarrow> J s \<longrightarrow> careful mode \<longrightarrow> M4 res", OF _ res], goal_cases)
    case (1 f X' l t mode s res)
    then have IH: "J s \<Longrightarrow> careful mode \<Longrightarrow> post M4 (f X l t mode s)" for l t mode s by (auto simp: post_def)
    show ?case
      by (intro impI, rule postD [OF _ 1(2)], hypsubst) (rule post_rules IH bind_state4 | rule post_let post_value | simp)+
  qed
  then show "M4 res" using assms by blast
qed

lemma copy_symlink_inv [post_rules]: "J s \<Longrightarrow> careful mode \<Longrightarrow> post M4 (copy_symlink X u v n mode s)"
  unfolding copy_symlink_def by (rule post_rules | rule post_let post_value | simp)+

lemma set_target_attributes_inv [simp]: "J s \<Longrightarrow> J (set_target_attributes X opts u i s)"
  by (simp add: set_target_attributes_def Let_def)

lemma copy_file_end_inv [simp]: "J s \<Longrightarrow> S3 (copy_file_end X opts i u sh th r skip s)"
  by (simp add: copy_file_end_def split_def Let_def)

lemma copy_file_inv [post_rules]: "J s \<Longrightarrow> careful mode \<Longrightarrow> post M4 (copy_file X opts i t u v mode s)"
  unfolding copy_file_def
  by (rule post_rules xfer_open_source_inv bind_state4 | rule post_let post_value | simp add: split_def Let_def)+

subsection \<open>Copying a directory\<close>

lemma create_directory_loop_inv:
  assumes "J s" "careful mode"
  shows "post M5 (create_directory_loop X u opts mode s)"
proof (rule postI)
  fix res
  assume res: "create_directory_loop X u opts mode s = Some res"
  have "X = X \<longrightarrow> J s \<longrightarrow> careful mode \<longrightarrow> M5 res"
  proof (rule create_directory_loop.raw_induct
      [where P = "\<lambda>X' u opts mode s res. X' = X \<longrightarrow> J s \<longrightarrow> careful mode \<longrightarrow> M5 res", OF _ res], goal_cases)
    case (1 f X' u opts mode s res)
    then have IH: "J s \<Longrightarrow> careful mode \<Longrightarrow> post M5 (f X u opts mode s)" for u opts mode s by (auto simp: post_def)
    show ?case
      by (intro impI, rule postD [OF _ 1(2)], hypsubst) (rule post_rules IH bind_state4 | rule post_let post_value | simp)+
  qed
  then show "M5 res" using assms by blast
qed

lemma create_directory_inv [post_rules]: "J s \<Longrightarrow> careful mode \<Longrightarrow> post M5 (create_directory X u opts mode s)"
  unfolding create_directory_def by (rule create_directory_loop_inv)

lemma copy_directory_begin_inv [post_rules]:
  "J s \<Longrightarrow> careful mode \<Longrightarrow> post M6 (copy_directory_begin X opts i u v skip mode s)"
  unfolding copy_directory_begin_def by (rule post_rules | rule post_let post_value | simp)+

lemma copy_directory_end_inv [post_rules]: "J s \<Longrightarrow> post S2 (copy_directory_end X opts F r s)"
  unfolding copy_directory_end_def by (rule post_rules | rule post_let post_value | simp)+

lemma copy_entry_inv [post_rules]: "J s \<Longrightarrow> careful mode \<Longrightarrow> post M4 (copy_entry X opts F i u v mode s)"
  unfolding copy_entry_def by (rule post_rules | rule post_let post_value | simp)+

lemma copy_entries_loop_inv [post_rules]:
  assumes "J s" "careful (snd sm)"
  shows "post M4 (copy_entries_loop X opts F sm s)"
proof (rule postI)
  fix res
  assume res: "copy_entries_loop X opts F sm s = Some res"
  have "X = X \<longrightarrow> J s \<longrightarrow> careful (snd sm) \<longrightarrow> M4 res"
  proof (rule copy_entries_loop.raw_induct
      [where P = "\<lambda>X' opts F sm s res. X' = X \<longrightarrow> J s \<longrightarrow> careful (snd sm) \<longrightarrow> M4 res", OF _ res], goal_cases)
    case (1 f X' opts F sm s res)
    then have IH: "J s \<Longrightarrow> careful (snd sm) \<Longrightarrow> post M4 (f X opts F sm s)" for opts F sm s by (auto simp: post_def)
    show ?case
      by (intro impI, rule postD [OF _ 1(2)], hypsubst) (rule post_rules IH | rule post_let post_value | simp)+
  qed
  then show "M4 res" using assms by blast
qed

lemma copy_directory_inv [post_rules]: "J s \<Longrightarrow> careful mode \<Longrightarrow> post M4 (copy_directory X opts i u v skip mode s)"
  unfolding copy_directory_def by (rule post_rules | rule post_let post_value | simp)+

subsection \<open>Lists of items\<close>

lemma copy_item_once_inv [post_rules]:
  "J s \<Longrightarrow> careful (xi_mode i) \<Longrightarrow> post S3 (copy_item_once X i u r skip s)"
  unfolding copy_item_once_def by (rule post_rules | rule post_let post_value | simp add: careful_def)+

lemma ask_for_name_inv [simp]: "J s \<Longrightarrow> S2 (ask_for_name X u v n c r s)"
  by (simp add: ask_for_name_def split_def Let_def)

lemma copy_item_loop_inv [post_rules]:
  assumes "J s" "careful (xi_mode i)"
  shows "post S3 (copy_item_loop X i crs s)"
proof (rule postI)
  fix res
  assume res: "copy_item_loop X i crs s = Some res"
  have "X = X \<longrightarrow> J s \<longrightarrow> careful (xi_mode i) \<longrightarrow> S3 res"
  proof (rule copy_item_loop.raw_induct
      [where P = "\<lambda>X' i crs s res. X' = X \<longrightarrow> J s \<longrightarrow> careful (xi_mode i) \<longrightarrow> S3 res", OF _ res], goal_cases)
    case (1 f X' i crs s res)
    then have IH: "J s \<Longrightarrow> careful (xi_mode i) \<Longrightarrow> post S3 (f X i crs s)" for i crs s by (auto simp: post_def)
    show ?case
      by (intro impI, rule postD [OF _ 1(2)], hypsubst) (rule post_rules IH | rule post_let post_value | simp)+
  qed
  then show "S3 res" using assms by blast
qed

lemma set_duplicate_name_inv [simp]: "J (set_duplicate_name n s) = J s"
  by (simp add: set_duplicate_name_def)

lemma copy_items_inv [post_rules]:
  "J s \<Longrightarrow> careful mode \<Longrightarrow> post S3 (copy_items X opts mode us vs copied s)"
proof (induction us arbitrary: vs copied s)
  case (Cons u us)
  then show ?case
    by (cases vs; simp only: copy_items.simps) (rule post_rules Cons.IH | rule post_let post_value | simp)+
qed (simp add: post_def)

lemma link_item_loop_inv [post_rules]:
  assumes "J s"
  shows "post S3 (link_item_loop X i n s)"
proof (rule postI)
  fix res
  assume res: "link_item_loop X i n s = Some res"
  have "X = X \<longrightarrow> J s \<longrightarrow> S3 res"
  proof (rule link_item_loop.raw_induct [where P = "\<lambda>X' i n s res. X' = X \<longrightarrow> J s \<longrightarrow> S3 res", OF _ res], goal_cases)
    case (1 f X' i n s res)
    then have IH: "J s \<Longrightarrow> post S3 (f X i n s)" for i n s by (auto simp: post_def)
    show ?case
      by (intro impI, rule postD [OF _ 1(2)], hypsubst) (rule post_rules IH | rule post_let post_value | simp add: split_def Let_def)+
  qed
  then show "S3 res" using assms by blast
qed


lemma link_items_inv [post_rules]: "J s \<Longrightarrow> post S2 (link_items X opts us vs s)"
proof (induction us arbitrary: vs s)
  case (Cons u us)
  then show ?case
    by (cases vs; simp only: link_items.simps) (rule post_rules Cons.IH | rule post_let post_value | simp)+
qed (simp add: post_def)

subsection \<open>Counting\<close>

lemma count_each_file_size_one_inv [simp]: "J s \<Longrightarrow> S3 (count_each_file_size_one X p i l r s)"
  by (simp add: count_each_file_size_one_def split_def Let_def)

abbreviation W3 where "W3 r \<equiv> I (snd (snd r))"
abbreviation W4 where "W4 r \<equiv> I (snd (snd (snd r)))"

lemma count_visit_inv: "I w \<Longrightarrow> post W4 (count_visit X p i l d w)"
  using count_each_file_size_one_inv [of "visit_state d w" p i l False]
  by (simp add: count_visit_def visit_state_def post_def split_def Let_def)

lemmas world_rules = let3 [where P = I] bind3 [where P = I] bind4 [where P = I]

lemma visit_loop_inv:
  assumes "I w" "v_library V = L" "v_info_options V \<in> harmless_options"
    and "\<And>p i l d w. I w \<Longrightarrow> post W4 (v_callback V p i l d w)"
  shows "post W3 (visit_loop V F d w)"
proof (rule postI)
  fix res
  assume res: "visit_loop V F d w = Some res"
  have "V = V \<longrightarrow> I w \<longrightarrow> W3 res"
  proof (rule visit_loop.raw_induct [where P = "\<lambda>V' F d w res. V' = V \<longrightarrow> I w \<longrightarrow> W3 res", OF _ res], goal_cases)
    case (1 f V' F d w res)
    then have IH: "I w \<Longrightarrow> post W3 (f V F d w)" for F d w by (auto simp: post_def)
    show ?case
      by (intro impI, rule postD [OF _ 1(2)], hypsubst)
        (rule post_rules world_rules IH assms(4) | rule post_let post_value | simp add: assms(2,3))+
  qed
  then show "W3 res" using assms(1) by blast
qed

lemma directory_visit_inv:
  "I w \<Longrightarrow> opts \<in> harmless_options \<Longrightarrow> (\<And>p i l d w. I w \<Longrightarrow> post W4 (cb p i l d w)) \<Longrightarrow>
    post W3 (gnome_vfs_directory_visit_uri L u opts vopts cb d w)"
  unfolding gnome_vfs_directory_visit_uri_def directory_visit_internal_def
  by (rule post_rules world_rules visit_loop_inv | rule post_let post_value | simp)+

lemma visit_state_inv [simp]: "J (visit_state p w) = I w"
  by (simp add: visit_state_def)

lemma visit_list_inv [post_rules]:
  "J s \<Longrightarrow> opts \<in> harmless_options \<Longrightarrow> post S2 (gnome_vfs_visit_list X us opts vopts rec s)"
proof (induction us arbitrary: s)
  case (Cons u us)
  then show ?case
    by (simp only: gnome_vfs_visit_list.simps)
      (rule post_rules world_rules directory_visit_inv count_visit_inv Cons.IH | rule post_let post_value | simp)+
qed (simp add: post_def)

lemma list_add_items_and_size_inv [post_rules]: "J s \<Longrightarrow> post S2 (list_add_items_and_size X us opts rec s)"
  unfolding list_add_items_and_size_def by (rule post_rules | simp)+

lemma count_items_and_size_inv [post_rules]: "J s \<Longrightarrow> post S2 (count_items_and_size X us opts move link s)"
  unfolding count_items_and_size_def by (rule post_rules | simp)+

subsection \<open>Name conflicts and transfers\<close>

lemma count_conflicts_inv [simp]: "J s \<Longrightarrow> S2 (count_conflicts X us n s)"
  by (induction us arbitrary: n s) (simp_all add: split_def Let_def)

lemma bind_resolved:
  fixes m :: "('a \<times> 'b \<times> 'c \<times> GnomeVFSXferOverwriteMode \<times> 'd \<times> 'w xfer_state) option"
  assumes "post (\<lambda>(a, b, c, md, d, s). careful md \<and> J s) m" "\<And>a b c md d s. careful md \<Longrightarrow> J s \<Longrightarrow> post Q (f a b c md d s)"
  shows "post Q (Option.bind m (\<lambda>(a, b, c, md, d, s). f a b c md d s))"
  using assms by (cases m) (auto simp: post_def)

lemma post_let_if:
  "(b \<Longrightarrow> post Q (Let x f)) \<Longrightarrow> (\<not> b \<Longrightarrow> post Q (Let y f)) \<Longrightarrow> post Q (Let (if b then x else y) f)"
  by simp

lemma overwrite_let:
  assumes "J s" "careful mode" "\<And>r skip s'. J s' \<Longrightarrow> post Q (Let (f False r False skip mode s') g)"
  shows "post Q (Let (Let (handle_overwrite X r mode s) (\<lambda>(a, b, c, d, md, s). f a b c d md s)) g)"
  using assms by (auto simp: handle_overwrite_def careful_def)

lemma resolve_conflict_inv:
  assumes "J s" "careful mode"
  shows "post (\<lambda>(a, b, c, md, d, s). careful md \<and> J s) (resolve_conflict X opts move link u v mode i s)"
  unfolding resolve_conflict_def using assms
  by - (rule post_rules | rule post_let_if overwrite_let bind_state4 | rule post_let post_value | simp)+

lemma conflict_loop_inv [post_rules]:
  "J s \<Longrightarrow> careful mode \<Longrightarrow> post M4 (conflict_loop X opts move link us vs mode i l s)"
proof (induction vs arbitrary: us mode i l s)
  case (Cons v vs)
  then show ?case
    by (cases us; simp only: conflict_loop.simps)
      (rule post_rules bind_resolved resolve_conflict_inv Cons.IH | rule post_let post_value | simp)+
qed (simp add: post_def)

lemma handle_name_conflicts_inv [post_rules]:
  "J s \<Longrightarrow> careful mode \<Longrightarrow> post M4 (handle_name_conflicts X opts move link us vs mode s)"
  unfolding handle_name_conflicts_def by (rule post_rules | rule post_let | simp)+

lemma destination_is_writable_inv [simp]: "J s \<Longrightarrow> S2 (gnome_vfs_destination_is_writable X u s)"
  by (simp add: gnome_vfs_destination_is_writable_def split_def Let_def split: option.split)

lemma same_fs_loop_inv:
  "J s \<Longrightarrow> \<not> move \<Longrightarrow> post (\<lambda>(r, move, s). \<not> move \<and> J s) (same_fs_loop X d us move s)"
proof (induction us arbitrary: s)
  case (Cons u us)
  then show ?case
    by (simp only: same_fs_loop.simps) (rule post_rules Cons.IH | rule post_let post_value | simp)+
qed (simp add: post_def)

lemma check_free_space_inv [post_rules]: "J s \<Longrightarrow> post S2 (check_free_space X u needed s)"
  unfolding check_free_space_def by (rule post_rules | rule post_let post_value | simp)+

lemma prepare_lists_inv [post_rules]:
  "J s \<Longrightarrow> careful mode \<Longrightarrow> post M4 (prepare_lists X opts False link us vs mode s)"
  unfolding prepare_lists_def by (rule post_rules | rule post_let post_value | simp)+

lemma transfer_lists_inv [post_rules]:
  "J s \<Longrightarrow> careful mode \<Longrightarrow> \<not> has_option opts GNOME_VFS_XFER_REMOVESOURCE \<Longrightarrow> post S2 (transfer_lists X opts False link l mode s)"
  unfolding transfer_lists_def by (rule post_rules | rule post_let post_value | simp)+

lemma transfer_counted_inv [post_rules]:
  "J s \<Longrightarrow> careful mode \<Longrightarrow> \<not> has_option opts GNOME_VFS_XFER_REMOVESOURCE \<Longrightarrow>
    post S2 (transfer_counted X opts False link us vs mode s)"
  unfolding transfer_counted_def by (rule post_rules | rule post_let post_value | simp add: split_def Let_def)+

lemma bind_moved:
  fixes m :: "('a \<times> bool \<times> 'w xfer_state) option"
  assumes "post (\<lambda>(a, move, s). \<not> move \<and> J s) m" "\<And>a s. J s \<Longrightarrow> post Q (f a False s)"
  shows "post Q (Option.bind m (\<lambda>(a, move, s). f a move s))"
  using assms by (cases m) (auto simp: post_def)

lemma xfer_uri_internal_inv:
  "J s \<Longrightarrow> careful mode \<Longrightarrow> \<not> has_option opts GNOME_VFS_XFER_REMOVESOURCE \<Longrightarrow>
    post S2 (gnome_vfs_xfer_uri_internal X us vs opts mode s)"
  unfolding gnome_vfs_xfer_uri_internal_def
  by (rule bind_moved post_rules same_fs_loop_inv | rule post_let post_value | simp)+

lemma xfer_uri_list_inv:
  assumes "sync_xfer Y callback error_mode = X" "I w" "careful mode" "\<not> has_option opts GNOME_VFS_XFER_REMOVESOURCE"
  shows "post (\<lambda>r. I (snd r)) (gnome_vfs_xfer_uri_list Y us vs opts error_mode mode callback w)"
  unfolding gnome_vfs_xfer_uri_list_def assms(1) using assms(2-)
  by - (rule post_rules xfer_uri_internal_inv | rule post_let | simp add: xfer_start_def)+

end

end
