(* ===== verification/VFS_Posix.thy ===== *)
theory VFS_Posix
  imports VFS_Ops
begin

text \<open>
  What the module for local files (\<^verbatim>\<open>modules/file-method.c\<close>) stands on: the system calls, which
  are parameters; the module's own memory; the structure \<^verbatim>\<open>stat\<close> and its translation into a
  file information (\<^verbatim>\<open>libgnomevfs/gnome-vfs-module-shared.c\<close>).
\<close>

section \<open>File status\<close>

record stat =
  st_mode :: guint
  st_dev :: int
  st_ino :: "64 word"
  st_nlink :: "64 word"
  st_uid :: guint
  st_gid :: guint
  st_size :: file_size
  st_blocks :: "64 word"
  st_blksize :: "64 word"
  st_atime :: int
  st_mtime :: int
  st_ctime :: int

definition S_IFMT :: guint where "S_IFMT = 61440"
definition S_ISDIR :: "guint \<Rightarrow> bool" where "S_ISDIR m \<longleftrightarrow> (m AND S_IFMT) = 16384"
definition S_ISCHR :: "guint \<Rightarrow> bool" where "S_ISCHR m \<longleftrightarrow> (m AND S_IFMT) = 8192"
definition S_ISBLK :: "guint \<Rightarrow> bool" where "S_ISBLK m \<longleftrightarrow> (m AND S_IFMT) = 24576"
definition S_ISFIFO :: "guint \<Rightarrow> bool" where "S_ISFIFO m \<longleftrightarrow> (m AND S_IFMT) = 4096"
definition S_ISSOCK :: "guint \<Rightarrow> bool" where "S_ISSOCK m \<longleftrightarrow> (m AND S_IFMT) = 49152"
definition S_ISREG :: "guint \<Rightarrow> bool" where "S_ISREG m \<longleftrightarrow> (m AND S_IFMT) = 32768"
definition S_ISLNK :: "guint \<Rightarrow> bool" where "S_ISLNK m \<longleftrightarrow> (m AND S_IFMT) = 40960"

definition GNOME_VFS_FILE_FLAGS_SYMLINK :: guint where "GNOME_VFS_FILE_FLAGS_SYMLINK = 1"
definition GNOME_VFS_FILE_INFO_FIELDS_NONE :: guint where "GNOME_VFS_FILE_INFO_FIELDS_NONE = 0"
definition GNOME_VFS_FILE_INFO_FIELDS_TYPE :: guint where "GNOME_VFS_FILE_INFO_FIELDS_TYPE = 1"
definition GNOME_VFS_FILE_INFO_FIELDS_FLAGS :: guint where "GNOME_VFS_FILE_INFO_FIELDS_FLAGS = 4"
definition GNOME_VFS_FILE_INFO_FIELDS_LINK_COUNT :: guint where "GNOME_VFS_FILE_INFO_FIELDS_LINK_COUNT = 32"
definition GNOME_VFS_FILE_INFO_FIELDS_BLOCK_COUNT :: guint where "GNOME_VFS_FILE_INFO_FIELDS_BLOCK_COUNT = 128"
definition GNOME_VFS_FILE_INFO_FIELDS_ATIME :: guint where "GNOME_VFS_FILE_INFO_FIELDS_ATIME = 512"
definition GNOME_VFS_FILE_INFO_FIELDS_MTIME :: guint where "GNOME_VFS_FILE_INFO_FIELDS_MTIME = 1024"
definition GNOME_VFS_FILE_INFO_FIELDS_CTIME :: guint where "GNOME_VFS_FILE_INFO_FIELDS_CTIME = 2048"
definition GNOME_VFS_FILE_INFO_FIELDS_MIME_TYPE :: guint where "GNOME_VFS_FILE_INFO_FIELDS_MIME_TYPE = 8192"
definition GNOME_VFS_FILE_INFO_FIELDS_IDS :: guint where "GNOME_VFS_FILE_INFO_FIELDS_IDS = 32768"
definition GNOME_VFS_FILE_INFO_FIELDS_SELINUX_CONTEXT :: guint where "GNOME_VFS_FILE_INFO_FIELDS_SELINUX_CONTEXT = 131072"
definition GNOME_VFS_FILE_INFO_GET_MIME_TYPE :: guint where "GNOME_VFS_FILE_INFO_GET_MIME_TYPE = 1"
definition GNOME_VFS_FILE_INFO_FORCE_FAST_MIME_TYPE :: guint where "GNOME_VFS_FILE_INFO_FORCE_FAST_MIME_TYPE = 2"
definition GNOME_VFS_FILE_INFO_FORCE_SLOW_MIME_TYPE :: guint where "GNOME_VFS_FILE_INFO_FORCE_SLOW_MIME_TYPE = 4"
definition GNOME_VFS_FILE_INFO_NAME_ONLY :: guint where "GNOME_VFS_FILE_INFO_NAME_ONLY = 32"
definition GNOME_VFS_FILE_INFO_GET_ACL :: guint where "GNOME_VFS_FILE_INFO_GET_ACL = 64"
definition GNOME_VFS_FILE_INFO_GET_SELINUX_CONTEXT :: guint where "GNOME_VFS_FILE_INFO_GET_SELINUX_CONTEXT = 128"
definition GNOME_VFS_SET_FILE_INFO_ACL :: guint where "GNOME_VFS_SET_FILE_INFO_ACL = 16"
definition GNOME_VFS_SET_FILE_INFO_SELINUX_CONTEXT :: guint where "GNOME_VFS_SET_FILE_INFO_SELINUX_CONTEXT = 32"
definition GNOME_VFS_SET_FILE_INFO_SYMLINK_NAME :: guint where "GNOME_VFS_SET_FILE_INFO_SYMLINK_NAME = 64"
definition GNOME_VFS_PERM_SUID :: guint where "GNOME_VFS_PERM_SUID = 2048"
definition GNOME_VFS_PERM_STICKY :: guint where "GNOME_VFS_PERM_STICKY = 512"
definition GNOME_VFS_PERM_USER_ALL :: guint where "GNOME_VFS_PERM_USER_ALL = 448"
definition GNOME_VFS_PERM_GROUP_ALL :: guint where "GNOME_VFS_PERM_GROUP_ALL = 56"
definition GNOME_VFS_PERM_OTHER_ALL :: guint where "GNOME_VFS_PERM_OTHER_ALL = 7"
definition GNOME_VFS_PERM_ACCESS_READABLE :: guint where "GNOME_VFS_PERM_ACCESS_READABLE = 65536"

text \<open>A bit of a word of options, modes or fields.\<close>

definition flag :: "guint \<Rightarrow> guint \<Rightarrow> bool" where
  "flag options bits \<longleftrightarrow> (options AND bits) \<noteq> 0"

definition GNOME_VFS_FILE_INFO_SET_LOCAL :: "GnomeVFSFileInfo \<Rightarrow> bool \<Rightarrow> GnomeVFSFileInfo" where
  "GNOME_VFS_FILE_INFO_SET_LOCAL info v =
     info\<lparr>fi_flags := (if v then fi_flags info OR GNOME_VFS_FILE_FLAGS_LOCAL
                       else fi_flags info AND NOT GNOME_VFS_FILE_FLAGS_LOCAL)\<rparr>"

definition GNOME_VFS_FILE_INFO_SET_SYMLINK :: "GnomeVFSFileInfo \<Rightarrow> bool \<Rightarrow> GnomeVFSFileInfo" where
  "GNOME_VFS_FILE_INFO_SET_SYMLINK info v =
     info\<lparr>fi_flags := (if v then fi_flags info OR GNOME_VFS_FILE_FLAGS_SYMLINK
                       else fi_flags info AND NOT GNOME_VFS_FILE_FLAGS_SYMLINK)\<rparr>"

definition type_of_mode :: "guint \<Rightarrow> GnomeVFSFileType" where
  "type_of_mode m =
     (if S_ISDIR m then GNOME_VFS_FILE_TYPE_DIRECTORY
      else if S_ISCHR m then GNOME_VFS_FILE_TYPE_CHARACTER_DEVICE
      else if S_ISBLK m then GNOME_VFS_FILE_TYPE_BLOCK_DEVICE
      else if S_ISFIFO m then GNOME_VFS_FILE_TYPE_FIFO
      else if S_ISSOCK m then GNOME_VFS_FILE_TYPE_SOCKET
      else if S_ISREG m then GNOME_VFS_FILE_TYPE_REGULAR
      else if S_ISLNK m then GNOME_VFS_FILE_TYPE_SYMBOLIC_LINK
      else GNOME_VFS_FILE_TYPE_UNKNOWN)"

definition permission_bits :: guint where
  "permission_bits =
     GNOME_VFS_PERM_USER_ALL OR GNOME_VFS_PERM_GROUP_ALL OR GNOME_VFS_PERM_OTHER_ALL
     OR GNOME_VFS_PERM_SUID OR GNOME_VFS_PERM_SGID OR GNOME_VFS_PERM_STICKY"

definition stat_fields :: guint where
  "stat_fields =
     GNOME_VFS_FILE_INFO_FIELDS_TYPE OR GNOME_VFS_FILE_INFO_FIELDS_PERMISSIONS OR GNOME_VFS_FILE_INFO_FIELDS_FLAGS
     OR GNOME_VFS_FILE_INFO_FIELDS_DEVICE OR GNOME_VFS_FILE_INFO_FIELDS_INODE OR GNOME_VFS_FILE_INFO_FIELDS_LINK_COUNT
     OR GNOME_VFS_FILE_INFO_FIELDS_SIZE OR GNOME_VFS_FILE_INFO_FIELDS_BLOCK_COUNT
     OR GNOME_VFS_FILE_INFO_FIELDS_IO_BLOCK_SIZE OR GNOME_VFS_FILE_INFO_FIELDS_ATIME
     OR GNOME_VFS_FILE_INFO_FIELDS_MTIME OR GNOME_VFS_FILE_INFO_FIELDS_CTIME OR GNOME_VFS_FILE_INFO_FIELDS_IDS"

text \<open>Counts and block sizes of the system are wider than the fields they are stored in.\<close>

definition gnome_vfs_stat_to_file_info :: "GnomeVFSFileInfo \<Rightarrow> stat \<Rightarrow> GnomeVFSFileInfo" where
  "gnome_vfs_stat_to_file_info info st =
     (let block_size = (ucast (st_blksize st) :: guint)
      in info\<lparr>file_type := type_of_mode (st_mode st), permissions := st_mode st AND permission_bits,
              device := st_dev st, inode := st_ino st, link_count := ucast (st_nlink st),
              uid := st_uid st, gid := st_gid st, fi_size := st_size st, block_count := st_blocks st,
              io_block_size := (if 0 < block_size \<and> block_size < 4096 then 4096 else block_size),
              atime := st_atime st, ctime := st_ctime st, mtime := st_mtime st,
              valid_fields := valid_fields info OR stat_fields\<rparr>)"

section \<open>System calls\<close>

datatype access_mode = O_RDONLY | O_WRONLY | O_RDWR

record unix_mode =
  um_access :: access_mode
  um_creat :: bool
  um_excl :: bool
  um_trunc :: bool

datatype seek_whence = SEEK_SET | SEEK_CUR | SEEK_END

record statvfs =
  f_frsize :: file_size
  f_bavail :: file_size
  f_bfree :: file_size

text \<open>
  The system calls of a process on a kernel of type \<open>'k\<close>: an error number or what the call
  returns. A read returns at most what was asked for, and neither a read nor a write
  transfers \<open>2 ^ 31\<close> bytes or more at once, so that the counts fit the module's variables of
  type \<^verbatim>\<open>gint\<close>. \<open>px_errno\<close> is what \<^verbatim>\<open>errno\<close> holds after a call that succeeded.
\<close>

type_synonym ('a, 'k) syscall = "'k \<Rightarrow> (errno_code + 'a) \<times> 'k"

record 'k posix =
  px_open :: "string \<Rightarrow> unix_mode \<Rightarrow> guint \<Rightarrow> (nat, 'k) syscall"
  px_close :: "nat \<Rightarrow> (unit, 'k) syscall"
  px_read :: "nat \<Rightarrow> file_size \<Rightarrow> (string, 'k) syscall"
  px_write :: "nat \<Rightarrow> string \<Rightarrow> (nat, 'k) syscall"
  px_lseek :: "nat \<Rightarrow> int \<Rightarrow> seek_whence \<Rightarrow> (file_size, 'k) syscall"
  px_ftruncate :: "nat \<Rightarrow> file_size \<Rightarrow> (unit, 'k) syscall"
  px_truncate :: "string \<Rightarrow> file_size \<Rightarrow> (unit, 'k) syscall"
  px_fadvise :: "nat \<Rightarrow> int \<Rightarrow> file_size \<Rightarrow> 'k \<Rightarrow> 'k"
  px_fstat :: "nat \<Rightarrow> (stat, 'k) syscall"
  px_stat :: "string \<Rightarrow> (stat, 'k) syscall"
  px_lstat :: "string \<Rightarrow> (stat, 'k) syscall"
  px_readlink :: "string \<Rightarrow> nat \<Rightarrow> (string, 'k) syscall"
  px_access :: "string \<Rightarrow> bool \<Rightarrow> bool \<Rightarrow> bool \<Rightarrow> 'k \<Rightarrow> bool \<times> 'k"
  px_opendir :: "string \<Rightarrow> (nat, 'k) syscall"
  px_readdir :: "nat \<Rightarrow> (string option, 'k) syscall"
  px_closedir :: "nat \<Rightarrow> 'k \<Rightarrow> 'k"
  px_mkdir :: "string \<Rightarrow> guint \<Rightarrow> (unit, 'k) syscall"
  px_rmdir :: "string \<Rightarrow> (unit, 'k) syscall"
  px_unlink :: "string \<Rightarrow> (unit, 'k) syscall"
  px_rename :: "string \<Rightarrow> string \<Rightarrow> (unit, 'k) syscall"
  px_symlink :: "string \<Rightarrow> string \<Rightarrow> (unit, 'k) syscall"
  px_chmod :: "string \<Rightarrow> guint \<Rightarrow> (unit, 'k) syscall"
  px_chown :: "string \<Rightarrow> guint \<Rightarrow> guint \<Rightarrow> (unit, 'k) syscall"
  px_utime :: "string \<Rightarrow> int \<Rightarrow> int \<Rightarrow> (unit, 'k) syscall"
  px_statvfs :: "string \<Rightarrow> (statvfs, 'k) syscall"
  px_statfs_type :: "string \<Rightarrow> (int, 'k) syscall"
  px_mkstemp :: "string \<Rightarrow> (nat \<times> string, 'k) syscall"
  px_fchmod :: "nat \<Rightarrow> guint \<Rightarrow> 'k \<Rightarrow> 'k"
  px_getfilecon :: "string \<Rightarrow> (string, 'k) syscall"
  px_lgetfilecon :: "string \<Rightarrow> (string, 'k) syscall"
  px_fgetfilecon :: "nat \<Rightarrow> (string, 'k) syscall"
  px_setfilecon :: "string \<Rightarrow> string option \<Rightarrow> (unit, 'k) syscall"
  px_errno :: "'k \<Rightarrow> errno_code"

section \<open>The module's memory\<close>

record FileHandle =
  fh_uri :: GnomeVFSURI
  fh_fd :: nat

text \<open>
  \<^verbatim>\<open>name_buffer\<close> up to \<^verbatim>\<open>name_ptr\<close>; what is behind is overwritten with every entry.
\<close>

record DirectoryHandle =
  dh_uri :: GnomeVFSURI
  dh_options :: guint
  dh_dir :: nat
  dh_prefix :: string

record TrashDirectoryCachedItem =
  td_path :: string
  td_device_mount_point :: string
  td_device_id :: int

text \<open>
  The handles that were allocated, by their addresses, the next free address, strings stored
  for the callers of \<^verbatim>\<open>do_file_control\<close>, the cache of trash directories, and the kernel. A
  call that never returns leaves a world that is marked as stuck: nothing happens in it any
  more, and what a definition says of it says nothing about the program.
\<close>

record 'k file_world =
  fw_kernel :: 'k
  fw_files :: "nat \<Rightarrow> FileHandle option"
  fw_dirs :: "nat \<Rightarrow> DirectoryHandle option"
  fw_next :: nat
  fw_strings :: "nat \<Rightarrow> string option"
  fw_trash :: "TrashDirectoryCachedItem list"
  fw_stuck :: bool

text \<open>
  What the module calls besides the system: the parsing of URIs, GLib's path functions, the
  home directory and the name of the user, MIME detection, access control lists, the type of
  a file system, opening and closing by way of the library, and whether SELinux is in use.
\<close>

record 'k file_env =
  fe_posix :: "'k posix"
  fe_env :: vfs_env
  fe_build_filename :: "string \<Rightarrow> string \<Rightarrow> string"
  fe_path_get_dirname :: "string \<Rightarrow> string"
  fe_home :: string
  fe_user :: string
  fe_mime_type :: "string \<Rightarrow> stat \<Rightarrow> bool \<Rightarrow> 'k \<Rightarrow> string \<times> 'k"
  fe_mime_type_fast :: "string \<Rightarrow> stat \<Rightarrow> 'k \<Rightarrow> string \<times> 'k"
  fe_get_acl :: "string \<Rightarrow> GnomeVFSFileInfo \<Rightarrow> stat \<Rightarrow> 'k \<Rightarrow> GnomeVFSFileInfo \<times> 'k"
  fe_set_acl :: "string \<Rightarrow> GnomeVFSFileInfo \<Rightarrow> 'k \<Rightarrow> GnomeVFSResult \<times> 'k"
  fe_filesystem_type :: "string \<Rightarrow> stat \<Rightarrow> 'k \<Rightarrow> string \<times> 'k"
  fe_vfs_open :: "string \<Rightarrow> guint \<Rightarrow> 'k file_world \<Rightarrow> GnomeVFSResult \<times> GnomeVFSHandle option \<times> 'k file_world"
  fe_vfs_close :: "GnomeVFSHandle \<Rightarrow> 'k file_world \<Rightarrow> GnomeVFSResult \<times> 'k file_world"
  fe_read_text :: "string \<Rightarrow> 'k \<Rightarrow> string option \<times> 'k"
  fe_selinux :: bool

definition on_kernel :: "('k \<Rightarrow> 'a \<times> 'k) \<Rightarrow> 'k file_world \<Rightarrow> 'a \<times> 'k file_world" where
  "on_kernel f w = (let (a, k) = f (fw_kernel w) in (a, w\<lparr>fw_kernel := k\<rparr>))"

definition do_kernel :: "('k \<Rightarrow> 'k) \<Rightarrow> 'k file_world \<Rightarrow> 'k file_world" where
  "do_kernel f w = w\<lparr>fw_kernel := f (fw_kernel w)\<rparr>"

text \<open>The result of a call that returns nothing but success.\<close>

definition unix_result :: "errno_code + 'a \<Rightarrow> GnomeVFSResult" where
  "unix_result r = (case r of Inl e \<Rightarrow> gnome_vfs_result_from_errno_code e | Inr x \<Rightarrow> GNOME_VFS_OK)"

definition succeeded :: "errno_code + 'a \<Rightarrow> bool" where
  "succeeded r = (case r of Inl e \<Rightarrow> False | Inr x \<Rightarrow> True)"

definition interrupted :: "errno_code + 'a \<Rightarrow> bool" where
  "interrupted r = (case r of Inl e \<Rightarrow> e = EINTR | Inr x \<Rightarrow> False)"

text \<open>Calls that a signal interrupted are repeated until the operation is cancelled.\<close>

partial_function (option) retry ::
    "('k file_world \<Rightarrow> (errno_code + 'a) \<times> 'k file_world) \<Rightarrow> vfs_context \<Rightarrow> 'k file_world
      \<Rightarrow> ((errno_code + 'a) \<times> 'k file_world) option" where
  "retry call ctx w =
     (let (r, w1) = call w
      in if interrupted r \<and> \<not> gnome_vfs_context_check_cancellation ctx then retry call ctx w1 else Some (r, w1))"

declare retry.simps [code]

text \<open>A method returns what its function returns, or leaves a stuck world.\<close>

definition or_stuck :: "'a \<Rightarrow> 'k file_world \<Rightarrow> ('a \<times> 'k file_world) option \<Rightarrow> 'a \<times> 'k file_world" where
  "or_stuck dummy w r = (case r of None \<Rightarrow> (dummy, w\<lparr>fw_stuck := True\<rparr>) | Some aw \<Rightarrow> aw)"

definition or_stuck2 :: "'a \<Rightarrow> 'b \<Rightarrow> 'k file_world \<Rightarrow> ('a \<times> 'b \<times> 'k file_world) option \<Rightarrow> 'a \<times> 'b \<times> 'k file_world" where
  "or_stuck2 a b w r = (case r of None \<Rightarrow> (a, b, w\<lparr>fw_stuck := True\<rparr>) | Some abw \<Rightarrow> abw)"

end
