(* ===== verification/VFS_FileMethod.thy ===== *)
theory VFS_FileMethod
  imports VFS_Posix
begin

text \<open>
  The module for local files (\<^verbatim>\<open>modules/file-method.c\<close>): one definition per function of its
  table, \<open>None\<close> for a call that does not return. A handle that was never allocated, or was
  freed, is refused like a null pointer.
\<close>

section \<open>Paths and handles\<close>

definition get_path_from_uri :: "GnomeVFSURI \<Rightarrow> string option" where
  "get_path_from_uri uri =
     (case gnome_vfs_unescape_string (elem_text (uri_elem uri)) (Some [slash]) of
        None \<Rightarrow> None | Some path \<Rightarrow> if g_path_is_absolute path then Some path else None)"

definition get_base_from_uri :: "GnomeVFSURI \<Rightarrow> string option" where
  "get_base_from_uri uri = gnome_vfs_unescape_string (gnome_vfs_uri_extract_short_path_name uri) (Some [slash])"

text \<open>
  A handle is the address that \<^verbatim>\<open>g_new\<close> returns. The model numbers the allocations instead, so
  a freed number is never given out again; in C the address of a freed handle may come back.
  Nothing below depends on an address being used again, or on its not being, once it is
  freed: what is used of \<^verbatim>\<open>g_new\<close> is that a new handle differs from those still allocated.
\<close>

definition file_handle_new :: "GnomeVFSURI \<Rightarrow> nat \<Rightarrow> 'k file_world \<Rightarrow> nat \<times> 'k file_world" where
  "file_handle_new uri fd w =
     (fw_next w, w\<lparr>fw_files := (fw_files w)(fw_next w := Some \<lparr>fh_uri = uri, fh_fd = fd\<rparr>), fw_next := fw_next w + 1\<rparr>)"

definition file_handle_destroy :: "nat \<Rightarrow> 'k file_world \<Rightarrow> 'k file_world" where
  "file_handle_destroy handle w = w\<lparr>fw_files := (fw_files w)(handle := None)\<rparr>"

section \<open>Open files\<close>

text \<open>The access mode; \<open>None\<close> is an invalid open mode.\<close>

definition open_access :: "guint \<Rightarrow> access_mode option" where
  "open_access mode =
     (if flag mode GNOME_VFS_OPEN_READ then (if flag mode GNOME_VFS_OPEN_WRITE then Some O_RDWR else Some O_RDONLY)
      else if flag mode GNOME_VFS_OPEN_WRITE then Some O_WRONLY else None)"

text \<open>When the status cannot be read the descriptor stays open.\<close>

definition do_open ::
    "'k file_env \<Rightarrow> GnomeVFSURI \<Rightarrow> guint \<Rightarrow> vfs_context \<Rightarrow> 'k file_world \<Rightarrow> (GnomeVFSResult \<times> nat \<times> 'k file_world) option" where
  "do_open E uri mode ctx w =
     (case open_access mode of
        None \<Rightarrow> Some (GNOME_VFS_ERROR_INVALID_OPEN_MODE, 0, w)
      | Some acc \<Rightarrow>
          (case get_path_from_uri uri of
             None \<Rightarrow> Some (GNOME_VFS_ERROR_INVALID_URI, 0, w)
           | Some file_name \<Rightarrow>
               let unix_mode = \<lparr>um_access = acc, um_creat = False, um_excl = False,
                                um_trunc = (flag mode GNOME_VFS_OPEN_TRUNCATE
                                            \<or> \<not> flag mode GNOME_VFS_OPEN_RANDOM \<and> flag mode GNOME_VFS_OPEN_WRITE)\<rparr>
               in do {
                 (opened, w1) \<leftarrow> retry (on_kernel (px_open (fe_posix E) file_name unix_mode 0)) ctx w;
                 case opened of
                   Inl e \<Rightarrow> Some (gnome_vfs_result_from_errno_code e, 0, w1)
                 | Inr fd \<Rightarrow>
                     let w2 = (if flag mode GNOME_VFS_OPEN_RANDOM then w1
                               else do_kernel (px_fadvise (fe_posix E) fd 0 0) w1);
                         (status, w3) = on_kernel (px_fstat (fe_posix E) fd) w2
                     in case status of
                          Inl e \<Rightarrow> Some (gnome_vfs_result_from_errno_code e, 0, w3)
                        | Inr st \<Rightarrow>
                            if S_ISDIR (st_mode st)
                            then Some (GNOME_VFS_ERROR_IS_DIRECTORY, 0, snd (on_kernel (px_close (fe_posix E) fd) w3))
                            else let (handle, w4) = file_handle_new uri fd w3 in Some (GNOME_VFS_OK, handle, w4)
               }))"

definition do_create ::
    "'k file_env \<Rightarrow> GnomeVFSURI \<Rightarrow> guint \<Rightarrow> bool \<Rightarrow> guint \<Rightarrow> vfs_context \<Rightarrow> 'k file_world
      \<Rightarrow> (GnomeVFSResult \<times> nat \<times> 'k file_world) option" where
  "do_create E uri mode exclusive perm ctx w =
     (if \<not> flag mode GNOME_VFS_OPEN_WRITE then Some (GNOME_VFS_ERROR_INVALID_OPEN_MODE, 0, w)
      else case get_path_from_uri uri of
             None \<Rightarrow> Some (GNOME_VFS_ERROR_INVALID_URI, 0, w)
           | Some file_name \<Rightarrow>
               let unix_mode = \<lparr>um_access = (if flag mode GNOME_VFS_OPEN_READ then O_RDWR else O_WRONLY),
                                um_creat = True, um_excl = exclusive, um_trunc = True\<rparr>
               in do {
                 (opened, w1) \<leftarrow> retry (on_kernel (px_open (fe_posix E) file_name unix_mode perm)) ctx w;
                 case opened of
                   Inl e \<Rightarrow> Some (gnome_vfs_result_from_errno_code e, 0, w1)
                 | Inr fd \<Rightarrow> let (handle, w2) = file_handle_new uri fd w1 in Some (GNOME_VFS_OK, handle, w2)
               })"

text \<open>The handle is freed whether the file could be closed or not.\<close>

definition do_close ::
    "'k file_env \<Rightarrow> nat \<Rightarrow> vfs_context \<Rightarrow> 'k file_world \<Rightarrow> (GnomeVFSResult \<times> 'k file_world) option" where
  "do_close E handle ctx w =
     (case fw_files w handle of
        None \<Rightarrow> Some (GNOME_VFS_ERROR_INTERNAL, w)
      | Some fh \<Rightarrow> do {
          (r, w1) \<leftarrow> retry (on_kernel (px_close (fe_posix E) (fh_fd fh))) ctx w;
          Some (unix_result r, file_handle_destroy handle w1)
        })"

definition do_forget_cache ::
    "'k file_env \<Rightarrow> nat \<Rightarrow> int \<Rightarrow> file_size \<Rightarrow> 'k file_world \<Rightarrow> GnomeVFSResult \<times> 'k file_world" where
  "do_forget_cache E handle offset len w =
     (case fw_files w handle of
        None \<Rightarrow> (GNOME_VFS_ERROR_INTERNAL, w)
      | Some fh \<Rightarrow> (GNOME_VFS_OK, do_kernel (px_fadvise (fe_posix E) (fh_fd fh) offset len) w))"

definition do_read ::
    "'k file_env \<Rightarrow> nat \<Rightarrow> file_size \<Rightarrow> vfs_context \<Rightarrow> 'k file_world \<Rightarrow> (GnomeVFSResult \<times> string \<times> 'k file_world) option" where
  "do_read E handle num_bytes ctx w =
     (case fw_files w handle of
        None \<Rightarrow> Some (GNOME_VFS_ERROR_INTERNAL, [], w)
      | Some fh \<Rightarrow> do {
          (r, w1) \<leftarrow> retry (on_kernel (px_read (fe_posix E) (fh_fd fh) num_bytes)) ctx w;
          case r of
            Inl e \<Rightarrow> Some (gnome_vfs_result_from_errno_code e, [], w1)
          | Inr buffer \<Rightarrow> Some (if buffer = [] then GNOME_VFS_ERROR_EOF else GNOME_VFS_OK, buffer, w1)
        })"

definition do_write ::
    "'k file_env \<Rightarrow> nat \<Rightarrow> string \<Rightarrow> vfs_context \<Rightarrow> 'k file_world \<Rightarrow> (GnomeVFSResult \<times> nat option \<times> 'k file_world) option" where
  "do_write E handle buffer ctx w =
     (case fw_files w handle of
        None \<Rightarrow> Some (GNOME_VFS_ERROR_INTERNAL, None, w)
      | Some fh \<Rightarrow> do {
          (r, w1) \<leftarrow> retry (on_kernel (px_write (fe_posix E) (fh_fd fh) buffer)) ctx w;
          case r of
            Inl e \<Rightarrow> Some (gnome_vfs_result_from_errno_code e, Some 0, w1)
          | Inr n \<Rightarrow> Some (GNOME_VFS_OK, Some n, w1)
        })"

text \<open>Values of \<^verbatim>\<open>GnomeVFSSeekPosition\<close>: start, current, end; anything else is taken for the start.\<close>

definition seek_position_to_unix :: "nat \<Rightarrow> seek_whence" where
  "seek_position_to_unix position =
     (if position = 0 then SEEK_SET else if position = 1 then SEEK_CUR else if position = 2 then SEEK_END else SEEK_SET)"

text \<open>\<^verbatim>\<open>ESPIPE\<close> is 29 on the systems the module is built for.\<close>

definition ESPIPE :: errno_code where "ESPIPE = E_OTHER 29"

definition lseek_result :: "errno_code + file_size \<Rightarrow> GnomeVFSResult" where
  "lseek_result r =
     (case r of Inl e \<Rightarrow> if e = ESPIPE then GNOME_VFS_ERROR_NOT_SUPPORTED else gnome_vfs_result_from_errno_code e
      | Inr n \<Rightarrow> GNOME_VFS_OK)"

definition do_seek ::
    "'k file_env \<Rightarrow> nat \<Rightarrow> nat \<Rightarrow> int \<Rightarrow> vfs_context \<Rightarrow> 'k file_world \<Rightarrow> GnomeVFSResult \<times> 'k file_world" where
  "do_seek E handle whence offset ctx w =
     (case fw_files w handle of
        None \<Rightarrow> (GNOME_VFS_ERROR_INTERNAL, w)
      | Some fh \<Rightarrow>
          let (r, w1) = on_kernel (px_lseek (fe_posix E) (fh_fd fh) offset (seek_position_to_unix whence)) w
          in (lseek_result r, w1))"

definition do_tell :: "'k file_env \<Rightarrow> nat \<Rightarrow> 'k file_world \<Rightarrow> GnomeVFSResult \<times> file_size \<times> 'k file_world" where
  "do_tell E handle w =
     (case fw_files w handle of
        None \<Rightarrow> (GNOME_VFS_ERROR_INTERNAL, 0, w)
      | Some fh \<Rightarrow>
          let (r, w1) = on_kernel (px_lseek (fe_posix E) (fh_fd fh) 0 SEEK_CUR) w
          in (lseek_result r, case r of Inl e \<Rightarrow> 0 | Inr n \<Rightarrow> n, w1))"

definition truncate_result :: "errno_code + unit \<Rightarrow> GnomeVFSResult" where
  "truncate_result r =
     (case r of
        Inr u \<Rightarrow> GNOME_VFS_OK
      | Inl e \<Rightarrow> if e = EBADF \<or> e = EROFS then GNOME_VFS_ERROR_READ_ONLY
                 else if e = EINVAL then GNOME_VFS_ERROR_NOT_SUPPORTED else GNOME_VFS_ERROR_GENERIC)"

definition do_truncate_handle ::
    "'k file_env \<Rightarrow> nat \<Rightarrow> file_size \<Rightarrow> vfs_context \<Rightarrow> 'k file_world \<Rightarrow> GnomeVFSResult \<times> 'k file_world" where
  "do_truncate_handle E handle len ctx w =
     (case fw_files w handle of
        None \<Rightarrow> (GNOME_VFS_ERROR_INTERNAL, w)
      | Some fh \<Rightarrow>
          let (r, w1) = on_kernel (px_ftruncate (fe_posix E) (fh_fd fh) len) w in (truncate_result r, w1))"

definition do_truncate ::
    "'k file_env \<Rightarrow> GnomeVFSURI \<Rightarrow> file_size \<Rightarrow> vfs_context \<Rightarrow> 'k file_world \<Rightarrow> GnomeVFSResult \<times> 'k file_world" where
  "do_truncate E uri len ctx w =
     (case get_path_from_uri uri of
        None \<Rightarrow> (GNOME_VFS_ERROR_INVALID_URI, w)
      | Some path \<Rightarrow> let (r, w1) = on_kernel (px_truncate (fe_posix E) path len) w in (truncate_result r, w1))"

section \<open>File informations\<close>

definition get_mime_type ::
    "'k file_env \<Rightarrow> GnomeVFSFileInfo \<Rightarrow> string \<Rightarrow> guint \<Rightarrow> stat \<Rightarrow> 'k file_world \<Rightarrow> GnomeVFSFileInfo \<times> 'k file_world" where
  "get_mime_type E info full_name options st w =
     (let (t, w1) =
            (if \<not> flag options GNOME_VFS_FILE_INFO_FOLLOW_LINKS \<and> file_type info = GNOME_VFS_FILE_TYPE_SYMBOLIC_LINK
             then (''x-special/symlink'', w)
             else if flag options GNOME_VFS_FILE_INFO_FORCE_FAST_MIME_TYPE then on_kernel (fe_mime_type E full_name st True) w
             else if flag options GNOME_VFS_FILE_INFO_FORCE_SLOW_MIME_TYPE then on_kernel (fe_mime_type E full_name st False) w
             else on_kernel (fe_mime_type_fast E full_name st) w)
      in (info\<lparr>mime_type := Some t, valid_fields := valid_fields info OR GNOME_VFS_FILE_INFO_FIELDS_MIME_TYPE\<rparr>, w1))"

text \<open>
  The buffer for the text of a link is \<open>2 ^ (8 + i)\<close> bytes and is doubled while the text fills
  it. After 24 doublings the size is 0, with which the call fails.
\<close>

function read_link_loop :: "'k file_env \<Rightarrow> string \<Rightarrow> nat \<Rightarrow> 'k file_world \<Rightarrow> (errno_code + string) \<times> 'k file_world" where
  "read_link_loop E full_name i w =
     (if 24 \<le> i then (Inl EINVAL, w)
      else
        (let (r, w1) = on_kernel (px_readlink (fe_posix E) full_name (2 ^ (8 + i))) w
         in case r of
              Inl e \<Rightarrow> (Inl e, w1)
            | Inr text \<Rightarrow> if length text < 2 ^ (8 + i) then (Inr text, w1) else read_link_loop E full_name (Suc i) w1))"
  by pat_completeness auto
termination
  by (relation "measure (\<lambda>(E, n, i, w). 24 - i)") auto

declare read_link_loop.simps [simp del]

definition read_link :: "'k file_env \<Rightarrow> string \<Rightarrow> 'k file_world \<Rightarrow> (errno_code + string) \<times> 'k file_world" where
  "read_link E full_name w = read_link_loop E full_name 0 w"

definition set_context :: "string \<Rightarrow> GnomeVFSFileInfo \<Rightarrow> GnomeVFSFileInfo" where
  "set_context c info =
     info\<lparr>selinux_context := Some c, valid_fields := valid_fields info OR GNOME_VFS_FILE_INFO_FIELDS_SELINUX_CONTEXT\<rparr>"

definition get_selinux_context ::
    "'k file_env \<Rightarrow> GnomeVFSFileInfo \<Rightarrow> string \<Rightarrow> guint \<Rightarrow> 'k file_world \<Rightarrow> GnomeVFSResult \<times> GnomeVFSFileInfo \<times> 'k file_world" where
  "get_selinux_context E info full_name options w =
     (if \<not> fe_selinux E then (GNOME_VFS_OK, info, w)
      else
        (let (r, w1) =
               (if \<not> flag options GNOME_VFS_FILE_INFO_FOLLOW_LINKS \<and> file_type info = GNOME_VFS_FILE_TYPE_SYMBOLIC_LINK
                then on_kernel (px_lgetfilecon (fe_posix E) full_name) w
                else on_kernel (px_getfilecon (fe_posix E) full_name) w)
         in case r of
              Inl e \<Rightarrow> (gnome_vfs_result_from_errno_code e, info, w1)
            | Inr c \<Rightarrow> (GNOME_VFS_OK, set_context c info, w1)))"

text \<open>The test of the call is the wrong way round: success returns the error of an earlier call.\<close>

definition get_selinux_context_from_handle ::
    "'k file_env \<Rightarrow> GnomeVFSFileInfo \<Rightarrow> FileHandle \<Rightarrow> 'k file_world \<Rightarrow> GnomeVFSResult \<times> GnomeVFSFileInfo \<times> 'k file_world" where
  "get_selinux_context_from_handle E info fh w =
     (if \<not> fe_selinux E then (GNOME_VFS_OK, info, w)
      else
        (let (r, w1) = on_kernel (px_fgetfilecon (fe_posix E) (fh_fd fh)) w
         in case r of
              Inr c \<Rightarrow> (gnome_vfs_result_from_errno_code (px_errno (fe_posix E) (fw_kernel w1)),
                        info\<lparr>selinux_context := Some c\<rparr>, w1)
            | Inl e \<Rightarrow> (GNOME_VFS_OK,
                        info\<lparr>valid_fields := valid_fields info OR GNOME_VFS_FILE_INFO_FIELDS_SELINUX_CONTEXT\<rparr>, w1)))"

definition set_selinux_context ::
    "'k file_env \<Rightarrow> GnomeVFSFileInfo \<Rightarrow> string \<Rightarrow> 'k file_world \<Rightarrow> GnomeVFSResult \<times> 'k file_world" where
  "set_selinux_context E info full_name w =
     (if \<not> fe_selinux E then (GNOME_VFS_OK, w)
      else (let (r, w1) = on_kernel (px_setfilecon (fe_posix E) full_name (selinux_context info)) w in (unix_result r, w1)))"

text \<open>The calls of \<^verbatim>\<open>access\<close> with read, write and execute, as few as possible: the bits to set.\<close>

definition access_bits :: "'k file_env \<Rightarrow> string \<Rightarrow> 'k file_world \<Rightarrow> guint \<times> 'k file_world" where
  "access_bits E full_name w =
     (let access = (\<lambda>r x y. on_kernel (px_access (fe_posix E) full_name r x y));
          (rw, w1) = access True True False w
      in if rw then
           (let (x, w2) = access False False True w1
            in (GNOME_VFS_PERM_ACCESS_READABLE OR GNOME_VFS_PERM_ACCESS_WRITABLE
                OR (if x then GNOME_VFS_PERM_ACCESS_EXECUTABLE else 0), w2))
         else
           (let (rx, w2) = access True False True w1
            in if rx then (GNOME_VFS_PERM_ACCESS_READABLE OR GNOME_VFS_PERM_ACCESS_EXECUTABLE, w2)
               else
                 (let (r, w3) = access True False False w2
                  in if r then (GNOME_VFS_PERM_ACCESS_READABLE, w3)
                     else
                       (let (u, w4) = access False True False w3;
                            (x, w5) = access False False True w4
                        in ((if u then GNOME_VFS_PERM_ACCESS_WRITABLE else 0)
                            OR (if x then GNOME_VFS_PERM_ACCESS_EXECUTABLE else 0), w5)))))"

definition get_access_info ::
    "'k file_env \<Rightarrow> GnomeVFSFileInfo \<Rightarrow> string \<Rightarrow> 'k file_world \<Rightarrow> GnomeVFSFileInfo \<times> 'k file_world" where
  "get_access_info E info full_name w =
     (let (bits, w1) = access_bits E full_name w
      in (info\<lparr>permissions := permissions info OR bits,
               valid_fields := valid_fields info OR GNOME_VFS_FILE_INFO_FIELDS_ACCESS\<rparr>, w1))"

text \<open>
  Following a link through links by the texts of the links: the result, the last text, and
  the status the caller's buffer is left with. \<open>path\<close> is the link to read, and the flag says
  that the kernel reported a loop. Nothing but that flag bounds the loop.
\<close>

partial_function (option) follow_links_loop ::
    "'k file_env \<Rightarrow> guint \<times> bool \<Rightarrow> string \<Rightarrow> stat \<Rightarrow> 'k file_world
      \<Rightarrow> ((errno_code + string) \<times> stat \<times> 'k file_world) option" where
  "follow_links_loop E oflag path st w =
     (let (r, w1) = read_link E path w
      in case r of
           Inl e \<Rightarrow> Some (Inl e, st, w1)
         | Inr text \<Rightarrow>
             let follow = flag (fst oflag) GNOME_VFS_FILE_INFO_FOLLOW_LINKS;
                 name = (if follow \<and> c_at text 0 \<noteq> slash
                         then gnome_vfs_make_path_name_canonical
                                (Some (fe_build_filename E (fe_path_get_dirname E path) text))
                         else text)
             in if \<not> follow \<or> snd oflag then Some (Inr name, st, w1)
                else
                  (let (s, w2) = on_kernel (px_lstat (fe_posix E) name) w1
                   in case s of
                        Inl e \<Rightarrow> Some (Inr name, st, w2)
                      | Inr st' \<Rightarrow> if S_ISLNK (st_mode st') then follow_links_loop E oflag name st' w2
                                   else Some (Inr name, st', w2)))"

declare follow_links_loop.simps [code]

text \<open>
  The status of a file, of what it refers to when links are to be followed; a link that leads
  nowhere is described itself. The result, the information and the status (for the
  detection of the MIME type).
\<close>

definition get_stat_info ::
    "'k file_env \<Rightarrow> GnomeVFSFileInfo \<Rightarrow> string \<Rightarrow> guint \<Rightarrow> 'k file_world
      \<Rightarrow> (GnomeVFSResult \<times> GnomeVFSFileInfo \<times> stat option \<times> 'k file_world) option" where
  "get_stat_info E info full_name options w =
     (let P = fe_posix E;
          info1 = GNOME_VFS_FILE_INFO_SET_LOCAL info True;
          (s, w1) = on_kernel (px_lstat P full_name) w
      in case s of
           Inl e \<Rightarrow> Some (gnome_vfs_result_from_errno_code e, info1, None, w1)
         | Inr st \<Rightarrow>
             let is_symlink = S_ISLNK (st_mode st);
                 follow = (flag options GNOME_VFS_FILE_INFO_FOLLOW_LINKS \<and> is_symlink);
                 (status, recursive, w3) =
                   (if follow then
                      (let (s2, w2) = on_kernel (px_stat P full_name) w1
                       in case s2 of
                            Inr st2 \<Rightarrow> (Inr st2, False, w2)
                          | Inl e \<Rightarrow> let (s3, w3) = on_kernel (px_lstat P full_name) w2 in (s3, e = ELOOP, w3))
                    else (Inr st, False, w1))
             in case status of
                  Inl e \<Rightarrow> Some (gnome_vfs_result_from_errno_code e, info1, None, w3)
                | Inr st3 \<Rightarrow>
                    let info2 = (if follow then GNOME_VFS_FILE_INFO_SET_SYMLINK info1 True else info1);
                        info3 = gnome_vfs_stat_to_file_info info2 st3
                    in if \<not> is_symlink then Some (GNOME_VFS_OK, info3, Some st3, w3)
                       else
                         (let info4 = info3\<lparr>valid_fields := valid_fields info3 OR GNOME_VFS_FILE_INFO_FIELDS_SYMLINK_NAME\<rparr>
                          in do {
                            (r, st4, w4) \<leftarrow> follow_links_loop E (options, recursive) full_name st3 w3;
                            case r of
                              Inl e \<Rightarrow> Some (gnome_vfs_result_from_errno_code e, info4, Some st4, w4)
                            | Inr name \<Rightarrow> Some (GNOME_VFS_OK, info4\<lparr>symlink_name := Some name\<rparr>, Some st4, w4)
                          }))"

definition get_stat_info_from_handle ::
    "'k file_env \<Rightarrow> GnomeVFSFileInfo \<Rightarrow> FileHandle \<Rightarrow> 'k file_world
      \<Rightarrow> GnomeVFSResult \<times> GnomeVFSFileInfo \<times> stat option \<times> 'k file_world" where
  "get_stat_info_from_handle E info fh w =
     (let (s, w1) = on_kernel (px_fstat (fe_posix E) (fh_fd fh)) w
      in case s of
           Inl e \<Rightarrow> (gnome_vfs_result_from_errno_code e, info, None, w1)
         | Inr st \<Rightarrow> (GNOME_VFS_OK, GNOME_VFS_FILE_INFO_SET_LOCAL (gnome_vfs_stat_to_file_info info st) True, Some st, w1))"

text \<open>The parts of an information that need more than the status, each when it is asked for.\<close>

definition add_mime_type ::
    "'k file_env \<Rightarrow> string \<Rightarrow> guint \<Rightarrow> stat \<Rightarrow> GnomeVFSFileInfo \<times> 'k file_world \<Rightarrow> GnomeVFSFileInfo \<times> 'k file_world" where
  "add_mime_type E full_name options st iw =
     (if flag options GNOME_VFS_FILE_INFO_GET_MIME_TYPE then get_mime_type E (fst iw) full_name options st (snd iw) else iw)"

definition add_acl ::
    "'k file_env \<Rightarrow> string \<Rightarrow> guint \<Rightarrow> stat \<Rightarrow> GnomeVFSFileInfo \<times> 'k file_world \<Rightarrow> GnomeVFSFileInfo \<times> 'k file_world" where
  "add_acl E full_name options st iw =
     (if flag options GNOME_VFS_FILE_INFO_GET_ACL then on_kernel (fe_get_acl E full_name (fst iw) st) (snd iw) else iw)"

definition add_access ::
    "'k file_env \<Rightarrow> string \<Rightarrow> guint \<Rightarrow> GnomeVFSFileInfo \<times> 'k file_world \<Rightarrow> GnomeVFSFileInfo \<times> 'k file_world" where
  "add_access E full_name options iw =
     (if flag options GNOME_VFS_FILE_INFO_GET_ACCESS_RIGHTS then get_access_info E (fst iw) full_name (snd iw) else iw)"

definition add_context ::
    "'k file_env \<Rightarrow> string \<Rightarrow> guint \<Rightarrow> GnomeVFSFileInfo \<times> 'k file_world \<Rightarrow> GnomeVFSFileInfo \<times> 'k file_world" where
  "add_context E full_name options iw =
     (if flag options GNOME_VFS_FILE_INFO_GET_SELINUX_CONTEXT
      then snd (get_selinux_context E (fst iw) full_name options (snd iw)) else iw)"

definition do_get_file_info ::
    "'k file_env \<Rightarrow> GnomeVFSURI \<Rightarrow> GnomeVFSFileInfo \<Rightarrow> guint \<Rightarrow> vfs_context \<Rightarrow> 'k file_world
      \<Rightarrow> (GnomeVFSResult \<times> GnomeVFSFileInfo \<times> 'k file_world) option" where
  "do_get_file_info E uri info options ctx w =
     (case get_path_from_uri uri of
        None \<Rightarrow> Some (GNOME_VFS_ERROR_INVALID_URI, info, w)
      | Some full_name \<Rightarrow> do {
          (result, info1, status, w1) \<leftarrow>
            get_stat_info E (info\<lparr>valid_fields := GNOME_VFS_FILE_INFO_FIELDS_NONE, fi_name := get_base_from_uri uri\<rparr>)
              full_name options w;
          if result \<noteq> GNOME_VFS_OK then Some (result, info1, w1)
          else do {
            st \<leftarrow> status;
            let (info2, w2) =
              add_acl E full_name options st
                (add_mime_type E full_name options st
                  (add_access E full_name options (add_context E full_name options (info1, w1))));
            Some (GNOME_VFS_OK, info2, w2)
          }
        })"

definition do_get_file_info_from_handle ::
    "'k file_env \<Rightarrow> nat \<Rightarrow> GnomeVFSFileInfo \<Rightarrow> guint \<Rightarrow> vfs_context \<Rightarrow> 'k file_world
      \<Rightarrow> (GnomeVFSResult \<times> GnomeVFSFileInfo \<times> 'k file_world) option" where
  "do_get_file_info_from_handle E handle info options ctx w =
     (case fw_files w handle of
        None \<Rightarrow> Some (GNOME_VFS_ERROR_INTERNAL, info, w)
      | Some fh \<Rightarrow>
          (case get_path_from_uri (fh_uri fh) of
             None \<Rightarrow> Some (GNOME_VFS_ERROR_INVALID_URI, info\<lparr>valid_fields := GNOME_VFS_FILE_INFO_FIELDS_NONE\<rparr>, w)
           | Some full_name \<Rightarrow>
               let (result, info1, status, w1) =
                     get_stat_info_from_handle E
                       (info\<lparr>valid_fields := GNOME_VFS_FILE_INFO_FIELDS_NONE, fi_name := get_base_from_uri (fh_uri fh)\<rparr>) fh w
               in if result \<noteq> GNOME_VFS_OK then Some (result, info1, w1)
                  else do {
                    st \<leftarrow> status;
                    let (result2, info2, w2) =
                      (if flag options GNOME_VFS_FILE_INFO_GET_SELINUX_CONTEXT
                       then get_selinux_context_from_handle E info1 fh w1 else (GNOME_VFS_OK, info1, w1));
                    if result2 \<noteq> GNOME_VFS_OK then Some (result2, info2, w2)
                    else
                      (let (info3, w3) = add_acl E full_name options st (add_mime_type E full_name options st (info2, w2))
                       in Some (GNOME_VFS_OK, info3, w3))
                  }))"

definition local_file_system :: "string \<Rightarrow> bool" where
  "local_file_system t \<longleftrightarrow> t \<notin> {''nfs'', ''afs'', ''autofs'', ''unknown'', ''novfs'', ''ncpfs''}"

definition do_is_local :: "'k file_env \<Rightarrow> GnomeVFSURI \<Rightarrow> 'k file_world \<Rightarrow> bool \<times> 'k file_world" where
  "do_is_local E uri w =
     (case get_path_from_uri uri of
        None \<Rightarrow> (True, w)
      | Some path \<Rightarrow>
          let (s, w1) = on_kernel (px_stat (fe_posix E) path) w
          in case s of
               Inl e \<Rightarrow> (True, w1)
             | Inr st \<Rightarrow> let (t, w2) = on_kernel (fe_filesystem_type E path st) w1 in (local_file_system t, w2))"

section \<open>Directories\<close>

text \<open>Allocated like a file handle, from the same numbers.\<close>

definition directory_handle_new :: "GnomeVFSURI \<Rightarrow> string \<Rightarrow> nat \<Rightarrow> guint \<Rightarrow> 'k file_world \<Rightarrow> nat \<times> 'k file_world" where
  "directory_handle_new uri full_name dir options w =
     (fw_next w,
      w\<lparr>fw_dirs := (fw_dirs w)(fw_next w := Some
          \<lparr>dh_uri = uri, dh_options = options, dh_dir = dir,
           dh_prefix = (if full_name \<noteq> [] \<and> last full_name \<noteq> slash then full_name @ [slash] else full_name)\<rparr>),
        fw_next := fw_next w + 1\<rparr>)"

definition directory_handle_destroy :: "nat \<Rightarrow> 'k file_world \<Rightarrow> 'k file_world" where
  "directory_handle_destroy handle w = w\<lparr>fw_dirs := (fw_dirs w)(handle := None)\<rparr>"

definition do_open_directory ::
    "'k file_env \<Rightarrow> GnomeVFSURI \<Rightarrow> guint \<Rightarrow> vfs_context \<Rightarrow> 'k file_world \<Rightarrow> GnomeVFSResult \<times> nat \<times> 'k file_world" where
  "do_open_directory E uri options ctx w =
     (case get_path_from_uri uri of
        None \<Rightarrow> (GNOME_VFS_ERROR_INVALID_URI, 0, w)
      | Some directory_name \<Rightarrow>
          let (r, w1) = on_kernel (px_opendir (fe_posix E) directory_name) w
          in case r of
               Inl e \<Rightarrow> (gnome_vfs_result_from_errno_code e, 0, w1)
             | Inr dir \<Rightarrow> let (handle, w2) = directory_handle_new uri directory_name dir options w1 in (GNOME_VFS_OK, handle, w2))"

definition do_close_directory ::
    "'k file_env \<Rightarrow> nat \<Rightarrow> vfs_context \<Rightarrow> 'k file_world \<Rightarrow> GnomeVFSResult \<times> 'k file_world" where
  "do_close_directory E handle ctx w =
     (case fw_dirs w handle of
        None \<Rightarrow> (GNOME_VFS_ERROR_INTERNAL, w)
      | Some dh \<Rightarrow> (GNOME_VFS_OK, directory_handle_destroy handle (do_kernel (px_closedir (fe_posix E) (dh_dir dh)) w)))"

text \<open>An entry whose status cannot be read is returned with its name alone.\<close>

definition do_read_directory ::
    "'k file_env \<Rightarrow> nat \<Rightarrow> GnomeVFSFileInfo \<Rightarrow> vfs_context \<Rightarrow> 'k file_world
      \<Rightarrow> (GnomeVFSResult \<times> GnomeVFSFileInfo \<times> 'k file_world) option" where
  "do_read_directory E handle info ctx w =
     (case fw_dirs w handle of
        None \<Rightarrow> Some (GNOME_VFS_ERROR_INTERNAL, info, w)
      | Some dh \<Rightarrow>
          let (r, w1) = on_kernel (px_readdir (fe_posix E) (dh_dir dh)) w
          in case r of
               Inl e \<Rightarrow> Some (gnome_vfs_result_from_errno_code e, info, w1)
             | Inr None \<Rightarrow> Some (GNOME_VFS_ERROR_EOF, info, w1)
             | Inr (Some name) \<Rightarrow>
                 let info1 = info\<lparr>fi_name := Some name\<rparr>;
                     full_name = dh_prefix dh @ name;
                     options = dh_options dh
                 in if flag options GNOME_VFS_FILE_INFO_NAME_ONLY then Some (GNOME_VFS_OK, info1, w1)
                    else do {
                      let (info2, w2) = add_context E full_name options (info1, w1);
                      (result, info3, status, w3) \<leftarrow> get_stat_info E info2 full_name options w2;
                      if result \<noteq> GNOME_VFS_OK then Some (GNOME_VFS_OK, info3, w3)
                      else do {
                        st \<leftarrow> status;
                        let (info4, w4) =
                          add_acl E full_name options st
                            (add_mime_type E full_name options st (add_access E full_name options (info3, w3)));
                        Some (GNOME_VFS_OK, info4, w4)
                      }
                    })"

text \<open>Operations that are one system call on the path of a URI.\<close>

definition on_path ::
    "(string \<Rightarrow> (unit, 'k) syscall) \<Rightarrow> GnomeVFSURI \<Rightarrow> 'k file_world \<Rightarrow> GnomeVFSResult \<times> 'k file_world" where
  "on_path call uri w =
     (case get_path_from_uri uri of
        None \<Rightarrow> (GNOME_VFS_ERROR_INVALID_URI, w)
      | Some full_name \<Rightarrow> let (r, w1) = on_kernel (call full_name) w in (unix_result r, w1))"

definition do_make_directory ::
    "'k file_env \<Rightarrow> GnomeVFSURI \<Rightarrow> guint \<Rightarrow> vfs_context \<Rightarrow> 'k file_world \<Rightarrow> GnomeVFSResult \<times> 'k file_world" where
  "do_make_directory E uri perm ctx w = on_path (\<lambda>full_name. px_mkdir (fe_posix E) full_name perm) uri w"

definition do_remove_directory ::
    "'k file_env \<Rightarrow> GnomeVFSURI \<Rightarrow> vfs_context \<Rightarrow> 'k file_world \<Rightarrow> GnomeVFSResult \<times> 'k file_world" where
  "do_remove_directory E uri ctx w = on_path (px_rmdir (fe_posix E)) uri w"

definition do_unlink ::
    "'k file_env \<Rightarrow> GnomeVFSURI \<Rightarrow> vfs_context \<Rightarrow> 'k file_world \<Rightarrow> GnomeVFSResult \<times> 'k file_world" where
  "do_unlink E uri ctx w = on_path (px_unlink (fe_posix E)) uri w"

section \<open>Renaming\<close>

text \<open>
  A temporary file (\<^verbatim>\<open>libgnomevfs/gnome-vfs-private-utils.c\<close>): made by \<^verbatim>\<open>g_mkstemp\<close>, which
  replaces the end of its template, and opened again by way of the library.
\<close>

partial_function (option) gnome_vfs_create_temp ::
    "'k file_env \<Rightarrow> string \<Rightarrow> 'k file_world \<Rightarrow> (GnomeVFSResult \<times> (string \<times> GnomeVFSHandle) option \<times> 'k file_world) option" where
  "gnome_vfs_create_temp E prefix w =
     (let P = fe_posix E;
          (r, w1) = on_kernel (px_mkstemp P (prefix @ ''XXXXXX'')) w
      in case r of
           Inl e \<Rightarrow> Some (GNOME_VFS_ERROR_INTERNAL, None, w1)
         | Inr fn \<Rightarrow>
             let w2 = snd (on_kernel (px_close P (fst fn)) (do_kernel (px_fchmod P (fst fn) 384) w1));
                 (result, handle, w3) = fe_vfs_open E (snd fn) (GNOME_VFS_OPEN_WRITE OR GNOME_VFS_OPEN_READ) w2
             in if result = GNOME_VFS_OK then do { h \<leftarrow> handle; Some (GNOME_VFS_OK, Some (snd fn, h), w3) }
                else if result \<noteq> GNOME_VFS_ERROR_FILE_EXISTS then Some (result, None, w3)
                else gnome_vfs_create_temp E prefix w3)"

declare gnome_vfs_create_temp.simps [code]

text \<open>
  Old and new name differ only in case: the file is renamed by way of a temporary name. Where
  that fails the value \<open>-1\<close> of a failed call is taken for an error number.
\<close>

definition rename_case ::
    "'k file_env \<Rightarrow> string \<Rightarrow> string \<Rightarrow> 'k file_world \<Rightarrow> (GnomeVFSResult \<times> 'k file_world) option" where
  "rename_case E old_full_name new_full_name w =
     (let P = fe_posix E
      in do {
        (result, temp, w1) \<leftarrow> gnome_vfs_create_temp E old_full_name w;
        if result \<noteq> GNOME_VFS_OK then Some (result, w1)
        else do {
          (temp_name, temp_handle) \<leftarrow> temp;
          let w2 = snd (on_kernel (px_unlink P temp_name) (snd (fe_vfs_close E temp_handle w1)));
          let (r3, w3) = on_kernel (px_rename P old_full_name temp_name) w2;
          if \<not> succeeded r3 then Some (gnome_vfs_result_from_errno_code (E_OTHER (- 1)), w3)
          else do {
            let (s4, w4) = on_kernel (px_stat P new_full_name) w3;
            let (renamed, w5) =
              (if succeeded s4 then (False, w4)
               else let (r5, w5) = on_kernel (px_rename P temp_name new_full_name) w4 in (succeeded r5, w5));
            if renamed then Some (GNOME_VFS_OK, w5)
            else
              (let (r6, w6) = on_kernel (px_rename P temp_name old_full_name) w5
               in Some (if succeeded r6 then GNOME_VFS_ERROR_FILE_EXISTS
                        else gnome_vfs_result_from_errno_code (E_OTHER (- 1)), w6))
          }
        }
      })"

text \<open>A file over an empty directory: the directory is removed first.\<close>

definition rename_over_directory ::
    "'k file_env \<Rightarrow> string \<Rightarrow> string \<Rightarrow> vfs_context \<Rightarrow> 'k file_world \<Rightarrow> GnomeVFSResult \<times> 'k file_world" where
  "rename_over_directory E old_full_name new_full_name ctx w =
     (if gnome_vfs_context_check_cancellation ctx then (GNOME_VFS_ERROR_CANCELLED, w)
      else
        (let (r, w1) = on_kernel (px_rmdir (fe_posix E) new_full_name) w
         in if \<not> succeeded r then (unix_result r, w1)
            else if gnome_vfs_context_check_cancellation ctx then (GNOME_VFS_ERROR_CANCELLED, w1)
            else (let (r2, w2) = on_kernel (px_rename (fe_posix E) old_full_name new_full_name) w1 in (unix_result r2, w2))))"

definition rename_helper ::
    "'k file_env \<Rightarrow> string \<Rightarrow> string \<Rightarrow> bool \<Rightarrow> vfs_context \<Rightarrow> 'k file_world \<Rightarrow> (GnomeVFSResult \<times> 'k file_world) option" where
  "rename_helper E old_full_name new_full_name force_replace ctx w =
     (let P = fe_posix E;
          (s, w1) = on_kernel (px_stat P new_full_name) w;
          cancelled = gnome_vfs_context_check_cancellation ctx
      in if succeeded s \<and> \<not> force_replace
            \<and> g_ascii_strdown old_full_name = g_ascii_strdown new_full_name \<and> old_full_name \<noteq> new_full_name
         then (if cancelled then Some (GNOME_VFS_ERROR_CANCELLED, w1) else rename_case E old_full_name new_full_name w1)
         else if succeeded s \<and> \<not> force_replace then Some (GNOME_VFS_ERROR_FILE_EXISTS, w1)
         else if cancelled then Some (GNOME_VFS_ERROR_CANCELLED, w1)
         else
           (let (r, w2) = on_kernel (px_rename P old_full_name new_full_name) w1;
                is_dir = (case s of Inl e \<Rightarrow> False | Inr st \<Rightarrow> S_ISDIR (st_mode st))
            in if (case r of Inl e \<Rightarrow> e = EISDIR | Inr u \<Rightarrow> False) \<and> force_replace \<and> is_dir
               then Some (rename_over_directory E old_full_name new_full_name ctx w2)
               else Some (unix_result r, w2)))"

definition set_symlink_name_helper ::
    "'k file_env \<Rightarrow> string \<Rightarrow> GnomeVFSFileInfo \<Rightarrow> 'k file_world \<Rightarrow> GnomeVFSResult \<times> 'k file_world" where
  "set_symlink_name_helper E full_name info w =
     (case symlink_name info of
        None \<Rightarrow> (GNOME_VFS_ERROR_BAD_PARAMETERS, w)
      | Some name \<Rightarrow>
          let P = fe_posix E;
              (s, w1) = on_kernel (px_lstat P full_name) w
          in case s of
               Inl e \<Rightarrow> (gnome_vfs_result_from_errno_code e, w1)
             | Inr st \<Rightarrow>
                 if \<not> S_ISLNK (st_mode st) then (GNOME_VFS_ERROR_NOT_A_SYMBOLIC_LINK, w1)
                 else
                   (let (r, w2) = on_kernel (px_unlink P full_name) w1
                    in if \<not> succeeded r then (unix_result r, w2)
                       else let (r3, w3) = on_kernel (px_symlink P name full_name) w2 in (unix_result r3, w3)))"

definition do_move ::
    "'k file_env \<Rightarrow> GnomeVFSURI \<Rightarrow> GnomeVFSURI \<Rightarrow> bool \<Rightarrow> vfs_context \<Rightarrow> 'k file_world \<Rightarrow> (GnomeVFSResult \<times> 'k file_world) option" where
  "do_move E old_uri new_uri force_replace ctx w =
     (case get_path_from_uri old_uri of
        None \<Rightarrow> Some (GNOME_VFS_ERROR_INVALID_URI, w)
      | Some old_full_name \<Rightarrow>
          (case get_path_from_uri new_uri of
             None \<Rightarrow> Some (GNOME_VFS_ERROR_INVALID_URI, w)
           | Some new_full_name \<Rightarrow> rename_helper E old_full_name new_full_name force_replace ctx w))"

text \<open>
  A reference that starts with the letters \<^verbatim>\<open>file\<close> is taken for a URI. A system call that is
  given a null pointer fails with \<^verbatim>\<open>EFAULT\<close>.
\<close>

definition do_create_symbolic_link ::
    "'k file_env \<Rightarrow> GnomeVFSURI \<Rightarrow> string \<Rightarrow> vfs_context \<Rightarrow> 'k file_world \<Rightarrow> GnomeVFSResult \<times> 'k file_world" where
  "do_create_symbolic_link E uri target_reference ctx w =
     (case gnome_vfs_uri_new (fe_env E) (Some target_reference) of
        None \<Rightarrow> (GNOME_VFS_ERROR_INVALID_URI, w)
      | Some target_uri \<Rightarrow>
          if gnome_vfs_uri_get_scheme uri = ''file'' \<and> gnome_vfs_uri_get_scheme target_uri = ''file'' then
            (case (if take 4 target_reference \<noteq> ''file'' then Some target_reference else get_path_from_uri target_uri,
                   get_path_from_uri uri) of
               (Some target_full_name, Some link_full_name) \<Rightarrow>
                 let (r, w1) = on_kernel (px_symlink (fe_posix E) target_full_name link_full_name) w in (unix_result r, w1)
             | _ \<Rightarrow> (gnome_vfs_result_from_errno_code EFAULT, w))
          else (GNOME_VFS_ERROR_NOT_SUPPORTED, w))"

definition stat_or_fault :: "(string \<Rightarrow> (stat, 'k) syscall) \<Rightarrow> GnomeVFSURI \<Rightarrow> 'k file_world \<Rightarrow> (errno_code + stat) \<times> 'k file_world" where
  "stat_or_fault call uri w =
     (case get_path_from_uri uri of None \<Rightarrow> (Inl EFAULT, w) | Some full_name \<Rightarrow> on_kernel (call full_name) w)"

text \<open>The source is looked at as a link, the target as what it refers to.\<close>

definition do_check_same_fs ::
    "'k file_env \<Rightarrow> GnomeVFSURI \<Rightarrow> GnomeVFSURI \<Rightarrow> vfs_context \<Rightarrow> 'k file_world \<Rightarrow> GnomeVFSResult \<times> bool \<times> 'k file_world" where
  "do_check_same_fs E source_uri target_uri ctx w =
     (let (s, w1) = stat_or_fault (px_lstat (fe_posix E)) source_uri w
      in case s of
           Inl e \<Rightarrow> (gnome_vfs_result_from_errno_code e, False, w1)
         | Inr s_source \<Rightarrow>
             if gnome_vfs_context_check_cancellation ctx then (GNOME_VFS_ERROR_CANCELLED, False, w1)
             else
               (let (t, w2) = stat_or_fault (px_stat (fe_posix E)) target_uri w1
                in case t of
                     Inl e \<Rightarrow> (gnome_vfs_result_from_errno_code e, False, w2)
                   | Inr s_target \<Rightarrow> (GNOME_VFS_OK, st_dev s_source = st_dev s_target, w2)))"

section \<open>Changing attributes\<close>

text \<open>
  One change after another on the file with the name that an earlier change gave it. A step is
  done when its bit is set; before each there is a test of cancellation.
\<close>

definition change_step ::
    "vfs_context \<Rightarrow> bool \<Rightarrow> ('k file_world \<Rightarrow> GnomeVFSResult \<times> 'k file_world) \<Rightarrow> GnomeVFSResult \<times> 'k file_world
      \<Rightarrow> GnomeVFSResult \<times> 'k file_world" where
  "change_step ctx wanted step rw =
     (if fst rw \<noteq> GNOME_VFS_OK then rw
      else if gnome_vfs_context_check_cancellation ctx then (GNOME_VFS_ERROR_CANCELLED, snd rw)
      else if wanted then step (snd rw) else rw)"

definition unix_step :: "(unit, 'k) syscall \<Rightarrow> 'k file_world \<Rightarrow> GnomeVFSResult \<times> 'k file_world" where
  "unix_step call w = (let (r, w1) = on_kernel call w in (unix_result r, w1))"

text \<open>
  The result of setting the security context is compared with 0 and so never counts. The
  name of the link is set without a test of cancellation before it.
\<close>

definition change_attributes ::
    "'k file_env \<Rightarrow> string \<Rightarrow> GnomeVFSFileInfo \<Rightarrow> guint \<Rightarrow> vfs_context \<Rightarrow> 'k file_world \<Rightarrow> GnomeVFSResult \<times> 'k file_world" where
  "change_attributes E full_name info changes ctx w =
     (let P = fe_posix E;
          w1 = (if flag changes GNOME_VFS_SET_FILE_INFO_SELINUX_CONTEXT then snd (set_selinux_context E info full_name w) else w);
          s2 = change_step ctx (flag changes GNOME_VFS_SET_FILE_INFO_PERMISSIONS)
                 (unix_step (px_chmod P full_name (permissions info))) (GNOME_VFS_OK, w1);
          s3 = change_step ctx (flag changes GNOME_VFS_SET_FILE_INFO_OWNER)
                 (unix_step (px_chown P full_name (uid info) (gid info))) s2;
          s4 = change_step ctx (flag changes GNOME_VFS_SET_FILE_INFO_TIME)
                 (unix_step (px_utime P full_name (atime info) (mtime info))) s3;
          s5 = change_step ctx (flag changes GNOME_VFS_SET_FILE_INFO_ACL)
                 (on_kernel (fe_set_acl E full_name info)) s4
      in if fst s5 = GNOME_VFS_OK \<and> flag changes GNOME_VFS_SET_FILE_INFO_SYMLINK_NAME
         then set_symlink_name_helper E full_name info (snd s5) else s5)"

definition do_set_file_info ::
    "'k file_env \<Rightarrow> GnomeVFSURI \<Rightarrow> GnomeVFSFileInfo \<Rightarrow> guint \<Rightarrow> vfs_context \<Rightarrow> 'k file_world
      \<Rightarrow> (GnomeVFSResult \<times> 'k file_world) option" where
  "do_set_file_info E uri info changes ctx w =
     (case get_path_from_uri uri of
        None \<Rightarrow> Some (GNOME_VFS_ERROR_INVALID_URI, w)
      | Some full_name \<Rightarrow>
          if flag changes GNOME_VFS_SET_FILE_INFO_NAME then do {
            dir \<leftarrow> gnome_vfs_unescape_string (gnome_vfs_uri_extract_dirname uri) (Some [slash]);
            name \<leftarrow> fi_name info;
            let new_name = fe_build_filename E dir name;
            (result, w1) \<leftarrow> rename_helper E full_name new_name False ctx w;
            Some (if result \<noteq> GNOME_VFS_OK then (result, w1) else change_attributes E new_name info changes ctx w1)
          }
          else Some (change_attributes E full_name info changes ctx w))"

section \<open>Control and free space\<close>

definition do_file_control ::
    "'k file_env \<Rightarrow> nat \<Rightarrow> string \<Rightarrow> nat \<Rightarrow> vfs_context \<Rightarrow> 'k file_world \<Rightarrow> GnomeVFSResult \<times> 'k file_world" where
  "do_file_control E handle operation operation_data ctx w =
     (if operation = ''file:test''
      then (GNOME_VFS_OK, w\<lparr>fw_strings := (fw_strings w)(operation_data := Some ''test ok'')\<rparr>)
      else (GNOME_VFS_ERROR_NOT_SUPPORTED, w))"

text \<open>
  A file system that reports no free blocks at all is asked for its type: NCP file systems do
  not know. The product of two 64-bit numbers may wrap.
\<close>

definition do_get_volume_free_space ::
    "'k file_env \<Rightarrow> GnomeVFSURI \<Rightarrow> 'k file_world \<Rightarrow> GnomeVFSResult \<times> file_size \<times> 'k file_world" where
  "do_get_volume_free_space E uri w =
     (case gnome_vfs_uri_get_path uri of
        None \<Rightarrow> (GNOME_VFS_ERROR_INVALID_URI, 0, w)
      | Some path \<Rightarrow>
          if c_at path 0 \<noteq> slash then (GNOME_VFS_ERROR_INVALID_URI, 0, w)
          else case gnome_vfs_unescape_string (Some path) (Some [slash]) of
                 None \<Rightarrow> (gnome_vfs_result_from_errno_code EFAULT, 0, w)
               | Some unescaped_path \<Rightarrow>
                   let (r, w1) = on_kernel (px_statvfs (fe_posix E) unescaped_path) w
                   in case r of
                        Inl e \<Rightarrow> (gnome_vfs_result_from_errno_code e, 0, w1)
                      | Inr v \<Rightarrow>
                          if f_bavail v = 0 \<and> f_bfree v = 0 then
                            (let (t, w2) = on_kernel (px_statfs_type (fe_posix E) unescaped_path) w1
                             in case t of
                                  Inl e \<Rightarrow> (gnome_vfs_result_from_errno_code e, 0, w2)
                                | Inr f_type \<Rightarrow> if f_type = 22092 then (GNOME_VFS_ERROR_NOT_SUPPORTED, 0, w2)
                                                else (GNOME_VFS_OK, f_frsize v * f_bavail v, w2))
                          else (GNOME_VFS_OK, f_frsize v * f_bavail v, w1))"

end
