(* ===== verification/VFS_Trash.thy ===== *)
theory VFS_Trash
  imports VFS_FileMethod
begin

text \<open>
  The search for standard directories and the cache of trash directories
  (\<^verbatim>\<open>modules/file-method.c\<close>), and the table of functions of the module.
\<close>

section \<open>Directories on a path\<close>

definition mkdir_level :: "'k file_env \<Rightarrow> guint \<Rightarrow> string \<Rightarrow> 'k file_world \<Rightarrow> bool \<times> 'k file_world" where
  "mkdir_level E perm_bits current_path w =
     (if current_path = [] then (True, w)
      else
        (let w1 = snd (on_kernel (px_mkdir (fe_posix E) current_path perm_bits) w);
             (s, w2) = on_kernel (px_stat (fe_posix E) current_path) w1
         in (succeeded s, w2)))"

text \<open>\<open>seen\<close> is the path up to the scanner.\<close>

fun mkdir_recursive_loop :: "'k file_env \<Rightarrow> guint \<Rightarrow> string \<Rightarrow> string \<Rightarrow> 'k file_world \<Rightarrow> bool \<times> 'k file_world" where
  "mkdir_recursive_loop E perm_bits seen [] w = mkdir_level E perm_bits seen w"
| "mkdir_recursive_loop E perm_bits seen (c # rest) w =
     (if c = slash then
        (let (ok, w1) = mkdir_level E perm_bits seen w
         in if ok then mkdir_recursive_loop E perm_bits (seen @ [c]) rest w1 else (False, w1))
      else mkdir_recursive_loop E perm_bits (seen @ [c]) rest w)"

definition mkdir_recursive :: "'k file_env \<Rightarrow> string \<Rightarrow> guint \<Rightarrow> 'k file_world \<Rightarrow> bool \<times> 'k file_world" where
  "mkdir_recursive E path perm_bits w = mkdir_recursive_loop E perm_bits [] path w"

definition append_to_path :: "'k file_env \<Rightarrow> string \<Rightarrow> string \<Rightarrow> string" where
  "append_to_path E path name = fe_build_filename E path name"

definition TRASH_DIRECTORY_NAME_BASE :: string where "TRASH_DIRECTORY_NAME_BASE = ''.Trash''"
definition TRASH_ENTRY_CACHE_PARENT :: string where "TRASH_ENTRY_CACHE_PARENT = ''.gnome/gnome-vfs''"
definition TRASH_ENTRY_CACHE_NAME :: string where "TRASH_ENTRY_CACHE_NAME = ''.trash_entry_cache''"
definition NON_EXISTENT_TRASH_ENTRY :: string where "NON_EXISTENT_TRASH_ENTRY = ''-''"

definition append_trash_path :: "'k file_env \<Rightarrow> string \<Rightarrow> string" where
  "append_trash_path E path = fe_build_filename E path (TRASH_DIRECTORY_NAME_BASE @ ''-'' @ fe_user E)"

text \<open>A trash directory on another device than its parent is a failed assertion.\<close>

definition find_trash_in_hierarchy ::
    "'k file_env \<Rightarrow> string \<Rightarrow> int \<Rightarrow> vfs_context \<Rightarrow> 'k file_world \<Rightarrow> (string option \<times> 'k file_world) option" where
  "find_trash_in_hierarchy E start_dir near_device_id ctx w =
     (if gnome_vfs_context_check_cancellation ctx then Some (None, w)
      else
        (let trash_path = append_trash_path E start_dir;
             (s, w1) = on_kernel (px_lstat (fe_posix E) trash_path) w
         in case s of
              Inl e \<Rightarrow> Some (None, w1)
            | Inr st \<Rightarrow>
                if S_ISDIR (st_mode st) then (if near_device_id = st_dev st then Some (Some trash_path, w1) else None)
                else Some (None, w1)))"

definition try_creating_trash_in :: "'k file_env \<Rightarrow> string \<Rightarrow> guint \<Rightarrow> 'k file_world \<Rightarrow> string option \<times> 'k file_world" where
  "try_creating_trash_in E path perm w =
     (let trash_path = append_trash_path E path;
          (ok, w1) = mkdir_recursive E trash_path perm w
      in (if ok then Some trash_path else None, w1))"

text \<open>Up the path as long as the device stays the same; \<open>None\<close> is a cancelled search.\<close>

function find_disk_top_directory ::
    "'k file_env \<Rightarrow> string \<Rightarrow> int \<Rightarrow> vfs_context \<Rightarrow> 'k file_world \<Rightarrow> string option \<times> 'k file_world" where
  "find_disk_top_directory E disk_top_directory near_device_id ctx w =
     (case strrchr disk_top_directory slash of
        None \<Rightarrow> (Some disk_top_directory, w)
      | Some last_slash \<Rightarrow>
          let (s, w1) = on_kernel (px_stat (fe_posix E) (take last_slash disk_top_directory)) w
          in if (case s of Inl e \<Rightarrow> True | Inr st \<Rightarrow> st_dev st \<noteq> near_device_id) then (Some disk_top_directory, w1)
             else if gnome_vfs_context_check_cancellation ctx then (None, w1)
             else find_disk_top_directory E (take last_slash disk_top_directory) near_device_id ctx w1)"
  by pat_completeness auto
termination
proof (relation "measure (\<lambda>(E, p, d, c, w). length p)")
  show "wf (measure (\<lambda>(E :: 'k file_env, p, d :: int, c :: vfs_context, w :: 'k file_world). length p))" by simp
next
  fix E :: "'k file_env" and p :: string and d :: int and c :: vfs_context and w w1 :: "'k file_world"
  fix i x and s :: "errno_code + stat"
  assume "strrchr p slash = Some i"
  then have "i < length p" using strrchr_SomeD [of p slash i] by simp
  then show "((E, take i p, d, c, w1), (E, p, d, c, w)) \<in> measure (\<lambda>(E, p, d, c, w). length p)" by simp
qed

declare find_disk_top_directory.simps [simp del]

section \<open>The cache of trash directories\<close>

definition cache_line :: "TrashDirectoryCachedItem \<Rightarrow> string option" where
  "cache_line item =
     (case (gnome_vfs_escape_path_string (Some (td_device_mount_point item)), gnome_vfs_escape_path_string (Some (td_path item))) of
        (Some m, Some p) \<Rightarrow> Some (m @ '' '' @ p @ [CHR 0x0A])
      | _ \<Rightarrow> None)"

fun write_cache_lines :: "'k file_env \<Rightarrow> nat \<Rightarrow> TrashDirectoryCachedItem list \<Rightarrow> 'k file_world \<Rightarrow> 'k file_world" where
  "write_cache_lines E fd [] w = w"
| "write_cache_lines E fd (item # items) w =
     write_cache_lines E fd items
       (case cache_line item of None \<Rightarrow> w | Some line \<Rightarrow> snd (on_kernel (px_write (fe_posix E) fd line) w))"

text \<open>What cannot be written is left out: the function warns and returns.\<close>

definition save_trash_entry_cache :: "'k file_env \<Rightarrow> 'k file_world \<Rightarrow> 'k file_world" where
  "save_trash_entry_cache E w =
     (let P = fe_posix E;
          cache_file_parent = append_to_path E (fe_home E) TRASH_ENTRY_CACHE_PARENT;
          cache_file_path = append_to_path E cache_file_parent TRASH_ENTRY_CACHE_NAME;
          (ok, w1) = mkdir_recursive E cache_file_parent 511 w
      in if \<not> ok then w1
         else
           (let (r, w2) = on_kernel (px_open P cache_file_path
                            \<lparr>um_access = O_RDWR, um_creat = True, um_excl = False, um_trunc = True\<rparr> 438) w1
            in case r of
                 Inl e \<Rightarrow> w2
               | Inr fd \<Rightarrow> snd (on_kernel (px_close P fd) (write_cache_lines E fd (fw_trash w2) w2))))"

text \<open>The first entry with this mount point is updated; \<open>None\<close> when there is none.\<close>

fun update_cached_trash_entry ::
    "string \<Rightarrow> string \<Rightarrow> int \<Rightarrow> TrashDirectoryCachedItem list \<Rightarrow> TrashDirectoryCachedItem list option" where
  "update_cached_trash_entry mount_point trash_path dev [] = None"
| "update_cached_trash_entry mount_point trash_path dev (item # items) =
     (if td_device_mount_point item = mount_point then Some (item\<lparr>td_path := trash_path, td_device_id := dev\<rparr> # items)
      else map_option ((#) item) (update_cached_trash_entry mount_point trash_path dev items))"

definition add_local_cached_trash_entry ::
    "int \<Rightarrow> string \<Rightarrow> string \<Rightarrow> TrashDirectoryCachedItem list \<Rightarrow> TrashDirectoryCachedItem list" where
  "add_local_cached_trash_entry near_device_id trash_path mount_point items =
     (case update_cached_trash_entry mount_point trash_path near_device_id items of
        Some items' \<Rightarrow> items'
      | None \<Rightarrow> \<lparr>td_path = trash_path, td_device_mount_point = mount_point, td_device_id = near_device_id\<rparr> # items)"

text \<open>A null mount point is compared, copied and printed, which the C library does not define.\<close>

definition add_cached_trash_entry ::
    "'k file_env \<Rightarrow> int \<Rightarrow> string \<Rightarrow> string option \<Rightarrow> 'k file_world \<Rightarrow> 'k file_world option" where
  "add_cached_trash_entry E near_device_id trash_path mount_point w =
     map_option (\<lambda>m. save_trash_entry_cache E
                       (w\<lparr>fw_trash := add_local_cached_trash_entry near_device_id trash_path m (fw_trash w)\<rparr>)) mount_point"

text \<open>\<^verbatim>\<open>fgets\<close> with a buffer of \<open>n + 1\<close> characters: up to a newline, or \<open>n\<close> characters.\<close>

fun fgets_split :: "nat \<Rightarrow> string \<Rightarrow> string \<times> string" where
  "fgets_split n [] = ([], [])"
| "fgets_split 0 (c # s) = ([], c # s)"
| "fgets_split (Suc n) (c # s) =
     (if c = CHR 0x0A then ([c], s) else (let (line, rest) = fgets_split n s in (c # line, rest)))"

lemma fgets_split_le: "length (snd (fgets_split n s)) \<le> length s"
  by (induction n s rule: fgets_split.induct) (auto simp: split_def Let_def)

lemma fgets_split_shorter: "0 < n \<Longrightarrow> length (snd (fgets_split n (c # s))) < length (c # s)"
  using fgets_split_le [of "n - 1" s] by (cases n) (auto simp: split_def Let_def le_imp_less_Suc)

text \<open>\<^verbatim>\<open>sscanf\<close> with \<^verbatim>\<open>%s %s\<close>; \<open>None\<close> unless both words are there.\<close>

definition scan_word :: "string \<Rightarrow> string \<times> string" where
  "scan_word s = (let t = dropWhile c_isspace s in (takeWhile (\<lambda>c. \<not> c_isspace c) t, dropWhile (\<lambda>c. \<not> c_isspace c) t))"

definition scan_two_words :: "string \<Rightarrow> (string \<times> string) option" where
  "scan_two_words s =
     (let (a, rest) = scan_word s; (b, rest') = scan_word rest in if a = [] \<or> b = [] then None else Some (a, b))"

text \<open>One line: the cache, whether an entry was dropped, the world.\<close>

definition read_cache_line ::
    "'k file_env \<Rightarrow> string \<Rightarrow> bool \<Rightarrow> 'k file_world \<Rightarrow> bool \<times> 'k file_world" where
  "read_cache_line E line removed_item w =
     (case scan_two_words line of
        None \<Rightarrow> (removed_item, w)
      | Some (escaped_mount_point, escaped_trash_path) \<Rightarrow>
          (case (gnome_vfs_unescape_string (Some escaped_trash_path) (Some [slash]),
                 gnome_vfs_unescape_string (Some escaped_mount_point) (Some [slash])) of
             (Some trash_path, Some mount_point) \<Rightarrow>
               if trash_path = NON_EXISTENT_TRASH_ENTRY then (True, w)
               else
                 (let (s, w1) = on_kernel (px_lstat (fe_posix E) trash_path) w
                  in if \<not> succeeded s then (True, w1)
                     else
                       (let (m, w2) = on_kernel (px_stat (fe_posix E) mount_point) w1
                        in case m of
                             Inl e \<Rightarrow> (True, w2)
                           | Inr st \<Rightarrow>
                               (removed_item,
                                w2\<lparr>fw_trash := add_local_cached_trash_entry (st_dev st) trash_path mount_point (fw_trash w2)\<rparr>)))
           | _ \<Rightarrow> (True, w)))"

function read_cache_lines :: "'k file_env \<Rightarrow> string \<Rightarrow> bool \<Rightarrow> 'k file_world \<Rightarrow> bool \<times> 'k file_world" where
  "read_cache_lines E [] removed_item w = (removed_item, w)"
| "read_cache_lines E (c # s) removed_item w =
     (let lr = fgets_split 2047 (c # s);
          (removed', w1) = read_cache_line E (fst lr) removed_item w
      in read_cache_lines E (snd lr) removed' w1)"
  by pat_completeness auto
termination
  by (relation "measure (\<lambda>(E, s, r, w). length s)")
     (use fgets_split_shorter [of 2047] in \<open>simp_all del: fgets_split.simps\<close>)

definition read_saved_cached_trash_entries :: "'k file_env \<Rightarrow> 'k file_world \<Rightarrow> 'k file_world" where
  "read_saved_cached_trash_entries E w =
     (let cache_file_path = append_to_path E (append_to_path E (fe_home E) TRASH_ENTRY_CACHE_PARENT) TRASH_ENTRY_CACHE_NAME;
          (file_text, w1) = on_kernel (fe_read_text E cache_file_path) (w\<lparr>fw_trash := []\<rparr>)
      in case file_text of
           None \<Rightarrow> w1
         | Some s \<Rightarrow>
             let (removed_item, w2) = read_cache_lines E s False w1
             in if removed_item then save_trash_entry_cache E w2 else w2)"

definition cached_trash_entry_exists :: "'k file_env \<Rightarrow> TrashDirectoryCachedItem \<Rightarrow> 'k file_world \<Rightarrow> bool \<times> 'k file_world" where
  "cached_trash_entry_exists E item w =
     (let (s, w1) = on_kernel (px_lstat (fe_posix E) (td_path item)) w in (succeeded s, w1))"

definition find_locally_cached_trash_entry_for_device_id ::
    "'k file_env \<Rightarrow> int \<Rightarrow> bool \<Rightarrow> 'k file_world \<Rightarrow> string option \<times> 'k file_world" where
  "find_locally_cached_trash_entry_for_device_id E device_id check_disk w =
     (case find (\<lambda>i. td_device_id i = device_id) (fw_trash w) of
        None \<Rightarrow> (None, w)
      | Some item \<Rightarrow>
          if check_disk \<and> td_path item \<noteq> NON_EXISTENT_TRASH_ENTRY then
            (let (there, w1) = cached_trash_entry_exists E item w
             in if there then (Some (td_path item), w1) else (None, w1\<lparr>fw_trash := remove1 item (fw_trash w1)\<rparr>))
          else (Some (td_path item), w))"

definition find_cached_trash_entry_for_device ::
    "'k file_env \<Rightarrow> int \<Rightarrow> bool \<Rightarrow> 'k file_world \<Rightarrow> string option \<times> 'k file_world" where
  "find_cached_trash_entry_for_device E device_id check_disk w =
     (if fw_trash w = [] \<and> \<not> check_disk then (None, w)
      else find_locally_cached_trash_entry_for_device_id E device_id check_disk
             (if fw_trash w = [] then read_saved_cached_trash_entries E w else w))"

section \<open>Finding a trash directory\<close>

definition create_trash_near :: "'k file_env \<Rightarrow> string \<Rightarrow> guint \<Rightarrow> 'k file_world \<Rightarrow> string option \<times> 'k file_world" where
  "create_trash_near E disk_top_directory perm w = try_creating_trash_in E disk_top_directory perm w"

definition find_or_create_trash_near ::
    "'k file_env \<Rightarrow> string \<Rightarrow> int \<Rightarrow> bool \<Rightarrow> bool \<Rightarrow> guint \<Rightarrow> vfs_context \<Rightarrow> 'k file_world \<Rightarrow> (string option \<times> 'k file_world) option" where
  "find_or_create_trash_near E full_name_near near_device_id create_if_needed find_if_needed perm ctx w =
     (let (top, w1) = find_disk_top_directory E full_name_near near_device_id ctx w
      in case top of
           None \<Rightarrow> map_option (Pair None) (add_cached_trash_entry E near_device_id NON_EXISTENT_TRASH_ENTRY None w1)
         | Some disk_top_directory \<Rightarrow> do {
             (found, w2) \<leftarrow>
               (if find_if_needed then do {
                  (trash, w2) \<leftarrow> find_trash_in_hierarchy E disk_top_directory near_device_id ctx w1;
                  Some (case trash of None \<Rightarrow> Some NON_EXISTENT_TRASH_ENTRY | Some t \<Rightarrow> Some t, w2)
                }
                else Some (None, w1));
             let (result, w3) =
               (if found = None \<and> create_if_needed then create_trash_near E disk_top_directory perm w2 else (found, w2));
             case result of
               None \<Rightarrow> Some (None, w3)
             | Some r \<Rightarrow> map_option (Pair result) (add_cached_trash_entry E near_device_id r (Some disk_top_directory) w3)
           })"

definition find_trash_directory ::
    "'k file_env \<Rightarrow> string \<Rightarrow> int \<Rightarrow> bool \<Rightarrow> bool \<Rightarrow> guint \<Rightarrow> vfs_context \<Rightarrow> 'k file_world \<Rightarrow> (string option \<times> 'k file_world) option" where
  "find_trash_directory E full_name_near near_device_id create_if_needed find_if_needed perm ctx w =
     (let (cached, w1) = find_cached_trash_entry_for_device E near_device_id find_if_needed w;
          search = find_or_create_trash_near E full_name_near near_device_id create_if_needed find_if_needed perm ctx
      in do {
        (result, w2) \<leftarrow>
          (if find_if_needed then
             (if cached = None \<or> cached = Some NON_EXISTENT_TRASH_ENTRY \<and> create_if_needed then search w1 else Some (cached, w1))
           else if create_if_needed \<and> (cached = None \<or> cached = Some NON_EXISTENT_TRASH_ENTRY) then search w1
           else Some (cached, w1));
        Some (if result = Some NON_EXISTENT_TRASH_ENTRY then None else result, w2)
      })"

definition GNOME_VFS_DIRECTORY_KIND_DESKTOP :: nat where "GNOME_VFS_DIRECTORY_KIND_DESKTOP = 1000"
definition GNOME_VFS_DIRECTORY_KIND_TRASH :: nat where "GNOME_VFS_DIRECTORY_KIND_TRASH = 1001"

text \<open>The directory for a kind; \<open>None\<close> inside is a kind that is not supported here.\<close>

definition target_directory_path ::
    "'k file_env \<Rightarrow> string \<Rightarrow> stat \<Rightarrow> stat \<Rightarrow> nat \<Rightarrow> bool \<Rightarrow> bool \<Rightarrow> vfs_context \<Rightarrow> 'k file_world
      \<Rightarrow> (string option \<times> 'k file_world) option" where
  "target_directory_path E full_name_near near_item_stat home_volume_stat kind create_if_needed find_if_needed ctx w =
     (if kind = GNOME_VFS_DIRECTORY_KIND_TRASH then
        (if st_dev near_item_stat \<noteq> st_dev home_volume_stat
         then find_trash_directory E full_name_near (st_dev near_item_stat) create_if_needed find_if_needed 448 ctx w
         else Some (Some (append_to_path E (fe_home E) TRASH_DIRECTORY_NAME_BASE), w))
      else if kind = GNOME_VFS_DIRECTORY_KIND_DESKTOP \<and> st_dev near_item_stat = st_dev home_volume_stat
      then Some (Some (append_to_path E (fe_home E) ''Desktop''), w)
      else Some (None, w))"

text \<open>A cancelled context ends the function at its first test already.\<close>

definition do_find_directory ::
    "'k file_env \<Rightarrow> GnomeVFSURI \<Rightarrow> nat \<Rightarrow> bool \<Rightarrow> bool \<Rightarrow> guint \<Rightarrow> vfs_context \<Rightarrow> 'k file_world
      \<Rightarrow> (GnomeVFSResult \<times> GnomeVFSURI option \<times> 'k file_world) option" where
  "do_find_directory E near_uri kind create_if_needed find_if_needed perm ctx w =
     (let P = fe_posix E
      in case get_path_from_uri near_uri of
           None \<Rightarrow> Some (GNOME_VFS_ERROR_INVALID_URI, None, w)
         | Some full_name_near \<Rightarrow>
             if gnome_vfs_context_check_cancellation ctx then Some (GNOME_VFS_ERROR_CANCELLED, None, w)
             else
               (let (s, w1) = on_kernel (px_lstat P full_name_near) w
                in case s of
                     Inl e \<Rightarrow> Some (gnome_vfs_result_from_errno_code e, None, w1)
                   | Inr near_item_stat \<Rightarrow>
                       let (h, w2) = on_kernel (px_stat P (fe_home E)) w1
                       in case h of
                            Inl e \<Rightarrow> Some (gnome_vfs_result_from_errno_code e, None, w2)
                          | Inr home_volume_stat \<Rightarrow> do {
                              (target, w3) \<leftarrow> target_directory_path E full_name_near near_item_stat home_volume_stat kind
                                               create_if_needed find_if_needed ctx w2;
                              case target of
                                None \<Rightarrow> Some (GNOME_VFS_ERROR_NOT_SUPPORTED, None, w3)
                              | Some path \<Rightarrow>
                                  let (there, w4) =
                                        (if create_if_needed then on_kernel (px_access P path False False False) w3 else (True, w3));
                                      w5 = (if there then w4
                                            else snd (mkdir_recursive E path
                                                   (if kind = GNOME_VFS_DIRECTORY_KIND_TRASH then 448 else perm) w4));
                                      (found, w6) = on_kernel (px_access P path False False False) w5
                                  in Some (if found
                                           then (GNOME_VFS_OK, gnome_vfs_uri_new (fe_env E) (gnome_vfs_get_uri_from_local_path (Some path)), w6)
                                           else (GNOME_VFS_ERROR_NOT_FOUND, None, w6))
                            }))"

section \<open>The table of functions\<close>

definition file_method :: "'k file_env \<Rightarrow> 'k file_world GnomeVFSMethod" where
  "file_method E =
     \<lparr>m_open = Some (\<lambda>uri mode ctx w. or_stuck2 GNOME_VFS_ERROR_GENERIC 0 w (do_open E uri mode ctx w)),
      m_create = Some (\<lambda>uri mode excl perm ctx w. or_stuck2 GNOME_VFS_ERROR_GENERIC 0 w (do_create E uri mode excl perm ctx w)),
      m_close = Some (\<lambda>h ctx w. or_stuck GNOME_VFS_ERROR_GENERIC w (do_close E h ctx w)),
      m_read = Some (\<lambda>h n ctx w. or_stuck2 GNOME_VFS_ERROR_GENERIC [] w (do_read E h n ctx w)),
      m_write = Some (\<lambda>h buf ctx w. or_stuck2 GNOME_VFS_ERROR_GENERIC (Some 0) w (do_write E h buf ctx w)),
      m_seek = Some (do_seek E),
      m_tell = Some (do_tell E),
      m_truncate_handle = Some (do_truncate_handle E),
      m_open_directory = Some (do_open_directory E),
      m_close_directory = Some (do_close_directory E),
      m_read_directory = Some (\<lambda>h info ctx w. or_stuck2 GNOME_VFS_ERROR_GENERIC info w (do_read_directory E h info ctx w)),
      m_get_file_info =
        Some (\<lambda>uri info opts ctx w. or_stuck2 GNOME_VFS_ERROR_GENERIC info w (do_get_file_info E uri info opts ctx w)),
      m_get_file_info_from_handle =
        Some (\<lambda>h info opts ctx w. or_stuck2 GNOME_VFS_ERROR_GENERIC info w (do_get_file_info_from_handle E h info opts ctx w)),
      m_make_directory = Some (do_make_directory E),
      m_remove_directory = Some (do_remove_directory E),
      m_move = Some (\<lambda>a b force ctx w. or_stuck GNOME_VFS_ERROR_GENERIC w (do_move E a b force ctx w)),
      m_unlink = Some (do_unlink E),
      m_check_same_fs = Some (do_check_same_fs E),
      m_set_file_info =
        Some (\<lambda>uri info what ctx w. or_stuck GNOME_VFS_ERROR_GENERIC w (do_set_file_info E uri info what ctx w)),
      m_truncate = Some (do_truncate E),
      m_find_directory =
        Some (\<lambda>uri kind create find perm ctx w.
                or_stuck2 GNOME_VFS_ERROR_GENERIC None w (do_find_directory E uri kind create find perm ctx w)),
      m_create_symbolic_link = Some (do_create_symbolic_link E),
      m_file_control = Some (do_file_control E),
      m_forget_cache = Some (do_forget_cache E),
      m_get_volume_free_space = Some (do_get_volume_free_space E)\<rparr>"

end
