(* ===== verification/VFS_File_Inv.thy ===== *)
theory VFS_File_Inv
  imports VFS_Post VFS_Trash
begin

text \<open>
  What the functions of the module for local files that only look at files keep, for any
  condition on the world that the system calls behind them keep.
\<close>

lemma retry_inv:
  assumes "\<And>w. Q w \<Longrightarrow> Q (snd (call w))" "Q w"
  shows "post (\<lambda>r. Q (snd r)) (retry call ctx w)"
proof (rule postI)
  fix res
  assume res: "retry call ctx w = Some res"
  have "call = call \<longrightarrow> Q w \<longrightarrow> Q (snd res)"
  proof (rule retry.raw_induct [where P = "\<lambda>c ctx w res. c = call \<longrightarrow> Q w \<longrightarrow> Q (snd res)", OF _ res], goal_cases)
    case (1 f c ctx w res)
    then have IH: "Q w \<Longrightarrow> post (\<lambda>r. Q (snd r)) (f call ctx w)" for ctx w by (auto simp: post_def)
    show ?case
      by (intro impI, rule postD [OF _ 1(2)], hypsubst) (rule post_rules let2 [where P = Q] IH | simp add: assms(1))+
  qed
  then show "Q (snd res)" using assms(2) by blast
qed

lemma or_stuck_inv: "post (\<lambda>r. Q (snd r)) m \<Longrightarrow> Q (w\<lparr>fw_stuck := True\<rparr>) \<Longrightarrow> Q (snd (or_stuck a w m))"
  by (cases m) (simp_all add: or_stuck_def post_def)

lemma or_stuck2_inv: "post (\<lambda>r. Q (snd (snd r))) m \<Longrightarrow> Q (w\<lparr>fw_stuck := True\<rparr>) \<Longrightarrow> Q (snd (snd (or_stuck2 a b w m)))"
  by (cases m) (simp_all add: or_stuck2_def post_def)

locale file_queries =
  fixes E :: "'k file_env" and Q :: "'k file_world \<Rightarrow> bool"
  assumes status_query: "Q w \<Longrightarrow> Q (snd (on_kernel (px_stat (fe_posix E) p) w))" "Q w \<Longrightarrow> Q (snd (on_kernel (px_lstat (fe_posix E) p) w))"
      "Q w \<Longrightarrow> Q (snd (on_kernel (px_fstat (fe_posix E) fd) w))" "Q w \<Longrightarrow> Q (snd (on_kernel (px_readlink (fe_posix E) p n) w))"
      "Q w \<Longrightarrow> Q (snd (on_kernel (px_access (fe_posix E) p a b c) w))"
    and directory_query: "Q w \<Longrightarrow> Q (snd (on_kernel (px_readdir (fe_posix E) d) w))"
    and context_query: "Q w \<Longrightarrow> Q (snd (on_kernel (px_getfilecon (fe_posix E) p) w))"
      "Q w \<Longrightarrow> Q (snd (on_kernel (px_lgetfilecon (fe_posix E) p) w))" "Q w \<Longrightarrow> Q (snd (on_kernel (px_fgetfilecon (fe_posix E) fd) w))"
    and other_query: "Q w \<Longrightarrow> Q (snd (on_kernel (fe_mime_type E p st fast) w))" "Q w \<Longrightarrow> Q (snd (on_kernel (fe_mime_type_fast E p st) w))"
      "Q w \<Longrightarrow> Q (snd (on_kernel (fe_get_acl E p info st) w))"
begin

lemmas query_calls [simp] = status_query directory_query context_query other_query

lemmas query_rules [post_rules] =
  let2 [where P = Q] let3 [where P = Q] let4 [where P = Q] bind2 [where P = Q] bind3 [where P = Q] bind4 [where P = Q]

lemma read_link_inv [simp]: "Q w \<Longrightarrow> Q (snd (read_link E p w))"
proof -
  have "Q w \<Longrightarrow> Q (snd (read_link_loop E p i w))" for i
  proof (induction "24 - i" arbitrary: i w)
    case (Suc n)
    then have "Q (snd (on_kernel (px_readlink (fe_posix E) p (2 ^ (8 + i))) w))" by simp
    with Suc show ?case
      by (subst read_link_loop.simps) (auto simp: split_def Let_def split: sum.split)
  qed (simp add: read_link_loop.simps)
  then show "Q w \<Longrightarrow> Q (snd (read_link E p w))" by (simp add: read_link_def)
qed

lemma follow_links_loop_inv [post_rules]:
  assumes "Q w"
  shows "post (\<lambda>r. Q (snd (snd r))) (follow_links_loop E oflag p st w)"
proof (rule postI)
  fix res
  assume res: "follow_links_loop E oflag p st w = Some res"
  have "E = E \<longrightarrow> Q w \<longrightarrow> Q (snd (snd res))"
  proof (rule follow_links_loop.raw_induct
      [where P = "\<lambda>E' oflag p st w res. E' = E \<longrightarrow> Q w \<longrightarrow> Q (snd (snd res))", OF _ res], goal_cases)
    case (1 f E' oflag p st w res)
    then have IH: "Q w \<Longrightarrow> post (\<lambda>r. Q (snd (snd r))) (f E oflag p st w)" for oflag p st w by (auto simp: post_def)
    show ?case
      by (intro impI, rule postD [OF _ 1(2)], hypsubst) (rule post_rules IH | rule post_let | simp)+
  qed
  then show "Q (snd (snd res))" using assms by blast
qed

lemma get_stat_info_inv [post_rules]: "Q w \<Longrightarrow> post (\<lambda>r. Q (snd (snd (snd r)))) (get_stat_info E info p opts w)"
  unfolding get_stat_info_def by (rule post_rules | rule post_let | simp add: split_def Let_def split: sum.split)+

lemma add_parts_inv [simp]:
  "Q (snd iw) \<Longrightarrow> Q (snd (add_context E p opts iw))" "Q (snd iw) \<Longrightarrow> Q (snd (add_access E p opts iw))"
  "Q (snd iw) \<Longrightarrow> Q (snd (add_mime_type E p opts st iw))" "Q (snd iw) \<Longrightarrow> Q (snd (add_acl E p opts st iw))"
  by (simp_all add: add_context_def get_selinux_context_def add_access_def get_access_info_def access_bits_def
      add_mime_type_def get_mime_type_def add_acl_def split_def Let_def split: sum.split)

lemma do_get_file_info_inv: "Q w \<Longrightarrow> post (\<lambda>r. Q (snd (snd r))) (do_get_file_info E u info opts ctx w)"
  unfolding do_get_file_info_def by (rule post_rules | rule post_let post_value | simp)+

lemma do_get_file_info_from_handle_inv:
  "Q w \<Longrightarrow> post (\<lambda>r. Q (snd (snd r))) (do_get_file_info_from_handle E h info opts ctx w)"
  unfolding do_get_file_info_from_handle_def get_stat_info_from_handle_def get_selinux_context_from_handle_def
  by (rule post_rules | rule post_let post_value | simp add: split_def Let_def split: sum.split)+

lemma do_read_directory_inv: "Q w \<Longrightarrow> post (\<lambda>r. Q (snd (snd r))) (do_read_directory E h info ctx w)"
  unfolding do_read_directory_def by (rule post_rules | rule post_let post_value | simp)+

lemma do_check_same_fs_inv [simp]: "Q w \<Longrightarrow> Q (snd (snd (do_check_same_fs E u v ctx w)))"
  by (simp add: do_check_same_fs_def stat_or_fault_def split_def Let_def split: option.split sum.split)

end

end
