(* ===== verification/VFS_Ram.thy ===== *)
theory VFS_Ram
  imports VFS_Trash "HOL-Library.AList"
begin

text \<open>
  A kernel with a file system in memory, on which the properties of the module for local files
  and of the transfers are tried out: it shows that their hypotheses about system calls can
  hold, and it gives the faults of the code a place to happen. A node has a device; open
  files are a path, a position and whether they may only be read. There are no permissions and no users.
\<close>

datatype ram_node = Ram_File string | Ram_Dir | Ram_Link string | Ram_Fifo

record ram =
  ram_nodes :: "(string \<times> int \<times> ram_node) list"
  ram_fds :: "nat \<Rightarrow> (string \<times> nat) option"
  ram_readonly :: "nat \<Rightarrow> bool"
  ram_dirs :: "nat \<Rightarrow> string list option"
  ram_next :: nat

definition ram_node_at :: "ram \<Rightarrow> string \<Rightarrow> (int \<times> ram_node) option" where
  "ram_node_at k p = (if p = [] then Some (0, Ram_Dir) else map_of (ram_nodes k) p)"

fun split_path :: "string \<Rightarrow> string list" where
  "split_path [] = [[]]"
| "split_path (c # cs) =
     (if c = slash then [] # split_path cs else (case split_path cs of [] \<Rightarrow> [[c]] | d # ds \<Rightarrow> (c # d) # ds))"

definition join_path :: "string list \<Rightarrow> string" where
  "join_path ds = concat (map ((#) slash) ds)"

text \<open>The walk along a path; the number bounds the components looked at, links included.\<close>

fun ram_walk :: "nat \<Rightarrow> ram \<Rightarrow> bool \<Rightarrow> string list \<Rightarrow> string list \<Rightarrow> errno_code + string" where
  "ram_walk 0 k follow seen todo = Inl ELOOP"
| "ram_walk (Suc n) k follow seen [] = Inr (join_path seen)"
| "ram_walk (Suc n) k follow seen (c # cs) =
     (if c = [] \<or> c = ''.'' then ram_walk n k follow seen cs
      else if c = ''..'' then ram_walk n k follow (butlast seen) cs
      else case ram_node_at k (join_path (seen @ [c])) of
             None \<Rightarrow> if cs = [] then Inr (join_path (seen @ [c])) else Inl ENOENT
           | Some (dev, Ram_Link t) \<Rightarrow>
               if cs = [] \<and> \<not> follow then Inr (join_path (seen @ [c]))
               else ram_walk n k follow (if take 1 t = ''/'' then [] else seen) (split_path t @ cs)
           | Some (dev, node) \<Rightarrow> ram_walk n k follow (seen @ [c]) cs)"

definition ram_resolve :: "ram \<Rightarrow> bool \<Rightarrow> string \<Rightarrow> errno_code + string" where
  "ram_resolve k follow p = (if p = [] then Inl ENOENT else ram_walk 64 k follow [] (split_path p))"

definition ram_find :: "ram \<Rightarrow> bool \<Rightarrow> string \<Rightarrow> errno_code + string \<times> int \<times> ram_node" where
  "ram_find k follow p =
     (case ram_resolve k follow p of
        Inl e \<Rightarrow> Inl e
      | Inr q \<Rightarrow> (case ram_node_at k q of None \<Rightarrow> Inl ENOENT | Some dn \<Rightarrow> Inr (q, dn)))"

fun ram_mode :: "ram_node \<Rightarrow> guint" where
  "ram_mode (Ram_File t) = 33188"
| "ram_mode Ram_Dir = 16877"
| "ram_mode (Ram_Link t) = 41471"
| "ram_mode Ram_Fifo = 4516"

fun ram_text :: "ram_node \<Rightarrow> string" where
  "ram_text (Ram_File t) = t"
| "ram_text (Ram_Link t) = t"
| "ram_text n = []"

definition ram_status :: "int \<times> ram_node \<Rightarrow> stat" where
  "ram_status dn =
     \<lparr>st_mode = ram_mode (snd dn), st_dev = fst dn, st_ino = 0, st_nlink = 1, st_uid = 0, st_gid = 0,
      st_size = of_nat (length (ram_text (snd dn))), st_blocks = 0, st_blksize = 4096,
      st_atime = 0, st_mtime = 0, st_ctime = 0\<rparr>"

definition ram_stat :: "bool \<Rightarrow> string \<Rightarrow> (stat, ram) syscall" where
  "ram_stat follow p k = (case ram_find k follow p of Inl e \<Rightarrow> (Inl e, k) | Inr (q, dn) \<Rightarrow> (Inr (ram_status dn), k))"

definition ram_put :: "string \<Rightarrow> int \<times> ram_node \<Rightarrow> ram \<Rightarrow> ram" where
  "ram_put q dn k = k\<lparr>ram_nodes := AList.update q dn (ram_nodes k)\<rparr>"

definition ram_drop :: "string \<Rightarrow> ram \<Rightarrow> ram" where
  "ram_drop q k = k\<lparr>ram_nodes := filter (\<lambda>x. fst x \<noteq> q) (ram_nodes k)\<rparr>"

definition ram_parent :: "string \<Rightarrow> string" where
  "ram_parent q = join_path (butlast (tl (split_path q)))"

text \<open>A new node at a path whose parent is a directory; it gets the device of the parent.\<close>

definition ram_make :: "ram_node \<Rightarrow> string \<Rightarrow> ram \<Rightarrow> (errno_code + unit) \<times> ram" where
  "ram_make node q k =
     (case ram_node_at k (ram_parent q) of
        Some (dev, Ram_Dir) \<Rightarrow> (Inr (), ram_put q (dev, node) k)
      | _ \<Rightarrow> (Inl ENOTDIR, k))"

definition ram_new :: "ram_node \<Rightarrow> string \<Rightarrow> (unit, ram) syscall" where
  "ram_new node p k =
     (case ram_resolve k False p of
        Inl e \<Rightarrow> (Inl e, k)
      | Inr q \<Rightarrow> if ram_node_at k q \<noteq> None then (Inl EEXIST, k) else ram_make node q k)"

definition ram_fd :: "bool \<Rightarrow> string \<Rightarrow> ram \<Rightarrow> (errno_code + nat) \<times> ram" where
  "ram_fd readonly q k =
     (Inr (ram_next k),
      k\<lparr>ram_fds := (ram_fds k)(ram_next k := Some (q, 0)), ram_readonly := (ram_readonly k)(ram_next k := readonly),
        ram_next := ram_next k + 1\<rparr>)"

definition ram_open :: "string \<Rightarrow> unix_mode \<Rightarrow> guint \<Rightarrow> (nat, ram) syscall" where
  "ram_open p m perm k =
     (case ram_resolve k (\<not> (um_creat m \<and> um_excl m)) p of
        Inl e \<Rightarrow> (Inl e, k)
      | Inr q \<Rightarrow>
          (case ram_node_at k q of
             None \<Rightarrow> if um_creat m then (case ram_make (Ram_File []) q k of (Inl e, k1) \<Rightarrow> (Inl e, k1) | (Inr u, k1) \<Rightarrow> ram_fd (um_access m = O_RDONLY) q k1)
                     else (Inl ENOENT, k)
           | Some (dev, node) \<Rightarrow>
               if um_creat m \<and> um_excl m then (Inl EEXIST, k)
               else if node = Ram_Dir \<and> um_access m \<noteq> O_RDONLY then (Inl EISDIR, k)
               else ram_fd (um_access m = O_RDONLY) q (if um_trunc m then ram_put q (dev, Ram_File []) k else k)))"

definition ram_close :: "nat \<Rightarrow> (unit, ram) syscall" where
  "ram_close fd k = (if ram_fds k fd = None then (Inl EBADF, k) else (Inr (), k\<lparr>ram_fds := (ram_fds k)(fd := None)\<rparr>))"

definition ram_content :: "ram \<Rightarrow> string \<Rightarrow> string" where
  "ram_content k q = (case ram_node_at k q of Some (dev, Ram_File t) \<Rightarrow> t | _ \<Rightarrow> [])"

definition ram_read :: "nat \<Rightarrow> file_size \<Rightarrow> (string, ram) syscall" where
  "ram_read fd n k =
     (case ram_fds k fd of
        None \<Rightarrow> (Inl EBADF, k)
      | Some (q, i) \<Rightarrow>
          let buf = take (unat n) (drop i (ram_content k q))
          in (Inr buf, k\<lparr>ram_fds := (ram_fds k)(fd := Some (q, i + length buf))\<rparr>))"

definition ram_write :: "nat \<Rightarrow> string \<Rightarrow> (nat, ram) syscall" where
  "ram_write fd buf k =
     (case ram_fds k fd of
        None \<Rightarrow> (Inl EBADF, k)
      | Some (q, i) \<Rightarrow>
          if ram_readonly k fd then (Inl EBADF, k)
          else (case ram_node_at k q of
             Some (dev, Ram_File t) \<Rightarrow>
               (Inr (length buf),
                (ram_put q (dev, Ram_File (take i t @ buf @ drop (i + length buf) t)) k)
                  \<lparr>ram_fds := (ram_fds k)(fd := Some (q, i + length buf))\<rparr>)
           | _ \<Rightarrow> (Inl EBADF, k)))"

definition ram_fstat :: "nat \<Rightarrow> (stat, ram) syscall" where
  "ram_fstat fd k =
     (case ram_fds k fd of
        None \<Rightarrow> (Inl EBADF, k)
      | Some (q, i) \<Rightarrow> (case ram_node_at k q of None \<Rightarrow> (Inl EIO, k) | Some dn \<Rightarrow> (Inr (ram_status dn), k)))"

definition ram_readlink :: "string \<Rightarrow> nat \<Rightarrow> (string, ram) syscall" where
  "ram_readlink p n k =
     (case ram_find k False p of
        Inr (q, dev, Ram_Link t) \<Rightarrow> (Inr (take n t), k) | Inr x \<Rightarrow> (Inl EINVAL, k) | Inl e \<Rightarrow> (Inl e, k))"

definition ram_children :: "ram \<Rightarrow> string \<Rightarrow> string list" where
  "ram_children k q =
     map (\<lambda>x. drop (length q + 1) (fst x))
       (filter (\<lambda>x. take (length q + 1) (fst x) = q @ [slash] \<and> slash \<notin> set (drop (length q + 1) (fst x))) (ram_nodes k))"

definition ram_opendir :: "string \<Rightarrow> (nat, ram) syscall" where
  "ram_opendir p k =
     (case ram_find k True p of
        Inr (q, dev, Ram_Dir) \<Rightarrow>
          (Inr (ram_next k), k\<lparr>ram_dirs := (ram_dirs k)(ram_next k := Some (''.'' # ''..'' # ram_children k q)), ram_next := ram_next k + 1\<rparr>)
      | Inr x \<Rightarrow> (Inl ENOTDIR, k)
      | Inl e \<Rightarrow> (Inl e, k))"

definition ram_readdir :: "nat \<Rightarrow> (string option, ram) syscall" where
  "ram_readdir d k =
     (case ram_dirs k d of
        Some (n # ns) \<Rightarrow> (Inr (Some n), k\<lparr>ram_dirs := (ram_dirs k)(d := Some ns)\<rparr>) | Some [] \<Rightarrow> (Inr None, k) | None \<Rightarrow> (Inl EBADF, k))"

definition ram_remove :: "bool \<Rightarrow> string \<Rightarrow> (unit, ram) syscall" where
  "ram_remove dir p k =
     (case ram_find k False p of
        Inl e \<Rightarrow> (Inl e, k)
      | Inr (q, dev, node) \<Rightarrow>
          if dir \<and> node \<noteq> Ram_Dir then (Inl ENOTDIR, k)
          else if dir \<and> ram_children k q \<noteq> [] then (Inl ENOTEMPTY, k)
          else if \<not> dir \<and> node = Ram_Dir then (Inl EISDIR, k)
          else (Inr (), ram_drop q k))"

text \<open>Renaming of a single node; nothing here renames a directory with entries.\<close>

definition ram_rename :: "string \<Rightarrow> string \<Rightarrow> (unit, ram) syscall" where
  "ram_rename a b k =
     (case (ram_find k False a, ram_resolve k False b) of
        (Inr (p, dev, node), Inr q) \<Rightarrow>
          (case ram_node_at k (ram_parent q) of
             None \<Rightarrow> (Inl ENOENT, k)
           | Some (dev', parent) \<Rightarrow>
               if dev' \<noteq> dev then (Inl EXDEV, k)
               else (case ram_node_at k q of
                       Some (d, Ram_Dir) \<Rightarrow> if node = Ram_Dir then (Inr (), ram_put q (dev, node) (ram_drop p k)) else (Inl EISDIR, k)
                     | _ \<Rightarrow> if p = q then (Inr (), k) else (Inr (), ram_put q (dev, node) (ram_drop p k))))
      | (Inl e, x) \<Rightarrow> (Inl e, k)
      | (y, Inl e) \<Rightarrow> (Inl e, k))"

definition ram_posix :: "ram posix" where
  "ram_posix =
     \<lparr>px_open = ram_open, px_close = ram_close, px_read = ram_read, px_write = ram_write,
      px_lseek = (\<lambda>fd off whence k. (Inl (E_OTHER 29), k)), px_ftruncate = (\<lambda>fd n k. (Inl EINVAL, k)),
      px_truncate = (\<lambda>p n k. (Inl EINVAL, k)), px_fadvise = (\<lambda>fd a b k. k), px_fstat = ram_fstat,
      px_stat = ram_stat True, px_lstat = ram_stat False, px_readlink = ram_readlink,
      px_access = (\<lambda>p r w x k. (case ram_find k True p of Inl e \<Rightarrow> False | Inr z \<Rightarrow> True, k)),
      px_opendir = ram_opendir, px_readdir = ram_readdir, px_closedir = (\<lambda>d k. k\<lparr>ram_dirs := (ram_dirs k)(d := None)\<rparr>),
      px_mkdir = (\<lambda>p m. ram_new Ram_Dir p), px_rmdir = ram_remove True, px_unlink = ram_remove False,
      px_rename = ram_rename, px_symlink = (\<lambda>t p. ram_new (Ram_Link t) p),
      px_chmod = (\<lambda>p m k. (Inr (), k)), px_chown = (\<lambda>p u g k. (Inr (), k)), px_utime = (\<lambda>p a m k. (Inr (), k)),
      px_statvfs = (\<lambda>p k. (Inr \<lparr>f_frsize = 4096, f_bavail = 1000, f_bfree = 1000\<rparr>, k)),
      px_statfs_type = (\<lambda>p k. (Inr 0, k)), px_mkstemp = (\<lambda>p k. (Inl EACCES, k)), px_fchmod = (\<lambda>fd m k. k),
      px_getfilecon = (\<lambda>p k. (Inl ENOTSUP, k)), px_lgetfilecon = (\<lambda>p k. (Inl ENOTSUP, k)),
      px_fgetfilecon = (\<lambda>fd k. (Inl ENOTSUP, k)), px_setfilecon = (\<lambda>p c k. (Inl ENOTSUP, k)),
      px_errno = (\<lambda>k. E_OTHER 0)\<rparr>"

definition ram_build_filename :: "string \<Rightarrow> string \<Rightarrow> string" where
  "ram_build_filename d n = (if d \<noteq> [] \<and> last d = slash then d @ n else d @ [slash] @ n)"

definition ram_path_get_dirname :: "string \<Rightarrow> string" where
  "ram_path_get_dirname p =
     (case strrchr p slash of None \<Rightarrow> ''.'' | Some 0 \<Rightarrow> ''/'' | Some i \<Rightarrow> take i p)"

definition ram_env :: vfs_env where
  "ram_env =
     \<lparr>env_method_get = (\<lambda>s. if s = ''file'' then Some 0 else None), env_transform = (\<lambda>m t. None), env_oob = (\<lambda>m. False)\<rparr>"

definition ram_file_env :: "ram file_env" where
  "ram_file_env =
     \<lparr>fe_posix = ram_posix, fe_env = ram_env, fe_build_filename = ram_build_filename,
      fe_path_get_dirname = ram_path_get_dirname, fe_home = ''/home'', fe_user = ''me'',
      fe_mime_type = (\<lambda>p st fast k. (''text/plain'', k)), fe_mime_type_fast = (\<lambda>p st k. (''text/plain'', k)),
      fe_get_acl = (\<lambda>p info st k. (info, k)), fe_set_acl = (\<lambda>p info k. (GNOME_VFS_ERROR_NOT_SUPPORTED, k)),
      fe_filesystem_type = (\<lambda>p st k. (''ext3'', k)),
      fe_vfs_open = (\<lambda>p m w. (GNOME_VFS_ERROR_NOT_SUPPORTED, None, w)), fe_vfs_close = (\<lambda>h w. (GNOME_VFS_OK, w)),
      fe_read_text = (\<lambda>p k. (case ram_find k True p of Inr (q, dev, Ram_File t) \<Rightarrow> Some t | _ \<Rightarrow> None, k)),
      fe_selinux = False\<rparr>"

definition ram_library :: "ram file_world vfs_library" where
  "ram_library =
     \<lparr>lib_env = ram_env, lib_method = (\<lambda>m. file_method ram_file_env), lib_home = ''/home'',
      lib_build_filename = ram_build_filename\<rparr>"

definition ram_world :: "(string \<times> int \<times> ram_node) list \<Rightarrow> ram file_world" where
  "ram_world nodes =
     \<lparr>fw_kernel = \<lparr>ram_nodes = nodes, ram_fds = (\<lambda>fd. None), ram_readonly = (\<lambda>fd. False), ram_dirs = (\<lambda>d. None), ram_next = 3\<rparr>,
      fw_files = (\<lambda>h. None), fw_dirs = (\<lambda>h. None), fw_next = 1, fw_strings = (\<lambda>a. None), fw_trash = [], fw_stuck = False\<rparr>"

text \<open>The URI of a path that needs no escapes, as the library parses it.\<close>

definition ram_uri :: "string \<Rightarrow> GnomeVFSURI" where
  "ram_uri p =
     Toplevel \<lparr>elem_text = Some p, fragment_id = None, method_string = ''file'', uri_method = Some 0, ref_count = 1\<rparr>
       \<lparr>host_name = None, host_port = 0, user_name = None, password = None\<rparr>"

lemma ram_uri_parsed: "gnome_vfs_uri_new ram_env (Some ''file:///a/b'') = Some (ram_uri ''/a/b'')"
  by code_simp

lemma ram_node_at_put [simp]: "q \<noteq> [] \<Longrightarrow> ram_node_at (ram_put q dn k) p = (if p = q then Some dn else ram_node_at k p)"
  by (simp add: ram_node_at_def ram_put_def update_conv')

lemma ram_fds_put [simp]: "ram_fds (ram_put q dn k) = ram_fds k" "ram_readonly (ram_put q dn k) = ram_readonly k"
  by (simp_all add: ram_put_def)

lemma ram_node_at_fds [simp]: "ram_node_at (k\<lparr>ram_fds := f\<rparr>) p = ram_node_at k p"
  by (simp add: ram_node_at_def)

lemma ram_content_fds [simp]: "ram_content (k\<lparr>ram_fds := f\<rparr>) p = ram_content k p"
  by (simp add: ram_content_def)

end
