(* ===== verification/VFS_File_Laws.thy ===== *)
theory VFS_File_Laws
  imports VFS_Xfer_Laws VFS_Ram
begin

text \<open>
  The module for local files under the synchronous operations and the transfers: what reading
  and writing descriptors promise gives the contract of a copy.
\<close>

section \<open>Calls that are repeated\<close>

lemma retry_cases:
  assumes "retry call ctx w = Some (r, w')"
    and "\<And>w r w'. call w = (r, w') \<Longrightarrow> interrupted r \<Longrightarrow> Q w' \<Longrightarrow> Q w"
    and "\<And>w. call w = (r, w') \<Longrightarrow> Q w"
  shows "Q w"
proof -
  let ?P = "\<lambda>call' (ctx :: vfs_context) w res. call' = call \<longrightarrow> res = (r, w') \<longrightarrow> Q w"
  have "?P call ctx w (r, w')"
  proof (rule retry.raw_induct [where P = ?P, OF _ assms(1)], goal_cases)
    case (1 f call' ctx w res)
    show ?case
    proof (intro impI)
      assume call: "call' = call" and res: "res = (r, w')"
      obtain r1 w1 where c: "call w = (r1, w1)" by (metis surj_pair)
      show "Q w"
      proof (cases "interrupted r1 \<and> \<not> gnome_vfs_context_check_cancellation ctx")
        case True
        then have "f call ctx w1 = Some res" using 1(2) by (simp add: call c)
        then show ?thesis using 1(1) call res assms(2) [OF c] True by blast
      next
        case False
        then show ?thesis using 1(2) assms(3) by (auto simp: call c res)
      qed
    qed
  qed
  then show ?thesis by simp
qed

section \<open>Descriptors as streams\<close>

text \<open>
  Two descriptors of a kernel: \<open>left\<close> is what the first has still to give, \<open>out\<close> what the second
  was given; \<open>good\<close> says that they are open as they should be. A failed call changes neither,
  an interrupted one included; only a read at the end returns no bytes; advice about caching
  changes nothing.
\<close>

locale posix_streams =
  fixes P :: "'k posix" and src tgt :: nat and left out :: "'k \<Rightarrow> string" and good :: "'k \<Rightarrow> bool"
  assumes read_fd: "good k \<Longrightarrow> px_read P src n k = (r, k') \<Longrightarrow> good k' \<and> out k' = out k
      \<and> (case r of Inl e \<Rightarrow> left k' = left k | Inr buf \<Rightarrow> left k = buf @ left k' \<and> (0 < n \<and> left k \<noteq> [] \<longrightarrow> buf \<noteq> []))"
    and write_fd: "good k \<Longrightarrow> px_write P tgt data k = (q, k') \<Longrightarrow> good k' \<and> left k' = left k
      \<and> (case q of Inl e \<Rightarrow> out k' = out k | Inr m \<Rightarrow> m \<le> length data \<and> out k' = out k @ take m data)"
    and advise: "good k \<Longrightarrow> (let k' = px_fadvise P fd i len k in good k' \<and> left k' = left k \<and> out k' = out k)"

lemma errno_not_eof: "gnome_vfs_result_from_errno_code e \<noteq> GNOME_VFS_ERROR_EOF"
  by (cases e) simp_all

text \<open>Both handles of a copy are open on the descriptors.\<close>

definition handles_open :: "('k \<Rightarrow> bool) \<Rightarrow> GnomeVFSHandle \<Rightarrow> GnomeVFSHandle \<Rightarrow> nat \<Rightarrow> nat \<Rightarrow> 'k file_world \<Rightarrow> bool" where
  "handles_open good sh th src tgt w \<longleftrightarrow>
     good (fw_kernel w) \<and> map_option fh_fd (fw_files w (h_method_handle sh)) = Some src
     \<and> map_option fh_fd (fw_files w (h_method_handle th)) = Some tgt"

abbreviation kernel_at :: "('k \<Rightarrow> 'a) \<Rightarrow> 'k file_world \<Rightarrow> 'a" where
  "kernel_at f w \<equiv> f (fw_kernel w)"

locale file_copy = posix_streams P src tgt left out good
  for P :: "'k posix" and src tgt :: nat and left out :: "'k \<Rightarrow> string" and good :: "'k \<Rightarrow> bool" +
  fixes E :: "'k file_env" and X :: "'k file_world xfer" and C :: copy_handles
  assumes posix: "fe_posix E = P"
    and methods: "method_of (x_library X) (h_uri (cp_source C)) = file_method E" "method_of (x_library X) (h_uri (cp_target C)) = file_method E"
    and block: "cp_block_size C \<noteq> 0"
    and quiet: "xfer_inv X (at_streams (handles_open good (cp_source C) (cp_target C) src tgt) (kernel_at left) (kernel_at out) a b)"
begin

abbreviation open_handles where "open_handles \<equiv> handles_open good (cp_source C) (cp_target C) src tgt"

lemma on_kernel_eq: "on_kernel f w = (r, w') \<longleftrightarrow> (\<exists>k. f (fw_kernel w) = (r, k) \<and> w' = w\<lparr>fw_kernel := k\<rparr>)"
  by (cases "f (fw_kernel w)") (auto simp: on_kernel_def)

lemma read_retry:
  assumes "retry (on_kernel (px_read P src n)) ctx w = Some (r, w')"
  shows "open_handles w \<longrightarrow> open_handles w' \<and> out (fw_kernel w') = out (fw_kernel w)
    \<and> (case r of Inl e \<Rightarrow> left (fw_kernel w') = left (fw_kernel w)
       | Inr buf \<Rightarrow> left (fw_kernel w) = buf @ left (fw_kernel w') \<and> (0 < n \<and> left (fw_kernel w) \<noteq> [] \<longrightarrow> buf \<noteq> []))"
  using assms
proof (rule retry_cases, goal_cases)
  case (1 w r1 w1)
  then obtain k where c: "px_read P src n (fw_kernel w) = (Inl EINTR, k)" and w1: "w1 = w\<lparr>fw_kernel := k\<rparr>"
    by (auto simp: on_kernel_eq interrupted_def split: sum.splits)
  show ?case
  proof
    assume "open_handles w"
    then have eqs: "left (fw_kernel w1) = left (fw_kernel w)" "out (fw_kernel w1) = out (fw_kernel w)" and "open_handles w1"
      using read_fd [OF _ c] by (simp_all add: w1 handles_open_def)
    then show "open_handles w' \<and> out (fw_kernel w') = out (fw_kernel w)
      \<and> (case r of Inl e \<Rightarrow> left (fw_kernel w') = left (fw_kernel w)
       | Inr buf \<Rightarrow> left (fw_kernel w) = buf @ left (fw_kernel w') \<and> (0 < n \<and> left (fw_kernel w) \<noteq> [] \<longrightarrow> buf \<noteq> []))"
      using 1(3) unfolding eqs by blast
  qed
next
  case (2 w)
  then obtain k where c: "px_read P src n (fw_kernel w) = (r, k)" and w': "w' = w\<lparr>fw_kernel := k\<rparr>"
    by (auto simp: on_kernel_eq)
  have "fw_kernel w' = k" "good k \<Longrightarrow> open_handles w \<Longrightarrow> open_handles w'" by (simp_all add: w' handles_open_def)
  then show ?case using read_fd [OF _ c] by (simp only: handles_open_def) blast
qed

lemma write_retry:
  assumes "retry (on_kernel (px_write P tgt data)) ctx w = Some (r, w')"
  shows "open_handles w \<longrightarrow> open_handles w' \<and> left (fw_kernel w') = left (fw_kernel w)
    \<and> (case r of Inl e \<Rightarrow> out (fw_kernel w') = out (fw_kernel w)
       | Inr m \<Rightarrow> m \<le> length data \<and> out (fw_kernel w') = out (fw_kernel w) @ take m data)"
  using assms
proof (rule retry_cases, goal_cases)
  case (1 w r1 w1)
  then obtain k where c: "px_write P tgt data (fw_kernel w) = (Inl EINTR, k)" and w1: "w1 = w\<lparr>fw_kernel := k\<rparr>"
    by (auto simp: on_kernel_eq interrupted_def split: sum.splits)
  show ?case
  proof
    assume "open_handles w"
    then have eqs: "left (fw_kernel w1) = left (fw_kernel w)" "out (fw_kernel w1) = out (fw_kernel w)" and "open_handles w1"
      using write_fd [OF _ c] by (simp_all add: w1 handles_open_def)
    then show "open_handles w' \<and> left (fw_kernel w') = left (fw_kernel w)
      \<and> (case r of Inl e \<Rightarrow> out (fw_kernel w') = out (fw_kernel w)
         | Inr m \<Rightarrow> m \<le> length data \<and> out (fw_kernel w') = out (fw_kernel w) @ take m data)"
      using 1(3) unfolding eqs by blast
  qed
next
  case (2 w)
  then obtain k where c: "px_write P tgt data (fw_kernel w) = (r, k)" and w': "w' = w\<lparr>fw_kernel := k\<rparr>"
    by (auto simp: on_kernel_eq)
  have "fw_kernel w' = k" "good k \<Longrightarrow> open_handles w \<Longrightarrow> open_handles w'" by (simp_all add: w' handles_open_def)
  then show ?case using write_fd [OF _ c] by (simp only: handles_open_def) blast
qed

lemma not_cancelled [simp]: "\<not> gnome_vfs_context_check_cancellation None"
  by (simp add: gnome_vfs_context_check_cancellation_def gnome_vfs_context_get_cancellation_def gnome_vfs_cancellation_check_def)

lemma file_read:
  assumes "open_handles w" and "gnome_vfs_read (x_library X) (cp_source C) (cp_block_size C) w = (r, buf, w')"
  obtains "r = GNOME_VFS_ERROR_GENERIC" "w' = w\<lparr>fw_stuck := True\<rparr>" "retry (on_kernel (px_read P src (cp_block_size C))) None w = None"
  | e where "retry (on_kernel (px_read P src (cp_block_size C))) None w = Some (Inl e, w')" "r = gnome_vfs_result_from_errno_code e"
  | "retry (on_kernel (px_read P src (cp_block_size C))) None w = Some (Inr buf, w')"
    "r = (if buf = [] then GNOME_VFS_ERROR_EOF else GNOME_VFS_OK)"
proof -
  obtain fh where fh: "fw_files w (h_method_handle (cp_source C)) = Some fh" "fh_fd fh = src"
    using assms(1) by (auto simp: handles_open_def)
  show thesis
  proof (cases "retry (on_kernel (px_read P src (cp_block_size C))) None w")
    case None
    then show ?thesis using assms(2) block fh that(1)
      by (auto simp: gnome_vfs_read_def gnome_vfs_read_cancellable_def gnome_vfs_handle_do_read_def methods file_method_def
          do_read_def posix or_stuck2_def)
  next
    case (Some rw)
    obtain x w1 where rw: "rw = (x, w1)" by (metis surj_pair)
    show ?thesis using assms(2) block fh that(2,3) Some unfolding rw
      by (cases x) (auto simp: gnome_vfs_read_def gnome_vfs_read_cancellable_def gnome_vfs_handle_do_read_def methods
          file_method_def do_read_def posix or_stuck2_def result_from_errno_not_ok)
  qed
qed

lemma file_write:
  assumes "open_handles w" and "gnome_vfs_write (x_library X) (cp_target C) data w = (r, n, w')"
  obtains "data = []" "r = GNOME_VFS_OK" "n = Some 0" "w' = w"
  | "r = GNOME_VFS_ERROR_GENERIC" "n = Some 0" "w' = w\<lparr>fw_stuck := True\<rparr>" "retry (on_kernel (px_write P tgt data)) None w = None"
  | e where "retry (on_kernel (px_write P tgt data)) None w = Some (Inl e, w')" "r = gnome_vfs_result_from_errno_code e" "n = Some 0"
  | m where "retry (on_kernel (px_write P tgt data)) None w = Some (Inr m, w')" "r = GNOME_VFS_OK" "n = Some m"
proof -
  obtain fh where fh: "fw_files w (h_method_handle (cp_target C)) = Some fh" "fh_fd fh = tgt"
    using assms(1) by (auto simp: handles_open_def)
  show thesis
  proof (cases "retry (on_kernel (px_write P tgt data)) None w")
    case None
    then show ?thesis using assms(2) fh that(1,2)
      by (auto simp: gnome_vfs_write_def gnome_vfs_write_cancellable_def gnome_vfs_handle_do_write_def methods file_method_def
          do_write_def posix or_stuck2_def split: if_splits)
  next
    case (Some rw)
    obtain x w1 where rw: "rw = (x, w1)" by (metis surj_pair)
    show ?thesis using assms(2) fh that(1,3,4) Some unfolding rw
      by (cases x) (auto simp: gnome_vfs_write_def gnome_vfs_write_cancellable_def gnome_vfs_handle_do_write_def methods
          file_method_def do_write_def posix or_stuck2_def split: if_splits)
  qed
qed

end

sublocale file_copy \<subseteq> copy: byte_streams X C "kernel_at left" "kernel_at out" open_handles
proof (rule byte_streams.intro, goal_cases)
  case (1 w r buf w')
  show ?case
  proof (rule file_read [OF 1], goal_cases)
    case 1
    then show ?case using \<open>open_handles w\<close> by (simp add: handles_open_def)
  next
    case (2 e)
    then show ?case using read_retry [OF 2(1)] \<open>open_handles w\<close> by (simp add: result_from_errno_not_ok errno_not_eof)
  next
    case 3
    note rd = read_retry [OF 3(1), unfolded sum.case]
    have "0 < cp_block_size C" using block by (simp add: word_gt_0)
    then have part: "open_handles w'" "out (fw_kernel w') = out (fw_kernel w)" "left (fw_kernel w) = buf @ left (fw_kernel w')"
      "buf = [] \<Longrightarrow> left (fw_kernel w) = []"
      using rd \<open>open_handles w\<close> by blast+
    show ?case
    proof (cases "buf = []")
      case True
      then show ?thesis using part(1,2) part(4) part(3) [symmetric] 3(2) by simp
    next
      case False
      then show ?thesis using part(1-3) 3(2) by simp
    qed
  qed
next
  case (2 w data r n w')
  show ?case
  proof (rule file_write [OF 2], goal_cases)
    case 3
    then show ?case using write_retry [OF 3(1)] \<open>open_handles w\<close> by (simp add: errno_not_eof)
  next
    case 4
    then show ?case using write_retry [OF 4(1)] \<open>open_handles w\<close> by simp
  qed (use \<open>open_handles w\<close> in \<open>simp_all add: handles_open_def\<close>)
next
  case (3 h w offset len)
  have "snd (gnome_vfs_forget_cache (x_library X) h offset len w) = do_kernel (px_fadvise P fd offset len) w"
    if "map_option fh_fd (fw_files w (h_method_handle h)) = Some fd" for fd
    using that 3(1) methods
    by (auto simp: gnome_vfs_forget_cache_def gnome_vfs_handle_forget_cache_def file_method_def do_forget_cache_def posix)
  then show ?case using 3 advise [of "fw_kernel w" _ offset len] by (auto simp: handles_open_def do_kernel_def Let_def)
next
  case (4 a b)
  show ?case by (rule quiet)
qed

text \<open>Descriptors on which reading and writing do not fail, and callbacks that let the copy go on.\<close>

locale live_file_copy = file_copy P src tgt left out good E X C
  for P :: "'k posix" and src tgt :: nat and left out :: "'k \<Rightarrow> string" and good :: "'k \<Rightarrow> bool"
    and E :: "'k file_env" and X :: "'k file_world xfer" and C :: copy_handles +
  assumes reads: "good k \<Longrightarrow> \<exists>buf k'. px_read P src n k = (Inr buf, k')"
    and writes: "good k \<Longrightarrow> data \<noteq> [] \<Longrightarrow> \<exists>m k'. px_write P tgt data k = (Inr m, k') \<and> 0 < m"
    and goes_on: "x_sync_callback X = Some cb \<or> x_update_callback X = Some cb \<Longrightarrow> fst (cb i w) \<noteq> 0"
begin

lemma no_retry: "f (fw_kernel w) = (Inr x, k) \<Longrightarrow> retry (on_kernel f) ctx w = Some (Inr x, w\<lparr>fw_kernel := k\<rparr>)"
  by (subst retry.simps) (simp add: on_kernel_def interrupted_def)

end

sublocale live_file_copy \<subseteq> copy: live_streams X C "kernel_at left" "kernel_at out" open_handles
proof (unfold_locales, goal_cases)
  case (1 w)
  obtain r buf w' where e: "gnome_vfs_read (x_library X) (cp_source C) (cp_block_size C) w = (r, buf, w')" by (metis prod_cases3)
  have "good (fw_kernel w)" using 1 by (simp add: handles_open_def)
  then obtain b k where "px_read P src (cp_block_size C) (fw_kernel w) = (Inr b, k)" using reads by blast
  then have b: "retry (on_kernel (px_read P src (cp_block_size C))) None w = Some (Inr b, w\<lparr>fw_kernel := k\<rparr>)"
    by (rule no_retry)
  have r: "r = (if buf = [] then GNOME_VFS_ERROR_EOF else GNOME_VFS_OK)"
    by (rule file_read [OF 1 e]) (simp_all add: b)
  have "buf = [] \<longleftrightarrow> left (fw_kernel w) = []"
    using copy.read_source [OF 1 e] unfolding r by (cases "buf = []") auto
  then show ?case by (simp add: e r)
next
  case (2 w data r n w')
  have "good (fw_kernel w)" using 2 by (simp add: handles_open_def)
  then obtain m k where m: "px_write P tgt data (fw_kernel w) = (Inr m, k)" "0 < m" using writes 2(2) by blast
  then have "retry (on_kernel (px_write P tgt data)) None w = Some (Inr m, w\<lparr>fw_kernel := k\<rparr>)" by (blast intro: no_retry)
  then show ?case using 2(2) m(2) by - (rule file_write [OF 2(1,3)], simp_all)
next
  case (3 cb i w)
  then show ?case using goes_on by blast
qed

context file_copy
begin

lemmas copied = copy.copy_data_complete

end

context live_file_copy
begin

lemmas returns = copy.copy_data_returns

end

section \<open>Copying a local file\<close>

lemma ucast_64_eq_0: "(ucast (w :: guint) :: file_size) = 0 \<longleftrightarrow> w = 0"
  by (transfer, simp add: take_bit_eq_mod)

definition copy_handles_of :: "'w xfer \<Rightarrow> GnomeVFSHandle \<Rightarrow> GnomeVFSHandle \<Rightarrow> guint \<Rightarrow> guint \<Rightarrow> 'w xfer_state \<Rightarrow> copy_handles" where
  "copy_handles_of X th sh m n s =
     \<lparr>cp_target = th, cp_source = sh, cp_block_size = ucast (max m n),
      cp_forget_cache = (DROP_CACHE_SIZE_LIMIT \<le> pi_bytes_total (info_of (snd (call_progress_often X GNOME_VFS_XFER_PHASE_COPYING s))))\<rparr>"

text \<open>
  C3. A copy of the data of a local file that reports success, with nothing skipped, has read the
  source to its end and appended exactly the bytes that were left in it to the target, however
  the system calls were cut short, failed, or were repeated in between; and both byte
  counters of the progress have grown by that many bytes (the total also by the overhead of a file).
\<close>

theorem copy_file_data_complete:
  assumes "posix_streams (fe_posix E) src tgt left out good"
    and "method_of (x_library X) (h_uri sh) = file_method E" "method_of (x_library X) (h_uri th) = file_method E"
    and "max m n \<noteq> 0"
    and "\<And>a b. xfer_inv X (at_streams (handles_open good sh th src tgt) (kernel_at left) (kernel_at out) a b)"
    and "handles_open good sh th src tgt (xs_world s)"
    and "copy_file_data X th sh m n s = Some (GNOME_VFS_OK, False, s')"
  shows "left (fw_kernel (xs_world s')) = []
    \<and> out (fw_kernel (xs_world s')) = out (fw_kernel (xs_world s)) @ left (fw_kernel (xs_world s))
    \<and> pi_bytes_copied (info_of s') = pi_bytes_copied (info_of s) + of_nat (length (left (fw_kernel (xs_world s))))
    \<and> pi_total_bytes_copied (info_of s')
        = pi_total_bytes_copied (info_of s) + of_nat (length (left (fw_kernel (xs_world s)))) + DEFAULT_SIZE_OVERHEAD"
proof -
  let ?C = "copy_handles_of X th sh m n s"
  have C: "cp_source ?C = sh" "cp_target ?C = th" by (simp_all add: copy_handles_of_def)
  have "cp_block_size ?C \<noteq> 0" using assms(4) by (simp add: copy_handles_of_def ucast_64_eq_0)
  then have "file_copy (fe_posix E) src tgt left out good E X ?C"
    using assms(1-3,5) by (intro file_copy.intro file_copy_axioms.intro) (simp_all add: C)
  from file_copy.copied [OF this, unfolded C, OF assms(7)] assms(6) show ?thesis
    by (simp add: copy_handles_of_def at_streams_def counters_def)
qed

text \<open>
  C22. When the system calls on the two descriptors do not fail and the progress callbacks let
  the transfer go on, the copy of the data of a file ends, reports success, and leaves the
  bytes of the source at the end of the target.
\<close>

theorem copy_file_data_returns:
  assumes "posix_streams (fe_posix E) src tgt left out good"
    and "method_of (x_library X) (h_uri sh) = file_method E" "method_of (x_library X) (h_uri th) = file_method E"
    and "max m n \<noteq> 0"
    and "\<And>a b. xfer_inv X (at_streams (handles_open good sh th src tgt) (kernel_at left) (kernel_at out) a b)"
    and "\<And>k len. good k \<Longrightarrow> \<exists>buf k'. px_read (fe_posix E) src len k = (Inr buf, k')"
    and "\<And>k data. good k \<Longrightarrow> data \<noteq> [] \<Longrightarrow> \<exists>j k'. px_write (fe_posix E) tgt data k = (Inr j, k') \<and> 0 < j"
    and "\<And>cb i w. x_sync_callback X = Some cb \<or> x_update_callback X = Some cb \<Longrightarrow> fst (cb i w) \<noteq> 0"
    and "handles_open good sh th src tgt (xs_world s)"
  shows "\<exists>s'. copy_file_data X th sh m n s = Some (GNOME_VFS_OK, False, s')
    \<and> out (fw_kernel (xs_world s')) = out (fw_kernel (xs_world s)) @ left (fw_kernel (xs_world s))"
proof -
  let ?C = "copy_handles_of X th sh m n s"
  have C: "cp_source ?C = sh" "cp_target ?C = th" by (simp_all add: copy_handles_of_def)
  have "cp_block_size ?C \<noteq> 0" using assms(4) by (simp add: copy_handles_of_def ucast_64_eq_0)
  then have copy: "file_copy (fe_posix E) src tgt left out good E X ?C"
    using assms(1-3,5) by (intro file_copy.intro file_copy_axioms.intro) (simp_all add: C)
  then have "live_file_copy (fe_posix E) src tgt left out good E X ?C"
    using assms(6-8) by (intro live_file_copy.intro live_file_copy_axioms.intro) (simp_all add: C)
  from live_file_copy.returns [OF this, of "left (fw_kernel (xs_world s))" "out (fw_kernel (xs_world s))" s m n, unfolded C]
  obtain s' where s': "copy_file_data X th sh m n s = Some (GNOME_VFS_OK, False, s')"
    using assms(9) by (auto simp: at_streams_def copy_handles_of_def)
  then show ?thesis using file_copy.copied [OF copy, unfolded C, OF s'] assms(9)
    by (simp add: copy_handles_of_def at_streams_def)
qed

section \<open>The contract on the kernel in memory\<close>

definition ram_left :: "string \<Rightarrow> nat \<Rightarrow> ram \<Rightarrow> string" where
  "ram_left p fd k = (case ram_fds k fd of None \<Rightarrow> [] | Some (p', i) \<Rightarrow> drop i (ram_content k p))"

definition ram_out :: "string \<Rightarrow> nat \<Rightarrow> ram \<Rightarrow> string" where
  "ram_out q fd k = (case ram_fds k fd of None \<Rightarrow> [] | Some (q', i) \<Rightarrow> take i (ram_content k q))"

definition ram_good :: "string \<Rightarrow> string \<Rightarrow> nat \<Rightarrow> nat \<Rightarrow> ram \<Rightarrow> bool" where
  "ram_good p q src tgt k \<longleftrightarrow>
     (case ram_fds k src of None \<Rightarrow> False | Some (p', i) \<Rightarrow> p' = p)
     \<and> (case ram_fds k tgt of None \<Rightarrow> False | Some (q', j) \<Rightarrow> q' = q \<and> j \<le> length (ram_content k q))
     \<and> \<not> ram_readonly k tgt
     \<and> (case ram_node_at k q of Some (dev, Ram_File t) \<Rightarrow> True | _ \<Rightarrow> False)"

lemma ram_goodE:
  assumes "ram_good p q src tgt k"
  obtains i j dev t where "ram_fds k src = Some (p, i)" "ram_fds k tgt = Some (q, j)" "\<not> ram_readonly k tgt" "ram_node_at k q = Some (dev, Ram_File t)"
    "j \<le> length t" "ram_left p src k = drop i (ram_content k p)" "ram_out q tgt k = take j t"
  using assms
  by (auto simp: ram_good_def ram_left_def ram_out_def ram_content_def split: option.splits prod.splits ram_node.splits)

lemma ram_streams:
  assumes "p \<noteq> q" "src \<noteq> tgt" "q \<noteq> []"
  shows "posix_streams ram_posix src tgt (ram_left p src) (ram_out q tgt) (ram_good p q src tgt)"
proof (unfold_locales, goal_cases)
  case (1 k n r k')
  from 1(1) show ?case
  proof (rule ram_goodE)
    fix i j dev t
    assume k: "ram_fds k src = Some (p, i)" "ram_fds k tgt = Some (q, j)" "\<not> ram_readonly k tgt" "ram_node_at k q = Some (dev, Ram_File t)"
      "j \<le> length t" "ram_left p src k = drop i (ram_content k p)" "ram_out q tgt k = take j t"
    let ?buf = "take (unat n) (drop i (ram_content k p))"
    have k': "r = Inr ?buf" "k' = k\<lparr>ram_fds := (ram_fds k)(src := Some (p, i + length ?buf))\<rparr>"
      using 1(2) k by (simp_all add: ram_posix_def ram_read_def Let_def)
    have "drop i (ram_content k p) = ?buf @ drop (i + length ?buf) (ram_content k p)"
      by (metis append_take_drop_id drop_drop length_take add.commute min.commute take_all_iff linorder_linear min_def drop_all)
    then show ?case using k assms
      by (simp add: k' ram_good_def ram_left_def ram_out_def ram_content_def unat_gt_0 word_gt_0)
  qed
next
  case (2 k data r k')
  from 2(1) show ?case
  proof (rule ram_goodE)
    fix i j dev t
    assume k: "ram_fds k src = Some (p, i)" "ram_fds k tgt = Some (q, j)" "\<not> ram_readonly k tgt" "ram_node_at k q = Some (dev, Ram_File t)"
      "j \<le> length t" "ram_left p src k = drop i (ram_content k p)" "ram_out q tgt k = take j t"
    show ?case using 2(2) k assms
      by (auto simp: ram_posix_def ram_write_def ram_good_def ram_left_def ram_out_def ram_content_def)
  qed
next
  case (3 k fd i len)
  then show ?case by (simp add: ram_posix_def Let_def)
qed

definition ram_xfer :: "ram file_world progress_callback option \<Rightarrow> ram file_world xfer" where
  "ram_xfer cb =
     \<lparr>x_library = ram_library, x_sync_callback = cb, x_update_callback = None, x_time = (\<lambda>w. (0, w)),
      x_error_mode = GNOME_VFS_XFER_ERROR_MODE_ABORT, x_unset = False\<rparr>"

definition ram_source :: GnomeVFSHandle where
  "ram_source = \<lparr>h_uri = ram_uri ''/a'', h_method_handle = 1, h_open_mode = GNOME_VFS_OPEN_READ\<rparr>"

definition ram_target :: GnomeVFSHandle where
  "ram_target = \<lparr>h_uri = ram_uri ''/b'', h_method_handle = 2, h_open_mode = GNOME_VFS_OPEN_WRITE\<rparr>"

definition ram_copying :: "ram file_world xfer_state" where
  "ram_copying =
     (let w = ram_world [(''/a'', 0, Ram_File ''hello''), (''/b'', 0, Ram_File [])]
      in \<lparr>xs_progress = init_progress,
          xs_world =
            w\<lparr>fw_kernel := (fw_kernel w)\<lparr>ram_fds := (\<lambda>fd. if fd = 3 then Some (''/a'', 0) else if fd = 4 then Some (''/b'', 0) else None)\<rparr>,
              fw_files := (\<lambda>h. if h = 1 then Some \<lparr>fh_uri = ram_uri ''/a'', fh_fd = 3\<rparr>
                               else if h = 2 then Some \<lparr>fh_uri = ram_uri ''/b'', fh_fd = 4\<rparr> else None)\<rparr>\<rparr>)"

lemma xfer_inv_quiet:
  assumes "x_sync_callback X = None" "x_update_callback X = None" "\<And>w. snd (x_time X w) = w"
  shows "xfer_inv X I"
  using assms by unfold_locales simp_all

lemma ram_method [simp]: "method_of ram_library uri = file_method ram_file_env"
  by (simp add: method_of_def ram_library_def)

interpretation ram_stream: posix_streams ram_posix 3 4 "ram_left ''/a'' 3" "ram_out ''/b'' 4" "ram_good ''/a'' ''/b'' 3 4"
  by (rule ram_streams) simp_all

lemma ram_inv: "xfer_inv (ram_xfer None) I"
  by (rule xfer_inv_quiet) (simp_all add: ram_xfer_def)

interpretation ram_copy: live_file_copy ram_posix 3 4 "ram_left ''/a'' 3" "ram_out ''/b'' 4" "ram_good ''/a'' ''/b'' 3 4"
    ram_file_env "ram_xfer None" "copy_handles_of (ram_xfer None) ram_target ram_source 4096 4096 ram_copying"
proof (rule live_file_copy.intro [OF file_copy.intro [OF ram_stream.posix_streams_axioms file_copy_axioms.intro]
      live_file_copy_axioms.intro], goal_cases)
  case 5
  show ?case by (rule ram_inv)
next
  case (6 k n)
  then show ?case by (auto simp: ram_posix_def ram_read_def elim!: ram_goodE)
next
  case (7 k data)
  then show ?case by (auto simp: ram_posix_def ram_write_def elim!: ram_goodE)
qed (auto simp: ram_xfer_def ram_file_env_def copy_handles_of_def)

lemma ram_copying_open: "handles_open (ram_good ''/a'' ''/b'' 3 4) ram_source ram_target 3 4 (xs_world ram_copying)"
  by (simp add: handles_open_def ram_good_def ram_copying_def ram_source_def ram_target_def ram_world_def ram_content_def
      ram_node_at_def Let_def)

lemma ram_copies:
  "case copy_file_data (ram_xfer None) ram_target ram_source 4096 4096 ram_copying of
     None \<Rightarrow> False | Some (r, skip, s') \<Rightarrow> r = GNOME_VFS_OK \<and> \<not> skip"
  by code_simp

lemma copy_file_data_complete_witness:
  "\<exists>s'. copy_file_data (ram_xfer None) ram_target ram_source 4096 4096 ram_copying = Some (GNOME_VFS_OK, False, s')
    \<and> ram_out ''/b'' 4 (fw_kernel (xs_world s')) = ''hello''"
proof -
  obtain s' where s': "copy_file_data (ram_xfer None) ram_target ram_source 4096 4096 ram_copying = Some (GNOME_VFS_OK, False, s')"
    using ram_copies by (auto split: option.splits)
  have "ram_out ''/b'' 4 (fw_kernel (xs_world s'))
      = ram_out ''/b'' 4 (fw_kernel (xs_world ram_copying)) @ ram_left ''/a'' 3 (fw_kernel (xs_world ram_copying))"
    using copy_file_data_complete [of ram_file_env 3 4 "ram_left ''/a'' 3" "ram_out ''/b'' 4" "ram_good ''/a'' ''/b'' 3 4"
        "ram_xfer None" ram_source ram_target 4096 4096 ram_copying s']
      ram_stream.posix_streams_axioms ram_inv ram_copying_open s'
    by (simp add: ram_file_env_def ram_xfer_def)
  also have "\<dots> = ''hello''" by code_simp
  finally show ?thesis using s' by blast
qed

lemma copy_file_data_returns_witness:
  "\<exists>s'. copy_file_data (ram_xfer None) ram_target ram_source 8192 4096 ram_copying = Some (GNOME_VFS_OK, False, s')"
  using copy_file_data_returns [of ram_file_env 3 4 "ram_left ''/a'' 3" "ram_out ''/b'' 4" "ram_good ''/a'' ''/b'' 3 4"
      "ram_xfer None" ram_source ram_target 8192 4096 ram_copying]
    ram_stream.posix_streams_axioms ram_inv ram_copying_open ram_copy.reads ram_copy.writes
  by (auto simp: ram_file_env_def ram_xfer_def)

end
