(* ===== verification/VFS_File_Safe.thy ===== *)
theory VFS_File_Safe
  imports VFS_Safe VFS_File_Inv VFS_File_Laws
begin

text \<open>
  Transfers that destroy nothing, for local files: what the transfers promise of the calls of
  the library, carried down to the system calls of the module for local files.
\<close>

section \<open>System calls that leave contents alone\<close>

text \<open>
  A condition on the kernel (that some files have kept their contents) that every system call
  keeps which neither removes, renames or truncates, nor opens an existing file for writing.
\<close>

locale gentle =
  fixes E :: "'k file_env" and K :: "'k \<Rightarrow> bool"
  assumes open_calls: "um_creat m \<and> um_excl m \<or> um_access m = O_RDONLY \<and> \<not> um_creat m \<and> \<not> um_trunc m \<Longrightarrow>
      K k \<Longrightarrow> K (snd (px_open (fe_posix E) p m perm k))"
    and file_calls: "K k \<Longrightarrow> K (snd (px_close (fe_posix E) fd k))" "K k \<Longrightarrow> K (snd (px_read (fe_posix E) fd n k))"
      "K k \<Longrightarrow> K (snd (px_write (fe_posix E) fd data k))" "K k \<Longrightarrow> K (px_fadvise (fe_posix E) fd off n k)" "K k \<Longrightarrow> K (snd (px_fstat (fe_posix E) fd k))"
    and status_calls: "K k \<Longrightarrow> K (snd (px_stat (fe_posix E) p k))" "K k \<Longrightarrow> K (snd (px_lstat (fe_posix E) p k))"
      "K k \<Longrightarrow> K (snd (px_readlink (fe_posix E) p j k))" "K k \<Longrightarrow> K (snd (px_access (fe_posix E) p r w x k))"
      "K k \<Longrightarrow> K (snd (px_statvfs (fe_posix E) p k))" "K k \<Longrightarrow> K (snd (px_statfs_type (fe_posix E) p k))"
    and directory_calls: "K k \<Longrightarrow> K (snd (px_opendir (fe_posix E) p k))" "K k \<Longrightarrow> K (snd (px_readdir (fe_posix E) d k))" "K k \<Longrightarrow> K (px_closedir (fe_posix E) d k)"
      "K k \<Longrightarrow> K (snd (px_mkdir (fe_posix E) p perm k))"
    and link_calls: "K k \<Longrightarrow> K (snd (px_symlink (fe_posix E) t p k))"
    and attribute_calls: "K k \<Longrightarrow> K (snd (px_chmod (fe_posix E) p perm k))" "K k \<Longrightarrow> K (snd (px_chown (fe_posix E) p u g k))"
      "K k \<Longrightarrow> K (snd (px_utime (fe_posix E) p a b k))"
    and context_calls: "K k \<Longrightarrow> K (snd (px_getfilecon (fe_posix E) p k))" "K k \<Longrightarrow> K (snd (px_lgetfilecon (fe_posix E) p k))"
      "K k \<Longrightarrow> K (snd (px_fgetfilecon (fe_posix E) fd k))"
    and queries: "K k \<Longrightarrow> K (snd (fe_mime_type E p st fast k))" "K k \<Longrightarrow> K (snd (fe_mime_type_fast E p st k))"
      "K k \<Longrightarrow> K (snd (fe_get_acl E p info st k))"
begin

lemmas gentle_calls [simp] = open_calls file_calls status_calls directory_calls link_calls attribute_calls context_calls queries

abbreviation kept :: "'k file_world \<Rightarrow> bool" where "kept w \<equiv> K (fw_kernel w)"

lemmas file_rules [post_rules] =
  let2 [where P = kept] let3 [where P = kept] let4 [where P = kept] bind2 [where P = kept] bind3 [where P = kept]
  bind4 [where P = kept]

lemma kept_on_kernel [simp]: "kept (snd (on_kernel f w)) = K (snd (f (fw_kernel w)))"
  by (simp add: on_kernel_def split_def Let_def)

lemma kept_do_kernel [simp]: "kept (do_kernel f w) = K (f (fw_kernel w))"
  by (simp add: do_kernel_def)

lemma kept_handles [simp]:
  "kept (snd (file_handle_new u fd w)) = kept w" "kept (file_handle_destroy h w) = kept w"
  "kept (snd (directory_handle_new u n d opts w)) = kept w" "kept (directory_handle_destroy h w) = kept w"
  by (simp_all add: file_handle_new_def file_handle_destroy_def directory_handle_new_def directory_handle_destroy_def)

end

sublocale gentle \<subseteq> queries: file_queries E "\<lambda>w. K (fw_kernel w)"
  by unfold_locales simp_all

section \<open>The module's functions\<close>

context gentle
begin

lemmas retry_kept = retry_inv [where Q = kept]
lemmas stuck_kept = or_stuck_inv [where Q = kept] or_stuck2_inv [where Q = kept]

lemma do_open_kept:
  "kept w \<Longrightarrow> post (\<lambda>r. kept (snd (snd r))) (do_open E u GNOME_VFS_OPEN_READ ctx w)"
  unfolding do_open_def
  by (rule post_rules retry_kept | rule post_let | simp add: open_access_def flag_def GNOME_VFS_OPEN_READ_def
      GNOME_VFS_OPEN_WRITE_def GNOME_VFS_OPEN_RANDOM_def GNOME_VFS_OPEN_TRUNCATE_def)+

lemma do_create_kept: "kept w \<Longrightarrow> post (\<lambda>r. kept (snd (snd r))) (do_create E u mode True perm ctx w)"
  unfolding do_create_def by (rule post_rules retry_kept | rule post_let | simp)+

lemma do_close_kept: "kept w \<Longrightarrow> post (\<lambda>r. kept (snd r)) (do_close E h ctx w)"
  unfolding do_close_def by (rule post_rules retry_kept | rule post_let | simp)+

lemma do_read_kept: "kept w \<Longrightarrow> post (\<lambda>r. kept (snd (snd r))) (do_read E h n ctx w)"
  unfolding do_read_def by (rule post_rules retry_kept | rule post_let | simp)+

lemma do_write_kept: "kept w \<Longrightarrow> post (\<lambda>r. kept (snd (snd r))) (do_write E h data ctx w)"
  unfolding do_write_def by (rule post_rules retry_kept | rule post_let | simp)+

lemma do_forget_cache_kept [simp]: "kept w \<Longrightarrow> kept (snd (do_forget_cache E h off n w))"
  by (simp add: do_forget_cache_def split: option.split)

lemma do_open_directory_kept [simp]: "kept w \<Longrightarrow> kept (snd (snd (do_open_directory E u opts ctx w)))"
  by (simp add: do_open_directory_def split_def Let_def split: option.split sum.split)

lemma do_close_directory_kept [simp]: "kept w \<Longrightarrow> kept (snd (do_close_directory E h ctx w))"
  by (simp add: do_close_directory_def split: option.split)

lemma do_make_directory_kept [simp]: "kept w \<Longrightarrow> kept (snd (do_make_directory E u perm ctx w))"
  by (simp add: do_make_directory_def on_path_def split_def Let_def split: option.split)

lemma do_create_symbolic_link_kept [simp]: "kept w \<Longrightarrow> kept (snd (do_create_symbolic_link E u t ctx w))"
  by (simp add: do_create_symbolic_link_def split_def Let_def split: option.split)

lemma do_get_volume_free_space_kept [simp]: "kept w \<Longrightarrow> kept (snd (snd (do_get_volume_free_space E u w)))"
  by (simp add: do_get_volume_free_space_def split_def Let_def split: option.split sum.split)

lemma change_step_kept [simp]:
  "kept (snd rw) \<Longrightarrow> (\<And>w. kept w \<Longrightarrow> kept (snd (step w))) \<Longrightarrow> kept (snd (change_step ctx b step rw))"
  by (simp add: change_step_def)

lemma change_step_unwanted [simp]: "kept (snd rw) \<Longrightarrow> kept (snd (change_step ctx False step rw))"
  by (simp add: change_step_def)

lemma do_set_file_info_kept:
  assumes "ch = GNOME_VFS_SET_FILE_INFO_OWNER OR GNOME_VFS_SET_FILE_INFO_PERMISSIONS \<or> ch = GNOME_VFS_SET_FILE_INFO_TIME" "kept w"
  shows "post (\<lambda>r. kept (snd r)) (do_set_file_info E u info ch ctx w)"
proof -
  have "\<not> flag ch GNOME_VFS_SET_FILE_INFO_NAME" "\<not> flag ch GNOME_VFS_SET_FILE_INFO_ACL"
    "\<not> flag ch GNOME_VFS_SET_FILE_INFO_SYMLINK_NAME" "\<not> flag ch GNOME_VFS_SET_FILE_INFO_SELINUX_CONTEXT"
    using assms(1) by (auto simp: flag_def GNOME_VFS_SET_FILE_INFO_NAME_def GNOME_VFS_SET_FILE_INFO_ACL_def
      GNOME_VFS_SET_FILE_INFO_SYMLINK_NAME_def GNOME_VFS_SET_FILE_INFO_SELINUX_CONTEXT_def GNOME_VFS_SET_FILE_INFO_OWNER_def
      GNOME_VFS_SET_FILE_INFO_PERMISSIONS_def GNOME_VFS_SET_FILE_INFO_TIME_def)
  then show ?thesis unfolding do_set_file_info_def change_attributes_def unix_step_def using assms(2)
    by - (rule post_rules | rule post_let | simp add: split_def Let_def)+
qed

end

section \<open>Transfers of local files\<close>

text \<open>A transfer all of whose URIs belong to the module, with callbacks that keep the condition too.\<close>

locale gentle_transfer = gentle E K + xfer_inv X "\<lambda>w. K (fw_kernel w)" for E :: "'k file_env" and K and X :: "'k file_world xfer" +
  assumes methods: "method_of (x_library X) u = file_method E"
begin

lemmas library_defs = split_def Let_def file_method_def
  gnome_vfs_get_file_info_uri_def gnome_vfs_get_file_info_uri_cancellable_def gnome_vfs_open_uri_def gnome_vfs_open_uri_cancellable_def
  gnome_vfs_get_file_info_from_handle_def gnome_vfs_get_file_info_from_handle_cancellable_def gnome_vfs_handle_do_get_file_info_def
  gnome_vfs_read_def gnome_vfs_read_cancellable_def gnome_vfs_handle_do_read_def
  gnome_vfs_write_def gnome_vfs_write_cancellable_def gnome_vfs_handle_do_write_def
  gnome_vfs_close_def gnome_vfs_close_cancellable_def gnome_vfs_handle_do_close_def
  gnome_vfs_forget_cache_def gnome_vfs_handle_forget_cache_def gnome_vfs_create_uri_def gnome_vfs_create_uri_cancellable_def
  gnome_vfs_make_directory_for_uri_def gnome_vfs_make_directory_for_uri_cancellable_def
  gnome_vfs_directory_open_from_uri_def directory_open_from_uri_def gnome_vfs_directory_read_next_def gnome_vfs_directory_close_def
  gnome_vfs_create_symbolic_link_def gnome_vfs_create_symbolic_link_cancellable_def
  gnome_vfs_set_file_info_uri_def gnome_vfs_set_file_info_cancellable_def
  gnome_vfs_check_same_fs_uris_def gnome_vfs_check_same_fs_uris_cancellable_def gnome_vfs_get_volume_free_space_def

lemmas module_kept = stuck_kept do_open_kept do_create_kept do_close_kept do_read_kept do_write_kept
  queries.do_get_file_info_inv queries.do_get_file_info_from_handle_inv queries.do_read_directory_inv

end

sublocale gentle_transfer \<subseteq> safe: harmless X "\<lambda>w. K (fw_kernel w)" "x_library X"
proof (unfold_locales, goal_cases)
  case (15 ch w u i)
  then have "post (\<lambda>r. kept (snd r)) (do_set_file_info E u i ch None w)" by (intro do_set_file_info_kept) auto
  then show ?case using 15 by (auto simp: library_defs methods intro!: stuck_kept)
qed (simp_all add: library_defs methods module_kept)


context gentle_transfer
begin

lemmas list_keeps = safe.xfer_uri_list_inv

end

text \<open>
  C2. A transfer of local files that does not remove its sources (a copy, or the making of links)
  and whose overwrite mode is ABORT or SKIP destroys nothing: any condition on the kernel
  that holds before, and that is kept by the system calls which neither remove, rename, truncate
  nor open an existing file for writing, and by the application's callbacks, holds after it. This
  is so for every option, error mode and answer of the callbacks, and however the transfer ends.
\<close>

theorem xfer_destroys_nothing:
  assumes "gentle E K"
    and "\<And>u. method_of (x_library X) u = file_method E"
    and "\<And>w. K (fw_kernel w) \<Longrightarrow> K (fw_kernel (snd (x_time X w)))"
    and "\<And>cb i w. callback = Some cb \<Longrightarrow> K (fw_kernel w) \<Longrightarrow> K (fw_kernel (snd (snd (cb i w))))"
    and "mode = GNOME_VFS_XFER_OVERWRITE_MODE_ABORT \<or> mode = GNOME_VFS_XFER_OVERWRITE_MODE_SKIP"
    and "\<not> has_option xfer_options GNOME_VFS_XFER_REMOVESOURCE"
    and "gnome_vfs_xfer_uri_list X sources targets xfer_options error_mode mode callback w = Some (result, w')"
    and "K (fw_kernel w)"
  shows "K (fw_kernel w')"
proof -
  let ?Y = "sync_xfer X callback error_mode"
  have "xfer_inv ?Y (\<lambda>w. K (fw_kernel w))" using assms(3,4) by unfold_locales (simp_all add: sync_xfer_def)
  then have t: "gentle_transfer E K ?Y"
    using assms(1,2) by (intro gentle_transfer.intro gentle_transfer_axioms.intro) (simp_all add: sync_xfer_def)
  show ?thesis
    using postD [OF gentle_transfer.list_keeps [OF t refl, of w mode xfer_options] assms(7)] assms(5,6,8) by (auto simp: careful_def)
qed

section \<open>The contract on the kernel in memory\<close>

text \<open>The files of a map are as they were, and no descriptor for writing refers to one of them.\<close>

definition ram_keeps :: "(string \<rightharpoonup> int \<times> ram_node) \<Rightarrow> ram \<Rightarrow> bool" where
  "ram_keeps old k \<longleftrightarrow>
     (\<forall>p dn. old p = Some dn \<longrightarrow> ram_node_at k p = Some dn)
     \<and> (\<forall>fd q i. ram_fds k fd = Some (q, i) \<longrightarrow> \<not> ram_readonly k fd \<longrightarrow> old q = None)"

lemma ram_keeps_put: "ram_keeps old k \<Longrightarrow> old q = None \<Longrightarrow> q \<noteq> [] \<Longrightarrow> ram_keeps old (ram_put q dn k)"
  by (auto simp: ram_keeps_def)

lemma ram_keeps_new: "ram_keeps old k \<Longrightarrow> ram_node_at k q = None \<Longrightarrow> old q = None \<and> q \<noteq> []"
  by (cases "old q") (auto simp: ram_keeps_def ram_node_at_def)

lemma ram_keeps_make: "ram_keeps old k \<Longrightarrow> ram_node_at k q = None \<Longrightarrow> ram_keeps old (snd (ram_make node q k))"
  using ram_keeps_put ram_keeps_new by (auto simp: ram_make_def split: option.split prod.split ram_node.split)

lemma ram_keeps_fds:
  "ram_keeps old k \<Longrightarrow> (readonly \<or> old q = None) \<Longrightarrow> ram_keeps old (snd (ram_fd readonly q k))"
  by (auto simp: ram_keeps_def ram_fd_def ram_node_at_def split: if_splits)

lemma ram_keeps_simps [simp]:
  "ram_keeps old k \<Longrightarrow> ram_keeps old (snd (ram_close fd k))" "ram_keeps old k \<Longrightarrow> ram_keeps old (snd (ram_read fd n k))"
  "ram_keeps old (k\<lparr>ram_dirs := ds, ram_next := j\<rparr>) = ram_keeps old k" "ram_keeps old (k\<lparr>ram_dirs := ds\<rparr>) = ram_keeps old k"
  by (auto simp: ram_keeps_def ram_close_def ram_read_def ram_node_at_def Let_def split: option.split if_splits)

lemma ram_keeps_seek: "ram_keeps old k \<Longrightarrow> ram_fds k fd = Some (q, i) \<Longrightarrow> ram_keeps old (k\<lparr>ram_fds := (ram_fds k)(fd := Some (q, j))\<rparr>)"
  unfolding ram_keeps_def by (simp, metis)

lemma ram_keeps_write: "ram_keeps old k \<Longrightarrow> ram_keeps old (snd (ram_write fd buf k))"
proof -
  assume k: "ram_keeps old k"
  have put: "ram_keeps old ((ram_put q dn k)\<lparr>ram_fds := (ram_fds k)(fd := Some (q, j))\<rparr>)"
    if "ram_fds k fd = Some (q, i)" "\<not> ram_readonly k fd" "ram_node_at k q = Some (dev, Ram_File t)" for q i j dn dev t
  proof -
    have "old q = None" using k that(1,2) unfolding ram_keeps_def by blast
    moreover have "q \<noteq> []" using that(3) by (auto simp: ram_node_at_def)
    ultimately have "ram_keeps old (ram_put q dn k)" by (rule ram_keeps_put [OF k])
    from ram_keeps_seek [OF this, of fd q i j] that show ?thesis by simp
  qed
  then show ?thesis using k by (auto simp: ram_write_def split: option.split ram_node.split)
qed

lemma ram_keeps_open:
  assumes "um_creat m \<and> um_excl m \<or> um_access m = O_RDONLY \<and> \<not> um_creat m \<and> \<not> um_trunc m" "ram_keeps old k"
  shows "ram_keeps old (snd (ram_open p m perm k))"
  using assms ram_keeps_new [OF assms(2)]
  by (auto simp: ram_open_def ram_make_def intro!: ram_keeps_fds ram_keeps_put split: option.split sum.split prod.split ram_node.split)

lemma ram_keeps_new_node: "ram_keeps old k \<Longrightarrow> ram_keeps old (snd (ram_new node p k))"
  using ram_keeps_make [of old k] by (cases "ram_resolve k False p") (simp_all add: ram_new_def del: not_None_eq)

lemma ram_gentle: "gentle ram_file_env (ram_keeps old)"
proof (unfold_locales, goal_cases)
  case (1 m k p perm)
  then show ?case by (simp add: ram_file_env_def ram_posix_def ram_keeps_open)
qed (auto simp: ram_file_env_def ram_posix_def ram_keeps_write ram_keeps_new_node ram_fstat_def ram_stat_def ram_readlink_def ram_opendir_def
    ram_readdir_def split: option.split sum.split ram_node.split list.split)

interpretation ram_calls: gentle ram_file_env "ram_keeps old" for old
  by (rule ram_gentle)

definition ram_copy_world :: "ram file_world" where
  "ram_copy_world =
     ram_world [(''/a'', 0, Ram_File ''new''), (''/c'', 0, Ram_File ''more''), (''/d'', 0, Ram_Dir), (''/d/a'', 0, Ram_File ''old'')]"

lemma ram_copy_runs:
  "case gnome_vfs_xfer_uri_list (ram_xfer None) [ram_uri ''/a'', ram_uri ''/c''] [ram_uri ''/d/a'', ram_uri ''/d/c''] 0
      GNOME_VFS_XFER_ERROR_MODE_ABORT GNOME_VFS_XFER_OVERWRITE_MODE_SKIP None ram_copy_world of
     None \<Rightarrow> False | Some (r, w') \<Rightarrow> r = GNOME_VFS_OK"
  by code_simp

text \<open>The copy skips the file that exists and makes the other one; neither the old target nor the sources change.\<close>

lemma xfer_destroys_nothing_witness:
  "\<exists>w'. gnome_vfs_xfer_uri_list (ram_xfer None) [ram_uri ''/a'', ram_uri ''/c''] [ram_uri ''/d/a'', ram_uri ''/d/c''] 0
      GNOME_VFS_XFER_ERROR_MODE_ABORT GNOME_VFS_XFER_OVERWRITE_MODE_SKIP None ram_copy_world = Some (GNOME_VFS_OK, w')
    \<and> ram_content (fw_kernel w') ''/d/a'' = ''old'' \<and> ram_content (fw_kernel w') ''/a'' = ''new''"
proof -
  let ?run = "gnome_vfs_xfer_uri_list (ram_xfer None) [ram_uri ''/a'', ram_uri ''/c''] [ram_uri ''/d/a'', ram_uri ''/d/c''] 0
      GNOME_VFS_XFER_ERROR_MODE_ABORT GNOME_VFS_XFER_OVERWRITE_MODE_SKIP None ram_copy_world"
  let ?old = "ram_node_at (fw_kernel ram_copy_world)"
  obtain w' where w': "?run = Some (GNOME_VFS_OK, w')" using ram_copy_runs by (auto split: option.splits)
  have "ram_keeps ?old (fw_kernel w')"
  proof (rule xfer_destroys_nothing [OF ram_gentle _ _ _ _ _ w'])
    show "ram_keeps ?old (fw_kernel ram_copy_world)" by (simp add: ram_keeps_def ram_copy_world_def ram_world_def)
  qed (simp_all add: ram_xfer_def has_option_def)
  then have keep: "?old p = Some dn \<Longrightarrow> ram_node_at (fw_kernel w') p = Some dn" for p dn unfolding ram_keeps_def by blast
  have "?old ''/d/a'' = Some (0, Ram_File ''old'')" "?old ''/a'' = Some (0, Ram_File ''new'')" by code_simp+
  from this [THEN keep] w' show ?thesis by (simp add: ram_content_def)
qed

end
