(* ===== verification/VFS_File_Handles.thy ===== *)
theory VFS_File_Handles
  imports VFS_File_Inv VFS_Ram
begin

text \<open>
  The handles of the module for local files: the tables of open files and directories refine
  an abstract bookkeeping of what was opened and not yet closed, over every sequence of calls
  of the module's functions.
\<close>

section \<open>Calls that neither open nor close\<close>

text \<open>One call of such a function of a method's table, by what it does to the world.\<close>

inductive method_step :: "'w GnomeVFSMethod \<Rightarrow> 'w \<Rightarrow> 'w \<Rightarrow> bool" for M :: "'w GnomeVFSMethod" where
  step_read: "m_read M = Some f \<Longrightarrow> method_step M w (snd (snd (f h n ctx w)))"
| step_write: "m_write M = Some f \<Longrightarrow> method_step M w (snd (snd (f h data ctx w)))"
| step_seek: "m_seek M = Some f \<Longrightarrow> method_step M w (snd (f h whence off ctx w))"
| step_tell: "m_tell M = Some f \<Longrightarrow> method_step M w (snd (snd (f h w)))"
| step_truncate_handle: "m_truncate_handle M = Some f \<Longrightarrow> method_step M w (snd (f h n ctx w))"
| step_read_directory: "m_read_directory M = Some f \<Longrightarrow> method_step M w (snd (snd (f h info ctx w)))"
| step_get_file_info: "m_get_file_info M = Some f \<Longrightarrow> method_step M w (snd (snd (f uri info opts ctx w)))"
| step_get_file_info_from_handle: "m_get_file_info_from_handle M = Some f \<Longrightarrow> method_step M w (snd (snd (f h info opts ctx w)))"
| step_make_directory: "m_make_directory M = Some f \<Longrightarrow> method_step M w (snd (f uri perm ctx w))"
| step_remove_directory: "m_remove_directory M = Some f \<Longrightarrow> method_step M w (snd (f uri ctx w))"
| step_move: "m_move M = Some f \<Longrightarrow> method_step M w (snd (f uri uri' force ctx w))"
| step_unlink: "m_unlink M = Some f \<Longrightarrow> method_step M w (snd (f uri ctx w))"
| step_check_same_fs: "m_check_same_fs M = Some f \<Longrightarrow> method_step M w (snd (snd (f uri uri' ctx w)))"
| step_set_file_info: "m_set_file_info M = Some f \<Longrightarrow> method_step M w (snd (f uri info changes ctx w))"
| step_truncate: "m_truncate M = Some f \<Longrightarrow> method_step M w (snd (f uri n ctx w))"
| step_find_directory: "m_find_directory M = Some f \<Longrightarrow> method_step M w (snd (snd (f uri kind create_it find_it perm ctx w)))"
| step_create_symbolic_link: "m_create_symbolic_link M = Some f \<Longrightarrow> method_step M w (snd (f uri t ctx w))"
| step_file_control: "m_file_control M = Some f \<Longrightarrow> method_step M w (snd (f h operation data_ptr ctx w))"
| step_forget_cache: "m_forget_cache M = Some f \<Longrightarrow> method_step M w (snd (f h off n w))"
| step_get_volume_free_space: "m_get_volume_free_space M = Some f \<Longrightarrow> method_step M w (snd (snd (f uri w)))"

text \<open>Addresses in use are below the next one, and are of one kind.\<close>

definition handles_ok :: "'k file_world \<Rightarrow> bool" where
  "handles_ok w \<longleftrightarrow>
     (\<forall>h. fw_next w \<le> h \<longrightarrow> fw_files w h = None \<and> fw_dirs w h = None)
     \<and> (\<forall>h. fw_files w h = None \<or> fw_dirs w h = None)"

text \<open>The world has exactly these open files and directories.\<close>

definition tables :: "(nat \<Rightarrow> FileHandle option) \<Rightarrow> (nat \<Rightarrow> DirectoryHandle option) \<Rightarrow> 'k file_world \<Rightarrow> bool" where
  "tables F D w \<longleftrightarrow> handles_ok w \<and> fw_files w = F \<and> fw_dirs w = D"

lemma tables_fields [simp]:
  "tables F D (w\<lparr>fw_kernel := k\<rparr>) = tables F D w" "tables F D (w\<lparr>fw_trash := t\<rparr>) = tables F D w"
  "tables F D (w\<lparr>fw_strings := m\<rparr>) = tables F D w" "tables F D (w\<lparr>fw_stuck := b\<rparr>) = tables F D w"
  by (simp_all add: tables_def handles_ok_def)

text \<open>
  A condition on the world that looks neither at the kernel nor at the caches. The library's
  functions that a rename between two spellings of one name calls: a failed open keeps it, and
  so does an open that succeeds followed by the close of what it opened.
\<close>

locale table_condition =
  fixes E :: "'k file_env" and Q :: "'k file_world \<Rightarrow> bool"
  assumes fields: "Q (w\<lparr>fw_kernel := k\<rparr>) = Q w" "Q (w\<lparr>fw_trash := t\<rparr>) = Q w" "Q (w\<lparr>fw_strings := m\<rparr>) = Q w"
      "Q (w\<lparr>fw_stuck := b\<rparr>) = Q w"
    and vfs_open_fails: "Q w \<Longrightarrow> fe_vfs_open E p mode w = (r, y, w') \<Longrightarrow> r \<noteq> GNOME_VFS_OK \<Longrightarrow> Q w'"
    and vfs_open_close: "Q w \<Longrightarrow> fe_vfs_open E p mode w = (GNOME_VFS_OK, Some x, w') \<Longrightarrow> Q (snd (fe_vfs_close E x w'))"
begin

lemmas condition_fields [simp] = fields

lemma condition_kernel [simp]: "Q (snd (on_kernel f w)) = Q w" "Q (do_kernel g w) = Q w"
  by (simp_all add: on_kernel_def do_kernel_def split_def Let_def)

end

sublocale table_condition \<subseteq> file_queries E Q
  by unfold_locales simp_all

context table_condition
begin

abbreviation ok2 where "ok2 m \<equiv> post (\<lambda>r. Q (snd r)) m"
abbreviation ok3 where "ok3 m \<equiv> post (\<lambda>r. Q (snd (snd r))) m"

lemmas stuck_ok = or_stuck_inv [where Q = Q] or_stuck2_inv [where Q = Q]
lemmas retry_ok [post_rules] = retry_inv [where Q = Q, OF iffD2 [OF condition_kernel(1)]]

lemma do_read_ok: "Q w \<Longrightarrow> ok3 (do_read E h n ctx w)"
  unfolding do_read_def by (rule post_rules | rule post_let | simp)+

lemma do_write_ok: "Q w \<Longrightarrow> ok3 (do_write E h data ctx w)"
  unfolding do_write_def by (rule post_rules | rule post_let | simp)+

lemma simple_calls_ok:
  "Q w \<Longrightarrow> Q (snd (do_seek E h whence off ctx w))" "Q w \<Longrightarrow> Q (snd (snd (do_tell E h w)))"
  "Q w \<Longrightarrow> Q (snd (do_truncate_handle E h n ctx w))" "Q w \<Longrightarrow> Q (snd (do_truncate E u n ctx w))"
  "Q w \<Longrightarrow> Q (snd (do_make_directory E u perm ctx w))" "Q w \<Longrightarrow> Q (snd (do_remove_directory E u ctx w))"
  "Q w \<Longrightarrow> Q (snd (do_unlink E u ctx w))" "Q w \<Longrightarrow> Q (snd (snd (do_check_same_fs E u v ctx w)))"
  "Q w \<Longrightarrow> Q (snd (do_create_symbolic_link E u t ctx w))" "Q w \<Longrightarrow> Q (snd (do_file_control E h oper dp ctx w))"
  "Q w \<Longrightarrow> Q (snd (do_forget_cache E h off n w))" "Q w \<Longrightarrow> Q (snd (snd (do_get_volume_free_space E u w)))"
  by (simp_all add: do_seek_def do_tell_def do_truncate_handle_def do_truncate_def
      do_make_directory_def do_remove_directory_def do_unlink_def on_path_def do_check_same_fs_def stat_or_fault_def
      do_create_symbolic_link_def do_file_control_def do_forget_cache_def do_get_volume_free_space_def split_def Let_def
      split: option.split sum.split)


lemma mkdir_recursive_ok [simp]: "Q w \<Longrightarrow> Q (snd (mkdir_recursive E p perm w))"
proof -
  have "Q w \<Longrightarrow> Q (snd (mkdir_recursive_loop E perm seen p w))" for seen
    by (induction E perm seen p w rule: mkdir_recursive_loop.induct) (auto simp: mkdir_level_def split_def Let_def split: if_splits)
  then show "Q w \<Longrightarrow> Q (snd (mkdir_recursive E p perm w))" by (simp add: mkdir_recursive_def)
qed

lemma write_cache_lines_ok [simp]: "Q w \<Longrightarrow> Q (write_cache_lines E fd items w)"
  by (induction E fd items w rule: write_cache_lines.induct) (auto split: option.split)

lemma save_trash_entry_cache_ok [simp]: "Q w \<Longrightarrow> Q (save_trash_entry_cache E w)"
  by (simp add: save_trash_entry_cache_def split_def Let_def split: sum.split)

lemma add_cached_trash_entry_ok: "Q w \<Longrightarrow> post Q (add_cached_trash_entry E d t m w)"
  by (cases m) (simp_all add: add_cached_trash_entry_def post_def)

lemma read_cache_line_ok [simp]: "Q w \<Longrightarrow> Q (snd (read_cache_line E' line r w))"
  by (simp add: read_cache_line_def split_def Let_def split: option.split sum.split)

lemma read_cache_lines_ok [simp]: "Q w \<Longrightarrow> Q (snd (read_cache_lines E' t r w))"
  by (induction E' t r w rule: read_cache_lines.induct) (simp_all add: split_def Let_def)

lemma read_saved_ok [simp]: "Q w \<Longrightarrow> Q (read_saved_cached_trash_entries E w)"
  by (simp add: read_saved_cached_trash_entries_def split_def Let_def split: option.split)

lemma find_cached_ok [simp]: "Q w \<Longrightarrow> Q (snd (find_cached_trash_entry_for_device E d check w))"
  by (simp add: find_cached_trash_entry_for_device_def find_locally_cached_trash_entry_for_device_id_def cached_trash_entry_exists_def
      split_def Let_def split: option.split)

lemma find_disk_top_directory_ok [simp]: "Q w \<Longrightarrow> Q (snd (find_disk_top_directory E p d ctx w))"
proof (induction "length p" arbitrary: p w rule: less_induct)
  case less
  then show ?case
    by (subst find_disk_top_directory.simps)
      (auto simp: split_def Let_def dest: strrchr_SomeD intro!: less.hyps split: option.split sum.split)
qed

lemma find_trash_in_hierarchy_ok [post_rules]: "Q w \<Longrightarrow> ok2 (find_trash_in_hierarchy E p d ctx w)"
  unfolding find_trash_in_hierarchy_def by (rule post_rules | rule post_let | simp)+

lemma create_trash_near_ok [simp]: "Q w \<Longrightarrow> Q (snd (create_trash_near E p perm w))"
  by (simp add: create_trash_near_def try_creating_trash_in_def split_def Let_def)

lemma post_pair [post_rules]: "post Q m \<Longrightarrow> ok2 (map_option (Pair a) m)"
  by (cases m) (simp_all add: post_def)

lemma find_or_create_trash_near_ok: "Q w \<Longrightarrow> ok2 (find_or_create_trash_near E p d c f perm ctx w)"
  unfolding find_or_create_trash_near_def
  by (rule post_rules add_cached_trash_entry_ok | rule post_let | simp)+

lemma find_trash_directory_ok [post_rules]: "Q w \<Longrightarrow> ok2 (find_trash_directory E p d c f perm ctx w)"
  unfolding find_trash_directory_def by (rule post_rules find_or_create_trash_near_ok | rule post_let | simp)+

lemma target_directory_path_ok [post_rules]: "Q w \<Longrightarrow> ok2 (target_directory_path E p st st' kind c f ctx w)"
  unfolding target_directory_path_def by (rule post_rules | rule post_let | simp)+

lemma do_find_directory_ok: "Q w \<Longrightarrow> ok3 (do_find_directory E u kind c f perm ctx w)"
  unfolding do_find_directory_def by (rule post_rules | rule post_let | simp add: split_def Let_def)+

text \<open>A temporary file that could be opened: closing it restores the condition.\<close>

lemma create_temp_ok:
  assumes "Q w"
  shows "post (\<lambda>(r, temp, w'). if r = GNOME_VFS_OK then (\<forall>n x. temp = Some (n, x) \<longrightarrow> Q (snd (fe_vfs_close E x w'))) else Q w')
           (gnome_vfs_create_temp E prefix w)"
proof (rule postI)
  let ?G = "\<lambda>(r, temp, w'). if r = GNOME_VFS_OK then (\<forall>n x. temp = Some (n, x) \<longrightarrow> Q (snd (fe_vfs_close E x w'))) else Q w'"
  fix res
  assume res: "gnome_vfs_create_temp E prefix w = Some res"
  have "E = E \<longrightarrow> Q w \<longrightarrow> ?G res"
  proof (rule gnome_vfs_create_temp.raw_induct
      [where P = "\<lambda>E' prefix w res. E' = E \<longrightarrow> Q w \<longrightarrow> ?G res", OF _ res], goal_cases)
    case (1 f E' prefix w res)
    then have IH: "Q w \<Longrightarrow> post ?G (f E prefix w)" for prefix w by (auto simp: post_def)
    have opened: "post ?G (Let (fe_vfs_open E p mode v) (\<lambda>(a, b, s). g a b s))"
      if "Q v" "\<And>x s. Q (snd (fe_vfs_close E x s)) \<Longrightarrow> post ?G (g GNOME_VFS_OK (Some x) s)"
        "\<And>s. post ?G (g GNOME_VFS_OK None s)"
        "\<And>r y s. r \<noteq> GNOME_VFS_OK \<Longrightarrow> Q s \<Longrightarrow> post ?G (g r y s)" for p mode v g
    proof -
      obtain r y s where o: "fe_vfs_open E p mode v = (r, y, s)" by (metis prod_cases3)
      then show ?thesis using that vfs_open_fails [OF that(1) o] vfs_open_close [OF that(1), of p mode _ s]
        by (cases "r = GNOME_VFS_OK"; cases y) auto
    qed
    show ?case
      by (intro impI, rule postD [OF _ 1(2)], hypsubst)
        (rule opened | rule post_rules let2 [where P = Q] IH | rule post_let post_value | simp)+
  qed
  then show "?G res" using assms by blast
qed

lemma rename_case_ok: "Q w \<Longrightarrow> ok2 (rename_case E a b w)"
proof -
  assume q: "Q w"
  note t = create_temp_ok [OF q, of a]
  show ?thesis
  proof (cases "gnome_vfs_create_temp E a w")
    case None
    then show ?thesis by (simp add: rename_case_def post_def)
  next
    case (Some res)
    obtain r temp w1 where res: "res = (r, temp, w1)" by (cases res)
    show ?thesis
    proof (cases "r = GNOME_VFS_OK")
      case True
      show ?thesis
      proof (cases temp)
        case None
        then show ?thesis using Some res True by (simp add: rename_case_def post_def)
      next
        case t': (Some nx)
        obtain n x where nx: "temp = Some (n, x)" using t' by (cases nx) auto
        have "Q (snd (fe_vfs_close E x w1))" using t Some res True nx by (auto simp: post_def)
        then show ?thesis
          using Some res True nx by (simp add: rename_case_def post_def split_def Let_def)
      qed
    next
      case False
      then show ?thesis using t Some res by (simp add: rename_case_def post_def)
    qed
  qed
qed

lemma rename_helper_ok [post_rules]: "Q w \<Longrightarrow> ok2 (rename_helper E a b force ctx w)"
  unfolding rename_helper_def rename_over_directory_def
  by (rule post_rules rename_case_ok | rule post_let | simp add: split_def Let_def)+

lemma do_move_ok: "Q w \<Longrightarrow> ok2 (do_move E u v force ctx w)"
  unfolding do_move_def by (rule post_rules | simp)+

lemma change_step_ok [simp]:
  "Q (snd rw) \<Longrightarrow> (\<And>w. Q w \<Longrightarrow> Q (snd (step w))) \<Longrightarrow> Q (snd (change_step ctx b step rw))"
  by (simp add: change_step_def)

lemma change_attributes_ok [simp]: "Q w \<Longrightarrow> Q (snd (change_attributes E p info changes ctx w))"
  by (simp add: change_attributes_def set_selinux_context_def unix_step_def set_symlink_name_helper_def split_def Let_def
      split: option.split sum.split)

lemma do_set_file_info_ok: "Q w \<Longrightarrow> ok2 (do_set_file_info E u info changes ctx w)"
  unfolding do_set_file_info_def by (rule post_rules | rule post_let post_value | simp)+

lemma step_keeps_condition:
  "method_step (file_method E) w w' \<Longrightarrow> Q w \<Longrightarrow> Q w'"
  by (induction rule: method_step.induct)
    (auto simp: file_method_def simple_calls_ok intro!: stuck_ok do_read_ok
      do_write_ok do_get_file_info_inv do_get_file_info_from_handle_inv do_read_directory_inv do_find_directory_ok do_move_ok
      do_set_file_info_ok)

end

section \<open>Calls that open or close\<close>

context table_condition
begin

abbreviation opened where
  "opened uri res \<equiv> (case res of (r, h, w') \<Rightarrow>
     if r = GNOME_VFS_OK then \<exists>w0 fd. Q w0 \<and> file_handle_new uri fd w0 = (h, w') else Q w')"

lemma handle_opened: "Q v \<Longrightarrow> post (opened uri) (Let (file_handle_new uri fd v) (\<lambda>(a, s). Some (GNOME_VFS_OK, a, s)))"
  by (auto simp: post_def split_def)

lemma do_open_opened: "Q w \<Longrightarrow> post (opened uri) (do_open E uri mode ctx w)"
  unfolding do_open_def
  by (rule handle_opened | rule post_rules | rule post_let | simp add: result_from_errno_not_ok)+

lemma do_create_opened: "Q w \<Longrightarrow> post (opened uri) (do_create E uri mode excl perm ctx w)"
  unfolding do_create_def
  by (rule handle_opened | rule post_rules | rule post_let | simp add: result_from_errno_not_ok)+

lemma do_close_closed:
  "Q w \<Longrightarrow> fw_files w h = Some fh \<Longrightarrow> post (\<lambda>r. \<exists>w0. Q w0 \<and> snd r = file_handle_destroy h w0) (do_close E h ctx w)"
  unfolding do_close_def by (rule post_rules | rule post_let | simp | blast)+

lemma do_open_directory_opened:
  "Q w \<Longrightarrow> do_open_directory E uri opts ctx w = (r, h, w') \<Longrightarrow>
     if r = GNOME_VFS_OK then \<exists>w0 n d. Q w0 \<and> directory_handle_new uri n d opts w0 = (h, w') else Q w'"
  unfolding do_open_directory_def
  by (auto simp: result_from_errno_not_ok split_def Let_def split: option.splits sum.splits
      intro: iffD2 [OF condition_kernel(1)] exI)

lemma do_close_directory_closed:
  "Q w \<Longrightarrow> fw_dirs w h = Some dh \<Longrightarrow> \<exists>w0. Q w0 \<and> snd (do_close_directory E h ctx w) = directory_handle_destroy h w0"
  unfolding do_close_directory_def by (auto intro: iffD2 [OF condition_kernel(2)])

end

section \<open>The bookkeeping of open handles\<close>

text \<open>The URIs of the open files and of the open directories, by handle.\<close>

type_synonym open_handles = "(nat \<rightharpoonup> GnomeVFSURI) \<times> (nat \<rightharpoonup> GnomeVFSURI)"

datatype handle_event =
    Ev_Open nat GnomeVFSURI | Ev_Close nat | Ev_Open_Dir nat GnomeVFSURI | Ev_Close_Dir nat | Ev_Other

fun track :: "handle_event \<Rightarrow> open_handles \<Rightarrow> open_handles" where
  "track (Ev_Open h u) (F, D) = (F(h \<mapsto> u), D)"
| "track (Ev_Close h) (F, D) = (F(h := None), D)"
| "track (Ev_Open_Dir h u) (F, D) = (F, D(h \<mapsto> u))"
| "track (Ev_Close_Dir h) (F, D) = (F, D(h := None))"
| "track Ev_Other S = S"

text \<open>A handle is given out only while it is in use for neither a file nor a directory.\<close>

fun fresh_event :: "handle_event \<Rightarrow> open_handles \<Rightarrow> bool" where
  "fresh_event (Ev_Open h u) (F, D) \<longleftrightarrow> F h = None \<and> D h = None"
| "fresh_event (Ev_Open_Dir h u) (F, D) \<longleftrightarrow> F h = None \<and> D h = None"
| "fresh_event _ _ \<longleftrightarrow> True"

fun fresh_events :: "handle_event list \<Rightarrow> open_handles \<Rightarrow> bool" where
  "fresh_events [] S = True"
| "fresh_events (ev # evs) S = (fresh_event ev S \<and> fresh_events evs (track ev S))"

definition open_handles :: "'k file_world \<Rightarrow> open_handles" where
  "open_handles w = (\<lambda>h. map_option fh_uri (fw_files w h), \<lambda>h. map_option dh_uri (fw_dirs w h))"

text \<open>
  The calls of the module's functions that return, each with what it means for the
  bookkeeping: an open, create or open of a directory that succeeds; one that fails; a close,
  whatever its result; every other function of the table.
\<close>

inductive handle_step :: "'k file_env \<Rightarrow> handle_event \<Rightarrow> 'k file_world \<Rightarrow> 'k file_world \<Rightarrow> bool" for E where
  opens: "do_open E uri mode ctx w = Some (GNOME_VFS_OK, h, w') \<Longrightarrow> handle_step E (Ev_Open h uri) w w'"
| open_fails: "do_open E uri mode ctx w = Some (r, h, w') \<Longrightarrow> r \<noteq> GNOME_VFS_OK \<Longrightarrow> handle_step E Ev_Other w w'"
| creates: "do_create E uri mode excl perm ctx w = Some (GNOME_VFS_OK, h, w') \<Longrightarrow> handle_step E (Ev_Open h uri) w w'"
| create_fails: "do_create E uri mode excl perm ctx w = Some (r, h, w') \<Longrightarrow> r \<noteq> GNOME_VFS_OK \<Longrightarrow> handle_step E Ev_Other w w'"
| closes: "do_close E h ctx w = Some (r, w') \<Longrightarrow> handle_step E (Ev_Close h) w w'"
| opens_dir: "do_open_directory E uri opts ctx w = (GNOME_VFS_OK, h, w') \<Longrightarrow> handle_step E (Ev_Open_Dir h uri) w w'"
| open_dir_fails: "do_open_directory E uri opts ctx w = (r, h, w') \<Longrightarrow> r \<noteq> GNOME_VFS_OK \<Longrightarrow> handle_step E Ev_Other w w'"
| closes_dir: "do_close_directory E h ctx w = (r, w') \<Longrightarrow> handle_step E (Ev_Close_Dir h) w w'"
| others: "method_step (file_method E) w w' \<Longrightarrow> handle_step E Ev_Other w w'"

inductive handle_run :: "'k file_env \<Rightarrow> handle_event list \<Rightarrow> 'k file_world \<Rightarrow> 'k file_world \<Rightarrow> bool" for E where
  run_Nil: "handle_run E [] w w"
| run_Cons: "handle_step E ev w w1 \<Longrightarrow> handle_run E evs w1 w' \<Longrightarrow> handle_run E (ev # evs) w w'"

lemma handles_ok_handles:
  "handles_ok w \<Longrightarrow> handles_ok (snd (file_handle_new u fd w))" "handles_ok w \<Longrightarrow> handles_ok (file_handle_destroy h w)"
  "handles_ok w \<Longrightarrow> handles_ok (snd (directory_handle_new u n d opts w))" "handles_ok w \<Longrightarrow> handles_ok (directory_handle_destroy h w)"
  by (auto simp: handles_ok_def file_handle_new_def file_handle_destroy_def directory_handle_new_def directory_handle_destroy_def)

lemma new_handle_tracked:
  assumes "tables F D w0"
  shows "file_handle_new u fd w0 = (h, w') \<Longrightarrow>
           handles_ok w' \<and> fw_files w' = F(h \<mapsto> \<lparr>fh_uri = u, fh_fd = fd\<rparr>) \<and> fw_dirs w' = D \<and> F h = None \<and> D h = None"
    and "directory_handle_new u n d opts w0 = (h, w') \<Longrightarrow>
           handles_ok w' \<and> fw_files w' = F \<and> (\<exists>dh. dh_uri dh = u \<and> fw_dirs w' = D(h \<mapsto> dh)) \<and> F h = None \<and> D h = None"
    and "handles_ok (file_handle_destroy h w0) \<and> fw_files (file_handle_destroy h w0) = F(h := None)
           \<and> fw_dirs (file_handle_destroy h w0) = D"
    and "handles_ok (directory_handle_destroy h w0) \<and> fw_files (directory_handle_destroy h w0) = F
           \<and> fw_dirs (directory_handle_destroy h w0) = D(h := None)"
proof -
  have ok: "handles_ok w0" "fw_files w0 = F" "fw_dirs w0 = D" using assms by (simp_all add: tables_def)
  have free: "F (fw_next w0) = None" "D (fw_next w0) = None" using ok by (auto simp: handles_ok_def)
  show "handles_ok w' \<and> fw_files w' = F(h \<mapsto> \<lparr>fh_uri = u, fh_fd = fd\<rparr>) \<and> fw_dirs w' = D \<and> F h = None \<and> D h = None"
    if "file_handle_new u fd w0 = (h, w')"
    using that handles_ok_handles(1) [OF ok(1), of u fd] ok(2,3) free by (auto simp: file_handle_new_def)
  show "handles_ok w' \<and> fw_files w' = F \<and> (\<exists>dh. dh_uri dh = u \<and> fw_dirs w' = D(h \<mapsto> dh)) \<and> F h = None \<and> D h = None"
    if "directory_handle_new u n d opts w0 = (h, w')"
  proof -
    have "handles_ok w'" using that handles_ok_handles(3) [OF ok(1), of u n d opts] by simp
    moreover have "\<exists>dh. dh_uri dh = u \<and> fw_dirs w' = D(h \<mapsto> dh)"
      using that ok(3) unfolding directory_handle_new_def by (auto intro!: exI refl)
    ultimately show ?thesis using that ok(2) free by (auto simp: directory_handle_new_def)
  qed
  show "handles_ok (file_handle_destroy h w0) \<and> fw_files (file_handle_destroy h w0) = F(h := None)
      \<and> fw_dirs (file_handle_destroy h w0) = D"
    using handles_ok_handles(2) [OF ok(1)] ok(2,3) by (simp add: file_handle_destroy_def)
  show "handles_ok (directory_handle_destroy h w0) \<and> fw_files (directory_handle_destroy h w0) = F
      \<and> fw_dirs (directory_handle_destroy h w0) = D(h := None)"
    using handles_ok_handles(4) [OF ok(1)] ok(2,3) by (simp add: directory_handle_destroy_def)
qed

text \<open>What the module relies on of the library: opening and closing a temporary file leaves no trace in the tables.\<close>

locale library_handles =
  fixes E :: "'k file_env"
  assumes failed_open: "handles_ok w \<Longrightarrow> fe_vfs_open E p mode w = (r, y, w') \<Longrightarrow> r \<noteq> GNOME_VFS_OK \<Longrightarrow>
      handles_ok w' \<and> fw_files w' = fw_files w \<and> fw_dirs w' = fw_dirs w"
    and closed_open: "handles_ok w \<Longrightarrow> fe_vfs_open E p mode w = (GNOME_VFS_OK, Some x, w') \<Longrightarrow>
      fe_vfs_close E x w' = (r, w'') \<Longrightarrow> handles_ok w'' \<and> fw_files w'' = fw_files w \<and> fw_dirs w'' = fw_dirs w"
begin

lemma condition: "table_condition E (tables F D)"
proof
  show "tables F D w'" if "tables F D w" "fe_vfs_open E p mode w = (r, y, w')" "r \<noteq> GNOME_VFS_OK" for p mode w r y w'
    using that failed_open [of w p mode r y w'] by (auto simp: tables_def)
  show "tables F D (snd (fe_vfs_close E x w'))" if "tables F D w" "fe_vfs_open E p mode w = (GNOME_VFS_OK, Some x, w')" for p mode w x w'
    using that closed_open [of w p mode x w' "fst (fe_vfs_close E x w')" "snd (fe_vfs_close E x w')"] by (auto simp: tables_def)
qed simp_all

lemma step_tracked:
  assumes "handle_step E ev w w'" "handles_ok w"
  shows "handles_ok w' \<and> open_handles w' = track ev (open_handles w) \<and> fresh_event ev (open_handles w)"
proof -
  let ?F = "fw_files w" and ?D = "fw_dirs w"
  have q: "tables ?F ?D w" using assms(2) by (simp add: tables_def)
  note C = condition [of ?F ?D]
  note new = new_handle_tracked [of ?F ?D]
  have same: "handles_ok v \<and> open_handles v = open_handles w" if "tables ?F ?D v" for v :: "'k file_world"
    using that by (simp add: tables_def open_handles_def)
  have op: "handles_ok v \<and> open_handles v = track (Ev_Open h u) (open_handles w) \<and> fresh_event (Ev_Open h u) (open_handles w)"
    if "tables ?F ?D w0" "file_handle_new u fd w0 = (h, v)" for u fd h and v w0 :: "'k file_world"
    using new(1) [OF that] by (auto simp: open_handles_def fun_eq_iff)
  from assms(1) show ?thesis
  proof cases
    case (opens uri mode ctx h)
    then obtain w0 fd where "tables ?F ?D w0" "file_handle_new uri fd w0 = (h, w')"
      using table_condition.do_open_opened [OF C q, of uri mode ctx] by (auto simp: post_def)
    from op [OF this] opens show ?thesis by simp
  next
    case (open_fails uri mode ctx r h)
    then show ?thesis using table_condition.do_open_opened [OF C q, of uri mode ctx] same by (auto simp: post_def)
  next
    case (creates uri mode excl perm ctx h)
    then obtain w0 fd where "tables ?F ?D w0" "file_handle_new uri fd w0 = (h, w')"
      using table_condition.do_create_opened [OF C q, of uri mode excl perm ctx] by (auto simp: post_def)
    from op [OF this] creates show ?thesis by simp
  next
    case (create_fails uri mode excl perm ctx r h)
    then show ?thesis using table_condition.do_create_opened [OF C q, of uri mode excl perm ctx] same by (auto simp: post_def)
  next
    case (closes h ctx r)
    show ?thesis
    proof (cases "fw_files w h")
      case None
      then show ?thesis using closes assms(2) by (auto simp: do_close_def open_handles_def fun_eq_iff)
    next
      case (Some fh)
      then obtain w0 where "tables ?F ?D w0" "w' = file_handle_destroy h w0"
        using table_condition.do_close_closed [OF C q Some, of ctx] closes by (auto simp: post_def)
      then show ?thesis using new(3) [of w0 h] closes by (auto simp: open_handles_def fun_eq_iff)
    qed
  next
    case (opens_dir uri opts ctx h)
    then obtain w0 n d where "tables ?F ?D w0" "directory_handle_new uri n d opts w0 = (h, w')"
      using table_condition.do_open_directory_opened [OF C q, of uri opts ctx] by auto
    from new(2) [OF this] obtain dh where "handles_ok w'" "fw_files w' = ?F" "dh_uri dh = uri" "fw_dirs w' = ?D(h \<mapsto> dh)"
      "?F h = None" "?D h = None" by blast
    with opens_dir show ?thesis by (auto simp: open_handles_def fun_eq_iff)
  next
    case (open_dir_fails uri opts ctx r h)
    then show ?thesis using table_condition.do_open_directory_opened [OF C q, of uri opts ctx] same by auto
  next
    case (closes_dir h ctx r)
    show ?thesis
    proof (cases "fw_dirs w h")
      case None
      then show ?thesis using closes_dir assms(2) by (auto simp: do_close_directory_def open_handles_def fun_eq_iff)
    next
      case (Some dh)
      then obtain w0 where "tables ?F ?D w0" "w' = directory_handle_destroy h w0"
        using table_condition.do_close_directory_closed [OF C q Some, of ctx] closes_dir by auto
      then show ?thesis using new(4) [of w0 h] closes_dir by (auto simp: open_handles_def fun_eq_iff)
    qed
  next
    case others
    then have "tables ?F ?D w'" using table_condition.step_keeps_condition [OF C _ q] by blast
    from same [OF this] others show ?thesis by simp
  qed
qed

lemma run_tracked:
  "handle_run E evs w w' \<Longrightarrow> handles_ok w \<Longrightarrow>
     handles_ok w' \<and> open_handles w' = fold track evs (open_handles w) \<and> fresh_events evs (open_handles w)"
proof (induction rule: handle_run.induct)
  case (run_Cons ev w w1 evs w')
  from step_tracked [OF run_Cons.hyps(1) run_Cons.prems] run_Cons.IH show ?case by simp
qed simp

end

interpretation ram_handles: library_handles ram_file_env
  by unfold_locales (auto simp: ram_file_env_def)

interpretation ram_tables: table_condition ram_file_env "tables F D" for F D
  by (rule ram_handles.condition)

text \<open>
  C21. The handle tables of the module for local files refine the abstract bookkeeping. Over
  every sequence of calls of the module's functions that return, in any order and with any
  arguments, the files and directories that are open, each under its URI, are exactly those
  that a successful open, create or open of a directory gave out and that no close has been
  called for since: a close frees its handle whatever its result, a failed open leaves none
  behind, and no other function of the table opens, frees or changes any. A handle is given
  out only while it is in use for neither a file nor a directory. Of the library, which the
  module calls for a rename between two spellings of one name, it is assumed that a failed
  open, and an open followed by its close, leave the tables as they were. Handles stand for
  allocations, never reused in the model; where \<^verbatim>\<open>g_new\<close> reuses the address of a freed handle
  the statement is about the allocations.
\<close>

theorem file_handles_tracked:
  assumes "\<And>p mode w r y w'. handles_ok w \<Longrightarrow> fe_vfs_open E p mode w = (r, y, w') \<Longrightarrow> r \<noteq> GNOME_VFS_OK \<Longrightarrow>
             handles_ok w' \<and> fw_files w' = fw_files w \<and> fw_dirs w' = fw_dirs w"
    and "\<And>p mode w x w' r w''. handles_ok w \<Longrightarrow> fe_vfs_open E p mode w = (GNOME_VFS_OK, Some x, w') \<Longrightarrow>
             fe_vfs_close E x w' = (r, w'') \<Longrightarrow> handles_ok w'' \<and> fw_files w'' = fw_files w \<and> fw_dirs w'' = fw_dirs w"
    and "handles_ok w" and "handle_run E evs w w'"
  shows "open_handles w' = fold track evs (open_handles w) \<and> fresh_events evs (open_handles w) \<and> handles_ok w'"
proof -
  have "library_handles E" using assms(1,2) by (rule library_handles.intro)
  from library_handles.run_tracked [OF this assms(4,3)] show ?thesis by blast
qed

theorem file_handles_tracked_witness:
  "\<exists>w'. handle_run ram_file_env [Ev_Open 1 (ram_uri ''/a''), Ev_Open_Dir 2 (ram_uri ''/''), Ev_Close 1]
           (ram_world [(''/a'', 0, Ram_File ''text'')]) w'
     \<and> fst (open_handles w') 1 = None \<and> snd (open_handles w') 2 = Some (ram_uri ''/'')"
proof -
  let ?w = "ram_world [(''/a'', 0, Ram_File ''text'')]"
  define w1 where "w1 = snd (snd (the (do_open ram_file_env (ram_uri ''/a'') GNOME_VFS_OPEN_READ None ?w)))"
  define w2 where "w2 = snd (snd (do_open_directory ram_file_env (ram_uri ''/'') 0 None w1))"
  define w3 where "w3 = snd (the (do_close ram_file_env 1 None w2))"
  have "map_option (\<lambda>(r, h, w). (r, h)) (do_open ram_file_env (ram_uri ''/a'') GNOME_VFS_OPEN_READ None ?w) = Some (GNOME_VFS_OK, 1)"
    by code_simp
  then have 1: "do_open ram_file_env (ram_uri ''/a'') GNOME_VFS_OPEN_READ None ?w = Some (GNOME_VFS_OK, 1, w1)"
    by (auto simp: w1_def)
  have "(\<lambda>(r, h, w). (r, h)) (do_open_directory ram_file_env (ram_uri ''/'') 0 None w1) = (GNOME_VFS_OK, 2)"
    unfolding w1_def by code_simp
  then have 2: "do_open_directory ram_file_env (ram_uri ''/'') 0 None w1 = (GNOME_VFS_OK, 2, w2)"
    by (auto simp: w2_def split: prod.splits)
  have "do_close ram_file_env 1 None w2 \<noteq> None" unfolding w2_def w1_def by code_simp
  then obtain r where 3: "do_close ram_file_env 1 None w2 = Some (r, w3)" by (auto simp: w3_def)
  have run: "handle_run ram_file_env [Ev_Open 1 (ram_uri ''/a''), Ev_Open_Dir 2 (ram_uri ''/''), Ev_Close 1] ?w w3"
    by (rule run_Cons [OF opens [OF 1] run_Cons [OF opens_dir [OF 2] run_Cons [OF closes [OF 3] run_Nil]]])
  have start: "open_handles ?w = (\<lambda>h. None, \<lambda>h. None)" by (simp add: open_handles_def ram_world_def)
  have "handles_ok ?w" by (simp add: handles_ok_def ram_world_def)
  from file_handles_tracked [OF ram_handles.failed_open ram_handles.closed_open this run]
  have "open_handles w3 = fold track [Ev_Open 1 (ram_uri ''/a''), Ev_Open_Dir 2 (ram_uri ''/''), Ev_Close 1] (open_handles ?w)"
    by simp
  then have "fst (open_handles w3) 1 = None" "snd (open_handles w3) 2 = Some (ram_uri ''/'')"
    by (simp_all add: start)
  with run show ?thesis by blast
qed

end
