(* ===== verification/VFS_Xfer_Faults.thy ===== *)
theory VFS_Xfer_Faults
  imports VFS_File_Laws
begin

text \<open>
  Runs of the model on the kernel in memory that show faults of the code: a move across
  devices that loses a file.
\<close>

section \<open>Moves across devices\<close>

text \<open>A node on one device and a directory on another, and what a move into it leaves.\<close>

definition two_devices :: "ram_node \<Rightarrow> ram file_world" where
  "two_devices node = ram_world [(''/a'', 0, node), (''/m'', 1, Ram_Dir)]"

definition move_across :: "ram_node \<Rightarrow> (GnomeVFSResult \<times> (string \<times> int \<times> ram_node) list) option" where
  "move_across node =
     map_option (\<lambda>(r, w). (r, ram_nodes (fw_kernel w)))
       (gnome_vfs_xfer_uri (ram_xfer None) (ram_uri ''/a'') (ram_uri ''/m/a'') GNOME_VFS_XFER_REMOVESOURCE
          GNOME_VFS_XFER_ERROR_MODE_ABORT GNOME_VFS_XFER_OVERWRITE_MODE_ABORT None (two_devices node))"

lemma move_across_file:
  "move_across (Ram_File ''text'') = Some (GNOME_VFS_OK, [(''/m'', 1, Ram_Dir), (''/m/a'', 1, Ram_File ''text'')])"
  by code_simp

lemma move_across_fifo: "move_across Ram_Fifo = Some (GNOME_VFS_OK, [(''/m'', 1, Ram_Dir)])"
  by code_simp

text \<open>
  A move of one file to another device is a copy followed by the deletion of the source. A
  regular file arrives with its contents; a special file, here a FIFO, is not copied, the
  transfer reports success all the same, and the source is deleted.
\<close>

lemma move_loses_special_file:
  "\<exists>w f. gnome_vfs_xfer_uri (ram_xfer None) (ram_uri ''/a'') (ram_uri ''/m/a'') GNOME_VFS_XFER_REMOVESOURCE
       GNOME_VFS_XFER_ERROR_MODE_ABORT GNOME_VFS_XFER_OVERWRITE_MODE_ABORT None (two_devices (Ram_File ''text'')) = Some (GNOME_VFS_OK, w)
     \<and> ram_nodes (fw_kernel w) = [(''/m'', 1, Ram_Dir), (''/m/a'', 1, Ram_File ''text'')]
     \<and> gnome_vfs_xfer_uri (ram_xfer None) (ram_uri ''/a'') (ram_uri ''/m/a'') GNOME_VFS_XFER_REMOVESOURCE
       GNOME_VFS_XFER_ERROR_MODE_ABORT GNOME_VFS_XFER_OVERWRITE_MODE_ABORT None (two_devices Ram_Fifo) = Some (GNOME_VFS_OK, f)
     \<and> ram_nodes (fw_kernel f) = [(''/m'', 1, Ram_Dir)]"
  using move_across_file move_across_fifo unfolding move_across_def by auto

end
