(* ===== verification/VFS_Link_Faults.thy ===== *)
theory VFS_Link_Faults
  imports VFS_Ram
begin

text \<open>
  A query of the module for local files that never returns, on the kernel in memory.
\<close>

section \<open>Links that are followed for ever\<close>

text \<open>
  The relative link \<^verbatim>\<open>/x/y/l\<close> is reached as \<^verbatim>\<open>/d/l\<close> by way of the link \<^verbatim>\<open>/d\<close>. The kernel finds
  \<^verbatim>\<open>/x/l2\<close> behind it; the code puts the text behind \<^verbatim>\<open>/d\<close> and finds \<^verbatim>\<open>/l2\<close>, which leads back.
\<close>

definition looping_links :: "ram file_world" where
  "looping_links =
     ram_world [(''/x'', 0, Ram_Dir), (''/x/y'', 0, Ram_Dir), (''/d'', 0, Ram_Link ''/x/y''), (''/x/y/l'', 0, Ram_Link ''../l2''),
                (''/x/l2'', 0, Ram_File ''text''), (''/l2'', 0, Ram_Link ''/d/l'')]"

lemma on_kernel_query: "(\<And>k. snd (f k) = k) \<Longrightarrow> on_kernel f w = (fst (f (fw_kernel w)), w)"
  by (simp add: on_kernel_def split_def Let_def)

lemma ram_queries [simp]:
  "snd (px_readlink ram_posix p n k) = k" "snd (px_lstat ram_posix p k) = k" "snd (px_stat ram_posix p k) = k"
  by (simp_all add: ram_posix_def ram_readlink_def ram_stat_def split: sum.split prod.split ram_node.split)

lemma ram_read_link [simp]: "snd (read_link ram_file_env p w) = w"
proof -
  have "snd (read_link_loop ram_file_env p i w) = w" for i
  proof (induction "24 - i" arbitrary: i)
    case (Suc n)
    then show ?case
      by (subst read_link_loop.simps) (simp add: ram_file_env_def on_kernel_query split: sum.split)
  qed (simp add: read_link_loop.simps)
  then show ?thesis by (simp add: read_link_def)
qed

lemma looping_texts:
  "fst (read_link ram_file_env ''/d/l'' looping_links) = Inr ''../l2''"
  "fst (read_link ram_file_env ''/l2'' looping_links) = Inr ''/d/l''"
  by code_simp+

lemma looping_lstat:
  "fst (px_lstat ram_posix ''/d/l'' (fw_kernel looping_links)) = Inr (ram_status (0, Ram_Link ''../l2''))"
  "fst (px_lstat ram_posix ''/l2'' (fw_kernel looping_links)) = Inr (ram_status (0, Ram_Link ''/d/l''))"
  by code_simp+

lemma looping_name:
  "gnome_vfs_make_path_name_canonical (Some (ram_build_filename (ram_path_get_dirname ''/d/l'') ''../l2'')) = ''/l2''"
  by code_simp

lemma ram_file_simps [simp]:
  "fe_posix ram_file_env = ram_posix" "fe_build_filename ram_file_env = ram_build_filename"
  "fe_path_get_dirname ram_file_env = ram_path_get_dirname"
  by (simp_all add: ram_file_env_def)

lemma follows [simp]: "flag GNOME_VFS_FILE_INFO_FOLLOW_LINKS GNOME_VFS_FILE_INFO_FOLLOW_LINKS" "S_ISLNK 41471" "c_at ''../l2'' 0 \<noteq> slash"
  "c_at ''/d/l'' 0 = slash"
  by code_simp+

lemma follow_links_for_ever:
  assumes "p = ''/d/l'' \<or> p = ''/l2''"
  shows "follow_links_loop ram_file_env (GNOME_VFS_FILE_INFO_FOLLOW_LINKS, False) p st looping_links = None"
proof (rule ccontr)
  let ?E = "ram_file_env" and ?o = "(GNOME_VFS_FILE_INFO_FOLLOW_LINKS, False)"
  assume "follow_links_loop ?E ?o p st looping_links \<noteq> None"
  then obtain res where res: "follow_links_loop ?E ?o p st looping_links = Some res" by blast
  have "\<not> (?E = ?E \<and> ?o = ?o \<and> (p = ''/d/l'' \<or> p = ''/l2'') \<and> looping_links = looping_links)"
  proof (rule follow_links_loop.raw_induct
      [where P = "\<lambda>E o' p st w res. \<not> (E = ?E \<and> o' = ?o \<and> (p = ''/d/l'' \<or> p = ''/l2'') \<and> w = looping_links)", OF _ res], goal_cases)
    case (1 f E o' p st w res)
    have none: "f ?E ?o q st looping_links = None" if "q = ''/d/l'' \<or> q = ''/l2''" for q st
      using 1(1) [of ?E ?o q st looping_links] that by (cases "f ?E ?o q st looping_links") auto
    show ?case
    proof
      assume *: "E = ?E \<and> o' = ?o \<and> (p = ''/d/l'' \<or> p = ''/l2'') \<and> w = looping_links"
      then show False using 1(2) none
        by (auto simp: split_def looping_texts looping_lstat looping_name on_kernel_query ram_file_simps follows ram_status_def)
    qed
  qed
  with assms show False by simp
qed

lemma looping_stat: "fst (px_stat ram_posix ''/d/l'' (fw_kernel looping_links)) = Inr (ram_status (0, Ram_File ''text''))"
  by code_simp

lemma looping_path: "get_path_from_uri (ram_uri ''/d/l'') = Some ''/d/l''"
  by code_simp

text \<open>
  C17. A query about a symbolic link that follows links may never return, although the kernel
  finds a regular file behind the link: the code appends the text of a relative link to the
  path it was reached by, which may lead through another link, and nothing bounds its walk.
\<close>

theorem get_file_info_never_returns:
  "px_stat ram_posix ''/d/l'' (fw_kernel looping_links) = (Inr (ram_status (0, Ram_File ''text'')), fw_kernel looping_links)
   \<and> do_get_file_info ram_file_env (ram_uri ''/d/l'') gnome_vfs_file_info_new GNOME_VFS_FILE_INFO_FOLLOW_LINKS None looping_links = None"
proof
  show "px_stat ram_posix ''/d/l'' (fw_kernel looping_links) = (Inr (ram_status (0, Ram_File ''text'')), fw_kernel looping_links)"
    using looping_stat by (metis prod.collapse ram_queries(3))
  have "get_stat_info ram_file_env info ''/d/l'' GNOME_VFS_FILE_INFO_FOLLOW_LINKS looping_links = None" for info
    by (simp add: get_stat_info_def split_def Let_def on_kernel_query looping_lstat looping_stat follow_links_for_ever ram_status_def)
  then show "do_get_file_info ram_file_env (ram_uri ''/d/l'') gnome_vfs_file_info_new GNOME_VFS_FILE_INFO_FOLLOW_LINKS None looping_links = None"
    by (simp add: do_get_file_info_def looping_path)
qed

end
