(* ===== verification/VFS_Sftp_Buffer.thy ===== *)
theory VFS_Sftp_Buffer
  imports VFS_Posix
begin

text \<open>
  The module for SFTP (\<^verbatim>\<open>modules/sftp-method.c\<close>), first part: messages in a buffer, how they are sent
  and received over the descriptors of the SSH process, and the encoding of numbers, strings and
  file informations in them.

  A computation is \<open>None\<close> where the code does not return (a system call that is interrupted for
  ever, a mutex that is locked twice) or where its behaviour is undefined: it uses a variable
  that was never stored because a message was too short, or it writes behind the end of memory.
\<close>

section \<open>Numbers on the wire\<close>

text \<open>Big-endian bytes.\<close>

definition bytes_of_word32 :: "32 word \<Rightarrow> string" where
  "bytes_of_word32 w = map (\<lambda>i. char_of (unat (drop_bit (8 * i) w AND 255))) [3, 2, 1, 0]"

definition word32_of_bytes :: "string \<Rightarrow> 32 word" where
  "word32_of_bytes s = fold (\<lambda>c w. push_bit 8 w OR of_nat (of_char c)) s 0"

definition bytes_of_word64 :: "64 word \<Rightarrow> string" where
  "bytes_of_word64 w = map (\<lambda>i. char_of (unat (drop_bit (8 * i) w AND 255))) [7, 6, 5, 4, 3, 2, 1, 0]"

definition word64_of_bytes :: "string \<Rightarrow> 64 word" where
  "word64_of_bytes s = fold (\<lambda>c w. push_bit 8 w OR of_nat (of_char c)) s 0"

section \<open>Buffers\<close>

text \<open>
  Pointers are positions in the allocated memory \<open>buf_base\<close>, whose length is \<^verbatim>\<open>alloc\<close>. The first
  four bytes are kept for the length of the message. New memory is not initialised, which is never
  seen because only what lies before \<^verbatim>\<open>write_ptr\<close> is read.
\<close>

record SftpBuffer =
  buf_base :: string
  buf_read_ptr :: nat
  buf_write_ptr :: nat

definition buf_alloc :: "SftpBuffer \<Rightarrow> nat" where "buf_alloc buf = length (buf_base buf)"

definition INIT_BUFFER_ALLOC :: nat where "INIT_BUFFER_ALLOC = 128"

definition buffer_init :: SftpBuffer where
  "buffer_init = \<lparr>buf_base = replicate INIT_BUFFER_ALLOC (CHR 0x00), buf_read_ptr = 4, buf_write_ptr = 4\<rparr>"

text \<open>Doubling until the size fits; a buffer without memory was refused before.\<close>

function grow_alloc :: "nat \<Rightarrow> nat \<Rightarrow> nat" where
  "grow_alloc need alloc = (if alloc = 0 \<or> need \<le> alloc then alloc else grow_alloc need (alloc * 2))"
  by pat_completeness auto
termination
  by (relation "measure (\<lambda>(need, alloc). need - alloc)") auto

declare grow_alloc.simps [simp del]

definition buffer_check_alloc :: "SftpBuffer \<Rightarrow> nat \<Rightarrow> SftpBuffer" where
  "buffer_check_alloc buf n =
     buf\<lparr>buf_base := buf_base buf
           @ replicate (grow_alloc (buf_write_ptr buf + n) (buf_alloc buf) - buf_alloc buf) (CHR 0x00)\<rparr>"

definition buffer_clear :: "SftpBuffer \<Rightarrow> SftpBuffer" where
  "buffer_clear buf = buf\<lparr>buf_read_ptr := 4, buf_write_ptr := 4\<rparr>"

text \<open>The bytes that are stored, which are fewer than asked for when the message is too short.\<close>

definition buffer_read :: "SftpBuffer \<Rightarrow> nat \<Rightarrow> string \<times> SftpBuffer" where
  "buffer_read buf n =
     (let len = min n (buf_write_ptr buf - buf_read_ptr buf)
      in (take len (drop (buf_read_ptr buf) (buf_base buf)), buf\<lparr>buf_read_ptr := buf_read_ptr buf + len\<rparr>))"

definition buffer_write :: "SftpBuffer \<Rightarrow> string \<Rightarrow> SftpBuffer" where
  "buffer_write buf data =
     (let b = buffer_check_alloc buf (length data); w = buf_write_ptr b
      in b\<lparr>buf_base := take w (buf_base b) @ data @ drop (w + length data) (buf_base b), buf_write_ptr := w + length data\<rparr>)"

section \<open>Sending and receiving\<close>

text \<open>
  \<^verbatim>\<open>atomic_io\<close> with \<^verbatim>\<open>write\<close>: how much was written before the call wrote nothing, or everything;
  \<open>None\<close> inside is the value \<open>-1\<close>.
\<close>

partial_function (option) atomic_write :: "'k posix \<Rightarrow> nat \<Rightarrow> string \<Rightarrow> nat \<Rightarrow> 'k \<Rightarrow> (nat option \<times> 'k) option" where
  "atomic_write P fd data pos k =
     (if length data \<le> pos then Some (Some pos, k)
      else
        (let (r, k1) = px_write P fd (drop pos data) k
         in case r of
              Inl e \<Rightarrow> if e = EINTR then atomic_write P fd data pos k1 else Some (None, k1)
            | Inr n \<Rightarrow> if n = 0 then Some (Some pos, k1) else atomic_write P fd data (pos + n) k1))"

declare atomic_write.simps [code]

text \<open>\<^verbatim>\<open>atomic_io\<close> with \<^verbatim>\<open>read\<close>: the bytes that arrived.\<close>

partial_function (option) atomic_read :: "'k posix \<Rightarrow> nat \<Rightarrow> nat \<Rightarrow> string \<Rightarrow> 'k \<Rightarrow> (string option \<times> 'k) option" where
  "atomic_read P fd n got k =
     (if n \<le> length got then Some (Some got, k)
      else
        (let (r, k1) = px_read P fd (of_nat (n - length got)) k
         in case r of
              Inl e \<Rightarrow> if e = EINTR then atomic_read P fd n got k1 else Some (None, k1)
            | Inr s \<Rightarrow> if s = [] then Some (Some got, k1) else atomic_read P fd n (got @ s) k1))"

declare atomic_read.simps [code]

text \<open>
  The length is stored before the message, and both are written. The result of the write is
  assigned to an unsigned variable before it is compared with 0, so an error goes unnoticed: the
  function returns OK whatever happens. Every caller frees or clears the buffer next.
\<close>

definition buffer_send :: "'k posix \<Rightarrow> SftpBuffer \<Rightarrow> nat \<Rightarrow> 'k \<Rightarrow> (GnomeVFSResult \<times> 'k) option" where
  "buffer_send P buf fd k =
     (let r = buf_read_ptr buf - 4;
          len = buf_write_ptr buf - buf_read_ptr buf;
          base = take r (buf_base buf) @ bytes_of_word32 (of_nat len) @ drop (r + 4) (buf_base buf)
      in do {
        (written, k1) \<leftarrow> atomic_write P fd (take (buf_write_ptr buf - r) (drop r base)) 0 k;
        Some (GNOME_VFS_OK, k1)
      })"

text \<open>
  A connection that ends inside the length leaves the length undefined; one that ends inside
  the message leaves a message that is too short.
\<close>

definition buffer_recv :: "'k posix \<Rightarrow> SftpBuffer \<Rightarrow> nat \<Rightarrow> 'k \<Rightarrow> (GnomeVFSResult \<times> SftpBuffer \<times> 'k) option" where
  "buffer_recv P buf fd k =
     do {
       (header, k1) \<leftarrow> atomic_read P fd 4 [] k;
       case header of
         None \<Rightarrow> Some (GNOME_VFS_ERROR_IO, buf, k1)
       | Some h \<Rightarrow>
           if h = [] then Some (GNOME_VFS_ERROR_IO, buf, k1)
           else if length h < 4 then None
           else
             (let len = word32_of_bytes h
              in if 256 * 1024 < len then Some (GNOME_VFS_ERROR_IO, buf, k1)
                 else do {
                   let b = buffer_check_alloc buf (unat len);
                   (body, k2) \<leftarrow> atomic_read P fd (unat len) [] k1;
                   case body of
                     None \<Rightarrow> Some (GNOME_VFS_ERROR_IO, b, k2)
                   | Some s \<Rightarrow>
                       Some (GNOME_VFS_OK,
                             b\<lparr>buf_base := take (buf_write_ptr b) (buf_base b) @ s @ drop (buf_write_ptr b + length s) (buf_base b),
                               buf_write_ptr := buf_write_ptr b + length s\<rparr>, k2)
                 })
     }"

section \<open>Parts of a message\<close>

text \<open>
  The readers of a number declare a local variable and have \<^verbatim>\<open>buffer_read\<close> fill it. Of a message
  that is too short \<^verbatim>\<open>buffer_read\<close> logs a critical warning, copies what there is and returns, and
  the reader goes on with a variable that was never, or only partly, set: its value, and with
  it everything the program does afterwards, is not determined by the C text. Such a run is
  \<open>None\<close> here and in every definition that reads messages; a result \<open>Some\<close> is about messages
  that are long enough for what is read of them.
\<close>

definition buffer_read_gchar :: "SftpBuffer \<Rightarrow> (char \<times> SftpBuffer) option" where
  "buffer_read_gchar buf = (case buffer_read buf 1 of (s, b) \<Rightarrow> if length s < 1 then None else Some (hd s, b))"

definition buffer_read_gint32 :: "SftpBuffer \<Rightarrow> (32 word \<times> SftpBuffer) option" where
  "buffer_read_gint32 buf = (case buffer_read buf 4 of (s, b) \<Rightarrow> if length s < 4 then None else Some (word32_of_bytes s, b))"

definition buffer_read_gint64 :: "SftpBuffer \<Rightarrow> (64 word \<times> SftpBuffer) option" where
  "buffer_read_gint64 buf = (case buffer_read buf 8 of (s, b) \<Rightarrow> if length s < 8 then None else Some (word64_of_bytes s, b))"

text \<open>
  A block whose message is too short has an undefined rest. A length of \<open>2 ^ 31\<close> or more is
  negative: the allocation fails and the program ends.
\<close>

definition buffer_read_block :: "SftpBuffer \<Rightarrow> (string \<times> SftpBuffer) option" where
  "buffer_read_block buf =
     do {
       (len, b) \<leftarrow> buffer_read_gint32 buf;
       let (s, b') = buffer_read b (unat len);
       if sint len < 0 \<or> length s < unat len then None else Some (s, b')
     }"

text \<open>A string is a block; what a C string holds ends at its first NUL.\<close>

definition buffer_read_string :: "SftpBuffer \<Rightarrow> (string \<times> SftpBuffer) option" where
  "buffer_read_string buf =
     do {
       (s, b) \<leftarrow> buffer_read_block buf;
       Some (takeWhile (\<lambda>c. c \<noteq> CHR 0x00) s, b)
     }"

definition buffer_write_gchar :: "SftpBuffer \<Rightarrow> char \<Rightarrow> SftpBuffer" where
  "buffer_write_gchar buf c = buffer_write buf [c]"

definition buffer_write_gint32 :: "SftpBuffer \<Rightarrow> 32 word \<Rightarrow> SftpBuffer" where
  "buffer_write_gint32 buf w = buffer_write buf (bytes_of_word32 w)"

definition buffer_write_gint64 :: "SftpBuffer \<Rightarrow> 64 word \<Rightarrow> SftpBuffer" where
  "buffer_write_gint64 buf w = buffer_write buf (bytes_of_word64 w)"

definition buffer_write_block :: "SftpBuffer \<Rightarrow> string \<Rightarrow> SftpBuffer" where
  "buffer_write_block buf data = buffer_write (buffer_write_gint32 buf (of_nat (length data))) data"

definition buffer_write_string :: "SftpBuffer \<Rightarrow> string \<Rightarrow> SftpBuffer" where
  "buffer_write_string buf s = buffer_write_block buf s"

section \<open>File informations\<close>

definition SSH2_FILEXFER_ATTR_SIZE :: guint where "SSH2_FILEXFER_ATTR_SIZE = 1"
definition SSH2_FILEXFER_ATTR_UIDGID :: guint where "SSH2_FILEXFER_ATTR_UIDGID = 2"
definition SSH2_FILEXFER_ATTR_PERMISSIONS :: guint where "SSH2_FILEXFER_ATTR_PERMISSIONS = 4"
definition SSH2_FILEXFER_ATTR_ACMODTIME :: guint where "SSH2_FILEXFER_ATTR_ACMODTIME = 8"

definition default_req_len :: nat where "default_req_len = 32 * 1024"
definition max_req :: nat where "max_req = 8"

text \<open>Each group of attributes is read when its flag is set; owner and group are skipped.\<close>

definition read_attr_size :: "guint \<Rightarrow> GnomeVFSFileInfo \<times> SftpBuffer \<Rightarrow> (GnomeVFSFileInfo \<times> SftpBuffer) option" where
  "read_attr_size flags ib =
     (if flag flags SSH2_FILEXFER_ATTR_SIZE then do {
        (n, b) \<leftarrow> buffer_read_gint64 (snd ib);
        Some ((fst ib)\<lparr>valid_fields := valid_fields (fst ib) OR GNOME_VFS_FILE_INFO_FIELDS_SIZE, fi_size := n\<rparr>, b)
      }
      else Some ib)"

definition read_attr_ids :: "guint \<Rightarrow> GnomeVFSFileInfo \<times> SftpBuffer \<Rightarrow> (GnomeVFSFileInfo \<times> SftpBuffer) option" where
  "read_attr_ids flags ib =
     (if flag flags SSH2_FILEXFER_ATTR_UIDGID then do {
        let (u, b) = buffer_read (snd ib) 4;
        let (g, b') = buffer_read b 4;
        Some (fst ib, b')
      }
      else Some ib)"

definition sftp_type_of_mode :: "guint \<Rightarrow> GnomeVFSFileType" where
  "sftp_type_of_mode m =
     (if S_ISREG m then GNOME_VFS_FILE_TYPE_REGULAR
      else if S_ISDIR m then GNOME_VFS_FILE_TYPE_DIRECTORY
      else if S_ISFIFO m then GNOME_VFS_FILE_TYPE_FIFO
      else if S_ISSOCK m then GNOME_VFS_FILE_TYPE_SOCKET
      else if S_ISCHR m then GNOME_VFS_FILE_TYPE_CHARACTER_DEVICE
      else if S_ISBLK m then GNOME_VFS_FILE_TYPE_BLOCK_DEVICE
      else if S_ISLNK m then GNOME_VFS_FILE_TYPE_SYMBOLIC_LINK
      else GNOME_VFS_FILE_TYPE_UNKNOWN)"

definition read_attr_permissions :: "guint \<Rightarrow> GnomeVFSFileInfo \<times> SftpBuffer \<Rightarrow> (GnomeVFSFileInfo \<times> SftpBuffer) option" where
  "read_attr_permissions flags ib =
     (if flag flags SSH2_FILEXFER_ATTR_PERMISSIONS then do {
        (m, b) \<leftarrow> buffer_read_gint32 (snd ib);
        Some ((fst ib)\<lparr>valid_fields := valid_fields (fst ib) OR GNOME_VFS_FILE_INFO_FIELDS_PERMISSIONS
                         OR GNOME_VFS_FILE_INFO_FIELDS_TYPE OR GNOME_VFS_FILE_INFO_FIELDS_FLAGS,
                       permissions := m, file_type := sftp_type_of_mode m,
                       fi_flags := (if sftp_type_of_mode m = GNOME_VFS_FILE_TYPE_SYMBOLIC_LINK
                                    then GNOME_VFS_FILE_FLAGS_SYMLINK else 0)\<rparr>, b)
      }
      else Some ib)"

definition read_attr_times :: "guint \<Rightarrow> GnomeVFSFileInfo \<times> SftpBuffer \<Rightarrow> (GnomeVFSFileInfo \<times> SftpBuffer) option" where
  "read_attr_times flags ib =
     (if flag flags SSH2_FILEXFER_ATTR_ACMODTIME then do {
        (a, b) \<leftarrow> buffer_read_gint32 (snd ib);
        (m, b') \<leftarrow> buffer_read_gint32 b;
        Some ((fst ib)\<lparr>valid_fields := valid_fields (fst ib) OR GNOME_VFS_FILE_INFO_FIELDS_ATIME OR GNOME_VFS_FILE_INFO_FIELDS_MTIME,
                       atime := sint a, mtime := sint m\<rparr>, b')
      }
      else Some ib)"

definition buffer_read_file_info :: "SftpBuffer \<Rightarrow> GnomeVFSFileInfo \<Rightarrow> (GnomeVFSFileInfo \<times> SftpBuffer) option" where
  "buffer_read_file_info buf info =
     do {
       (flags, b) \<leftarrow> buffer_read_gint32 buf;
       ib1 \<leftarrow> read_attr_size flags (info\<lparr>valid_fields := GNOME_VFS_FILE_INFO_FIELDS_NONE\<rparr>, b);
       ib2 \<leftarrow> read_attr_ids flags ib1;
       ib3 \<leftarrow> read_attr_permissions flags ib2;
       (info4, b4) \<leftarrow> read_attr_times flags ib3;
       Some (info4\<lparr>valid_fields := valid_fields info4 OR GNOME_VFS_FILE_INFO_FIELDS_IO_BLOCK_SIZE,
                   io_block_size := of_nat (default_req_len * max_req)\<rparr>, b4)
     }"

definition buffer_write_file_info :: "SftpBuffer \<Rightarrow> GnomeVFSFileInfo \<Rightarrow> guint \<Rightarrow> SftpBuffer" where
  "buffer_write_file_info buf info msk =
     (let p = flag msk GNOME_VFS_SET_FILE_INFO_PERMISSIONS;
          t = flag msk GNOME_VFS_SET_FILE_INFO_TIME;
          flags = (if p then SSH2_FILEXFER_ATTR_PERMISSIONS else 0) OR (if t then SSH2_FILEXFER_ATTR_ACMODTIME else 0);
          b1 = buffer_write_gint32 buf flags;
          b2 = (if p then buffer_write_gint32 b1 (permissions info AND 511) else b1)
      in if t then buffer_write_gint32 (buffer_write_gint32 b2 (of_int (atime info))) (of_int (mtime info)) else b2)"

section \<open>Requests and replies\<close>

definition SSH2_FXP_VERSION :: char where "SSH2_FXP_VERSION = CHR 0x02"
definition SSH2_FXP_OPEN :: char where "SSH2_FXP_OPEN = CHR 0x03"
definition SSH2_FXP_CLOSE :: char where "SSH2_FXP_CLOSE = CHR 0x04"
definition SSH2_FXP_READ :: char where "SSH2_FXP_READ = CHR 0x05"
definition SSH2_FXP_WRITE :: char where "SSH2_FXP_WRITE = CHR 0x06"
definition SSH2_FXP_LSTAT :: char where "SSH2_FXP_LSTAT = CHR 0x07"
definition SSH2_FXP_SETSTAT :: char where "SSH2_FXP_SETSTAT = CHR 0x09"
definition SSH2_FXP_OPENDIR :: char where "SSH2_FXP_OPENDIR = CHR 0x0B"
definition SSH2_FXP_READDIR :: char where "SSH2_FXP_READDIR = CHR 0x0C"
definition SSH2_FXP_REMOVE :: char where "SSH2_FXP_REMOVE = CHR 0x0D"
definition SSH2_FXP_MKDIR :: char where "SSH2_FXP_MKDIR = CHR 0x0E"
definition SSH2_FXP_RMDIR :: char where "SSH2_FXP_RMDIR = CHR 0x0F"
definition SSH2_FXP_RENAME :: char where "SSH2_FXP_RENAME = CHR 0x12"
definition SSH2_FXP_READLINK :: char where "SSH2_FXP_READLINK = CHR 0x13"
definition SSH2_FXP_SYMLINK :: char where "SSH2_FXP_SYMLINK = CHR 0x14"
definition SSH2_FXP_STATUS :: char where "SSH2_FXP_STATUS = CHR 0x65"
definition SSH2_FXP_HANDLE :: char where "SSH2_FXP_HANDLE = CHR 0x66"
definition SSH2_FXP_DATA :: char where "SSH2_FXP_DATA = CHR 0x67"
definition SSH2_FXP_NAME :: char where "SSH2_FXP_NAME = CHR 0x68"
definition SSH2_FXP_ATTRS :: char where "SSH2_FXP_ATTRS = CHR 0x69"

definition SSH2_FX_OK :: guint where "SSH2_FX_OK = 0"
definition SSH2_FX_EOF :: guint where "SSH2_FX_EOF = 1"
definition SSH2_FX_NO_SUCH_FILE :: guint where "SSH2_FX_NO_SUCH_FILE = 2"
definition SSH2_FX_PERMISSION_DENIED :: guint where "SSH2_FX_PERMISSION_DENIED = 3"
definition SSH2_FX_FAILURE :: guint where "SSH2_FX_FAILURE = 4"
definition SSH2_FX_BAD_MESSAGE :: guint where "SSH2_FX_BAD_MESSAGE = 5"
definition SSH2_FX_NO_CONNECTION :: guint where "SSH2_FX_NO_CONNECTION = 6"
definition SSH2_FX_CONNECTION_LOST :: guint where "SSH2_FX_CONNECTION_LOST = 7"
definition SSH2_FX_OP_UNSUPPORTED :: guint where "SSH2_FX_OP_UNSUPPORTED = 8"

definition sftp_status_to_vfs_result :: "guint \<Rightarrow> GnomeVFSResult" where
  "sftp_status_to_vfs_result status =
     (if status = SSH2_FX_OK then GNOME_VFS_OK
      else if status = SSH2_FX_EOF then GNOME_VFS_ERROR_EOF
      else if status = SSH2_FX_NO_SUCH_FILE then GNOME_VFS_ERROR_NOT_FOUND
      else if status = SSH2_FX_PERMISSION_DENIED then GNOME_VFS_ERROR_NOT_PERMITTED
      else if status = SSH2_FX_NO_CONNECTION then GNOME_VFS_ERROR_LOGIN_FAILED
      else if status = SSH2_FX_FAILURE then GNOME_VFS_ERROR_GENERIC
      else if status = SSH2_FX_BAD_MESSAGE then GNOME_VFS_ERROR_INTERNAL
      else if status = SSH2_FX_CONNECTION_LOST then GNOME_VFS_ERROR_IO
      else if status = SSH2_FX_OP_UNSUPPORTED then GNOME_VFS_ERROR_NOT_SUPPORTED
      else GNOME_VFS_ERROR_GENERIC)"

text \<open>Message type and identifier of a reply.\<close>

definition read_header :: "SftpBuffer \<Rightarrow> (char \<times> guint \<times> SftpBuffer) option" where
  "read_header msg =
     do {
       (t, b) \<leftarrow> buffer_read_gchar msg;
       (id, b') \<leftarrow> buffer_read_gint32 b;
       Some (t, id, b')
     }"

text \<open>
  The status of a request. The result of receiving is ignored, and a reply with another type or
  another identifier only leads to a warning: its third field is taken for the status.
\<close>

definition iobuf_read_result :: "'k posix \<Rightarrow> nat \<Rightarrow> guint \<Rightarrow> 'k \<Rightarrow> (GnomeVFSResult \<times> 'k) option" where
  "iobuf_read_result P fd expected_id k =
     do {
       (ignored, msg, k1) \<leftarrow> buffer_recv P buffer_init fd k;
       (t, id, b) \<leftarrow> read_header msg;
       (status, b') \<leftarrow> buffer_read_gint32 b;
       Some (sftp_status_to_vfs_result status, k1)
     }"

text \<open>The handle of an opened file; \<open>None\<close> inside is a null pointer.\<close>

definition iobuf_read_handle :: "'k posix \<Rightarrow> nat \<Rightarrow> guint \<Rightarrow> 'k \<Rightarrow> (GnomeVFSResult \<times> string option \<times> 'k) option" where
  "iobuf_read_handle P fd expected_id k =
     do {
       (ignored, msg, k1) \<leftarrow> buffer_recv P buffer_init fd k;
       (t, id, b) \<leftarrow> read_header msg;
       if t = SSH2_FXP_STATUS then do {
         (status, b') \<leftarrow> buffer_read_gint32 b;
         Some (sftp_status_to_vfs_result status, None, k1)
       }
       else do {
         (handle, b') \<leftarrow> buffer_read_block b;
         Some (GNOME_VFS_OK, Some handle, k1)
       }
     }"

definition iobuf_read_file_info ::
    "'k posix \<Rightarrow> nat \<Rightarrow> GnomeVFSFileInfo \<Rightarrow> guint \<Rightarrow> 'k \<Rightarrow> (GnomeVFSResult \<times> GnomeVFSFileInfo \<times> 'k) option" where
  "iobuf_read_file_info P fd info expected_id k =
     do {
       (ignored, msg, k1) \<leftarrow> buffer_recv P buffer_init fd k;
       (t, id, b) \<leftarrow> read_header msg;
       if id \<noteq> expected_id then Some (GNOME_VFS_ERROR_PROTOCOL_ERROR, info, k1)
       else if t = SSH2_FXP_STATUS then do {
         (status, b') \<leftarrow> buffer_read_gint32 b;
         Some (sftp_status_to_vfs_result status, info, k1)
       }
       else if t = SSH2_FXP_ATTRS then do {
         (info', b') \<leftarrow> buffer_read_file_info b info;
         Some (GNOME_VFS_OK, info', k1)
       }
       else Some (GNOME_VFS_ERROR_PROTOCOL_ERROR, info, k1)
     }"

definition iobuf_send_read_request ::
    "'k posix \<Rightarrow> nat \<Rightarrow> guint \<Rightarrow> 64 word \<Rightarrow> guint \<Rightarrow> string \<Rightarrow> 'k \<Rightarrow> (GnomeVFSResult \<times> 'k) option" where
  "iobuf_send_read_request P fd msg_id offset len handle k =
     buffer_send P
       (buffer_write_gint32
          (buffer_write_gint64
             (buffer_write_block (buffer_write_gint32 (buffer_write_gchar buffer_init SSH2_FXP_READ) msg_id) handle) offset) len) fd k"

definition iobuf_send_string_request :: "'k posix \<Rightarrow> nat \<Rightarrow> guint \<Rightarrow> char \<Rightarrow> string \<Rightarrow> 'k \<Rightarrow> 'k option" where
  "iobuf_send_string_request P fd msg_id req_code s k =
     map_option snd
       (buffer_send P (buffer_write_block (buffer_write_gint32 (buffer_write_gchar buffer_init req_code) msg_id) s) fd k)"

definition iobuf_send_string_request_with_file_info ::
    "'k posix \<Rightarrow> nat \<Rightarrow> guint \<Rightarrow> char \<Rightarrow> string \<Rightarrow> GnomeVFSFileInfo \<Rightarrow> guint \<Rightarrow> 'k \<Rightarrow> 'k option" where
  "iobuf_send_string_request_with_file_info P fd msg_id req_code s info msk k =
     map_option snd
       (buffer_send P
          (buffer_write_file_info
             (buffer_write_block (buffer_write_gint32 (buffer_write_gchar buffer_init req_code) msg_id) s) info msk) fd k)"

end
