(* ===== verification/VFS_Sftp.thy ===== *)
theory VFS_Sftp
  imports VFS_Sftp_Buffer
begin

text \<open>
  The module for SFTP (\<^verbatim>\<open>modules/sftp-method.c\<close>), second part: connections, and the functions of the
  module's table. Starting the SSH process and logging in, with the dialogs that this needs,
  is a parameter.
\<close>

section \<open>Connections and handles\<close>

text \<open>Of a connection what the module's functions use once it stands. The mutex is \<open>sc_locked\<close>.\<close>

record SftpConnection =
  sc_in_fd :: nat
  sc_out_fd :: nat
  sc_msg_id :: guint
  sc_version :: guint
  sc_ref_count :: guint
  sc_close_timeout :: bool
  sc_locked :: bool
  sc_hash_name :: string

text \<open>\<open>sh_info\<close> is the whole array of a directory's entries; \<^verbatim>\<open>info_alloc\<close> is its length.\<close>

record SftpOpenHandle =
  sh_sftp_handle :: string
  sh_connection :: nat
  sh_offset :: "64 word"
  sh_info :: "GnomeVFSFileInfo list"
  sh_info_read_ptr :: nat
  sh_info_write_ptr :: nat
  sh_path :: string
  sh_dir_options :: guint

record 'k sftp_world =
  sw_kernel :: 'k
  sw_connections :: "nat \<Rightarrow> SftpConnection option"
  sw_handles :: "nat \<Rightarrow> SftpOpenHandle option"
  sw_next :: nat
  sw_table :: "string \<Rightarrow> nat option"
  sw_next_connection :: nat

text \<open>What reading a line of the SSH process's error messages can bring.\<close>

datatype io_line = G_IO_STATUS_ERROR | G_IO_STATUS_EOF | G_IO_STATUS_AGAIN | G_IO_STATUS_NORMAL string

text \<open>
  What the module calls: the system, the parsing of URIs, starting SSH and logging in (with the
  result two descriptors), the lines that SSH prints to its error channel, GLib's path functions,
  the MIME type of a name or a mode, and whether a file exists.
\<close>

record 'k sftp_env =
  se_posix :: "'k posix"
  se_env :: vfs_env
  se_login :: "GnomeVFSURI \<Rightarrow> 'k \<Rightarrow> GnomeVFSResult \<times> nat \<times> nat \<times> 'k"
  se_error_line :: "'k \<Rightarrow> io_line \<times> 'k"
  se_build_filename :: "string \<Rightarrow> string \<Rightarrow> string"
  se_path_get_dirname :: "string \<Rightarrow> string"
  se_path_get_basename :: "string \<Rightarrow> string"
  se_mime_from_name :: "string \<Rightarrow> string"
  se_mime_from_mode :: "guint \<Rightarrow> string"
  se_uri_exists :: "GnomeVFSURI \<Rightarrow> 'k sftp_world \<Rightarrow> bool \<times> 'k sftp_world"

definition set_connection :: "nat \<Rightarrow> SftpConnection \<Rightarrow> 'k sftp_world \<Rightarrow> 'k sftp_world" where
  "set_connection c conn w = w\<lparr>sw_connections := (sw_connections w)(c := Some conn)\<rparr>"

definition sftp_connection_get_id :: "nat \<Rightarrow> 'k sftp_world \<Rightarrow> (guint \<times> 'k sftp_world) option" where
  "sftp_connection_get_id c w =
     do {
       conn \<leftarrow> sw_connections w c;
       Some (sc_msg_id conn, set_connection c (conn\<lparr>sc_msg_id := sc_msg_id conn + 1\<rparr>) w)
     }"

text \<open>The mutex is not recursive: a thread that locks it twice waits for itself.\<close>

definition sftp_connection_lock :: "nat \<Rightarrow> 'k sftp_world \<Rightarrow> 'k sftp_world option" where
  "sftp_connection_lock c w =
     do { conn \<leftarrow> sw_connections w c; if sc_locked conn then None else Some (set_connection c (conn\<lparr>sc_locked := True\<rparr>) w) }"

definition sftp_connection_unlock :: "nat \<Rightarrow> 'k sftp_world \<Rightarrow> 'k sftp_world option" where
  "sftp_connection_unlock c w = do { conn \<leftarrow> sw_connections w c; Some (set_connection c (conn\<lparr>sc_locked := False\<rparr>) w) }"

definition sftp_connection_ref :: "nat \<Rightarrow> 'k sftp_world \<Rightarrow> 'k sftp_world option" where
  "sftp_connection_ref c w =
     do {
       conn \<leftarrow> sw_connections w c;
       Some (set_connection c (conn\<lparr>sc_ref_count := sc_ref_count conn + 1, sc_close_timeout := False\<rparr>) w)
     }"

definition sftp_connection_unref :: "nat \<Rightarrow> 'k sftp_world \<Rightarrow> 'k sftp_world option" where
  "sftp_connection_unref c w =
     do {
       conn \<leftarrow> sw_connections w c;
       let n = sc_ref_count conn - 1;
       Some (set_connection c (conn\<lparr>sc_ref_count := n, sc_close_timeout := (sc_close_timeout conn \<or> n = 0)\<rparr>) w)
     }"

text \<open>The two calls with which most functions end.\<close>

definition release_connection :: "nat \<Rightarrow> 'k sftp_world \<Rightarrow> 'k sftp_world option" where
  "release_connection c w = do { w1 \<leftarrow> sftp_connection_unref c w; sftp_connection_unlock c w1 }"

section \<open>Making and finding connections\<close>

text \<open>The prompts of the SSH client, from which the fields of a password dialog are taken.\<close>

definition is_passphrase_prompt :: "string \<Rightarrow> bool" where
  "is_passphrase_prompt line = strprefix ''Enter passphrase for key'' line"

definition get_user_from_string_or_password_line :: "string option \<Rightarrow> string \<Rightarrow> string option" where
  "get_user_from_string_or_password_line user_string password_line =
     (if is_passphrase_prompt password_line then user_string
      else case strchr password_line (CHR ''@'') of None \<Rightarrow> user_string | Some n \<Rightarrow> Some (take n password_line))"

definition get_object_from_password_line :: "string \<Rightarrow> string option" where
  "get_object_from_password_line password_line =
     (if is_passphrase_prompt password_line
      then (case strchr password_line (CHR 0x27) of
              None \<Rightarrow> None
            | Some n \<Rightarrow>
                let rest = drop (n + 1) password_line
                in (case strchr rest (CHR 0x27) of None \<Rightarrow> Some rest | Some m \<Rightarrow> Some (take m rest)))
      else None)"

definition get_server_from_uri_or_password_line :: "GnomeVFSURI \<Rightarrow> string \<Rightarrow> string option" where
  "get_server_from_uri_or_password_line uri password_line =
     (if is_passphrase_prompt password_line then None else gnome_vfs_uri_get_host_name uri)"

definition get_authtype_from_password_line :: "string \<Rightarrow> string" where
  "get_authtype_from_password_line password_line = (if is_passphrase_prompt password_line then ''publickey'' else ''password'')"

text \<open>
  The last line that SSH printed decides about the result; a line that the code does not know leaves
  the status as it was.
\<close>

partial_function (option) last_error_line :: "'k sftp_env \<Rightarrow> string \<Rightarrow> 'k \<Rightarrow> (string \<times> 'k) option" where
  "last_error_line E str k =
     (case se_error_line E k of
        (G_IO_STATUS_NORMAL str1, k1) \<Rightarrow> last_error_line E str1 k1
      | (io_status, k1) \<Rightarrow> Some (str, k1))"

declare last_error_line.simps [code]

definition ssh_error :: "string \<Rightarrow> GnomeVFSResult \<Rightarrow> GnomeVFSResult" where
  "ssh_error str status =
     (if strstr str ''Permission denied'' \<noteq> None then GNOME_VFS_ERROR_LOGIN_FAILED
      else if strstr str ''Name or service not known'' \<noteq> None then GNOME_VFS_ERROR_HOST_NOT_FOUND
      else if strstr str ''Connection refused'' \<noteq> None then GNOME_VFS_ERROR_ACCESS_DENIED
      else if strstr str ''No route to host'' \<noteq> None then GNOME_VFS_ERROR_HOST_NOT_FOUND
      else if strstr str ''Host key verification failed'' \<noteq> None then GNOME_VFS_ERROR_SERVICE_NOT_AVAILABLE
      else status)"

definition sftp_connection_process_errors ::
    "'k sftp_env \<Rightarrow> GnomeVFSResult \<Rightarrow> 'k \<Rightarrow> (GnomeVFSResult \<times> 'k) option" where
  "sftp_connection_process_errors E status k =
     (case se_error_line E k of
        (G_IO_STATUS_ERROR, k1) \<Rightarrow> Some (GNOME_VFS_ERROR_IO, k1)
      | (G_IO_STATUS_EOF, k1) \<Rightarrow> Some (GNOME_VFS_ERROR_EOF, k1)
      | (G_IO_STATUS_AGAIN, k1) \<Rightarrow> Some (GNOME_VFS_OK, k1)
      | (G_IO_STATUS_NORMAL str, k1) \<Rightarrow> map_option (map_prod (\<lambda>str1. ssh_error str1 status) id) (last_error_line E str k1))"

text \<open>
  After the login: the server's first message, with its version of the protocol. A connection that
  could not be made is closed.
\<close>

definition close_both :: "'k posix \<Rightarrow> nat \<Rightarrow> nat \<Rightarrow> 'k \<Rightarrow> 'k" where
  "close_both P in_fd out_fd k = snd (px_close P out_fd (snd (px_close P in_fd k)))"

definition sftp_connect ::
    "'k sftp_env \<Rightarrow> GnomeVFSURI \<Rightarrow> 'k \<Rightarrow> (GnomeVFSResult \<times> SftpConnection option \<times> 'k) option" where
  "sftp_connect E uri k =
     (let (res, in_fd, out_fd, k1) = se_login E uri k; P = se_posix E
      in if res \<noteq> GNOME_VFS_OK then Some (res, None, k1)
         else do {
           (received, msg, k2) \<leftarrow> buffer_recv P buffer_init in_fd k1;
           if received \<noteq> GNOME_VFS_OK then do {
             (status, k3) \<leftarrow> sftp_connection_process_errors E received k2;
             Some (if status = GNOME_VFS_OK then GNOME_VFS_ERROR_IO else status, None, close_both P in_fd out_fd k3)
           }
           else do {
             (t, b) \<leftarrow> buffer_read_gchar msg;
             if t \<noteq> SSH2_FXP_VERSION then Some (GNOME_VFS_ERROR_PROTOCOL_ERROR, None, close_both P in_fd out_fd k2)
             else do {
               (version, b') \<leftarrow> buffer_read_gint32 b;
               Some (GNOME_VFS_OK,
                     Some \<lparr>sc_in_fd = in_fd, sc_out_fd = out_fd, sc_msg_id = 1, sc_version = version, sc_ref_count = 1,
                           sc_close_timeout = False, sc_locked = False, sc_hash_name = []\<rparr>, k2)
             }
           }
         })"

definition connection_hash_name :: "GnomeVFSURI \<Rightarrow> string \<Rightarrow> string" where
  "connection_hash_name uri host =
     (case gnome_vfs_uri_get_user_name uri of None \<Rightarrow> host | Some user \<Rightarrow> user @ ''@'' @ host)"

text \<open>
  The connection of a user on a host, new or from the table. It is locked for the caller and has one
  more reference. Without OK nothing is stored in \<^verbatim>\<open>*connection\<close>; the number is 0 then, and no caller uses it.
\<close>

definition sftp_get_connection ::
    "'k sftp_env \<Rightarrow> GnomeVFSURI \<Rightarrow> 'k sftp_world \<Rightarrow> (GnomeVFSResult \<times> nat \<times> 'k sftp_world) option" where
  "sftp_get_connection E uri w =
     (case gnome_vfs_uri_get_host_name uri of
        None \<Rightarrow> Some (GNOME_VFS_ERROR_HOST_NOT_FOUND, 0, w)
      | Some host \<Rightarrow>
          let hash_name = connection_hash_name uri host
          in (case sw_table w hash_name of
                Some c \<Rightarrow> do {
                  w1 \<leftarrow> sftp_connection_lock c w;
                  w2 \<leftarrow> sftp_connection_ref c w1;
                  Some (GNOME_VFS_OK, c, w2)
                }
              | None \<Rightarrow> do {
                  (res, connection, k) \<leftarrow> sftp_connect E uri (sw_kernel w);
                  let w1 = w\<lparr>sw_kernel := k\<rparr>;
                  if res \<noteq> GNOME_VFS_OK then Some (res, 0, w1)
                  else case connection of
                         None \<Rightarrow> Some (GNOME_VFS_ERROR_INTERNAL, 0, w1)
                       | Some conn \<Rightarrow>
                           let c = sw_next_connection w1
                           in Some (GNOME_VFS_OK, c,
                                    (set_connection c (conn\<lparr>sc_locked := True, sc_hash_name := hash_name\<rparr>) w1)
                                      \<lparr>sw_table := (sw_table w1)(hash_name := Some c), sw_next_connection := c + 1\<rparr>)
                }))"

text \<open>What the timeout does that an unused connection gets.\<close>

definition sftp_connection_close :: "'k posix \<Rightarrow> nat \<Rightarrow> 'k sftp_world \<Rightarrow> 'k sftp_world option" where
  "sftp_connection_close P c w =
     do {
       conn \<leftarrow> sw_connections w c;
       Some (w\<lparr>sw_kernel := close_both P (sc_in_fd conn) (sc_out_fd conn) (sw_kernel w), sw_connections := (sw_connections w)(c := None)\<rparr>)
     }"

definition close_and_remove_connection :: "'k posix \<Rightarrow> nat \<Rightarrow> 'k sftp_world \<Rightarrow> 'k sftp_world option" where
  "close_and_remove_connection P c w =
     do {
       w1 \<leftarrow> sftp_connection_lock c w;
       conn \<leftarrow> sw_connections w1 c;
       let w2 = set_connection c (conn\<lparr>sc_close_timeout := False\<rparr>) w1;
       if sc_ref_count conn \<noteq> 0 then sftp_connection_unlock c w2
       else do {
         w3 \<leftarrow> sftp_connection_unlock c (w2\<lparr>sw_table := (sw_table w2)(sc_hash_name conn := None)\<rparr>);
         sftp_connection_close P c w3
       }
     }"

definition URI_TO_PATH :: "GnomeVFSURI \<Rightarrow> string" where
  "URI_TO_PATH uri =
     (case gnome_vfs_unescape_string (gnome_vfs_uri_get_path uri) None of
        None \<Rightarrow> ''/'' | Some path \<Rightarrow> if path = [] then ''/'' else path)"

text \<open>A message over a connection, and the reply to it.\<close>

definition send_over :: "'k sftp_env \<Rightarrow> nat \<Rightarrow> SftpBuffer \<Rightarrow> 'k sftp_world \<Rightarrow> 'k sftp_world option" where
  "send_over E c msg w =
     do {
       conn \<leftarrow> sw_connections w c;
       (ignored, k) \<leftarrow> buffer_send (se_posix E) msg (sc_out_fd conn) (sw_kernel w);
       Some (w\<lparr>sw_kernel := k\<rparr>)
     }"

definition read_result_over :: "'k sftp_env \<Rightarrow> nat \<Rightarrow> guint \<Rightarrow> 'k sftp_world \<Rightarrow> (GnomeVFSResult \<times> 'k sftp_world) option" where
  "read_result_over E c msg_id w =
     do {
       conn \<leftarrow> sw_connections w c;
       (result, k) \<leftarrow> iobuf_read_result (se_posix E) (sc_in_fd conn) msg_id (sw_kernel w);
       Some (result, w\<lparr>sw_kernel := k\<rparr>)
     }"

text \<open>Type and identifier, the start of every message.\<close>

definition start_message :: "char \<Rightarrow> guint \<Rightarrow> SftpBuffer" where
  "start_message t msg_id = buffer_write_gint32 (buffer_write_gchar buffer_init t) msg_id"

section \<open>Opening and closing\<close>

definition new_handle :: "SftpOpenHandle \<Rightarrow> 'k sftp_world \<Rightarrow> nat \<times> 'k sftp_world" where
  "new_handle h w = (sw_next w, w\<lparr>sw_handles := (sw_handles w)(sw_next w := Some h), sw_next := sw_next w + 1\<rparr>)"

definition sftp_open_mode :: "guint \<Rightarrow> guint" where
  "sftp_open_mode mode =
     (if flag mode GNOME_VFS_OPEN_READ then 1 else 0) OR (if flag mode GNOME_VFS_OPEN_WRITE then 2 else 0)
     OR (if flag mode GNOME_VFS_OPEN_TRUNCATE \<or> flag mode GNOME_VFS_OPEN_WRITE \<and> \<not> flag mode GNOME_VFS_OPEN_RANDOM then 16 else 0)"

definition sftp_create_mode :: "guint \<Rightarrow> bool \<Rightarrow> guint" where
  "sftp_create_mode mode exclusive =
     8 OR (if flag mode GNOME_VFS_OPEN_READ then 1 else 0) OR (if flag mode GNOME_VFS_OPEN_WRITE then 2 else 0)
     OR (if exclusive then 32 else 16)"

definition INIT_DIR_INFO_ALLOC :: nat where "INIT_DIR_INFO_ALLOC = 16"

text \<open>
  The end of every function that opens: the reply, the new handle or null, and the release of
  the connection. A handle keeps its reference to the connection.
\<close>

definition finish_open ::
    "'k sftp_env \<Rightarrow> nat \<Rightarrow> guint \<Rightarrow> string \<Rightarrow> nat \<Rightarrow> guint \<Rightarrow> (GnomeVFSResult \<Rightarrow> GnomeVFSResult) \<Rightarrow> 'k sftp_world
      \<Rightarrow> (GnomeVFSResult \<times> nat option \<times> 'k sftp_world) option" where
  "finish_open E c msg_id path slots options on_error w =
     do {
       conn \<leftarrow> sw_connections w c;
       (res, sftp_handle, k) \<leftarrow> iobuf_read_handle (se_posix E) (sc_in_fd conn) msg_id (sw_kernel w);
       let w1 = w\<lparr>sw_kernel := k\<rparr>;
       if res = GNOME_VFS_OK then do {
         s \<leftarrow> sftp_handle;
         let (h, w2) = new_handle \<lparr>sh_sftp_handle = s, sh_connection = c, sh_offset = 0, sh_info = replicate slots zero_info,
                                   sh_info_read_ptr = 0, sh_info_write_ptr = 0, sh_path = path, sh_dir_options = options\<rparr> w1;
         w3 \<leftarrow> sftp_connection_unlock c w2;
         Some (GNOME_VFS_OK, Some h, w3)
       }
       else do { w2 \<leftarrow> release_connection c w1; Some (on_error res, None, w2) }
     }"

definition sftp_do_open ::
    "'k sftp_env \<Rightarrow> GnomeVFSURI \<Rightarrow> guint \<Rightarrow> 'k sftp_world \<Rightarrow> (GnomeVFSResult \<times> nat option \<times> 'k sftp_world) option" where
  "sftp_do_open E uri mode w =
     do {
       (res, c, w1) \<leftarrow> sftp_get_connection E uri w;
       if res \<noteq> GNOME_VFS_OK then Some (res, None, w1)
       else do {
         (msg_id, w2) \<leftarrow> sftp_connection_get_id c w1;
         w3 \<leftarrow> send_over E c
           (buffer_write_file_info
              (buffer_write_gint32 (buffer_write_string (start_message SSH2_FXP_OPEN msg_id) (URI_TO_PATH uri)) (sftp_open_mode mode))
              zero_info 0) w2;
         finish_open E c msg_id (URI_TO_PATH uri) 0 0 (\<lambda>r. r) w3
       }
     }"

definition sftp_do_create ::
    "'k sftp_env \<Rightarrow> GnomeVFSURI \<Rightarrow> guint \<Rightarrow> bool \<Rightarrow> guint \<Rightarrow> 'k sftp_world \<Rightarrow> (GnomeVFSResult \<times> nat option \<times> 'k sftp_world) option" where
  "sftp_do_create E uri mode exclusive perm w =
     do {
       (res, c, w1) \<leftarrow> sftp_get_connection E uri w;
       if res \<noteq> GNOME_VFS_OK then Some (res, None, w1)
       else do {
         (msg_id, w2) \<leftarrow> sftp_connection_get_id c w1;
         w3 \<leftarrow> send_over E c
           (buffer_write_file_info
              (buffer_write_gint32 (buffer_write_string (start_message SSH2_FXP_OPEN msg_id) (URI_TO_PATH uri))
                 (sftp_create_mode mode exclusive))
              (zero_info\<lparr>permissions := perm\<rparr>) GNOME_VFS_SET_FILE_INFO_PERMISSIONS) w2;
         finish_open E c msg_id (URI_TO_PATH uri) 0 0 (\<lambda>r. r) w3
       }
     }"

definition sftp_do_open_directory ::
    "'k sftp_env \<Rightarrow> GnomeVFSURI \<Rightarrow> guint \<Rightarrow> 'k sftp_world \<Rightarrow> (GnomeVFSResult \<times> nat option \<times> 'k sftp_world) option" where
  "sftp_do_open_directory E uri options w =
     do {
       (res, c, w1) \<leftarrow> sftp_get_connection E uri w;
       if res \<noteq> GNOME_VFS_OK then Some (res, None, w1)
       else do {
         (msg_id, w2) \<leftarrow> sftp_connection_get_id c w1;
         w3 \<leftarrow> send_over E c (buffer_write_string (start_message SSH2_FXP_OPENDIR msg_id) (URI_TO_PATH uri)) w2;
         finish_open E c msg_id (URI_TO_PATH uri) INIT_DIR_INFO_ALLOC options (\<lambda>r. if r = GNOME_VFS_ERROR_EOF then GNOME_VFS_ERROR_NOT_FOUND else r) w3
       }
     }"

definition sftp_do_close :: "'k sftp_env \<Rightarrow> nat \<Rightarrow> 'k sftp_world \<Rightarrow> (GnomeVFSResult \<times> 'k sftp_world) option" where
  "sftp_do_close E h w =
     do {
       handle \<leftarrow> sw_handles w h;
       let c = sh_connection handle;
       w1 \<leftarrow> sftp_connection_lock c w;
       (msg_id, w2) \<leftarrow> sftp_connection_get_id c w1;
       w3 \<leftarrow> send_over E c (buffer_write_block (start_message SSH2_FXP_CLOSE msg_id) (sh_sftp_handle handle)) w2;
       (status, w4) \<leftarrow> read_result_over E c msg_id w3;
       w5 \<leftarrow> release_connection c w4;
       Some (status, w5\<lparr>sw_handles := (sw_handles w5)(h := None)\<rparr>)
     }"

definition sftp_do_close_directory :: "'k sftp_env \<Rightarrow> nat \<Rightarrow> 'k sftp_world \<Rightarrow> (GnomeVFSResult \<times> 'k sftp_world) option" where
  "sftp_do_close_directory E h w = sftp_do_close E h w"

section \<open>Reading\<close>

text \<open>
  Blocks are requested ahead, up to \<^verbatim>\<open>max_req\<close> at a time, in a ring with one free place; replies
  may come in any order. Pointers into the caller's buffer are positions in it. Numbers of bytes
  are natural numbers: they would need \<open>2 ^ 32\<close> replies to leave 64 bits.
\<close>

record ReadRequest =
  rq_id :: guint
  rq_len :: nat
  rq_ptr :: nat

definition queue_len :: nat where "queue_len = max_req + 1"

text \<open>The places from the tail to the head.\<close>

definition ring :: "nat \<Rightarrow> nat \<Rightarrow> nat list" where
  "ring svc ptr = map (\<lambda>i. (svc + i) mod queue_len) [0..<(ptr + queue_len - svc) mod queue_len]"

record 'k read_context =
  rc_posix :: "'k posix"
  rc_in_fd :: nat
  rc_out_fd :: nat
  rc_handle :: string
  rc_offset :: "64 word"

record 'k read_state =
  rs_reqs :: "ReadRequest list"
  rs_ptr :: nat
  rs_svc :: nat
  rs_curr :: nat
  rs_num :: nat
  rs_done :: nat
  rs_out :: guint
  rs_eof :: bool
  rs_dest :: string
  rs_msg :: SftpBuffer
  rs_msg_id :: guint
  rs_kernel :: 'k

text \<open>A request for a part of the file, put at a place of the ring.\<close>

definition request_block ::
    "'k read_context \<Rightarrow> nat \<Rightarrow> nat \<Rightarrow> nat \<Rightarrow> 'k read_state \<Rightarrow> 'k read_state option" where
  "request_block C i pos len s =
     do {
       (ignored, k) \<leftarrow> iobuf_send_read_request (rc_posix C) (rc_out_fd C) (rs_msg_id s) (rc_offset C + of_nat pos) (of_nat len)
                         (rc_handle C) (rs_kernel s);
       Some (s\<lparr>rs_reqs := (rs_reqs s)[i := \<lparr>rq_id = rs_msg_id s, rq_len = len, rq_ptr = pos\<rparr>], rs_out := rs_out s + 1,
               rs_msg_id := rs_msg_id s + 1, rs_kernel := k\<rparr>)
     }"

partial_function (option) request_loop :: "'k read_context \<Rightarrow> 'k read_state \<Rightarrow> 'k read_state option" where
  "request_loop C s =
     (if rs_curr s < rs_num s \<and> (rs_ptr s + 1) mod queue_len \<noteq> rs_svc s then do {
        let len = min (rs_num s - rs_curr s) default_req_len;
        s1 \<leftarrow> request_block C (rs_ptr s) (rs_curr s) len s;
        request_loop C (s1\<lparr>rs_curr := rs_curr s + len, rs_ptr := (rs_ptr s + 1) mod queue_len\<rparr>)
      }
      else Some s)"

declare request_loop.simps [code]

definition retire :: "nat \<Rightarrow> 'k read_state \<Rightarrow> 'k read_state" where
  "retire i s = s\<lparr>rs_reqs := (rs_reqs s)[i := (rs_reqs s ! i)\<lparr>rq_id := 0\<rparr>]\<rparr>"

definition pop_finished :: "'k read_state \<Rightarrow> 'k read_state" where
  "pop_finished s =
     s\<lparr>rs_svc := (case dropWhile (\<lambda>i. rq_id (rs_reqs s ! i) = 0) (ring (rs_svc s) (rs_ptr s)) of [] \<Rightarrow> rs_ptr s | i # is \<Rightarrow> i)\<rparr>"

text \<open>Bytes stored in the caller's buffer; behind its end is \<open>None\<close>.\<close>

definition store_bytes :: "nat \<Rightarrow> string \<Rightarrow> string \<Rightarrow> string option" where
  "store_bytes pos data dest =
     (if length dest < pos + length data then None else Some (take pos dest @ data @ drop (pos + length data) dest))"

text \<open>The reply to the request at a place. A value inside is the result with which the function returns.\<close>

definition read_reply ::
    "'k read_context \<Rightarrow> nat \<Rightarrow> char \<Rightarrow> SftpBuffer \<Rightarrow> 'k read_state \<Rightarrow> (GnomeVFSResult option \<times> 'k read_state) option" where
  "read_reply C i t b s =
     (let q = rs_reqs s ! i
      in if t = SSH2_FXP_STATUS then do {
           (status, b1) \<leftarrow> buffer_read_gint32 b;
           if status \<noteq> SSH2_FX_EOF then Some (Some (sftp_status_to_vfs_result status), s)
           else Some (None, pop_finished (retire i (s\<lparr>rs_eof := (rs_eof s \<or> rq_ptr q = 0), rs_num := min (rs_num s) (rq_ptr q)\<rparr>)))
         }
         else if t = SSH2_FXP_DATA then do {
           (len, b1) \<leftarrow> buffer_read_gint32 b;
           dest \<leftarrow> store_bytes (rq_ptr q) (fst (buffer_read b1 (unat len))) (rs_dest s);
           let s1 = s\<lparr>rs_dest := dest, rs_done := rs_done s + unat len\<rparr>;
           s2 \<leftarrow> (if unat len < rq_len q then request_block C i (rq_ptr q + unat len) (rq_len q - unat len) s1
                  else Some (retire i s1));
           Some (None, pop_finished s2)
         }
         else Some (Some GNOME_VFS_ERROR_PROTOCOL_ERROR, s))"

definition read_step :: "'k read_context \<Rightarrow> 'k read_state \<Rightarrow> (GnomeVFSResult option \<times> 'k read_state) option" where
  "read_step C s =
     do {
       (result, msg, k) \<leftarrow> buffer_recv (rc_posix C) (buffer_clear (rs_msg s)) (rc_in_fd C) (rs_kernel s);
       let s1 = s\<lparr>rs_out := rs_out s - 1, rs_msg := msg, rs_kernel := k\<rparr>;
       if result \<noteq> GNOME_VFS_OK then Some (Some result, s1)
       else do {
         (t, recv_id, b) \<leftarrow> read_header msg;
         case find (\<lambda>i. rq_id (rs_reqs s1 ! i) = recv_id) (ring (rs_svc s1) (rs_ptr s1)) of
           None \<Rightarrow> Some (Some GNOME_VFS_ERROR_PROTOCOL_ERROR, s1)
         | Some i \<Rightarrow> read_reply C i t b s1
       }
     }"

partial_function (option) read_loop :: "'k read_context \<Rightarrow> 'k read_state \<Rightarrow> (GnomeVFSResult option \<times> 'k read_state) option" where
  "read_loop C s =
     (if rs_done s < rs_num s \<or> rs_out s \<noteq> 0 then do {
        s1 \<leftarrow> request_loop C s;
        (r, s2) \<leftarrow> read_step C s1;
        case r of None \<Rightarrow> read_loop C s2 | Some e \<Rightarrow> Some (Some e, s2)
      }
      else Some (None, s))"

declare read_loop.simps [code]

definition read_start :: "string \<Rightarrow> nat \<Rightarrow> guint \<Rightarrow> 'k \<Rightarrow> 'k read_state" where
  "read_start dest num_bytes msg_id k =
     \<lparr>rs_reqs = replicate queue_len \<lparr>rq_id = 0, rq_len = 0, rq_ptr = 0\<rparr>, rs_ptr = 0, rs_svc = 0, rs_curr = 0, rs_num = num_bytes,
      rs_done = 0, rs_out = 0, rs_eof = False, rs_dest = dest, rs_msg = buffer_init, rs_msg_id = msg_id, rs_kernel = k\<rparr>"

text \<open>The result, what the caller's buffer holds, and \<^verbatim>\<open>*bytes_read\<close>. After an error the offset stays.\<close>

definition sftp_do_read ::
    "'k sftp_env \<Rightarrow> nat \<Rightarrow> string \<Rightarrow> nat \<Rightarrow> 'k sftp_world \<Rightarrow> (GnomeVFSResult \<times> string \<times> nat \<times> 'k sftp_world) option" where
  "sftp_do_read E h dest num_bytes w =
     do {
       handle \<leftarrow> sw_handles w h;
       let c = sh_connection handle;
       w1 \<leftarrow> sftp_connection_lock c w;
       conn \<leftarrow> sw_connections w1 c;
       (r, s) \<leftarrow> read_loop \<lparr>rc_posix = se_posix E, rc_in_fd = sc_in_fd conn, rc_out_fd = sc_out_fd conn,
                            rc_handle = sh_sftp_handle handle, rc_offset = sh_offset handle\<rparr>
                   (read_start dest num_bytes (sc_msg_id conn) (sw_kernel w1));
       let w2 = (set_connection c (conn\<lparr>sc_msg_id := rs_msg_id s\<rparr>) w1)\<lparr>sw_kernel := rs_kernel s\<rparr>;
       w3 \<leftarrow> sftp_connection_unlock c w2;
       case r of
         Some e \<Rightarrow> Some (e, rs_dest s, rs_done s, w3)
       | None \<Rightarrow>
           Some (if rs_eof s then GNOME_VFS_ERROR_EOF else GNOME_VFS_OK, rs_dest s, rs_done s,
                 w3\<lparr>sw_handles := (sw_handles w3)(h := Some (handle\<lparr>sh_offset := sh_offset handle + of_nat (rs_done s)\<rparr>))\<rparr>)
     }"

end
