(* ===== verification/VFS_Sftp_Ops.thy ===== *)
theory VFS_Sftp_Ops
  imports VFS_Sftp
begin

text \<open>
  The module for SFTP (\<^verbatim>\<open>modules/sftp-method.c\<close>), third part: writing, file informations,
  directories, and changes to the file system.
\<close>

section \<open>Writing\<close>

text \<open>The offset in the caller's buffer is a variable of 32 bits, the number of bytes has 64.\<close>

record WriteRequest =
  wq_id :: guint
  wq_len :: nat
  wq_offset :: guint

record 'k write_state =
  ws_reqs :: "WriteRequest list"
  ws_ptr :: nat
  ws_svc :: nat
  ws_curr :: guint
  ws_done :: nat
  ws_msg :: SftpBuffer
  ws_msg_id :: guint
  ws_kernel :: 'k

text \<open>The message is built in the same buffer again and again.\<close>

definition write_message :: "'k read_context \<Rightarrow> SftpBuffer \<Rightarrow> guint \<Rightarrow> guint \<Rightarrow> string \<Rightarrow> SftpBuffer" where
  "write_message C msg msg_id pos data =
     buffer_write_block
       (buffer_write_gint64
          (buffer_write_block (buffer_write_gint32 (buffer_write_gchar (buffer_clear msg) SSH2_FXP_WRITE) msg_id) (rc_handle C))
          (rc_offset C + ucast pos)) data"

partial_function (option) send_loop :: "'k read_context \<Rightarrow> string \<Rightarrow> 'k write_state \<Rightarrow> 'k write_state option" where
  "send_loop C buffer s =
     (if unat (ws_curr s) < length buffer \<and> (ws_ptr s + 1) mod queue_len \<noteq> ws_svc s then do {
        let pos = unat (ws_curr s);
        let len = min (length buffer - pos) default_req_len;
        let msg = write_message C (ws_msg s) (ws_msg_id s) (ws_curr s) (take len (drop pos buffer));
        (ignored, k) \<leftarrow> buffer_send (rc_posix C) msg (rc_out_fd C) (ws_kernel s);
        send_loop C buffer
          (s\<lparr>ws_reqs := (ws_reqs s)[ws_ptr s := \<lparr>wq_id = ws_msg_id s, wq_len = len, wq_offset = ws_curr s\<rparr>],
             ws_ptr := (ws_ptr s + 1) mod queue_len, ws_curr := ws_curr s + of_nat len, ws_msg := msg,
             ws_msg_id := ws_msg_id s + 1, ws_kernel := k\<rparr>)
      }
      else Some s)"

declare send_loop.simps [code]

definition pop_written :: "'k write_state \<Rightarrow> 'k write_state" where
  "pop_written s =
     s\<lparr>ws_svc := (case dropWhile (\<lambda>i. wq_id (ws_reqs s ! i) = 0) (ring (ws_svc s) (ws_ptr s)) of [] \<Rightarrow> ws_ptr s | i # is \<Rightarrow> i)\<rparr>"

text \<open>One reply. The result of receiving it is ignored; a status other than OK ends the function at once.\<close>

definition write_step :: "'k read_context \<Rightarrow> 'k write_state \<Rightarrow> (GnomeVFSResult option \<times> 'k write_state) option" where
  "write_step C s =
     do {
       (ignored, msg, k) \<leftarrow> buffer_recv (rc_posix C) (buffer_clear (ws_msg s)) (rc_in_fd C) (ws_kernel s);
       let s1 = s\<lparr>ws_msg := msg, ws_kernel := k\<rparr>;
       (t, recv_id, b) \<leftarrow> read_header msg;
       if t \<noteq> SSH2_FXP_STATUS then Some (Some GNOME_VFS_ERROR_PROTOCOL_ERROR, s1)
       else do {
         (status, b1) \<leftarrow> buffer_read_gint32 b;
         if status \<noteq> SSH2_FX_OK then Some (Some (sftp_status_to_vfs_result status), s1)
         else case find (\<lambda>i. wq_id (ws_reqs s1 ! i) = recv_id) (ring (ws_svc s1) (ws_ptr s1)) of
                None \<Rightarrow> Some (Some GNOME_VFS_ERROR_PROTOCOL_ERROR, s1)
              | Some i \<Rightarrow>
                  let q = ws_reqs s1 ! i
                  in Some (None, pop_written (s1\<lparr>ws_reqs := (ws_reqs s1)[i := q\<lparr>wq_id := 0\<rparr>], ws_done := ws_done s1 + wq_len q\<rparr>))
       }
     }"

partial_function (option) acknowledge_loop ::
    "'k read_context \<Rightarrow> string \<Rightarrow> 'k write_state \<Rightarrow> (GnomeVFSResult option \<times> 'k write_state) option" where
  "acknowledge_loop C buffer s =
     (if ws_done s < length buffer then do {
        s1 \<leftarrow> send_loop C buffer s;
        (r, s2) \<leftarrow> write_step C s1;
        case r of None \<Rightarrow> acknowledge_loop C buffer s2 | Some e \<Rightarrow> Some (Some e, s2)
      }
      else Some (None, s))"

declare acknowledge_loop.simps [code]

definition write_start :: "guint \<Rightarrow> 'k \<Rightarrow> 'k write_state" where
  "write_start msg_id k =
     \<lparr>ws_reqs = replicate queue_len \<lparr>wq_id = 0, wq_len = 0, wq_offset = 0\<rparr>, ws_ptr = 0, ws_svc = 0, ws_curr = 0, ws_done = 0,
      ws_msg = buffer_init, ws_msg_id = msg_id, ws_kernel = k\<rparr>"

definition sftp_do_write ::
    "'k sftp_env \<Rightarrow> nat \<Rightarrow> string \<Rightarrow> 'k sftp_world \<Rightarrow> (GnomeVFSResult \<times> nat \<times> 'k sftp_world) option" where
  "sftp_do_write E h buffer w =
     do {
       handle \<leftarrow> sw_handles w h;
       let c = sh_connection handle;
       w1 \<leftarrow> sftp_connection_lock c w;
       conn \<leftarrow> sw_connections w1 c;
       (r, s) \<leftarrow> acknowledge_loop \<lparr>rc_posix = se_posix E, rc_in_fd = sc_in_fd conn, rc_out_fd = sc_out_fd conn,
                             rc_handle = sh_sftp_handle handle, rc_offset = sh_offset handle\<rparr> buffer
                   (write_start (sc_msg_id conn) (sw_kernel w1));
       let w2 = (set_connection c (conn\<lparr>sc_msg_id := ws_msg_id s\<rparr>) w1)\<lparr>sw_kernel := ws_kernel s\<rparr>;
       w3 \<leftarrow> sftp_connection_unlock c w2;
       case r of
         Some e \<Rightarrow> Some (e, ws_done s, w3)
       | None \<Rightarrow>
           Some (GNOME_VFS_OK, ws_done s,
                 w3\<lparr>sw_handles := (sw_handles w3)(h := Some (handle\<lparr>sh_offset := sh_offset handle + of_nat (ws_done s)\<rparr>))\<rparr>)
     }"

section \<open>File informations\<close>

definition name_reply :: "SftpBuffer \<Rightarrow> (string option) option" where
  "name_reply b =
     do {
       (count, b1) \<leftarrow> buffer_read_gint32 b;
       if count = 1 then do { (s, b2) \<leftarrow> buffer_read_string b1; Some (Some s) } else Some None
     }"

text \<open>The text of a link; \<open>None\<close> inside is a null pointer.\<close>

definition sftp_readlink :: "'k sftp_env \<Rightarrow> nat \<Rightarrow> string \<Rightarrow> 'k sftp_world \<Rightarrow> (string option \<times> 'k sftp_world) option" where
  "sftp_readlink E c path w =
     do {
       (msg_id, w1) \<leftarrow> sftp_connection_get_id c w;
       let msg = buffer_write_string (start_message SSH2_FXP_READLINK msg_id) path;
       w2 \<leftarrow> send_over E c msg w1;
       conn \<leftarrow> sw_connections w2 c;
       (ignored, msg', k) \<leftarrow> buffer_recv (se_posix E) (buffer_clear msg) (sc_in_fd conn) (sw_kernel w2);
       (t, recv_id, b) \<leftarrow> read_header msg';
       text \<leftarrow> (if recv_id \<noteq> msg_id then Some None else if t = SSH2_FXP_NAME then name_reply b else Some None);
       Some (text, w2\<lparr>sw_kernel := k\<rparr>)
     }"

definition update_mime_type_and_name_from_path ::
    "'k sftp_env \<Rightarrow> GnomeVFSFileInfo \<Rightarrow> string \<Rightarrow> guint \<Rightarrow> GnomeVFSFileInfo" where
  "update_mime_type_and_name_from_path E info path options =
     (let name = (if path = ''/'' then path else se_path_get_basename E path);
          fields = valid_fields info OR GNOME_VFS_FILE_INFO_FIELDS_MIME_TYPE;
          has_type = flag fields GNOME_VFS_FILE_INFO_FIELDS_TYPE;
          by_name = se_mime_from_name E name;
          t = (if has_type \<and> file_type info = GNOME_VFS_FILE_TYPE_SYMBOLIC_LINK then ''x-special/symlink''
               else if flag fields GNOME_VFS_FILE_INFO_FIELDS_SYMLINK_NAME \<and> symlink_name info \<noteq> None
                       \<and> flag options GNOME_VFS_FILE_INFO_FOLLOW_LINKS \<and> file_type info = GNOME_VFS_FILE_TYPE_REGULAR
               then se_mime_from_name E (the (symlink_name info))
               else if has_type \<and> file_type info = GNOME_VFS_FILE_TYPE_REGULAR then by_name
               else se_mime_from_mode E (permissions info))
      in info\<lparr>fi_name := Some name, valid_fields := fields, mime_type := Some t\<rparr>)"

definition lstat_over ::
    "'k sftp_env \<Rightarrow> nat \<Rightarrow> string \<Rightarrow> GnomeVFSFileInfo \<Rightarrow> 'k sftp_world \<Rightarrow> (GnomeVFSResult \<times> GnomeVFSFileInfo \<times> 'k sftp_world) option" where
  "lstat_over E c path info w =
     do {
       (msg_id, w1) \<leftarrow> sftp_connection_get_id c w;
       conn \<leftarrow> sw_connections w1 c;
       k \<leftarrow> iobuf_send_string_request (se_posix E) (sc_out_fd conn) msg_id SSH2_FXP_LSTAT path (sw_kernel w1);
       (res, info', k') \<leftarrow> iobuf_read_file_info (se_posix E) (sc_in_fd conn) info msg_id k;
       Some (res, info', w1\<lparr>sw_kernel := k'\<rparr>)
     }"

text \<open>
  Following a link through links, as many as the number allows: the result, the path that was
  reached (\<open>None\<close>: none), and the last information that could be read.
\<close>

fun sftp_follow_links ::
    "'k sftp_env \<Rightarrow> nat \<Rightarrow> nat \<Rightarrow> string \<Rightarrow> string option \<Rightarrow> GnomeVFSFileInfo option \<Rightarrow> 'k sftp_world
      \<Rightarrow> (GnomeVFSResult \<times> string option \<times> GnomeVFSFileInfo option \<times> 'k sftp_world) option" where
  "sftp_follow_links E c 0 path target last_info w = Some (GNOME_VFS_ERROR_TOO_MANY_LINKS, target, last_info, w)"
| "sftp_follow_links E c (Suc n) path target last_info w =
     do {
       let here = (case target of None \<Rightarrow> path | Some t \<Rightarrow> t);
       (text, w1) \<leftarrow> sftp_readlink E c here w;
       case text of
         None \<Rightarrow> Some (GNOME_VFS_OK, target, last_info, w1)
       | Some reference \<Rightarrow> do {
           let next_path = gnome_vfs_resolve_symlink (se_build_filename E) here reference;
           (res, info, w2) \<leftarrow> lstat_over E c next_path gnome_vfs_file_info_new w1;
           if res \<noteq> GNOME_VFS_OK \<or> \<not> flag (valid_fields info) GNOME_VFS_FILE_INFO_FIELDS_TYPE
           then Some (GNOME_VFS_OK, Some next_path, last_info, w2)
           else if file_type info \<noteq> GNOME_VFS_FILE_TYPE_SYMBOLIC_LINK then Some (res, Some next_path, Some info, w2)
           else sftp_follow_links E c n path (Some next_path) (Some info) w2
         }
     }"

text \<open>A link that leads nowhere is described itself. Too many links are an error, but the information is filled.\<close>

definition get_file_info_for_path ::
    "'k sftp_env \<Rightarrow> nat \<Rightarrow> string \<Rightarrow> GnomeVFSFileInfo \<Rightarrow> guint \<Rightarrow> 'k sftp_world
      \<Rightarrow> (GnomeVFSResult \<times> GnomeVFSFileInfo \<times> 'k sftp_world) option" where
  "get_file_info_for_path E c path info options w =
     do {
       conn \<leftarrow> sw_connections w c;
       if sc_version conn = 0 then Some (GNOME_VFS_ERROR_NOT_SUPPORTED, info, w)
       else do {
         (res, info1, w1) \<leftarrow> lstat_over E c path info w;
         if res \<noteq> GNOME_VFS_OK then Some (res, info1, w1)
         else do {
           (res2, info2, w2) \<leftarrow>
             (if file_type info1 \<noteq> GNOME_VFS_FILE_TYPE_SYMBOLIC_LINK then Some (res, info1, w1)
              else if flag options GNOME_VFS_FILE_INFO_FOLLOW_LINKS then do {
                (r, target, last_info, w2) \<leftarrow> sftp_follow_links E c MAX_SYMLINKS_FOLLOWED path None None w1;
                let i = (case last_info of
                           None \<Rightarrow> info1
                         | Some l \<Rightarrow> gnome_vfs_file_info_copy (gnome_vfs_file_info_clear info1) l);
                let j = GNOME_VFS_FILE_INFO_SET_SYMLINK i True;
                Some (r, j\<lparr>valid_fields := valid_fields j OR GNOME_VFS_FILE_INFO_FIELDS_SYMLINK_NAME, symlink_name := target\<rparr>, w2)
              }
              else do {
                (text, w2) \<leftarrow> sftp_readlink E c path w1;
                Some (res, GNOME_VFS_FILE_INFO_SET_SYMLINK
                             (info1\<lparr>valid_fields := valid_fields info1 OR GNOME_VFS_FILE_INFO_FIELDS_SYMLINK_NAME,
                                    symlink_name := text\<rparr>) True, w2)
              });
           Some (res2, update_mime_type_and_name_from_path E info2 path options, w2)
         }
       }
     }"

definition sftp_do_get_file_info ::
    "'k sftp_env \<Rightarrow> GnomeVFSURI \<Rightarrow> GnomeVFSFileInfo \<Rightarrow> guint \<Rightarrow> 'k sftp_world
      \<Rightarrow> (GnomeVFSResult \<times> GnomeVFSFileInfo \<times> 'k sftp_world) option" where
  "sftp_do_get_file_info E uri info options w =
     do {
       (res, c, w1) \<leftarrow> sftp_get_connection E uri w;
       if res \<noteq> GNOME_VFS_OK then Some (res, info, w1)
       else do {
         (res2, info2, w2) \<leftarrow> get_file_info_for_path E c (URI_TO_PATH uri) info options w1;
         w3 \<leftarrow> release_connection c w2;
         Some (res2, info2, w3)
       }
     }"

text \<open>The connection is not locked here.\<close>

definition sftp_do_get_file_info_from_handle ::
    "'k sftp_env \<Rightarrow> nat \<Rightarrow> GnomeVFSFileInfo \<Rightarrow> guint \<Rightarrow> 'k sftp_world
      \<Rightarrow> (GnomeVFSResult \<times> GnomeVFSFileInfo \<times> 'k sftp_world) option" where
  "sftp_do_get_file_info_from_handle E h info options w =
     do { handle \<leftarrow> sw_handles w h; get_file_info_for_path E (sh_connection handle) (sh_path handle) info options w }"

definition set_offset :: "nat \<Rightarrow> 64 word \<Rightarrow> 'k sftp_world \<Rightarrow> 'k sftp_world option" where
  "set_offset h off w =
     do { handle \<leftarrow> sw_handles w h; Some (w\<lparr>sw_handles := (sw_handles w)(h := Some (handle\<lparr>sh_offset := off\<rparr>))\<rparr>) }"

definition sftp_do_seek ::
    "'k sftp_env \<Rightarrow> nat \<Rightarrow> nat \<Rightarrow> int \<Rightarrow> 'k sftp_world \<Rightarrow> (GnomeVFSResult \<times> 'k sftp_world) option" where
  "sftp_do_seek E h whence offset w =
     do {
       handle \<leftarrow> sw_handles w h;
       if whence = 0 then do { w1 \<leftarrow> set_offset h (of_int offset) w; Some (GNOME_VFS_OK, w1) }
       else if whence = 1 then do { w1 \<leftarrow> set_offset h (sh_offset handle + of_int offset) w; Some (GNOME_VFS_OK, w1) }
       else if whence = 2 then do {
         (res, info, w1) \<leftarrow> sftp_do_get_file_info_from_handle E h zero_info GNOME_VFS_FILE_INFO_DEFAULT w;
         if res \<noteq> GNOME_VFS_OK then Some (res, w1)
         else do { w2 \<leftarrow> set_offset h (fi_size info + of_int offset) w1; Some (GNOME_VFS_OK, w2) }
       }
       else Some (GNOME_VFS_OK, w)
     }"

definition sftp_do_tell :: "nat \<Rightarrow> 'k sftp_world \<Rightarrow> (GnomeVFSResult \<times> 64 word) option" where
  "sftp_do_tell h w = do { handle \<leftarrow> sw_handles w h; Some (GNOME_VFS_OK, sh_offset handle) }"

section \<open>Reading a directory\<close>

text \<open>
  The array for the entries that the server sent and the caller has not read yet. To make room,
  the entries that are left are moved to the front (in the code the wrong way round, which has no
  effect as long as none are left), and the array grows; only then is it cleared, so that a place
  that is used again keeps what the reply does not mention. The sums have 32 bits: after a
  negative number of names the array grows until the allocation fails.
\<close>

definition move_entries :: "SftpOpenHandle \<Rightarrow> SftpOpenHandle" where
  "move_entries h =
     (let r = sh_info_read_ptr h; n = sh_info_write_ptr h - r; a = sh_info h
      in if 0 < r then h\<lparr>sh_info := take r a @ take n a @ drop (r + n) a, sh_info_read_ptr := 0, sh_info_write_ptr := n\<rparr> else h)"

definition grow_entries :: "nat \<Rightarrow> SftpOpenHandle \<Rightarrow> SftpOpenHandle" where
  "grow_entries count h =
     (let wr = sh_info_write_ptr h; alloc = grow_alloc (wr + count) (length (sh_info h))
      in if length (sh_info h) < alloc then h\<lparr>sh_info := take wr (sh_info h) @ replicate (alloc - wr) zero_info\<rparr> else h)"

definition make_room :: "32 word \<Rightarrow> SftpOpenHandle \<Rightarrow> SftpOpenHandle option" where
  "make_room count h =
     (if of_nat (sh_info_write_ptr h) + count \<le> of_nat (length (sh_info h)) then Some h
      else if sint count < 0 then None
      else Some (grow_entries (unat count) (move_entries h)))"

text \<open>
  The entries of one message. A link is looked at again, over the same connection, whatever
  comes of it.
\<close>

fun read_names ::
    "'k sftp_env \<Rightarrow> nat \<Rightarrow> SftpBuffer \<Rightarrow> SftpOpenHandle \<Rightarrow> 'k sftp_world \<Rightarrow> (SftpOpenHandle \<times> 'k sftp_world) option" where
  "read_names E 0 b handle w = Some (handle, w)"
| "read_names E (Suc n) b handle w =
     do {
       (filename, b1) \<leftarrow> buffer_read_string b;
       (longname, b2) \<leftarrow> buffer_read_string b1;
       (info, b3) \<leftarrow> buffer_read_file_info b2 (sh_info handle ! sh_info_write_ptr handle);
       (info', w1) \<leftarrow>
         (if flag (valid_fields info) GNOME_VFS_FILE_INFO_FIELDS_TYPE \<and> file_type info = GNOME_VFS_FILE_TYPE_SYMBOLIC_LINK then do {
            (res, i, w1) \<leftarrow> get_file_info_for_path E (sh_connection handle) (se_build_filename E (sh_path handle) filename) info
                             (sh_dir_options handle) w;
            Some (i, w1)
          }
          else Some (update_mime_type_and_name_from_path E info filename (sh_dir_options handle), w));
       read_names E n b3
         (handle\<lparr>sh_info := (sh_info handle)[sh_info_write_ptr handle := info'], sh_info_write_ptr := sh_info_write_ptr handle + 1\<rparr>) w1
     }"

text \<open>The first entry of those that have just arrived; the array loses its name and MIME type. Or the end.\<close>

definition first_entry ::
    "nat \<Rightarrow> SftpOpenHandle \<Rightarrow> GnomeVFSFileInfo \<Rightarrow> 'k sftp_world \<Rightarrow> GnomeVFSResult \<times> GnomeVFSFileInfo \<times> 'k sftp_world" where
  "first_entry h handle info w =
     (let r = sh_info_read_ptr handle; i = sh_info handle ! r
      in if r < sh_info_write_ptr handle
         then (GNOME_VFS_OK, gnome_vfs_file_info_copy info i,
               w\<lparr>sw_handles := (sw_handles w)(h := Some (handle\<lparr>sh_info := (sh_info handle)[r := i\<lparr>fi_name := None, mime_type := None\<rparr>],
                                                             sh_info_read_ptr := r + 1\<rparr>))\<rparr>)
         else (GNOME_VFS_ERROR_EOF, info, w\<lparr>sw_handles := (sw_handles w)(h := Some handle)\<rparr>))"

text \<open>
  The test of the status is \<^verbatim>\<open>status == SSH2_FX_EOF || SSH2_FX_OK\<close>, whose second half is 0. Any
  other status makes the function close the handle, which locks the locked connection again.
\<close>

definition sftp_do_read_directory ::
    "'k sftp_env \<Rightarrow> nat \<Rightarrow> GnomeVFSFileInfo \<Rightarrow> 'k sftp_world \<Rightarrow> (GnomeVFSResult \<times> GnomeVFSFileInfo \<times> 'k sftp_world) option" where
  "sftp_do_read_directory E h info w =
     do {
       handle \<leftarrow> sw_handles w h;
       let r = sh_info_read_ptr handle;
       if r < sh_info_write_ptr handle
       then Some (GNOME_VFS_OK, gnome_vfs_file_info_copy info (sh_info handle ! r),
                  w\<lparr>sw_handles := (sw_handles w)(h := Some (handle\<lparr>sh_info_read_ptr := r + 1\<rparr>))\<rparr>)
       else do {
         let c = sh_connection handle;
         w1 \<leftarrow> sftp_connection_lock c w;
         (msg_id, w2) \<leftarrow> sftp_connection_get_id c w1;
         let msg = buffer_write_block (start_message SSH2_FXP_READDIR msg_id) (sh_sftp_handle handle);
         w3 \<leftarrow> send_over E c msg w2;
         conn \<leftarrow> sw_connections w3 c;
         (ignored, msg', k) \<leftarrow> buffer_recv (se_posix E) (buffer_clear msg) (sc_in_fd conn) (sw_kernel w3);
         let w4 = w3\<lparr>sw_kernel := k\<rparr>;
         (t, recv_id, b) \<leftarrow> read_header msg';
         if recv_id \<noteq> msg_id then do { w5 \<leftarrow> sftp_connection_unlock c w4; Some (GNOME_VFS_ERROR_PROTOCOL_ERROR, info, w5) }
         else if t = SSH2_FXP_STATUS then do {
           (status, b1) \<leftarrow> buffer_read_gint32 b;
           if status = SSH2_FX_EOF then do { w5 \<leftarrow> sftp_connection_unlock c w4; Some (GNOME_VFS_ERROR_EOF, info, w5) }
           else do {
             (closed, w5) \<leftarrow> sftp_do_close E h w4;
             w6 \<leftarrow> sftp_connection_unlock c w5;
             Some (sftp_status_to_vfs_result status, info, w6)
           }
         }
         else if t = SSH2_FXP_NAME then do {
           (count, b1) \<leftarrow> buffer_read_gint32 b;
           if count = 0 then do { w5 \<leftarrow> sftp_connection_unlock c w4; Some (GNOME_VFS_ERROR_EOF, info, w5) }
           else do {
             roomy \<leftarrow> make_room count handle;
             (handle', w5) \<leftarrow> read_names E (nat (sint count)) b1 roomy w4;
             let (result, info', w6) = first_entry h handle' info w5;
             w7 \<leftarrow> sftp_connection_unlock c w6;
             Some (result, info', w7)
           }
         }
         else do { w5 \<leftarrow> sftp_connection_unlock c w4; Some (GNOME_VFS_ERROR_PROTOCOL_ERROR, info, w5) }
       }
     }"

section \<open>Changes to the file system\<close>

text \<open>
  The body that the functions below have in common: a connection, an identifier, a message over
  it, the status, and the release of the connection.
\<close>

definition simple_request ::
    "'k sftp_env \<Rightarrow> GnomeVFSURI \<Rightarrow> (guint \<Rightarrow> nat \<Rightarrow> 'k \<Rightarrow> 'k option) \<Rightarrow> 'k sftp_world \<Rightarrow> (GnomeVFSResult \<times> 'k sftp_world) option" where
  "simple_request E uri send w =
     do {
       (res, c, w1) \<leftarrow> sftp_get_connection E uri w;
       if res \<noteq> GNOME_VFS_OK then Some (res, w1)
       else do {
         (msg_id, w2) \<leftarrow> sftp_connection_get_id c w1;
         conn \<leftarrow> sw_connections w2 c;
         k \<leftarrow> send msg_id (sc_out_fd conn) (sw_kernel w2);
         (result, w3) \<leftarrow> read_result_over E c msg_id (w2\<lparr>sw_kernel := k\<rparr>);
         w4 \<leftarrow> release_connection c w3;
         Some (result, w4)
       }
     }"

text \<open>A failure without a reason may mean that the file was there already.\<close>

definition exists_if_generic ::
    "'k sftp_env \<Rightarrow> GnomeVFSURI \<Rightarrow> GnomeVFSResult \<times> 'k sftp_world \<Rightarrow> GnomeVFSResult \<times> 'k sftp_world" where
  "exists_if_generic E uri rw =
     (if fst rw = GNOME_VFS_ERROR_GENERIC
      then (case se_uri_exists E uri (snd rw) of (there, w1) \<Rightarrow> (if there then GNOME_VFS_ERROR_FILE_EXISTS else fst rw, w1))
      else rw)"

definition sftp_do_make_directory ::
    "'k sftp_env \<Rightarrow> GnomeVFSURI \<Rightarrow> guint \<Rightarrow> 'k sftp_world \<Rightarrow> (GnomeVFSResult \<times> 'k sftp_world) option" where
  "sftp_do_make_directory E uri perm w =
     map_option (exists_if_generic E uri)
       (simple_request E uri
          (\<lambda>msg_id fd. iobuf_send_string_request_with_file_info (se_posix E) fd msg_id SSH2_FXP_MKDIR (URI_TO_PATH uri) zero_info 0) w)"

definition sftp_do_remove_directory :: "'k sftp_env \<Rightarrow> GnomeVFSURI \<Rightarrow> 'k sftp_world \<Rightarrow> (GnomeVFSResult \<times> 'k sftp_world) option" where
  "sftp_do_remove_directory E uri w =
     simple_request E uri (\<lambda>msg_id fd. iobuf_send_string_request (se_posix E) fd msg_id SSH2_FXP_RMDIR (URI_TO_PATH uri)) w"

definition sftp_do_unlink :: "'k sftp_env \<Rightarrow> GnomeVFSURI \<Rightarrow> 'k sftp_world \<Rightarrow> (GnomeVFSResult \<times> 'k sftp_world) option" where
  "sftp_do_unlink E uri w =
     simple_request E uri (\<lambda>msg_id fd. iobuf_send_string_request (se_posix E) fd msg_id SSH2_FXP_REMOVE (URI_TO_PATH uri)) w"

text \<open>The result, and what is stored in \<^verbatim>\<open>*same_fs_return\<close>. A user that is not named counts as the empty name.\<close>

definition sftp_do_check_same_fs :: "GnomeVFSURI \<Rightarrow> GnomeVFSURI \<Rightarrow> GnomeVFSResult \<times> bool option" where
  "sftp_do_check_same_fs a b =
     (case (gnome_vfs_uri_get_host_name a, gnome_vfs_uri_get_host_name b) of
        (Some x, Some y) \<Rightarrow>
          (GNOME_VFS_OK,
           Some (x = y \<and> case_option [] (\<lambda>s. s) (gnome_vfs_uri_get_user_name a) = case_option [] (\<lambda>s. s) (gnome_vfs_uri_get_user_name b)))
      | _ \<Rightarrow> (GNOME_VFS_ERROR_INVALID_URI, None))"

definition on_same_fs :: "GnomeVFSURI \<Rightarrow> GnomeVFSURI \<Rightarrow> bool" where
  "on_same_fs a b = (snd (sftp_do_check_same_fs a b) = Some True)"

definition two_names_message :: "char \<Rightarrow> guint \<Rightarrow> string \<Rightarrow> string \<Rightarrow> SftpBuffer" where
  "two_names_message t msg_id a b = buffer_write_string (buffer_write_string (start_message t msg_id) a) b"

text \<open>Both requests of a move that replaces have the same identifier.\<close>

definition sftp_do_move ::
    "'k sftp_env \<Rightarrow> GnomeVFSURI \<Rightarrow> GnomeVFSURI \<Rightarrow> bool \<Rightarrow> 'k sftp_world \<Rightarrow> (GnomeVFSResult \<times> 'k sftp_world) option" where
  "sftp_do_move E old_uri new_uri force_replace w =
     (if \<not> on_same_fs old_uri new_uri then Some (GNOME_VFS_ERROR_NOT_SAME_FILE_SYSTEM, w)
      else do {
        (res, c, w1) \<leftarrow> sftp_get_connection E old_uri w;
        if res \<noteq> GNOME_VFS_OK then Some (res, w1)
        else do {
          (msg_id, w2) \<leftarrow> sftp_connection_get_id c w1;
          conn \<leftarrow> sw_connections w2 c;
          (removed, w3) \<leftarrow>
            (if force_replace then do {
               k \<leftarrow> iobuf_send_string_request (se_posix E) (sc_out_fd conn) msg_id SSH2_FXP_REMOVE (URI_TO_PATH new_uri) (sw_kernel w2);
               read_result_over E c msg_id (w2\<lparr>sw_kernel := k\<rparr>)
             }
             else Some (GNOME_VFS_OK, w2));
          (result, w4) \<leftarrow>
            (if removed \<noteq> GNOME_VFS_OK \<and> removed \<noteq> GNOME_VFS_ERROR_NOT_FOUND then Some (removed, w3)
             else do {
               w4 \<leftarrow> send_over E c (two_names_message SSH2_FXP_RENAME msg_id (URI_TO_PATH old_uri) (URI_TO_PATH new_uri)) w3;
               read_result_over E c msg_id w4
             });
          w5 \<leftarrow> release_connection c w4;
          Some (result, w5)
        }
      })"

text \<open>
  GLib's function does not return a null pointer here. With a null pointer for the name it
  returns the directory itself.
\<close>

definition sftp_do_rename ::
    "'k sftp_env \<Rightarrow> GnomeVFSURI \<Rightarrow> string option \<Rightarrow> 'k sftp_world \<Rightarrow> (GnomeVFSResult \<times> 'k sftp_world) option" where
  "sftp_do_rename E old_uri new_name w =
     (let old_path = URI_TO_PATH old_uri;
          old_dirname = se_path_get_dirname E old_path;
          new_path = (case new_name of None \<Rightarrow> old_dirname | Some n \<Rightarrow> se_build_filename E old_dirname n)
      in simple_request E old_uri
           (\<lambda>msg_id fd k. map_option snd
              (buffer_send (se_posix E) (two_names_message SSH2_FXP_RENAME msg_id old_path new_path) fd k)) w)"

definition sftp_do_set_file_info ::
    "'k sftp_env \<Rightarrow> GnomeVFSURI \<Rightarrow> GnomeVFSFileInfo \<Rightarrow> guint \<Rightarrow> 'k sftp_world \<Rightarrow> (GnomeVFSResult \<times> 'k sftp_world) option" where
  "sftp_do_set_file_info E uri info msk w =
     (let attributes = GNOME_VFS_SET_FILE_INFO_PERMISSIONS OR GNOME_VFS_SET_FILE_INFO_OWNER OR GNOME_VFS_SET_FILE_INFO_TIME
      in if msk AND NOT (GNOME_VFS_SET_FILE_INFO_NAME OR attributes) \<noteq> 0 then Some (GNOME_VFS_ERROR_NOT_SUPPORTED, w)
         else do {
           (res, w1) \<leftarrow>
             (if flag msk attributes
              then simple_request E uri
                     (\<lambda>msg_id fd. iobuf_send_string_request_with_file_info (se_posix E) fd msg_id SSH2_FXP_SETSTAT (URI_TO_PATH uri) info msk) w
              else Some (GNOME_VFS_OK, w));
           if res = GNOME_VFS_OK \<and> flag msk GNOME_VFS_SET_FILE_INFO_NAME then sftp_do_rename E uri (fi_name info) w1
           else Some (res, w1)
         })"

text \<open>The text of the link is sent before its name, as OpenSSH's server expects.\<close>

definition sftp_do_create_symlink ::
    "'k sftp_env \<Rightarrow> GnomeVFSURI \<Rightarrow> string \<Rightarrow> 'k sftp_world \<Rightarrow> (GnomeVFSResult \<times> 'k sftp_world) option" where
  "sftp_do_create_symlink E uri target w =
     do {
       (res, c, w1) \<leftarrow> sftp_get_connection E uri w;
       if res \<noteq> GNOME_VFS_OK then Some (res, w1)
       else do {
         conn \<leftarrow> sw_connections w1 c;
         let target_uri = gnome_vfs_uri_new (se_env E) (Some target);
         if sc_version conn < 3 then do { w2 \<leftarrow> release_connection c w1; Some (GNOME_VFS_ERROR_NOT_SUPPORTED, w2) }
         else if (case target_uri of None \<Rightarrow> False | Some u \<Rightarrow> \<not> on_same_fs uri u)
         then do { w2 \<leftarrow> release_connection c w1; Some (GNOME_VFS_ERROR_NOT_SAME_FILE_SYSTEM, w2) }
         else do {
           let real_target = (case target_uri of None \<Rightarrow> target | Some u \<Rightarrow> URI_TO_PATH u);
           (msg_id, w2) \<leftarrow> sftp_connection_get_id c w1;
           w3 \<leftarrow> send_over E c (two_names_message SSH2_FXP_SYMLINK msg_id real_target (URI_TO_PATH uri)) w2;
           (result, w4) \<leftarrow> read_result_over E c msg_id w3;
           w5 \<leftarrow> release_connection c w4;
           Some (exists_if_generic E uri (result, w5))
         }
       }
     }"

end
