(* ===== verification/VFS_Sftp_Codec.thy ===== *)
theory VFS_Sftp_Codec
  imports VFS_Sftp_Ops
begin

text \<open>
  The bytes of SFTP messages: what the functions on a \<^verbatim>\<open>Buffer\<close> write is what they read. A
  buffer is seen as the queue of bytes between its two pointers (locale \<open>byte_queue\<close>, interpreted on
  the functions of \<^verbatim>\<open>sftp-method.c\<close>); numbers, blocks and file attributes are read back as they
  were written.
\<close>

unbundle bit_operations_syntax

section \<open>Numbers\<close>

lemma length_bytes_of_word32 [simp]: "length (bytes_of_word32 w) = 4"
  by (simp add: bytes_of_word32_def)

lemma bytes_of_word32_not_empty [simp]: "bytes_of_word32 w \<noteq> []"
  by (simp add: bytes_of_word32_def)

lemma length_bytes_of_word64 [simp]: "length (bytes_of_word64 w) = 8"
  by (simp add: bytes_of_word64_def)

lemma and_255: "x AND 255 = take_bit 8 x" for x :: "'a::len word"
  by (simp add: take_bit_eq_mask mask_numeral)

lemma byte_of_byte:
  "of_nat (of_char (char_of (unat (w AND 255)))) = take_bit 8 w" for w :: "'a::len word"
proof -
  have "unat (take_bit 8 w) = take_bit 8 (unat w)"
    by (rule unsigned_take_bit_eq)
  then have "unat (take_bit 8 w) mod 256 = unat (take_bit 8 w)"
    by (simp add: take_bit_eq_mod [of 8 "unat w"])
  then show ?thesis
    by (simp add: and_255)
qed

lemma add_byte: "push_bit 8 (drop_bit (n + 8) w) OR take_bit 8 (drop_bit n w) = drop_bit n w" for w :: "'a::len word"
  by (rule bit_word_eqI) (auto simp: bit_simps add.commute)

lemma add_bytes:
  "push_bit 8 (drop_bit (Suc i * 8) w) OR of_nat (of_char (char_of (unat (drop_bit (8 * i) w AND 255)))) = drop_bit (i * 8) w"
  for w :: "'a::len word"
  unfolding byte_of_byte using add_byte [of "i * 8" w] by (simp add: ac_simps)

text \<open>Bytes of the higher places first: a fold over them rebuilds the number.\<close>

lemma fold_bytes:
  "fold (\<lambda>c v. push_bit 8 v OR of_nat (of_char c))
     (map (\<lambda>i. char_of (unat (drop_bit (8 * i) w AND 255))) (rev [0..<n])) (drop_bit (n * 8) w) = w"
  for w :: "'a::len word"
proof (induction n)
  case (Suc n)
  then show ?case using add_bytes [of n w] by simp
qed simp

lemma word32_bytes [simp]: "word32_of_bytes (bytes_of_word32 w) = w"
proof -
  have "drop_bit (4 * 8) w = 0" by (rule bit_word_eqI) (simp add: bit_simps)
  moreover have "rev [0..<4] = [3, 2, 1, 0]" by (simp add: upt_rec)
  ultimately show ?thesis
    using fold_bytes [of w 4] unfolding word32_of_bytes_def bytes_of_word32_def by (simp only:)
qed

lemma word64_bytes [simp]: "word64_of_bytes (bytes_of_word64 w) = w"
proof -
  have "drop_bit (8 * 8) w = 0" by (rule bit_word_eqI) (simp add: bit_simps)
  moreover have "rev [0..<8] = [7, 6, 5, 4, 3, 2, 1, 0]" by (simp add: upt_rec)
  ultimately show ?thesis
    using fold_bytes [of w 8] unfolding word64_of_bytes_def bytes_of_word64_def by (simp only:)
qed

section \<open>A buffer is a queue of bytes\<close>

text \<open>The bytes between the two pointers, and that the pointers are in order.\<close>

definition contents :: "SftpBuffer \<Rightarrow> string" where
  "contents b = take (buf_write_ptr b - buf_read_ptr b) (drop (buf_read_ptr b) (buf_base b))"

definition buffer_ok :: "SftpBuffer \<Rightarrow> bool" where
  "buffer_ok b \<longleftrightarrow> 4 \<le> buf_read_ptr b \<and> buf_read_ptr b \<le> buf_write_ptr b \<and> buf_write_ptr b \<le> buf_alloc b"

lemma grow_alloc_enough: "0 < alloc \<Longrightarrow> need \<le> grow_alloc need alloc \<and> alloc \<le> grow_alloc need alloc"
  by (induction need alloc rule: grow_alloc.induct) (subst grow_alloc.simps, auto)+

lemma buffer_init_ok [simp]: "buffer_ok buffer_init" "contents buffer_init = []"
  by (simp_all add: buffer_ok_def contents_def buffer_init_def buf_alloc_def INIT_BUFFER_ALLOC_def)

lemma buffer_clear_ok: "buffer_ok b \<Longrightarrow> buffer_ok (buffer_clear b) \<and> contents (buffer_clear b) = []"
  by (simp add: buffer_ok_def contents_def buffer_clear_def buf_alloc_def)

lemma buffer_check_alloc_ok:
  assumes "buffer_ok b"
  shows "buffer_ok (buffer_check_alloc b n)" "contents (buffer_check_alloc b n) = contents b"
    "buf_write_ptr (buffer_check_alloc b n) + n \<le> buf_alloc (buffer_check_alloc b n)"
    "buf_write_ptr (buffer_check_alloc b n) = buf_write_ptr b" "buf_read_ptr (buffer_check_alloc b n) = buf_read_ptr b"
proof -
  have "buf_write_ptr b + n \<le> grow_alloc (buf_write_ptr b + n) (buf_alloc b) \<and> buf_alloc b \<le> grow_alloc (buf_write_ptr b + n) (buf_alloc b)"
    using assms by (intro grow_alloc_enough) (simp add: buffer_ok_def)
  then show "buf_write_ptr (buffer_check_alloc b n) + n \<le> buf_alloc (buffer_check_alloc b n)"
    by (simp add: buffer_check_alloc_def buf_alloc_def)
qed (use assms in \<open>auto simp: buffer_check_alloc_def buffer_ok_def contents_def buf_alloc_def\<close>)

text \<open>Bytes stored behind those that are there.\<close>

lemma append_at_write_ptr:
  assumes "buffer_ok b" and "buf_write_ptr b + length s \<le> buf_alloc b"
  defines "b' \<equiv> b\<lparr>buf_base := take (buf_write_ptr b) (buf_base b) @ s @ drop (buf_write_ptr b + length s) (buf_base b),
                   buf_write_ptr := buf_write_ptr b + length s\<rparr>"
  shows "buffer_ok b'" "contents b' = contents b @ s" "buf_read_ptr b' = buf_read_ptr b"
proof -
  show "buffer_ok b'" "buf_read_ptr b' = buf_read_ptr b"
    using assms(1,2) by (auto simp: b'_def buffer_ok_def buf_alloc_def)
  show "contents b' = contents b @ s"
    using assms(1,2) by (simp add: b'_def buffer_ok_def buf_alloc_def contents_def drop_take)
qed

lemma buffer_write_ok:
  assumes "buffer_ok b"
  shows "buffer_ok (buffer_write b s)" "contents (buffer_write b s) = contents b @ s"
    "buf_read_ptr (buffer_write b s) = buf_read_ptr b"
  using append_at_write_ptr [OF buffer_check_alloc_ok(1) [OF assms], of "length s" s] buffer_check_alloc_ok [OF assms, of "length s"]
  by (simp_all add: buffer_write_def Let_def)

text \<open>What was written comes back, in order.\<close>

lemma buffer_read_ok:
  assumes "buffer_ok b" and "contents b = s @ t"
  shows "fst (buffer_read b (length s)) = s" "buffer_ok (snd (buffer_read b (length s)))" "contents (snd (buffer_read b (length s))) = t"
proof -
  have len: "length s + length t = buf_write_ptr b - buf_read_ptr b"
    using arg_cong [OF assms(2), of length] assms(1) by (simp add: contents_def buffer_ok_def buf_alloc_def min_absorb2 diff_le_mono)
  then have m: "min (length s) (buf_write_ptr b - buf_read_ptr b) = length s" by simp
  have "take (length s) (contents b) = s" "drop (length s) (contents b) = t" using assms(2) by simp_all
  then show "fst (buffer_read b (length s)) = s" "contents (snd (buffer_read b (length s))) = t"
    using len by (simp_all add: buffer_read_def m contents_def drop_take min_def add.commute)
  show "buffer_ok (snd (buffer_read b (length s)))"
    using assms(1) len by (auto simp: buffer_read_def m buffer_ok_def buf_alloc_def Let_def)
qed

section \<open>Reading what was written\<close>

text \<open>
  The interface of a queue of bytes, and what every reader of a field of fixed width relies on.
\<close>

locale byte_queue =
  fixes inv :: "'q \<Rightarrow> bool" and bytes :: "'q \<Rightarrow> string"
    and put :: "'q \<Rightarrow> string \<Rightarrow> 'q" and get :: "'q \<Rightarrow> nat \<Rightarrow> string \<times> 'q"
  assumes inv_put: "inv b \<Longrightarrow> inv (put b s)"
    and bytes_put: "inv b \<Longrightarrow> bytes (put b s) = bytes b @ s"
    and fst_get: "inv b \<Longrightarrow> bytes b = s @ t \<Longrightarrow> fst (get b (length s)) = s"
    and inv_get: "inv b \<Longrightarrow> bytes b = s @ t \<Longrightarrow> inv (snd (get b (length s)))"
    and bytes_get: "inv b \<Longrightarrow> bytes b = s @ t \<Longrightarrow> bytes (snd (get b (length s))) = t"
begin

text \<open>A reader takes exactly \<open>s\<close> from the queue and makes \<open>x\<close> of it.\<close>

definition reads :: "('q \<Rightarrow> ('a \<times> 'q) option) \<Rightarrow> 'a \<Rightarrow> string \<Rightarrow> bool" where
  "reads f x s \<longleftrightarrow> (\<forall>b t. inv b \<longrightarrow> bytes b = s @ t \<longrightarrow> (\<exists>b'. f b = Some (x, b') \<and> inv b' \<and> bytes b' = t))"

lemma readsD: "reads f x s \<Longrightarrow> inv b \<Longrightarrow> bytes b = s @ t \<Longrightarrow> \<exists>b'. f b = Some (x, b') \<and> inv b' \<and> bytes b' = t"
  by (simp add: reads_def)

lemma reads_field:
  assumes "length s = n" and "dec s = x"
  shows "reads (\<lambda>b. case get b n of (r, b') \<Rightarrow> if length r < n then None else Some (dec r, b')) x s"
  unfolding reads_def using assms fst_get inv_get bytes_get
  by (force simp: split_def)

lemma reads_bind:
  assumes "reads f x s" and "reads (g x) y t"
  shows "reads (\<lambda>b. do { (v, b') \<leftarrow> f b; g v b' }) y (s @ t)"
  unfolding reads_def
proof (intro allI impI)
  fix b u assume "inv b" "bytes b = (s @ t) @ u"
  then obtain b' where "f b = Some (x, b')" "inv b'" "bytes b' = t @ u"
    using readsD [OF assms(1), of b "t @ u"] by auto
  then show "\<exists>b'. (do { (v, b') \<leftarrow> f b; g v b' }) = Some (y, b') \<and> inv b' \<and> bytes b' = u"
    using readsD [OF assms(2), of b' u] by auto
qed

lemma reads_value: "reads (\<lambda>b. Some (x, b)) x []"
  by (simp add: reads_def)

end

interpretation message: byte_queue buffer_ok contents buffer_write buffer_read
  by unfold_locales (simp_all add: buffer_write_ok buffer_read_ok)

lemma reads_gchar: "message.reads buffer_read_gchar c [c]"
  unfolding buffer_read_gchar_def by (rule message.reads_field) auto

lemma reads_gint32: "message.reads buffer_read_gint32 w (bytes_of_word32 w)"
  unfolding buffer_read_gint32_def by (rule message.reads_field) auto

lemma reads_gint64: "message.reads buffer_read_gint64 w (bytes_of_word64 w)"
  unfolding buffer_read_gint64_def by (rule message.reads_field) auto

lemma reads_header: "message.reads (\<lambda>b. map_option (\<lambda>(t, i, b). ((t, i), b)) (read_header b)) (t, i) (t # bytes_of_word32 i)"
proof -
  have "message.reads (\<lambda>b. do { (t, b) \<leftarrow> buffer_read_gchar b; (i, b) \<leftarrow> buffer_read_gint32 b; Some ((t, i), b) }) (t, i) ([t] @ bytes_of_word32 i @ [])"
    by (rule message.reads_bind [OF reads_gchar message.reads_bind [OF reads_gint32 message.reads_value]])
  moreover have "(\<lambda>b. do { (t, b) \<leftarrow> buffer_read_gchar b; (i, b) \<leftarrow> buffer_read_gint32 b; Some ((t, i), b) })
                 = (\<lambda>b. map_option (\<lambda>(t, i, b). ((t, i), b)) (read_header b))"
    by (rule ext) (simp add: read_header_def split: Option.bind_split prod.split)
  ultimately show ?thesis by simp
qed

lemma reads_block:
  assumes "length s < 2 ^ 31"
  shows "message.reads buffer_read_block s (bytes_of_word32 (of_nat (length s)) @ s)"
proof -
  let ?g = "\<lambda>(w :: 32 word) b. let (r, b') = buffer_read b (unat w)
              in if sint w < 0 \<or> length r < unat w then None else Some (r, b')"
  have n: "unat (of_nat (length s) :: 32 word) = length s"
    using assms by (simp add: unat_of_nat take_bit_nat_eq_self)
  have "sint (of_nat (length s) :: 32 word) = int (length s)"
    using assms by (simp add: signed_of_nat signed_take_bit_int_eq_self)
  then have "message.reads (?g (of_nat (length s))) s s"
    using message.reads_field [of s "length s" "\<lambda>x. x" s] by (simp add: n Let_def)
  from message.reads_bind [where g = ?g, OF reads_gint32 this]
  show ?thesis by (simp add: buffer_read_block_def [abs_def])
qed

lemma reads_string:
  assumes "length s < 2 ^ 31" and "CHR 0x00 \<notin> set s"
  shows "message.reads buffer_read_string s (bytes_of_word32 (of_nat (length s)) @ s)"
proof -
  have "takeWhile (\<lambda>c. c \<noteq> CHR 0x00) s = s" using assms(2) by (simp add: takeWhile_eq_all_conv) metis
  then have "message.reads (\<lambda>b. Some (takeWhile (\<lambda>c. c \<noteq> CHR 0x00) s, b)) s []" by (simp only: message.reads_value)
  from message.reads_bind [where g = "\<lambda>s b. Some (takeWhile (\<lambda>c. c \<noteq> CHR 0x00) s, b)", OF reads_block [OF assms(1)] this]
  show ?thesis by (simp add: buffer_read_string_def [abs_def])
qed

text \<open>The writers put their fields behind what is there.\<close>

lemmas write_defs = buffer_write_gchar_def buffer_write_gint32_def buffer_write_gint64_def buffer_write_block_def buffer_write_string_def

lemma written [simp]:
  assumes "buffer_ok b"
  shows "contents (buffer_write_gchar b c) = contents b @ [c]"
    "contents (buffer_write_gint32 b w) = contents b @ bytes_of_word32 w"
    "contents (buffer_write_gint64 b v) = contents b @ bytes_of_word64 v"
    "contents (buffer_write_block b s) = contents b @ bytes_of_word32 (of_nat (length s)) @ s"
    "contents (buffer_write_string b s) = contents b @ bytes_of_word32 (of_nat (length s)) @ s"
  using assms by (simp_all add: write_defs buffer_write_ok)

lemma written_ok [simp]:
  assumes "buffer_ok b"
  shows "buffer_ok (buffer_write_gchar b c)" "buffer_ok (buffer_write_gint32 b w)" "buffer_ok (buffer_write_gint64 b v)"
    "buffer_ok (buffer_write_block b s)" "buffer_ok (buffer_write_string b s)"
    "buf_read_ptr (buffer_write_gchar b c) = buf_read_ptr b" "buf_read_ptr (buffer_write_gint32 b w) = buf_read_ptr b"
    "buf_read_ptr (buffer_write_gint64 b v) = buf_read_ptr b" "buf_read_ptr (buffer_write_block b s) = buf_read_ptr b"
    "buf_read_ptr (buffer_write_string b s) = buf_read_ptr b"
  using assms by (simp_all add: write_defs buffer_write_ok)

section \<open>File informations\<close>

text \<open>What the other side reads of a file information: the attributes that the mask names.\<close>

definition carried :: "GnomeVFSFileInfo \<Rightarrow> guint \<Rightarrow> GnomeVFSFileInfo \<Rightarrow> GnomeVFSFileInfo" where
  "carried info msk old =
     (let p = flag msk GNOME_VFS_SET_FILE_INFO_PERMISSIONS; t = flag msk GNOME_VFS_SET_FILE_INFO_TIME
      in old\<lparr>valid_fields := (if p then GNOME_VFS_FILE_INFO_FIELDS_PERMISSIONS OR GNOME_VFS_FILE_INFO_FIELDS_TYPE OR GNOME_VFS_FILE_INFO_FIELDS_FLAGS else 0)
               OR (if t then GNOME_VFS_FILE_INFO_FIELDS_ATIME OR GNOME_VFS_FILE_INFO_FIELDS_MTIME else 0)
               OR GNOME_VFS_FILE_INFO_FIELDS_IO_BLOCK_SIZE,
             permissions := (if p then permissions info AND 511 else permissions old),
             file_type := (if p then GNOME_VFS_FILE_TYPE_UNKNOWN else file_type old),
             fi_flags := (if p then 0 else fi_flags old),
             atime := (if t then atime info else atime old), mtime := (if t then mtime info else mtime old),
             io_block_size := 262144\<rparr>)"

lemma type_of_permissions: "sftp_type_of_mode (m AND 511) = GNOME_VFS_FILE_TYPE_UNKNOWN"
proof -
  have "(m AND 511) AND S_IFMT = 0"
    by (simp add: S_IFMT_def and.assoc)
  then show ?thesis
    by (simp add: sftp_type_of_mode_def S_ISREG_def S_ISDIR_def S_ISFIFO_def S_ISSOCK_def S_ISCHR_def S_ISBLK_def S_ISLNK_def)
qed

lemma sint_of_int_32: "- (2 ^ 31) \<le> x \<Longrightarrow> x < 2 ^ 31 \<Longrightarrow> sint (of_int x :: 32 word) = x"
  by (simp add: signed_of_int signed_take_bit_int_eq_self)

lemma skips_attr:
  "\<not> flag flags SSH2_FILEXFER_ATTR_SIZE \<Longrightarrow> read_attr_size flags ib = Some ib"
  "\<not> flag flags SSH2_FILEXFER_ATTR_UIDGID \<Longrightarrow> read_attr_ids flags ib = Some ib"
  "\<not> flag flags SSH2_FILEXFER_ATTR_PERMISSIONS \<Longrightarrow> read_attr_permissions flags ib = Some ib"
  "\<not> flag flags SSH2_FILEXFER_ATTR_ACMODTIME \<Longrightarrow> read_attr_times flags ib = Some ib"
  by (simp_all add: read_attr_size_def read_attr_ids_def read_attr_permissions_def read_attr_times_def)

lemma reads_attr_permissions:
  assumes "flag flags SSH2_FILEXFER_ATTR_PERMISSIONS" and "buffer_ok b" and "contents b = bytes_of_word32 (m AND 511) @ t"
  shows "\<exists>b'. read_attr_permissions flags (info, b) =
           Some (info\<lparr>valid_fields := valid_fields info OR GNOME_VFS_FILE_INFO_FIELDS_PERMISSIONS
                        OR GNOME_VFS_FILE_INFO_FIELDS_TYPE OR GNOME_VFS_FILE_INFO_FIELDS_FLAGS,
                      permissions := m AND 511, file_type := GNOME_VFS_FILE_TYPE_UNKNOWN, fi_flags := 0\<rparr>, b')
         \<and> buffer_ok b' \<and> contents b' = t"
  using message.readsD [OF reads_gint32 assms(2,3)] assms(1)
  by (auto simp: read_attr_permissions_def type_of_permissions)

lemma reads_attr_times:
  assumes "flag flags SSH2_FILEXFER_ATTR_ACMODTIME" and "buffer_ok b"
    and "contents b = bytes_of_word32 x @ bytes_of_word32 y @ t"
  shows "\<exists>b'. read_attr_times flags (info, b) =
           Some (info\<lparr>valid_fields := valid_fields info OR GNOME_VFS_FILE_INFO_FIELDS_ATIME OR GNOME_VFS_FILE_INFO_FIELDS_MTIME,
                      atime := sint x, mtime := sint y\<rparr>, b')
         \<and> buffer_ok b' \<and> contents b' = t"
proof -
  obtain b1 where b1: "buffer_read_gint32 b = Some (x, b1)" "buffer_ok b1" "contents b1 = bytes_of_word32 y @ t"
    using message.readsD [OF reads_gint32 assms(2,3)] by auto
  then show ?thesis
    using message.readsD [OF reads_gint32 b1(2,3)] assms(1) by (auto simp: read_attr_times_def)
qed

text \<open>The flags that the writer stores, tested one by one.\<close>

definition attr_flags :: "bool \<Rightarrow> bool \<Rightarrow> guint" where
  "attr_flags p t = (if p then SSH2_FILEXFER_ATTR_PERMISSIONS else 0) OR (if t then SSH2_FILEXFER_ATTR_ACMODTIME else 0)"

lemma flag_attr_flags [simp]:
  "flag (attr_flags p t) SSH2_FILEXFER_ATTR_SIZE = False" "flag (attr_flags p t) SSH2_FILEXFER_ATTR_UIDGID = False"
  "flag (attr_flags p t) SSH2_FILEXFER_ATTR_PERMISSIONS = p" "flag (attr_flags p t) SSH2_FILEXFER_ATTR_ACMODTIME = t"
  by (simp_all add: flag_def attr_flags_def SSH2_FILEXFER_ATTR_SIZE_def SSH2_FILEXFER_ATTR_UIDGID_def
      SSH2_FILEXFER_ATTR_PERMISSIONS_def SSH2_FILEXFER_ATTR_ACMODTIME_def)

definition attr_bytes :: "GnomeVFSFileInfo \<Rightarrow> guint \<Rightarrow> string" where
  "attr_bytes info msk =
     (let p = flag msk GNOME_VFS_SET_FILE_INFO_PERMISSIONS; t = flag msk GNOME_VFS_SET_FILE_INFO_TIME
      in bytes_of_word32 (attr_flags p t) @ (if p then bytes_of_word32 (permissions info AND 511) else [])
         @ (if t then bytes_of_word32 (of_int (atime info)) @ bytes_of_word32 (of_int (mtime info)) else []))"

lemma written_file_info:
  assumes "buffer_ok b"
  shows "buffer_ok (buffer_write_file_info b info msk) \<and> contents (buffer_write_file_info b info msk) = contents b @ attr_bytes info msk
         \<and> buf_read_ptr (buffer_write_file_info b info msk) = buf_read_ptr b"
  using assms unfolding buffer_write_file_info_def attr_bytes_def attr_flags_def [symmetric] by (simp add: Let_def)

lemma reads_file_info:
  assumes "- (2 ^ 31) \<le> atime info" "atime info < 2 ^ 31" "- (2 ^ 31) \<le> mtime info" "mtime info < 2 ^ 31"
    and b: "buffer_ok b" "contents b = attr_bytes info msk @ t"
  shows "\<exists>b'. buffer_read_file_info b old = Some (carried info msk old, b') \<and> buffer_ok b' \<and> contents b' = t"
proof -
  define p s where "p = flag msk GNOME_VFS_SET_FILE_INFO_PERMISSIONS" and "s = flag msk GNOME_VFS_SET_FILE_INFO_TIME"
  let ?rest = "if s then bytes_of_word32 (of_int (atime info)) @ bytes_of_word32 (of_int (mtime info)) @ t else t"
  obtain b1 where b1: "buffer_read_gint32 b = Some (attr_flags p s, b1)" "buffer_ok b1"
    "contents b1 = (if p then bytes_of_word32 (permissions info AND 511) @ ?rest else ?rest)"
    using message.readsD [OF reads_gint32 b(1)] b(2) by (fastforce simp: attr_bytes_def p_def s_def Let_def)
  let ?i0 = "old\<lparr>valid_fields := GNOME_VFS_FILE_INFO_FIELDS_NONE\<rparr>"
  let ?i1 = "if p then ?i0\<lparr>valid_fields := valid_fields ?i0 OR GNOME_VFS_FILE_INFO_FIELDS_PERMISSIONS
                        OR GNOME_VFS_FILE_INFO_FIELDS_TYPE OR GNOME_VFS_FILE_INFO_FIELDS_FLAGS,
                      permissions := permissions info AND 511, file_type := GNOME_VFS_FILE_TYPE_UNKNOWN, fi_flags := 0\<rparr> else ?i0"
  obtain b2 where b2: "read_attr_permissions (attr_flags p s) (?i0, b1) = Some (?i1, b2)" "buffer_ok b2" "contents b2 = ?rest"
    using reads_attr_permissions [of "attr_flags p s" b1 "permissions info" ?rest ?i0] skips_attr(3) [of "attr_flags p s"] b1(2,3)
    by (cases p) auto
  obtain b3 where b3: "read_attr_times (attr_flags p s) (?i1, b2) =
      Some (if s then ?i1\<lparr>valid_fields := valid_fields ?i1 OR GNOME_VFS_FILE_INFO_FIELDS_ATIME OR GNOME_VFS_FILE_INFO_FIELDS_MTIME,
                      atime := atime info, mtime := mtime info\<rparr> else ?i1, b3)" "buffer_ok b3" "contents b3 = t"
    using reads_attr_times [of "attr_flags p s" b2 "of_int (atime info)" "of_int (mtime info)" t ?i1]
      skips_attr(4) [of "attr_flags p s"] b2(2,3) assms(1-4)
    by (cases s) (auto simp: sint_of_int_32)
  show ?thesis
    using b1 b2 b3 by (cases p; cases s) (simp_all add: buffer_read_file_info_def skips_attr carried_def p_def [symmetric] s_def [symmetric]
        Let_def or.assoc GNOME_VFS_FILE_INFO_FIELDS_NONE_def default_req_len_def max_req_def)
qed

section \<open>The round trip of file attributes\<close>

text \<open>
  C14. Attributes survive the wire, and nothing else changes but what \<open>carried\<close> spells out. Let
  both times fit in 32 signed bits, and let a message be what \<^verbatim>\<open>buffer_write_file_info\<close> appends to
  an empty one for a set of attributes. \<^verbatim>\<open>buffer_read_file_info\<close> reads it to the last byte. If the
  permissions were sent, they come back cut to the nine mode bits, and since the type bits are
  cut off too, the reader's file type becomes unknown and its flags zero; if the times were
  sent, the access and modification times come back as they were. Whatever was sent, the
  block size becomes 256 KB. \<^verbatim>\<open>valid_fields\<close> names exactly the fields set in this way, the type and
  flags included, and forgets what was valid before; every other field, and each attribute
  that was not sent, keeps the reader's old value.
\<close>

theorem sftp_file_info_roundtrip:
  assumes "- (2 ^ 31) \<le> atime info" "atime info < 2 ^ 31" "- (2 ^ 31) \<le> mtime info" "mtime info < 2 ^ 31"
  shows "\<exists>b. buffer_read_file_info (buffer_write_file_info buffer_init info msk) old = Some (carried info msk old, b)
             \<and> buffer_ok b \<and> contents b = []"
  using reads_file_info [OF assms, of "buffer_write_file_info buffer_init info msk" msk "[]" old]
    written_file_info [of buffer_init info msk] by simp

theorem sftp_file_info_roundtrip_witness:
  "let info = gnome_vfs_file_info_new\<lparr>permissions := 420, atime := - 5, mtime := 1000000000\<rparr>
   in \<exists>b. buffer_read_file_info (buffer_write_file_info buffer_init info
             (GNOME_VFS_SET_FILE_INFO_PERMISSIONS OR GNOME_VFS_SET_FILE_INFO_TIME)) gnome_vfs_file_info_new
           = Some (carried info (GNOME_VFS_SET_FILE_INFO_PERMISSIONS OR GNOME_VFS_SET_FILE_INFO_TIME) gnome_vfs_file_info_new, b)
          \<and> buffer_ok b \<and> contents b = []"
  unfolding Let_def by (rule sftp_file_info_roundtrip) simp_all

end
