(* ===== verification/VFS_Sftp_Ring.thy ===== *)
theory VFS_Sftp_Ring
  imports VFS_Sftp_Codec
begin

text \<open>
  The request ring of \<^verbatim>\<open>do_read\<close> and \<^verbatim>\<open>do_write\<close>, an array of nine places with a service pointer and a
  request pointer, seen as a finite map from identifiers to requests.
\<close>

section \<open>The ring\<close>

lemma queue_len_9: "queue_len = 9"
  by (simp add: queue_len_def max_req_def)

definition room :: "nat \<Rightarrow> nat \<Rightarrow> nat" where
  "room svc ptr = (ptr + queue_len - svc) mod queue_len"

lemma ring_room: "ring svc ptr = map (\<lambda>i. (svc + i) mod queue_len) [0..<room svc ptr]"
  by (simp add: ring_def room_def)

lemma ring_empty: "svc < queue_len \<Longrightarrow> ring svc svc = []"
  by (simp add: ring_def)

lemma room_eq:
  assumes "svc < queue_len" "ptr < queue_len"
  shows "room svc ptr = (if svc \<le> ptr then ptr - svc else ptr + queue_len - svc)"
proof (cases "svc \<le> ptr")
  case True
  then have "ptr + queue_len - svc = (ptr - svc) + queue_len" by simp
  then have "room svc ptr = (ptr - svc) mod queue_len" by (simp only: room_def mod_add_self2)
  then show ?thesis using True assms by simp
qed (use assms in \<open>simp add: room_def\<close>)

lemma mod_once: "x < 2 * queue_len \<Longrightarrow> x mod queue_len = (if x < queue_len then x else x - queue_len)"
  by (simp add: le_mod_geq)

lemma room_less: "room svc ptr < queue_len"
  by (simp add: room_def queue_len_9)

lemma room_add:
  assumes "svc < queue_len" "ptr < queue_len" "(ptr + 1) mod queue_len \<noteq> svc"
  shows "room svc ((ptr + 1) mod queue_len) = Suc (room svc ptr)" "(svc + room svc ptr) mod queue_len = ptr"
  using assms by (auto simp: room_eq mod_once split: if_splits)

lemma ring_add:
  assumes "svc < queue_len" "ptr < queue_len" "(ptr + 1) mod queue_len \<noteq> svc"
  shows "ring svc ((ptr + 1) mod queue_len) = ring svc ptr @ [ptr]"
  by (simp only: ring_room room_add(1) [OF assms]) (simp add: room_add(2) [OF assms])

lemma ring_less: "i \<in> set (ring svc ptr) \<Longrightarrow> i < queue_len"
  by (auto simp: ring_def queue_len_9)

lemma ring_distinct: "distinct (ring svc ptr)"
proof -
  have "inj_on (\<lambda>i. (svc + i) mod queue_len) {0..<room svc ptr}"
  proof (rule inj_onI)
    fix x y assume "x \<in> {0..<room svc ptr}" "y \<in> {0..<room svc ptr}" and eq: "(svc + x) mod queue_len = (svc + y) mod queue_len"
    then have "x < 9" "y < 9" using room_less [of svc ptr] by (auto simp: queue_len_9)
    moreover have "x mod 9 = y mod 9"
      using eq unfolding queue_len_9 by (simp add: mod_add_cong mod_eq_dvd_iff_nat nat_mod_eq_iff)
    ultimately show "x = y" by simp
  qed
  then show ?thesis by (simp add: ring_room distinct_map)
qed

text \<open>The tail moves up to one of the places.\<close>

lemma room_shift:
  assumes "svc < queue_len" "ptr < queue_len" "n < room svc ptr"
  shows "room ((svc + n) mod queue_len) ptr = room svc ptr - n"
  using assms by (auto simp: room_eq mod_once split: if_splits)

lemma ring_suffix:
  assumes "svc < queue_len" "ptr < queue_len" "ring svc ptr = xs @ i # ys"
  shows "ring i ptr = i # ys"
proof -
  let ?n = "length xs"
  have n: "?n < room svc ptr" using arg_cong [OF assms(3), of length] by (simp add: ring_room)
  have i: "i = (svc + ?n) mod queue_len"
    using arg_cong [OF assms(3), of "\<lambda>l. l ! ?n"] n by (simp add: ring_room)
  have "i # ys = drop ?n (ring svc ptr)" using assms(3) by simp
  also have "\<dots> = map (\<lambda>j. (svc + j) mod queue_len) [?n..<room svc ptr]"
    by (simp add: ring_room drop_map)
  also have "\<dots> = map (\<lambda>j. (svc + (j + ?n)) mod queue_len) [0..<room svc ptr - ?n]"
    using n by (intro nth_equalityI) (simp_all add: ac_simps)
  also have "\<dots> = ring i ptr"
    using room_shift [OF assms(1,2) n] by (simp add: ring_room i mod_simps ac_simps)
  finally show ?thesis by simp
qed

section \<open>The ring as a map from identifiers\<close>

text \<open>
  The places of the ring whose request is not finished, and the map that they represent: from the
  identifier of a place to what is stored there. Identifier 0 marks a finished place.
\<close>

definition active :: "(nat \<Rightarrow> guint) \<Rightarrow> nat \<Rightarrow> nat \<Rightarrow> nat set" where
  "active ident svc ptr = {i \<in> set (ring svc ptr). ident i \<noteq> 0}"

definition represents :: "(nat \<Rightarrow> guint) \<Rightarrow> (nat \<Rightarrow> 'v) \<Rightarrow> nat \<Rightarrow> nat \<Rightarrow> (guint \<Rightarrow> 'v option) \<Rightarrow> bool" where
  "represents ident val svc ptr R \<longleftrightarrow>
     svc < queue_len \<and> ptr < queue_len \<and> inj_on ident (active ident svc ptr) \<and> dom R = ident ` active ident svc ptr
     \<and> (\<forall>i \<in> active ident svc ptr. R (ident i) = Some (val i))"

lemma represents_finite: "represents ident val svc ptr R \<Longrightarrow> finite (dom R)"
  by (simp add: represents_def active_def)

lemma represents_card: "represents ident val svc ptr R \<Longrightarrow> card (dom R) \<le> queue_len"
proof -
  assume "represents ident val svc ptr R"
  then have "card (dom R) \<le> card (set (ring svc ptr))"
    unfolding represents_def active_def by (metis (no_types, lifting) List.finite_set card_image_le card_mono finite_subset le_trans mem_Collect_eq subsetI)
  also have "\<dots> \<le> queue_len" using card_length [of "ring svc ptr"] room_less [of svc ptr] by (simp add: ring_room)
  finally show ?thesis .
qed

lemma represents_start: "represents ident val 0 0 (\<lambda>v. None)"
  by (simp add: represents_def active_def ring_empty queue_len_9)

lemma represents_add:
  assumes "represents ident val svc ptr R" and "(ptr + 1) mod queue_len \<noteq> svc" and "v \<noteq> 0" and "R v = None"
  shows "represents (ident(ptr := v)) (val(ptr := x)) svc ((ptr + 1) mod queue_len) (R(v \<mapsto> x))"
proof -
  have bounds: "svc < queue_len" "ptr < queue_len" using assms(1) by (simp_all add: represents_def)
  have new: "ptr \<notin> set (ring svc ptr)"
    using ring_distinct [of svc "(ptr + 1) mod queue_len"] ring_add [OF bounds assms(2)] by simp
  then have act: "active (ident(ptr := v)) svc ((ptr + 1) mod queue_len) = insert ptr (active ident svc ptr)" "ptr \<notin> active ident svc ptr"
    using assms(3) ring_add [OF bounds assms(2)] by (auto simp: active_def)
  have "v \<notin> ident ` active ident svc ptr" using assms(1,4) by (metis domIff represents_def)
  then show ?thesis
    using assms(1) act(2) bounds unfolding represents_def act(1)
    by (auto simp: inj_on_def queue_len_9)
qed

text \<open>The place of an identifier is found, and only that one.\<close>

lemma represents_find:
  assumes "represents ident val svc ptr R" and "R v = Some x"
  shows "\<exists>i. find (\<lambda>i. ident i = v) (ring svc ptr) = Some i \<and> i \<in> active ident svc ptr \<and> ident i = v \<and> val i = x"
proof -
  have "v \<in> ident ` active ident svc ptr" using assms by (metis domI represents_def)
  then obtain j where j: "j \<in> set (ring svc ptr)" "ident j = v" "v \<noteq> 0" by (auto simp: active_def)
  then have "find (\<lambda>i. ident i = v) (ring svc ptr) \<noteq> None"
    by (auto simp: find_None_iff)
  then obtain i where i: "find (\<lambda>i. ident i = v) (ring svc ptr) = Some i" by auto
  then have "i \<in> set (ring svc ptr)" "ident i = v"
    using find_Some_iff [of "\<lambda>i. ident i = v" "ring svc ptr" i] by (auto simp: nth_mem)
  with i j(3) assms show ?thesis by (auto simp: represents_def active_def)
qed

lemma represents_swap:
  assumes "represents ident val svc ptr R" and i: "i \<in> active ident svc ptr" and "v \<noteq> 0" and "R v = None"
  shows "represents (ident(i := v)) (val(i := x)) svc ptr (R(ident i := None, v \<mapsto> x))"
proof -
  have act: "active (ident(i := v)) svc ptr = active ident svc ptr"
    using i assms(3) by (auto simp: active_def)
  have v: "v \<notin> ident ` active ident svc ptr" using assms(1,4) by (metis domIff represents_def)
  have inj: "inj_on ident (active ident svc ptr)" using assms(1) by (simp add: represents_def)
  have "(ident(i := v)) ` active ident svc ptr = insert v (ident ` active ident svc ptr - {ident i})"
    using i inj by (auto simp: inj_on_def)
  moreover have "inj_on (ident(i := v)) (active ident svc ptr)"
    using inj v by (auto simp: inj_on_def)
  moreover have "(R(ident i := None, v \<mapsto> x)) ((ident(i := v)) j) = Some ((val(i := x)) j)" if "j \<in> active ident svc ptr" for j
  proof (cases "j = i")
    case False
    then have "ident j \<noteq> ident i" "ident j \<noteq> v" using that i inj v by (auto simp: inj_on_def)
    then show ?thesis using assms(1) that False by (simp add: represents_def)
  qed simp
  moreover have "dom (R(ident i := None, v \<mapsto> x)) = insert v (ident ` active ident svc ptr - {ident i})"
    using assms(1) by (auto simp: represents_def)
  ultimately show ?thesis
    using assms(1) unfolding represents_def act by simp
qed

lemma represents_retire:
  assumes "represents ident val svc ptr R" and i: "i \<in> active ident svc ptr"
  shows "represents (ident(i := 0)) val svc ptr (R(ident i := None))"
proof -
  have act: "active (ident(i := 0)) svc ptr = active ident svc ptr - {i}"
    by (auto simp: active_def)
  have inj: "inj_on ident (active ident svc ptr)" using assms(1) by (simp add: represents_def)
  have "(ident(i := 0)) ` (active ident svc ptr - {i}) = ident ` active ident svc ptr - {ident i}"
    using i inj by (auto simp: inj_on_def)
  then show ?thesis
    using assms(1) i inj unfolding represents_def act by (auto simp: inj_on_def)
qed

text \<open>Finished places leave at the tail; when none is active, the ring is empty.\<close>

definition tail :: "(nat \<Rightarrow> guint) \<Rightarrow> nat \<Rightarrow> nat \<Rightarrow> nat" where
  "tail ident svc ptr = (case dropWhile (\<lambda>i. ident i = 0) (ring svc ptr) of [] \<Rightarrow> ptr | i # is \<Rightarrow> i)"

lemma tail_active:
  assumes "svc < queue_len" "ptr < queue_len"
  shows "tail ident svc ptr < queue_len" "active ident (tail ident svc ptr) ptr = active ident svc ptr"
    "active ident svc ptr = {} \<Longrightarrow> tail ident svc ptr = ptr"
proof -
  let ?d = "dropWhile (\<lambda>i. ident i = 0) (ring svc ptr)"
  have split: "takeWhile (\<lambda>i. ident i = 0) (ring svc ptr) @ ?d = ring svc ptr" by simp
  have "ring (tail ident svc ptr) ptr = ?d"
  proof (cases ?d)
    case Nil
    then show ?thesis unfolding tail_def Nil using assms by (simp add: ring_empty)
  next
    case (Cons i xs)
    then show ?thesis
      using ring_suffix [OF assms, of "takeWhile (\<lambda>i. ident i = 0) (ring svc ptr)" i xs] split by (simp add: tail_def)
  qed
  moreover have "{i \<in> set ?d. ident i \<noteq> 0} = {i \<in> set (ring svc ptr). ident i \<noteq> 0}"
    by (subst (2) split [symmetric], subst set_append) (auto dest: set_takeWhileD)
  ultimately show "active ident (tail ident svc ptr) ptr = active ident svc ptr" by (simp add: active_def)
  show "tail ident svc ptr < queue_len"
  proof (cases ?d)
    case Nil
    then show ?thesis unfolding tail_def Nil using assms by simp
  next
    case (Cons i xs)
    then have "i \<in> set (ring svc ptr)" by (metis list.set_intros(1) set_dropWhileD)
    then show ?thesis unfolding tail_def Cons by (simp add: ring_less)
  qed
  show "tail ident svc ptr = ptr" if "active ident svc ptr = {}"
  proof -
    have "?d = []" using that by (auto simp: active_def dropWhile_eq_Nil_conv)
    then show ?thesis unfolding tail_def by (simp only: list.case)
  qed
qed

lemma represents_tail: "represents ident val svc ptr R \<Longrightarrow> represents ident val (tail ident svc ptr) ptr R"
  by (simp add: represents_def tail_active)

lemma represents_none: "represents ident val svc ptr R \<Longrightarrow> dom R = {} \<Longrightarrow> tail ident svc ptr = ptr"
  by (rule tail_active) (auto simp: represents_def)

end
