(* ===== verification/VFS_Sftp_Plan.thy ===== *)
theory VFS_Sftp_Plan
  imports VFS_Sftp_Codec
begin

text \<open>
  What is left to do of a read: the outstanding requests and the part not yet asked for tile the
  caller's buffer. A reply that is shorter than its request is followed by a request for the rest,
  and the tiling is kept.
\<close>

section \<open>The plan of a read\<close>

text \<open>The positions of a request in the caller's buffer.\<close>

definition span :: "nat \<times> nat \<Rightarrow> nat set" where "span r = {fst r..<fst r + snd r}"

definition spans :: "(guint \<Rightarrow> (nat \<times> nat) option) \<Rightarrow> nat set" where "spans R = (\<Union>r \<in> ran R. span r)"

lemma spans_add: "R v = None \<Longrightarrow> spans (R(v \<mapsto> r)) = spans R \<union> span r"
  by (auto simp: spans_def)

lemma ran_drop: "R v = Some r \<Longrightarrow> ran R = insert r (ran (R(v := None)))"
  by (metis fun_upd_same fun_upd_triv fun_upd_upd ran_map_upd)

lemma spans_drop: "R v = Some r \<Longrightarrow> spans R = spans (R(v := None)) \<union> span r"
  by (auto simp: spans_def ran_drop)

text \<open>How many bytes there are to read.\<close>

definition readable :: "string \<Rightarrow> nat \<Rightarrow> nat \<Rightarrow> nat" where "readable doc off n = min n (length doc - off)"

text \<open>
  What holds while a document is read from \<open>off\<close> on into a buffer that held \<open>old\<close>: \<open>R\<close> are the
  requests that are not answered (position and length, by identifier), \<open>cur\<close> the position up to which
  parts were requested, \<open>num\<close> the number of bytes that are still hoped for, \<open>D\<close> the positions that were read.
\<close>

definition plan_requests :: "(guint \<Rightarrow> (nat \<times> nat) option) \<Rightarrow> nat \<Rightarrow> nat set \<Rightarrow> bool" where
  "plan_requests R cur D \<longleftrightarrow> finite (dom R)
     \<and> (\<forall>v p l. R v = Some (p, l) \<longrightarrow> 0 < l \<and> l \<le> default_req_len \<and> p + l \<le> cur \<and> span (p, l) \<inter> D = {})
     \<and> (\<forall>v w r q. R v = Some r \<longrightarrow> R w = Some q \<longrightarrow> v \<noteq> w \<longrightarrow> span r \<inter> span q = {})"

definition plan_data :: "string \<Rightarrow> nat \<Rightarrow> string \<Rightarrow> string \<Rightarrow> nat set \<Rightarrow> bool" where
  "plan_data doc off old dest D \<longleftrightarrow> length dest = length old
     \<and> (\<forall>q < length old. dest ! q = (if q \<in> D then doc ! (off + q) else old ! q))"

definition plan :: "string \<Rightarrow> nat \<Rightarrow> nat \<Rightarrow> string \<Rightarrow> (guint \<Rightarrow> (nat \<times> nat) option) \<Rightarrow> nat \<Rightarrow> nat \<Rightarrow> nat \<Rightarrow> bool \<Rightarrow> string \<Rightarrow> nat set \<Rightarrow> bool" where
  "plan doc off N old R cur num got eof dest D \<longleftrightarrow>
     plan_requests R cur D \<and> plan_data doc off old dest D
     \<and> N \<le> length old \<and> cur \<le> N \<and> readable doc off N \<le> num \<and> num \<le> N \<and> got = card D \<and> D \<subseteq> {0..<readable doc off N} \<and> D \<subseteq> {0..<cur}
     \<and> {0..<min cur num} \<subseteq> D \<union> spans R
     \<and> (eof \<longrightarrow> readable doc off N = 0 \<and> 0 < N) \<and> (num = 0 \<longrightarrow> 0 < N \<longrightarrow> eof)"

lemma plan_requestsD:
  "plan_requests R cur D \<Longrightarrow> R v = Some (p, l) \<Longrightarrow> 0 < l \<and> l \<le> default_req_len \<and> p + l \<le> cur \<and> span (p, l) \<inter> D = {}"
  by (simp add: plan_requests_def)

lemma plan_requests_drop:
  assumes "plan_requests R cur D" and "R v = Some r" and "D' \<subseteq> D \<union> span r"
  shows "plan_requests (R(v := None)) cur D'" "span r \<inter> spans (R(v := None)) = {}"
proof -
  have others: "span q \<inter> span r = {}" if "R w = Some q" "w \<noteq> v" for w q
    using assms(1,2) that unfolding plan_requests_def by blast
  have "span r \<inter> span q = {}" if q: "q \<in> ran (R(v := None))" for q
  proof -
    from q obtain w where "R w = Some q" "w \<noteq> v" by (auto simp: ran_def split: if_splits)
    then show ?thesis using others by (simp add: Int_commute)
  qed
  then show "span r \<inter> spans (R(v := None)) = {}" by (auto simp: spans_def)
  show "plan_requests (R(v := None)) cur D'"
    unfolding plan_requests_def
  proof (intro conjI allI impI, goal_cases)
    case (2 w p l)
    then show ?case using plan_requestsD [OF assms(1), of w p l] by (simp split: if_splits)
  next
    case (3 w p l)
    then show ?case using plan_requestsD [OF assms(1), of w p l] by (simp split: if_splits)
  next
    case (4 w p l)
    then show ?case using plan_requestsD [OF assms(1), of w p l] by (simp split: if_splits)
  next
    case (5 w p l)
    then show ?case using plan_requestsD [OF assms(1), of w p l] others [of w "(p, l)"] assms(3) by (auto split: if_splits)
  next
    case (6 w u q q')
    then have "R w = Some q" "R u = Some q'" "w \<noteq> u" by (simp_all split: if_splits)
    then show ?case using assms(1) unfolding plan_requests_def by blast
  qed (use assms(1) in \<open>simp add: plan_requests_def\<close>)
qed

lemma plan_requests_add:
  assumes "plan_requests R cur D" and "R v = None" and "0 < l" "l \<le> default_req_len" "p + l \<le> cur'" "cur \<le> cur'"
    and "span (p, l) \<inter> D = {}" and new: "span (p, l) \<inter> spans R = {}"
  shows "plan_requests (R(v \<mapsto> (p, l))) cur' D"
proof -
  have old: "span (p, l) \<inter> span r = {}" if "R w = Some r" for w r
    using new that by (auto simp: spans_def ran_def)
  show ?thesis
    unfolding plan_requests_def
  proof (intro conjI allI impI, goal_cases)
    case (2 w p l)
    then show ?case using plan_requestsD [OF assms(1), of w p l] assms(3) by (simp split: if_splits)
  next
    case (3 w p l)
    then show ?case using plan_requestsD [OF assms(1), of w p l] assms(4) by (auto split: if_splits)
  next
    case (4 w p l)
    then show ?case using plan_requestsD [OF assms(1), of w p l] assms(5,6) by (simp split: if_splits)
  next
    case (5 w p l)
    then show ?case using plan_requestsD [OF assms(1), of w p l] assms(7) by (simp split: if_splits)
  next
    case (6 w u q q')
    then consider "w = v" "q = (p, l)" "R u = Some q'" | "u = v" "q' = (p, l)" "R w = Some q" | "R w = Some q" "R u = Some q'"
      by (cases "w = v"; cases "u = v") simp_all
    then show ?case
    proof cases
      case 1
      then show ?thesis using old by simp
    next
      case 2
      then show ?thesis using old [of w q] by (simp add: Int_commute)
    next
      case 3
      then show ?thesis using assms(1) \<open>w \<noteq> u\<close> unfolding plan_requests_def by blast
    qed
  qed (use assms(1) in \<open>simp add: plan_requests_def\<close>)
qed

lemma nth_splice:
  assumes "p + length s \<le> length xs" and "q < length xs"
  shows "(take p xs @ s @ drop (p + length s) xs) ! q = (if p \<le> q \<and> q < p + length s then s ! (q - p) else xs ! q)"
  using assms by (auto simp: nth_append min_def)

lemma plan_data_store:
  assumes "plan_data doc off old dest D" and "p + n \<le> length old" and "off + p + n \<le> length doc"
  shows "plan_data doc off old (take p dest @ take n (drop (off + p) doc) @ drop (p + n) dest) (D \<union> {p..<p + n})"
proof -
  define s where "s = take n (drop (off + p) doc)"
  have n: "length s = n" using assms(3) by (simp add: s_def)
  have "s ! (q - p) = doc ! (off + q)" if "p \<le> q" "q < p + n" for q
    using that assms(3) by (simp add: s_def ac_simps)
  then show ?thesis
    using assms(1,2) nth_splice [of p s dest] unfolding plan_data_def s_def [symmetric] by (simp add: n)
qed

subsection \<open>The steps of a read\<close>

lemma plan_start: "N \<le> length old \<Longrightarrow> plan doc off N old (\<lambda>v. None) 0 N 0 False old {}"
  by (simp add: plan_def plan_requests_def plan_data_def readable_def)

lemma plan_request:
  assumes plan: "plan doc off N old R cur num got eof dest D" and "cur < num" and v: "R v = None"
  defines "l \<equiv> min (num - cur) default_req_len"
  shows "plan doc off N old (R(v \<mapsto> (cur, l))) (cur + l) num got eof dest D" "0 < l" "cur + l \<le> num"
proof -
  show l: "0 < l" "cur + l \<le> num" using assms(2) by (simp_all add: l_def default_req_len_def)
  have reqs: "plan_requests R cur D" using plan by (simp add: plan_def)
  have "span (cur, l) \<inter> spans R = {}"
    using plan_requestsD [OF reqs] by (fastforce simp: spans_def ran_def span_def)
  moreover have "span (cur, l) \<inter> D = {}" using plan by (auto simp: plan_def span_def)
  ultimately have "plan_requests (R(v \<mapsto> (cur, l))) (cur + l) D"
    using reqs v l(1) by (intro plan_requests_add [where cur = cur]) (simp_all add: l_def)
  moreover have "{0..<cur + l} = {0..<min cur num} \<union> span (cur, l)" using assms(2) by (auto simp: span_def)
  ultimately show "plan doc off N old (R(v \<mapsto> (cur, l))) (cur + l) num got eof dest D"
    using plan l unfolding plan_def by (auto simp: spans_add [where R = R and v = v, OF v] min_absorb1)
qed

text \<open>A reply with data. The rest of the request, if any, is requested again.\<close>

lemma plan_answer:
  assumes plan: "plan doc off N old R cur num got eof dest D"
    and R: "R v = Some (p, l)" and n: "0 < n" "n \<le> l" "off + p + n \<le> length doc"
  defines "dest' \<equiv> take p dest @ take n (drop (off + p) doc) @ drop (p + n) dest" and "D' \<equiv> D \<union> {p..<p + n}"
  shows "n = l \<Longrightarrow> plan doc off N old (R(v := None)) cur num (got + n) eof dest' D'"
    and "n < l \<Longrightarrow> R w = None \<Longrightarrow> plan doc off N old (R(v := None, w \<mapsto> (p + n, l - n))) cur num (got + n) eof dest' D'"
proof -
  have reqs: "plan_requests R cur D" using plan by (simp add: plan_def)
  note req = plan_requestsD [OF reqs R]
  have sub: "D' \<subseteq> D \<union> span (p, l)" using n(2) by (auto simp: D'_def span_def)
  note dropped = plan_requests_drop [OF reqs R sub]
  have cur: "cur \<le> N" "N \<le> length old" using plan by (simp_all add: plan_def)
  have data: "plan_data doc off old dest' D'"
    unfolding dest'_def D'_def using plan n req cur by (intro plan_data_store) (simp_all add: plan_def)
  have D': "D' \<subseteq> {0..<readable doc off N}" "D' \<subseteq> {0..<cur}" "card D' = got + n"
  proof -
    have "finite D" "D \<subseteq> {0..<readable doc off N}" "D \<subseteq> {0..<cur}" "got = card D"
      using plan finite_subset [of D "{0..<cur}"] by (simp_all add: plan_def)
    moreover have "{p..<p + n} \<subseteq> {0..<readable doc off N}" "{p..<p + n} \<subseteq> {0..<cur}"
      using n req cur by (auto simp: readable_def)
    moreover have "{p..<p + n} \<subseteq> span (p, l)" using n(2) by (auto simp: span_def)
    then have "D \<inter> {p..<p + n} = {}" using req by blast
    ultimately show "D' \<subseteq> {0..<readable doc off N}" "D' \<subseteq> {0..<cur}" "card D' = got + n"
      by (auto simp: D'_def card_Un_disjoint)
  qed
  have readable: "0 < readable doc off N" using n req cur by (simp add: readable_def)
  have all: "{0..<min cur num} \<subseteq> D \<union> (spans (R(v := None)) \<union> span (p, l))"
    using plan unfolding plan_def spans_drop [where R = R and v = v, OF R] by simp
  show "plan doc off N old (R(v := None)) cur num (got + n) eof dest' D'" if "n = l"
  proof -
    have "{0..<min cur num} \<subseteq> D' \<union> spans (R(v := None))" using all that by (auto simp: D'_def span_def)
    with plan dropped(1) data D' readable show ?thesis unfolding plan_def by auto
  qed
  show "plan doc off N old (R(v := None, w \<mapsto> (p + n, l - n))) cur num (got + n) eof dest' D'" if "n < l" "R w = None"
  proof -
    have w: "(R(v := None)) w = None" using that by simp
    have "{0..<min cur num} \<subseteq> D' \<union> spans (R(v := None, w \<mapsto> (p + n, l - n)))"
      using all that(1) unfolding spans_add [where R = "R(v := None)" and v = w, OF w] by (auto simp: D'_def span_def)
    moreover have "span (p + n, l - n) \<subseteq> span (p, l)" "span (p + n, l - n) \<inter> {p..<p + n} = {}" by (auto simp: span_def)
    then have "span (p + n, l - n) \<inter> D' = {}" "span (p + n, l - n) \<inter> spans (R(v := None)) = {}"
      using req dropped(2) unfolding D'_def by blast+
    then have "plan_requests (R(v := None, w \<mapsto> (p + n, l - n))) cur D'"
      using that(1) req by (intro plan_requests_add [OF dropped(1) w]) (auto simp: fun_upd_def)
    ultimately show ?thesis using plan data D' readable unfolding plan_def by auto
  qed
qed

lemma plan_end:
  assumes plan: "plan doc off N old R cur num got eof dest D" and R: "R v = Some (p, l)" and "length doc \<le> off + p"
  shows "plan doc off N old (R(v := None)) cur (min num p) got (eof \<or> p = 0) dest D"
proof -
  have reqs: "plan_requests R cur D" using plan by (simp add: plan_def)
  note req = plan_requestsD [OF reqs R]
  have "{0..<min cur (min num p)} \<subseteq> D \<union> spans (R(v := None))"
  proof -
    have "{0..<min cur num} \<subseteq> D \<union> (spans (R(v := None)) \<union> span (p, l))"
      using plan unfolding plan_def spans_drop [where R = R and v = v, OF R] by simp
    then show ?thesis by (auto simp: span_def)
  qed
  moreover have "readable doc off N \<le> p" "p = 0 \<Longrightarrow> readable doc off N = 0 \<and> 0 < N"
    using assms(3) req plan by (auto simp: readable_def plan_def)
  ultimately show ?thesis
    using plan plan_requests_drop(1) [OF reqs R, of D] unfolding plan_def by auto
qed

text \<open>Something is under way as long as bytes are missing; and when none is missing, all are there.\<close>

lemma plan_not_stuck:
  assumes "plan doc off N old R cur num got eof dest D" and "dom R = {}" and "num \<le> cur"
  shows "num \<le> got"
proof -
  have "{0..<num} \<subseteq> D" "finite D"
    using assms finite_subset [of D "{0..<cur}"] by (auto simp: plan_def spans_def ran_def min_absorb2)
  then show ?thesis using assms(1) card_mono [of D "{0..<num}"] by (simp add: plan_def)
qed

lemma plan_done:
  assumes plan: "plan doc off N old R cur num got eof dest D" and "num \<le> got"
  shows "got = readable doc off N" "eof \<longleftrightarrow> got = 0 \<and> 0 < N" "length dest = length old"
    "take got dest = take got (drop off doc)" "drop got dest = drop got old"
proof -
  let ?m = "readable doc off N"
  have D: "D \<subseteq> {0..<?m}" "?m \<le> card D" "got = card D" using assms by (simp_all add: plan_def)
  then have D: "D = {0..<?m}" by (metis card_atLeastLessThan card_seteq diff_zero finite_atLeastLessThan)
  show got: "got = ?m" using D plan by (simp add: plan_def)
  show "eof \<longleftrightarrow> got = 0 \<and> 0 < N" using plan assms(2) got by (auto simp: plan_def)
  have data: "length dest = length old" "\<And>q. q < length old \<Longrightarrow> dest ! q = (if q < ?m then doc ! (off + q) else old ! q)"
    using plan D by (auto simp: plan_def plan_data_def)
  then show "length dest = length old" by simp
  have m: "?m \<le> length old" "?m \<le> length doc - off" using plan by (auto simp: plan_def readable_def)
  show "take got dest = take got (drop off doc)"
  proof (rule nth_equalityI)
    fix i assume "i < length (take got dest)"
    then have "i < ?m" "i < length old" using data(1) got by simp_all
    then show "take got dest ! i = take got (drop off doc) ! i" using data(2) [of i] m by (simp add: got)
  qed (use m data(1) got in simp)
  show "drop got dest = drop got old"
    unfolding got using m data by (intro nth_equalityI) auto
qed

end
