(* ===== verification/VFS_Sftp_Wire.thy ===== *)
theory VFS_Sftp_Wire
  imports VFS_Sftp_Codec
begin

text \<open>
  Messages on the descriptors of a connection. The locale \<open>sftp_wire\<close> says what a byte stream to a server
  does with the partial reads and writes of the system; under it a message sent arrives whole, and
  an answer is received whole.
\<close>

section \<open>Frames\<close>

definition frame :: "string \<Rightarrow> string" where
  "frame body = bytes_of_word32 (of_nat (length body)) @ body"

lemma frame_not_empty [simp]: "frame body \<noteq> []" "length (frame body) = 4 + length body"
  by (simp_all add: frame_def bytes_of_word32_def)

text \<open>What is written to the descriptor is the frame of what the buffer holds.\<close>

lemma buffer_send_frame:
  assumes "buffer_ok b"
  shows "buffer_send P b fd k = map_option (\<lambda>(n, k1). (GNOME_VFS_OK, k1)) (atomic_write P fd (frame (contents b)) 0 k)"
proof -
  let ?r = "buf_read_ptr b" and ?n = "buf_write_ptr b - buf_read_ptr b"
  have ok: "4 \<le> ?r" "?r \<le> buf_write_ptr b" "buf_write_ptr b \<le> length (buf_base b)"
    using assms by (simp_all add: buffer_ok_def buf_alloc_def)
  then have "length (contents b) = ?n" by (simp add: contents_def min_absorb2 diff_le_mono)
  moreover have "take (buf_write_ptr b - (?r - 4)) (drop (?r - 4) (take (?r - 4) (buf_base b) @ bytes_of_word32 v @ drop (?r - 4 + 4) (buf_base b)))
                 = bytes_of_word32 v @ contents b" for v
    using ok by (simp add: contents_def)
  ultimately show ?thesis
    unfolding buffer_send_def Let_def frame_def
    by (cases "atomic_write P fd (bytes_of_word32 (of_nat ?n) @ contents b) 0 k") (simp_all only: bind.simps option.map split_def)
qed

lemma atomic_write_done: "length s \<le> pos \<Longrightarrow> atomic_write P fd s pos k = Some (Some pos, k)"
  by (subst atomic_write.simps) simp

lemma split_at_prefix: "a @ b = s @ t \<Longrightarrow> length s \<le> length a \<Longrightarrow> \<exists>u. a = s @ u \<and> t = u @ b"
  by (auto simp: append_eq_append_conv2)

section \<open>The two ends of a connection\<close>

text \<open>
  What a client of an SFTP server relies on. The descriptors cut what passes through them into
  pieces as they like; of the other end one sees the bytes of a request of which not all have
  arrived, the rest of the reply that is being read, and its state, which changes when a request has
  arrived in full and when it begins to answer one. \<open>can\<close> says which requests it is
  prepared for, \<open>waiting\<close> in which states it owes an answer, \<open>answer\<close> which answers it may give.
\<close>

locale sftp_wire =
  fixes P :: "'k posix" and in_fd out_fd :: nat
    and ok :: "'k \<Rightarrow> bool" and part inc :: "'k \<Rightarrow> string" and st :: "'k \<Rightarrow> 's"
    and encode :: "'q \<Rightarrow> string" and can :: "'q \<Rightarrow> 's \<Rightarrow> bool" and accept :: "'q \<Rightarrow> 's \<Rightarrow> 's"
    and waiting :: "'s \<Rightarrow> bool" and answer :: "'s \<Rightarrow> string \<Rightarrow> 's \<Rightarrow> bool"
  assumes takes_some: "ok k \<Longrightarrow> can q (st k) \<Longrightarrow> part k @ data = frame (encode q) \<Longrightarrow> data \<noteq> []
      \<Longrightarrow> \<exists>n k'. px_write P out_fd data k = (Inr n, k') \<and> 0 < n \<and> n < length data \<and> ok k' \<and> inc k' = inc k
               \<and> part k' = part k @ take n data \<and> st k' = st k
             \<or> px_write P out_fd data k = (Inr (length data), k') \<and> ok k' \<and> inc k' = inc k
               \<and> part k' = [] \<and> st k' = accept q (st k)"
    and gives_rest: "ok k \<Longrightarrow> inc k \<noteq> [] \<Longrightarrow> 0 < sz
      \<Longrightarrow> \<exists>s k'. px_read P in_fd sz k = (Inr s, k') \<and> s \<noteq> [] \<and> length s \<le> unat sz \<and> inc k = s @ inc k'
               \<and> ok k' \<and> part k' = part k \<and> st k' = st k"
    and answers_next: "ok k \<Longrightarrow> inc k = [] \<Longrightarrow> part k = [] \<Longrightarrow> waiting (st k) \<Longrightarrow> 0 < sz
      \<Longrightarrow> \<exists>s k' body. px_read P in_fd sz k = (Inr s, k') \<and> s \<noteq> [] \<and> length s \<le> unat sz
               \<and> answer (st k) body (st k') \<and> frame body = s @ inc k' \<and> ok k' \<and> part k' = []"
begin

text \<open>Nothing is under way in either direction.\<close>

definition hushed_wire :: "'k \<Rightarrow> bool" where
  "hushed_wire k \<longleftrightarrow> ok k \<and> part k = [] \<and> inc k = []"

lemma hushed_wireD: "hushed_wire k \<Longrightarrow> ok k" "hushed_wire k \<Longrightarrow> part k = []" "hushed_wire k \<Longrightarrow> inc k = []"
  by (simp_all add: hushed_wire_def)

lemma atomic_write_request:
  assumes "ok k" and "part k = take pos F" and "F = frame (encode q)" and "pos < length F" and "can q (st k)"
  shows "\<exists>n k'. atomic_write P out_fd F pos k = Some (n, k') \<and> ok k' \<and> inc k' = inc k \<and> part k' = [] \<and> st k' = accept q (st k)"
  using assms
proof (induction "length F - pos" arbitrary: pos k rule: less_induct)
  case less
  have "part k @ drop pos F = frame (encode q)" "drop pos F \<noteq> []"
    using less.prems by simp_all
  from takes_some [OF less.prems(1,5) this] obtain n k1 where
    "px_write P out_fd (drop pos F) k = (Inr n, k1) \<and> 0 < n \<and> n < length (drop pos F) \<and> ok k1 \<and> inc k1 = inc k
       \<and> part k1 = part k @ take n (drop pos F) \<and> st k1 = st k
     \<or> px_write P out_fd (drop pos F) k = (Inr (length (drop pos F)), k1) \<and> ok k1 \<and> inc k1 = inc k
       \<and> part k1 = [] \<and> st k1 = accept q (st k)"
    by blast
  then show ?case
  proof (elim disjE conjE, goal_cases)
    case 1
    then have "\<exists>n k'. atomic_write P out_fd F (pos + n') k1 = Some (n, k') \<and> ok k' \<and> inc k' = inc k1 \<and> part k' = [] \<and> st k' = accept q (st k1)"
      if "n' = n" for n'
      using that less.prems by (intro less.hyps) (simp_all add: take_add)
    with 1 less.prems show ?thesis by (subst atomic_write.simps) simp
  next
    case 2
    then show ?thesis
      using less.prems by (subst atomic_write.simps) (simp add: atomic_write_done)
  qed
qed

lemma send_request:
  assumes "hushed_wire k" and "buffer_ok b" "contents b = encode q" and "can q (st k)"
  shows "\<exists>k'. buffer_send P b out_fd k = Some (GNOME_VFS_OK, k') \<and> hushed_wire k' \<and> st k' = accept q (st k)"
proof -
  have "\<exists>n k'. atomic_write P out_fd (frame (encode q)) 0 k = Some (n, k')
          \<and> ok k' \<and> inc k' = inc k \<and> part k' = [] \<and> st k' = accept q (st k)"
    using assms by (intro atomic_write_request) (simp_all add: hushed_wire_def)
  then show ?thesis
    using assms by (subst buffer_send_frame) (auto simp: hushed_wire_def)
qed

lemma atomic_read_rest:
  assumes "ok k" and "inc k = s @ t" and "n = length got + length s" and "n < 2 ^ 64"
  shows "\<exists>k'. atomic_read P in_fd n got k = Some (Some (got @ s), k') \<and> ok k' \<and> inc k' = t \<and> part k' = part k \<and> st k' = st k"
  using assms
proof (induction "length s" arbitrary: s got k rule: less_induct)
  case less
  show ?case
  proof (cases "s = []")
    case True
    then show ?thesis using less.prems by (subst atomic_read.simps) simp
  next
    case False
    let ?sz = "of_nat (n - length got) :: file_size"
    have sz: "unat ?sz = length s"
      using less.prems by (simp add: unat_of_nat take_bit_nat_eq_self)
    then have "0 < ?sz" using False by (metis length_0_conv unat_0 word_gt_0)
    with gives_rest [OF less.prems(1) _ this] less.prems(2) False obtain r k1 where
      r: "px_read P in_fd ?sz k = (Inr r, k1)" "r \<noteq> []" "length r \<le> length s" "s @ t = r @ inc k1" "ok k1" "part k1 = part k" "st k1 = st k"
      unfolding sz by auto
    obtain s' where s': "s = r @ s'" "inc k1 = s' @ t"
      using split_at_prefix [OF r(4,3)] by auto
    have "\<exists>k'. atomic_read P in_fd n (got @ r) k1 = Some (Some ((got @ r) @ s'), k') \<and> ok k' \<and> inc k' = t \<and> part k' = part k1 \<and> st k' = st k1"
      by (rule less.hyps) (use s' r less.prems in auto)
    with r s' less.prems False show ?thesis by (subst atomic_read.simps) simp
  qed
qed

lemma recv_answer:
  assumes "hushed_wire k" and "waiting (st k)" and b: "buffer_ok b"
    and short: "\<And>body t. answer (st k) body t \<Longrightarrow> length body \<le> 256 * 1024"
  shows "\<exists>k' b' body. buffer_recv P b in_fd k = Some (GNOME_VFS_OK, b', k') \<and> buffer_ok b' \<and> contents b' = contents b @ body
           \<and> answer (st k) body (st k') \<and> hushed_wire k'"
proof -
  note q = hushed_wireD [OF assms(1)]
  obtain s k1 body where r: "px_read P in_fd 4 k = (Inr s, k1)" "s \<noteq> []" "length s \<le> 4"
    and body: "answer (st k) body (st k1)" "frame body = s @ inc k1" and k1: "ok k1" "part k1 = []"
    using answers_next [OF q(1,3,2) assms(2), of 4] by auto
  have len: "length body \<le> 256 * 1024" by (rule short [OF body(1)])
  obtain s' where s': "bytes_of_word32 (of_nat (length body)) = s @ s'" "inc k1 = s' @ body"
    using split_at_prefix [OF body(2) [unfolded frame_def]] r(3) by auto
  have "4 = length s + length s'" using arg_cong [OF s'(1), of length] by simp
  with atomic_read_rest [OF k1(1) s'(2), of 4 s] obtain k2 where
    k2: "atomic_read P in_fd 4 s k1 = Some (Some (s @ s'), k2)" "ok k2" "inc k2 = body" "part k2 = []" "st k2 = st k1"
    using k1 by auto
  have head: "atomic_read P in_fd 4 [] k = Some (Some (bytes_of_word32 (of_nat (length body))), k2)"
    using r k2 s' by (subst atomic_read.simps) simp
  obtain k3 where k3: "atomic_read P in_fd (length body) [] k2 = Some (Some body, k3)" "ok k3" "inc k3 = []" "part k3 = []" "st k3 = st k1"
    using atomic_read_rest [of k2 body "[]" "length body" "[]"] k2 len by auto
  have n: "unat (of_nat (length body) :: 32 word) = length body"
    using len by (simp add: unat_of_nat take_bit_nat_eq_self)
  let ?b = "buffer_check_alloc b (length body)"
  note alloc = buffer_check_alloc_ok [OF b, of "length body"]
  let ?b' = "?b\<lparr>buf_base := take (buf_write_ptr ?b) (buf_base ?b) @ body @ drop (buf_write_ptr ?b + length body) (buf_base ?b),
                buf_write_ptr := buf_write_ptr ?b + length body\<rparr>"
  have "buffer_recv P b in_fd k = Some (GNOME_VFS_OK, ?b', k3)"
    using len by (simp add: buffer_recv_def head n k3 Let_def word_less_nat_alt)
  moreover have "buffer_ok ?b'" "contents ?b' = contents b @ body"
    using append_at_write_ptr [OF alloc(1) alloc(3)] alloc(2) by simp_all
  ultimately show ?thesis using body(1) k3 by (intro exI [of _ k3] exI [of _ ?b'] exI [of _ body]) (simp add: hushed_wire_def)
qed

end

lemma header_read:
  assumes "buffer_ok b" and "contents b = t # bytes_of_word32 i @ rest"
  shows "\<exists>b'. read_header b = Some (t, i, b') \<and> buffer_ok b' \<and> contents b' = rest"
  using message.readsD [OF reads_header assms(1), of t i rest] assms(2) by auto

end
