(* ===== verification/VFS_Sftp_Read.thy ===== *)
theory VFS_Sftp_Read
  imports VFS_Sftp_Ring VFS_Sftp_Plan VFS_Sftp_Wire
begin

text \<open>
  Reading from a file server. The locale \<open>sftp_server\<close> extends the wire with a server that answers
  requests in any order and with as few bytes as it likes; under it the loop of \<^verbatim>\<open>do_read\<close> ends and
  gives the bytes of the document.
\<close>

section \<open>A server for reading\<close>

definition read_body :: "string \<Rightarrow> guint \<Rightarrow> 64 word \<Rightarrow> guint \<Rightarrow> string" where
  "read_body handle i off len =
     SSH2_FXP_READ # bytes_of_word32 i @ bytes_of_word32 (of_nat (length handle)) @ handle @ bytes_of_word64 off @ bytes_of_word32 len"

definition data_body :: "guint \<Rightarrow> string \<Rightarrow> string" where
  "data_body i s = SSH2_FXP_DATA # bytes_of_word32 i @ bytes_of_word32 (of_nat (length s)) @ s"

definition eof_body :: "guint \<Rightarrow> string \<Rightarrow> string" where
  "eof_body i extra = SSH2_FXP_STATUS # bytes_of_word32 i @ bytes_of_word32 SSH2_FX_EOF @ extra"

text \<open>
  The replies that the protocol allows to a request for a part of a file: some of the bytes from
  the offset on, at least one (unless none was asked for) and at most as many as asked for; at or behind the end of the
  file, the status EOF, which may be followed by a text for the user.
\<close>

inductive answers :: "string \<Rightarrow> 64 word \<Rightarrow> guint \<Rightarrow> guint \<Rightarrow> string \<Rightarrow> bool" for doc where
  answers_data: "0 < n \<or> len = 0 \<Longrightarrow> n \<le> unat len \<Longrightarrow> unat off + n \<le> length doc
    \<Longrightarrow> answers doc off len i (data_body i (take n (drop (unat off) doc)))"
| answers_eof: "length doc \<le> unat off \<Longrightarrow> length extra \<le> 1024 \<Longrightarrow> answers doc off len i (eof_body i extra)"

lemma answers_short: "answers doc off len i body \<Longrightarrow> unat len \<le> default_req_len \<Longrightarrow> length body \<le> 256 * 1024"
  by (auto simp: answers.simps data_body_def eof_body_def default_req_len_def)

text \<open>
  A server for one open file, of which one sees the requests that it has received and not yet begun
  to answer (by identifier: offset and length). It answers them in any order, each once.
\<close>

locale sftp_server =
  sftp_wire P in_fd out_fd ok part inc reqs
    "\<lambda>(i, off, len). read_body handle i off len" "\<lambda>(i, off, len) R. R i = None" "\<lambda>(i, off, len) R. R(i \<mapsto> (off, len))"
    "\<lambda>R. R \<noteq> (\<lambda>v. None)" "\<lambda>R body R'. \<exists>j off len. R j = Some (off, len) \<and> answers doc off len j body \<and> R' = R(j := None)"
  for P :: "'k posix" and in_fd out_fd :: nat and handle doc :: string
    and ok :: "'k \<Rightarrow> bool" and part inc :: "'k \<Rightarrow> string" and reqs :: "'k \<Rightarrow> guint \<Rightarrow> (64 word \<times> guint) option"
begin

lemma send_read_request:
  assumes "hushed_wire k" and "reqs k i = None"
  shows "\<exists>k'. iobuf_send_read_request P out_fd i off len handle k = Some (GNOME_VFS_OK, k') \<and> hushed_wire k' \<and> reqs k' = (reqs k)(i \<mapsto> (off, len))"
  unfolding iobuf_send_read_request_def
  using send_request [OF assms(1), of _ "(i, off, len)"] assms(2) by (simp add: read_body_def)

end

section \<open>Reading\<close>

text \<open>The identifiers and the parts in the ring.\<close>

definition idents :: "ReadRequest list \<Rightarrow> nat \<Rightarrow> guint" where "idents qs i = rq_id (qs ! i)"
definition parts :: "ReadRequest list \<Rightarrow> nat \<Rightarrow> nat \<times> nat" where "parts qs i = (rq_ptr (qs ! i), rq_len (qs ! i))"

lemma slots_update:
  "i < length qs \<Longrightarrow> idents (qs[i := q]) = (idents qs)(i := rq_id q)"
  "i < length qs \<Longrightarrow> parts (qs[i := q]) = (parts qs)(i := (rq_ptr q, rq_len q))"
  by (auto simp: idents_def parts_def fun_eq_iff)

lemma pop_finished_tail: "pop_finished s = s\<lparr>rs_svc := tail (idents (rs_reqs s)) (rs_svc s) (rs_ptr s)\<rparr>"
  by (simp add: pop_finished_def tail_def idents_def)

text \<open>How many more requests can come, at most: every byte that is not requested yet counts twice.\<close>

definition budget :: "(guint \<Rightarrow> (nat \<times> nat) option) \<Rightarrow> nat \<Rightarrow> nat \<Rightarrow> nat" where
  "budget R cur num = 2 * (num - cur) + (\<Sum>v \<in> dom R. snd (the (R v)))"

lemma sum_add_request:
  fixes R :: "guint \<Rightarrow> (nat \<times> nat) option"
  assumes "finite (dom R)" and "R v = None"
  shows "(\<Sum>w \<in> dom (R(v \<mapsto> r)). snd (the ((R(v \<mapsto> r)) w))) = (\<Sum>w \<in> dom R. snd (the (R w))) + snd r"
proof -
  have "(\<Sum>w \<in> dom R. snd (the ((R(v \<mapsto> r)) w))) = (\<Sum>w \<in> dom R. snd (the (R w)))"
    using assms(2) by (intro sum.cong) (auto simp: domIff)
  then show ?thesis using assms by (simp add: domIff)
qed

lemma sum_drop_request:
  fixes R :: "guint \<Rightarrow> (nat \<times> nat) option"
  assumes "finite (dom R)" and "R v = Some r"
  shows "(\<Sum>w \<in> dom R. snd (the (R w))) = (\<Sum>w \<in> dom (R(v := None)). snd (the ((R(v := None)) w))) + snd r"
proof -
  have "R = (R(v := None))(v \<mapsto> r)" using assms(2) by auto
  then show ?thesis using sum_add_request [of "R(v := None)" v r] assms(1) by simp
qed

context sftp_server
begin

definition ctx :: "64 word \<Rightarrow> 'k read_context" where
  "ctx off = \<lparr>rc_posix = P, rc_in_fd = in_fd, rc_out_fd = out_fd, rc_handle = handle, rc_offset = off\<rparr>"

text \<open>The request that the server knows for a request in the ring.\<close>

definition on_wire :: "64 word \<Rightarrow> (guint \<Rightarrow> (nat \<times> nat) option) \<Rightarrow> guint \<Rightarrow> (64 word \<times> guint) option" where
  "on_wire off R = (\<lambda>v. map_option (\<lambda>(p, l). (off + of_nat p, of_nat l)) (R v))"

lemma on_wire_upd [simp]:
  "on_wire off (R(v \<mapsto> (p, l))) = (on_wire off R)(v \<mapsto> (off + of_nat p, of_nat l))"
  "on_wire off (R(v := None)) = (on_wire off R)(v := None)"
  by (auto simp: on_wire_def)

definition wired :: "64 word \<Rightarrow> 'k read_state \<Rightarrow> (guint \<Rightarrow> (nat \<times> nat) option) \<Rightarrow> bool" where
  "wired off s R \<longleftrightarrow> length (rs_reqs s) = queue_len \<and> represents (idents (rs_reqs s)) (parts (rs_reqs s)) (rs_svc s) (rs_ptr s) R
     \<and> hushed_wire (rs_kernel s) \<and> reqs (rs_kernel s) = on_wire off R \<and> buffer_ok (rs_msg s)
     \<and> rs_out s = of_nat (card (dom R)) \<and> (\<forall>v \<in> dom R. v < rs_msg_id s) \<and> rs_msg_id s \<noteq> 0"

definition good :: "64 word \<Rightarrow> nat \<Rightarrow> string \<Rightarrow> 'k read_state \<Rightarrow> (guint \<Rightarrow> (nat \<times> nat) option) \<Rightarrow> nat set \<Rightarrow> bool" where
  "good off N old s R D \<longleftrightarrow> wired off s R
     \<and> plan doc (unat off) N old R (rs_curr s) (rs_num s) (rs_done s) (rs_eof s) (rs_dest s) D
     \<and> unat (rs_msg_id s) + budget R (rs_curr s) (rs_num s) < 2 ^ 32"

definition tidy :: "'k read_state \<Rightarrow> (guint \<Rightarrow> (nat \<times> nat) option) \<Rightarrow> bool" where
  "tidy s R \<longleftrightarrow> (dom R = {} \<longrightarrow> rs_svc s = rs_ptr s)"

lemma fresh_id: "wired off s R \<Longrightarrow> R (rs_msg_id s) = None"
  unfolding wired_def by (metis domIff order.strict_iff_order)

lemma next_id:
  fixes v :: guint
  assumes "unat v + b < 2 ^ 32" and "0 < b"
  shows "unat (v + 1) = unat v + 1" "v < v + 1" "v + 1 \<noteq> 0"
proof -
  show u: "unat (v + 1) = unat v + 1"
    using assms by (simp add: unat_word_ariths)
  then show "v < v + 1" by (simp add: word_less_nat_alt)
  show "v + 1 \<noteq> 0" using u by (metis add_is_0 one_neq_zero unat_0)
qed

text \<open>A request for a part, in a new place or in the place of the request that it continues.\<close>

lemma sent_block:
  assumes "hushed_wire (rs_kernel s)" "reqs (rs_kernel s) (rs_msg_id s) = None"
  shows "\<exists>k. request_block (ctx off) i p l s =
           Some (s\<lparr>rs_reqs := (rs_reqs s)[i := \<lparr>rq_id = rs_msg_id s, rq_len = l, rq_ptr = p\<rparr>], rs_out := rs_out s + 1,
                   rs_msg_id := rs_msg_id s + 1, rs_kernel := k\<rparr>)
         \<and> hushed_wire k \<and> reqs k = (reqs (rs_kernel s))(rs_msg_id s \<mapsto> (off + of_nat p, of_nat l))"
  using send_read_request [of "rs_kernel s" "rs_msg_id s" "off + of_nat p" "of_nat l"] assms
  by (auto simp: request_block_def ctx_def)

lemma added_block:
  assumes "wired off s R" and "(rs_ptr s + 1) mod queue_len \<noteq> rs_svc s" and "unat (rs_msg_id s) + b < 2 ^ 32" "0 < b"
  shows "\<exists>s1. request_block (ctx off) (rs_ptr s) p l s = Some s1
           \<and> wired off (s1\<lparr>rs_curr := c, rs_ptr := (rs_ptr s + 1) mod queue_len\<rparr>) (R(rs_msg_id s \<mapsto> (p, l)))
           \<and> rs_msg_id s1 = rs_msg_id s + 1 \<and> rs_num s1 = rs_num s \<and> rs_done s1 = rs_done s \<and> rs_eof s1 = rs_eof s
           \<and> rs_dest s1 = rs_dest s \<and> rs_svc s1 = rs_svc s"
proof -
  note id = next_id [OF assms(3,4)]
  have w: "represents (idents (rs_reqs s)) (parts (rs_reqs s)) (rs_svc s) (rs_ptr s) R" "rs_ptr s < length (rs_reqs s)"
    "rs_msg_id s \<noteq> 0" "\<forall>v \<in> dom R. v < rs_msg_id s"
    using assms(1) by (auto simp: wired_def represents_def)
  have "represents (idents ((rs_reqs s)[rs_ptr s := \<lparr>rq_id = rs_msg_id s, rq_len = l, rq_ptr = p\<rparr>]))
          (parts ((rs_reqs s)[rs_ptr s := \<lparr>rq_id = rs_msg_id s, rq_len = l, rq_ptr = p\<rparr>]))
          (rs_svc s) ((rs_ptr s + 1) mod queue_len) (R(rs_msg_id s \<mapsto> (p, l)))"
    using represents_add [OF w(1) assms(2) w(3) fresh_id [OF assms(1)], of "(p, l)"] w(2) by (simp add: slots_update)
  moreover have "card (dom (R(rs_msg_id s \<mapsto> (p, l)))) = card (dom R) + 1"
    using fresh_id [OF assms(1)] represents_finite [OF w(1)] by (simp add: domIff)
  moreover have "\<forall>v \<in> dom (R(rs_msg_id s \<mapsto> (p, l))). v < rs_msg_id s + 1"
    using w(4) id(2) order.strict_trans by (metis dom_fun_upd insertE option.simps(3))
  moreover obtain k where "request_block (ctx off) (rs_ptr s) p l s =
           Some (s\<lparr>rs_reqs := (rs_reqs s)[rs_ptr s := \<lparr>rq_id = rs_msg_id s, rq_len = l, rq_ptr = p\<rparr>], rs_out := rs_out s + 1,
                   rs_msg_id := rs_msg_id s + 1, rs_kernel := k\<rparr>)"
    "hushed_wire k" "reqs k = (reqs (rs_kernel s))(rs_msg_id s \<mapsto> (off + of_nat p, of_nat l))"
    using sent_block [of s off "rs_ptr s" p l] assms(1) fresh_id [OF assms(1)] by (auto simp: wired_def on_wire_def)
  ultimately show ?thesis using assms(1) id(3) by (auto simp: wired_def)
qed

lemma requested:
  assumes "good off N old s R D" and "tidy s R"
  shows "\<exists>s' R'. request_loop (ctx off) s = Some s' \<and> good off N old s' R' D
           \<and> budget R' (rs_curr s') (rs_num s') \<le> budget R (rs_curr s) (rs_num s) \<and> rs_num s' = rs_num s \<and> rs_done s' = rs_done s
           \<and> (dom R' = {} \<longrightarrow> rs_num s' \<le> rs_curr s') \<and> dom R \<subseteq> dom R'"
  using assms
proof (induction "rs_num s - rs_curr s" arbitrary: s R rule: less_induct)
  case less
  show ?case
  proof (cases "rs_curr s < rs_num s \<and> (rs_ptr s + 1) mod queue_len \<noteq> rs_svc s")
    case False
    have "rs_ptr s < queue_len" using less.prems(1) by (simp add: good_def wired_def represents_def)
    then have "(rs_ptr s + 1) mod queue_len \<noteq> rs_ptr s" unfolding queue_len_9 by presburger
    then have "dom R = {} \<longrightarrow> rs_num s \<le> rs_curr s" using less.prems(2) False unfolding tidy_def by auto
    moreover have "request_loop (ctx off) s = Some s" using False by (subst request_loop.simps) (simp only: if_False)
    ultimately show ?thesis using less.prems(1) by auto
  next
    case True
    define l where "l = min (rs_num s - rs_curr s) default_req_len"
    let ?v = "rs_msg_id s"
    have g: "wired off s R" "plan doc (unat off) N old R (rs_curr s) (rs_num s) (rs_done s) (rs_eof s) (rs_dest s) D"
      "unat ?v + budget R (rs_curr s) (rs_num s) < 2 ^ 32"
      using less.prems(1) by (simp_all add: good_def)
    note fresh = fresh_id [OF g(1)]
    note p = plan_request [OF g(2) _ fresh, folded l_def]
    have l: "0 < l" "rs_curr s + l \<le> rs_num s" using p(2,3) True by simp_all
    have fin: "finite (dom R)" using g(2) by (simp add: plan_def plan_requests_def)
    have b: "budget (R(?v \<mapsto> (rs_curr s, l))) (rs_curr s + l) (rs_num s) + l = budget R (rs_curr s) (rs_num s)"
      unfolding budget_def sum_add_request [where R = R and v = ?v, OF fin fresh] using l by simp
    then have b0: "0 < budget R (rs_curr s) (rs_num s)" using l(1) by linarith
    obtain s1 where s1: "request_block (ctx off) (rs_ptr s) (rs_curr s) l s = Some s1"
      "wired off (s1\<lparr>rs_curr := rs_curr s + l, rs_ptr := (rs_ptr s + 1) mod queue_len\<rparr>) (R(?v \<mapsto> (rs_curr s, l)))"
      "rs_msg_id s1 = ?v + 1" "rs_num s1 = rs_num s" "rs_done s1 = rs_done s" "rs_eof s1 = rs_eof s" "rs_dest s1 = rs_dest s"
      using added_block [OF g(1) _ g(3) b0, of "rs_curr s" l "rs_curr s + l"] True by blast
    let ?s2 = "s1\<lparr>rs_curr := rs_curr s + l, rs_ptr := (rs_ptr s + 1) mod queue_len\<rparr>"
    have "good off N old ?s2 (R(?v \<mapsto> (rs_curr s, l))) D"
      using p(1) True s1 next_id(1) [OF g(3) b0] g(3) b l(1) by (simp add: good_def)
    moreover have "tidy ?s2 (R(?v \<mapsto> (rs_curr s, l)))" by (simp add: tidy_def)
    moreover have "rs_num ?s2 - rs_curr ?s2 < rs_num s - rs_curr s" using l s1(4) by simp
    ultimately obtain s' R' where "request_loop (ctx off) ?s2 = Some s'" "good off N old s' R' D"
      "budget R' (rs_curr s') (rs_num s') \<le> budget (R(?v \<mapsto> (rs_curr s, l))) (rs_curr ?s2) (rs_num ?s2)"
      "rs_num s' = rs_num s" "rs_done s' = rs_done s" "dom R' = {} \<longrightarrow> rs_num s' \<le> rs_curr s'"
      "dom (R(?v \<mapsto> (rs_curr s, l))) \<subseteq> dom R'"
      using less.hyps [of ?s2 "R(?v \<mapsto> (rs_curr s, l))"] s1(4,5) by (auto simp del: dom_fun_upd)
    moreover have "request_loop (ctx off) s = request_loop (ctx off) ?s2"
      using True s1(1) by (subst request_loop.simps) (simp add: Let_def l_def)
    ultimately show ?thesis using b s1(4) by auto
  qed
qed

text \<open>The next reply: it belongs to a request that is not answered, and is one that the protocol allows.\<close>

lemma received:
  assumes "wired off s R" and "R v \<noteq> None" and short: "\<And>v p l. R v = Some (p, l) \<Longrightarrow> l \<le> default_req_len"
  shows "\<exists>k b j p l body. buffer_recv P (buffer_clear (rs_msg s)) in_fd (rs_kernel s) = Some (GNOME_VFS_OK, b, k)
           \<and> buffer_ok b \<and> contents b = body \<and> R j = Some (p, l) \<and> answers doc (off + of_nat p) (of_nat l) j body
           \<and> hushed_wire k \<and> reqs k = (on_wire off R)(j := None)"
proof -
  have w: "hushed_wire (rs_kernel s)" "buffer_ok (rs_msg s)" "reqs (rs_kernel s) = on_wire off R"
    using assms(1) by (simp_all add: wired_def)
  have wire: "\<exists>p l. R j = Some (p, l) \<and> o' = off + of_nat p \<and> len = of_nat l \<and> unat len \<le> default_req_len"
    if known: "reqs (rs_kernel s) j = Some (o', len)" for j o' len
  proof -
    obtain p l where "R j = Some (p, l)" "o' = off + of_nat p" "len = of_nat l" using known by (auto simp: w(3) on_wire_def)
    then show ?thesis using short [of j p l] by (simp add: unat_of_nat take_bit_nat_eq_self default_req_len_def)
  qed
  have "reqs (rs_kernel s) \<noteq> (\<lambda>v. None)" using assms(2) by (auto simp: w(3) on_wire_def fun_eq_iff)
  moreover have "length body \<le> 256 * 1024"
    if "\<exists>j off len. reqs (rs_kernel s) j = Some (off, len) \<and> answers doc off len j body \<and> t = (reqs (rs_kernel s))(j := None)" for body t
    using that wire answers_short by blast
  ultimately obtain k b body j o' len where r: "buffer_recv P (buffer_clear (rs_msg s)) in_fd (rs_kernel s) = Some (GNOME_VFS_OK, b, k)"
    "buffer_ok b" "contents b = body" "hushed_wire k"
    and j: "reqs (rs_kernel s) j = Some (o', len)" "answers doc o' len j body" "reqs k = (reqs (rs_kernel s))(j := None)"
    using recv_answer [OF w(1), of "buffer_clear (rs_msg s)"] buffer_clear_ok [OF w(2)] by auto
  with wire [OF j(1)] j(3) [unfolded w(3)] show ?thesis by blast
qed

text \<open>
  The reply to request \<open>j\<close> in place \<open>i\<close>, when the request is finished, and when the rest of it is
  requested again. In between, fields change that do not concern the ring.
\<close>

definition received_state ::
    "'k \<Rightarrow> SftpBuffer \<Rightarrow> nat \<Rightarrow> bool \<Rightarrow> string \<Rightarrow> nat \<Rightarrow> 'k read_state \<Rightarrow> 'k read_state" where
  "received_state k b num eof dest got s =
     s\<lparr>rs_out := rs_out s - 1, rs_msg := b, rs_kernel := k, rs_eof := eof, rs_num := num, rs_dest := dest, rs_done := got\<rparr>"

lemma received_state_simps [simp]:
  "rs_reqs (received_state k b num eof dest got s) = rs_reqs s" "rs_svc (received_state k b num eof dest got s) = rs_svc s"
  "rs_ptr (received_state k b num eof dest got s) = rs_ptr s" "rs_curr (received_state k b num eof dest got s) = rs_curr s"
  "rs_num (received_state k b num eof dest got s) = num" "rs_done (received_state k b num eof dest got s) = got"
  "rs_out (received_state k b num eof dest got s) = rs_out s - 1" "rs_eof (received_state k b num eof dest got s) = eof"
  "rs_dest (received_state k b num eof dest got s) = dest" "rs_msg (received_state k b num eof dest got s) = b"
  "rs_msg_id (received_state k b num eof dest got s) = rs_msg_id s" "rs_kernel (received_state k b num eof dest got s) = k"
  by (simp_all add: received_state_def)

lemma card_drop: "finite (dom R) \<Longrightarrow> R j = Some r \<Longrightarrow> card (dom R) = card (dom (R(j := None))) + 1"
  by (metis Suc_eq_plus1 card_Suc_Diff1 domI dom_fun_upd)

lemma finished:
  fixes num got :: nat and eof :: bool and dest :: string
  assumes w: "wired off s R" and R: "R j = Some r" and i: "i \<in> active (idents (rs_reqs s)) (rs_svc s) (rs_ptr s)" "idents (rs_reqs s) i = j"
    and k: "hushed_wire k" "reqs k = (on_wire off R)(j := None)" and b: "buffer_ok b"
  defines "s' \<equiv> pop_finished (retire i (received_state k b num eof dest got s))"
  shows "wired off s' (R(j := None))" "tidy s' (R(j := None))" "rs_num s' = num" "rs_done s' = got" "rs_curr s' = rs_curr s"
    "rs_eof s' = eof" "rs_dest s' = dest" "rs_msg_id s' = rs_msg_id s"
proof -
  have rep: "represents (idents (rs_reqs s)) (parts (rs_reqs s)) (rs_svc s) (rs_ptr s) R" and len: "i < length (rs_reqs s)"
    using w i(1) ring_less by (auto simp: wired_def active_def)
  let ?qs = "(rs_reqs s)[i := (rs_reqs s ! i)\<lparr>rq_id := 0\<rparr>]"
  have "idents ?qs = (idents (rs_reqs s))(i := 0)" "parts ?qs = parts (rs_reqs s)"
    using len by (auto simp: slots_update parts_def fun_eq_iff)
  then have rep': "represents (idents ?qs) (parts ?qs) (rs_svc s) (rs_ptr s) (R(j := None))"
    using represents_retire [OF rep i(1)] i(2) by simp
  have out: "rs_out s - 1 = of_nat (card (dom (R(j := None))))"
    using w card_drop [OF represents_finite [OF rep] R] by (simp add: wired_def del: dom_fun_upd)
  have ids: "\<forall>v \<in> dom (R(j := None)). v < rs_msg_id s" "rs_msg_id s \<noteq> 0" "length (rs_reqs s) = queue_len"
    using w by (simp_all add: wired_def)
  show "wired off s' (R(j := None))"
    using k b represents_tail [OF rep'] out ids unfolding wired_def s'_def
    by (simp add: pop_finished_tail retire_def del: dom_fun_upd)
  show "tidy s' (R(j := None))"
    using represents_none [OF rep'] by (simp add: tidy_def s'_def pop_finished_tail retire_def)
qed (simp_all add: s'_def pop_finished_tail retire_def)

lemma continued:
  fixes num got :: nat and eof :: bool and dest :: string
  assumes w: "wired off s R" and R: "R j = Some r" and i: "i \<in> active (idents (rs_reqs s)) (rs_svc s) (rs_ptr s)" "idents (rs_reqs s) i = j"
    and k: "hushed_wire k" "reqs k = (on_wire off R)(j := None)" and b: "buffer_ok b"
    and bound: "unat (rs_msg_id s) + n < 2 ^ 32" "0 < n"
  defines "v \<equiv> rs_msg_id s" and "s1 \<equiv> received_state k b num eof dest got s"
  shows "\<exists>s2. request_block (ctx off) i p l s1 = Some s2
    \<and> wired off (pop_finished s2) (R(j := None, v \<mapsto> (p, l))) \<and> rs_num (pop_finished s2) = num \<and> rs_done (pop_finished s2) = got
    \<and> rs_curr (pop_finished s2) = rs_curr s \<and> rs_eof (pop_finished s2) = eof \<and> rs_dest (pop_finished s2) = dest
    \<and> rs_msg_id (pop_finished s2) = v + 1"
proof -
  note id = next_id [OF bound]
  have rep: "represents (idents (rs_reqs s)) (parts (rs_reqs s)) (rs_svc s) (rs_ptr s) R" and len: "i < length (rs_reqs s)"
    and v0: "v \<noteq> 0" "\<forall>u \<in> dom R. u < v" "length (rs_reqs s) = queue_len"
    using w i(1) ring_less by (auto simp: wired_def active_def v_def)
  have fresh: "R v = None" unfolding v_def by (rule fresh_id [OF w])
  let ?qs = "(rs_reqs s)[i := \<lparr>rq_id = v, rq_len = l, rq_ptr = p\<rparr>]" and ?R = "R(j := None, v \<mapsto> (p, l))"
  have "idents ?qs = (idents (rs_reqs s))(i := v)" "parts ?qs = (parts (rs_reqs s))(i := (p, l))"
    using len by (auto simp: slots_update)
  then have rep': "represents (idents ?qs) (parts ?qs) (rs_svc s) (rs_ptr s) ?R"
    using represents_swap [OF rep i(1) v0(1) fresh, of "(p, l)"] i(2) by simp
  have "reqs k v = None" using k(2) fresh by (simp add: on_wire_def)
  then obtain k2 where k2: "request_block (ctx off) i p l s1 =
      Some (s1\<lparr>rs_reqs := ?qs, rs_out := rs_out s1 + 1, rs_msg_id := v + 1, rs_kernel := k2\<rparr>)"
    "hushed_wire k2" "reqs k2 = (reqs k)(v \<mapsto> (off + of_nat p, of_nat l))"
    using sent_block [of s1 off i p l] k by (auto simp: s1_def v_def)
  have "(R(j := None)) v = None" using fresh by simp
  then have "card (dom ?R) = card (dom R)"
    using card_drop [OF represents_finite [OF rep] R] card_drop [OF represents_finite [OF rep'], of v "(p, l)"]
    by (simp add: fun_upd_idem del: dom_fun_upd)
  then have "rs_out s1 + 1 = of_nat (card (dom ?R))" using w by (simp add: wired_def s1_def)
  moreover have "\<forall>u \<in> dom ?R. u < v + 1"
    using v0(2) id(2) order.strict_trans unfolding v_def by (auto simp del: fun_upd_apply split: if_splits)
  ultimately have "wired off (pop_finished (s1\<lparr>rs_reqs := ?qs, rs_out := rs_out s1 + 1, rs_msg_id := v + 1, rs_kernel := k2\<rparr>)) ?R"
    using k2 b id(3) k(2) represents_tail [OF rep'] v0(3) unfolding wired_def
    by (simp add: pop_finished_tail s1_def v_def del: dom_fun_upd)
  with k2(1) show ?thesis by (auto simp: pop_finished_tail s1_def)
qed

text \<open>One reply, of either kind.\<close>

definition progress :: "64 word \<Rightarrow> nat \<Rightarrow> string \<Rightarrow> 'k read_state \<Rightarrow> (guint \<Rightarrow> (nat \<times> nat) option) \<Rightarrow> 'k read_state \<Rightarrow> bool" where
  "progress off N old s R s' \<longleftrightarrow>
     (\<exists>R' D'. good off N old s' R' D' \<and> tidy s' R' \<and> budget R' (rs_curr s') (rs_num s') < budget R (rs_curr s) (rs_num s))"

lemma ended:
  assumes "good off N old s R D" and R: "R j = Some (p, l)"
    and i: "i \<in> active (idents (rs_reqs s)) (rs_svc s) (rs_ptr s)" "idents (rs_reqs s) i = j"
    and k: "hushed_wire k" "reqs k = (on_wire off R)(j := None)" and b: "buffer_ok b"
    and past: "length doc \<le> unat off + p"
  shows "progress off N old s R
           (pop_finished (retire i (received_state k b (min (rs_num s) p) (rs_eof s \<or> p = 0) (rs_dest s) (rs_done s) s)))"
proof -
  have g: "wired off s R" "plan doc (unat off) N old R (rs_curr s) (rs_num s) (rs_done s) (rs_eof s) (rs_dest s) D"
    "unat (rs_msg_id s) + budget R (rs_curr s) (rs_num s) < 2 ^ 32"
    using assms(1) by (simp_all add: good_def)
  have fin: "finite (dom R)" and l: "0 < l" using g(2) R by (simp_all add: plan_def plan_requests_def)
  have "budget (R(j := None)) (rs_curr s) (min (rs_num s) p) + l \<le> budget R (rs_curr s) (rs_num s)"
    unfolding budget_def sum_drop_request [where R = R and v = j, OF fin R] by simp
  then show ?thesis
    using finished [OF g(1) R i k b] plan_end [OF g(2) R past] g(3) l unfolding progress_def good_def
    by (intro exI [of _ "R(j := None)"] exI [of _ D]) simp
qed

lemma answered:
  assumes "good off N old s R D" and R: "R j = Some (p, l)"
    and i: "i \<in> active (idents (rs_reqs s)) (rs_svc s) (rs_ptr s)" "idents (rs_reqs s) i = j"
    and k: "hushed_wire k" "reqs k = (on_wire off R)(j := None)" and b: "buffer_ok b"
    and n: "0 < n" "n \<le> l" "unat off + p + n \<le> length doc"
    and dest: "dest = take p (rs_dest s) @ take n (drop (unat off + p) doc) @ drop (p + n) (rs_dest s)"
  defines "s1 \<equiv> received_state k b (rs_num s) (rs_eof s) dest (rs_done s + n) s"
  shows "\<exists>s2. (if n < l then request_block (ctx off) i (p + n) (l - n) s1 else Some (retire i s1)) = Some s2
           \<and> progress off N old s R (pop_finished s2)"
proof -
  have g: "wired off s R" "plan doc (unat off) N old R (rs_curr s) (rs_num s) (rs_done s) (rs_eof s) (rs_dest s) D"
    "unat (rs_msg_id s) + budget R (rs_curr s) (rs_num s) < 2 ^ 32"
    using assms(1) by (simp_all add: good_def)
  have fin: "finite (dom R)" using g(2) by (simp add: plan_def plan_requests_def)
  have drop: "budget R (rs_curr s) (rs_num s) = budget (R(j := None)) (rs_curr s) (rs_num s) + l"
    unfolding budget_def using sum_drop_request [where R = R and v = j, OF fin R] by simp
  note plan = plan_answer [OF g(2) R n, folded dest]
  let ?D = "D \<union> {p..<p + n}"
  show ?thesis
  proof (cases "n < l")
    case False
    then have "progress off N old s R (pop_finished (retire i s1))"
      using finished [OF g(1) R i k b, of "rs_num s" "rs_eof s" dest "rs_done s + n"] plan(1) g(3) drop n
      unfolding progress_def good_def s1_def by (intro exI [of _ "R(j := None)"] exI [of _ ?D]) simp
    then show ?thesis using False by simp
  next
    case True
    let ?v = "rs_msg_id s" and ?r = "(p + n, l - n)"
    have v: "(R(j := None)) ?v = None" using fresh_id [OF g(1)] by simp
    have b0: "0 < budget R (rs_curr s) (rs_num s)" using drop n by simp
    obtain s2 where s2: "request_block (ctx off) i (p + n) (l - n) s1 = Some s2" "wired off (pop_finished s2) (R(j := None, ?v \<mapsto> ?r))"
      "rs_num (pop_finished s2) = rs_num s" "rs_done (pop_finished s2) = rs_done s + n" "rs_curr (pop_finished s2) = rs_curr s"
      "rs_eof (pop_finished s2) = rs_eof s" "rs_dest (pop_finished s2) = dest" "rs_msg_id (pop_finished s2) = ?v + 1"
      using continued [OF g(1) R i k b g(3) b0] unfolding s1_def by blast
    have add: "budget (R(j := None, ?v \<mapsto> ?r)) (rs_curr s) (rs_num s) = budget (R(j := None)) (rs_curr s) (rs_num s) + (l - n)"
      unfolding budget_def using sum_add_request [where R = "R(j := None)" and v = ?v and r = ?r, OF _ v] fin by simp
    have "good off N old (pop_finished s2) (R(j := None, ?v \<mapsto> ?r)) ?D"
      using plan(2) [OF True fresh_id [OF g(1)]] s2 next_id(1) [OF g(3) b0] g(3) drop add n unfolding good_def by simp
    moreover have "tidy (pop_finished s2) (R(j := None, ?v \<mapsto> ?r))" by (simp add: tidy_def)
    ultimately have "progress off N old s R (pop_finished s2)"
      using s2 drop add n unfolding progress_def by (intro exI [of _ "R(j := None, ?v \<mapsto> ?r)"] exI [of _ ?D]) simp
    then show ?thesis using s2(1) True by simp
  qed
qed

lemma reply_eof:
  assumes "buffer_ok b" and "contents b = bytes_of_word32 SSH2_FX_EOF @ extra" and "parts (rs_reqs s) i = (p, l)"
  shows "read_reply C i SSH2_FXP_STATUS b s = Some (None, pop_finished (retire i (s\<lparr>rs_eof := (rs_eof s \<or> p = 0), rs_num := min (rs_num s) p\<rparr>)))"
  using message.readsD [OF reads_gint32 assms(1,2)] assms(3) by (auto simp: read_reply_def parts_def Let_def)

lemma reply_data:
  assumes b: "buffer_ok b" "contents b = bytes_of_word32 (of_nat n) @ data" and data: "length data = n" "n < 2 ^ 32"
    and i: "parts (rs_reqs s) i = (p, l)" and fits: "p + n \<le> length (rs_dest s)"
    and dest: "dest = take p (rs_dest s) @ data @ drop (p + n) (rs_dest s)" "got = rs_done s + n"
    and s2: "(if n < l then request_block C i (p + n) (l - n) (s\<lparr>rs_dest := dest, rs_done := got\<rparr>)
              else Some (retire i (s\<lparr>rs_dest := dest, rs_done := got\<rparr>))) = Some s2"
  shows "read_reply C i SSH2_FXP_DATA b s = Some (None, pop_finished s2)"
proof -
  have n: "unat (of_nat n :: 32 word) = n"
    using data(2) by (simp add: unat_of_nat take_bit_nat_eq_self)
  obtain b1 where b1: "buffer_read_gint32 b = Some (of_nat n, b1)" "buffer_ok b1" "contents b1 = data"
    using message.readsD [OF reads_gint32 b] by auto
  then have "fst (buffer_read b1 n) = data" using buffer_read_ok(1) [of b1 data "[]"] data(1) by simp
  then have "store_bytes p (fst (buffer_read b1 n)) (rs_dest s) = Some dest"
    using fits data(1) by (simp add: store_bytes_def dest(1))
  then show ?thesis
    using b1(1) i s2 by (auto simp: read_reply_def parts_def Let_def n dest(2) SSH2_FXP_DATA_def SSH2_FXP_STATUS_def split: if_splits)
qed

lemma stepped:
  assumes "good off N old s R D" and "R v \<noteq> None" and fits: "unat off + N < 2 ^ 64"
  shows "\<exists>s'. read_step (ctx off) s = Some (None, s') \<and> progress off N old s R s'"
proof -
  have g: "wired off s R" "plan doc (unat off) N old R (rs_curr s) (rs_num s) (rs_done s) (rs_eof s) (rs_dest s) D"
    using assms(1) by (simp_all add: good_def)
  have reqs: "plan_requests R (rs_curr s) D" and room: "rs_curr s \<le> N" "N \<le> length (rs_dest s)"
    using g(2) by (simp_all add: plan_def plan_data_def)
  obtain k b j p l body where recv: "buffer_recv P (buffer_clear (rs_msg s)) in_fd (rs_kernel s) = Some (GNOME_VFS_OK, b, k)"
    and b: "buffer_ok b" "contents b = body" and R: "R j = Some (p, l)" and ans: "answers doc (off + of_nat p) (of_nat l) j body"
    and k: "hushed_wire k" "reqs k = (on_wire off R)(j := None)"
    using received [OF g(1) assms(2)] plan_requestsD [OF reqs] by blast
  note req = plan_requestsD [OF reqs R]
  have words: "unat (off + of_nat p) = unat off + p" "unat (of_nat l :: guint) = l"
    using req room fits by (simp_all add: unat_word_ariths unat_of_nat take_bit_nat_eq_self default_req_len_def)
  obtain i where i: "find (\<lambda>i. idents (rs_reqs s) i = j) (ring (rs_svc s) (rs_ptr s)) = Some i"
    "i \<in> active (idents (rs_reqs s)) (rs_svc s) (rs_ptr s)" "idents (rs_reqs s) i = j" "parts (rs_reqs s) i = (p, l)"
    using represents_find [of "idents (rs_reqs s)" "parts (rs_reqs s)" "rs_svc s" "rs_ptr s" R j "(p, l)"] g(1) R by (auto simp: wired_def)
  let ?s1 = "s\<lparr>rs_out := rs_out s - 1, rs_msg := b, rs_kernel := k\<rparr>"
  have step: "read_step (ctx off) s = read_reply (ctx off) i t b1 ?s1" if "read_header b = Some (t, j, b1)" for t b1
    using that recv i(1) by (simp add: read_step_def ctx_def idents_def)
  from ans show ?thesis
  proof cases
    case (answers_data n)
    let ?data = "take n (drop (unat off + p) doc)"
    have "(of_nat l :: guint) \<noteq> 0" using words(2) req by (metis not_less_zero unat_0)
    then have n: "0 < n" "n \<le> l" "unat off + p + n \<le> length doc" "length ?data = n" using answers_data words by simp_all
    obtain b1 where b1: "read_header b = Some (SSH2_FXP_DATA, j, b1)" "buffer_ok b1" "contents b1 = bytes_of_word32 (of_nat n) @ ?data"
      using header_read [of b SSH2_FXP_DATA j "bytes_of_word32 (of_nat n) @ ?data"] b answers_data(1) words(1) n(4)
      by (simp add: data_body_def del: length_take length_drop) blast
    define dest where "dest = take p (rs_dest s) @ ?data @ drop (p + n) (rs_dest s)"
    have upd: "?s1\<lparr>rs_dest := dest, rs_done := rs_done s + n\<rparr> = received_state k b (rs_num s) (rs_eof s) dest (rs_done s + n) s"
      by (simp add: received_state_def)
    obtain s2 where s2: "(if n < l then request_block (ctx off) i (p + n) (l - n) (?s1\<lparr>rs_dest := dest, rs_done := rs_done s + n\<rparr>)
        else Some (retire i (?s1\<lparr>rs_dest := dest, rs_done := rs_done s + n\<rparr>))) = Some s2" "progress off N old s R (pop_finished s2)"
      using answered [OF assms(1) R i(2,3) k b(1) n(1-3) dest_def] unfolding upd by blast
    have "read_reply (ctx off) i SSH2_FXP_DATA b1 ?s1 = Some (None, pop_finished s2)"
      by (rule reply_data [OF b1(2,3) n(4) _ _ _ _ _ s2(1)])
        (use n(2) req room i(4) in \<open>simp_all add: default_req_len_def dest_def\<close>)
    then show ?thesis using step [OF b1(1)] s2(2) by simp
  next
    case (answers_eof extra)
    obtain b1 where b1: "read_header b = Some (SSH2_FXP_STATUS, j, b1)" "buffer_ok b1" "contents b1 = bytes_of_word32 SSH2_FX_EOF @ extra"
      using header_read [of b SSH2_FXP_STATUS j "bytes_of_word32 SSH2_FX_EOF @ extra"] b answers_eof(1) by (auto simp: eof_body_def)
    have "read_reply (ctx off) i SSH2_FXP_STATUS b1 ?s1 =
        Some (None, pop_finished (retire i (received_state k b (min (rs_num s) p) (rs_eof s \<or> p = 0) (rs_dest s) (rs_done s) s)))"
      using reply_eof [OF b1(2,3), of ?s1 i p l "ctx off"] i(4) by (simp add: received_state_def)
    moreover have "length doc \<le> unat off + p" using answers_eof(2) words(1) by simp
    ultimately show ?thesis using step [OF b1(1)] ended [OF assms(1) R i(2,3) k b(1)] by simp
  qed
qed

lemma nothing_out: "wired off s R \<Longrightarrow> rs_out s = 0 \<longleftrightarrow> dom R = {}"
proof -
  assume w: "wired off s R"
  then have rep: "represents (idents (rs_reqs s)) (parts (rs_reqs s)) (rs_svc s) (rs_ptr s) R" by (simp add: wired_def)
  have "unat (of_nat (card (dom R)) :: guint) = card (dom R)"
    using represents_card [OF rep] by (simp add: unat_of_nat take_bit_nat_eq_self queue_len_9)
  then show ?thesis
    using w represents_finite [OF rep] by (metis card_0_eq unat_0 unat_eq_0 wired_def)
qed

text \<open>The loop ends, with everything read and nothing under way.\<close>

lemma loop_ends:
  assumes "good off N old s R D" and "tidy s R" and fits: "unat off + N < 2 ^ 64"
  shows "\<exists>s' R' D'. read_loop (ctx off) s = Some (None, s') \<and> good off N old s' R' D' \<and> dom R' = {} \<and> rs_num s' \<le> rs_done s'"
  using assms
proof (induction "budget R (rs_curr s) (rs_num s)" arbitrary: s R D rule: less_induct)
  case less
  have w: "wired off s R" using less.prems(1) by (simp add: good_def)
  show ?case
  proof (cases "rs_done s < rs_num s \<or> rs_out s \<noteq> 0")
    case False
    then have "read_loop (ctx off) s = Some (None, s)" by (subst read_loop.simps) simp
    then show ?thesis using False less.prems(1) nothing_out [OF w] by auto
  next
    case True
    obtain s1 R1 where s1: "request_loop (ctx off) s = Some s1" "good off N old s1 R1 D"
      "budget R1 (rs_curr s1) (rs_num s1) \<le> budget R (rs_curr s) (rs_num s)" "rs_num s1 = rs_num s" "rs_done s1 = rs_done s"
      "dom R1 = {} \<longrightarrow> rs_num s1 \<le> rs_curr s1" "dom R \<subseteq> dom R1"
      using requested [OF less.prems(1,2)] by blast
    have "dom R1 \<noteq> {}"
    proof
      assume none: "dom R1 = {}"
      then have "rs_num s \<le> rs_done s"
        using plan_not_stuck [OF _ none] s1 unfolding good_def by fastforce
      then show False using True nothing_out [OF w] none s1(7) by auto
    qed
    then obtain v where "R1 v \<noteq> None" by (auto simp: dom_def)
    then obtain s2 where s2: "read_step (ctx off) s1 = Some (None, s2)" "progress off N old s1 R1 s2"
      using stepped [OF s1(2) _ fits] by blast
    have "read_loop (ctx off) s = read_loop (ctx off) s2"
      using True s1(1) s2(1) by (subst read_loop.simps) simp
    moreover obtain R2 D2 where "good off N old s2 R2 D2" "tidy s2 R2"
      "budget R2 (rs_curr s2) (rs_num s2) < budget R (rs_curr s) (rs_num s)"
      using s2(2) s1(3) unfolding progress_def by fastforce
    ultimately show ?thesis using less.hyps [of R2 s2 D2] fits by simp
  qed
qed

lemma start_good:
  assumes "hushed_wire k" "reqs k = (\<lambda>v. None)" and "msg_id \<noteq> 0" "unat msg_id + 2 * N < 2 ^ 32" "N \<le> length old"
  shows "good off N old (read_start old N msg_id k) (\<lambda>v. None) {}" "tidy (read_start old N msg_id k) (\<lambda>v. None)"
  using assms by (simp_all add: good_def wired_def tidy_def read_start_def represents_start plan_start budget_def on_wire_def)

lemma read_loop_complete:
  assumes "hushed_wire k" "reqs k = (\<lambda>v. None)" and "msg_id \<noteq> 0" "unat msg_id + 2 * N < 2 ^ 32" "N \<le> length old"
    and "unat off + N < 2 ^ 64"
  shows "\<exists>s. read_loop (ctx off) (read_start old N msg_id k) = Some (None, s)
           \<and> rs_done s = readable doc (unat off) N \<and> rs_eof s = (readable doc (unat off) N = 0 \<and> 0 < N)
           \<and> rs_dest s = take (rs_done s) (drop (unat off) doc) @ drop (rs_done s) old
           \<and> hushed_wire (rs_kernel s) \<and> reqs (rs_kernel s) = (\<lambda>v. None)"
proof -
  obtain s R D where s: "read_loop (ctx off) (read_start old N msg_id k) = Some (None, s)" "good off N old s R D" "dom R = {}"
    "rs_num s \<le> rs_done s"
    using loop_ends [OF start_good(1) [OF assms(1-5)] start_good(2) [OF assms(1-5)] assms(6)] by blast
  have plan: "plan doc (unat off) N old R (rs_curr s) (rs_num s) (rs_done s) (rs_eof s) (rs_dest s) D"
    and w: "wired off s R" using s(2) by (simp_all add: good_def)
  note d = plan_done [OF plan s(4)]
  have "R = (\<lambda>v. None)" using s(3) by auto
  moreover have "rs_dest s = take (rs_done s) (drop (unat off) doc) @ drop (rs_done s) old"
    using d(4,5) append_take_drop_id [of "rs_done s" "rs_dest s"] by simp
  ultimately show ?thesis using s(1) d(1,2) w by (auto simp: wired_def on_wire_def)
qed

end

end
