(* ===== verification/VFS_Sftp_Write.thy ===== *)
theory VFS_Sftp_Write
  imports VFS_Sftp_Ring VFS_Sftp_Wire
begin

text \<open>
  Writing to a file server: under the locale \<open>sftp_store\<close>, a wire with a server that stores what
  is sent and acknowledges in any order, the loop of \<^verbatim>\<open>do_write\<close> ends and the document has the bytes.
\<close>

section \<open>A server for writing\<close>

definition write_body :: "string \<Rightarrow> guint \<Rightarrow> 64 word \<Rightarrow> string \<Rightarrow> string" where
  "write_body handle i off data =
     SSH2_FXP_WRITE # bytes_of_word32 i @ bytes_of_word32 (of_nat (length handle)) @ handle @ bytes_of_word64 off
       @ bytes_of_word32 (of_nat (length data)) @ data"

definition ok_body :: "guint \<Rightarrow> string \<Rightarrow> string" where
  "ok_body i extra = SSH2_FXP_STATUS # bytes_of_word32 i @ bytes_of_word32 SSH2_FX_OK @ extra"

text \<open>A file after data was written at an offset; a gap is filled with zeros.\<close>

definition write_at :: "string \<Rightarrow> nat \<Rightarrow> string \<Rightarrow> string" where
  "write_at f off data =
     (if data = [] then f else take off (f @ replicate (off - length f) (CHR 0x00)) @ data @ drop (off + length data) f)"

lemma write_at_append:
  assumes "b \<noteq> []"
  shows "write_at (write_at f off a) (off + length a) b = write_at f off (a @ b)"
proof (cases "a = []")
  case False
  define g where "g = take off (f @ replicate (off - length f) (CHR 0x00))"
  have "length g = off" by (simp add: g_def)
  moreover have "min (length f) off + (off - length f) = off" by simp
  ultimately show ?thesis using False assms by (simp add: write_at_def flip: g_def) (simp add: ac_simps)
qed (simp add: write_at_def)

text \<open>
  A server for one open file. It carries the requests out in the order in which they arrive, and
  acknowledges them in any order. Its state is the file and the identifiers of the requests that
  are not acknowledged.
\<close>

locale sftp_store =
  sftp_wire P in_fd out_fd ok part inc st
    "\<lambda>(i, off, data). write_body handle i off data" "\<lambda>(i, off, data) fS. i \<notin> snd fS \<and> length data \<le> default_req_len"
    "\<lambda>(i, off, data) fS. (write_at (fst fS) (unat off) data, insert i (snd fS))" "\<lambda>fS. snd fS \<noteq> {}"
    "\<lambda>fS body fS'. \<exists>j extra. j \<in> snd fS \<and> body = ok_body j extra \<and> length extra \<le> 1024 \<and> fS' = (fst fS, snd fS - {j})"
  for P :: "'k posix" and in_fd out_fd :: nat and handle :: string
    and ok :: "'k \<Rightarrow> bool" and part inc :: "'k \<Rightarrow> string" and st :: "'k \<Rightarrow> string \<times> guint set"

section \<open>Writing\<close>

definition wr_idents :: "WriteRequest list \<Rightarrow> nat \<Rightarrow> guint" where "wr_idents qs i = wq_id (qs ! i)"
definition wr_lens :: "WriteRequest list \<Rightarrow> nat \<Rightarrow> nat" where "wr_lens qs i = wq_len (qs ! i)"

lemma wr_slots_update:
  "i < length qs \<Longrightarrow> wr_idents (qs[i := q]) = (wr_idents qs)(i := wq_id q)"
  "i < length qs \<Longrightarrow> wr_lens (qs[i := q]) = (wr_lens qs)(i := wq_len q)"
  by (auto simp: wr_idents_def wr_lens_def fun_eq_iff)

lemma pop_written_tail: "pop_written s = s\<lparr>ws_svc := tail (wr_idents (ws_reqs s)) (ws_svc s) (ws_ptr s)\<rparr>"
  by (simp add: pop_written_def tail_def wr_idents_def)

definition total :: "(guint \<Rightarrow> nat option) \<Rightarrow> nat" where "total R = (\<Sum>v \<in> dom R. the (R v))"

lemma total_add: "finite (dom R) \<Longrightarrow> R v = None \<Longrightarrow> total (R(v \<mapsto> n)) = total R + n"
proof -
  assume "finite (dom R)" "R v = None"
  moreover from this have "(\<Sum>w \<in> dom R. the ((R(v \<mapsto> n)) w)) = (\<Sum>w \<in> dom R. the (R w))"
    by (intro sum.cong) (auto simp: domIff)
  ultimately show ?thesis by (simp add: total_def domIff)
qed

lemma total_drop: "finite (dom R) \<Longrightarrow> R v = Some n \<Longrightarrow> total R = total (R(v := None)) + n"
proof -
  assume R: "finite (dom R)" "R v = Some n"
  then have "R = (R(v := None))(v \<mapsto> n)" by auto
  then show ?thesis using total_add [of "R(v := None)" v n] R(1) by simp
qed

context sftp_store
begin

definition wctx :: "64 word \<Rightarrow> 'k read_context" where
  "wctx off = \<lparr>rc_posix = P, rc_in_fd = in_fd, rc_out_fd = out_fd, rc_handle = handle, rc_offset = off\<rparr>"

text \<open>
  What holds while \<open>buffer\<close> is written to a file that held \<open>f\<close>: \<open>R\<close> gives the length of every block
  that was sent and not acknowledged. The file is ahead of the acknowledgements.
\<close>

definition sane :: "64 word \<Rightarrow> string \<Rightarrow> string \<Rightarrow> 'k write_state \<Rightarrow> (guint \<Rightarrow> nat option) \<Rightarrow> bool" where
  "sane off f buffer s R \<longleftrightarrow>
     length (ws_reqs s) = queue_len \<and> represents (wr_idents (ws_reqs s)) (wr_lens (ws_reqs s)) (ws_svc s) (ws_ptr s) R
     \<and> hushed_wire (ws_kernel s) \<and> st (ws_kernel s) = (write_at f (unat off) (take (unat (ws_curr s)) buffer), dom R)
     \<and> buffer_ok (ws_msg s) \<and> (\<forall>v \<in> dom R. v < ws_msg_id s) \<and> ws_msg_id s \<noteq> 0 \<and> (\<forall>v n. R v = Some n \<longrightarrow> 0 < n)
     \<and> ws_done s + total R = unat (ws_curr s) \<and> unat (ws_curr s) \<le> length buffer
     \<and> unat (ws_msg_id s) + (length buffer - unat (ws_curr s)) < 2 ^ 32"

definition wtidy :: "'k write_state \<Rightarrow> (guint \<Rightarrow> nat option) \<Rightarrow> bool" where
  "wtidy s R \<longleftrightarrow> (dom R = {} \<longrightarrow> ws_svc s = ws_ptr s)"

lemma block_sent:
  assumes sane: "sane off f buffer s R" and small: "length buffer < 2 ^ 32" "unat off + length buffer < 2 ^ 64"
    and more: "unat (ws_curr s) < length buffer" "(ws_ptr s + 1) mod queue_len \<noteq> ws_svc s"
  defines "n \<equiv> min (length buffer - unat (ws_curr s)) default_req_len"
  defines "msg \<equiv> write_message (wctx off) (ws_msg s) (ws_msg_id s) (ws_curr s) (take n (drop (unat (ws_curr s)) buffer))"
  shows "\<exists>k. buffer_send P msg out_fd (ws_kernel s) = Some (GNOME_VFS_OK, k)
    \<and> sane off f buffer
        (s\<lparr>ws_reqs := (ws_reqs s)[ws_ptr s := \<lparr>wq_id = ws_msg_id s, wq_len = n, wq_offset = ws_curr s\<rparr>],
           ws_ptr := (ws_ptr s + 1) mod queue_len, ws_curr := ws_curr s + of_nat n, ws_msg := msg,
           ws_msg_id := ws_msg_id s + 1, ws_kernel := k\<rparr>) (R(ws_msg_id s \<mapsto> n))
    \<and> 0 < n \<and> unat (ws_curr s + of_nat n) = unat (ws_curr s) + n"
proof -
  let ?c = "unat (ws_curr s)" and ?v = "ws_msg_id s" and ?data = "take n (drop (unat (ws_curr s)) buffer)"
  have n: "0 < n" "?c + n \<le> length buffer" using more(1) by (simp_all add: n_def default_req_len_def)
  have data: "length ?data = n" "?data \<noteq> []" using n by auto
  have s: "length (ws_reqs s) = queue_len" "represents (wr_idents (ws_reqs s)) (wr_lens (ws_reqs s)) (ws_svc s) (ws_ptr s) R"
    "hushed_wire (ws_kernel s)" "st (ws_kernel s) = (write_at f (unat off) (take ?c buffer), dom R)" "buffer_ok (ws_msg s)"
    "\<forall>v \<in> dom R. v < ?v" "?v \<noteq> 0" "ws_done s + total R = ?c" "unat ?v + (length buffer - ?c) < 2 ^ 32"
    "\<forall>v n. R v = Some n \<longrightarrow> 0 < n"
    using sane unfolding sane_def by blast+
  have curr: "unat (ws_curr s + of_nat n) = ?c + n"
    using n small(1) by (simp add: unat_word_ariths unat_of_nat take_bit_nat_eq_self)
  have id: "unat (?v + 1) = unat ?v + 1" using s(9) more(1) by (simp add: unat_word_ariths)
  have fresh: "R ?v = None" using s(6) by (metis domIff order.strict_iff_order)
  have fin: "finite (dom R)" by (rule represents_finite [OF s(2)])
  have pos: "unat (off + ucast (ws_curr s)) = unat off + ?c"
    using n small(2) by (simp add: unat_word_ariths unsigned_ucast_eq take_bit_nat_eq_self)
  have msg: "buffer_ok msg" "contents msg = write_body handle ?v (off + ucast (ws_curr s)) ?data"
    using buffer_clear_ok [OF s(5)] data(1) by (simp_all add: msg_def write_message_def write_body_def wctx_def)
  obtain k where k: "buffer_send P msg out_fd (ws_kernel s) = Some (GNOME_VFS_OK, k)" "hushed_wire k"
    "st k = (write_at (write_at f (unat off) (take ?c buffer)) (unat off + ?c) ?data, insert ?v (dom R))"
    using send_request [OF s(3) msg(1), of "(?v, off + ucast (ws_curr s), ?data)"] msg(2) fresh by (auto simp: s(4) pos domIff n_def)
  have "write_at (write_at f (unat off) (take ?c buffer)) (unat off + ?c) ?data = write_at f (unat off) (take (?c + n) buffer)"
    using write_at_append [OF data(2), of f "unat off" "take ?c buffer"] more(1) by (simp add: take_add min_absorb2)
  then have st: "st k = (write_at f (unat off) (take (?c + n) buffer), dom (R(?v \<mapsto> n)))" using k(3) by simp
  have ptr: "ws_ptr s < length (ws_reqs s)" using s(1,2) by (simp add: represents_def)
  have "represents (wr_idents ((ws_reqs s)[ws_ptr s := \<lparr>wq_id = ?v, wq_len = n, wq_offset = ws_curr s\<rparr>]))
          (wr_lens ((ws_reqs s)[ws_ptr s := \<lparr>wq_id = ?v, wq_len = n, wq_offset = ws_curr s\<rparr>]))
          (ws_svc s) ((ws_ptr s + 1) mod queue_len) (R(?v \<mapsto> n))"
    using represents_add [OF s(2) more(2) s(7) fresh, of n] ptr by (simp add: wr_slots_update)
  moreover have "?v < ?v + 1" "?v + 1 \<noteq> 0" using id by (auto simp: word_less_nat_alt)
  moreover from this have "\<forall>v \<in> dom (R(?v \<mapsto> n)). v < ?v + 1"
    using s(6) order.strict_trans by (metis dom_fun_upd insertE option.simps(3))
  moreover have "\<forall>v m. (R(?v \<mapsto> n)) v = Some m \<longrightarrow> 0 < m" using s(10) n(1) by simp
  moreover have "ws_done s + total (R(?v \<mapsto> n)) = ?c + n" using s(8) total_add [where R = R and v = ?v, OF fin fresh] by simp
  ultimately show ?thesis
    using k(1,2) st msg(1) n s(1,9) curr id unfolding sane_def by (intro exI [of _ k]) (simp del: dom_fun_upd fun_upd_apply)
qed

lemma all_sent:
  assumes "sane off f buffer s R" and "wtidy s R" and small: "length buffer < 2 ^ 32" "unat off + length buffer < 2 ^ 64"
  shows "\<exists>s' R'. send_loop (wctx off) buffer s = Some s' \<and> sane off f buffer s' R' \<and> ws_done s' = ws_done s
           \<and> (dom R' = {} \<longrightarrow> length buffer \<le> ws_done s')"
  using assms(1,2)
proof (induction "length buffer - unat (ws_curr s)" arbitrary: s R rule: less_induct)
  case less
  show ?case
  proof (cases "unat (ws_curr s) < length buffer \<and> (ws_ptr s + 1) mod queue_len \<noteq> ws_svc s")
    case False
    have s: "ws_ptr s < queue_len" "ws_done s + total R = unat (ws_curr s)"
      using less.prems(1) unfolding sane_def represents_def by blast+
    then have "(ws_ptr s + 1) mod queue_len \<noteq> ws_ptr s" unfolding queue_len_9 by presburger
    then have "dom R = {} \<longrightarrow> length buffer \<le> ws_done s" using less.prems(2) False s(2) unfolding wtidy_def total_def by auto
    moreover have "send_loop (wctx off) buffer s = Some s" using False by (subst send_loop.simps) (simp only: if_False)
    ultimately show ?thesis using less.prems(1) by auto
  next
    case True
    define n where "n = min (length buffer - unat (ws_curr s)) default_req_len"
    define msg where "msg = write_message (wctx off) (ws_msg s) (ws_msg_id s) (ws_curr s) (take n (drop (unat (ws_curr s)) buffer))"
    from block_sent [OF less.prems(1) small] True obtain k where
      k: "buffer_send P msg out_fd (ws_kernel s) = Some (GNOME_VFS_OK, k)"
      and n: "0 < n" "unat (ws_curr s + of_nat n) = unat (ws_curr s) + n"
      and sane: "sane off f buffer
        (s\<lparr>ws_reqs := (ws_reqs s)[ws_ptr s := \<lparr>wq_id = ws_msg_id s, wq_len = n, wq_offset = ws_curr s\<rparr>],
           ws_ptr := (ws_ptr s + 1) mod queue_len, ws_curr := ws_curr s + of_nat n, ws_msg := msg,
           ws_msg_id := ws_msg_id s + 1, ws_kernel := k\<rparr>) (R(ws_msg_id s \<mapsto> n))" (is "sane _ _ _ ?s ?R")
      unfolding n_def [symmetric] msg_def [symmetric] by blast
    have "wtidy ?s ?R" by (simp add: wtidy_def)
    moreover have "length buffer - unat (ws_curr ?s) < length buffer - unat (ws_curr s)" using True n by (simp add: diff_less_mono2)
    ultimately obtain s' R' where "send_loop (wctx off) buffer ?s = Some s'" "sane off f buffer s' R'" "ws_done s' = ws_done s"
      "dom R' = {} \<longrightarrow> length buffer \<le> ws_done s'"
      using less.hyps [OF _ sane] by auto
    moreover have "send_loop (wctx off) buffer s = send_loop (wctx off) buffer ?s"
      using True k by (subst send_loop.simps) (simp add: Let_def wctx_def flip: n_def, simp add: msg_def wctx_def)
    ultimately show ?thesis by auto
  qed
qed

lemma acknowledged:
  assumes sane: "sane off f buffer s R" and "dom R \<noteq> {}"
  shows "\<exists>s' R'. write_step (wctx off) s = Some (None, s') \<and> sane off f buffer s' R' \<and> wtidy s' R' \<and> ws_done s < ws_done s'"
proof -
  have s: "length (ws_reqs s) = queue_len" "represents (wr_idents (ws_reqs s)) (wr_lens (ws_reqs s)) (ws_svc s) (ws_ptr s) R"
    "hushed_wire (ws_kernel s)" "snd (st (ws_kernel s)) = dom R" "buffer_ok (ws_msg s)" "ws_done s + total R = unat (ws_curr s)"
    using sane unfolding sane_def by auto
  have "length body \<le> 256 * 1024"
    if "\<exists>j extra. j \<in> snd (st (ws_kernel s)) \<and> body = ok_body j extra \<and> length extra \<le> 1024 \<and> t = (fst (st (ws_kernel s)), snd (st (ws_kernel s)) - {j})"
    for body t using that by (auto simp: ok_body_def)
  then obtain k b j extra where r: "buffer_recv P (buffer_clear (ws_msg s)) in_fd (ws_kernel s) = Some (GNOME_VFS_OK, b, k)" "buffer_ok b"
    "contents b = ok_body j extra" "j \<in> dom R" "st k = (fst (st (ws_kernel s)), dom R - {j})" "hushed_wire k"
    using recv_answer [OF s(3), of "buffer_clear (ws_msg s)"] buffer_clear_ok [OF s(5)] assms(2) s(4) by (simp, blast)
  then obtain n where R: "R j = Some n" by auto
  obtain i where i: "find (\<lambda>i. wr_idents (ws_reqs s) i = j) (ring (ws_svc s) (ws_ptr s)) = Some i"
    "i \<in> active (wr_idents (ws_reqs s)) (ws_svc s) (ws_ptr s)" "wr_idents (ws_reqs s) i = j" "wr_lens (ws_reqs s) i = n"
    using represents_find [OF s(2) R] by auto
  have len: "i < length (ws_reqs s)" using i(2) s(1) ring_less by (auto simp: active_def)
  obtain b1 where b1: "read_header b = Some (SSH2_FXP_STATUS, j, b1)" "buffer_ok b1" "contents b1 = bytes_of_word32 SSH2_FX_OK @ extra"
    using header_read [of b SSH2_FXP_STATUS j "bytes_of_word32 SSH2_FX_OK @ extra"] r(2,3) by (auto simp: ok_body_def)
  then obtain b2 where b2: "buffer_read_gint32 b1 = Some (SSH2_FX_OK, b2)"
    using message.readsD [OF reads_gint32 b1(2,3)] by auto
  let ?qs = "(ws_reqs s)[i := (ws_reqs s ! i)\<lparr>wq_id := 0\<rparr>]"
  have "wr_idents ?qs = (wr_idents (ws_reqs s))(i := 0)" "wr_lens ?qs = wr_lens (ws_reqs s)"
    using len by (auto simp: wr_slots_update wr_lens_def fun_eq_iff)
  then have rep: "represents (wr_idents ?qs) (wr_lens ?qs) (ws_svc s) (ws_ptr s) (R(j := None))"
    using represents_retire [OF s(2) i(2)] i(3) by simp
  define s' where "s' = pop_written (s\<lparr>ws_msg := b, ws_kernel := k, ws_reqs := ?qs, ws_done := ws_done s + n\<rparr>)"
  have step: "write_step (wctx off) s = Some (None, s')"
    using r(1) b1(1) b2 i by (simp add: write_step_def wctx_def wr_idents_def wr_lens_def Let_def s'_def)
  have "total R = total (R(j := None)) + n" by (rule total_drop [OF represents_finite [OF s(2)] R])
  moreover have "fst (st (ws_kernel s)) = write_at f (unat off) (take (unat (ws_curr s)) buffer)" "\<forall>v \<in> dom R. v < ws_msg_id s"
    "ws_msg_id s \<noteq> 0" "\<forall>v n. R v = Some n \<longrightarrow> 0 < n" "unat (ws_curr s) \<le> length buffer"
    "unat (ws_msg_id s) + (length buffer - unat (ws_curr s)) < 2 ^ 32"
    using sane unfolding sane_def by auto
  ultimately have "sane off f buffer s' (R(j := None))"
    using r(2,5,6) s(1,6) represents_tail [OF rep] unfolding sane_def s'_def by (simp add: pop_written_tail)
  moreover have "wtidy s' (R(j := None))"
    using represents_none [OF rep] by (simp add: wtidy_def s'_def pop_written_tail)
  moreover have "0 < n" using sane R unfolding sane_def by blast
  then have "ws_done s < ws_done s'" by (simp add: s'_def pop_written_tail)
  ultimately show ?thesis using step by blast
qed

lemma acknowledge_loop_ends:
  assumes "sane off f buffer s R" and "wtidy s R" and small: "length buffer < 2 ^ 32" "unat off + length buffer < 2 ^ 64"
  shows "\<exists>s' R'. acknowledge_loop (wctx off) buffer s = Some (None, s') \<and> sane off f buffer s' R' \<and> length buffer \<le> ws_done s'"
  using assms(1,2)
proof (induction "length buffer - ws_done s" arbitrary: s R rule: less_induct)
  case less
  show ?case
  proof (cases "ws_done s < length buffer")
    case False
    then have "acknowledge_loop (wctx off) buffer s = Some (None, s)" by (subst acknowledge_loop.simps) simp
    then show ?thesis using False less.prems(1) by auto
  next
    case True
    obtain s1 R1 where s1: "send_loop (wctx off) buffer s = Some s1" "sane off f buffer s1 R1" "ws_done s1 = ws_done s"
      "dom R1 = {} \<longrightarrow> length buffer \<le> ws_done s1"
      using all_sent [OF less.prems small] by blast
    then have "dom R1 \<noteq> {}" using True by auto
    then obtain s2 R2 where s2: "write_step (wctx off) s1 = Some (None, s2)" "sane off f buffer s2 R2" "wtidy s2 R2" "ws_done s1 < ws_done s2"
      using acknowledged [OF s1(2)] by blast
    have "acknowledge_loop (wctx off) buffer s = acknowledge_loop (wctx off) buffer s2"
      using True s1(1) s2(1) by (subst acknowledge_loop.simps) simp
    then show ?thesis using less.hyps [OF _ s2(2,3)] s1(3) s2(4) True by auto
  qed
qed

lemma acknowledge_loop_complete:
  assumes "hushed_wire k" "st k = (f, {})" and "msg_id \<noteq> 0" "unat msg_id + length buffer < 2 ^ 32" "unat off + length buffer < 2 ^ 64"
  shows "\<exists>s. acknowledge_loop (wctx off) buffer (write_start msg_id k) = Some (None, s) \<and> ws_done s = length buffer
           \<and> hushed_wire (ws_kernel s) \<and> st (ws_kernel s) = (write_at f (unat off) buffer, {})"
proof -
  have "sane off f buffer (write_start msg_id k) (\<lambda>v. None)" "wtidy (write_start msg_id k) (\<lambda>v. None)"
    using assms by (simp_all add: sane_def wtidy_def write_start_def represents_start total_def write_at_def)
  then obtain s R where s: "acknowledge_loop (wctx off) buffer (write_start msg_id k) = Some (None, s)" "sane off f buffer s R" "length buffer \<le> ws_done s"
    using acknowledge_loop_ends assms(4,5) by force
  have d: "ws_done s + total R = unat (ws_curr s)" "unat (ws_curr s) \<le> length buffer" "\<forall>v n. R v = Some n \<longrightarrow> 0 < n" "hushed_wire (ws_kernel s)"
    "st (ws_kernel s) = (write_at f (unat off) (take (unat (ws_curr s)) buffer), dom R)" "finite (dom R)"
    using s(2) represents_finite unfolding sane_def by blast+
  then have "total R = 0" using s(3) by simp
  then have "\<forall>v \<in> dom R. the (R v) = 0" using d(6) by (simp add: total_def)
  then have "R v = None" for v using d(3) by (metis domI less_irrefl not_None_eq option.sel)
  then have "dom R = {}" by (simp add: dom_def)
  with d s show ?thesis by auto
qed

end

end
