(* ===== verification/VFS_Sftp_Memory.thy ===== *)
theory VFS_Sftp_Memory
  imports VFS_Sftp_Read VFS_Sftp_Write
begin

text \<open>
  A server in memory that interprets the locales of the wire, of reading and of writing, and the two
  theorems on \<^verbatim>\<open>do_read\<close> and \<^verbatim>\<open>do_write\<close> over it.
\<close>

section \<open>A server in memory\<close>

text \<open>
  It takes five bytes at a time and gives seven, answers the newest request first and sends at
  most three bytes of the document in a reply.
\<close>

record mem_server =
  ms_part :: string
  ms_inc :: string
  ms_reqs :: "(guint \<times> 64 word \<times> guint) list"

definition whole :: "string \<Rightarrow> bool" where
  "whole s \<longleftrightarrow> 4 \<le> length s \<and> length s = 4 + unat (word32_of_bytes (take 4 s))"

definition decode_read :: "string \<Rightarrow> guint \<times> 64 word \<times> guint" where
  "decode_read body =
     (let n = unat (word32_of_bytes (take 4 (drop 5 body)))
      in (word32_of_bytes (take 4 (drop 1 body)), word64_of_bytes (take 8 (drop (9 + n) body)), word32_of_bytes (take 4 (drop (17 + n) body))))"

definition mem_write :: "string \<Rightarrow> mem_server \<Rightarrow> (errno_code + nat) \<times> mem_server" where
  "mem_write data k =
     (let n = min 5 (length data); s = ms_part k @ take n data
      in (Inr n, if whole s then k\<lparr>ms_part := [], ms_reqs := decode_read (drop 4 s) # ms_reqs k\<rparr> else k\<lparr>ms_part := s\<rparr>))"

definition mem_answer :: "string \<Rightarrow> guint \<times> 64 word \<times> guint \<Rightarrow> string" where
  "mem_answer doc q =
     (case q of (i, off, len) \<Rightarrow>
        if length doc \<le> unat off then eof_body i ''End of file''
        else data_body i (take (min 3 (min (unat len) (length doc - unat off))) (drop (unat off) doc)))"

definition mem_give :: "nat \<Rightarrow> mem_server \<Rightarrow> (errno_code + string) \<times> mem_server" where
  "mem_give n k = (Inr (take (min 7 n) (ms_inc k)), k\<lparr>ms_inc := drop (min 7 n) (ms_inc k)\<rparr>)"

definition mem_read :: "string \<Rightarrow> nat \<Rightarrow> mem_server \<Rightarrow> (errno_code + string) \<times> mem_server" where
  "mem_read doc n k =
     (if ms_inc k \<noteq> [] then mem_give n k
      else case ms_reqs k of
             [] \<Rightarrow> (Inr [], k)
           | q # qs \<Rightarrow> mem_give n (k\<lparr>ms_inc := frame (mem_answer doc q), ms_reqs := qs\<rparr>))"

lemma whole_frame:
  assumes "length body < 2 ^ 32" and "frame body = s @ t"
  shows "whole s \<longleftrightarrow> t = []"
proof -
  have body: "unat (of_nat (length body) :: 32 word) = length body"
    using assms(1) by (simp add: unat_of_nat take_bit_nat_eq_self)
  have len: "length s + length t = 4 + length body" using arg_cong [OF assms(2), of length] by simp
  show ?thesis
  proof (cases "4 \<le> length s")
    case True
    then have "take 4 s = take 4 (frame body)" using assms(2) by simp
    then have "take 4 s = bytes_of_word32 (of_nat (length body))" by (simp add: frame_def)
    then show ?thesis using len True body by (auto simp: whole_def)
  next
    case False
    then have "t \<noteq> []" using len by auto
    with False show ?thesis by (simp add: whole_def)
  qed
qed

lemma decode_read_body:
  assumes "length handle < 2 ^ 31"
  shows "decode_read (read_body handle i off len) = (i, off, len)"
proof -
  have "unat (of_nat (length handle) :: 32 word) = length handle"
    using assms by (simp add: unat_of_nat take_bit_nat_eq_self)
  then show ?thesis by (simp add: decode_read_def read_body_def Let_def drop_Cons')
qed

lemma mem_answer_answers: "answers doc off len i (mem_answer doc (i, off, len))"
proof (cases "length doc \<le> unat off")
  case True
  then show ?thesis by (simp add: mem_answer_def answers_eof)
next
  case False
  define n where "n = min 3 (min (unat len) (length doc - unat off))"
  have "n \<le> unat len" "unat off + n \<le> length doc" "0 < n \<or> len = 0"
    using False by (auto simp: n_def unat_gt_0 word_neq_0_conv)
  then show ?thesis
    using answers_data [of n len off doc i] False by (simp add: mem_answer_def n_def)
qed

definition mem_posix :: "string \<Rightarrow> mem_server posix" where
  "mem_posix doc = undefined\<lparr>px_write := (\<lambda>fd. mem_write), px_read := (\<lambda>fd n. mem_read doc (unat n))\<rparr>"

definition mem_ok :: "mem_server \<Rightarrow> bool" where "mem_ok k \<longleftrightarrow> distinct (map fst (ms_reqs k))"

lemma mem_serves:
  assumes handle: "length handle < 2 ^ 31"
  shows "sftp_server (mem_posix doc) in_fd out_fd handle doc mem_ok ms_part ms_inc (\<lambda>k. map_of (ms_reqs k))"
proof (unfold_locales, goal_cases)
  case (1 k q data)
  obtain i off len where q: "q = (i, off, len)" by (cases q) auto
  note 1 = 1 [unfolded q prod.case]
  let ?F = "frame (read_body handle i off len)" and ?n = "min 5 (length data)"
  have body: "length (read_body handle i off len) < 2 ^ 32" using handle by (simp add: read_body_def)
  have "?F = (ms_part k @ take ?n data) @ drop ?n data" using 1(3) by simp
  from whole_frame [OF body this] have whole: "whole (ms_part k @ take ?n data) \<longleftrightarrow> length data \<le> 5"
    by auto
  show ?case
  proof (cases "length data \<le> 5")
    case True
    then have all: "take ?n data = data" "?n = length data" by simp_all
    have "decode_read (drop 4 (ms_part k @ data)) = (i, off, len)"
      using decode_read_body [OF handle] 1(3) by (simp add: frame_def)
    moreover have "i \<notin> fst ` set (ms_reqs k)" using 1(2) by (simp add: map_of_eq_None_iff)
    ultimately show ?thesis
      unfolding q using 1 True whole all by (intro exI [of _ "length data"] exI [of _ "k\<lparr>ms_part := [], ms_reqs := (i, off, len) # ms_reqs k\<rparr>"]) (simp add: mem_posix_def mem_write_def Let_def mem_ok_def)
  next
    case False
    then show ?thesis
      unfolding q using 1 whole by (intro exI [of _ 5] exI) (auto simp: mem_posix_def mem_write_def Let_def mem_ok_def)
  qed
next
  case (2 k sz)
  then show ?case
    by (auto simp: mem_posix_def mem_read_def mem_give_def mem_ok_def unat_gt_0 word_neq_0_conv)
next
  case (3 k sz)
  then obtain j off len qs where q: "ms_reqs k = (j, off, len) # qs"
    by (cases "ms_reqs k") auto
  then have qs: "map_of qs = (map_of (ms_reqs k))(j := None)" "distinct (map fst qs)"
    using 3(1) by (auto simp: mem_ok_def fun_eq_iff map_of_eq_None_iff)
  define F m where "F = frame (mem_answer doc (j, off, len))" and "m = min 7 (unat sz)"
  let ?k = "k\<lparr>ms_inc := drop m F, ms_reqs := qs\<rparr>"
  have "0 < m" using 3(5) by (simp add: m_def unat_gt_0 word_neq_0_conv)
  then have "take m F \<noteq> []" "length (take m F) \<le> unat sz" "F = take m F @ ms_inc ?k" by (simp_all add: F_def m_def)
  moreover have "px_read (mem_posix doc) in_fd sz k = (Inr (take m F), ?k)"
    using 3(2) q by (simp add: mem_posix_def mem_read_def mem_give_def F_def m_def)
  moreover have "map_of (ms_reqs k) j = Some (off, len)" using q by simp
  moreover have "mem_ok ?k" "ms_part ?k = []" "map_of (ms_reqs ?k) = (map_of (ms_reqs k))(j := None)"
    using 3(3) qs by (simp_all add: mem_ok_def)
  ultimately show ?case using mem_answer_answers [of doc off len j] F_def by blast
qed

interpretation mem: sftp_server "mem_posix doc" in_fd out_fd "''H1''" doc mem_ok ms_part ms_inc "\<lambda>k. map_of (ms_reqs k)"
  for doc in_fd out_fd
  by (rule mem_serves) simp

section \<open>Reading is complete\<close>

text \<open>
  C4. Reading over SFTP. The module requests blocks ahead, puts the replies, which may come in any
  order and may be shorter than asked for, where they belong, requests what is missing, and
  shortens its aim when the server reports the end of the file. Whatever order and sizes a server
  that keeps the protocol chooses, and however the descriptors cut the messages: the function
  returns, the caller's buffer holds exactly the bytes of the file from the handle's offset on,
  as many as were asked for or as there are, the rest of the buffer is as before, the count
  is right, the result is EOF when bytes were asked for and there were none, the offset has
  moved on by the count, the connection is unlocked again, and no request is left without its answer.
\<close>

theorem sftp_read_complete:
  fixes ok :: "'k \<Rightarrow> bool"
  assumes server: "sftp_server (se_posix E) (sc_in_fd conn) (sc_out_fd conn) (sh_sftp_handle hnd) doc ok part inc reqs"
    and w: "sw_handles w h = Some hnd" "sw_connections w (sh_connection hnd) = Some conn" "\<not> sc_locked conn"
    and k: "ok (sw_kernel w)" "part (sw_kernel w) = []" "inc (sw_kernel w) = []" "reqs (sw_kernel w) = (\<lambda>v. None)"
    and n: "sc_msg_id conn \<noteq> 0" "unat (sc_msg_id conn) + 2 * N < 2 ^ 32" "N \<le> length dest" "unat (sh_offset hnd) + N < 2 ^ 64"
  shows "\<exists>w' m. let n = min N (length doc - unat (sh_offset hnd))
     in sftp_do_read E h dest N w =
          Some (if n = 0 \<and> 0 < N then GNOME_VFS_ERROR_EOF else GNOME_VFS_OK,
                take n (drop (unat (sh_offset hnd)) doc) @ drop n dest, n, w')
        \<and> sw_handles w' = (sw_handles w)(h \<mapsto> hnd\<lparr>sh_offset := sh_offset hnd + of_nat n\<rparr>)
        \<and> sw_connections w' = (sw_connections w)(sh_connection hnd \<mapsto> conn\<lparr>sc_msg_id := m\<rparr>)
        \<and> ok (sw_kernel w') \<and> part (sw_kernel w') = [] \<and> inc (sw_kernel w') = [] \<and> reqs (sw_kernel w') = (\<lambda>v. None)"
proof -
  let ?C = "\<lparr>rc_posix = se_posix E, rc_in_fd = sc_in_fd conn, rc_out_fd = sc_out_fd conn,
             rc_handle = sh_sftp_handle hnd, rc_offset = sh_offset hnd\<rparr>"
  have ctx: "sftp_server.ctx (se_posix E) (sc_in_fd conn) (sc_out_fd conn) (sh_sftp_handle hnd) (sh_offset hnd) = ?C"
    by (rule sftp_server.ctx_def [OF server])
  have hushed_wire: "sftp_wire.hushed_wire ok part inc k = (ok k \<and> part k = [] \<and> inc k = [])" for k
    by (rule sftp_wire.hushed_wire_def [OF sftp_server.axioms [OF server]])
  obtain s where s: "read_loop ?C (read_start dest N (sc_msg_id conn) (sw_kernel w)) = Some (None, s)"
    "rs_done s = readable doc (unat (sh_offset hnd)) N" "rs_eof s = (readable doc (unat (sh_offset hnd)) N = 0 \<and> 0 < N)"
    "rs_dest s = take (rs_done s) (drop (unat (sh_offset hnd)) doc) @ drop (rs_done s) dest"
    "ok (rs_kernel s)" "part (rs_kernel s) = []" "inc (rs_kernel s) = []" "reqs (rs_kernel s) = (\<lambda>v. None)"
    using sftp_server.read_loop_complete [OF server _ k(4) n] k(1-3) unfolding ctx hushed_wire by blast
  define w' where "w' = w\<lparr>sw_connections := (sw_connections w)(sh_connection hnd \<mapsto> conn\<lparr>sc_msg_id := rs_msg_id s\<rparr>),
      sw_kernel := rs_kernel s, sw_handles := (sw_handles w)(h \<mapsto> hnd\<lparr>sh_offset := sh_offset hnd + of_nat (rs_done s)\<rparr>)\<rparr>"
  have unlocked: "conn\<lparr>sc_msg_id := m, sc_locked := False\<rparr> = conn\<lparr>sc_msg_id := m\<rparr>" for m using w(3) by (cases conn) simp
  have "sftp_do_read E h dest N w = Some (if rs_eof s then GNOME_VFS_ERROR_EOF else GNOME_VFS_OK, rs_dest s, rs_done s, w')"
    using w s(1) by (simp add: sftp_do_read_def sftp_connection_lock_def sftp_connection_unlock_def set_connection_def w'_def unlocked)
  then show ?thesis
    using s(2-8) by (intro exI [of _ w'] exI [of _ "rs_msg_id s"]) (simp add: Let_def w'_def readable_def)
qed

definition mem_connection :: SftpConnection where
  "mem_connection = \<lparr>sc_in_fd = 5, sc_out_fd = 6, sc_msg_id = 41, sc_version = 3, sc_ref_count = 1, sc_close_timeout = False,
                       sc_locked = False, sc_hash_name = ''host''\<rparr>"

definition mem_handle :: "64 word \<Rightarrow> SftpOpenHandle" where
  "mem_handle off = \<lparr>sh_sftp_handle = ''H1'', sh_connection = 0, sh_offset = off, sh_info = [], sh_info_read_ptr = 0,
                     sh_info_write_ptr = 0, sh_path = ''/a'', sh_dir_options = 0\<rparr>"

definition mem_world :: "mem_server sftp_world" where
  "mem_world = \<lparr>sw_kernel = \<lparr>ms_part = [], ms_inc = [], ms_reqs = []\<rparr>, sw_connections = [0 \<mapsto> mem_connection],
                sw_handles = [3 \<mapsto> mem_handle 7], sw_next = 4, sw_table = [''host'' \<mapsto> 0], sw_next_connection = 1\<rparr>"

definition mem_env :: "string \<Rightarrow> mem_server sftp_env" where
  "mem_env doc = undefined\<lparr>se_posix := mem_posix doc\<rparr>"

theorem sftp_read_complete_witness:
  "\<exists>w'. sftp_do_read (mem_env ''hello, world'') 3 ''.........'' 9 mem_world = Some (GNOME_VFS_OK, ''world....'', length ''world'', w')
      \<and> sw_handles w' = [3 \<mapsto> mem_handle 12] \<and> ms_reqs (sw_kernel w') = []"
proof -
  have reqs: "map_of (ms_reqs k) = (\<lambda>v. None) \<longleftrightarrow> ms_reqs k = []" for k
    by (cases "ms_reqs k") (auto simp: fun_eq_iff)
  have "sftp_server (se_posix (mem_env ''hello, world'')) (sc_in_fd mem_connection) (sc_out_fd mem_connection)
      (sh_sftp_handle (mem_handle 7)) ''hello, world'' mem_ok ms_part ms_inc (\<lambda>k. map_of (ms_reqs k))"
    using mem_serves [of "''H1''" "''hello, world''"] by (simp add: mem_env_def mem_handle_def)
  from sftp_read_complete [OF this, of mem_world 3 9 "''.........''"] show ?thesis
    by (simp add: Let_def mem_world_def mem_connection_def mem_handle_def mem_ok_def reqs) blast
qed

section \<open>A store in memory\<close>

record mem_store =
  mt_part :: string
  mt_inc :: string
  mt_file :: string
  mt_ids :: "guint list"

definition decode_write :: "string \<Rightarrow> guint \<times> 64 word \<times> string" where
  "decode_write body =
     (let n = unat (word32_of_bytes (take 4 (drop 5 body)))
      in (word32_of_bytes (take 4 (drop 1 body)), word64_of_bytes (take 8 (drop (9 + n) body)), drop (21 + n) body))"

definition store_write :: "string \<Rightarrow> mem_store \<Rightarrow> (errno_code + nat) \<times> mem_store" where
  "store_write data k =
     (let n = min 5 (length data); s = mt_part k @ take n data
      in (Inr n, if whole s
                 then (case decode_write (drop 4 s) of
                         (i, off, d) \<Rightarrow> k\<lparr>mt_part := [], mt_file := write_at (mt_file k) (unat off) d, mt_ids := i # mt_ids k\<rparr>)
                 else k\<lparr>mt_part := s\<rparr>))"

definition store_give :: "nat \<Rightarrow> mem_store \<Rightarrow> (errno_code + string) \<times> mem_store" where
  "store_give n k = (Inr (take (min 7 n) (mt_inc k)), k\<lparr>mt_inc := drop (min 7 n) (mt_inc k)\<rparr>)"

definition store_read :: "nat \<Rightarrow> mem_store \<Rightarrow> (errno_code + string) \<times> mem_store" where
  "store_read n k =
     (if mt_inc k \<noteq> [] then store_give n k
      else case mt_ids k of
             [] \<Rightarrow> (Inr [], k)
           | i # is \<Rightarrow> store_give n (k\<lparr>mt_inc := frame (ok_body i ''Success''), mt_ids := is\<rparr>))"

definition store_posix :: "mem_store posix" where
  "store_posix = undefined\<lparr>px_write := (\<lambda>fd. store_write), px_read := (\<lambda>fd n. store_read (unat n))\<rparr>"

definition store_ok :: "mem_store \<Rightarrow> bool" where "store_ok k \<longleftrightarrow> distinct (mt_ids k)"

lemma decode_write_body:
  assumes "length handle < 2 ^ 31"
  shows "decode_write (write_body handle i off data) = (i, off, data)"
proof -
  have "unat (of_nat (length handle) :: 32 word) = length handle"
    using assms by (simp add: unat_of_nat take_bit_nat_eq_self)
  then show ?thesis by (simp add: decode_write_def write_body_def Let_def drop_Cons')
qed

lemma store_serves:
  assumes handle: "length handle < 2 ^ 31"
  shows "sftp_store store_posix in_fd out_fd handle store_ok mt_part mt_inc (\<lambda>k. (mt_file k, set (mt_ids k)))"
proof (unfold_locales, goal_cases)
  case (1 k q data)
  obtain i off d where q: "q = (i, off, d)" by (cases q) auto
  note 1 = 1 [unfolded q prod.case]
  let ?F = "frame (write_body handle i off d)" and ?n = "min 5 (length data)"
  have body: "length (write_body handle i off d) < 2 ^ 32" using handle 1(2) by (simp add: write_body_def default_req_len_def)
  have "?F = (mt_part k @ take ?n data) @ drop ?n data" using 1(3) by simp
  from whole_frame [OF body this] have whole: "whole (mt_part k @ take ?n data) \<longleftrightarrow> length data \<le> 5"
    by auto
  show ?case
  proof (cases "length data \<le> 5")
    case True
    then have all: "take ?n data = data" "?n = length data" by simp_all
    have "decode_write (drop 4 (mt_part k @ data)) = (i, off, d)"
      using decode_write_body [OF handle] 1(3) by (simp add: frame_def)
    then show ?thesis
      unfolding q using 1 True whole all
      by (intro exI [of _ "length data"] exI [of _ "k\<lparr>mt_part := [], mt_file := write_at (mt_file k) (unat off) d, mt_ids := i # mt_ids k\<rparr>"])
        (simp add: store_posix_def store_write_def Let_def store_ok_def)
  next
    case False
    then show ?thesis
      unfolding q using 1 whole by (intro exI [of _ 5] exI) (auto simp: store_posix_def store_write_def Let_def store_ok_def)
  qed
next
  case (2 k sz)
  then show ?case
    by (auto simp: store_posix_def store_read_def store_give_def store_ok_def unat_gt_0 word_neq_0_conv)
next
  case (3 k sz)
  then obtain j ids where q: "mt_ids k = j # ids"
    by (cases "mt_ids k") auto
  define F m where "F = frame (ok_body j ''Success'')" and "m = min 7 (unat sz)"
  let ?k = "k\<lparr>mt_inc := drop m F, mt_ids := ids\<rparr>"
  have "0 < m" using 3(5) by (simp add: m_def unat_gt_0 word_neq_0_conv)
  then have "take m F \<noteq> []" "length (take m F) \<le> unat sz" "F = take m F @ mt_inc ?k" by (simp_all add: F_def m_def)
  moreover have "px_read store_posix in_fd sz k = (Inr (take m F), ?k)"
    using 3(2) q by (simp add: store_posix_def store_read_def store_give_def F_def m_def)
  moreover have "store_ok ?k" "mt_part ?k = []" "set ids = set (mt_ids k) - {j}" "j \<in> set (mt_ids k)"
    using 3(1,3) q by (auto simp: store_ok_def)
  moreover from this have "\<exists>j' extra. j' \<in> set (mt_ids k) \<and> ok_body j ''Success'' = ok_body j' extra \<and> length extra \<le> 1024
      \<and> (mt_file ?k, set (mt_ids ?k)) = (mt_file k, set (mt_ids k) - {j'})"
    by (intro exI [of _ j] exI [of _ "''Success''"]) simp
  ultimately show ?case unfolding F_def fst_conv snd_conv by blast
qed

interpretation mem_store: sftp_store store_posix in_fd out_fd "''H1''" store_ok mt_part mt_inc "\<lambda>k. (mt_file k, set (mt_ids k))"
  for in_fd out_fd
  by (rule store_serves) simp

section \<open>Writing is complete\<close>

text \<open>
  C7. Writing over SFTP, to a server that carries the requests out in the order in which they
  arrive and acknowledges them in any order: the function returns OK, the file is the old one with
  the caller's bytes at the handle's offset, all bytes are counted, the offset has moved on by their
  number, the connection is unlocked again, and every request has been acknowledged. Less than
  \<open>2 ^ 32\<close> bytes are written at once; the code's offset into the buffer has 32 bits.
\<close>

theorem sftp_write_complete:
  fixes ok :: "'k \<Rightarrow> bool"
  assumes server: "sftp_store (se_posix E) (sc_in_fd conn) (sc_out_fd conn) (sh_sftp_handle hnd) ok part inc st"
    and w: "sw_handles w h = Some hnd" "sw_connections w (sh_connection hnd) = Some conn" "\<not> sc_locked conn"
    and k: "ok (sw_kernel w)" "part (sw_kernel w) = []" "inc (sw_kernel w) = []" "st (sw_kernel w) = (f, {})"
    and n: "sc_msg_id conn \<noteq> 0" "unat (sc_msg_id conn) + length buffer < 2 ^ 32" "unat (sh_offset hnd) + length buffer < 2 ^ 64"
  shows "\<exists>w' m. sftp_do_write E h buffer w = Some (GNOME_VFS_OK, length buffer, w')
    \<and> st (sw_kernel w') = (write_at f (unat (sh_offset hnd)) buffer, {})
    \<and> sw_handles w' = (sw_handles w)(h \<mapsto> hnd\<lparr>sh_offset := sh_offset hnd + of_nat (length buffer)\<rparr>)
    \<and> sw_connections w' = (sw_connections w)(sh_connection hnd \<mapsto> conn\<lparr>sc_msg_id := m\<rparr>)
    \<and> ok (sw_kernel w') \<and> part (sw_kernel w') = [] \<and> inc (sw_kernel w') = []"
proof -
  let ?C = "\<lparr>rc_posix = se_posix E, rc_in_fd = sc_in_fd conn, rc_out_fd = sc_out_fd conn,
             rc_handle = sh_sftp_handle hnd, rc_offset = sh_offset hnd\<rparr>"
  have ctx: "sftp_store.wctx (se_posix E) (sc_in_fd conn) (sc_out_fd conn) (sh_sftp_handle hnd) (sh_offset hnd) = ?C"
    by (rule sftp_store.wctx_def [OF server])
  have hushed_wire: "sftp_wire.hushed_wire ok part inc k = (ok k \<and> part k = [] \<and> inc k = [])" for k
    by (rule sftp_wire.hushed_wire_def [OF sftp_store.axioms [OF server]])
  obtain s where s: "acknowledge_loop ?C buffer (write_start (sc_msg_id conn) (sw_kernel w)) = Some (None, s)" "ws_done s = length buffer"
    "ok (ws_kernel s)" "part (ws_kernel s) = []" "inc (ws_kernel s) = []" "st (ws_kernel s) = (write_at f (unat (sh_offset hnd)) buffer, {})"
    using sftp_store.acknowledge_loop_complete [OF server _ k(4) n] k(1-3) unfolding ctx hushed_wire by blast
  define w' where "w' = w\<lparr>sw_connections := (sw_connections w)(sh_connection hnd \<mapsto> conn\<lparr>sc_msg_id := ws_msg_id s\<rparr>),
      sw_kernel := ws_kernel s, sw_handles := (sw_handles w)(h \<mapsto> hnd\<lparr>sh_offset := sh_offset hnd + of_nat (ws_done s)\<rparr>)\<rparr>"
  have unlocked: "conn\<lparr>sc_msg_id := m, sc_locked := False\<rparr> = conn\<lparr>sc_msg_id := m\<rparr>" for m using w(3) by (cases conn) simp
  have "sftp_do_write E h buffer w = Some (GNOME_VFS_OK, ws_done s, w')"
    using w s(1) by (simp add: sftp_do_write_def sftp_connection_lock_def sftp_connection_unlock_def set_connection_def w'_def unlocked)
  then show ?thesis
    using s(2-6) by (intro exI [of _ w'] exI [of _ "ws_msg_id s"]) (simp add: w'_def)
qed

theorem sftp_write_complete_witness:
  "\<exists>w'. sftp_do_write (undefined\<lparr>se_posix := store_posix\<rparr>) 3 ''there!''
        \<lparr>sw_kernel = \<lparr>mt_part = [], mt_inc = [], mt_file = ''hello, world'', mt_ids = []\<rparr>, sw_connections = [0 \<mapsto> mem_connection],
         sw_handles = [3 \<mapsto> mem_handle 7], sw_next = 4, sw_table = [''host'' \<mapsto> 0], sw_next_connection = 1\<rparr> = Some (GNOME_VFS_OK, length ''there!'', w')
      \<and> mt_file (sw_kernel w') = ''hello, there!'' \<and> sw_handles w' = [3 \<mapsto> mem_handle 13]"
proof -
  have "sftp_store (se_posix (undefined\<lparr>se_posix := store_posix\<rparr>)) (sc_in_fd mem_connection) (sc_out_fd mem_connection)
      (sh_sftp_handle (mem_handle 7)) store_ok mt_part mt_inc (\<lambda>k. (mt_file k, set (mt_ids k)))"
    using store_serves [of "''H1''"] by (simp add: mem_handle_def)
  from sftp_write_complete [OF this, of "\<lparr>sw_kernel = \<lparr>mt_part = [], mt_inc = [], mt_file = ''hello, world'', mt_ids = []\<rparr>,
      sw_connections = [0 \<mapsto> mem_connection], sw_handles = [3 \<mapsto> mem_handle 7], sw_next = 4, sw_table = [''host'' \<mapsto> 0], sw_next_connection = 1\<rparr>" 3 "''hello, world''" "''there!''"]
  show ?thesis
    by (simp add: mem_connection_def mem_handle_def store_ok_def write_at_def) blast
qed

end
