(* ===== verification/VFS_Sftp_Inv.thy ===== *)
theory VFS_Sftp_Inv
  imports VFS_Sftp_Ops VFS_Post
begin

text \<open>
  Locks and reference counts of the SFTP module: what holds of the connections and the handles
  whenever no function of the module is running.
\<close>

section \<open>The invariant\<close>

text \<open>The open handles of a connection.\<close>

definition opened :: "'k sftp_world \<Rightarrow> nat \<Rightarrow> nat set" where
  "opened w c = {h. \<exists>hnd. sw_handles w h = Some hnd \<and> sh_connection hnd = c}"

text \<open>
  Handles belong to live connections. A connection is locked if \<open>L\<close> says so; its reference count is the
  number of its handles and \<open>X\<close> more; without any reference it waits for its timeout; and the
  table names the live connections and no others.
\<close>

definition conn_ok :: "'k sftp_world \<Rightarrow> bool \<Rightarrow> nat \<Rightarrow> nat \<Rightarrow> SftpConnection \<Rightarrow> bool" where
  "conn_ok w locked extra c conn \<longleftrightarrow>
     sc_locked conn = locked \<and> sc_ref_count conn = of_nat (card (opened w c) + extra)
     \<and> (card (opened w c) + extra = 0 \<longrightarrow> sc_close_timeout conn) \<and> sw_table w (sc_hash_name conn) = Some c \<and> c < sw_next_connection w"

definition handles_live :: "'k sftp_world \<Rightarrow> bool" where
  "handles_live w \<longleftrightarrow> finite (dom (sw_handles w)) \<and> (\<forall>h \<in> dom (sw_handles w). h < sw_next w)
     \<and> (\<forall>h hnd. sw_handles w h = Some hnd \<longrightarrow> sw_connections w (sh_connection hnd) \<noteq> None)"

definition table_live :: "'k sftp_world \<Rightarrow> bool" where
  "table_live w \<longleftrightarrow> (\<forall>n c. sw_table w n = Some c \<longrightarrow> (\<exists>conn. sw_connections w c = Some conn \<and> sc_hash_name conn = n))"

definition world_with :: "(nat \<Rightarrow> bool) \<Rightarrow> (nat \<Rightarrow> nat) \<Rightarrow> 'k sftp_world \<Rightarrow> bool" where
  "world_with L X w \<longleftrightarrow> handles_live w \<and> table_live w \<and> (\<forall>c conn. sw_connections w c = Some conn \<longrightarrow> conn_ok w (L c) (X c) c conn)"

text \<open>No function is running; a function has the connection \<open>c\<close>, with a reference or (by a handle) without.\<close>

definition idle :: "'k sftp_world \<Rightarrow> bool" where
  "idle w \<longleftrightarrow> world_with (\<lambda>d. False) (\<lambda>d. 0) w"

definition held :: "nat \<Rightarrow> 'k sftp_world \<Rightarrow> bool" where
  "held c w \<longleftrightarrow> world_with (\<lambda>d. d = c) (\<lambda>d. if d = c then 1 else 0) w \<and> sw_connections w c \<noteq> None"

definition busy :: "nat \<Rightarrow> 'k sftp_world \<Rightarrow> bool" where
  "busy c w \<longleftrightarrow> world_with (\<lambda>d. d = c) (\<lambda>d. 0) w \<and> sw_connections w c \<noteq> None"

section \<open>Talking over a connection\<close>

text \<open>Only the system's state and the counters for identifiers change.\<close>

definition anonymous :: "'k sftp_world \<Rightarrow> nat \<Rightarrow> SftpConnection option" where
  "anonymous w c = map_option (sc_msg_id_update (\<lambda>n. 0)) (sw_connections w c)"

definition talk :: "'k sftp_world \<Rightarrow> 'k sftp_world \<Rightarrow> bool" where
  "talk w w' \<longleftrightarrow> sw_handles w' = sw_handles w \<and> sw_next w' = sw_next w \<and> sw_table w' = sw_table w
     \<and> sw_next_connection w' = sw_next_connection w \<and> anonymous w' = anonymous w"

lemma talk_refl [simp]: "talk w w"
  by (simp add: talk_def)

lemma talk_kernel [simp]: "talk w (w'\<lparr>sw_kernel := k\<rparr>) = talk w w'"
  by (simp add: talk_def anonymous_def fun_eq_iff)

lemma talk_connection:
  assumes "talk w w'" and "sw_connections w' c = Some conn'"
  shows "\<exists>conn i. sw_connections w c = Some conn \<and> conn' = conn\<lparr>sc_msg_id := i\<rparr>"
proof -
  have "anonymous w' c = anonymous w c" using assms(1) by (simp add: talk_def)
  then obtain conn where c: "sw_connections w c = Some conn" "conn'\<lparr>sc_msg_id := 0\<rparr> = conn\<lparr>sc_msg_id := 0\<rparr>"
    using assms(2) by (cases "sw_connections w c") (auto simp: anonymous_def)
  then have "conn' = conn\<lparr>sc_msg_id := sc_msg_id conn'\<rparr>" by (cases conn; cases conn') simp
  with c(1) show ?thesis by blast
qed

lemma talk_connections: "talk w w' \<Longrightarrow> sw_connections w' c = None \<longleftrightarrow> sw_connections w c = None"
  unfolding talk_def anonymous_def fun_eq_iff by (metis option.map_disc_iff)

lemma talk_opened: "talk w w' \<Longrightarrow> opened w' c = opened w c"
  by (simp add: opened_def talk_def)

lemma talk_conn_ok:
  assumes "talk w w'"
  shows "conn_ok w' l x c (conn\<lparr>sc_msg_id := i\<rparr>) = conn_ok w l x c conn"
  using assms talk_opened [OF assms] by (simp add: conn_ok_def) (simp add: talk_def)

lemma world_with_talk:
  assumes "talk w w'" and "world_with L X w"
  shows "world_with L X w'"
proof -
  have "handles_live w'"
    using assms talk_connections [OF assms(1)] by (simp add: world_with_def handles_live_def) (simp add: talk_def)
  moreover have "table_live w'"
    unfolding table_live_def
  proof (intro allI impI)
    fix n c assume "sw_table w' n = Some c"
    then have "sw_table w n = Some c" using assms(1) by (simp add: talk_def)
    then obtain conn where conn: "sw_connections w c = Some conn" "sc_hash_name conn = n"
      using assms(2) by (auto simp: world_with_def table_live_def)
    then obtain conn' where c': "sw_connections w' c = Some conn'" using talk_connections [OF assms(1), of c] by auto
    from talk_connection [OF assms(1) c'] conn obtain i where "conn' = conn\<lparr>sc_msg_id := i\<rparr>" by auto
    then show "\<exists>conn. sw_connections w' c = Some conn \<and> sc_hash_name conn = n" using c' conn(2) by simp
  qed
  moreover have "conn_ok w' (L c) (X c) c conn'" if "sw_connections w' c = Some conn'" for c conn'
  proof -
    from talk_connection [OF assms(1) that] obtain conn i where "sw_connections w c = Some conn" "conn' = conn\<lparr>sc_msg_id := i\<rparr>" by blast
    then show ?thesis using assms(2) talk_conn_ok [OF assms(1)] by (simp add: world_with_def)
  qed
  ultimately show ?thesis by (simp add: world_with_def)
qed

lemma talk_held: "talk w w' \<Longrightarrow> held c w \<Longrightarrow> held c w'"
  using world_with_talk [of w w'] talk_connections [of w w' c] by (simp add: held_def)

lemma talk_busy: "talk w w' \<Longrightarrow> busy c w \<Longrightarrow> busy c w'"
  using world_with_talk [of w w'] talk_connections [of w w' c] by (simp add: busy_def)

lemma talk_idle: "talk w w' \<Longrightarrow> idle w \<Longrightarrow> idle w'"
  using world_with_talk [of w w'] by (simp add: idle_def)

text \<open>Everything that is said over a connection.\<close>

named_theorems talks

lemma get_id_talks [talks]: "talk w0 w \<Longrightarrow> post (\<lambda>r. talk w0 (snd r)) (sftp_connection_get_id c w)"
proof -
  assume t: "talk w0 w"
  have "anonymous (set_connection c (conn\<lparr>sc_msg_id := i\<rparr>) w) = anonymous w" if "sw_connections w c = Some conn" for conn i
    using that by (auto simp: anonymous_def set_connection_def fun_eq_iff)
  with t show ?thesis
    by (auto simp: sftp_connection_get_id_def post_def talk_def split: bind_splits) (simp_all add: set_connection_def)
qed

lemma send_talks [talks]: "talk w0 w \<Longrightarrow> post (\<lambda>r. talk w0 r) (send_over E c msg w)"
  by (auto simp: send_over_def post_def split: bind_splits)

lemma result_talks [talks]: "talk w0 w \<Longrightarrow> post (\<lambda>r. talk w0 (snd r)) (read_result_over E c i w)"
  by (auto simp: read_result_over_def post_def split: bind_splits)

lemma lstat_talks [talks]: "talk w0 w \<Longrightarrow> post (\<lambda>r. talk w0 (snd (snd r))) (lstat_over E c path info w)"
  unfolding lstat_over_def
  by (rule bind2 [where P = "talk w0", OF get_id_talks]) (auto simp: post_def split: bind_splits)

lemma post_mono: "post P m \<Longrightarrow> (\<And>r. P r \<Longrightarrow> Q r) \<Longrightarrow> post Q m"
  by (simp add: post_def)

lemma post_map: "post (\<lambda>r. Q (f r)) m \<Longrightarrow> post Q (map_option f m)"
  by (auto simp: post_def)

lemma bind1: "post P m \<Longrightarrow> (\<And>s. P s \<Longrightarrow> post Q (f s)) \<Longrightarrow> post Q (Option.bind m f)"
  by (cases m) (auto simp: post_def)

lemma readlink_talks [talks]: "talk w0 w \<Longrightarrow> post (\<lambda>r. talk w0 (snd r)) (sftp_readlink E c path w)"
  unfolding sftp_readlink_def Let_def
  by (rule bind2 [where P = "talk w0"], erule get_id_talks, rule bind1, erule send_talks)
    (auto simp: post_def split: bind_splits)

lemma follow_talks [talks]: "talk w0 w \<Longrightarrow> post (\<lambda>r. talk w0 (snd (snd (snd r)))) (sftp_follow_links E c n path target info w)"
proof (induction n arbitrary: target info w)
  case (Suc n)
  show ?case
    unfolding sftp_follow_links.simps Let_def
    by (rule bind2 [where P = "talk w0"], rule readlink_talks [OF Suc.prems], rule post_rules, simp add: post_def,
        rule bind3 [where P = "talk w0"], erule lstat_talks, intro post_rules Suc.IH) (simp_all add: post_def)
qed (simp add: post_def)

lemma info_talks [talks]: "talk w0 w \<Longrightarrow> post (\<lambda>r. talk w0 (snd (snd r))) (get_file_info_for_path E c path info options w)"
  unfolding get_file_info_for_path_def Let_def
  by (rule post_value, rule post_if, simp add: post_def, rule bind3 [where P = "talk w0"], erule lstat_talks, rule post_if,
      simp add: post_def, rule bind3 [where P = "talk w0"], intro post_rules, simp, rule bind4 [where P = "talk w0"], erule follow_talks,
      simp add: post_def, rule bind2 [where P = "talk w0"], erule readlink_talks) (simp_all add: post_def)

lemma names_talk [talks]: "talk w0 w \<Longrightarrow> post (\<lambda>r. talk w0 (snd r)) (read_names E n b handle w)"
proof (induction n arbitrary: b handle w)
  case (Suc n)
  show ?case
    unfolding read_names.simps split_def
    by (rule post_value, rule post_value, rule post_value, rule post_value [of _ _ _], rule Suc.IH)
      (use Suc.prems in \<open>auto split: if_splits bind_splits dest!: info_talks [OF Suc.prems, THEN postD]\<close>)
qed (simp add: post_def)

section \<open>Changing the state\<close>

lemma opened_set_connection [simp]: "opened (set_connection c conn w) d = opened w d"
  by (simp add: opened_def set_connection_def)

lemma opened_finite: "handles_live w \<Longrightarrow> finite (opened w c)"
  by (rule finite_subset [of _ "dom (sw_handles w)"]) (auto simp: handles_live_def opened_def)

lemma world_with_set:
  assumes "world_with L X w" and "sw_connections w c = Some conn" and "conn_ok w l x c conn'" and "sc_hash_name conn' = sc_hash_name conn"
  shows "world_with (L(c := l)) (X(c := x)) (set_connection c conn' w)"
proof -
  have "table_live (set_connection c conn' w)"
    using assms unfolding world_with_def table_live_def set_connection_def by fastforce
  moreover have "conn_ok (set_connection c conn' w) (L d) (X d) d x = conn_ok w (L d) (X d) d x"
    "conn_ok (set_connection c conn' w) l x' d y = conn_ok w l x' d y" for d x x' y
    by (simp_all add: conn_ok_def) (simp_all add: set_connection_def)
  ultimately show ?thesis
    using assms unfolding world_with_def handles_live_def by (auto simp: set_connection_def)
qed

lemma lock_busy: "idle w \<Longrightarrow> post (busy c) (sftp_connection_lock c w)"
proof (rule postI)
  fix w' assume "idle w" "sftp_connection_lock c w = Some w'"
  then obtain conn where conn: "sw_connections w c = Some conn" "w' = set_connection c (conn\<lparr>sc_locked := True\<rparr>) w"
    by (auto simp: sftp_connection_lock_def split: bind_splits if_splits)
  moreover have "world_with (\<lambda>d. False) (\<lambda>d. 0) w" "conn_ok w True 0 c (conn\<lparr>sc_locked := True\<rparr>)"
    using \<open>idle w\<close> conn(1) by (auto simp: idle_def world_with_def conn_ok_def)
  ultimately have "world_with ((\<lambda>d. False)(c := True)) ((\<lambda>d. 0)(c := 0)) w'"
    using world_with_set [of "\<lambda>d. False" "\<lambda>d. 0" w c conn True 0 "conn\<lparr>sc_locked := True\<rparr>"] by simp
  moreover have "(\<lambda>d. False)(c := True) = (\<lambda>d. d = c)" "(\<lambda>d. 0 :: nat)(c := 0) = (\<lambda>d. 0)" by (auto simp: fun_eq_iff)
  ultimately show "busy c w'" using conn(2) by (simp add: busy_def) (simp add: set_connection_def)
qed

lemma unlock_idle: "busy c w \<Longrightarrow> post idle (sftp_connection_unlock c w)"
proof (rule postI)
  fix w' assume "busy c w" "sftp_connection_unlock c w = Some w'"
  then obtain conn where conn: "sw_connections w c = Some conn" "w' = set_connection c (conn\<lparr>sc_locked := False\<rparr>) w"
    by (auto simp: sftp_connection_unlock_def split: bind_splits)
  moreover have "world_with (\<lambda>d. d = c) (\<lambda>d. 0) w" "conn_ok w False 0 c (conn\<lparr>sc_locked := False\<rparr>)"
    using \<open>busy c w\<close> conn(1) by (auto simp: busy_def world_with_def conn_ok_def)
  ultimately have "world_with ((\<lambda>d. d = c)(c := False)) ((\<lambda>d. 0)(c := 0)) w'"
    using world_with_set [of "\<lambda>d. d = c" "\<lambda>d. 0" w c conn False 0 "conn\<lparr>sc_locked := False\<rparr>"] by simp
  moreover have "(\<lambda>d. d = c)(c := False) = (\<lambda>d. False)" "(\<lambda>d. 0 :: nat)(c := 0) = (\<lambda>d. 0)" by (auto simp: fun_eq_iff)
  ultimately show "idle w'" by (simp add: idle_def)
qed

lemma release_idle: "held c w \<Longrightarrow> post idle (release_connection c w)"
proof (rule postI)
  fix w' assume w: "held c w" and rel: "release_connection c w = Some w'"
  then obtain conn where c: "sw_connections w c = Some conn" by (auto simp: held_def)
  define conn' where "conn' = conn\<lparr>sc_ref_count := sc_ref_count conn - 1,
      sc_close_timeout := (sc_close_timeout conn \<or> sc_ref_count conn - 1 = 0), sc_locked := False\<rparr>"
  have w': "w' = set_connection c conn' w"
    using rel c by (simp add: release_connection_def sftp_connection_unref_def sftp_connection_unlock_def set_connection_def Let_def conn'_def)
  have "world_with (\<lambda>d. d = c) (\<lambda>d. if d = c then 1 else 0) w" "conn_ok w False 0 c conn'"
    using w c by (auto simp: held_def world_with_def conn_ok_def conn'_def)
  from world_with_set [OF this(1) c this(2)] have "world_with ((\<lambda>d. d = c)(c := False)) ((\<lambda>d. if d = c then 1 else 0)(c := 0)) w'"
    by (simp add: w' conn'_def)
  moreover have "(\<lambda>d. d = c)(c := False) = (\<lambda>d. False)" "(\<lambda>d. if d = c then 1 else 0 :: nat)(c := 0) = (\<lambda>d. 0)" by (auto simp: fun_eq_iff)
  ultimately show "idle w'" by (simp add: idle_def)
qed

text \<open>Handles come and go; each is a reference.\<close>

lemma world_with_new_handle:
  assumes "world_with L X w" and "sh_connection hnd = c" and "sw_connections w c \<noteq> None" and "X c = Suc n"
  shows "world_with L (X(c := n)) (snd (new_handle hnd w))"
proof -
  let ?w = "snd (new_handle hnd w)" and ?h = "sw_next w"
  have live: "handles_live w" and new: "sw_handles w ?h = None"
    using assms(1) by (auto simp: world_with_def handles_live_def dom_def)
  have opened: "opened ?w d = (if d = c then insert ?h (opened w d) else opened w d)" for d
    using new assms(2) by (auto simp: opened_def new_handle_def)
  moreover have "?h \<notin> opened w c" using new by (simp add: opened_def)
  ultimately have card: "card (opened ?w c) = Suc (card (opened w c))" "\<And>d. d \<noteq> c \<Longrightarrow> card (opened ?w d) = card (opened w d)"
    using opened_finite [OF live] by simp_all
  have "handles_live ?w" using live assms(2,3) by (auto simp: handles_live_def new_handle_def less_Suc_eq)
  moreover have "table_live ?w" using assms(1) by (simp add: world_with_def table_live_def new_handle_def)
  moreover have "conn_ok ?w (L d) ((X(c := n)) d) d conn" if "sw_connections ?w d = Some conn" for d conn
  proof -
    have "conn_ok w (L d) (X d) d conn" using that assms(1) by (simp add: world_with_def new_handle_def)
    then show ?thesis using card assms(4) by (cases "d = c") (simp_all add: conn_ok_def, simp_all add: new_handle_def)
  qed
  ultimately show ?thesis by (simp add: world_with_def)
qed

lemma world_with_drop_handle:
  assumes "world_with L X w" and "sw_handles w h = Some hnd" "sh_connection hnd = c"
  shows "world_with L (X(c := Suc (X c))) (w\<lparr>sw_handles := (sw_handles w)(h := None)\<rparr>)"
proof -
  let ?w = "w\<lparr>sw_handles := (sw_handles w)(h := None)\<rparr>"
  have live: "handles_live w" using assms(1) by (simp add: world_with_def)
  have opened: "opened ?w d = (if d = c then opened w d - {h} else opened w d)" for d
    using assms(2,3) by (auto simp: opened_def)
  moreover have "h \<in> opened w c" using assms(2,3) by (simp add: opened_def)
  ultimately have card: "card (opened w c) = Suc (card (opened ?w c))" "\<And>d. d \<noteq> c \<Longrightarrow> card (opened ?w d) = card (opened w d)"
    using opened_finite [OF live, of c] card_Suc_Diff1 [of "opened w c" h] by simp_all
  have "handles_live ?w" using live by (auto simp: handles_live_def)
  moreover have "table_live ?w" using assms(1) by (simp add: world_with_def table_live_def)
  moreover have "conn_ok ?w (L d) ((X(c := Suc (X c))) d) d conn" if "sw_connections ?w d = Some conn" for d conn
  proof -
    have "conn_ok w (L d) (X d) d conn" using that assms(1) by (simp add: world_with_def)
    then show ?thesis using card by (cases "d = c") (simp_all add: conn_ok_def)
  qed
  ultimately show ?thesis by (simp add: world_with_def)
qed

lemma world_with_keep_handle:
  assumes "world_with L X w" and "sw_handles w h = Some hnd" "sh_connection hnd' = sh_connection hnd"
  shows "world_with L X (w\<lparr>sw_handles := (sw_handles w)(h := Some hnd')\<rparr>)"
proof -
  let ?w = "w\<lparr>sw_handles := (sw_handles w)(h := Some hnd')\<rparr>"
  have "opened ?w d = opened w d" for d using assms(2,3) by (auto simp: opened_def)
  moreover have "handles_live ?w" using assms by (auto simp: world_with_def handles_live_def)
  ultimately show ?thesis
    using assms(1) by (simp add: world_with_def table_live_def conn_ok_def)
qed

section \<open>The operations\<close>

lemma connect_fresh:
  "post (\<lambda>(res, conn, k). \<forall>x. conn = Some x \<longrightarrow> sc_ref_count x = 1 \<and> \<not> sc_locked x) (sftp_connect E uri k)"
  unfolding sftp_connect_def Let_def split_def
  by (rule post_if, simp add: post_def, rule post_value, rule post_if, rule post_value, simp add: post_def,
      rule post_value, rule post_if, simp add: post_def, rule post_value) (simp add: post_def)

text \<open>A connection is got: locked, and with one more reference.\<close>

definition got :: "GnomeVFSResult \<Rightarrow> nat \<Rightarrow> 'k sftp_world \<Rightarrow> bool" where
  "got res c w \<longleftrightarrow> (if res = GNOME_VFS_OK then held c w else idle w)"

lemma found_held:
  assumes "idle w" and "sftp_connection_lock c w = Some w1" "sftp_connection_ref c w1 = Some w2"
  shows "held c w2"
proof -
  obtain conn where c: "sw_connections w c = Some conn" and w1: "w1 = set_connection c (conn\<lparr>sc_locked := True\<rparr>) w"
    using assms(2) by (auto simp: sftp_connection_lock_def split: bind_splits if_splits)
  define conn' where "conn' = conn\<lparr>sc_locked := True, sc_ref_count := sc_ref_count conn + 1, sc_close_timeout := False\<rparr>"
  have w2: "w2 = set_connection c conn' w"
    using assms(3) by (simp add: w1 sftp_connection_ref_def set_connection_def conn'_def)
  have "world_with (\<lambda>d. False) (\<lambda>d. 0) w" "conn_ok w True 1 c conn'"
    using assms(1) c by (auto simp: idle_def world_with_def conn_ok_def conn'_def)
  from world_with_set [OF this(1) c this(2)] have "world_with ((\<lambda>d. False)(c := True)) ((\<lambda>d. 0)(c := 1)) w2"
    by (simp add: w2 conn'_def)
  moreover have "(\<lambda>d. False)(c := True) = (\<lambda>d. d = c)" "(\<lambda>d. 0 :: nat)(c := 1) = (\<lambda>d. if d = c then 1 else 0)" by (auto simp: fun_eq_iff)
  ultimately show ?thesis by (simp add: held_def) (simp add: w2 set_connection_def)
qed

lemma made_held:
  assumes "idle w" and "sw_table w name = None" and conn: "sc_ref_count conn = 1" "sc_locked conn" "sc_hash_name conn = name"
  shows "held (sw_next_connection w) ((set_connection (sw_next_connection w) conn w)
           \<lparr>sw_table := (sw_table w)(name := Some (sw_next_connection w)), sw_next_connection := sw_next_connection w + 1\<rparr>)"
    (is "held ?c ?w")
proof -
  have w: "handles_live w" "table_live w" "\<And>c conn. sw_connections w c = Some conn \<Longrightarrow> conn_ok w False 0 c conn"
    using assms(1) by (simp_all add: idle_def world_with_def)
  have none: "sw_connections w ?c = None"
    using w(3) [of ?c] by (cases "sw_connections w ?c") (auto simp: conn_ok_def)
  then have "opened w ?c = {}" using w(1) by (fastforce simp: opened_def handles_live_def)
  then have opened: "opened ?w ?c = {}" "\<And>d. opened ?w d = opened w d" by (simp_all add: opened_def set_connection_def)
  have "handles_live ?w" using w(1) by (auto simp: handles_live_def set_connection_def)
  moreover have "table_live ?w"
    using w(2) assms(2) none conn(3) unfolding table_live_def by (auto simp: set_connection_def) (metis option.distinct(1))
  moreover have "conn_ok ?w (d = ?c) (if d = ?c then 1 else 0) d x" if "sw_connections ?w d = Some x" for d x
  proof (cases "d = ?c")
    case True
    then show ?thesis using that conn opened by (simp add: conn_ok_def set_connection_def)
  next
    case False
    then have "conn_ok w False 0 d x" using that w(3) by (simp add: set_connection_def)
    moreover from this assms(2) have "sc_hash_name x \<noteq> name" by (auto simp: conn_ok_def)
    ultimately show ?thesis using False opened(2) [of d] by (simp add: conn_ok_def)
  qed
  ultimately show ?thesis by (simp add: held_def world_with_def) (simp add: set_connection_def)
qed

lemma made_got:
  assumes w: "idle w" "sw_table w name = None" and r: "sftp_connect E uri (sw_kernel w) = Some (res, cn, k)"
  shows "post (\<lambda>(res, c, w'). got res c w')
    (let w1 = w\<lparr>sw_kernel := k\<rparr>
     in if res \<noteq> GNOME_VFS_OK then Some (res, 0, w1)
        else case cn of
               None \<Rightarrow> Some (GNOME_VFS_ERROR_INTERNAL, 0, w1)
             | Some conn \<Rightarrow>
                 let c = sw_next_connection w1
                 in Some (GNOME_VFS_OK, c,
                          (set_connection c (conn\<lparr>sc_locked := True, sc_hash_name := name\<rparr>) w1)
                            \<lparr>sw_table := (sw_table w1)(name := Some c), sw_next_connection := c + 1\<rparr>))"
proof -
  let ?w = "w\<lparr>sw_kernel := k\<rparr>"
  have idle: "idle ?w" using talk_idle [OF _ w(1)] by simp
  have "held (sw_next_connection ?w) ((set_connection (sw_next_connection ?w) (conn\<lparr>sc_locked := True, sc_hash_name := name\<rparr>) ?w)
           \<lparr>sw_table := (sw_table ?w)(name := Some (sw_next_connection ?w)), sw_next_connection := sw_next_connection ?w + 1\<rparr>)"
    if "cn = Some conn" for conn
    using made_held [OF idle, of name "conn\<lparr>sc_locked := True, sc_hash_name := name\<rparr>"] w(2) postD [OF connect_fresh r] that by simp
  then show ?thesis using idle by (auto simp: Let_def got_def post_def split: option.split)
qed

lemma get_connection_got: "idle w \<Longrightarrow> post (\<lambda>(res, c, w'). got res c w') (sftp_get_connection E uri w)"
  unfolding sftp_get_connection_def
proof (rule post_case_option, goal_cases)
  case (2 host)
  then show ?case
    unfolding Let_def [of "connection_hash_name uri host"]
  proof (rule_tac post_case_option, goal_cases)
    case 1
    then show ?case by (intro post_value) (auto simp del: Let_def intro!: made_got)
  next
    case (2 c)
    then show ?case using found_held by (auto simp: post_def got_def split: bind_splits)
  qed
qed (simp add: post_def got_def)

text \<open>What is done with a connection, or without one when none was got.\<close>

lemma with_connection:
  assumes "idle w" and "\<And>res w'. idle w' \<Longrightarrow> post Q (fail res w')" and "\<And>c w'. held c w' \<Longrightarrow> post Q (go c w')"
  shows "post Q (Option.bind (sftp_get_connection E uri w) (\<lambda>(res, c, w'). if res \<noteq> GNOME_VFS_OK then fail res w' else go c w'))"
proof (rule post_value)
  fix x assume "sftp_get_connection E uri w = Some x"
  with get_connection_got [OF assms(1)] have "case x of (res, c, w') \<Rightarrow> got res c w'" by (rule postD)
  then show "post Q (case x of (res, c, w') \<Rightarrow> if res \<noteq> GNOME_VFS_OK then fail res w' else go c w')"
    using assms(2,3) by (auto simp: got_def split: if_splits)
qed

lemma talk_trans: "talk w0 w \<Longrightarrow> talk w w' \<Longrightarrow> talk w0 w'"
  by (simp add: talk_def)

lemma talk_lock:
  assumes "sftp_connection_lock c w = Some w1"
  shows "sw_handles w1 = sw_handles w" "\<exists>conn. sw_connections w1 c = Some conn \<and> sc_locked conn"
  using assms by (auto simp: sftp_connection_lock_def set_connection_def split: bind_splits if_splits)

lemma talk_handles: "talk w w' \<Longrightarrow> sw_handles w' = sw_handles w"
  by (simp add: talk_def)

lemma new_handle_busy:
  assumes "held c w" and "sh_connection hnd = c"
  shows "busy c (snd (new_handle hnd w))"
proof -
  have "world_with (\<lambda>d. d = c) ((\<lambda>d. if d = c then 1 else 0)(c := 0)) (snd (new_handle hnd w))"
    using assms by (intro world_with_new_handle) (auto simp: held_def)
  moreover have "(\<lambda>d. if d = c then 1 else 0 :: nat)(c := 0) = (\<lambda>d. 0)" by (auto simp: fun_eq_iff)
  ultimately show ?thesis using assms(1) by (simp add: busy_def held_def) (simp add: new_handle_def)
qed

lemma release_commutes:
  "release_connection c w = Some w' \<Longrightarrow>
    release_connection c (w\<lparr>sw_handles := hs\<rparr>) = Some (w'\<lparr>sw_handles := hs\<rparr>)"
  by (auto simp: release_connection_def sftp_connection_unref_def sftp_connection_unlock_def set_connection_def Let_def
      split: bind_splits)

lemma release_drop:
  assumes "busy c w" and h: "sw_handles w h = Some hnd" "sh_connection hnd = c" and "release_connection c w = Some w'"
  shows "idle (w'\<lparr>sw_handles := (sw_handles w')(h := None)\<rparr>)"
proof -
  let ?d = "\<lambda>w. w\<lparr>sw_handles := (sw_handles w)(h := None)\<rparr>"
  have "world_with (\<lambda>d. d = c) (\<lambda>d. 0) w" using assms(1) by (simp add: busy_def)
  from world_with_drop_handle [OF this h] have "world_with (\<lambda>d. d = c) ((\<lambda>d. 0)(c := Suc 0)) (?d w)" .
  moreover have "(\<lambda>d. 0 :: nat)(c := Suc 0) = (\<lambda>d. if d = c then 1 else 0)" by (auto simp: fun_eq_iff)
  ultimately have "held c (?d w)" using assms(1) by (simp add: held_def busy_def)
  moreover have "sw_handles w' = sw_handles w"
    using assms(4) by (auto simp: release_connection_def sftp_connection_unref_def sftp_connection_unlock_def set_connection_def Let_def
        split: bind_splits)
  then have "release_connection c (?d w) = Some (?d w')" using release_commutes [OF assms(4)] by simp
  ultimately show ?thesis by (rule postD [OF release_idle])
qed

lemma finish_open_idle:
  assumes "held c w"
  shows "post (\<lambda>r. idle (snd (snd r))) (finish_open E c i path slots options on_error w)"
proof -
  have k: "held c (w\<lparr>sw_kernel := k\<rparr>)" for k using talk_held [OF _ assms] by simp
  show ?thesis
    unfolding finish_open_def Let_def split_def
    by (intro post_value post_if bind1 [where P = idle] unlock_idle release_idle new_handle_busy k post_Some) simp_all
qed

lemma send_held: "held c w \<Longrightarrow> post (held c) (send_over E d msg w)"
  using send_talks [OF talk_refl] talk_held by (force simp: post_def)

lemma result_held: "held c w \<Longrightarrow> post (\<lambda>r. held c (snd r)) (read_result_over E d i w)"
  using result_talks [OF talk_refl] talk_held by (force simp: post_def)

lemma get_id_held: "held c w \<Longrightarrow> post (\<lambda>r. held c (snd r)) (sftp_connection_get_id d w)"
  using get_id_talks [OF talk_refl] talk_held by (force simp: post_def)

lemma kernel_held [simp]:
  fixes w :: "'k sftp_world"
  shows "held c (w\<lparr>sw_kernel := k\<rparr>) = held c w"
  using talk_held [of w "w\<lparr>sw_kernel := k\<rparr>" c] talk_held [of "w\<lparr>sw_kernel := k\<rparr>" w c]
  by (auto simp: talk_def anonymous_def fun_eq_iff)

lemma opens_idle:
  assumes "idle w"
  shows "post (\<lambda>r. idle (snd (snd r))) (sftp_do_open E uri mode w)"
    "post (\<lambda>r. idle (snd (snd r))) (sftp_do_create E uri mode excl perm w)"
    "post (\<lambda>r. idle (snd (snd r))) (sftp_do_open_directory E uri options w)"
  unfolding sftp_do_open_def sftp_do_create_def sftp_do_open_directory_def
  by (rule with_connection [OF assms], simp add: post_def,
      rule bind2, erule get_id_held, rule bind1, erule send_held, erule finish_open_idle)+

lemma close_idle:
  assumes "idle w"
  shows "post (\<lambda>r. idle (snd r)) (sftp_do_close E h w)"
  unfolding sftp_do_close_def Let_def
proof (rule post_value, rule post_value)
  fix hnd w1 assume h: "sw_handles w h = Some hnd" and l: "sftp_connection_lock (sh_connection hnd) w = Some w1"
  let ?c = "sh_connection hnd"
  have busy: "busy ?c w1" using postD [OF lock_busy [OF assms] l] .
  have last: "idle (w'\<lparr>sw_handles := (sw_handles w')(h := None)\<rparr>)" if "talk w1 w4" "release_connection ?c w4 = Some w'" for w4 w'
    using that talk_busy [OF _ busy] talk_handles [of w1 w4] talk_lock(1) [OF l] h by (intro release_drop [where c = ?c]) simp_all
  show "post (\<lambda>r. idle (snd r))
     (do { (msg_id, w2) \<leftarrow> sftp_connection_get_id ?c w1;
           w3 \<leftarrow> send_over E ?c (buffer_write_block (start_message SSH2_FXP_CLOSE msg_id) (sh_sftp_handle hnd)) w2;
           (status, w4) \<leftarrow> read_result_over E ?c msg_id w3;
           w5 \<leftarrow> release_connection ?c w4;
           Some (status, w5\<lparr>sw_handles := (sw_handles w5)(h := None)\<rparr>) })"
    by (rule bind2 [where P = "talk w1"], rule get_id_talks, simp, rule bind1, erule send_talks,
        rule bind2 [where P = "talk w1"], erule result_talks, rule post_value) (simp add: post_def last)
qed

text \<open>A handle that changes keeps its connection.\<close>

lemma unlock_handles: "sftp_connection_unlock c w = Some w' \<Longrightarrow> sw_handles w' = sw_handles w"
  by (auto simp: sftp_connection_unlock_def set_connection_def split: bind_splits)

lemma keep_idle:
  "idle w \<Longrightarrow> sw_handles w h = Some hnd \<Longrightarrow> sh_connection hnd' = sh_connection hnd \<Longrightarrow>
    idle (w\<lparr>sw_handles := (sw_handles w)(h := Some hnd')\<rparr>)"
  unfolding idle_def by (rule world_with_keep_handle)

lemma counted_talk:
  "sw_connections w c = Some conn \<Longrightarrow> talk w ((set_connection c (conn\<lparr>sc_msg_id := i\<rparr>) w)\<lparr>sw_kernel := k\<rparr>)"
  by (auto simp: talk_def anonymous_def set_connection_def fun_eq_iff)

lemma transfer_idle:
  assumes "idle w" and h: "sw_handles w h = Some hnd" and l: "sftp_connection_lock (sh_connection hnd) w = Some w1"
    and t: "talk w1 w2" and u: "sftp_connection_unlock (sh_connection hnd) w2 = Some w3"
  shows "idle w3" "sw_handles w3 h = Some hnd"
  using postD [OF unlock_idle u] talk_busy [OF t postD [OF lock_busy [OF assms(1)] l]]
    unlock_handles [OF u] talk_handles [OF t] talk_lock(1) [OF l] h by simp_all

lemma moved_idle:
  assumes "idle w" and h: "sw_handles w h = Some hnd" and l: "sftp_connection_lock (sh_connection hnd) w = Some w1"
    and c: "sw_connections w1 (sh_connection hnd) = Some conn"
    and u: "sftp_connection_unlock (sh_connection hnd)
              ((set_connection (sh_connection hnd) (conn\<lparr>sc_msg_id := i\<rparr>) w1)\<lparr>sw_kernel := k\<rparr>) = Some w3"
  shows "idle w3" "idle (w3\<lparr>sw_handles := (sw_handles w3)(h := Some (hnd\<lparr>sh_offset := off\<rparr>))\<rparr>)"
  using transfer_idle [OF assms(1) h l counted_talk [OF c] u] keep_idle [of w3 h hnd "hnd\<lparr>sh_offset := off\<rparr>"] by simp_all

lemma read_idle: "idle w \<Longrightarrow> post (\<lambda>r. idle (snd (snd (snd r)))) (sftp_do_read E h dest n w)"
  unfolding sftp_do_read_def Let_def split_def
  by (rule post_value, rule post_value, rule post_value, rule post_value, rule post_value, rule post_case_option)
    (simp_all add: post_def moved_idle)

lemma write_idle: "idle w \<Longrightarrow> post (\<lambda>r. idle (snd (snd r))) (sftp_do_write E h buffer w)"
  unfolding sftp_do_write_def Let_def split_def
  by (rule post_value, rule post_value, rule post_value, rule post_value, rule post_value, rule post_case_option)
    (simp_all add: post_def moved_idle)

lemma get_file_info_idle:
  fixes w :: "'k sftp_world"
  shows "idle w \<Longrightarrow> post (\<lambda>r. idle (snd (snd r))) (sftp_do_get_file_info E uri info options w)"
  unfolding sftp_do_get_file_info_def
proof (rule with_connection, assumption, simp add: post_def)
  fix c and w' :: "'k sftp_world" assume "held c w'"
  then have "post (\<lambda>r. held c (snd (snd r))) (get_file_info_for_path E c (URI_TO_PATH uri) info options w')"
    using info_talks [OF talk_refl] talk_held by (force simp: post_def)
  then show "post (\<lambda>r. idle (snd (snd r)))
      (do { (res2, info2, w2) \<leftarrow> get_file_info_for_path E c (URI_TO_PATH uri) info options w';
            w3 \<leftarrow> release_connection c w2; Some (res2, info2, w3) })"
    by (rule bind3) (rule bind1 [where P = idle], erule release_idle, simp add: post_def)
qed

lemma info_from_handle_idle:
  "idle w \<Longrightarrow> post (\<lambda>r. idle (snd (snd r)) \<and> sw_handles (snd (snd r)) = sw_handles w) (sftp_do_get_file_info_from_handle E h info options w)"
  unfolding sftp_do_get_file_info_from_handle_def
  by (rule post_value) (use info_talks [OF talk_refl] talk_idle talk_handles in \<open>force simp: post_def\<close>)

lemma set_offset_idle: "idle w \<Longrightarrow> post idle (set_offset h off w)"
  unfolding set_offset_def by (rule post_value) (simp add: post_def keep_idle)

lemma seek_idle: "idle w \<Longrightarrow> post (\<lambda>r. idle (snd r)) (sftp_do_seek E h whence off w)"
  unfolding sftp_do_seek_def
  by (intro post_value post_if bind1 [where P = idle] set_offset_idle post_Some bind3 [where P = idle] post_mono [OF info_from_handle_idle])
    simp_all

lemma names_connection: "post (\<lambda>r. sh_connection (fst r) = sh_connection hnd) (read_names E n b hnd w)"
proof (induction n arbitrary: b hnd w)
  case (Suc n)
  show ?case
    unfolding read_names.simps split_def
    by (rule post_value, rule post_value, rule post_value, rule post_value, rule Suc.IH [THEN post_mono]) simp
qed (simp add: post_def)

lemma room_connection: "make_room count hnd = Some hnd' \<Longrightarrow> sh_connection hnd' = sh_connection hnd"
proof -
  have "sh_connection (grow_entries n (move_entries hnd)) = sh_connection hnd" for n
    by (simp add: grow_entries_def move_entries_def Let_def)
  then show "make_room count hnd = Some hnd' \<Longrightarrow> ?thesis"
    unfolding make_room_def by (simp split: if_split_asm) (metis option.inject)+
qed

lemma first_entry_handle:
  "\<exists>hnd'. sh_connection hnd' = sh_connection hnd \<and> snd (snd (first_entry h hnd info w)) = w\<lparr>sw_handles := (sw_handles w)(h := Some hnd')\<rparr>"
  unfolding first_entry_def Let_def
  by (cases "sh_info_read_ptr hnd < sh_info_write_ptr hnd"; simp only: if_True if_False snd_conv; rule exI, rule conjI [rotated], rule refl)
    simp_all

lemma close_locked:
  "sw_handles w h = Some hnd \<Longrightarrow> sw_connections w (sh_connection hnd) = Some conn \<Longrightarrow> sc_locked conn \<Longrightarrow> sftp_do_close E h w = None"
  by (simp add: sftp_do_close_def sftp_connection_lock_def)

lemma talk_locked:
  assumes "sftp_connection_lock c w = Some w1" and "talk w1 w'"
  shows "\<exists>conn. sw_connections w' c = Some conn \<and> sc_locked conn"
proof -
  obtain conn where "sw_connections w1 c = Some conn" "sc_locked conn" using talk_lock(2) [OF assms(1)] by blast
  moreover from this(1) obtain conn' where "sw_connections w' c = Some conn'" using talk_connections [OF assms(2), of c] by auto
  ultimately show ?thesis using talk_connection [OF assms(2), of c conn'] by auto
qed

lemma read_directory_idle:
  fixes w :: "'k sftp_world"
  assumes "idle w"
  shows "post (\<lambda>r. idle (snd (snd r))) (sftp_do_read_directory E h info w)"
proof (cases "sw_handles w h")
  case (Some hnd)
  let ?c = "sh_connection hnd" and ?Q = "\<lambda>r :: GnomeVFSResult \<times> GnomeVFSFileInfo \<times> 'k sftp_world. idle (snd (snd r))"
  have unlock: "post ?Q (do { w5 \<leftarrow> sftp_connection_unlock ?c w4; Some (res, i, w5) })"
    if "sftp_connection_lock ?c w = Some w1" "talk w1 w4" for w1 w4 :: "'k sftp_world" and res i
    using transfer_idle(1) [OF assms Some that] by (auto simp: post_def split: bind_splits)
  have stuck: "post ?Q (do { (closed, w5) \<leftarrow> sftp_do_close E h w4; f closed w5 })"
    if "sftp_connection_lock ?c w = Some w1" "talk w1 w4" for w1 w4 :: "'k sftp_world" and f
    using close_locked [of w4 h hnd] talk_locked [OF that] talk_handles [OF that(2)] talk_lock(1) [OF that(1)] Some by (auto simp: post_def)
  have entries: "post ?Q (let e = first_entry h hnd' info w5 in do { w7 \<leftarrow> sftp_connection_unlock ?c (snd (snd e)); Some (fst e, fst (snd e), w7) })"
    if l: "sftp_connection_lock ?c w = Some w1" and n: "read_names E n b roomy w4 = Some (hnd', w5)" and t4: "talk w1 w4"
      and r: "make_room count hnd = Some roomy" for w1 w4 w5 :: "'k sftp_world" and n b count roomy hnd'
  proof -
    have t: "talk w1 w5" "sh_connection hnd' = ?c"
      using postD [OF names_talk [OF t4] n] postD [OF names_connection n] room_connection [OF r] by simp_all
    obtain hnd2 where h2: "sh_connection hnd2 = ?c" "snd (snd (first_entry h hnd' info w5)) = w5\<lparr>sw_handles := (sw_handles w5)(h := Some hnd2)\<rparr>"
      using first_entry_handle t(2) by metis
    have "busy ?c w5" using talk_busy [OF t(1) postD [OF lock_busy [OF assms] l]] .
    moreover have "sw_handles w5 h = Some hnd" using talk_handles [OF t(1)] talk_lock(1) [OF l] Some by simp
    ultimately have "busy ?c (snd (snd (first_entry h hnd' info w5)))"
      using world_with_keep_handle [of _ _ w5 h hnd hnd2] h2 by (simp add: busy_def)
    from unlock_idle [OF this] show ?thesis
      unfolding Let_def by (rule bind1) (simp add: post_def)
  qed
  show ?thesis
    unfolding sftp_do_read_directory_def Some Option.bind.simps Let_def [of "sh_connection hnd"] Let_def [of "sh_info_read_ptr hnd"]
    apply (rule post_if, simp add: post_def keep_idle [OF assms Some], rule post_value)
    subgoal premises l for w1
      by (rule bind2 [where P = "talk w1"], rule get_id_talks, simp, rule post_let, rule bind1, erule send_talks, unfold split_def,
          rule post_value, rule post_value, rule post_let, rule post_value)
        (auto intro!: post_if post_value unlock [OF l(2)] stuck [OF l(2), unfolded split_def] entries [OF l(2)] simp del: Let_def)
    done
qed (simp add: sftp_do_read_directory_def post_def)

text \<open>The requests that have an answer and nothing else.\<close>

lemma simple_request_idle: "idle w \<Longrightarrow> post (\<lambda>r. idle (snd r)) (simple_request E uri send w)"
  unfolding simple_request_def
  by (erule with_connection, simp add: post_def, rule bind2, erule get_id_held, rule post_value, rule post_value,
      rule bind2, rule result_held, simp, rule bind1 [where P = idle], erule release_idle) (simp add: post_def)

lemma requests_idle:
  assumes "idle w"
  shows "post (\<lambda>r. idle (snd r)) (sftp_do_remove_directory E uri w)" "post (\<lambda>r. idle (snd r)) (sftp_do_unlink E uri w)"
    "post (\<lambda>r. idle (snd r)) (sftp_do_rename E uri name w)"
  unfolding sftp_do_remove_directory_def sftp_do_unlink_def sftp_do_rename_def Let_def by (rule simple_request_idle [OF assms])+

lemma set_file_info_idle: "idle w \<Longrightarrow> post (\<lambda>r. idle (snd r)) (sftp_do_set_file_info E uri info msk w)"
  unfolding sftp_do_set_file_info_def Let_def
  by (intro post_if post_Some bind2 [where P = idle] simple_request_idle requests_idle) simp_all

lemma move_idle: "idle w \<Longrightarrow> post (\<lambda>r. idle (snd r)) (sftp_do_move E old new force w)"
  unfolding sftp_do_move_def
proof (rule post_if, simp add: post_def, erule with_connection, simp add: post_def, goal_cases)
  case (1 c w')
  show ?case
    by (rule bind2 [where P = "held c"], rule get_id_held [OF 1(2)], rule post_value, rule bind2 [where P = "held c"],
        rule post_if, rule post_value, rule result_held, simp, simp add: post_def, rule bind2 [where P = "held c"],
        rule post_if, simp add: post_def, rule bind1, erule send_held, erule result_held,
        rule bind1 [where P = idle], erule release_idle, simp add: post_def)
qed

text \<open>Asking whether a file exists goes through the library to this module's query.\<close>

definition exists_keeps :: "'k sftp_env \<Rightarrow> bool" where
  "exists_keeps E \<longleftrightarrow> (\<forall>uri w. idle w \<longrightarrow> idle (snd (se_uri_exists E uri w)))"

lemma exists_if_generic_idle: "exists_keeps E \<Longrightarrow> idle (snd r) \<Longrightarrow> idle (snd (exists_if_generic E uri r))"
  unfolding exists_if_generic_def exists_keeps_def by (auto split: prod.split) (metis snd_conv)

lemma make_directory_idle:
  "exists_keeps E \<Longrightarrow> idle w \<Longrightarrow> post (\<lambda>r. idle (snd r)) (sftp_do_make_directory E uri perm w)"
  unfolding sftp_do_make_directory_def
  by (rule post_map, rule post_mono, erule simple_request_idle) (rule exists_if_generic_idle)

lemma create_symlink_idle:
  "exists_keeps E \<Longrightarrow> idle w \<Longrightarrow> post (\<lambda>r. idle (snd r)) (sftp_do_create_symlink E uri target w)"
  unfolding sftp_do_create_symlink_def Let_def
proof (erule with_connection, simp add: post_def, goal_cases)
  case (1 c w')
  have refuse: "post (\<lambda>r. idle (snd r)) (do { w2 \<leftarrow> release_connection c w'; Some (res, w2) })" for res :: GnomeVFSResult
    by (rule bind1 [OF release_idle [OF 1(2)]]) (simp add: post_def)
  show ?case
    by (rule post_value, rule post_if, rule refuse, rule post_if, rule refuse, rule bind2, rule get_id_held [OF 1(2)],
        rule bind1, erule send_held, rule bind2, erule result_held, rule bind1 [where P = idle], erule release_idle)
      (simp add: post_def exists_if_generic_idle [OF 1(1)])
qed

text \<open>The timeout of a connection that is not used; the count is exact as long as there are fewer than \<open>2 ^ 32\<close> handles.\<close>

lemma unused_connection:
  assumes "idle w" and "sw_connections w c = Some conn" "sc_ref_count conn = 0" and "card (dom (sw_handles w)) < 2 ^ 32"
  shows "opened w c = {}"
proof -
  have live: "handles_live w" and ok: "conn_ok w False 0 c conn" using assms(1,2) by (auto simp: idle_def world_with_def)
  have "opened w c \<subseteq> dom (sw_handles w)" by (auto simp: opened_def)
  then have "card (opened w c) \<le> card (dom (sw_handles w))" using live by (intro card_mono) (simp_all add: handles_live_def)
  then have "card (opened w c) < 2 ^ 32" using assms(4) by simp
  moreover have "(of_nat (card (opened w c)) :: 32 word) = 0" using ok assms(3) by (simp add: conn_ok_def)
  ultimately have "card (opened w c) = 0" using unat_of_nat [where ?'a = 32, of "card (opened w c)"] by simp
  then show ?thesis using opened_finite [OF live] by simp
qed

lemma removed_idle:
  assumes w: "idle w" and c: "sw_connections w c = Some conn" and none: "opened w c = {}"
  shows "idle (w\<lparr>sw_kernel := k, sw_connections := (sw_connections w)(c := None), sw_table := (sw_table w)(sc_hash_name conn := None)\<rparr>)"
    (is "idle ?w")
proof -
  have w: "handles_live w" "table_live w" "\<And>c conn. sw_connections w c = Some conn \<Longrightarrow> conn_ok w False 0 c conn"
    using assms(1) by (simp_all add: idle_def world_with_def)
  have "handles_live ?w" using w(1) none by (auto simp: handles_live_def opened_def)
  moreover have "table_live ?w"
    unfolding table_live_def
  proof (intro allI impI)
    fix n d assume "sw_table ?w n = Some d"
    then have d: "sw_table w n = Some d" "n \<noteq> sc_hash_name conn" by (auto split: if_splits)
    then obtain x where "sw_connections w d = Some x" "sc_hash_name x = n" using w(2) unfolding table_live_def by blast
    then show "\<exists>x. sw_connections ?w d = Some x \<and> sc_hash_name x = n" using d(2) c by auto
  qed
  moreover have "conn_ok ?w False 0 d x" if "sw_connections ?w d = Some x" for d x
  proof -
    have d: "d \<noteq> c" "sw_connections w d = Some x" using that by (auto split: if_splits)
    then have "sc_hash_name x \<noteq> sc_hash_name conn" using w(3) [OF d(2)] w(3) [OF c] by (auto simp: conn_ok_def)
    then show ?thesis using w(3) [OF d(2)] by (simp add: conn_ok_def opened_def)
  qed
  ultimately show ?thesis by (simp add: idle_def world_with_def)
qed

lemma timeout_idle:
  assumes "idle w" and "card (dom (sw_handles w)) < 2 ^ 32"
  shows "post idle (close_and_remove_connection P c w)"
proof (rule postI)
  fix w' assume r: "close_and_remove_connection P c w = Some w'"
  then obtain conn where c: "sw_connections w c = Some conn"
    by (auto simp: close_and_remove_connection_def sftp_connection_lock_def split: bind_splits if_splits)
  have ok: "conn_ok w False 0 c conn" "world_with (\<lambda>d. False) (\<lambda>d. 0) w" using assms(1) c by (simp_all add: idle_def world_with_def)
  show "idle w'"
  proof (cases "sc_ref_count conn = 0")
    case True
    have "w' = w\<lparr>sw_kernel := close_both P (sc_in_fd conn) (sc_out_fd conn) (sw_kernel w), sw_connections := (sw_connections w)(c := None),
        sw_table := (sw_table w)(sc_hash_name conn := None)\<rparr>"
      using r c True ok by (simp add: close_and_remove_connection_def sftp_connection_lock_def sftp_connection_unlock_def set_connection_def
          sftp_connection_close_def conn_ok_def Let_def) (cases w; simp)
    then show ?thesis using removed_idle [OF assms(1) c unused_connection [OF assms(1) c True assms(2)]] by simp
  next
    case False
    define conn' where "conn' = conn\<lparr>sc_close_timeout := False, sc_locked := False\<rparr>"
    have "w' = set_connection c conn' w"
      using r c False ok by (simp add: close_and_remove_connection_def sftp_connection_lock_def sftp_connection_unlock_def set_connection_def
          conn_ok_def Let_def conn'_def)
    moreover have "card (opened w c) \<noteq> 0" using ok(1) False by (intro notI) (simp add: conn_ok_def)
    then have "conn_ok w False 0 c conn'" using ok(1) False by (simp add: conn_ok_def conn'_def)
    ultimately have "world_with ((\<lambda>d. False)(c := False)) ((\<lambda>d. 0)(c := 0)) w'" using world_with_set [OF ok(2) c] by (simp add: conn'_def)
    moreover have "(\<lambda>d. False)(c := False) = (\<lambda>d. False)" "(\<lambda>d. 0 :: nat)(c := 0) = (\<lambda>d. 0)" by (auto simp: fun_eq_iff)
    ultimately show ?thesis by (simp add: idle_def)
  qed
qed

end
