(* ===== verification/VFS_Sftp_Runs.thy ===== *)
theory VFS_Sftp_Runs
  imports VFS_Sftp_Inv
begin

text \<open>
  Runs of the SFTP module as a step relation, with the invariant of its connections; and a server
  that plays back a tape, on which a directory that cannot be read stops its caller for ever.
\<close>

section \<open>Runs of the module\<close>

text \<open>
  One call of a function of the method, the timeout of a connection, or a change of the system.
  The timeout is for worlds with fewer than \<open>2 ^ 32\<close> open handles.
\<close>

inductive sftp_step :: "'k sftp_env \<Rightarrow> 'k sftp_world \<Rightarrow> 'k sftp_world \<Rightarrow> bool" for E where
  step_system: "sftp_step E w (w\<lparr>sw_kernel := k\<rparr>)"
| step_open: "sftp_do_open E uri mode w = Some (res, h, w') \<Longrightarrow> sftp_step E w w'"
| step_create: "sftp_do_create E uri mode exclusive perm w = Some (res, h, w') \<Longrightarrow> sftp_step E w w'"
| step_open_directory: "sftp_do_open_directory E uri options w = Some (res, h, w') \<Longrightarrow> sftp_step E w w'"
| step_close: "sftp_do_close E i w = Some (res, w') \<Longrightarrow> sftp_step E w w'"
| step_read: "sftp_do_read E i dest n w = Some (res, got_bytes, m, w') \<Longrightarrow> sftp_step E w w'"
| step_write: "sftp_do_write E i buffer w = Some (res, m, w') \<Longrightarrow> sftp_step E w w'"
| step_seek: "sftp_do_seek E i whence off w = Some (res, w') \<Longrightarrow> sftp_step E w w'"
| step_read_directory: "sftp_do_read_directory E i info w = Some (res, info', w') \<Longrightarrow> sftp_step E w w'"
| step_get_file_info: "sftp_do_get_file_info E uri info options w = Some (res, info', w') \<Longrightarrow> sftp_step E w w'"
| step_info_from_handle: "sftp_do_get_file_info_from_handle E i info options w = Some (res, info', w') \<Longrightarrow> sftp_step E w w'"
| step_make_directory: "sftp_do_make_directory E uri perm w = Some (res, w') \<Longrightarrow> sftp_step E w w'"
| step_remove_directory: "sftp_do_remove_directory E uri w = Some (res, w') \<Longrightarrow> sftp_step E w w'"
| step_unlink: "sftp_do_unlink E uri w = Some (res, w') \<Longrightarrow> sftp_step E w w'"
| step_move: "sftp_do_move E old new force w = Some (res, w') \<Longrightarrow> sftp_step E w w'"
| step_set_file_info: "sftp_do_set_file_info E uri info msk w = Some (res, w') \<Longrightarrow> sftp_step E w w'"
| step_create_symlink: "sftp_do_create_symlink E uri target w = Some (res, w') \<Longrightarrow> sftp_step E w w'"
| step_timeout:
    "sw_connections w c = Some conn \<Longrightarrow> sc_close_timeout conn \<Longrightarrow> card (dom (sw_handles w)) < 2 ^ 32 \<Longrightarrow>
      close_and_remove_connection (se_posix E) c w = Some w' \<Longrightarrow> sftp_step E w w'"

definition sftp_start :: "'k \<Rightarrow> 'k sftp_world" where
  "sftp_start k = \<lparr>sw_kernel = k, sw_connections = (\<lambda>c. None), sw_handles = (\<lambda>h. None), sw_next = 0, sw_table = (\<lambda>n. None), sw_next_connection = 0\<rparr>"

lemma start_idle: "idle (sftp_start k)"
  by (simp add: sftp_start_def idle_def world_with_def handles_live_def table_live_def)

lemma kept2: "m = Some (a, w') \<Longrightarrow> post (\<lambda>r. idle (snd r)) m \<Longrightarrow> idle w'"
  by (simp add: post_def)

lemma kept3: "m = Some (a, b, w') \<Longrightarrow> post (\<lambda>r. idle (snd (snd r))) m \<Longrightarrow> idle w'"
  by (simp add: post_def)

lemma kept4: "m = Some (a, b, c, w') \<Longrightarrow> post (\<lambda>r. idle (snd (snd (snd r)))) m \<Longrightarrow> idle w'"
  by (simp add: post_def)

lemma step_idle: "sftp_step E w w' \<Longrightarrow> exists_keeps E \<Longrightarrow> idle w \<Longrightarrow> idle w'"
proof (induction rule: sftp_step.induct)
  case (step_system w k)
  then show ?case using talk_idle [of w "w\<lparr>sw_kernel := k\<rparr>"] by simp
next
  case (step_info_from_handle i info options w res info' w')
  then show ?case using postD [OF info_from_handle_idle] by fastforce
next
  case (step_timeout w c conn w')
  then show ?case using postD [OF timeout_idle] by blast
qed (erule kept2 kept3 kept4, intro opens_idle close_idle read_idle write_idle seek_idle read_directory_idle get_file_info_idle
    make_directory_idle requests_idle move_idle set_file_info_idle create_symlink_idle, assumption+)+

lemma run_idle: "(sftp_step E)\<^sup>*\<^sup>* w w' \<Longrightarrow> exists_keeps E \<Longrightarrow> idle w \<Longrightarrow> idle w'"
  by (induction rule: rtranclp_induct) (auto intro: step_idle)

text \<open>
  C9. Between the calls of the SFTP module no connection is locked, whatever the calls were, whatever
  the servers answered and whatever failed, and whenever timeouts fired: the reference count of a connection is
  the number of its open handles, a connection without references has its timeout set, every handle
  belongs to a live connection, and the table of connections names the live ones and no other. That the
  library's question whether a file exists keeps this is assumed; it ends in this module's own query.
\<close>

theorem sftp_connections_consistent:
  assumes "(sftp_step E)\<^sup>*\<^sup>* (sftp_start k) w" and "exists_keeps E"
  shows "(\<forall>h hnd. sw_handles w h = Some hnd \<longrightarrow> sw_connections w (sh_connection hnd) \<noteq> None)
    \<and> (\<forall>c conn. sw_connections w c = Some conn \<longrightarrow>
         \<not> sc_locked conn \<and> sc_ref_count conn = of_nat (card {h. \<exists>hnd. sw_handles w h = Some hnd \<and> sh_connection hnd = c})
         \<and> ((\<forall>h hnd. sw_handles w h = Some hnd \<longrightarrow> sh_connection hnd \<noteq> c) \<longrightarrow> sc_close_timeout conn)
         \<and> sw_table w (sc_hash_name conn) = Some c)
    \<and> (\<forall>n c. sw_table w n = Some c \<longrightarrow> (\<exists>conn. sw_connections w c = Some conn \<and> sc_hash_name conn = n))"
proof -
  have w: "handles_live w" "table_live w" "\<And>c conn. sw_connections w c = Some conn \<Longrightarrow> conn_ok w False 0 c conn"
    using run_idle [OF assms start_idle] by (simp_all add: idle_def world_with_def)
  have "sc_close_timeout conn"
    if "sw_connections w c = Some conn" "\<forall>h hnd. sw_handles w h = Some hnd \<longrightarrow> sh_connection hnd \<noteq> c" for c conn
  proof -
    have "opened w c = {}" using that(2) by (auto simp: opened_def)
    then show ?thesis using w(3) [OF that(1)] by (simp add: conn_ok_def)
  qed
  then show ?thesis
    using w by (simp add: handles_live_def table_live_def conn_ok_def opened_def)
qed

section \<open>A server on tape\<close>

text \<open>The system is what is still to be read from the server. It takes every message.\<close>

definition tape_posix :: "string posix" where
  "tape_posix =
     \<lparr>px_open = (\<lambda>path mode perm k. (Inl EIO, k)), px_close = (\<lambda>fd k. (Inr (), k)),
      px_read = (\<lambda>fd n k. (Inr (take (unat n) k), drop (unat n) k)), px_write = (\<lambda>fd s k. (Inr (length s), k)),
      px_lseek = (\<lambda>fd off whence k. (Inl EIO, k)), px_ftruncate = (\<lambda>fd n k. (Inl EIO, k)), px_truncate = (\<lambda>path n k. (Inl EIO, k)),
      px_fadvise = (\<lambda>fd off n k. k), px_fstat = (\<lambda>fd k. (Inl EIO, k)), px_stat = (\<lambda>path k. (Inl EIO, k)),
      px_lstat = (\<lambda>path k. (Inl EIO, k)), px_readlink = (\<lambda>path n k. (Inl EIO, k)), px_access = (\<lambda>path r w x k. (False, k)),
      px_opendir = (\<lambda>path k. (Inl EIO, k)), px_readdir = (\<lambda>d k. (Inl EIO, k)), px_closedir = (\<lambda>d k. k),
      px_mkdir = (\<lambda>path perm k. (Inl EIO, k)), px_rmdir = (\<lambda>path k. (Inl EIO, k)), px_unlink = (\<lambda>path k. (Inl EIO, k)),
      px_rename = (\<lambda>a b k. (Inl EIO, k)), px_symlink = (\<lambda>a b k. (Inl EIO, k)), px_chmod = (\<lambda>path perm k. (Inl EIO, k)),
      px_chown = (\<lambda>path u g k. (Inl EIO, k)), px_utime = (\<lambda>path a m k. (Inl EIO, k)), px_statvfs = (\<lambda>path k. (Inl EIO, k)),
      px_statfs_type = (\<lambda>path k. (Inl EIO, k)), px_mkstemp = (\<lambda>path k. (Inl EIO, k)), px_fchmod = (\<lambda>fd perm k. k),
      px_getfilecon = (\<lambda>path k. (Inl EIO, k)), px_lgetfilecon = (\<lambda>path k. (Inl EIO, k)), px_fgetfilecon = (\<lambda>fd k. (Inl EIO, k)),
      px_setfilecon = (\<lambda>path con k. (Inl EIO, k)), px_errno = (\<lambda>k. EIO)\<rparr>"

definition tape_env :: "string sftp_env" where
  "tape_env =
     \<lparr>se_posix = tape_posix,
      se_env = \<lparr>env_method_get = (\<lambda>m. if m = ''sftp'' then Some 0 else None), env_transform = (\<lambda>a b. None), env_oob = (\<lambda>m. False)\<rparr>,
      se_login = (\<lambda>uri k. (GNOME_VFS_OK, 3, 4, k)), se_error_line = (\<lambda>k. (G_IO_STATUS_EOF, k)),
      se_build_filename = (\<lambda>a b. a @ ''/'' @ b), se_path_get_dirname = (\<lambda>p. ''/''), se_path_get_basename = (\<lambda>p. p),
      se_mime_from_name = (\<lambda>n. ''text/plain''), se_mime_from_mode = (\<lambda>m. ''text/plain''),
      se_uri_exists = (\<lambda>uri w. (False, w))\<rparr>"

definition tape_uri :: GnomeVFSURI where
  "tape_uri =
     Toplevel \<lparr>elem_text = Some ''/d'', fragment_id = None, method_string = ''sftp'', uri_method = Some 0, ref_count = 1\<rparr>
       \<lparr>host_name = Some ''host'', host_port = 0, user_name = Some ''me'', password = None\<rparr>"

text \<open>Version 3; a handle for request 1; and to request 2 that the permission is denied.\<close>

definition tape :: string where
  "tape = bytes_of_word32 5 @ SSH2_FXP_VERSION # bytes_of_word32 3
     @ bytes_of_word32 10 @ SSH2_FXP_HANDLE # bytes_of_word32 1 @ bytes_of_word32 1 @ ''H''
     @ bytes_of_word32 9 @ SSH2_FXP_STATUS # bytes_of_word32 2 @ bytes_of_word32 3"

lemma tape_opens:
  "\<exists>w. sftp_do_open_directory tape_env tape_uri 0 (sftp_start tape) = Some (GNOME_VFS_OK, Some 0, w)
     \<and> map_option sc_ref_count (sw_connections w 0) = Some 1 \<and> map_option sh_connection (sw_handles w 0) = Some 0"
proof -
  have "(case sftp_do_open_directory tape_env tape_uri 0 (sftp_start tape) of
           None \<Rightarrow> False
         | Some (res, h, w) \<Rightarrow> res = GNOME_VFS_OK \<and> h = Some 0 \<and> map_option sc_ref_count (sw_connections w 0) = Some 1
             \<and> map_option sh_connection (sw_handles w 0) = Some 0)"
    by code_simp
  then show ?thesis by (auto split: option.splits)
qed

theorem sftp_connections_consistent_witness:
  "\<exists>w. (sftp_step tape_env)\<^sup>*\<^sup>* (sftp_start tape) w \<and> sw_handles w 0 \<noteq> None
     \<and> (\<exists>conn. sw_connections w 0 = Some conn \<and> \<not> sc_locked conn \<and> sw_table w (sc_hash_name conn) = Some 0)"
proof -
  obtain w where w: "sftp_do_open_directory tape_env tape_uri 0 (sftp_start tape) = Some (GNOME_VFS_OK, Some 0, w)"
    "map_option sc_ref_count (sw_connections w 0) = Some 1" "map_option sh_connection (sw_handles w 0) = Some 0"
    using tape_opens by blast
  then have run: "(sftp_step tape_env)\<^sup>*\<^sup>* (sftp_start tape) w" by (blast intro: step_open_directory)
  moreover have "exists_keeps tape_env" by (simp add: exists_keeps_def tape_env_def)
  ultimately show ?thesis
    using w(2,3) sftp_connections_consistent [of tape_env tape w] by fastforce
qed

section \<open>A directory that cannot be read\<close>

text \<open>
  C16. A server that answers the request for the entries of a directory with any status but the end of
  the file, permission denied for instance, stops the caller for ever: the function closes the
  handle while it still holds the lock of the connection, and closing takes that lock first.
\<close>

theorem sftp_read_directory_error_stops:
  assumes h: "sw_handles w h = Some hnd" "\<not> sh_info_read_ptr hnd < sh_info_write_ptr hnd"
    and asked: "sftp_connection_lock (sh_connection hnd) w = Some w1" "sftp_connection_get_id (sh_connection hnd) w1 = Some (i, w2)"
      "send_over E (sh_connection hnd) (buffer_write_block (start_message SSH2_FXP_READDIR i) (sh_sftp_handle hnd)) w2 = Some w3"
    and answer: "sw_connections w3 (sh_connection hnd) = Some conn"
      "buffer_recv (se_posix E) (buffer_clear (buffer_write_block (start_message SSH2_FXP_READDIR i) (sh_sftp_handle hnd)))
         (sc_in_fd conn) (sw_kernel w3) = Some (ignored, msg, k)"
      "read_header msg = Some (SSH2_FXP_STATUS, i, b)" "buffer_read_gint32 b = Some (status, b')" "status \<noteq> SSH2_FX_EOF"
  shows "sc_locked conn \<and> sftp_connection_lock (sh_connection hnd) (w3\<lparr>sw_kernel := k\<rparr>) = None
    \<and> sftp_do_close E h (w3\<lparr>sw_kernel := k\<rparr>) = None \<and> sftp_do_read_directory E h info w = None"
proof -
  have t: "talk w1 w3"
    using postD [OF send_talks asked(3)] postD [OF get_id_talks [OF talk_refl] asked(2)] by simp
  have l: "sc_locked conn" using talk_locked [OF asked(1) t] answer(1) by simp
  have "sw_handles w3 h = Some hnd" using talk_handles [OF t] talk_lock(1) [OF asked(1)] h(1) by simp
  then have "sftp_do_close E h (w3\<lparr>sw_kernel := k\<rparr>) = None" using close_locked [of "w3\<lparr>sw_kernel := k\<rparr>" h hnd conn E] l answer(1) by simp
  then show ?thesis
    using h asked answer l by (simp add: sftp_do_read_directory_def sftp_connection_lock_def [of _ "w3\<lparr>sw_kernel := k\<rparr>"])
qed

definition tape_connection :: SftpConnection where
  "tape_connection = \<lparr>sc_in_fd = 3, sc_out_fd = 4, sc_msg_id = 2, sc_version = 3, sc_ref_count = 1, sc_close_timeout = False,
     sc_locked = False, sc_hash_name = ''me@host''\<rparr>"

definition tape_handle :: SftpOpenHandle where
  "tape_handle = \<lparr>sh_sftp_handle = ''H'', sh_connection = 0, sh_offset = 0, sh_info = [], sh_info_read_ptr = 0, sh_info_write_ptr = 0,
     sh_path = ''/d'', sh_dir_options = 0\<rparr>"

definition tape_world :: "string \<Rightarrow> string sftp_world" where
  "tape_world k = \<lparr>sw_kernel = k, sw_connections = [0 \<mapsto> tape_connection], sw_handles = [0 \<mapsto> tape_handle], sw_next = 1,
     sw_table = [''me@host'' \<mapsto> 0], sw_next_connection = 1\<rparr>"

theorem sftp_read_directory_error_stops_witness:
  "sftp_do_read_directory tape_env 0 zero_info
     (tape_world (bytes_of_word32 9 @ SSH2_FXP_STATUS # bytes_of_word32 2 @ bytes_of_word32 3)) = None"
proof -
  let ?k = "bytes_of_word32 9 @ SSH2_FXP_STATUS # bytes_of_word32 2 @ bytes_of_word32 3"
  let ?msg = "buffer_write_block (start_message SSH2_FXP_READDIR 2) ''H''"
  let ?c = "tape_connection\<lparr>sc_locked := True\<rparr>" and ?c' = "tape_connection\<lparr>sc_locked := True, sc_msg_id := 3\<rparr>"
  let ?w = "tape_world ?k"
  have 1: "sftp_connection_lock 0 ?w = Some (set_connection 0 ?c ?w)"
    by (simp add: sftp_connection_lock_def tape_world_def tape_connection_def)
  have 2: "sftp_connection_get_id 0 (set_connection 0 ?c ?w) = Some (2, set_connection 0 ?c' ?w)"
    by (simp add: sftp_connection_get_id_def set_connection_def tape_world_def tape_connection_def)
  have sent: "buffer_send tape_posix ?msg 4 ?k = Some (GNOME_VFS_OK, ?k)"
    by code_simp
  then have 3: "send_over tape_env 0 ?msg (set_connection 0 ?c' ?w) = Some (set_connection 0 ?c' ?w)"
    by (simp add: send_over_def set_connection_def tape_world_def tape_connection_def tape_env_def)
  have "(case buffer_recv tape_posix (buffer_clear ?msg) 3 ?k of
           Some (r, msg, k) \<Rightarrow> (case read_header msg of
              Some (t, i, b) \<Rightarrow> t = SSH2_FXP_STATUS \<and> i = 2 \<and> map_option fst (buffer_read_gint32 b) = Some 3 | _ \<Rightarrow> False) | _ \<Rightarrow> False)"
    by code_simp
  then obtain r msg k b b' where "buffer_recv tape_posix (buffer_clear ?msg) 3 ?k = Some (r, msg, k)"
    "read_header msg = Some (SSH2_FXP_STATUS, 2, b)" "buffer_read_gint32 b = Some (3, b')"
    by (auto split: option.splits)
  then show ?thesis
    using sftp_read_directory_error_stops [of ?w 0 tape_handle "set_connection 0 ?c ?w" 2 "set_connection 0 ?c' ?w" tape_env
        "set_connection 0 ?c' ?w" ?c' r msg k b 3 b' zero_info] 1 2 3
    by (simp add: tape_handle_def SSH2_FX_EOF_def) (simp add: tape_world_def set_connection_def tape_env_def tape_connection_def tape_handle_def)
qed

end
