(* ===== verification/VFS_ParseLs.thy ===== *)
theory VFS_ParseLs
  imports VFS_Posix VFS_URI
begin

text \<open>
  The parser for the output of \<^verbatim>\<open>ls -al\<close> (\<^verbatim>\<open>gnome-vfs-parse-ls.c\<close>), which the modules for servers without
  a machine-readable listing use. Reading a column that was not split off, which is an uninitialized
  pointer in the code, and reading behind the end of the text is \<open>None\<close>; a text that the parser
  refuses is \<open>Some None\<close>.
\<close>

unbundle bit_operations_syntax

section \<open>The C library\<close>

record tm =
  tm_sec :: int
  tm_min :: int
  tm_hour :: int
  tm_mday :: int
  tm_mon :: int
  tm_year :: int
  tm_wday :: int
  tm_isdst :: int

text \<open>The clock, the time zone, and the users and groups of the system.\<close>

record ls_env =
  le_localtime :: tm
  le_mktime :: "tm \<Rightarrow> int"
  le_getpwnam :: "string \<Rightarrow> int option"
  le_getuid :: int
  le_getgrnam :: "string \<Rightarrow> int option"
  le_getgid :: int

definition digits_value :: "string \<Rightarrow> int" where
  "digits_value ds = fold (\<lambda>c n. n * 10 + (int (code c) - 48)) ds 0"

text \<open>A number at the start of a text, in at most so many characters, and what follows it.\<close>

definition scan_int :: "nat \<Rightarrow> string \<Rightarrow> (int \<times> string) option" where
  "scan_int width s =
     (let t = dropWhile c_isspace s;
          signed = t \<noteq> [] \<and> (hd t = CHR ''-'' \<or> hd t = CHR ''+'');
          u = (if signed then tl t else t);
          ds = takeWhile g_ascii_isdigit (take (if signed then width - 1 else width) u)
      in if ds = [] then None
         else Some (if signed \<and> hd t = CHR ''-'' then - digits_value ds else digits_value ds, drop (length ds) u))"

text \<open>Out of the range of a long, the nearest end.\<close>

definition clamp_long :: "int \<Rightarrow> int" where
  "clamp_long v = max (- (2 ^ 63)) (min (2 ^ 63 - 1) v)"

definition atol :: "string \<Rightarrow> int" where
  "atol s = (case scan_int (length s) s of None \<Rightarrow> 0 | Some (v, r) \<Rightarrow> clamp_long v)"

definition int_of_long :: "int \<Rightarrow> int" where
  "int_of_long v = sint (of_int v :: 32 word)"

text \<open>Numbers of two characters with a separator between them, as many as can be read.\<close>

fun scan_fields :: "char \<Rightarrow> nat \<Rightarrow> string \<Rightarrow> int list" where
  "scan_fields sep 0 s = []"
| "scan_fields sep (Suc n) s =
     (case scan_int 2 s of
        None \<Rightarrow> []
      | Some (v, r) \<Rightarrow> v # (if r \<noteq> [] \<and> hd r = sep then scan_fields sep n (tl r) else []))"

section \<open>Users and groups\<close>

definition TUNMLEN :: nat where "TUNMLEN = 256"

record finduid_cache =
  saveuid :: int
  my_uid :: int
  saveuname :: string

definition finduid_cache_init :: finduid_cache where
  "finduid_cache_init = \<lparr>saveuid = - 993, my_uid = - 993, saveuname = []\<rparr>"

definition finduid :: "ls_env \<Rightarrow> string \<Rightarrow> finduid_cache \<Rightarrow> int \<times> finduid_cache" where
  "finduid E uname cache =
     (if take TUNMLEN uname = saveuname cache then (saveuid cache, cache)
      else
        let c1 = cache\<lparr>saveuname := take TUNMLEN uname\<rparr>;
            c2 = (case le_getpwnam E uname of
                    Some u \<Rightarrow> c1\<lparr>saveuid := u\<rparr>
                  | None \<Rightarrow>
                      let c = (if my_uid c1 < 0 then c1\<lparr>my_uid := le_getuid E\<rparr> else c1)
                      in c\<lparr>saveuid := my_uid c\<rparr>)
        in (saveuid c2, c2))"

record findgid_cache =
  savegid :: int
  my_gid :: int
  savegname :: string

definition findgid_cache_init :: findgid_cache where
  "findgid_cache_init = \<lparr>savegid = - 993, my_gid = - 993, savegname = []\<rparr>"

definition findgid :: "ls_env \<Rightarrow> string \<Rightarrow> findgid_cache \<Rightarrow> int \<times> findgid_cache" where
  "findgid E gname cache =
     (if take TUNMLEN gname = savegname cache then (savegid cache, cache)
      else
        let c1 = cache\<lparr>savegname := take TUNMLEN gname\<rparr>;
            c2 = (case le_getgrnam E gname of
                    Some g \<Rightarrow> c1\<lparr>savegid := g\<rparr>
                  | None \<Rightarrow>
                      let c = (if my_gid c1 < 0 then c1\<lparr>my_gid := le_getgid E\<rparr> else c1)
                      in c\<lparr>savegid := my_gid c\<rparr>)
        in (savegid c2, c2))"

section \<open>Columns\<close>

definition MAXCOLS :: nat where "MAXCOLS = 30"

definition ls_blank :: "char \<Rightarrow> bool" where
  "ls_blank c \<longleftrightarrow> c = CHR '' '' \<or> c = CHR 0x0D \<or> c = CHR 0x0A"

text \<open>
  The columns and where they begin. Blanks before a column are overwritten with null characters and
  so end the column before; nothing ends the last one when the number of columns is used up.
\<close>

fun split_columns :: "nat \<Rightarrow> nat \<Rightarrow> string \<Rightarrow> (string \<times> nat) list" where
  "split_columns 0 pos s = []"
| "split_columns (Suc n) pos s =
     (if s = [] then []
      else
        let start = dropWhile ls_blank s;
            pos' = pos + (length s - length start);
            col = takeWhile (\<lambda>c. \<not> ls_blank c) start
        in (if n = 0 then start else col, pos') # split_columns n (pos' + length col) (drop (length col) start))"

definition vfs_split_text :: "string \<Rightarrow> (string \<times> nat) list" where
  "vfs_split_text p = split_columns MAXCOLS 0 p"

definition column :: "(string \<times> nat) list \<Rightarrow> nat \<Rightarrow> string option" where
  "column cols i = (if i < length cols then Some (fst (cols ! i)) else None)"

definition column_ptr :: "(string \<times> nat) list \<Rightarrow> nat \<Rightarrow> nat option" where
  "column_ptr cols i = (if i < length cols then Some (snd (cols ! i)) else None)"

definition is_num :: "string \<Rightarrow> bool" where
  "is_num s \<longleftrightarrow> s \<noteq> [] \<and> g_ascii_isdigit (hd s)"

definition is_dos_date :: "string \<Rightarrow> bool" where
  "is_dos_date str \<longleftrightarrow> length str = 8 \<and> str ! 2 = str ! 5 \<and> strchr [CHR 0x5C, CHR ''-'', CHR ''/''] (str ! 2) \<noteq> None"

definition is_week :: "string \<Rightarrow> tm \<Rightarrow> tm option" where
  "is_week str tim = map_option (\<lambda>pos. tim\<lparr>tm_wday := int pos div 3\<rparr>) (strstr ''SunMonTueWedThuFriSat'' str)"

definition is_month :: "string \<Rightarrow> tm \<Rightarrow> tm option" where
  "is_month str tim = map_option (\<lambda>pos. tim\<lparr>tm_mon := int pos div 3\<rparr>) (strstr ''JanFebMarAprMayJunJulAugSepOctNovDec'' str)"

text \<open>What could be read is stored, also when the whole is refused.\<close>

definition is_time :: "string \<Rightarrow> tm \<Rightarrow> bool \<times> tm" where
  "is_time str tim =
     (case (strchr str (CHR '':''), strrchr str (CHR '':'')) of
        (Some p, Some p2) \<Rightarrow>
          let n = (if p \<noteq> p2 then 3 else 2); vs = scan_fields (CHR '':'') n str;
              t1 = (if 0 < length vs then tim\<lparr>tm_hour := vs ! 0\<rparr> else tim);
              t2 = (if 1 < length vs then t1\<lparr>tm_min := vs ! 1\<rparr> else t1);
              t3 = (if 2 < length vs then t2\<lparr>tm_sec := vs ! 2\<rparr> else t2)
          in (length vs = n, t3)
      | _ \<Rightarrow> (False, tim))"

text \<open>A year counts only after two blanks.\<close>

definition is_year :: "string \<Rightarrow> tm \<Rightarrow> string \<Rightarrow> (string \<times> nat) list \<Rightarrow> nat \<Rightarrow> (bool \<times> tm) option" where
  "is_year str tim carbon cols idx =
     (if strchr str (CHR '':'') \<noteq> None \<or> length str \<noteq> 4 then Some (False, tim)
      else case scan_int 4 str of
             None \<Rightarrow> Some (False, tim)
           | Some (year, r) \<Rightarrow>
               if year < 1900 \<or> 3000 < year then Some (False, tim)
               else do {
                 ptr \<leftarrow> column_ptr cols (idx - 1);
                 let p = drop ptr carbon;
                 count \<leftarrow> strchr p (CHR '' '');
                 if c_at p (count + 1) = CHR '' '' \<and> g_ascii_isdigit (c_at p (count + 2))
                 then Some (True, tim\<lparr>tm_year := year - 1900\<rparr>)
                 else Some (False, tim)
               })"

section \<open>Types and permissions\<close>

definition vfs_parse_filetype :: "char \<Rightarrow> guint option" where
  "vfs_parse_filetype c =
     (if c = CHR ''d'' then Some 16384 else if c = CHR ''b'' then Some 24576 else if c = CHR ''c'' then Some 8192
      else if c = CHR ''l'' then Some 40960 else if c = CHR ''s'' \<or> c = CHR ''p'' then Some 4096
      else if c = CHR ''m'' \<or> c = CHR ''n'' \<or> c = CHR ''-'' \<or> c = CHR ''?'' then Some 32768
      else None)"

text \<open>The letters that each place may have, with their bits.\<close>

definition mode_places :: "(char \<times> guint) list list" where
  "mode_places =
     [[(CHR ''r'', 256), (CHR ''-'', 0)], [(CHR ''w'', 128), (CHR ''-'', 0)],
      [(CHR ''x'', 64), (CHR ''s'', 64 OR 2048), (CHR ''S'', 2048), (CHR ''-'', 0)],
      [(CHR ''r'', 32), (CHR ''-'', 0)], [(CHR ''w'', 16), (CHR ''-'', 0)],
      [(CHR ''x'', 8), (CHR ''s'', 8 OR 1024), (CHR ''l'', 1024), (CHR ''S'', 1024), (CHR ''-'', 0)],
      [(CHR ''r'', 4), (CHR ''-'', 0)], [(CHR ''w'', 2), (CHR ''-'', 0)],
      [(CHR ''x'', 1), (CHR ''t'', 1 OR 512), (CHR ''T'', 512), (CHR ''-'', 0)]]"

fun parse_places :: "(char \<times> guint) list list \<Rightarrow> string \<Rightarrow> guint \<Rightarrow> guint option" where
  "parse_places [] p res = Some res"
| "parse_places (place # places) p res =
     (case p of
        [] \<Rightarrow> None
      | c # p' \<Rightarrow> (case map_of place c of None \<Rightarrow> None | Some bits \<Rightarrow> parse_places places p' (res OR bits)))"

definition vfs_parse_filemode :: "string \<Rightarrow> guint option" where
  "vfs_parse_filemode p = parse_places mode_places p 0"

section \<open>Dates\<close>

definition is_last_column :: "nat \<Rightarrow> (string \<times> nat) list \<Rightarrow> string \<Rightarrow> bool option" where
  "is_last_column idx cols carbon =
     (if idx + 1 = length cols then Some True
      else do { ptr \<leftarrow> column_ptr cols (idx + 1); let c = c_at carbon (ptr - 1); Some (c = CHR 0x0D \<or> c = CHR 0x0A) })"

text \<open>A weekday, and the month and the day or a date with strokes: the next column, the time, and whether there was a year.\<close>

definition date_day :: "nat \<Rightarrow> (string \<times> nat) list \<Rightarrow> tm \<Rightarrow> ((nat \<times> tm \<times> bool) option) option" where
  "date_day idx cols tim =
     do {
       p0 \<leftarrow> column cols idx;
       (p, idx1, tim1) \<leftarrow> (case is_week p0 tim of
                             None \<Rightarrow> Some (p0, idx + 1, tim)
                           | Some t \<Rightarrow> do { p1 \<leftarrow> column cols (idx + 1); Some (p1, idx + 2, t) });
       case is_month p tim1 of
         Some tim2 \<Rightarrow> do {
           d \<leftarrow> column cols idx1;
           if is_num d then Some (Some (idx1 + 1, tim2\<lparr>tm_mday := int_of_long (atol d)\<rparr>, False)) else Some None
         }
       | None \<Rightarrow>
           if is_dos_date p
           then (let d = scan_fields (CHR ''-'') 3 (p[2 := CHR ''-'', 5 := CHR ''-''])
                 in if length d = 3
                    then Some (Some (idx1, tim1\<lparr>tm_mon := d ! 0 - 1, tm_mday := d ! 1, tm_year := (if d ! 2 < 70 then d ! 2 + 100 else d ! 2)\<rparr>, True))
                    else Some None)
           else Some None
     }"

text \<open>
  A time or a year, and the other one after it: the next column, the time, and whether there was a
  year. The second is only looked for before the last column of a line.
\<close>

definition date_second ::
    "nat \<Rightarrow> (string \<times> nat) list \<Rightarrow> string \<Rightarrow> tm \<Rightarrow> bool \<Rightarrow> bool \<Rightarrow> (nat \<times> tm \<times> bool) option" where
  "date_second idx cols carbon tim got_time got_year =
     do {
       c \<leftarrow> column cols idx;
       if \<not> is_num c then Some (idx, tim, got_year)
       else do {
         is_last \<leftarrow> is_last_column idx cols carbon;
         if is_last then Some (idx, tim, got_year)
         else do {
           (year, tim1) \<leftarrow> (if got_year then Some (False, tim) else is_year c tim carbon cols idx);
           if year then Some (idx + 1, tim1, True)
           else if got_time then Some (idx, tim1, got_year)
           else (let (clock, tim2) = is_time c tim1 in Some (if clock then idx + 1 else idx, tim2, got_year))
         }
       }
     }"

definition date_clock ::
    "nat \<Rightarrow> (string \<times> nat) list \<Rightarrow> string \<Rightarrow> tm \<Rightarrow> bool \<Rightarrow> ((nat \<times> tm \<times> bool) option) option" where
  "date_clock idx cols carbon tim got_year =
     do {
       c \<leftarrow> column cols idx;
       if \<not> is_num c then Some None
       else do {
         let (got_time, tim1) = is_time c tim;
         if got_time then map_option Some (date_second (idx + 1) cols carbon tim1 True got_year)
         else do {
           (year, tim2) \<leftarrow> is_year c tim1 carbon cols idx;
           if year then map_option Some (date_second (idx + 1) cols carbon tim2 False True)
           else Some (Some (idx, tim2, False))
         }
       }
     }"

definition vfs_parse_filedate :: "ls_env \<Rightarrow> nat \<Rightarrow> (string \<times> nat) list \<Rightarrow> string \<Rightarrow> ((nat \<times> int) option) option" where
  "vfs_parse_filedate E idx cols carbon =
     (let current_mon = tm_mon (le_localtime E);
          tim = (le_localtime E)\<lparr>tm_hour := 0, tm_min := 0, tm_sec := 0, tm_isdst := - 1\<rparr>
      in do {
        day \<leftarrow> date_day idx cols tim;
        case day of
          None \<Rightarrow> Some None
        | Some (idx1, tim1, got_year) \<Rightarrow> do {
            clock \<leftarrow> date_clock idx1 cols carbon tim1 got_year;
            case clock of
              None \<Rightarrow> Some None
            | Some (idx2, tim2, got_year2) \<Rightarrow>
                let tim3 = (if \<not> got_year2 \<and> current_mon < 6 \<and> current_mon < tm_mon tim2 \<and> 6 \<le> tm_mon tim2 - current_mon
                            then tim2\<lparr>tm_year := tm_year tim2 - 1\<rparr> else tim2);
                    t = le_mktime E tim3
                in Some (Some (idx2, if t < 0 then 0 else t))
          }
      })"

section \<open>Lines\<close>

record ls_stat = stat + st_rdev :: "64 word"

text \<open>The permissions after the type: the text behind them, and the mode.\<close>

definition parse_permissions :: "guint \<Rightarrow> string \<Rightarrow> (guint \<times> string) option" where
  "parse_permissions m p =
     (if p \<noteq> [] \<and> hd p = CHR ''['' then
        if length p \<le> 8 \<or> p ! 8 \<noteq> CHR '']'' then None
        else Some (m OR (if S_ISDIR m then 493 else 420), drop 9 p)
      else
        case vfs_parse_filemode p of
          None \<Rightarrow> None
        | Some i \<Rightarrow> let q = drop 9 p in Some (m OR i, if q \<noteq> [] \<and> hd q = CHR ''+'' then tl q else q))"

text \<open>The first column with a date, looked for from the fourth to the sixth.\<close>

fun find_date_column :: "nat \<Rightarrow> nat \<Rightarrow> (string \<times> nat) list \<Rightarrow> nat option" where
  "find_date_column 0 idx cols = Some idx"
| "find_date_column (Suc n) idx cols =
     do {
       c \<leftarrow> column cols idx;
       if strstr ''JanFebMarAprMayJunJulAugSepOctNovDec'' c \<noteq> None \<or> strstr ''SunMonTueWedThuFriSat'' c \<noteq> None \<or> is_dos_date c
       then Some idx else find_date_column n (idx + 1) cols
     }"

definition is_device :: "guint \<Rightarrow> bool" where
  "is_device m \<longleftrightarrow> S_ISCHR m \<or> S_ISBLK m"

text \<open>The numbers of a device, and the kernel's packing of them.\<close>

definition parse_device :: "nat \<Rightarrow> (string \<times> nat) list \<Rightarrow> ((64 word) option) option" where
  "parse_device idx2 cols =
     do {
       a \<leftarrow> column cols idx2;
       if \<not> is_num a then Some None
       else do {
         b \<leftarrow> column cols (idx2 + 1);
         if \<not> is_num b then Some None
         else
           let maj = (of_int (atol a) :: guint); min0 = (of_int (atol b) :: guint);
               min1 = (min0 AND 0xff) OR push_bit 12 (min0 AND 0xfff00)
           in Some (Some (ucast (push_bit 8 (maj AND 0xfff) OR (min1 AND 0xfff000ff))))
       }
     }"

fun find_arrow :: "nat \<Rightarrow> (string \<times> nat) list \<Rightarrow> nat option" where
  "find_arrow i [] = None"
| "find_arrow i (c # cs) = (if fst c = ''->'' then Some i else find_arrow (i + 1) cs)"

definition line_end :: "string \<Rightarrow> string" where
  "line_end s = takeWhile (\<lambda>c. c \<noteq> CHR 0x0D \<and> c \<noteq> CHR 0x0A) s"

text \<open>The name, and the target when the line has an arrow and describes a link.\<close>

definition parse_names :: "guint \<Rightarrow> 64 word \<Rightarrow> nat \<Rightarrow> (string \<times> nat) list \<Rightarrow> string \<Rightarrow> (string \<times> string option) option" where
  "parse_names m links idx cols pristine =
     do {
       ptr \<leftarrow> column_ptr cols idx;
       let name = drop ptr pristine;
       case find_arrow (idx + 1) (drop (idx + 1) cols) of
         Some idx2 \<Rightarrow>
           if S_ISLNK m \<or> length cols = idx + 3 \<and> 1 < links then do {
             ptr2 \<leftarrow> column_ptr cols idx2;
             ptr3 \<leftarrow> column_ptr cols (idx2 + 1);
             Some (take (ptr2 - ptr - 1) name, Some (line_end (drop ptr3 pristine)))
           }
           else Some (line_end name, None)
       | None \<Rightarrow> Some (line_end name, None)
     }"

text \<open>The size or the device, from a column on.\<close>

definition parse_size :: "guint \<Rightarrow> nat \<Rightarrow> (string \<times> nat) list \<Rightarrow> ls_stat \<Rightarrow> (ls_stat option) option" where
  "parse_size m idx2 cols s =
     (if is_device m then map_option (map_option (\<lambda>d. s\<lparr>st_rdev := d, st_size := 0\<rparr>)) (parse_device idx2 cols)
      else do {
        c \<leftarrow> column cols idx2;
        if is_num c then Some (Some (s\<lparr>st_size := of_int (atol c), st_rdev := 0\<rparr>)) else Some None
      })"

definition set_times :: "int \<Rightarrow> ls_stat \<Rightarrow> ls_stat" where
  "set_times t s =
     s\<lparr>st_mtime := t, st_ctime := t, st_atime := t, st_dev := 0, st_ino := 0, st_blksize := 512, st_blocks := (st_size s + 511) div 512\<rparr>"

definition parse_columns ::
    "ls_env \<Rightarrow> guint \<Rightarrow> string \<Rightarrow> ls_stat \<Rightarrow> ((ls_stat \<times> string \<times> string option) option) option" where
  "parse_columns E m p s =
     (let cols = vfs_split_text p
      in do {
        c0 \<leftarrow> column cols 0;
        let nlink = int_of_long (atol c0);
        if nlink < 0 then Some None
        else do {
          c1 \<leftarrow> column cols 1;
          let owner = (if is_num c1 then atol c1 else fst (finduid E c1 finduid_cache_init));
          idx \<leftarrow> find_date_column 3 3 cols;
          if idx = 6 \<or> idx = 5 \<and> \<not> is_device m then Some None
          else do {
            c2 \<leftarrow> column cols 2;
            let no_gid = (idx = 3 \<or> idx = 4 \<and> is_device m);
            let s1 = s\<lparr>st_mode := m, st_nlink := of_int nlink, st_uid := of_int owner,
                       st_gid := (if no_gid then st_gid s else if is_num c2 then of_int (atol c2) else of_int (fst (findgid E c2 findgid_cache_init)))\<rparr>;
            sized \<leftarrow> parse_size m (if no_gid then 2 else 3) cols s1;
            case sized of
              None \<Rightarrow> Some None
            | Some s2 \<Rightarrow> do {
                date \<leftarrow> vfs_parse_filedate E idx cols p;
                case date of
                  None \<Rightarrow> Some None
                | Some (idx', t) \<Rightarrow> do {
                    (name, target) \<leftarrow> parse_names m (st_nlink s2) idx' cols p;
                    Some (Some (set_times t s2, name, target))
                  }
              }
          }
        }
      })"

definition gnome_vfs_parse_ls_lga ::
    "ls_env \<Rightarrow> string \<Rightarrow> ls_stat \<Rightarrow> ((ls_stat \<times> string \<times> string option) option) option" where
  "gnome_vfs_parse_ls_lga E p s =
     (if strprefix ''total'' p then Some None
      else case p of
             [] \<Rightarrow> Some None
           | c # p1 \<Rightarrow>
               (case vfs_parse_filetype c of
                  None \<Rightarrow> Some None
                | Some m \<Rightarrow>
                    (case parse_permissions m (if p1 \<noteq> [] \<and> hd p1 = CHR '' '' then tl p1 else p1) of
                       None \<Rightarrow> Some None
                     | Some (m', p2) \<Rightarrow> parse_columns E m' p2 s)))"

end
