(* ===== verification/VFS_ParseLs_Laws.thy ===== *)
theory VFS_ParseLs_Laws
  imports VFS_ParseLs VFS_URI_Text
begin

text \<open>
  Lines as \<^verbatim>\<open>ls -al\<close> prints them, and that the parser reads them back.
\<close>

unbundle bit_operations_syntax

section \<open>Permissions\<close>

definition exec_letter :: "char \<Rightarrow> char \<Rightarrow> bool \<Rightarrow> bool \<Rightarrow> char" where
  "exec_letter lower upper special exec =
     (if special then if exec then lower else upper else if exec then CHR ''x'' else CHR ''-'')"

definition mode_text :: "guint \<Rightarrow> string" where
  "mode_text m =
     [if bit m 8 then CHR ''r'' else CHR ''-'', if bit m 7 then CHR ''w'' else CHR ''-'', exec_letter (CHR ''s'') (CHR ''S'') (bit m 11) (bit m 6),
      if bit m 5 then CHR ''r'' else CHR ''-'', if bit m 4 then CHR ''w'' else CHR ''-'', exec_letter (CHR ''s'') (CHR ''S'') (bit m 10) (bit m 3),
      if bit m 2 then CHR ''r'' else CHR ''-'', if bit m 1 then CHR ''w'' else CHR ''-'', exec_letter (CHR ''t'') (CHR ''T'') (bit m 9) (bit m 0)]"

lemma and_one_bit: "m AND push_bit n 1 = (if bit m n then push_bit n 1 else 0)" for m :: guint
  by (rule bit_word_eqI) (auto simp: bit_simps)

lemma and_two_bits: "m AND (a OR b) = (m AND a) OR (m AND b)" for m :: guint
  by (rule bit.conj_disj_distrib)

lemma one_bit:
  "m AND 256 = (if bit m 8 then 256 else 0)" "m AND 128 = (if bit m 7 then 128 else 0)" "m AND 64 = (if bit m 6 then 64 else 0)"
  "m AND 32 = (if bit m 5 then 32 else 0)" "m AND 16 = (if bit m 4 then 16 else 0)" "m AND 8 = (if bit m 3 then 8 else 0)"
  "m AND 4 = (if bit m 2 then 4 else 0)" "m AND 2 = (if bit m 1 then 2 else 0)" "m AND 1 = (if bit m 0 then 1 else 0)"
  "m AND 2048 = (if bit m 11 then 2048 else 0)" "m AND 1024 = (if bit m 10 then 1024 else 0)" "m AND 512 = (if bit m 9 then 512 else 0)"
  for m :: guint
  using and_one_bit [of m 8] and_one_bit [of m 7] and_one_bit [of m 6] and_one_bit [of m 5] and_one_bit [of m 4] and_one_bit [of m 3]
    and_one_bit [of m 2] and_one_bit [of m 1] and_one_bit [of m 0] and_one_bit [of m 11] and_one_bit [of m 10] and_one_bit [of m 9]
  by (simp_all add: push_bit_eq_mult)

lemma letters_read:
  "map_of [(CHR ''r'', a), (CHR ''-'', 0)] (if b then CHR ''r'' else CHR ''-'') = Some (if b then a else 0)"
  "map_of [(CHR ''w'', a), (CHR ''-'', 0)] (if b then CHR ''w'' else CHR ''-'') = Some (if b then a else 0)"
  for a :: guint
  by simp_all

lemma exec_letters_read:
  "map_of [(CHR ''x'', x), (CHR ''s'', x OR s), (CHR ''S'', s), (CHR ''-'', 0)] (exec_letter (CHR ''s'') (CHR ''S'') p b)
     = Some ((if p then s else 0) OR (if b then x else 0))"
  "map_of [(CHR ''x'', x), (CHR ''s'', x OR s), (CHR ''l'', s), (CHR ''S'', s), (CHR ''-'', 0)] (exec_letter (CHR ''s'') (CHR ''S'') p b)
     = Some ((if p then s else 0) OR (if b then x else 0))"
  "map_of [(CHR ''x'', x), (CHR ''t'', x OR s), (CHR ''T'', s), (CHR ''-'', 0)] (exec_letter (CHR ''t'') (CHR ''T'') p b)
     = Some ((if p then s else 0) OR (if b then x else 0))"
  for x s :: guint
  by (cases p; cases b; simp add: exec_letter_def or.commute)+

lemma mode_read:
  "vfs_parse_filemode (mode_text m @ rest) = Some (m AND 4095)"
proof -
  have "m AND 4095 = m AND (256 OR 128 OR (2048 OR 64) OR 32 OR 16 OR (1024 OR 8) OR 4 OR 2 OR (512 OR 1))" by simp
  also have "\<dots> = (m AND 256) OR (m AND 128) OR ((m AND 2048) OR (m AND 64)) OR (m AND 32) OR (m AND 16)
      OR ((m AND 1024) OR (m AND 8)) OR (m AND 4) OR (m AND 2) OR ((m AND 512) OR (m AND 1))"
    by (simp only: and_two_bits)
  also have "Some \<dots> = vfs_parse_filemode (mode_text m @ rest)"
    unfolding vfs_parse_filemode_def mode_text_def mode_places_def append.simps one_bit
    by (simp only: parse_places.simps list.case letters_read exec_letters_read option.case or.assoc or.left_neutral)
  finally show ?thesis by simp
qed

section \<open>Numbers\<close>

lemma digit_not_blank: "g_ascii_isdigit c \<Longrightarrow> \<not> c_isspace c \<and> \<not> ls_blank c \<and> c \<noteq> CHR ''-'' \<and> c \<noteq> CHR ''+'' \<and> c \<noteq> CHR '':''"
  by (auto simp: g_ascii_isdigit_def c_isspace_def ls_blank_def)

lemma digits_value_append: "digits_value (a @ [c]) = digits_value a * 10 + (int (code c) - 48)"
  by (simp add: digits_value_def)

lemma digits_value_decimal: "digits_value (decimal n) = int n"
proof (induction n rule: decimal.induct)
  case (1 n)
  show ?case
  proof (cases "n < 10")
    case True
    then show ?thesis by (subst decimal.simps) (simp add: digits_value_def)
  next
    case False
    then have "digits_value (decimal n) = int (n div 10) * 10 + int (n mod 10)"
      using 1 by (subst decimal.simps) (simp add: digits_value_append)
    also have "\<dots> = int (n div 10 * 10 + n mod 10)" by (simp only: of_nat_add of_nat_mult of_nat_numeral)
    finally show ?thesis by simp
  qed
qed

lemma scan_digits:
  assumes "ds \<noteq> []" "\<And>c. c \<in> set ds \<Longrightarrow> g_ascii_isdigit c" "length ds \<le> width" "length ds = width \<or> rest = [] \<or> \<not> g_ascii_isdigit (hd rest)"
  shows "scan_int width (ds @ rest) = Some (digits_value ds, rest)"
proof -
  obtain d ds' where d: "ds = d # ds'" "g_ascii_isdigit d" using assms(1,2) by (cases ds) auto
  note n = digit_not_blank [OF d(2)]
  have "takeWhile g_ascii_isdigit (take width (ds @ rest)) = ds"
    using assms(2-4) by (cases rest) (auto simp: takeWhile_append2 takeWhile_eq_all_conv takeWhile_append take_Cons')
  then show ?thesis using d n by (simp add: scan_int_def Let_def)
qed

lemma decimal_is_num: "is_num (decimal n)"
  using decimal_digits [of "hd (decimal n)" n] by (simp add: is_num_def)

lemma atol_decimal: "int n < 2 ^ 63 \<Longrightarrow> atol (decimal n) = int n"
  using scan_digits [of "decimal n" "length (decimal n)" "[]"] decimal_digits [of _ n]
  by (simp add: atol_def digits_value_decimal clamp_long_def)

lemma int_of_long_small: "n < 2 ^ 31 \<Longrightarrow> int_of_long (int n) = int n"
  unfolding int_of_long_def by (subst signed_of_int) (simp add: signed_take_bit_int_eq_self)

section \<open>Columns\<close>

definition blanks :: "nat \<Rightarrow> string" where
  "blanks k = replicate (Suc k) (CHR '' '')"

definition word_ok :: "string \<Rightarrow> bool" where
  "word_ok w \<longleftrightarrow> w \<noteq> [] \<and> (\<forall>c \<in> set w. \<not> ls_blank c)"

text \<open>Words, each after so many blanks and one more; and where they begin.\<close>

fun spaced :: "(nat \<times> string) list \<Rightarrow> string" where
  "spaced [] = []"
| "spaced ((k, w) # ws) = blanks k @ w @ spaced ws"

fun places :: "nat \<Rightarrow> (nat \<times> string) list \<Rightarrow> (string \<times> nat) list" where
  "places pos [] = []"
| "places pos ((k, w) # ws) = (w, pos + Suc k) # places (pos + Suc k + length w) ws"

lemma length_blanks [simp]: "length (blanks k) = Suc k" "blanks k \<noteq> []"
  by (simp_all add: blanks_def)

lemma skip_blanks: "rest = [] \<or> \<not> ls_blank (hd rest) \<Longrightarrow> dropWhile ls_blank (blanks k @ rest) = rest"
  by (cases rest) (simp_all add: blanks_def ls_blank_def dropWhile_append dropWhile_replicate)

lemma take_word: "word_ok w \<Longrightarrow> rest = [] \<or> ls_blank (hd rest) \<Longrightarrow> takeWhile (\<lambda>c. \<not> ls_blank c) (w @ rest) = w"
  by (cases rest) (auto simp: word_ok_def takeWhile_append takeWhile_eq_all_conv)

lemma split_word:
  assumes "word_ok w" and "rest \<noteq> []" "ls_blank (hd rest)"
  shows "split_columns (Suc (Suc n)) pos (blanks k @ w @ rest) = (w, pos + Suc k) # split_columns (Suc n) (pos + Suc k + length w) rest"
proof -
  have w: "w @ rest \<noteq> [] \<and> \<not> ls_blank (hd (w @ rest))" using assms(1) by (cases w) (simp_all add: word_ok_def)
  show ?thesis
    using skip_blanks [of "w @ rest" k] w take_word [OF assms(1), of rest] assms(2,3)
    by (subst split_columns.simps) (simp add: Let_def)
qed

lemma split_spaced:
  assumes "\<And>k w. (k, w) \<in> set ws \<Longrightarrow> word_ok w" and "rest \<noteq> []" "ls_blank (hd rest)"
  shows "split_columns (length ws + Suc n) pos (spaced ws @ rest) = places pos ws @ split_columns (Suc n) (pos + length (spaced ws)) rest"
  using assms(1)
proof (induction ws arbitrary: pos)
  case (Cons kw ws)
  obtain k w where kw: "kw = (k, w)" by (cases kw)
  have "word_ok w" using Cons.prems [of k w] kw by simp
  moreover have "spaced ws @ rest \<noteq> []" "ls_blank (hd (spaced ws @ rest))"
    using assms(2,3) by (cases ws; auto simp: ls_blank_def blanks_def)+
  moreover have "split_columns (length ws + Suc n) (pos + Suc k + length w) (spaced ws @ rest)
      = places (pos + Suc k + length w) ws @ split_columns (Suc n) (pos + Suc k + length w + length (spaced ws)) rest"
    using Cons.prems by (intro Cons.IH) auto
  ultimately show ?case
    using split_word [of w "spaced ws @ rest" "length ws + n" pos k]
    by (simp add: kw add.assoc del: split_columns.simps)
qed simp

text \<open>The letters of the columns come from the text.\<close>

lemma split_columns_letters: "c \<in> set (split_columns n pos s) \<Longrightarrow> set (fst c) \<subseteq> set s"
proof (induction n arbitrary: pos s)
  case (Suc n)
  let ?start = "dropWhile ls_blank s" and ?col = "takeWhile (\<lambda>c. \<not> ls_blank c) (dropWhile ls_blank s)"
  have sub: "set ?start \<subseteq> set s" "set ?col \<subseteq> set s" "set (drop (length ?col) ?start) \<subseteq> set s"
    using set_dropWhileD set_takeWhileD by (fastforce dest: in_set_dropD)+
  from Suc.prems consider "fst c = ?start \<or> fst c = ?col"
    | pos' where "c \<in> set (split_columns n pos' (drop (length ?col) ?start))"
    by (auto simp: Let_def split: if_splits)
  then show ?case using sub Suc.IH by cases (auto, blast+)
qed simp

lemma no_arrow: "(\<And>c. c \<in> set cols \<Longrightarrow> fst c \<noteq> ''->'') \<Longrightarrow> find_arrow i cols = None"
  by (induction cols arbitrary: i) auto

section \<open>Dates\<close>

definition month_name :: "nat \<Rightarrow> string" where
  "month_name mon = take 3 (drop (3 * mon) ''JanFebMarAprMayJunJulAugSepOctNovDec'')"

definition two_digits :: "nat \<Rightarrow> string" where
  "two_digits n = [char_of (48 + n div 10), char_of (48 + n mod 10)]"

datatype ls_date = Clock nat nat nat | Year nat

fun date_word :: "ls_date \<Rightarrow> nat \<times> string" where
  "date_word (Clock k h m) = (k, two_digits h @ CHR '':'' # two_digits m)"
| "date_word (Year y) = (1, decimal y)"

fun date_valid :: "ls_date \<Rightarrow> bool" where
  "date_valid (Clock k h m) \<longleftrightarrow> h < 100 \<and> m < 100"
| "date_valid (Year y) \<longleftrightarrow> 1900 \<le> y \<and> y \<le> 3000"

lemma month_laws:
  assumes "mon < 12"
  shows "strstr ''SunMonTueWedThuFriSat'' (month_name mon) = None" (is ?A)
    and "strstr ''JanFebMarAprMayJunJulAugSepOctNovDec'' (month_name mon) = Some (3 * mon)" (is ?B)
    and "word_ok (month_name mon)" (is ?C)
proof -
  have "\<forall>i \<in> set [0..<12]. strstr ''SunMonTueWedThuFriSat'' (month_name i) = None
      \<and> strstr ''JanFebMarAprMayJunJulAugSepOctNovDec'' (month_name i) = Some (3 * i) \<and> word_ok (month_name i)"
    by code_simp
  then show ?A ?B ?C using assms by auto
qed

lemma strstr_letters: "strstr hay needle \<noteq> None \<Longrightarrow> set needle \<subseteq> set hay"
proof (induction hay needle rule: strstr.induct)
  case (2 c s needle)
  show ?case
  proof (cases "strprefix needle (c # s)")
    case True
    then obtain r where "c # s = needle @ r" by (auto simp: strprefix_iff)
    then have "set (c # s) = set needle \<union> set r" by (simp only: set_append)
    then show ?thesis by blast
  qed (use 2 in auto)
qed (simp split: if_splits)

lemma digits_no_name:
  assumes "is_num s"
  shows "strstr ''SunMonTueWedThuFriSat'' s = None" "strstr ''JanFebMarAprMayJunJulAugSepOctNovDec'' s = None"
proof -
  have "hd s \<in> set s" "g_ascii_isdigit (hd s)" using assms by (simp_all add: is_num_def)
  moreover have "\<forall>c \<in> set (''SunMonTueWedThuFriSat'' @ ''JanFebMarAprMayJunJulAugSepOctNovDec''). \<not> g_ascii_isdigit c" by code_simp
  ultimately have "\<not> set s \<subseteq> set ''SunMonTueWedThuFriSat''" "\<not> set s \<subseteq> set ''JanFebMarAprMayJunJulAugSepOctNovDec''"
    unfolding set_append by blast+
  then show "strstr ''SunMonTueWedThuFriSat'' s = None" "strstr ''JanFebMarAprMayJunJulAugSepOctNovDec'' s = None"
    using strstr_letters by blast+
qed

lemma no_dos: "\<not> is_dos_date (decimal n)"
proof
  assume "is_dos_date (decimal n)"
  then have "decimal n ! 2 \<in> set (decimal n)" "decimal n ! 2 \<in> {CHR 0x5C, CHR ''-'', CHR ''/'', NUL}"
    by (auto simp: is_dos_date_def split: if_splits)
  then show False using decimal_digits [of "decimal n ! 2" n] by (auto simp: g_ascii_isdigit_def NUL_def)
qed

lemma two_digits_laws:
  assumes "n < 100"
  shows "c \<in> set (two_digits n) \<Longrightarrow> g_ascii_isdigit c" "digits_value (two_digits n) = int n"
proof -
  have "n = n div 10 * 10 + n mod 10" by simp
  then have "int n = int (n div 10) * 10 + int (n mod 10)" by (metis of_nat_add of_nat_mult of_nat_numeral)
  then show "digits_value (two_digits n) = int n" using assms by (simp add: two_digits_def digits_value_def)
  show "c \<in> set (two_digits n) \<Longrightarrow> g_ascii_isdigit c"
    using assms by (auto simp: two_digits_def g_ascii_isdigit_def)
qed

lemma scan_two_digits:
  assumes "n < 100"
  shows "scan_int 2 (two_digits n @ rest) = Some (int n, rest)"
  using scan_digits [of "two_digits n" 2 rest] two_digits_laws [OF assms] by (simp add: two_digits_def)

lemma clock_read:
  assumes "h < 100" "m < 100"
  shows "is_time (two_digits h @ CHR '':'' # two_digits m) tim = (True, tim\<lparr>tm_hour := int h, tm_min := int m\<rparr>)"
proof -
  have no: "CHR '':'' \<notin> set (two_digits h)" "CHR '':'' \<notin> set (two_digits m)"
    using two_digits_laws(1) [OF assms(1)] two_digits_laws(1) [OF assms(2)] digit_not_blank by blast+
  have "scan_fields (CHR '':'') 2 (two_digits h @ CHR '':'' # two_digits m) = [int h, int m]"
    using scan_two_digits [OF assms(1), of "CHR '':'' # two_digits m"] scan_two_digits [OF assms(2), of "[]"]
    by (simp add: numeral_2_eq_2)
  moreover have "strrchr (two_digits h @ CHR '':'' # two_digits m) (CHR '':'') = Some (length (two_digits h))"
    using no(2) by (simp add: strrchr_append_Cons)
  ultimately show ?thesis using no(1) by (simp add: is_time_def Let_def)
qed

lemma length_decimal_4: "1000 \<le> y \<Longrightarrow> y < 10000 \<Longrightarrow> length (decimal y) = 4"
proof -
  assume "1000 \<le> y" "y < 10000"
  then have "y div 10 div 10 div 10 < 10" "\<not> y div 10 div 10 < 10" "\<not> y div 10 < 10" by linarith+
  then show ?thesis
    by (simp add: decimal.simps [of y] decimal.simps [of "y div 10"] decimal.simps [of "y div 10 div 10"]
        decimal.simps [of "y div 10 div 10 div 10"])
qed

lemma no_colon_decimal: "strchr (decimal y) (CHR '':'') = None"
  using decimal_digits [of "CHR '':''" y] by (auto simp: strchr_None_iff g_ascii_isdigit_def)

lemma year_read:
  assumes "1900 \<le> y" "y \<le> 3000" and "column_ptr cols (idx - 1) = Some ptr" "drop ptr carbon = decimal day @ ''  '' @ decimal y @ rest"
  shows "is_year (decimal y) tim carbon cols idx = Some (True, tim\<lparr>tm_year := int y - 1900\<rparr>)"
proof -
  have len: "length (decimal y) = 4" using assms(1,2) by (intro length_decimal_4) simp_all
  have "CHR '' '' \<notin> set (decimal day)" using decimal_digits [of "CHR '' ''" day] by (auto simp: g_ascii_isdigit_def)
  then have "strchr (drop ptr carbon) (CHR '' '') = Some (length (decimal day))" by (simp add: assms(4))
  moreover have "c_at (drop ptr carbon) (length (decimal day) + 1) = CHR '' ''" "c_at (drop ptr carbon) (length (decimal day) + 2) = hd (decimal y)"
    unfolding assms(4) c_at_append_length by (cases "decimal y"; simp)+
  moreover have "g_ascii_isdigit (hd (decimal y))" using decimal_is_num [of y] by (simp add: is_num_def)
  moreover have "scan_int 4 (decimal y) = Some (int y, [])"
    using scan_digits [of "decimal y" 4 "[]"] decimal_digits [of _ y] len by (simp add: digits_value_decimal)
  ultimately show ?thesis using assms(1-3) no_colon_decimal [of y] len by (simp add: is_year_def Let_def)
qed

section \<open>Lines\<close>

record ls_entry =
  en_type :: char
  en_mode :: guint
  en_links :: nat
  en_user :: string
  en_group :: string
  en_size :: nat
  en_month :: nat
  en_day :: nat
  en_date :: ls_date
  en_name :: string

definition entry_words :: "(nat \<Rightarrow> nat) \<Rightarrow> ls_entry \<Rightarrow> (nat \<times> string) list" where
  "entry_words g en =
     [(g 0, decimal (en_links en)), (g 1, en_user en), (g 2, en_group en), (g 3, decimal (en_size en)), (g 4, month_name (en_month en)),
      (g 5, decimal (en_day en)), date_word (en_date en)]"

text \<open>A line, with one blank and \<open>g\<close> more between the columns.\<close>

definition ls_line :: "(nat \<Rightarrow> nat) \<Rightarrow> ls_entry \<Rightarrow> string" where
  "ls_line g en = en_type en # mode_text (en_mode en) @ spaced (entry_words g en) @ blanks (g 6) @ en_name en"

text \<open>
  Not for devices and links. The name may have blanks inside; it begins with neither a blank nor a
  digit (a digit could belong to the date), and has no arrow's head.
\<close>

definition entry_ok :: "ls_entry \<Rightarrow> bool" where
  "entry_ok en \<longleftrightarrow>
     en_type en \<in> set ''-dpsmn?'' \<and> en_links en < 2 ^ 31 \<and> word_ok (en_user en) \<and> word_ok (en_group en) \<and> en_size en < 2 ^ 63
     \<and> en_month en < 12 \<and> en_day en < 2 ^ 31 \<and> date_valid (en_date en)
     \<and> en_name en \<noteq> [] \<and> \<not> ls_blank (hd (en_name en)) \<and> \<not> g_ascii_isdigit (hd (en_name en))
     \<and> CHR 0x0D \<notin> set (en_name en) \<and> CHR 0x0A \<notin> set (en_name en) \<and> CHR ''>'' \<notin> set (en_name en)"

definition owner :: "ls_env \<Rightarrow> string \<Rightarrow> guint" where
  "owner E u = of_int (if is_num u then atol u else case le_getpwnam E u of Some x \<Rightarrow> x | None \<Rightarrow> le_getuid E)"

definition group_of :: "ls_env \<Rightarrow> string \<Rightarrow> guint" where
  "group_of E u = of_int (if is_num u then atol u else case le_getgrnam E u of Some x \<Rightarrow> x | None \<Rightarrow> le_getgid E)"

text \<open>The time of a date: this year or, for the months far ahead, the last one, unless the year is given.\<close>

fun listed_tm :: "tm \<Rightarrow> nat \<Rightarrow> nat \<Rightarrow> ls_date \<Rightarrow> tm" where
  "listed_tm now mon day (Clock k h m) =
     now\<lparr>tm_sec := 0, tm_isdst := - 1, tm_mon := int mon, tm_mday := int day, tm_hour := int h, tm_min := int m,
         tm_year := (if tm_mon now < 6 \<and> tm_mon now < int mon \<and> 6 \<le> int mon - tm_mon now then tm_year now - 1 else tm_year now)\<rparr>"
| "listed_tm now mon day (Year y) =
     now\<lparr>tm_sec := 0, tm_isdst := - 1, tm_mon := int mon, tm_mday := int day, tm_hour := 0, tm_min := 0, tm_year := int y - 1900\<rparr>"

text \<open>
  The file type that a letter of \<^verbatim>\<open>ls\<close> stands for, in the numbers of \<^verbatim>\<open>sys/stat.h\<close>: a
  directory, a FIFO, a regular file. A socket is listed as a FIFO: the code means to tell
  them apart, but tests a macro \<^verbatim>\<open>IS_IFSOCK\<close> that does not exist.
\<close>

definition listed_types :: "(char \<times> guint) list" where
  "listed_types =
     [(CHR ''d'', 0x4000), (CHR ''p'', 0x1000), (CHR ''s'', 0x1000),
      (CHR ''-'', 0x8000), (CHR ''m'', 0x8000), (CHR ''n'', 0x8000), (CHR ''?'', 0x8000)]"

definition listed_type :: "char \<Rightarrow> guint" where
  "listed_type c = (case map_of listed_types c of Some t \<Rightarrow> t | None \<Rightarrow> 0)"

definition listed_stat :: "ls_env \<Rightarrow> ls_entry \<Rightarrow> ls_stat \<Rightarrow> ls_stat" where
  "listed_stat E en s =
     set_times (max 0 (le_mktime E (listed_tm (le_localtime E) (en_month en) (en_day en) (en_date en))))
       (s\<lparr>st_mode := listed_type (en_type en) OR (en_mode en AND 4095), st_nlink := of_nat (en_links en),
          st_uid := owner E (en_user en), st_gid := group_of E (en_group en), st_size := of_nat (en_size en), st_rdev := 0\<rparr>)"

lemma places_start: "j < length ws \<Longrightarrow> p \<le> snd (places p ws ! j)"
proof (induction ws arbitrary: p j)
  case (Cons kw ws)
  obtain k w where kw: "kw = (k, w)" by (cases kw)
  show ?case
  proof (cases j)
    case (Suc i)
    then have "p + Suc k + length w \<le> snd (places (p + Suc k + length w) ws ! i)" using Cons.prems by (intro Cons.IH) simp
    then show ?thesis by (simp add: kw Suc)
  qed (simp add: kw)
qed simp

lemma places_drop:
  "i < length ws \<Longrightarrow> drop (snd (places pos ws ! i) - pos) (spaced ws @ rest) = snd (ws ! i) @ spaced (drop (Suc i) ws) @ rest"
proof (induction ws arbitrary: pos i)
  case (Cons kw ws)
  obtain k w where kw: "kw = (k, w)" by (cases kw)
  have mono: "j < length ws \<Longrightarrow> p \<le> snd (places p ws ! j)" for p j
    by (rule places_start)
  show ?case
  proof (cases i)
    case (Suc j)
    let ?p = "pos + Suc k + length w"
    have "snd (places ?p ws ! j) - pos = Suc k + length w + (snd (places ?p ws ! j) - ?p)"
      using mono [of j ?p] Cons.prems Suc by simp
    then show ?thesis using Cons.IH [of j ?p] Cons.prems Suc by (simp add: kw)
  qed (simp add: kw blanks_def)
qed simp

lemma length_places [simp]: "length (places pos ws) = length ws"
  by (induction pos ws rule: places.induct) simp_all

lemma digits_word: "(\<And>c. c \<in> set w \<Longrightarrow> g_ascii_isdigit c \<or> c = CHR '':'') \<Longrightarrow> w \<noteq> [] \<Longrightarrow> word_ok w"
  using digit_not_blank by (auto simp: word_ok_def ls_blank_def)

lemma date_word_ok: "date_valid d \<Longrightarrow> word_ok (snd (date_word d))"
  by (cases d) (auto intro!: digits_word dest: two_digits_laws(1) decimal_digits)

lemma decimal_word: "word_ok (decimal n)"
  by (rule digits_word) (simp_all add: decimal_digits)

lemma entry_words_ok: "entry_ok en \<Longrightarrow> (k, w) \<in> set (entry_words g en) \<Longrightarrow> word_ok w"
  using date_word_ok [of "en_date en"] month_laws(3) [of "en_month en"]
  unfolding entry_words_def entry_ok_def by (elim conjE) (auto simp: decimal_word dest: arg_cong [of _ _ snd])

text \<open>The columns of a line.\<close>

lemma entry_columns:
  fixes g :: "nat \<Rightarrow> nat"
  assumes "entry_ok en"
  defines "ws \<equiv> entry_words g en"
  obtains more where "vfs_split_text (spaced ws @ blanks (g 6) @ en_name en)
      = places 0 ws @ (takeWhile (\<lambda>c. \<not> ls_blank c) (en_name en), length (spaced ws) + Suc (g 6)) # more"
    "\<And>c. c \<in> set more \<Longrightarrow> set (fst c) \<subseteq> set (en_name en)"
proof -
  let ?name = "en_name en" and ?n = "length (spaced ws)"
  let ?word = "takeWhile (\<lambda>c. \<not> ls_blank c) ?name"
  have name: "?name \<noteq> []" "\<not> ls_blank (hd ?name)" using assms(1) by (simp_all add: entry_ok_def)
  have "vfs_split_text (spaced ws @ blanks (g 6) @ ?name) = split_columns (length ws + Suc 22) 0 (spaced ws @ blanks (g 6) @ ?name)"
    by (simp add: vfs_split_text_def MAXCOLS_def ws_def entry_words_def del: split_columns.simps)
  also have "\<dots> = places 0 ws @ split_columns (Suc 22) ?n (blanks (g 6) @ ?name)"
    using split_spaced [of ws "blanks (g 6) @ ?name" 22 0] entry_words_ok [OF assms(1), of _ _ g] unfolding ws_def
    by (simp add: blanks_def ls_blank_def del: split_columns.simps)
  also have "split_columns (Suc 22) ?n (blanks (g 6) @ ?name)
      = (?word, ?n + Suc (g 6)) # split_columns 22 (?n + Suc (g 6) + length ?word) (drop (length ?word) ?name)"
    using skip_blanks [of ?name "g 6"] name by (subst split_columns.simps) (simp add: Let_def del: split_columns.simps)
  finally have "vfs_split_text (spaced ws @ blanks (g 6) @ ?name)
      = places 0 ws @ (?word, ?n + Suc (g 6)) # split_columns 22 (?n + Suc (g 6) + length ?word) (drop (length ?word) ?name)" .
  moreover have "set (fst c) \<subseteq> set ?name" if "c \<in> set (split_columns 22 (?n + Suc (g 6) + length ?word) (drop (length ?word) ?name))" for c
    using split_columns_letters [OF that] set_drop_subset by fast
  ultimately show thesis by (rule that)
qed

lemma date_read:
  assumes "date_valid d" and c: "column cols 6 = Some (snd (date_word d))" "column cols 7 = Some w" "\<not> is_num w"
    and day: "column_ptr cols 5 = Some ptr" "\<And>y. d = Year y \<Longrightarrow> \<exists>rest. drop ptr carbon = decimal day @ ''  '' @ decimal y @ rest"
  shows "date_clock 6 cols carbon tim False
     = Some (Some (7, case d of Clock k h m \<Rightarrow> tim\<lparr>tm_hour := int h, tm_min := int m\<rparr> | Year y \<Rightarrow> tim\<lparr>tm_year := int y - 1900\<rparr>,
                   case d of Clock k h m \<Rightarrow> False | Year y \<Rightarrow> True))"
proof (cases d)
  case (Clock k h m)
  have "is_num (two_digits h @ CHR '':'' # two_digits m)"
    using two_digits_laws(1) [of h "hd (two_digits h)"] assms(1) Clock by (simp add: is_num_def two_digits_def)
  then show ?thesis
    using c clock_read [of h m tim] assms(1) Clock by (simp add: date_clock_def date_second_def)
next
  case (Year y)
  obtain rest where rest: "drop ptr carbon = decimal day @ ''  '' @ decimal y @ rest" using day(2) Year by blast
  have "is_time (decimal y) tim = (False, tim)" using no_colon_decimal [of y] by (simp add: is_time_def)
  moreover have "is_year (decimal y) tim carbon cols 6 = Some (True, tim\<lparr>tm_year := int y - 1900\<rparr>)"
    using assms(1) Year day(1) rest by (intro year_read) simp_all
  ultimately show ?thesis using c Year decimal_is_num [of y] by (simp add: date_clock_def date_second_def)
qed

lemma filedate_read:
  assumes "date_valid d" "mon < 12" "day < 2 ^ 31"
    and c: "column cols 4 = Some (month_name mon)" "column cols 5 = Some (decimal day)" "column cols 6 = Some (snd (date_word d))"
      "column cols 7 = Some w" "\<not> is_num w"
    and ptr: "column_ptr cols 5 = Some ptr" "\<And>y. d = Year y \<Longrightarrow> \<exists>rest. drop ptr carbon = decimal day @ ''  '' @ decimal y @ rest"
  shows "vfs_parse_filedate E 4 cols carbon = Some (Some (7, max 0 (le_mktime E (listed_tm (le_localtime E) mon day d))))"
proof -
  define tim where "tim = (le_localtime E)\<lparr>tm_hour := 0, tm_min := 0, tm_sec := 0, tm_isdst := - 1\<rparr>"
  have "date_day 4 cols tim = Some (Some (6, tim\<lparr>tm_mon := int mon, tm_mday := int day\<rparr>, False))"
    using c(1,2) month_laws [OF assms(2)] decimal_is_num [of day] atol_decimal [of day] int_of_long_small [OF assms(3)] assms(3)
    by (simp add: date_day_def is_week_def is_month_def)
  moreover note date_read [OF assms(1) c(3-5) ptr, of "tim\<lparr>tm_mon := int mon, tm_mday := int day\<rparr>"]
  ultimately show ?thesis
    unfolding vfs_parse_filedate_def Let_def tim_def [symmetric]
    by (cases d; cases "le_localtime E") (auto simp: tim_def max_def)
qed

lemma fresh_ids:
  assumes "u \<noteq> []"
  shows "fst (finduid E u finduid_cache_init) = (case le_getpwnam E u of Some x \<Rightarrow> x | None \<Rightarrow> le_getuid E)"
    "fst (findgid E u findgid_cache_init) = (case le_getgrnam E u of Some x \<Rightarrow> x | None \<Rightarrow> le_getgid E)"
  using assms
  by (simp_all add: finduid_def findgid_def finduid_cache_init_def findgid_cache_init_def TUNMLEN_def Let_def split: option.split)

lemma entry_types:
  assumes "c \<in> set ''-dpsmn?''"
  shows "vfs_parse_filetype c = Some (listed_type c) \<and> \<not> is_device (listed_type c OR (m AND 4095))
       \<and> \<not> S_ISLNK (listed_type c OR (m AND 4095))"
proof -
  have "(m AND 4095) AND 61440 = (0 :: guint)" by (simp add: and.assoc)
  then have "(t OR (m AND 4095)) AND 61440 = t AND 61440" for t :: guint by (simp add: bit.conj_disj_distrib2)
  then show ?thesis
    using assms by (auto simp: vfs_parse_filetype_def listed_type_def listed_types_def is_device_def S_ISCHR_def
        S_ISBLK_def S_ISLNK_def S_IFMT_def)
qed

lemma date_in_column_4:
  assumes "column cols 3 = Some a" "strstr ''JanFebMarAprMayJunJulAugSepOctNovDec'' a = None" "strstr ''SunMonTueWedThuFriSat'' a = None"
    "\<not> is_dos_date a" and "column cols 4 = Some b" "strstr ''JanFebMarAprMayJunJulAugSepOctNovDec'' b = Some pos"
  shows "find_date_column 3 3 cols = Some 4"
proof -
  have "find_date_column 3 3 cols = find_date_column (Suc (Suc 1)) 3 cols" by (rule arg_cong [of 3 "Suc (Suc 1)" "\<lambda>n. find_date_column n 3 cols"]) simp
  also have "\<dots> = find_date_column (Suc 1) 4 cols" using assms(1-4) by (subst find_date_column.simps) (simp del: strstr.simps find_date_column.simps)
  also have "\<dots> = Some 4" using assms(5,6) by (subst find_date_column.simps) (simp del: strstr.simps find_date_column.simps)
  finally show ?thesis .
qed

lemma columns_read:
  assumes ok: "entry_ok en" and m: "\<not> is_device m" "\<not> S_ISLNK m"
  shows "parse_columns E m (spaced (entry_words g en) @ blanks (g 6) @ en_name en) s
    = Some (Some (set_times (max 0 (le_mktime E (listed_tm (le_localtime E) (en_month en) (en_day en) (en_date en))))
        (s\<lparr>st_mode := m, st_nlink := of_nat (en_links en), st_uid := owner E (en_user en), st_gid := group_of E (en_group en),
           st_size := of_nat (en_size en), st_rdev := 0\<rparr>), en_name en, None))"
proof -
  let ?ws = "entry_words g en"
  let ?p = "spaced ?ws @ blanks (g 6) @ en_name en"
  obtain more where cols: "vfs_split_text ?p = places 0 ?ws @ (takeWhile (\<lambda>c. \<not> ls_blank c) (en_name en), length (spaced ?ws) + Suc (g 6)) # more"
    and more: "\<And>c. c \<in> set more \<Longrightarrow> set (fst c) \<subseteq> set (en_name en)"
    using entry_columns [OF ok] by blast
  define cols' where "cols' = vfs_split_text ?p"
  obtain dk dw where dw: "date_word (en_date en) = (dk, dw)" by (cases "date_word (en_date en)")
  note ok' = ok [unfolded entry_ok_def]
  have word: "takeWhile (\<lambda>c. \<not> ls_blank c) (en_name en) \<noteq> []" "hd (takeWhile (\<lambda>c. \<not> ls_blank c) (en_name en)) = hd (en_name en)"
    using ok' by (cases "en_name en"; simp)+
  have c: "column cols' 0 = Some (decimal (en_links en))" "column cols' (Suc 0) = Some (en_user en)" "column cols' 2 = Some (en_group en)"
    "column cols' 3 = Some (decimal (en_size en))" "column cols' 4 = Some (month_name (en_month en))" "column cols' 5 = Some (decimal (en_day en))"
    "column cols' 6 = Some (snd (date_word (en_date en)))" "column cols' 7 = Some (takeWhile (\<lambda>c. \<not> ls_blank c) (en_name en))"
    "column_ptr cols' 7 = Some (length (spaced ?ws) + Suc (g 6))" "drop 8 cols' = more" "length cols' = 8 + length more"
    unfolding cols'_def cols by (simp_all add: column_def column_ptr_def entry_words_def dw)
  have ptr: "column_ptr cols' 5 = Some (snd (places 0 ?ws ! 5))"
    unfolding cols'_def cols by (simp add: column_ptr_def entry_words_def dw)
  have year: "\<exists>rest. drop (snd (places 0 ?ws ! 5)) ?p = decimal (en_day en) @ ''  '' @ decimal y @ rest" if "en_date en = Year y" for y
    using places_drop [of 5 ?ws 0 "blanks (g 6) @ en_name en"] that by (simp add: entry_words_def blanks_def)
  have date: "vfs_parse_filedate E 4 cols' ?p
      = Some (Some (7, max 0 (le_mktime E (listed_tm (le_localtime E) (en_month en) (en_day en) (en_date en)))))"
    using ok' word by (intro filedate_read [OF _ _ _ c(5-8) _ ptr year]) (simp_all add: is_num_def)
  have found: "find_date_column 3 3 cols' = Some 4"
    using c(4,5) digits_no_name [OF decimal_is_num, of "en_size en"] month_laws [of "en_month en"] ok' no_dos [of "en_size en"]
    by (intro date_in_column_4) (simp_all del: strstr.simps)
  have names: "parse_names m links 7 cols' ?p = Some (en_name en, None)" for links
  proof -
    have "find_arrow 8 more = None" using more ok' by (intro no_arrow) fastforce
    moreover have "line_end (en_name en) = en_name en" using ok' by (auto simp: line_end_def takeWhile_eq_all_conv)
    ultimately show ?thesis using c(9,10) by (simp add: parse_names_def)
  qed
  have ids: "of_int (if is_num (en_user en) then atol (en_user en) else fst (finduid E (en_user en) finduid_cache_init)) = owner E (en_user en)"
    "(if is_num (en_group en) then of_int (atol (en_group en)) else of_int (fst (findgid E (en_group en) findgid_cache_init))) = group_of E (en_group en)"
    using ok' fresh_ids by (simp_all add: owner_def group_of_def word_ok_def)
  show ?thesis
    using ok' m atol_decimal [of "en_links en"] atol_decimal [of "en_size en"] int_of_long_small [of "en_links en"]
      decimal_is_num [of "en_size en"]
    unfolding parse_columns_def Let_def cols'_def [symmetric]
    by (simp add: c found date names ids parse_size_def)
qed

text \<open>
  C15. The parser reads back the lines of \<^verbatim>\<open>ls -al\<close> in this form: a type letter out of
  \<^verbatim>\<open>- d p s m n ?\<close> (no devices and no links), the nine letters of the permissions, the links
  (below \<^verbatim>\<open>2 ^ 31\<close>), owner and group words, the size (below \<^verbatim>\<open>2 ^ 63\<close>), an English month, a
  day (below \<^verbatim>\<open>2 ^ 31\<close>), then a time of two digits, a colon and two digits, or after exactly two blanks a year from 1900 to 3000, and a
  non-empty name; any number of blanks between the other columns. The name may have blanks
  inside but begins with neither a blank nor a digit (a first word that looks like a time or
  a year could be taken for part of the date, see \<open>time_like_name_lost\<close>) and contains no
  greater-than sign, carriage return or line feed. Of every such line the result has the type
  (by a table of its own, sockets counted as FIFOs), all twelve permission bits, the links,
  the owner and the group by number or by name, the size, the time that the clock's date
  completes, and the whole name.
\<close>

theorem ls_line_read_back:
  assumes "entry_ok en"
  shows "gnome_vfs_parse_ls_lga E (ls_line g en) s = Some (Some (listed_stat E en s, en_name en, None))"
proof -
  define t where "t = listed_type (en_type en)"
  have t: "vfs_parse_filetype (en_type en) = Some t" "\<not> is_device (t OR (en_mode en AND 4095))"
    "\<not> S_ISLNK (t OR (en_mode en AND 4095))"
    unfolding t_def using entry_types [of "en_type en" "en_mode en"] assms by (auto simp: entry_ok_def)
  let ?rest = "spaced (entry_words g en) @ blanks (g 6) @ en_name en"
  have m: "mode_text (en_mode en) \<noteq> []" "hd (mode_text (en_mode en)) \<noteq> CHR '' ''" "hd (mode_text (en_mode en)) \<noteq> CHR ''[''"
    "length (mode_text (en_mode en)) = 9"
    by (simp_all add: mode_text_def)
  have "?rest \<noteq> []" "hd ?rest \<noteq> CHR ''+''" by (simp_all add: entry_words_def blanks_def)
  then have "parse_permissions t (mode_text (en_mode en) @ ?rest) = Some (t OR (en_mode en AND 4095), ?rest)"
    using m mode_read [of "en_mode en" ?rest] by (simp add: parse_permissions_def Let_def)
  moreover have "\<not> strprefix ''total'' (ls_line g en)" using assms by (auto simp: ls_line_def entry_ok_def)
  ultimately show ?thesis
    using t m columns_read [OF assms t(2,3), of E g s] by (simp add: gnome_vfs_parse_ls_lga_def ls_line_def listed_stat_def t_def)
qed

definition sample_ls_env :: ls_env where
  "sample_ls_env =
     \<lparr>le_localtime = \<lparr>tm_sec = 1, tm_min = 2, tm_hour = 3, tm_mday = 4, tm_mon = 2, tm_year = 105, tm_wday = 0, tm_isdst = 0\<rparr>,
      le_mktime = (\<lambda>t. tm_min t + 60 * tm_hour t + 10000 * tm_mday t + 1000000 * tm_mon t + 100000000 * tm_year t),
      le_getpwnam = (\<lambda>u. if u = ''joe'' then Some 77 else None), le_getuid = 5, le_getgrnam = (\<lambda>u. None), le_getgid = 6\<rparr>"

definition sample_entry :: ls_entry where
  "sample_entry = \<lparr>en_type = CHR ''-'', en_mode = 1517, en_links = 1, en_user = ''joe'', en_group = ''100'', en_size = 1234, en_month = 10,
     en_day = 2, en_date = Clock 0 10 4, en_name = ''my file''\<rparr>"

definition zero_ls_stat :: ls_stat where
  "zero_ls_stat = \<lparr>st_mode = 0, st_dev = 0, st_ino = 0, st_nlink = 0, st_uid = 0, st_gid = 0, st_size = 0, st_blocks = 0, st_blksize = 0,
     st_atime = 0, st_mtime = 0, st_ctime = 0, st_rdev = 0\<rparr>"

theorem ls_line_read_back_witness:
  "ls_line (\<lambda>i. if i < 4 then i else 0) sample_entry = ''-rwxr-sr-x 1  joe   100    1234 Nov 2 10:04 my file''
   \<and> entry_ok sample_entry
   \<and> gnome_vfs_parse_ls_lga sample_ls_env (ls_line (\<lambda>i. if i < 4 then i else 0) sample_entry) zero_ls_stat
       = Some (Some (listed_stat sample_ls_env sample_entry zero_ls_stat, ''my file'', None))"
proof -
  have ok: "entry_ok sample_entry"
    by (simp add: entry_ok_def sample_entry_def word_ok_def ls_blank_def g_ascii_isdigit_def)
  have "ls_line (\<lambda>i. if i < 4 then i else 0) sample_entry = ''-rwxr-sr-x 1  joe   100    1234 Nov 2 10:04 my file''" by code_simp
  moreover note ok
  moreover have "gnome_vfs_parse_ls_lga sample_ls_env (ls_line (\<lambda>i. if i < 4 then i else 0) sample_entry) zero_ls_stat
       = Some (Some (listed_stat sample_ls_env sample_entry zero_ls_stat, ''my file'', None))"
    using ls_line_read_back [OF ok, of sample_ls_env "\<lambda>i. if i < 4 then i else 0" zero_ls_stat] by (simp add: sample_entry_def)
  ultimately show ?thesis by blast
qed

text \<open>A line that ends before its date makes the parser look at columns that are not there.\<close>

lemma short_line_undefined: "gnome_vfs_parse_ls_lga sample_ls_env ''-rw-r--r-- 1 joe'' zero_ls_stat = None"
  by code_simp

text \<open>Of a file with a year and a name that begins like a time, the first word of the name is lost.\<close>

lemma time_like_name_lost:
  "map_option (map_option (\<lambda>r. fst (snd r)))
     (gnome_vfs_parse_ls_lga sample_ls_env ''-rw-r--r-- 1 joe 100 1234 Jan  2  2001 12:30 notes'' zero_ls_stat) = Some (Some ''notes'')"
  by code_simp

text \<open>The line that a comment in the code says is misread.\<close>

lemma year_like_name_kept:
  "map_option (map_option (\<lambda>r. fst (snd r)))
     (gnome_vfs_parse_ls_lga sample_ls_env ''-rwx------   1 root     root            1 Aug 31 10:04 2904 1234'' zero_ls_stat)
   = Some (Some ''2904 1234'')"
  by code_simp

end
