(* ===== verification/Spec2Isabelle.thy ===== *)
theory Spec2Isabelle
  imports VFS_Async_Ops VFS_Socket VFS_File_Safe VFS_File_Handles VFS_Xfer_Faults VFS_Link_Faults VFS_Sftp_Memory VFS_Sftp_Runs VFS_ParseLs_Laws
begin

text \<open>
  GnomeVFS is a library that gives an application one interface to files on many kinds of
  file systems. An application names files by URIs; the library parses them, finds the
  module (the ``method'') for the scheme and calls it, in the calling thread or, for the
  asynchronous interface, in a pool of worker threads that report to the application's main
  loop. This development models the core of \<^verbatim>\<open>src/libgnomevfs\<close>: the text of URIs and
  paths, URI objects, file informations, cancellation, the asynchronous jobs, buffered sockets,
  the synchronous operations, directories and transfers; and two modules, for local files and for SFTP.

  Theories, in the order of their imports:

  \<^item> \<^verbatim>\<open>VFS_Prelude\<close>: C strings, the C library and GLib functions on characters.
  \<^item> \<^verbatim>\<open>VFS_Result\<close> (\<^verbatim>\<open>gnome-vfs-result.c\<close>): result codes, the translation of errno values.
  \<^item> \<^verbatim>\<open>VFS_Escape\<close> (\<^verbatim>\<open>gnome-vfs-utils.c\<close>): escaping and unescaping. The two passes of an escape
    function (counting, then writing into a buffer of the counted size) are both modelled, the
    count at the width of a \<^verbatim>\<open>gint\<close>: the buffer is exactly large enough until the doubled count
    overflows. Unescaping undoes escaping, and removing optional escapes decodes the unreserved
    characters and no others.
  \<^item> \<^verbatim>\<open>VFS_Path\<close> (\<^verbatim>\<open>gnome-vfs-private-utils.c\<close>, \<^verbatim>\<open>gnome-vfs-utils.c\<close>): canonicalization in
    place, related to a stack of components; local paths; symbolic links on text.
  \<^item> \<^verbatim>\<open>VFS_URI\<close>, \<^verbatim>\<open>VFS_URI_Text\<close>, \<^verbatim>\<open>VFS_URI_Laws\<close> (\<^verbatim>\<open>gnome-vfs-uri.c\<close>): a URI is a list of
    elements, the last one the toplevel; parsing, printing, relative references, parents,
    comparison, hashing, reference counts. Printing and parsing are inverse on well-formed
    URIs. What the URI code asks other parts of the library (is there a method for a scheme,
    a transform) is the argument \<^typ>\<open>vfs_env\<close>. Loops of the C code that may not end
    (comparison of chained URIs) return an option, and when they return is a theorem.
  \<^item> \<^verbatim>\<open>VFS_Refcount\<close>: the contract of a reference count as a locale, interpreted for URIs and
    for file informations.
  \<^item> \<^verbatim>\<open>VFS_FileInfo\<close> (\<^verbatim>\<open>gnome-vfs-file-info.c\<close>): file informations, lists of shared ones in a
    store.
  \<^item> \<^verbatim>\<open>VFS_Cancellation\<close> (\<^verbatim>\<open>gnome-vfs-cancellation.c\<close>, \<^verbatim>\<open>gnome-vfs-context.c\<close>): the flag and the pipe
    over every sequence of requests, acknowledgements and queries.
  \<^item> \<^verbatim>\<open>VFS_Job\<close> (\<^verbatim>\<open>gnome-vfs-job.c\<close>): a job, and one function per \<^verbatim>\<open>execute_\<close> routine from
    what the file system calls return (the argument \<^typ>\<open>vfs_calls\<close>) to the job and the
    notifications.
  \<^item> \<^verbatim>\<open>VFS_Async\<close> (\<^verbatim>\<open>gnome-vfs-async-job-map.c\<close>, \<^verbatim>\<open>gnome-vfs-job.c\<close>, \<^verbatim>\<open>gnome-vfs-job-queue.c\<close>):
    the asynchronous machinery as a transition system. The state holds the heap of jobs, both
    hash tables (an interface locale \<open>id_table\<close>, interpreted), the queue, the workers, the idle
    callbacks and what was delivered to the application. An event is what one thread does
    between taking and releasing the locks; a step that would wait is not enabled; a failed
    assertion or a use of freed memory is a fault, after which no step is made. The dispatch of a
    notification on the main loop is three events, as the code holds no lock between them: the
    state of the notification is read, the application is called back (or the cancellation dealt
    with), and a waiting worker is told.
  \<^item> \<^verbatim>\<open>VFS_Async_Laws\<close>, \<^verbatim>\<open>VFS_Async_Inv\<close>, \<^verbatim>\<open>VFS_Async_Cancel\<close>: invariants of all runs, that a
    handle cancelled from the thread of the main loop stays silent (and a run in which a cancellation from another
    thread comes too late), that a worker left to itself ends, a use of freed memory after a
    cancelled open, and that a lost job keeps the shutdown from ending. The identifiers are 32-bit counters; the theorems that need them unique assume
    fewer than \<open>2 ^ 32\<close> steps.
  \<^item> \<^verbatim>\<open>VFS_Async_Ops\<close> (\<^verbatim>\<open>gnome-vfs-async-ops.c\<close>): the application's entry points; the handle a
    call hands out is read from the new job and is the handle of no other.
  \<^item> \<^verbatim>\<open>VFS_Socket\<close> (\<^verbatim>\<open>gnome-vfs-inet-connection.c\<close>, \<^verbatim>\<open>gnome-vfs-socket.c\<close>,
    \<^verbatim>\<open>gnome-vfs-socket-buffer.c\<close>): the read and write loops of a connection over scripted system
    calls, the table of functions of a socket (a locale, interpreted for the connection), and
    the buffer above it, which is shown to read and write the same stream of bytes. A script of
    answers is finite; the loops repeat an interrupted call as often as the script has one
    (\<open>inet_read_loop_retries\<close>, \<open>inet_write_loop_retries\<close>), and a kernel that interrupts for ever is not
    represented.
  \<^item> \<^verbatim>\<open>VFS_Ops\<close> (\<^verbatim>\<open>gnome-vfs-method.h\<close>, \<^verbatim>\<open>gnome-vfs-handle.c\<close>, \<^verbatim>\<open>gnome-vfs-cancellable-ops.c\<close>,
    \<^verbatim>\<open>gnome-vfs-ops.c\<close>): the synchronous operations. The methods are parameters, functions on an
    abstract world.
  \<^item> \<^verbatim>\<open>VFS_Directory\<close> (\<^verbatim>\<open>gnome-vfs-directory.c\<close>): reading directories and the recursive visit.
  \<^item> \<^verbatim>\<open>VFS_Xfer_Base\<close> (\<^verbatim>\<open>gnome-vfs-xfer.c\<close>): progress, errors and conflicts, deletion.
  \<^item> \<^verbatim>\<open>VFS_Xfer_Copy\<close>, \<^verbatim>\<open>VFS_Xfer\<close> (\<^verbatim>\<open>gnome-vfs-xfer.c\<close>): counting, name conflicts, copying of
    files, links and trees; copying, moving, linking and deleting lists of URIs. A loop that
    the progress callback may keep alive for ever (a retry) returns an option.
  \<^item> \<^verbatim>\<open>VFS_Posix\<close>, \<^verbatim>\<open>VFS_FileMethod\<close>, \<^verbatim>\<open>VFS_Trash\<close> (\<^verbatim>\<open>src/modules/file-method.c\<close>): the module for
    local files, over a record of system calls on an abstract kernel; the world of the
    synchronous operations is here the kernel with the module's open handles and its cache of
    trash directories. A system call repeated while it is interrupted, and the walk along
    symbolic links, may go on for ever: the world is then marked as stuck.
  \<^item> \<^verbatim>\<open>VFS_Xfer_Laws\<close>, \<^verbatim>\<open>VFS_File_Laws\<close>: the contract of a copy as locales over streams of bytes,
    interpreted for the module for local files over any kernel whose reads and writes behave
    as POSIX says; a copy is complete, and it ends when nothing fails.
  \<^item> \<^verbatim>\<open>VFS_Post\<close>, \<^verbatim>\<open>VFS_File_Inv\<close>: rules that carry a condition on the state through the
    computations of the model, and what the queries of the module for local files keep.
  \<^item> \<^verbatim>\<open>VFS_Safe\<close>, \<^verbatim>\<open>VFS_File_Safe\<close>: a transfer that does not remove its sources and may not
    overwrite destroys nothing, first over any library (the locale \<open>harmless\<close>), then for local files
    down to the system calls (the locale \<open>gentle\<close>).
  \<^item> \<^verbatim>\<open>VFS_File_Handles\<close>: the calls of a method as a step relation, and a refinement: the handle
    tables of the module for local files are what the opens and closes of a run make of them. A
    handle's number stands for one allocation of \<^verbatim>\<open>g_new\<close> and is not reused after it is freed.
  \<^item> \<^verbatim>\<open>VFS_Xfer_Faults\<close>, \<^verbatim>\<open>VFS_Link_Faults\<close>: a move across devices that loses a file, and a query
    that never returns.
  \<^item> \<^verbatim>\<open>VFS_ParseLs\<close>, \<^verbatim>\<open>VFS_ParseLs_Laws\<close> (\<^verbatim>\<open>gnome-vfs-parse-ls.c\<close>): the parser for lines of \<^verbatim>\<open>ls -al\<close>, which
    reads back what \<^verbatim>\<open>ls\<close> prints; and lines on which it does not.
  \<^item> \<^verbatim>\<open>VFS_Sftp_Buffer\<close>, \<^verbatim>\<open>VFS_Sftp\<close>, \<^verbatim>\<open>VFS_Sftp_Ops\<close> (\<^verbatim>\<open>src/modules/sftp-method.c\<close>): the module for SFTP,
    over the same record of system calls: message buffers with their pointers; the table of
    connections, their locks, reference counts and timeouts; the request rings of reading and
    writing; every operation of the method. A lock that is held already, and a read behind the end
    of a buffer, is \<open>None\<close>, as is a loop that does not end; so is what follows the reading of a number
    that a message is too short for, where the code goes on with an unset variable.
  \<^item> \<^verbatim>\<open>VFS_Sftp_Codec\<close>, \<^verbatim>\<open>VFS_Sftp_Ring\<close>, \<^verbatim>\<open>VFS_Sftp_Plan\<close>, \<^verbatim>\<open>VFS_Sftp_Wire\<close>: what is written into a message
    is read back; the ring as a map from identifiers to requests; what is left to do of a read; and
    messages on a stream of bytes (the locale \<open>sftp_wire\<close>).
  \<^item> \<^verbatim>\<open>VFS_Sftp_Read\<close>, \<^verbatim>\<open>VFS_Sftp_Write\<close>, \<^verbatim>\<open>VFS_Sftp_Memory\<close>: reading from and writing to any server that keeps
    the protocol (the locales \<open>sftp_server\<close> and \<open>sftp_store\<close>) ends and moves exactly the bytes; a server
    in memory interprets the locales. The theorems assume that the 32-bit counter of message
    identifiers does not wrap during the call.
  \<^item> \<^verbatim>\<open>VFS_Sftp_Inv\<close>, \<^verbatim>\<open>VFS_Sftp_Runs\<close>: the calls of the SFTP module as a step relation; between them no
    connection is locked and the reference counts are exact; and a directory whose reading fails
    stops its caller.
  \<^item> \<^verbatim>\<open>VFS_Ram\<close>: a kernel with a file system in memory. It models no code; the laws are
    interpreted on it, and witnesses run the model on it.

  Not modelled: the other file system modules and the daemon (system calls, network protocols,
  D-Bus), the MIME databases, volumes and drives, TLS and name resolution, the vendored libraries;
  in the modelled files, the functions that read the file system or run programs (starting ssh and
  its login dialogue among them), the pumping of channels, module callbacks and monitors. The library's memory management is modelled
  where it is shared (reference counts, the life of a job), not for private strings.
\<close>

end
